(* ===== verification/RTS_Prelude.thy ===== *)
theory RTS_Prelude
  imports Main "HOL-Library.AList" "HOL-Library.Sublist"
begin

text \<open>
  Shared vocabulary of the development: the outcome of a Go call (a returned value, a panic that
  the HTTP handler recovers, a \<open>log.Fatal\<close> that ends the process, exhausted fuel), state-passing
  programs over an external world and their sequencing, Go errors, the string and number
  conversions of the Go standard library that the service uses, dynamically typed
  \<open>interface{}\<close> values, and the facts about them that the component theories share.
\<close>

section \<open>Collections of facts\<close>

named_theorems go_simps \<open>evaluation of sequencing and error propagation\<close>

named_theorems str_simps \<open>the Go string library\<close>

section \<open>Errors and outcomes\<close>

text \<open>
  Go error values. The sentinels are compared by identity in the code, every other error only
  through its text.
\<close>

datatype go_error =
    Err string
  | RedisNil
  | RedisErr string
  | ErrBackendContinue
  | MockNoOpError
  | ErrFileHandlerNoAction

fun Error :: "go_error \<Rightarrow> string" where
  "Error (Err s) = s"
| "Error RedisNil = ''redis: nil''"
| "Error (RedisErr s) = s"
| "Error ErrBackendContinue = ''continue onto the next backend helper''"
| "Error MockNoOpError = ''RunBackendHelper executed with Mock interface''"
| "Error ErrFileHandlerNoAction = ''file handler unable to perform any action''"

datatype 'a outcome = Ret 'a | Panic string | Fatal string | NoFuel

type_synonym ('w, 'a) go = "'w \<Rightarrow> 'a outcome \<times> 'w"

definition go_return :: "'a \<Rightarrow> ('w, 'a) go" where
  "go_return a = (\<lambda>w. (Ret a, w))"

definition go_panic :: "string \<Rightarrow> ('w, 'a) go" where
  "go_panic s = (\<lambda>w. (Panic s, w))"

definition go_fatal :: "string \<Rightarrow> ('w, 'a) go" where
  "go_fatal s = (\<lambda>w. (Fatal s, w))"

definition go_nofuel :: "('w, 'a) go" where
  "go_nofuel = (\<lambda>w. (NoFuel, w))"

definition go_bind :: "('w, 'a) go \<Rightarrow> ('a \<Rightarrow> ('w, 'b) go) \<Rightarrow> ('w, 'b) go" where
  "go_bind m f = (\<lambda>w. case m w of
       (Ret a, w') \<Rightarrow> f a w'
     | (Panic s, w') \<Rightarrow> (Panic s, w')
     | (Fatal s, w') \<Rightarrow> (Fatal s, w')
     | (NoFuel, w') \<Rightarrow> (NoFuel, w'))"

text \<open>\<open>if err != nil { return nil, err }\<close> after a call.\<close>

definition go_check :: "('w, go_error + 'a) go \<Rightarrow> ('a \<Rightarrow> ('w, go_error + 'b) go) \<Rightarrow> ('w, go_error + 'b) go" where
  "go_check m f = go_bind m (\<lambda>r. case r of Inl e \<Rightarrow> go_return (Inl e) | Inr a \<Rightarrow> f a)"

text \<open>\<open>if err != nil { panic(err) }\<close> after a call.\<close>

definition go_must :: "('w, go_error + 'a) go \<Rightarrow> ('a \<Rightarrow> ('w, 'b) go) \<Rightarrow> ('w, 'b) go" where
  "go_must m f = go_bind m (\<lambda>r. case r of Inl e \<Rightarrow> go_panic (Error e) | Inr a \<Rightarrow> f a)"

text \<open>A loop over a list whose body carries a value and may end the function with an error.\<close>

fun go_fold :: "('a \<Rightarrow> 'b \<Rightarrow> ('w, go_error + 'b) go) \<Rightarrow> 'a list \<Rightarrow> 'b \<Rightarrow> ('w, go_error + 'b) go" where
  "go_fold f [] b = go_return (Inr b)"
| "go_fold f (x # xs) b = go_check (f x b) (go_fold f xs)"

text \<open>A loop over a list run only for its effect.\<close>

fun go_each :: "('a \<Rightarrow> ('w, unit) go) \<Rightarrow> 'a list \<Rightarrow> ('w, unit) go" where
  "go_each f [] = go_return ()"
| "go_each f (x # xs) = go_bind (f x) (\<lambda>_. go_each f xs)"

lemma go_return_apply [simp, go_simps]: "go_return a w = (Ret a, w)"
  by (simp add: go_return_def)

lemma go_panic_apply [simp, go_simps]: "go_panic s w = (Panic s, w)"
  by (simp add: go_panic_def)

lemma go_fatal_apply [simp, go_simps]: "go_fatal s w = (Fatal s, w)"
  by (simp add: go_fatal_def)

lemma go_nofuel_apply [simp, go_simps]: "go_nofuel w = (NoFuel, w)"
  by (simp add: go_nofuel_def)

lemma go_bind_apply [go_simps]:
  "go_bind m f w = (case m w of
       (Ret a, w') \<Rightarrow> f a w'
     | (Panic s, w') \<Rightarrow> (Panic s, w')
     | (Fatal s, w') \<Rightarrow> (Fatal s, w')
     | (NoFuel, w') \<Rightarrow> (NoFuel, w'))"
  by (simp add: go_bind_def)

lemma go_bind_Ret: "m w = (Ret a, w') \<Longrightarrow> go_bind m f w = f a w'"
  by (simp add: go_bind_apply)

lemma go_check_Inr: "m w = (Ret (Inr a), w') \<Longrightarrow> go_check m f w = f a w'"
  by (simp add: go_check_def go_bind_apply)

lemma go_check_Inl: "m w = (Ret (Inl e), w') \<Longrightarrow> go_check m f w = (Ret (Inl e), w')"
  by (simp add: go_check_def go_bind_apply)

lemma go_must_Inr: "m w = (Ret (Inr a), w') \<Longrightarrow> go_must m f w = f a w'"
  by (simp add: go_must_def go_bind_apply)

lemma go_must_Inl: "m w = (Ret (Inl e), w') \<Longrightarrow> go_must m f w = (Panic (Error e), w')"
  by (simp add: go_must_def go_bind_apply)

lemma go_check_apply [go_simps]:
  "go_check m f w = (case m w of
       (Ret (Inr a), w') \<Rightarrow> f a w'
     | (Ret (Inl e), w') \<Rightarrow> (Ret (Inl e), w')
     | (Panic s, w') \<Rightarrow> (Panic s, w')
     | (Fatal s, w') \<Rightarrow> (Fatal s, w')
     | (NoFuel, w') \<Rightarrow> (NoFuel, w'))"
  by (auto simp: go_check_def go_bind_apply split: prod.split outcome.split sum.split)

lemma go_must_apply [go_simps]:
  "go_must m f w = (case m w of
       (Ret (Inr a), w') \<Rightarrow> f a w'
     | (Ret (Inl e), w') \<Rightarrow> (Panic (Error e), w')
     | (Panic s, w') \<Rightarrow> (Panic s, w')
     | (Fatal s, w') \<Rightarrow> (Fatal s, w')
     | (NoFuel, w') \<Rightarrow> (NoFuel, w'))"
  by (auto simp: go_must_def go_bind_apply split: prod.split outcome.split sum.split)

lemma go_bind_return [simp]: "go_bind (go_return a) f = f a"
  by (rule ext) (simp add: go_bind_apply)

lemma go_bind_cong [fundef_cong]:
  "m = m' \<Longrightarrow> (\<And>a. f a = g a) \<Longrightarrow> go_bind m f = go_bind m' g"
  by (rule arg_cong2 [where f = go_bind]) (auto intro: ext)

lemma go_check_cong [fundef_cong]:
  "m = m' \<Longrightarrow> (\<And>a. f a = g a) \<Longrightarrow> go_check m f = go_check m' g"
  by (rule arg_cong2 [where f = go_check]) (auto intro: ext)

lemma go_must_cong [fundef_cong]:
  "m = m' \<Longrightarrow> (\<And>a. f a = g a) \<Longrightarrow> go_must m f = go_must m' g"
  by (rule arg_cong2 [where f = go_must]) (auto intro: ext)

lemma go_fold_cong [fundef_cong]:
  assumes "xs = ys" and "b = b'" and "\<And>x c. x \<in> set ys \<Longrightarrow> f x c = g x c"
  shows "go_fold f xs b = go_fold g ys b'"
proof -
  have "go_fold f ys b = go_fold g ys b" for b
    using assms(3) by (induction ys arbitrary: b) (auto intro!: go_check_cong)
  then show ?thesis using assms(1,2) by simp
qed

lemma go_each_cong [fundef_cong]:
  assumes "xs = ys" and "\<And>x. x \<in> set ys \<Longrightarrow> f x = g x"
  shows "go_each f xs = go_each g ys"
proof -
  have "go_each f ys = go_each g ys"
    using assms(2) by (induction ys) (auto intro!: go_bind_cong)
  then show ?thesis using assms(1) by simp
qed


section \<open>Reading and changing a state\<close>

definition gets :: "('s \<Rightarrow> 'a) \<Rightarrow> ('s, 'a) go" where
  "gets f = (\<lambda>s. (Ret (f s), s))"

definition modifies :: "('s \<Rightarrow> 's) \<Rightarrow> ('s, unit) go" where
  "modifies f = (\<lambda>s. (Ret (), f s))"

lemma gets_apply [simp]: "gets f s = (Ret (f s), s)"
  by (simp add: gets_def)

lemma modifies_apply [simp]: "modifies f s = (Ret (), f s)"
  by (simp add: modifies_def)

section \<open>Invariants of programs\<close>

definition preserves :: "('w \<Rightarrow> bool) \<Rightarrow> ('w, 'a) go \<Rightarrow> bool" where
  "preserves P m \<longleftrightarrow> (\<forall>w. P w \<longrightarrow> P (snd (m w)))"

lemma preservesD: "preserves P m \<Longrightarrow> P w \<Longrightarrow> P (snd (m w))"
  by (simp add: preserves_def)

lemma preserves_basic [intro]:
  "preserves P (go_return x)" "preserves P (go_panic s)" "preserves P (go_fatal s)" "preserves P go_nofuel"
  by (simp_all add: preserves_def)

lemma preserves_bind [intro]:
  assumes "preserves P m" "\<And>x. preserves P (f x)"
  shows "preserves P (go_bind m f)"
  unfolding preserves_def
proof (intro allI impI)
  fix w assume w: "P w"
  obtain r w1 where r: "m w = (r, w1)" by fastforce
  then have "P w1" using assms(1) w by (force simp: preserves_def)
  then show "P (snd (go_bind m f w))"
    using assms(2) r by (cases r) (simp_all add: go_bind_apply preserves_def)
qed

lemma preserves_check [intro]: "preserves P m \<Longrightarrow> (\<And>x. preserves P (f x)) \<Longrightarrow> preserves P (go_check m f)"
  unfolding go_check_def by (intro preserves_bind) (auto split: sum.split)

lemma preserves_must [intro]: "preserves P m \<Longrightarrow> (\<And>x. preserves P (f x)) \<Longrightarrow> preserves P (go_must m f)"
  unfolding go_must_def by (intro preserves_bind) (auto split: sum.split)

lemma preserves_each [intro]: "(\<And>x. x \<in> set xs \<Longrightarrow> preserves P (f x)) \<Longrightarrow> preserves P (go_each f xs)"
  by (induction xs) (auto intro!: preserves_bind)

lemma preserves_modifies [intro]: "(\<And>s. P s \<Longrightarrow> P (f s)) \<Longrightarrow> preserves P (modifies f)"
  by (simp add: preserves_def)

lemma preserves_fold [intro]:
  "(\<And>x b. x \<in> set xs \<Longrightarrow> preserves P (f x b)) \<Longrightarrow> preserves P (go_fold f xs b)"
  by (induction xs arbitrary: b) (auto intro!: preserves_check)

lemma preserves_same: "(\<And>w. snd (m w) = w) \<Longrightarrow> preserves P m"
  by (simp add: preserves_def)

section \<open>Results under an invariant\<close>

text \<open>From a state with \<open>I\<close>, \<open>m\<close> ends in one with \<open>I\<close>, and what it returns has the property \<open>Q\<close>.\<close>

definition ensures :: "('s \<Rightarrow> bool) \<Rightarrow> ('s, 'a) go \<Rightarrow> ('a \<Rightarrow> bool) \<Rightarrow> bool" where
  "ensures I m Q \<longleftrightarrow> (\<forall>s. I s \<longrightarrow> I (snd (m s)) \<and> (\<forall>a. fst (m s) = Ret a \<longrightarrow> Q a))"

lemma ensures_basic [simp]:
  "ensures I (go_return a) Q \<longleftrightarrow> (\<forall>s. \<not> I s) \<or> Q a" "ensures I (go_panic e) Q" "ensures I (Pair (Panic e)) Q"
  by (auto simp: ensures_def)

lemma ensures_preserves: "preserves I m \<Longrightarrow> ensures I m (\<lambda>_. True)"
  by (simp add: ensures_def preserves_def)

lemma preserves_ensures: "ensures I m Q \<Longrightarrow> preserves I m"
  by (simp add: ensures_def preserves_def)

lemma ensures_bind:
  assumes "ensures I m Q" "\<And>a. Q a \<Longrightarrow> ensures I (f a) Q'"
  shows "ensures I (go_bind m f) Q'"
  unfolding ensures_def
proof (intro allI impI)
  fix s assume s: "I s"
  obtain r s1 where r: "m s = (r, s1)" by fastforce
  then have "I s1" "\<forall>a. r = Ret a \<longrightarrow> Q a" using assms(1) s by (force simp: ensures_def)+
  then show "I (snd (go_bind m f s)) \<and> (\<forall>a. fst (go_bind m f s) = Ret a \<longrightarrow> Q' a)"
    using assms(2) r by (cases r) (auto simp: go_bind_apply ensures_def)
qed

lemma ensures_check:
  assumes "ensures I m (\<lambda>r. \<forall>a. r = Inr a \<longrightarrow> Q a)" "\<And>a. Q a \<Longrightarrow> ensures I (f a) Q'" "\<And>e. Q' (Inl e)"
  shows "ensures I (go_check m f) Q'"
  unfolding go_check_def by (rule ensures_bind [OF assms(1)]) (auto simp: assms split: sum.split)

lemma ensures_mono: "ensures I m Q \<Longrightarrow> (\<And>a. Q a \<Longrightarrow> Q' a) \<Longrightarrow> ensures I m Q'"
  by (auto simp: ensures_def)

end
