(* ===== verification/Go_Lib.thy ===== *)
theory Go_Lib
  imports RTS_Prelude "HOL-Library.Word" "HOL-Library.Char_ord" "HOL-Library.List_Lexorder"
begin

text \<open>
  The parts of the Go standard library that the service uses: \<open>strings\<close>, \<open>path/filepath.Base\<close>,
  \<open>strconv\<close> and the default formatting of numbers by \<open>fmt.Sprint\<close>. Strings are byte strings.
  A \<open>float64\<close> is kept as its 64 IEEE-754 bits; parsing rounds to the nearest value, ties to even,
  and printing searches for the shortest digits that read back, as \<open>strconv\<close> does. Hexadecimal
  floating point literals and digit separating underscores, which \<open>strconv.ParseFloat\<close> also reads,
  are a syntax error here.
\<close>

section \<open>strings\<close>

definition HasPrefix :: "string \<Rightarrow> string \<Rightarrow> bool" where
  "HasPrefix s p \<longleftrightarrow> take (length p) s = p"

definition HasSuffix :: "string \<Rightarrow> string \<Rightarrow> bool" where
  "HasSuffix s p \<longleftrightarrow> HasPrefix (rev s) (rev p)"

definition TrimPrefix :: "string \<Rightarrow> string \<Rightarrow> string" where
  "TrimPrefix s p = (if HasPrefix s p then drop (length p) s else s)"

definition TrimSuffix :: "string \<Rightarrow> string \<Rightarrow> string" where
  "TrimSuffix s p = (if HasSuffix s p then take (length s - length p) s else s)"

text \<open>\<open>strings.TrimLeft\<close> and \<open>strings.TrimRight\<close> with a cut set of one byte.\<close>

definition TrimLeft1 :: "string \<Rightarrow> char \<Rightarrow> string" where
  "TrimLeft1 s c = dropWhile (\<lambda>x. x = c) s"

definition TrimRight1 :: "string \<Rightarrow> char \<Rightarrow> string" where
  "TrimRight1 s c = rev (dropWhile (\<lambda>x. x = c) (rev s))"

fun Contains :: "string \<Rightarrow> string \<Rightarrow> bool" where
  "Contains [] t \<longleftrightarrow> t = []"
| "Contains (c # s) t \<longleftrightarrow> HasPrefix (c # s) t \<or> Contains s t"

text \<open>\<open>strings.Split\<close> with a separator of one byte; the result is never empty.\<close>

fun Split1 :: "string \<Rightarrow> char \<Rightarrow> string list" where
  "Split1 [] sep = [[]]"
| "Split1 (c # s) sep =
     (if c = sep then [] # Split1 s sep
      else (case Split1 s sep of [] \<Rightarrow> [[c]] | w # ws \<Rightarrow> (c # w) # ws))"

fun Join :: "string list \<Rightarrow> string \<Rightarrow> string" where
  "Join [] sep = []"
| "Join [w] sep = w"
| "Join (w # v # ws) sep = w @ sep @ Join (v # ws) sep"

text \<open>\<open>filepath.Base\<close>: the last element of a path, trailing slashes removed first.\<close>

definition Base :: "string \<Rightarrow> string" where
  "Base p = (if p = [] then ''.''
     else let q = TrimRight1 p CHR ''/'' in
       if q = [] then ''/'' else rev (takeWhile (\<lambda>c. c \<noteq> CHR ''/'') (rev q)))"

text \<open>\<open>strings.ToLower\<close> on ASCII; other bytes are unchanged.\<close>

definition lower_char :: "char \<Rightarrow> char" where
  "lower_char c = (let n = (of_char c :: nat) in if 65 \<le> n \<and> n \<le> 90 then char_of (n + 32) else c)"

definition ToLower :: "string \<Rightarrow> string" where
  "ToLower = map lower_char"

section \<open>Integers\<close>

datatype num_error = ErrSyntax | ErrRange

definition digit_char :: "int \<Rightarrow> char" where
  "digit_char d = ''0123456789'' ! nat d"

function digits :: "int \<Rightarrow> string" where
  "digits n = (if n < 10 then [digit_char n] else digits (n div 10) @ [digit_char (n mod 10)])"
  by auto
termination by (relation "measure nat") auto

declare digits.simps [simp del]

text \<open>\<open>strconv.FormatInt(v, 10)\<close>, which \<open>fmt.Sprint\<close> and \<open>%d\<close> print as well.\<close>

definition FormatInt :: "int \<Rightarrow> string" where
  "FormatInt v = (if v < 0 then CHR ''-'' # digits (- v) else digits v)"

definition digit_val :: "char \<Rightarrow> int option" where
  "digit_val c = (let n = (of_char c :: int) in if 48 \<le> n \<and> n \<le> 57 then Some (n - 48) else None)"

fun read_digits :: "string \<Rightarrow> int \<Rightarrow> int option" where
  "read_digits [] acc = Some acc"
| "read_digits (c # s) acc =
     (case digit_val c of None \<Rightarrow> None | Some d \<Rightarrow> read_digits s (acc * 10 + d))"

definition split_sign :: "string \<Rightarrow> bool \<times> string" where
  "split_sign s = (case s of [] \<Rightarrow> (False, s)
     | c # t \<Rightarrow> if c = CHR ''-'' then (True, t) else if c = CHR ''+'' then (False, t) else (False, s))"

text \<open>\<open>strconv.ParseInt(s, 10, 64)\<close>.\<close>

definition ParseInt :: "string \<Rightarrow> num_error + int" where
  "ParseInt s = (let (neg, t) = split_sign s in
     if t = [] then Inl ErrSyntax
     else case read_digits t 0 of
       None \<Rightarrow> Inl ErrSyntax
     | Some n \<Rightarrow> let v = (if neg then - n else n) in
         if - (2 ^ 63) \<le> v \<and> v < 2 ^ 63 then Inr v else Inl ErrRange)"

section \<open>Booleans\<close>

definition FormatBool :: "bool \<Rightarrow> string" where
  "FormatBool b = (if b then ''true'' else ''false'')"

definition ParseBool :: "string \<Rightarrow> num_error + bool" where
  "ParseBool s =
     (if s \<in> set [''1'', ''t'', ''T'', ''true'', ''TRUE'', ''True''] then Inr True
      else if s \<in> set [''0'', ''f'', ''F'', ''false'', ''FALSE'', ''False''] then Inr False
      else Inl ErrSyntax)"

section \<open>Hexadecimal strings\<close>

definition hex_char :: "nat \<Rightarrow> char" where
  "hex_char d = ''0123456789abcdef'' ! d"

definition EncodeToString :: "string \<Rightarrow> string" where
  "EncodeToString bs = concat (map (\<lambda>b. [hex_char (of_char b div 16), hex_char (of_char b mod 16)]) bs)"

definition hex_val :: "char \<Rightarrow> nat option" where
  "hex_val c = (let n = (of_char c :: nat) in
     if 48 \<le> n \<and> n \<le> 57 then Some (n - 48)
     else if 97 \<le> n \<and> n \<le> 102 then Some (n - 87)
     else if 65 \<le> n \<and> n \<le> 70 then Some (n - 55) else None)"

fun DecodeString :: "string \<Rightarrow> go_error + string" where
  "DecodeString [] = Inr []"
| "DecodeString [c] = (if hex_val c = None then Inl (Err ''encoding/hex: invalid byte'')
     else Inl (Err ''encoding/hex: odd length hex string''))"
| "DecodeString (c # d # s) =
     (case (hex_val c, hex_val d) of
        (Some a, Some b) \<Rightarrow> (case DecodeString s of Inl e \<Rightarrow> Inl e | Inr t \<Rightarrow> Inr (char_of (a * 16 + b) # t))
      | _ \<Rightarrow> Inl (Err ''encoding/hex: invalid byte''))"

section \<open>Floating point\<close>

type_synonym float64 = "64 word"

definition f64_neg :: "float64 \<Rightarrow> bool" where
  "f64_neg f \<longleftrightarrow> 2 ^ 63 \<le> uint f"

text \<open>The bits without the sign, as a number: it grows with the absolute value.\<close>

definition f64_mag :: "float64 \<Rightarrow> int" where
  "f64_mag f = uint f mod 2 ^ 63"

definition f64_exp :: "float64 \<Rightarrow> int" where
  "f64_exp f = f64_mag f div 2 ^ 52"

definition f64_frac :: "float64 \<Rightarrow> int" where
  "f64_frac f = f64_mag f mod 2 ^ 52"

definition f64_nan :: "float64 \<Rightarrow> bool" where
  "f64_nan f \<longleftrightarrow> 2047 * 2 ^ 52 < f64_mag f"

definition f64_inf :: "float64 \<Rightarrow> bool" where
  "f64_inf f \<longleftrightarrow> f64_mag f = 2047 * 2 ^ 52"

text \<open>The absolute value of a finite number is \<open>f64_mant f * 2 ^ f64_pow f\<close>.\<close>

definition f64_mant :: "float64 \<Rightarrow> int" where
  "f64_mant f = (if f64_exp f = 0 then f64_frac f else 2 ^ 52 + f64_frac f)"

definition f64_pow :: "float64 \<Rightarrow> int" where
  "f64_pow f = (if f64_exp f = 0 then - 1074 else f64_exp f - 1075)"

text \<open>The truncated value of a finite number.\<close>

definition f64_trunc :: "float64 \<Rightarrow> int" where
  "f64_trunc f = (let a = (if 0 \<le> f64_pow f then f64_mant f * 2 ^ nat (f64_pow f)
                           else f64_mant f div 2 ^ nat (- f64_pow f))
                  in if f64_neg f then - a else a)"

text \<open>
  The conversion \<open>int64(f)\<close>. Outside the range of \<open>int64\<close>, and for NaN, the language leaves the
  result to the implementation; the value here is the one amd64 gives.
\<close>

definition f64_to_int64 :: "float64 \<Rightarrow> int" where
  "f64_to_int64 f = (if f64_nan f \<or> f64_inf f then - (2 ^ 63)
     else let t = f64_trunc f in if - (2 ^ 63) \<le> t \<and> t < 2 ^ 63 then t else - (2 ^ 63))"

text \<open>The order of two numbers: false whenever one of them is NaN; the two zeros are equal.\<close>

definition f64_lt :: "float64 \<Rightarrow> float64 \<Rightarrow> bool" where
  "f64_lt a b = (\<not> f64_nan a \<and> \<not> f64_nan b \<and>
     (if f64_neg a then - f64_mag a else f64_mag a) < (if f64_neg b then - f64_mag b else f64_mag b))"

function bitlen :: "int \<Rightarrow> int" where
  "bitlen n = (if n \<le> 0 then 0 else 1 + bitlen (n div 2))"
  by auto
termination by (relation "measure nat") auto

declare bitlen.simps [simp del]

definition round_even :: "int \<Rightarrow> int \<Rightarrow> int" where
  "round_even a b = (let q = a div b; r = a mod b in
     if 2 * r < b \<or> (2 * r = b \<and> even q) then q else q + 1)"

definition scale2 :: "int \<Rightarrow> int \<Rightarrow> int \<Rightarrow> int \<times> int" where
  "scale2 a b q = (if 0 \<le> q then (a, b * 2 ^ nat q) else (a * 2 ^ nat (- q), b))"

text \<open>
  The magnitude bits of the number nearest to \<open>a / b\<close>, ties to even. Rounding up to the next
  power of two carries into the exponent field.
\<close>

definition f64_round :: "int \<Rightarrow> int \<Rightarrow> int" where
  "f64_round a b =
     (let l = bitlen a - bitlen b;
          q0 = max (- 1074) (l - 53);
          (x0, y0) = scale2 a b q0;
          q = (if 2 ^ 53 * y0 \<le> x0 then q0 + 1 else q0);
          (x, y) = scale2 a b q
      in (q + 1074) * 2 ^ 52 + round_even x y)"

definition f64_of :: "bool \<Rightarrow> int \<Rightarrow> float64" where
  "f64_of neg mag = word_of_int (if neg then 2 ^ 63 + mag else mag)"

definition scale10 :: "int \<Rightarrow> int \<Rightarrow> int \<Rightarrow> int \<times> int" where
  "scale10 a b k = (if 0 \<le> k then (a * 10 ^ nat k, b) else (a, b * 10 ^ nat (- k)))"

definition span_digits :: "string \<Rightarrow> string \<times> string" where
  "span_digits s = (takeWhile (\<lambda>c. digit_val c \<noteq> None) s, dropWhile (\<lambda>c. digit_val c \<noteq> None) s)"

text \<open>The exponent part: absent, or an \<open>e\<close> with an optional sign and at least one digit.\<close>

definition read_exp :: "string \<Rightarrow> int option" where
  "read_exp s = (case s of [] \<Rightarrow> Some 0
     | c # t \<Rightarrow> if c = CHR ''e'' \<or> c = CHR ''E'' then
         (let (neg, u) = split_sign t in
            if u = [] then None
            else map_option (\<lambda>n. if neg then - n else n) (read_digits u 0))
        else None)"

definition read_decimal :: "string \<Rightarrow> (int \<times> int) option" where
  "read_decimal s =
     (let (ip, r) = span_digits s;
          (fp, r') = (case r of [] \<Rightarrow> ([], r)
                      | c # t \<Rightarrow> if c = CHR ''.'' then span_digits t else ([], r))
      in if ip @ fp = [] then None
         else case read_digits (ip @ fp) 0 of None \<Rightarrow> None
           | Some m \<Rightarrow> map_option (\<lambda>e. (m, e - int (length fp))) (read_exp r'))"

text \<open>
  \<open>strconv.ParseFloat(s, 64)\<close>. An exponent beyond \<open>\<plusminus>10000\<close> decides the result without scaling.
\<close>

definition ParseFloat :: "string \<Rightarrow> num_error + float64" where
  "ParseFloat s =
     (let (neg, t) = split_sign s; l = ToLower t in
      if l \<in> set [''inf'', ''infinity''] then Inr (f64_of neg (2047 * 2 ^ 52))
      else if ToLower s = ''nan'' then Inr (word_of_int (2047 * 2 ^ 52 + 2 ^ 51 + 1))
      else case read_decimal t of
        None \<Rightarrow> Inl ErrSyntax
      | Some (m, k) \<Rightarrow>
          if m = 0 then Inr (f64_of neg 0)
          else if 10000 < k + int (length t) then Inl ErrRange
          else if k + int (length t) < - 10000 then Inr (f64_of neg 0)
          else let (a, b) = scale10 m 1 k; mag = f64_round a b in
            if 2047 * 2 ^ 52 \<le> mag then Inl ErrRange else Inr (f64_of neg mag))"

text \<open>The decimal exponent of \<open>a / b\<close>, for \<open>0 < a\<close> and \<open>0 < b\<close>.\<close>

fun neg_dexp :: "nat \<Rightarrow> int \<Rightarrow> int \<Rightarrow> int" where
  "neg_dexp 0 a b = 0"
| "neg_dexp (Suc n) a b = (if b \<le> a then 0 else neg_dexp n (a * 10) b - 1)"

definition dexp :: "int \<Rightarrow> int \<Rightarrow> int" where
  "dexp a b = (if b \<le> a then int (length (digits (a div b))) - 1 else neg_dexp 400 a b)"

text \<open>\<open>a / b\<close> rounded to \<open>n\<close> significant digits: the digits as a number and the decimal exponent.\<close>

definition dec_round :: "nat \<Rightarrow> int \<Rightarrow> int \<Rightarrow> int \<times> int" where
  "dec_round n a b =
     (let k = dexp a b; (x, y) = scale10 a b (int n - 1 - k); d = round_even x y
      in if d = 10 ^ n then (d div 10, k + 1) else (d, k))"

fun shortest :: "nat \<Rightarrow> nat \<Rightarrow> int \<Rightarrow> int \<Rightarrow> int \<Rightarrow> nat \<times> int \<times> int" where
  "shortest 0 n mag a b = (n, dec_round n a b)"
| "shortest (Suc i) n mag a b =
     (let (d, k) = dec_round n a b; (x, y) = scale10 d 1 (k - int n + 1) in
      if f64_round x y = mag then (n, d, k) else shortest i (Suc n) mag a b)"

definition f64_frac_of :: "float64 \<Rightarrow> int \<times> int" where
  "f64_frac_of f = (if 0 \<le> f64_pow f then (f64_mant f * 2 ^ nat (f64_pow f), 1)
                    else (f64_mant f, 2 ^ nat (- f64_pow f)))"

definition fmt_e :: "string \<Rightarrow> int \<Rightarrow> string" where
  "fmt_e ds k =
     (let e = digits \<bar>k\<bar>; e2 = (if length e < 2 then CHR ''0'' # e else e)
      in hd ds # (if tl ds = [] then [] else CHR ''.'' # tl ds)
         @ ''e'' @ (if k < 0 then ''-'' else ''+'') @ e2)"

definition fmt_f :: "string \<Rightarrow> int \<Rightarrow> string" where
  "fmt_f ds k =
     (if k < 0 then ''0.'' @ replicate (nat (- k) - 1) CHR ''0'' @ ds
      else let n = nat k + 1 in
        if length ds \<le> n then ds @ replicate (n - length ds) CHR ''0''
        else take n ds @ ''.'' @ drop n ds)"

text \<open>\<open>fmt.Sprint\<close> of a \<open>float64\<close>: \<open>%v\<close>, that is \<open>%g\<close> with the shortest digits.\<close>

definition SprintFloat :: "float64 \<Rightarrow> string" where
  "SprintFloat f =
     (if f64_nan f then ''NaN''
      else if f64_inf f then (if f64_neg f then ''-Inf'' else ''+Inf'')
      else let sgn = (if f64_neg f then ''-'' else '''') in
        if f64_mag f = 0 then sgn @ ''0''
        else let (a, b) = f64_frac_of f; (n, d, k) = shortest 16 1 (f64_mag f) a b; ds = digits d
             in sgn @ (if k < - 4 \<or> 6 \<le> k then fmt_e ds k else fmt_f ds k))"

text \<open>\<open>strconv.FormatFloat(f, 'f', -1, 64)\<close>, the form in which the Redis client sends a number.\<close>

definition FormatFloat_f :: "float64 \<Rightarrow> string" where
  "FormatFloat_f f =
     (if f64_nan f then ''NaN''
      else if f64_inf f then (if f64_neg f then ''-Inf'' else ''+Inf'')
      else let sgn = (if f64_neg f then ''-'' else []) in
        if f64_mag f = 0 then sgn @ ''0''
        else let (a, b) = f64_frac_of f; (n, d, k) = shortest 16 1 (f64_mag f) a b
             in sgn @ fmt_f (digits d) k)"

text \<open>A number in decimal, padded with zeros to a width.\<close>

definition pad_digits :: "nat \<Rightarrow> int \<Rightarrow> string" where
  "pad_digits n v = (let ds = digits v in replicate (n - length ds) (CHR ''0'') @ ds)"

text \<open>\<open>%f\<close>: six decimals, rounded to even on the exact value.\<close>

definition Sprintf_f :: "float64 \<Rightarrow> string" where
  "Sprintf_f f =
     (if f64_nan f then ''NaN''
      else if f64_inf f then (if f64_neg f then ''-Inf'' else ''+Inf'')
      else let sgn = (if f64_neg f then ''-'' else []); (a, b) = f64_frac_of f; q = round_even (a * 10 ^ 6) b
           in sgn @ digits (q div 10 ^ 6) @ ''.'' @ pad_digits 6 (q mod 10 ^ 6))"

text \<open>The text of a \<open>strconv.NumError\<close>, for a number whose text needs no escapes in quotes.\<close>

definition NumError :: "string \<Rightarrow> string \<Rightarrow> num_error \<Rightarrow> go_error" where
  "NumError func s e = Err (''strconv.'' @ func @ '': parsing '' @ [CHR 0x22] @ s @ [CHR 0x22] @ '': '' @
     (case e of ErrSyntax \<Rightarrow> ''invalid syntax'' | ErrRange \<Rightarrow> ''value out of range''))"

section \<open>Order\<close>

text \<open>\<open>sort.Strings\<close>.\<close>

definition sort_Strings :: "string list \<Rightarrow> string list" where
  "sort_Strings = sort"

section \<open>Dynamically typed values\<close>

text \<open>
  The \<open>interface{}\<close> values the service builds and takes apart. A \<open>map[string]interface{}\<close> is an
  association list with distinct keys; the order of the list is the order in which a \<open>range\<close> loop
  visits the map, which Go leaves open, so a statement about every list covers every order.
  \<open>GRedisArray\<close> is the \<open>redisArray\<close> structure of the intermediate representation.
\<close>

datatype gval =
    GNil
  | GBool bool
  | GFloat float64
  | GInt int
  | GString string
  | is_GArr: GArr "gval list"
  | is_GObj: GObj "(string \<times> gval) list"
  | GRedisArray bool "gval list"

type_synonym gobj = "(string \<times> gval) list"

text \<open>\<open>%T\<close> of a value.\<close>

fun gval_type_name :: "gval \<Rightarrow> string" where
  "gval_type_name GNil = ''<nil>''"
| "gval_type_name (GBool _) = ''bool''"
| "gval_type_name (GFloat _) = ''float64''"
| "gval_type_name (GInt _) = ''int64''"
| "gval_type_name (GString _) = ''string''"
| "gval_type_name (GArr _) = ''[]interface {}''"
| "gval_type_name (GObj _) = ''map[string]interface {}''"
| "gval_type_name (GRedisArray _ _) = ''dispatcher.redisArray''"

section \<open>Facts\<close>

lemma HasPrefix_iff: "HasPrefix s p \<longleftrightarrow> (\<exists>t. s = p @ t)"
  by (metis HasPrefix_def append_eq_conv_conj append_take_drop_id)

lemma HasPrefix_append [simp]: "HasPrefix (p @ t) p"
  by (simp add: HasPrefix_def)

lemma HasPrefix_Nil [simp]: "HasPrefix s []"
  by (simp add: HasPrefix_def)

lemma TrimPrefix_append [simp]: "TrimPrefix (p @ t) p = t"
  by (simp add: TrimPrefix_def)

lemma TrimPrefix_Nil [simp]: "TrimPrefix s [] = s"
  by (simp add: TrimPrefix_def)

lemma HasSuffix_iff: "HasSuffix s p \<longleftrightarrow> (\<exists>t. s = t @ p)"
proof -
  have "HasSuffix s p \<longleftrightarrow> (\<exists>t. rev s = rev p @ t)"
    by (simp add: HasSuffix_def HasPrefix_iff)
  also have "\<dots> \<longleftrightarrow> (\<exists>t. s = t @ p)"
  proof
    assume "\<exists>t. rev s = rev p @ t"
    then obtain t where "rev s = rev p @ t" ..
    then have "rev (rev s) = rev (rev p @ t)" by simp
    then have "s = rev t @ p" by simp
    then show "\<exists>t. s = t @ p" ..
  qed auto
  finally show ?thesis .
qed

lemma TrimSuffix_append [simp]: "TrimSuffix (t @ p) p = t"
  using HasSuffix_iff by (auto simp: TrimSuffix_def)

lemma TrimRight1_ends: "TrimRight1 s c = [] \<or> last (TrimRight1 s c) \<noteq> c"
proof (cases "dropWhile (\<lambda>x. x = c) (rev s)")
  case (Cons a list)
  then have "a \<noteq> c" using hd_dropWhile [of "\<lambda>x. x = c" "rev s"] by simp
  then show ?thesis using Cons by (simp add: TrimRight1_def)
qed (simp add: TrimRight1_def)

lemma TrimRight1_id [simp]: "s = [] \<or> last s \<noteq> c \<Longrightarrow> TrimRight1 s c = s"
  by (cases s rule: rev_cases) (auto simp: TrimRight1_def)

lemma Contains_iff: "Contains s t \<longleftrightarrow> (\<exists>u v. s = u @ t @ v)"
proof (induction s)
  case (Cons c s)
  show ?case
  proof
    assume "Contains (c # s) t"
    then consider "HasPrefix (c # s) t" | "Contains s t" by auto
    then show "\<exists>u v. c # s = u @ t @ v"
    proof cases
      case 1
      then show ?thesis by (metis HasPrefix_iff append_Nil)
    next
      case 2
      then show ?thesis using Cons.IH by (metis append_Cons)
    qed
  next
    assume "\<exists>u v. c # s = u @ t @ v"
    then obtain u v where uv: "c # s = u @ t @ v" by blast
    show "Contains (c # s) t"
    proof (cases u)
      case Nil
      then show ?thesis using uv by (metis Contains.simps(2) HasPrefix_append append_Nil)
    next
      case (Cons d u')
      then have "s = u' @ t @ v" using uv by simp
      then show ?thesis using Cons.IH by auto
    qed
  qed
qed auto

lemma Split1_not_Nil [simp]: "Split1 s c \<noteq> []"
  by (induction s) (auto split: list.splits)

lemma Split1_no_sep: "c \<notin> set s \<Longrightarrow> Split1 s c = [s]"
  by (induction s) auto

lemma Split1_append: "c \<notin> set s \<Longrightarrow> Split1 (s @ c # t) c = s # Split1 t c"
  by (induction s) auto

lemma Split1_parts: "w \<in> set (Split1 s c) \<Longrightarrow> c \<notin> set w"
  by (induction s arbitrary: w) (auto split: list.splits if_splits)

lemma Join_Split1 [simp]: "Join (Split1 s c) [c] = s"
proof (induction s)
  case (Cons a s)
  obtain w ws where "Split1 s c = w # ws" by (meson Split1_not_Nil neq_Nil_conv)
  then show ?case using Cons by (cases ws) auto
qed simp

lemma Split1_Join: "ws \<noteq> [] \<Longrightarrow> \<forall>w \<in> set ws. c \<notin> set w \<Longrightarrow> Split1 (Join ws [c]) c = ws"
proof (induction ws "[c]" rule: Join.induct)
  case (2 w)
  then show ?case by (simp add: Split1_no_sep)
next
  case (3 w v ws)
  then show ?case by (simp add: Split1_append)
qed simp

subsection \<open>Integers\<close>

lemma ten_cases: "0 \<le> (d::int) \<Longrightarrow> d < 10 \<Longrightarrow> d \<in> {0, 1, 2, 3, 4, 5, 6, 7, 8, 9}"
  unfolding insert_iff empty_iff by presburger

lemma digit_val_char [simp]:
  assumes "0 \<le> d" "d < 10"
  shows "digit_val (digit_char d) = Some d"
  using ten_cases [OF assms] by (auto simp: digit_val_def digit_char_def)

lemma digit_char_props:
  assumes "0 \<le> d" "d < 10"
  shows "digit_char d \<noteq> CHR ''/''" "digit_char d \<noteq> CHR ''-''" "digit_char d \<noteq> CHR ''+''"
    "digit_char d \<noteq> CHR ''@''"
  using ten_cases [OF assms] by (auto simp: digit_char_def)

lemma read_digits_append:
  "read_digits (s @ t) a = (case read_digits s a of None \<Rightarrow> None | Some b \<Rightarrow> read_digits t b)"
  by (induction s arbitrary: a) (auto split: option.splits)

lemma digits_not_Nil [simp]: "digits n \<noteq> []"
  by (subst digits.simps) simp

lemma read_digits_digits:
  "0 \<le> n \<Longrightarrow> read_digits (digits n) 0 = Some n"
proof (induction n rule: digits.induct)
  case (1 n)
  show ?case
  proof (cases "n < 10")
    case True
    then show ?thesis using 1 by (subst digits.simps) simp
  next
    case False
    then have "read_digits (digits (n div 10)) 0 = Some (n div 10)" using 1 by simp
    moreover have "0 \<le> n mod 10" "n mod 10 < 10" by auto
    ultimately show ?thesis using False
      by (subst digits.simps) (simp add: read_digits_append)
  qed
qed

lemma digits_chars: "0 \<le> n \<Longrightarrow> c \<in> set (digits n) \<Longrightarrow> \<exists>d. 0 \<le> d \<and> d < 10 \<and> c = digit_char d"
proof (induction n rule: digits.induct)
  case (1 n)
  show ?case
  proof (cases "n < 10")
    case True
    then show ?thesis using 1 by (subst (asm) (2) digits.simps) auto
  next
    case False
    then have "c \<in> set (digits (n div 10)) \<or> c = digit_char (n mod 10)"
      using 1(3) by (subst (asm) digits.simps) auto
    moreover have "0 \<le> n mod 10" "n mod 10 < 10" by auto
    moreover have "0 \<le> n div 10" using 1(2) by simp
    ultimately show ?thesis using False 1(1) by blast
  qed
qed

lemma digits_no_slash: "0 \<le> n \<Longrightarrow> CHR ''/'' \<notin> set (digits n)"
  using digits_chars digit_char_props by metis

lemma hd_digits: "0 \<le> n \<Longrightarrow> hd (digits n) \<noteq> CHR ''-'' \<and> hd (digits n) \<noteq> CHR ''+''"
  using digits_chars [of n "hd (digits n)"] digit_char_props by (metis digits_not_Nil hd_in_set)

lemma split_sign_digits: "0 \<le> n \<Longrightarrow> split_sign (digits n) = (False, digits n)"
  using hd_digits [of n] by (cases "digits n") (auto simp: split_sign_def)

lemma ParseInt_FormatInt:
  assumes "- (2 ^ 63) \<le> v" "v < 2 ^ 63"
  shows "ParseInt (FormatInt v) = Inr v"
proof (cases "v < 0")
  case True
  then show ?thesis using assms
    by (simp add: ParseInt_def FormatInt_def split_sign_def read_digits_digits)
next
  case False
  then show ?thesis using assms
    by (simp add: ParseInt_def FormatInt_def split_sign_digits read_digits_digits)
qed

lemma FormatInt_inj: "FormatInt a = FormatInt b \<Longrightarrow> 0 \<le> a \<Longrightarrow> 0 \<le> b \<Longrightarrow> a = b"
  by (metis FormatInt_def linorder_not_less option.inject read_digits_digits)

lemma FormatInt_nat_inj [simp]: "FormatInt (int a) = FormatInt (int b) \<longleftrightarrow> a = b"
  using FormatInt_inj [of "int a" "int b"] by auto

lemma FormatInt_no_slash: "0 \<le> n \<Longrightarrow> CHR ''/'' \<notin> set (FormatInt n)"
  by (simp add: FormatInt_def digits_no_slash)

lemma FormatInt_not_Nil [simp]: "FormatInt n \<noteq> []"
  by (simp add: FormatInt_def)

lemma f64_to_int64_bounds: "- (2 ^ 63) \<le> f64_to_int64 f \<and> f64_to_int64 f < 2 ^ 63"
  by (simp add: f64_to_int64_def Let_def)

lemma ParseBool_FormatBool [simp]: "ParseBool (FormatBool b) = Inr b"
  by (simp add: ParseBool_def FormatBool_def)

end
