(* ===== verification/Redis_Interface.thy ===== *)
theory Redis_Interface
  imports Go_Lib
begin

text \<open>
  The Redis server as the service sees it through the \<open>go-redis\<close> client. The client library and
  the server are not part of the repository: the commands are a record of operations over an
  abstract world, and the locale \<open>redis_server\<close> states the documented behaviour of the commands
  on a view of the world as a map from keys to strings, lists and sets. The facts the components
  share about the commands are proved once in the locale. An in-memory server, executable and
  used to evaluate concrete runs, is shown to satisfy the laws.
\<close>

datatype rval = RString string | RList "string list" | RSet "string set"

type_synonym rdb = "string \<rightharpoonup> rval"

definition wrongtype :: go_error where
  "wrongtype = RedisErr ''WRONGTYPE Operation against a key holding the wrong kind of value''"

definition wrong_arity :: "string \<Rightarrow> go_error" where
  "wrong_arity c = RedisErr (''ERR wrong number of arguments for '' @ c @ '' command'')"

fun type_name :: "rval option \<Rightarrow> string" where
  "type_name None = ''none''"
| "type_name (Some (RString _)) = ''string''"
| "type_name (Some (RList _)) = ''list''"
| "type_name (Some (RSet _)) = ''set''"

record 'w redis_ops =
  rGet :: "string \<Rightarrow> ('w, go_error + string) go"
  rSet :: "string \<Rightarrow> string \<Rightarrow> ('w, go_error + unit) go"
  rDel :: "string \<Rightarrow> ('w, go_error + unit) go"
  rExists :: "string \<Rightarrow> ('w, go_error + int) go"
  rType :: "string \<Rightarrow> ('w, go_error + string) go"
  rSAdd :: "string \<Rightarrow> string list \<Rightarrow> ('w, go_error + unit) go"
  rSRem :: "string \<Rightarrow> string \<Rightarrow> ('w, go_error + unit) go"
  rSMembers :: "string \<Rightarrow> ('w, go_error + string list) go"
  rRPush :: "string \<Rightarrow> string list \<Rightarrow> ('w, go_error + unit) go"
  rLRem :: "string \<Rightarrow> string \<Rightarrow> ('w, go_error + unit) go"
  rLRange :: "string \<Rightarrow> ('w, go_error + string list) go"
  rLLen :: "string \<Rightarrow> ('w, go_error + int) go"

text \<open>
  The effect of the commands on the database. A set or list that becomes empty is removed with
  its key.
\<close>

definition norm_set :: "string set \<Rightarrow> rval option" where
  "norm_set S = (if S = {} then None else Some (RSet S))"

definition norm_list :: "string list \<Rightarrow> rval option" where
  "norm_list xs = (if xs = [] then None else Some (RList xs))"

fun sadd_eff :: "rval option \<Rightarrow> string list \<Rightarrow> go_error + rval option" where
  "sadd_eff None xs = Inr (Some (RSet (set xs)))"
| "sadd_eff (Some (RSet S)) xs = Inr (Some (RSet (S \<union> set xs)))"
| "sadd_eff (Some _) xs = Inl wrongtype"

fun srem_eff :: "rval option \<Rightarrow> string \<Rightarrow> go_error + rval option" where
  "srem_eff None x = Inr None"
| "srem_eff (Some (RSet S)) x = Inr (norm_set (S - {x}))"
| "srem_eff (Some _) x = Inl wrongtype"

fun rpush_eff :: "rval option \<Rightarrow> string list \<Rightarrow> go_error + rval option" where
  "rpush_eff None xs = Inr (Some (RList xs))"
| "rpush_eff (Some (RList ys)) xs = Inr (Some (RList (ys @ xs)))"
| "rpush_eff (Some _) xs = Inl wrongtype"

fun lrem_eff :: "rval option \<Rightarrow> string \<Rightarrow> go_error + rval option" where
  "lrem_eff None x = Inr None"
| "lrem_eff (Some (RList ys)) x = Inr (norm_list (removeAll x ys))"
| "lrem_eff (Some _) x = Inl wrongtype"

fun get_result :: "rval option \<Rightarrow> go_error + string" where
  "get_result None = Inl RedisNil"
| "get_result (Some (RString s)) = Inr s"
| "get_result (Some _) = Inl wrongtype"

fun list_result :: "rval option \<Rightarrow> go_error + string list" where
  "list_result None = Inr []"
| "list_result (Some (RList xs)) = Inr xs"
| "list_result (Some _) = Inl wrongtype"

fun set_result :: "rval option \<Rightarrow> go_error + string set" where
  "set_result None = Inr {}"
| "set_result (Some (RSet S)) = Inr S"
| "set_result (Some _) = Inl wrongtype"

text \<open>
  \<open>cmd_effect view m k r w\<close>: the command \<open>m\<close> replaced the value of \<open>k\<close> as \<open>r\<close> says, or reported the
  error \<open>r\<close> holds and changed nothing.
\<close>

definition cmd_effect :: "('w \<Rightarrow> rdb) \<Rightarrow> ('w, go_error + unit) go \<Rightarrow> string \<Rightarrow> go_error + rval option \<Rightarrow> 'w \<Rightarrow> bool" where
  "cmd_effect view m k r w \<longleftrightarrow>
     (case r of
        Inl e \<Rightarrow> m w = (Ret (Inl e), w)
      | Inr v \<Rightarrow> fst (m w) = Ret (Inr ()) \<and> view (snd (m w)) = (view w)(k := v))"

locale redis_server =
  fixes R :: "'w redis_ops" and view :: "'w \<Rightarrow> rdb"
  assumes no_empty_set: "view w k \<noteq> Some (RSet {})"
    and no_empty_list: "view w k \<noteq> Some (RList [])"
    and get_law: "rGet R k w = (Ret (get_result (view w k)), w)"
    and set_law: "cmd_effect view (rSet R k v) k (Inr (Some (RString v))) w"
    and del_law: "cmd_effect view (rDel R k) k (Inr None) w"
    and exists_law: "rExists R k w = (Ret (Inr (if view w k = None then 0 else 1)), w)"
    and type_law: "rType R k w = (Ret (Inr (type_name (view w k))), w)"
    and sadd_law: "cmd_effect view (rSAdd R k xs) k
                     (if xs = [] then Inl (wrong_arity ''sadd'') else sadd_eff (view w k) xs) w"
    and srem_law: "cmd_effect view (rSRem R k x) k (srem_eff (view w k) x) w"
    and smembers_err: "set_result (view w k) = Inl e \<Longrightarrow> rSMembers R k w = (Ret (Inl e), w)"
    and smembers_ok: "set_result (view w k) = Inr S \<Longrightarrow>
                        \<exists>xs. rSMembers R k w = (Ret (Inr xs), w) \<and> set xs = S \<and> distinct xs"
    and rpush_law: "cmd_effect view (rRPush R k xs) k
                     (if xs = [] then Inl (wrong_arity ''rpush'') else rpush_eff (view w k) xs) w"
    and lrem_law: "cmd_effect view (rLRem R k x) k (lrem_eff (view w k) x) w"
    and lrange_law: "rLRange R k w = (Ret (list_result (view w k)), w)"
    and llen_law: "rLLen R k w = (Ret (map_sum id (\<lambda>xs. int (length xs)) (list_result (view w k))), w)"
begin

lemma set_ok:
  obtains w' where "rSet R k v w = (Ret (Inr ()), w')" "view w' = (view w)(k \<mapsto> RString v)"
  using set_law [of k v w] by (cases "rSet R k v w") (auto simp: cmd_effect_def)

lemma del_ok:
  obtains w' where "rDel R k w = (Ret (Inr ()), w')" "view w' = (view w)(k := None)"
  using del_law [of k w] by (cases "rDel R k w") (auto simp: cmd_effect_def)

lemma sadd_ok:
  assumes "xs \<noteq> []" "sadd_eff (view w k) xs = Inr v"
  obtains w' where "rSAdd R k xs w = (Ret (Inr ()), w')" "view w' = (view w)(k := v)"
  using sadd_law [of k xs w] assms by (cases "rSAdd R k xs w") (auto simp: cmd_effect_def)

lemma sadd_nil: "rSAdd R k [] w = (Ret (Inl (wrong_arity ''sadd'')), w)"
  using sadd_law [of k "[]" w] by (simp add: cmd_effect_def)

lemma sadd_wrong: "xs \<noteq> [] \<Longrightarrow> sadd_eff (view w k) xs = Inl e \<Longrightarrow> rSAdd R k xs w = (Ret (Inl e), w)"
  using sadd_law [of k xs w] by (simp add: cmd_effect_def)

lemma srem_ok:
  assumes "srem_eff (view w k) x = Inr v"
  obtains w' where "rSRem R k x w = (Ret (Inr ()), w')" "view w' = (view w)(k := v)"
  using srem_law [of k x w] assms by (cases "rSRem R k x w") (auto simp: cmd_effect_def)

lemma srem_wrong: "srem_eff (view w k) x = Inl e \<Longrightarrow> rSRem R k x w = (Ret (Inl e), w)"
  using srem_law [of k x w] by (simp add: cmd_effect_def)

lemma rpush_ok:
  assumes "xs \<noteq> []" "rpush_eff (view w k) xs = Inr v"
  obtains w' where "rRPush R k xs w = (Ret (Inr ()), w')" "view w' = (view w)(k := v)"
  using rpush_law [of k xs w] assms by (cases "rRPush R k xs w") (auto simp: cmd_effect_def)

lemma rpush_nil: "rRPush R k [] w = (Ret (Inl (wrong_arity ''rpush'')), w)"
  using rpush_law [of k "[]" w] by (simp add: cmd_effect_def)

lemma rpush_wrong: "xs \<noteq> [] \<Longrightarrow> rpush_eff (view w k) xs = Inl e \<Longrightarrow> rRPush R k xs w = (Ret (Inl e), w)"
  using rpush_law [of k xs w] by (simp add: cmd_effect_def)

lemma smembers_some:
  assumes "view w k = Some (RSet S)"
  obtains xs where "rSMembers R k w = (Ret (Inr xs), w)" "set xs = S" "distinct xs" "xs \<noteq> []"
  using smembers_ok [of w k S] assms no_empty_set [of w k] by fastforce

lemma smembers_none: "view w k = None \<Longrightarrow> rSMembers R k w = (Ret (Inr []), w)"
  using smembers_ok [of w k "{}"] by auto

end

section \<open>An in-memory server\<close>

datatype mval = MString string | MList "string list" | MSet "string list"

type_synonym mem = "(string \<times> mval) list"

fun mem_norm :: "mval option \<Rightarrow> mval option" where
  "mem_norm (Some (MList [])) = None"
| "mem_norm (Some (MSet [])) = None"
| "mem_norm v = v"

definition mem_get :: "mem \<Rightarrow> string \<Rightarrow> mval option" where
  "mem_get m k = mem_norm (map_of m k)"

definition mem_set :: "string \<Rightarrow> mval \<Rightarrow> mem \<Rightarrow> mem" where
  "mem_set k v m = AList.update k v m"

fun mval_view :: "mval \<Rightarrow> rval" where
  "mval_view (MString s) = RString s"
| "mval_view (MList xs) = RList xs"
| "mval_view (MSet xs) = RSet (set xs)"

definition mem_view :: "mem \<Rightarrow> rdb" where
  "mem_view m = (\<lambda>k. map_option mval_view (mem_get m k))"

definition mem_redis :: "mem redis_ops" where
  "mem_redis = \<lparr>
     rGet = (\<lambda>k m. (Ret (case mem_get m k of
         None \<Rightarrow> Inl RedisNil | Some (MString s) \<Rightarrow> Inr s | Some _ \<Rightarrow> Inl wrongtype), m)),
     rSet = (\<lambda>k v m. (Ret (Inr ()), mem_set k (MString v) m)),
     rDel = (\<lambda>k m. (Ret (Inr ()), AList.delete k m)),
     rExists = (\<lambda>k m. (Ret (Inr (if mem_get m k = None then 0 else 1)), m)),
     rType = (\<lambda>k m. (Ret (Inr (case mem_get m k of
         None \<Rightarrow> ''none'' | Some (MString _) \<Rightarrow> ''string'' | Some (MList _) \<Rightarrow> ''list''
       | Some (MSet _) \<Rightarrow> ''set'')), m)),
     rSAdd = (\<lambda>k xs m. if xs = [] then (Ret (Inl (wrong_arity ''sadd'')), m)
       else case mem_get m k of
         None \<Rightarrow> (Ret (Inr ()), mem_set k (MSet (remdups xs)) m)
       | Some (MSet ys) \<Rightarrow> (Ret (Inr ()), mem_set k (MSet (remdups (ys @ xs))) m)
       | Some _ \<Rightarrow> (Ret (Inl wrongtype), m)),
     rSRem = (\<lambda>k x m. case mem_get m k of
         None \<Rightarrow> (Ret (Inr ()), m)
       | Some (MSet ys) \<Rightarrow> (Ret (Inr ()), mem_set k (MSet (removeAll x ys)) m)
       | Some _ \<Rightarrow> (Ret (Inl wrongtype), m)),
     rSMembers = (\<lambda>k m. (Ret (case mem_get m k of
         None \<Rightarrow> Inr [] | Some (MSet ys) \<Rightarrow> Inr (remdups ys) | Some _ \<Rightarrow> Inl wrongtype), m)),
     rRPush = (\<lambda>k xs m. if xs = [] then (Ret (Inl (wrong_arity ''rpush'')), m)
       else case mem_get m k of
         None \<Rightarrow> (Ret (Inr ()), mem_set k (MList xs) m)
       | Some (MList ys) \<Rightarrow> (Ret (Inr ()), mem_set k (MList (ys @ xs)) m)
       | Some _ \<Rightarrow> (Ret (Inl wrongtype), m)),
     rLRem = (\<lambda>k x m. case mem_get m k of
         None \<Rightarrow> (Ret (Inr ()), m)
       | Some (MList ys) \<Rightarrow> (Ret (Inr ()), mem_set k (MList (removeAll x ys)) m)
       | Some _ \<Rightarrow> (Ret (Inl wrongtype), m)),
     rLRange = (\<lambda>k m. (Ret (case mem_get m k of
         None \<Rightarrow> Inr [] | Some (MList ys) \<Rightarrow> Inr ys | Some _ \<Rightarrow> Inl wrongtype), m)),
     rLLen = (\<lambda>k m. (Ret (case mem_get m k of
         None \<Rightarrow> Inr 0 | Some (MList ys) \<Rightarrow> Inr (int (length ys)) | Some _ \<Rightarrow> Inl wrongtype), m)) \<rparr>"

lemma mem_norm_cases: "mem_norm v \<noteq> Some (MList []) \<and> mem_norm v \<noteq> Some (MSet [])"
  by (cases v rule: mem_norm.cases) auto

lemma mem_get_update: "mem_get (AList.update k v m) k' = (if k' = k then mem_norm (Some v) else mem_get m k')"
  by (simp add: mem_get_def update_conv' )

lemma mem_view_update:
  "mem_view (AList.update k v m) = (mem_view m)(k := map_option mval_view (mem_norm (Some v)))"
  by (auto simp: mem_view_def mem_get_update)

lemma mem_view_delete: "mem_view (AList.delete k m) = (mem_view m)(k := None)"
  by (auto simp: mem_view_def mem_get_def delete_conv')

lemma norm_MList [simp]: "map_option mval_view (mem_norm (Some (MList xs))) = norm_list xs"
  by (cases xs) (auto simp: norm_list_def)

lemma norm_MSet [simp]: "map_option mval_view (mem_norm (Some (MSet xs))) = norm_set (set xs)"
  by (cases xs) (auto simp: norm_set_def)

lemma norm_MString [simp]: "mem_norm (Some (MString s)) = Some (MString s)"
  by simp

lemmas mem_redis_simps = mem_redis_def mem_set_def cmd_effect_def mem_view_update mem_view_delete

lemma mem_view_cases:
  obtains (none) "mem_get m k = None" "mem_view m k = None"
  | (str) s where "mem_get m k = Some (MString s)" "mem_view m k = Some (RString s)"
  | (list) xs where "mem_get m k = Some (MList xs)" "mem_view m k = Some (RList xs)" "xs \<noteq> []"
  | (set) xs where "mem_get m k = Some (MSet xs)" "mem_view m k = Some (RSet (set xs))" "xs \<noteq> []"
proof (cases "mem_get m k")
  case None
  then show ?thesis by (intro none) (simp_all add: mem_view_def)
next
  case (Some v)
  then have "v \<noteq> MList []" "v \<noteq> MSet []"
    using mem_norm_cases [of "map_of m k"] by (auto simp: mem_get_def)
  then show ?thesis using Some
    by (cases v) (auto simp: mem_view_def intro: str list set)
qed

interpretation mr: redis_server mem_redis mem_view
proof (unfold_locales, goal_cases)
  case (1 w k) show ?case by (cases rule: mem_view_cases [of w k]) auto
next
  case (2 w k) show ?case by (cases rule: mem_view_cases [of w k]) auto
next
  case (3 k w) show ?case by (cases rule: mem_view_cases [of w k]) (auto simp: mem_redis_simps)
next
  case (4 k v w) show ?case by (simp add: mem_redis_simps)
next
  case (5 k w) show ?case by (simp add: mem_redis_simps)
next
  case (6 k w) show ?case by (cases rule: mem_view_cases [of w k]) (auto simp: mem_redis_simps)
next
  case (7 k w) show ?case by (cases rule: mem_view_cases [of w k]) (auto simp: mem_redis_simps)
next
  case (8 k xs w) show ?case
    by (cases rule: mem_view_cases [of w k]) (auto simp: mem_redis_simps norm_set_def)
next
  case (9 k x w) show ?case
    by (cases rule: mem_view_cases [of w k]) (auto simp: mem_redis_simps norm_set_def fun_upd_idem)
next
  case (10 w k e) then show ?case by (cases rule: mem_view_cases [of w k]) (auto simp: mem_redis_simps)
next
  case (11 w k S) then show ?case
    by (cases rule: mem_view_cases [of w k]) (auto simp: mem_redis_simps)
next
  case (12 k xs w) show ?case
    by (cases rule: mem_view_cases [of w k]) (auto simp: mem_redis_simps norm_list_def)
next
  case (13 k x w) show ?case
    by (cases rule: mem_view_cases [of w k]) (auto simp: mem_redis_simps fun_upd_idem)
next
  case (14 k w) show ?case by (cases rule: mem_view_cases [of w k]) (auto simp: mem_redis_simps)
next
  case (15 k w) show ?case by (cases rule: mem_view_cases [of w k]) (auto simp: mem_redis_simps)
qed

lemma mem_redis_server: "redis_server mem_redis mem_view"
  by (rule mr.redis_server_axioms)

end
