(* ===== verification/Rf_Schema.thy ===== *)
theory Rf_Schema
  imports Redis_Interface
begin

text \<open>
  The schema model of \<open>internal/rfschema\<close>: property types, properties and resources
  (\<open>rfschema.go\<close>) and the resolution of a URI in the schema tree (\<open>walk.go\<close>). The linking stage
  (\<open>tree.go\<close>) copies a resource for every link that leads to it, so the linked structure is a tree
  and is modelled as a pair of mutually recursive datatypes. The back pointers \<open>Linkers\<close> and the
  map \<open>ApplicationData\<close> are left out; a nil map is an empty one.
\<close>

datatype PropertyType =
    PropUnknown | PropMultiple | PropObject | PropAction | PropEnum | PropString | PropNumber
  | PropInteger | PropBool | PropArray | PropLink

fun PropertyType_String :: "PropertyType \<Rightarrow> string" where
  "PropertyType_String PropUnknown = ''Unknown''"
| "PropertyType_String PropObject = ''Object''"
| "PropertyType_String PropAction = ''Action''"
| "PropertyType_String PropEnum = ''Enum''"
| "PropertyType_String PropString = ''String''"
| "PropertyType_String PropNumber = ''Number''"
| "PropertyType_String PropInteger = ''Integer''"
| "PropertyType_String PropBool = ''Bool''"
| "PropertyType_String PropArray = ''Array''"
| "PropertyType_String PropLink = ''Link''"
| "PropertyType_String PropMultiple = ''Multiple''"

datatype StringFormat = FormatUnknown | FormatDate | FormatURI

record EnumMember =
  em_Name :: string
  em_Description :: string
  em_LongDescription :: string

record PatternProperties =
  pp_Pattern :: string
  pp_Description :: string
  pp_Types :: "string list"

text \<open>The fields of \<open>Property\<close> that do not refer to other properties or resources.\<close>

record prop_info =
  p_Type :: PropertyType
  p_NullAllowed :: bool
  p_ReadOnly :: bool
  p_Deprecated :: bool
  p_DeprecatedReason :: "string option"
  p_Description :: "string option"
  p_LongDescription :: "string option"
  p_Types :: "PropertyType list"
  p_RequiredParameters :: "string list"
  p_linkRef :: string
  p_IsNavLink :: bool
  p_LinkAutoExpand :: bool
  p_AdditionalProperties :: "bool option"
  p_PatternProperties :: "PatternProperties list"
  p_IsNavArray :: bool
  p_arrayRefString :: "string option"
  p_StringFormat :: "StringFormat option"
  p_StringMaxLength :: "int option"
  p_StringMinLength :: "int option"
  p_StringPattern :: "string option"
  p_EnumMembers :: "EnumMember list"
  p_DeprecatedEnums :: "(string \<times> string) list"
  p_Units :: "string option"
  p_NumberMaximum :: "float64 option"
  p_NumberMinimum :: "float64 option"
  p_IntegerMaximun :: "int option"
  p_IntegerMinimun :: "int option"

text \<open>The fields of \<open>Resource\<close> of the same kind.\<close>

record res_info =
  r_Name :: string
  r_ODataType :: string
  r_ODataContext :: string
  r_Description :: "string option"
  r_LongDescription :: "string option"
  r_AdditionalProperties :: bool
  r_PatternProperties :: "PatternProperties list"
  r_Deletable :: bool
  r_Insertable :: bool
  r_Updatable :: bool
  r_IsCollection :: bool
  r_EmbeddedCollection :: bool
  r_RequiredProperties :: "string list"
  r_RequiredOnCreate :: "string list"
  r_VersionString :: string
  r_ReferenceCount :: int
  r_InstanceID :: int

datatype property =
  Property
    (p_info: prop_info)
    (p_Properties: "(string \<times> property) list")
    (p_ArrayOf: "property option")
    (p_Link: "resource option")
    (p_Parameters: "(string \<times> property) list")
    (p_Target: "property option")
    (p_Title: "property option")
and resource =
  Resource
    (r_info: res_info)
    (r_CollectionOf: "resource option")
    (r_Properties: "(string \<times> property) list")

abbreviation pType :: "property \<Rightarrow> PropertyType" where
  "pType p \<equiv> p_Type (p_info p)"

type_synonym properties = "(string \<times> property) list"

text \<open>Zero values, as the composite literals \<open>Property{}\<close> and \<open>Resource{}\<close> give them.\<close>

definition prop_zero :: prop_info where
  "prop_zero = \<lparr> p_Type = PropUnknown, p_NullAllowed = False, p_ReadOnly = False,
     p_Deprecated = False, p_DeprecatedReason = None, p_Description = None,
     p_LongDescription = None, p_Types = [], p_RequiredParameters = [], p_linkRef = [],
     p_IsNavLink = False, p_LinkAutoExpand = False, p_AdditionalProperties = None,
     p_PatternProperties = [], p_IsNavArray = False, p_arrayRefString = None,
     p_StringFormat = None, p_StringMaxLength = None, p_StringMinLength = None,
     p_StringPattern = None, p_EnumMembers = [], p_DeprecatedEnums = [], p_Units = None,
     p_NumberMaximum = None, p_NumberMinimum = None, p_IntegerMaximun = None,
     p_IntegerMinimun = None \<rparr>"

definition res_zero :: res_info where
  "res_zero = \<lparr> r_Name = [], r_ODataType = [], r_ODataContext = [], r_Description = None,
     r_LongDescription = None, r_AdditionalProperties = False, r_PatternProperties = [],
     r_Deletable = False, r_Insertable = False, r_Updatable = False, r_IsCollection = False,
     r_EmbeddedCollection = False, r_RequiredProperties = [], r_RequiredOnCreate = [],
     r_VersionString = [], r_ReferenceCount = 0, r_InstanceID = 0 \<rparr>"

definition mk_prop :: "PropertyType \<Rightarrow> property" where
  "mk_prop t = Property (prop_zero\<lparr>p_Type := t\<rparr>) [] None None [] None None"

definition isRedfishValueString :: "PropertyType \<Rightarrow> bool" where
  "isRedfishValueString pt \<longleftrightarrow>
     pt = PropEnum \<or> pt = PropString \<or> pt = PropNumber \<or> pt = PropInteger \<or> pt = PropBool"

section \<open>Walking the tree\<close>

definition buildPath :: "string list \<Rightarrow> string" where
  "buildPath tokens = ''/redfish/v1/'' @ Join tokens ''/''"

type_synonym 'w CollectionCB = "resource \<Rightarrow> string \<Rightarrow> string \<Rightarrow> ('w, bool) go"

text \<open>The property that a token names: of the resource, or of the object being walked.\<close>

definition walk_child :: "resource \<Rightarrow> property option \<Rightarrow> bool \<Rightarrow> string \<Rightarrow> property option" where
  "walk_child r cur walking token =
     (if \<not> walking then map_of (r_Properties r) token
      else case cur of
        None \<Rightarrow> None
      | Some p \<Rightarrow> (case map_of (p_Properties p) token of
            Some q \<Rightarrow> Some q
          | None \<Rightarrow> map_of (p_Properties p) (''#'' @ token)))"

definition walkable :: "PropertyType \<Rightarrow> bool" where
  "walkable t \<longleftrightarrow> t = PropObject \<or> t = PropAction \<or> t = PropEnum \<or> t = PropString \<or>
     t = PropInteger \<or> t = PropNumber \<or> t = PropLink"

text \<open>
  The loop of \<open>WalkTree\<close>. \<open>seen\<close> are the tokens before the current one; the current resource is
  \<open>None\<close> when it is a nil pointer, which the next iteration dereferences, or the log entry after the
  last one.
\<close>

fun walk_loop :: "'w CollectionCB \<Rightarrow> string list \<Rightarrow> string list \<Rightarrow> resource option \<Rightarrow>
    property option \<Rightarrow> bool \<Rightarrow> ('w, resource option \<times> property option) go" where
  "walk_loop cb seen [] res cur walking =
     (case res of
        None \<Rightarrow> go_panic ''nil pointer dereference''
      | Some r \<Rightarrow> go_return (if walking then (Some r, cur) else (Some r, None)))"
| "walk_loop cb seen (token # tokens) res cur walking =
     (case res of
        None \<Rightarrow> go_panic ''nil pointer dereference''
      | Some r \<Rightarrow>
        if r_IsCollection (r_info r) then
          go_bind (cb r (buildPath seen) token) (\<lambda>valid.
            if valid then walk_loop cb (seen @ [token]) tokens (r_CollectionOf r) cur walking
            else go_return (None, None))
        else
          case walk_child r cur walking token of
            None \<Rightarrow> go_return (None, None)
          | Some p \<Rightarrow>
            if pType p = PropLink \<and> p_IsNavLink (p_info p) then
              (case p_Link p of
                 None \<Rightarrow> go_panic ''Found nil link while walking''
               | Some r' \<Rightarrow> walk_loop cb (seen @ [token]) tokens (Some r') (Some p) False)
            else if walkable (pType p) then
              walk_loop cb (seen @ [token]) tokens (Some r) (Some p) True
            else go_return (None, None))"

text \<open>The tokens of a path, or \<open>None\<close> when it is outside the service.\<close>

definition path_tokens :: "string \<Rightarrow> string list option" where
  "path_tokens path =
     (if \<not> HasPrefix path ''/redfish/v1'' then None
      else Some (Split1 (TrimSuffix (TrimPrefix (TrimPrefix path ''/redfish/v1'') ''/'') ''/'') CHR ''/''))"

definition WalkTree :: "resource \<Rightarrow> 'w CollectionCB \<Rightarrow> string \<Rightarrow> ('w, resource option \<times> property option) go" where
  "WalkTree ServiceRoot cb path =
     (case path_tokens path of
        None \<Rightarrow> go_return (None, None)
      | Some tokens \<Rightarrow>
          if tokens = [''''] then go_return (Some ServiceRoot, None)
          else walk_loop cb [] tokens (Some ServiceRoot) None False)"

section \<open>What a path denotes\<close>

text \<open>
  The specification of the walk: the location a sequence of tokens leads to, where
  \<open>member r path token\<close> says that the collection \<open>r\<close> at \<open>path\<close> has the member \<open>token\<close>. The second
  part of a location is the property inside the resource, if the walk is inside one.
\<close>

inductive located :: "(resource \<Rightarrow> string \<Rightarrow> string \<Rightarrow> bool) \<Rightarrow> resource \<Rightarrow> string list \<Rightarrow>
    resource \<Rightarrow> property option \<Rightarrow> bool" for member root where
  at_root: "located member root [] root None"
| at_member: "located member root ts r None \<Longrightarrow> r_IsCollection (r_info r) \<Longrightarrow>
    member r (buildPath ts) t \<Longrightarrow> r_CollectionOf r = Some r' \<Longrightarrow> located member root (ts @ [t]) r' None"
| at_link: "located member root ts r po \<Longrightarrow> \<not> r_IsCollection (r_info r) \<Longrightarrow>
    walk_child r po (po \<noteq> None) t = Some p \<Longrightarrow> pType p = PropLink \<Longrightarrow> p_IsNavLink (p_info p) \<Longrightarrow>
    p_Link p = Some r' \<Longrightarrow> located member root (ts @ [t]) r' None"
| at_property: "located member root ts r po \<Longrightarrow> \<not> r_IsCollection (r_info r) \<Longrightarrow>
    walk_child r po (po \<noteq> None) t = Some p \<Longrightarrow> \<not> (pType p = PropLink \<and> p_IsNavLink (p_info p)) \<Longrightarrow>
    walkable (pType p) \<Longrightarrow> located member root (ts @ [t]) r (Some p)"

inductive_cases located_NilE: "located member root [] r po"
inductive_cases located_snocE: "located member root (ts @ [t]) r po"

text \<open>One step of the walk, as a function.\<close>

definition located_next :: "(resource \<Rightarrow> string \<Rightarrow> string \<Rightarrow> bool) \<Rightarrow> string list \<Rightarrow> resource \<Rightarrow>
    property option \<Rightarrow> string \<Rightarrow> (resource \<times> property option) option" where
  "located_next member ts r po t =
     (if r_IsCollection (r_info r) then
        (if po = None \<and> member r (buildPath ts) t then map_option (\<lambda>r'. (r', None)) (r_CollectionOf r)
         else None)
      else case walk_child r po (po \<noteq> None) t of
        None \<Rightarrow> None
      | Some p \<Rightarrow>
          if pType p = PropLink \<and> p_IsNavLink (p_info p)
          then map_option (\<lambda>r'. (r', None)) (p_Link p)
          else if walkable (pType p) then Some (r, Some p) else None)"

lemma located_Nil: "located member root [] r po \<longleftrightarrow> r = root \<and> po = None"
  by (auto intro: at_root elim: located_NilE)

lemma located_snoc:
  "located member root (ts @ [t]) r1 po1 \<longleftrightarrow>
     (\<exists>r po. located member root ts r po \<and> located_next member ts r po t = Some (r1, po1))"
  (is "?L \<longleftrightarrow> ?R")
proof
  assume ?L
  then show ?R
  proof (rule located_snocE, goal_cases)
    case (1 r)
    then have "located_next member ts r None t = Some (r1, po1)" by (simp add: located_next_def)
    then show ?case using 1 by blast
  next
    case (2 r po p)
    then have "located_next member ts r po t = Some (r1, po1)"
      by (simp add: located_next_def)
    then show ?case using 2 by blast
  next
    case (3 po p)
    then have "located_next member ts r1 po t = Some (r1, po1)"
      by (simp add: located_next_def)
    then show ?case using 3 by blast
  qed
next
  assume ?R
  then obtain r po where l: "located member root ts r po"
    and n: "located_next member ts r po t = Some (r1, po1)" by blast
  show ?L
  proof (cases "r_IsCollection (r_info r)")
    case True
    then show ?thesis using l n
      by (auto simp: located_next_def split: if_splits intro: at_member)
  next
    case False
    then obtain p where p: "walk_child r po (po \<noteq> None) t = Some p"
      using n by (auto simp: located_next_def simp del: not_None_eq split: option.splits)
    then have "(if pType p = PropLink \<and> p_IsNavLink (p_info p)
          then map_option (\<lambda>r'. (r', None)) (p_Link p)
          else if walkable (pType p) then Some (r, Some p) else None) = Some (r1, po1)"
      using n False by (simp add: located_next_def del: not_None_eq)
    then show ?thesis using at_link [OF l False p] at_property [OF l False p]
      by (auto split: if_splits)
  qed
qed

lemma located_unique:
  "located member root ts r po \<Longrightarrow> located member root ts r' po' \<Longrightarrow> r = r' \<and> po = po'"
proof (induction ts arbitrary: r po r' po' rule: rev_induct)
  case (snoc t ts)
  obtain r1 p1 where 1: "located member root ts r1 p1" "located_next member ts r1 p1 t = Some (r, po)"
    using snoc.prems(1) located_snoc by blast
  obtain r2 p2 where 2: "located member root ts r2 p2" "located_next member ts r2 p2 t = Some (r', po')"
    using snoc.prems(2) located_snoc by blast
  show ?case using snoc.IH [OF 1(1) 2(1)] 1(2) 2(2) by simp
qed (simp add: located_Nil)

lemma located_collection: "located member root ts r po \<Longrightarrow> r_IsCollection (r_info r) \<Longrightarrow> po = None"
  by (induction rule: located.induct) auto

lemma located_prefix:
  "located member root (ts @ us) r po \<Longrightarrow> \<exists>r' po'. located member root ts r' po'"
proof (induction us arbitrary: r po rule: rev_induct)
  case (snoc u us)
  then show ?case by (metis append_assoc located_snoc)
qed auto

lemma located_step:
  assumes "located member root ts r po"
  shows "located member root (ts @ t # us) r' po' \<longleftrightarrow>
    (\<exists>r1 po1. located_next member ts r po t = Some (r1, po1) \<and>
              located member root ((ts @ [t]) @ us) r' po')"
proof
  assume L: "located member root (ts @ t # us) r' po'"
  then obtain r1 po1 where "located member root (ts @ [t]) r1 po1"
    using located_prefix [of member root "ts @ [t]" us r' po'] by auto
  then obtain r0 po0 where "located member root ts r0 po0"
    "located_next member ts r0 po0 t = Some (r1, po1)" using located_snoc by blast
  then show "\<exists>r1 po1. located_next member ts r po t = Some (r1, po1) \<and>
              located member root ((ts @ [t]) @ us) r' po'"
    using L located_unique [OF assms] by auto
qed simp

lemma walk_loop_located:
  assumes cb: "\<And>r p t. cb r p t w = (Ret (member r p t), w)"
  shows "located member root seen r (if walking then cur else None) \<Longrightarrow> (walking \<longrightarrow> cur \<noteq> None) \<Longrightarrow>
    walk_loop cb seen tokens (Some r) cur walking w = (Ret (Some r', po), w) \<longleftrightarrow>
    located member root (seen @ tokens) r' po"
proof (induction tokens arbitrary: seen r cur walking)
  case Nil
  show ?case using located_unique [OF Nil(1), of r' po] Nil by auto
next
  case (Cons t tokens)
  let ?po = "if walking then cur else None"
  have wc: "walk_child r ?po (?po \<noteq> None) t = walk_child r cur walking t"
    using Cons.prems(2) by (auto simp: walk_child_def)
  note step = located_step [OF Cons.prems(1), of t tokens r' po]
  note snoc = located_snoc [of member root seen t]
  show ?case
  proof (cases "r_IsCollection (r_info r)")
    case True
    have po: "?po = None" using located_collection [OF Cons.prems(1) True] .
    then have nw: "\<not> walking" using Cons.prems(2) by (auto split: if_splits)
    show ?thesis
    proof (cases "member r (buildPath seen) t")
      case False
      then show ?thesis using step True by (simp add: cb located_next_def go_bind_apply)
    next
      case m: True
      show ?thesis
      proof (cases "r_CollectionOf r")
        case None
        then show ?thesis using step True m nw
          by (cases tokens) (auto simp: cb located_next_def go_bind_apply)
      next
        case (Some r1)
        then have nx: "located_next member seen r ?po t = Some (r1, None)"
          using True m po by (simp add: located_next_def del: not_None_eq)
        then have "located member root (seen @ [t]) r1 None" using snoc Cons.prems(1) by blast
        then show ?thesis using Cons.IH [of "seen @ [t]" r1 False cur] Some True m nw
          by (simp add: cb go_bind_apply)
      qed
    qed
  next
    case False
    show ?thesis
    proof (cases "walk_child r cur walking t")
      case None
      then show ?thesis using step False wc by (simp add: located_next_def del: not_None_eq)
    next
      case (Some p)
      consider (nil) "pType p = PropLink" "p_IsNavLink (p_info p)" "p_Link p = None"
        | (link) r1 where "pType p = PropLink" "p_IsNavLink (p_info p)" "p_Link p = Some r1"
        | (inner) "\<not> (pType p = PropLink \<and> p_IsNavLink (p_info p))" "walkable (pType p)"
        | (none) "\<not> (pType p = PropLink \<and> p_IsNavLink (p_info p))" "\<not> walkable (pType p)"
        by (cases "p_Link p") auto
      then show ?thesis
      proof cases
        case nil
        then show ?thesis using step False Some wc by (simp add: located_next_def del: not_None_eq)
      next
        case link
        then have "located_next member seen r ?po t = Some (r1, None)"
          using False Some wc by (simp add: located_next_def del: not_None_eq)
        then have "located member root (seen @ [t]) r1 None" using snoc Cons.prems(1) by blast
        then show ?thesis using Cons.IH [of "seen @ [t]" r1 False "Some p"] link Some False by simp
      next
        case inner
        then have "located_next member seen r ?po t = Some (r, Some p)"
          using False Some wc by (auto simp: located_next_def simp del: not_None_eq)
        then have "located member root (seen @ [t]) r (Some p)" using snoc Cons.prems(1) by blast
        moreover have "walk_loop cb seen (t # tokens) (Some r) cur walking w =
            walk_loop cb (seen @ [t]) tokens (Some r) (Some p) True w"
          using Some False inner(2) by (simp add: if_not_P [OF inner(1)] del: de_Morgan_conj)
        ultimately show ?thesis using Cons.IH [of "seen @ [t]" r True "Some p"] by simp
      next
        case none
        then have "located_next member seen r ?po t = None"
          using False Some wc by (auto simp: located_next_def simp del: not_None_eq)
        moreover have "walk_loop cb seen (t # tokens) (Some r) cur walking w = (Ret (None, None), w)"
          using Some False none(2) by (simp add: if_not_P [OF none(1)] del: de_Morgan_conj)
        ultimately show ?thesis using step by simp
      qed
    qed
  qed
qed

lemma WalkTree_iff:
  assumes "\<And>r p t. cb r p t w = (Ret (member r p t), w)"
  shows "WalkTree root cb path w = (Ret (Some r, po), w) \<longleftrightarrow>
    (\<exists>ts. path_tokens path = Some ts \<and> located member root (if ts = [''''] then [] else ts) r po)"
proof (cases "path_tokens path")
  case None
  then show ?thesis by (simp add: WalkTree_def)
next
  case (Some ts)
  then show ?thesis
    using walk_loop_located [where cb = cb and member = member and w = w, OF assms, where root = root and seen = "[]" and r = root
        and walking = False and cur = None and tokens = ts and r' = r and po = po]
    by (auto simp: WalkTree_def located_Nil)
qed

end
