(* ===== verification/Dispatcher.thy ===== *)
theory Dispatcher
  imports Rf_Schema
begin

text \<open>
  The dispatcher of \<open>internal/rfdispatcher/dispatcher/rfdispatcher.go\<close>: its state, the lookup of a
  resource with the collection callback that asks Redis and the registered callbacks, and the
  file handler. The operating system (\<open>os.Stat\<close>, \<open>os/exec\<close>, \<open>ioutil.ReadFile\<close>) and the backend
  helpers (the interface of \<open>internal/backend_helpers/interface.go\<close>) are records of operations
  over the world.
\<close>

datatype DispatchHandlerOp = InputOp | OutputOp | ActionOp

text \<open>
  \<open>osStat\<close> returns the nine permission bits of an existing file; \<open>osOutput\<close> runs a program with
  arguments and environment and returns its standard output.
\<close>

record 'w os_ops =
  osStat :: "string \<Rightarrow> ('w, go_error + nat) go"
  osReadFile :: "string \<Rightarrow> ('w, go_error + string) go"
  osLookPath :: "string \<Rightarrow> ('w, go_error + string) go"
  osOutput :: "string \<Rightarrow> string list \<Rightarrow> string list \<Rightarrow> ('w, go_error + string) go"

text \<open>
  \<open>GetEnvForXname\<close> returns an environment and an error at the same time; the error is looked at
  by some callers only.
\<close>

record 'w backend_helper =
  GetEnvForXname :: "string \<Rightarrow> ('w, (string \<times> string) list option \<times> go_error option) go"
  RunBackendHelper :: "string \<Rightarrow> string list \<Rightarrow> (string \<times> string) list option \<Rightarrow> ('w, go_error + string) go"

record 'w RedfishDispatcher =
  scriptDirPrefix :: string
  programName :: string
  schemaTree :: resource
  rfd_redis :: "'w redis_ops"
  rfd_os :: "'w os_ops"
  additionalCollectionCBs :: "'w CollectionCB list"
  BackendHelpers :: "'w backend_helper list"

section \<open>Looking up a resource\<close>

fun any_cb :: "'w CollectionCB list \<Rightarrow> resource \<Rightarrow> string \<Rightarrow> string \<Rightarrow> ('w, bool) go" where
  "any_cb [] collection path instance_name = go_return False"
| "any_cb (cb # cbs) collection path instance_name =
     go_bind (cb collection path instance_name)
       (\<lambda>b. if b then go_return True else any_cb cbs collection path instance_name)"

definition collection_cb :: "'w RedfishDispatcher \<Rightarrow> string \<Rightarrow> 'w CollectionCB" where
  "collection_cb rfd xname collection baseCollectionPath instance_name =
     (let collectionPath = xname @ baseCollectionPath in
      if map_of (r_Properties collection) instance_name \<noteq> None then go_return False
      else go_must (rExists (rfd_redis rfd) (collectionPath @ ''/'' @ instance_name)) (\<lambda>exist.
        if exist > 0 then go_return True
        else any_cb (additionalCollectionCBs rfd) collection collectionPath instance_name))"

definition GetResource :: "'w RedfishDispatcher \<Rightarrow> string \<Rightarrow> string \<Rightarrow> ('w, resource option \<times> property option) go" where
  "GetResource rfd uri xname = WalkTree (schemaTree rfd) (collection_cb rfd xname) uri"

definition RegisterCollectionCB :: "'w RedfishDispatcher \<Rightarrow> 'w CollectionCB \<Rightarrow> 'w RedfishDispatcher" where
  "RegisterCollectionCB rfd cb = rfd\<lparr>additionalCollectionCBs := additionalCollectionCBs rfd @ [cb]\<rparr>"

section \<open>The file handler\<close>

definition executeFile :: "'w os_ops \<Rightarrow> string \<Rightarrow> string list \<Rightarrow> (string \<times> string) list \<Rightarrow> ('w, go_error + string) go" where
  "executeFile os script args env =
     go_bind (osOutput os script args (map (\<lambda>(k, v). k @ ''='' @ v) env)) (\<lambda>r. case r of
         Inl _ \<Rightarrow> go_return (Inl (Err (''Script execution failed: '' @ script)))
       | Inr out \<Rightarrow> go_return (Inr out))"

text \<open>The test \<open>fi.Mode().Perm() & 0111\<close> on the nine permission bits.\<close>

definition executable :: "nat \<Rightarrow> bool" where
  "executable perm \<longleftrightarrow> odd perm \<or> odd (perm div 8) \<or> odd (perm div 64)"

text \<open>
  \<open>filepath.Join\<close>: the non-empty elements joined with slashes and cleaned, which drops empty and
  \<open>.\<close> elements and resolves \<open>..\<close>.
\<close>

fun clean_elems :: "bool \<Rightarrow> string list \<Rightarrow> string list \<Rightarrow> string list" where
  "clean_elems rooted [] acc = rev acc"
| "clean_elems rooted (e # es) acc =
     (if e = '''' \<or> e = ''.'' then clean_elems rooted es acc
      else if e = ''..'' then
        (case acc of
           [] \<Rightarrow> clean_elems rooted es (if rooted then [] else [''..''])
         | a # acc' \<Rightarrow> clean_elems rooted es (if a = ''..'' then e # acc else acc'))
      else clean_elems rooted es (e # acc))"

definition Clean :: "string \<Rightarrow> string" where
  "Clean p =
     (let rooted = HasPrefix p ''/''; es = clean_elems rooted (Split1 p CHR ''/'') [];
          body = Join es ''/''
      in if rooted then CHR ''/'' # body else if body = '''' then ''.'' else body)"

definition filepath_Join :: "string list \<Rightarrow> string" where
  "filepath_Join es = (let ne = filter (\<lambda>e. e \<noteq> []) es in
     if ne = [] then [] else Clean (Join ne ''/''))"

definition file_fallback :: "'w RedfishDispatcher \<Rightarrow> string \<Rightarrow> string list \<Rightarrow> (string \<times> string) list \<Rightarrow> ('w, go_error + string) go" where
  "file_fallback rfd uri args env =
     go_bind (osLookPath (rfd_os rfd) ''redfish-translation-layer-executor'') (\<lambda>r. case r of
         Inr rtlExecutor \<Rightarrow> executeFile (rfd_os rfd) rtlExecutor (args @ [uri]) env
       | Inl _ \<Rightarrow> go_return (Inl ErrFileHandlerNoAction))"

definition DoFileHandler :: "'w RedfishDispatcher \<Rightarrow> DispatchHandlerOp \<Rightarrow> string \<Rightarrow> string list \<Rightarrow>
    (string \<times> string) list \<Rightarrow> ('w, go_error + string) go" where
  "DoFileHandler rfd op uri args env =
     (let handlerKey = uri @ (if op = ActionOp then ''/Target'' else []) @ '':handler'' in
      go_check (rExists (rfd_redis rfd) handlerKey) (\<lambda>handlerExists.
      if handlerExists > 0 then
        go_check (rGet (rfd_redis rfd) handlerKey) (\<lambda>handlerPath.
        go_bind (osStat (rfd_os rfd) handlerPath) (\<lambda>fi. case fi of
            Inl _ \<Rightarrow> go_return (Inl (Err ''handler path in Redis does not exist''))
          | Inr perm \<Rightarrow>
              if \<not> executable perm then go_return (Inl (Err ''handler path in Redis can not be executed''))
              else executeFile (rfd_os rfd) handlerPath (args @ [uri]) env))
      else
        let file = (if op = ActionOp then filepath_Join [scriptDirPrefix rfd, uri, ''Target'']
                    else filepath_Join [scriptDirPrefix rfd, uri]) in
        go_bind (osStat (rfd_os rfd) file) (\<lambda>fi. case fi of
            Inr perm \<Rightarrow>
              if executable perm then executeFile (rfd_os rfd) file args env
              else (case op of
                  OutputOp \<Rightarrow> go_bind (osReadFile (rfd_os rfd) file) (\<lambda>c. case c of
                      Inl _ \<Rightarrow> go_return (Inl (Err ''Failed to read file''))
                    | Inr contents \<Rightarrow> go_return (Inr contents))
                | InputOp \<Rightarrow> file_fallback rfd uri args env
                | ActionOp \<Rightarrow> file_fallback rfd uri args env)
          | Inl _ \<Rightarrow> file_fallback rfd uri args env)))"

section \<open>Which resources exist\<close>

text \<open>
  An instance is a member of a collection when it is not named like a property of the collection
  and its key is in the database, or one of the registered callbacks knows it: \<open>qs\<close> are what these
  answer.
\<close>

definition known_member :: "('w \<Rightarrow> rdb) \<Rightarrow> (resource \<Rightarrow> string \<Rightarrow> string \<Rightarrow> bool) list \<Rightarrow> string \<Rightarrow> 'w \<Rightarrow>
    resource \<Rightarrow> string \<Rightarrow> string \<Rightarrow> bool" where
  "known_member view qs xname w collection path instance_name \<longleftrightarrow>
     map_of (r_Properties collection) instance_name = None \<and>
     (view w (xname @ path @ ''/'' @ instance_name) \<noteq> None \<or> (\<exists>q \<in> set qs. q collection (xname @ path) instance_name))"

lemma any_cb_answers:
  assumes "list_all2 (\<lambda>cb q. \<forall>r p t. cb r p t w = (Ret (q r p t), w)) cbs qs"
  shows "any_cb cbs r p t w = (Ret (\<exists>q \<in> set qs. q r p t), w)"
  using assms by (induction rule: list_all2_induct) (auto simp: go_bind_apply)

lemma collection_cb_member:
  assumes "redis_server R view" "rfd_redis rfd = R"
    and "list_all2 (\<lambda>cb q. \<forall>r p t. cb r p t w = (Ret (q r p t), w)) (additionalCollectionCBs rfd) qs"
  shows "collection_cb rfd xname r p t w = (Ret (known_member view qs xname w r p t), w)"
  using redis_server.exists_law [OF assms(1), of "xname @ p @ ''/'' @ t" w] assms(2) any_cb_answers [OF assms(3)]
  by (auto simp: collection_cb_def known_member_def Let_def go_must_apply)

definition path_location :: "string \<Rightarrow> string list option" where
  "path_location path = map_option (\<lambda>ts. if ts = [''''] then [] else ts) (path_tokens path)"

text \<open>
  \<open>GetResource\<close> resolves a URI exactly when its tokens lead to a location of the schema, with the members
  of collections taken from the database of the device and from the callbacks.
\<close>

lemma GetResource_located:
  assumes "redis_server R view" "rfd_redis rfd = R"
    and "list_all2 (\<lambda>cb q. \<forall>r p t. cb r p t w = (Ret (q r p t), w)) (additionalCollectionCBs rfd) qs"
  shows "GetResource rfd uri xname w = (Ret (Some r, po), w) \<longleftrightarrow>
    (\<exists>ts. path_location uri = Some ts \<and> located (known_member view qs xname w) (schemaTree rfd) ts r po)"
  using WalkTree_iff [where cb = "collection_cb rfd xname" and member = "known_member view qs xname w" and w = w,
      OF collection_cb_member [OF assms], of "schemaTree rfd" uri r po]
  by (auto simp: GetResource_def path_location_def)

text \<open>A schema with two collections and a dispatcher for it.\<close>

definition ex_tree :: resource where
  "ex_tree = Resource (res_zero\<lparr>r_Name := ''ServiceRoot''\<rparr>) None
     [(''Chassis'', Property (prop_zero\<lparr>p_Type := PropLink, p_IsNavLink := True\<rparr>) [] None
        (Some (Resource (res_zero\<lparr>r_Name := ''ChassisCollection'', r_IsCollection := True\<rparr>)
           (Some (Resource (res_zero\<lparr>r_Name := ''Chassis''\<rparr>) None [(''Name'', mk_prop PropString)]))
           [(''Members'', mk_prop PropArray)])) [] None None),
      (''JsonSchemas'', Property (prop_zero\<lparr>p_Type := PropLink, p_IsNavLink := True\<rparr>) [] None
        (Some (Resource (res_zero\<lparr>r_Name := ''JsonSchemaFileCollection'', r_IsCollection := True\<rparr>)
           (Some (Resource (res_zero\<lparr>r_Name := ''JsonSchemaFile''\<rparr>) None [(''Id'', mk_prop PropString)]))
           [(''Members'', mk_prop PropArray)])) [] None None)]"

definition ex_tree_rfd :: "mem RedfishDispatcher" where
  "ex_tree_rfd = \<lparr> scriptDirPrefix = ''/'', programName = ''rts'', schemaTree = ex_tree,
     rfd_redis = mem_redis,
     rfd_os = \<lparr> osStat = (\<lambda>_. go_return (Inl (Err ''none''))), osReadFile = (\<lambda>_. go_return (Inl (Err ''none''))),
                osLookPath = (\<lambda>_. go_return (Inl (Err ''none''))), osOutput = (\<lambda>_ _ _. go_return (Inl (Err ''none''))) \<rparr>,
     additionalCollectionCBs = [], BackendHelpers = [] \<rparr>"

end
