(* ===== verification/Redis_Struct_Write.thy ===== *)
theory Redis_Struct_Write
  imports Dispatcher
begin

text \<open>
  The write side of \<open>internal/rfdispatcher/dispatcher/redisstruct.go\<close>: the conversion of a decoded
  JSON object into the intermediate structure (\<open>Interface2Redis\<close>), its insertion into Redis
  (\<open>RedisInsert\<close>), the partial update (\<open>RedisPatch\<close>) and the removal of a resource. A path is the
  list of the names leading to a field; the slices the code appends to share their backing array,
  which no caller observes, so they are lists here.
\<close>

section \<open>From the decoded object to the intermediate structure\<close>

text \<open>The callback runs over a state of its own; its first argument is nil for unknown properties.\<close>

type_synonym 'c Interface2RedisCB = "property option \<Rightarrow> string list \<Rightarrow> gval \<Rightarrow> bool \<Rightarrow> ('c, bool) go"

definition convert_error :: "string list \<Rightarrow> go_error" where
  "convert_error path = Err (''Unable to convert type for field: '' @ Join path ''/'')"

text \<open>The final test of \<open>structField2Redis\<close>: a callback that refuses a value removes it.\<close>

definition field_done :: "'c Interface2RedisCB option \<Rightarrow> property \<Rightarrow> string list \<Rightarrow> gval \<Rightarrow> ('c, go_error + gval \<times> bool) go" where
  "field_done cb property path result =
     (case cb of
        None \<Rightarrow> go_return (Inr (result, False))
      | Some f \<Rightarrow> go_bind (f (Some property) path result False) (\<lambda>ok.
          if ok then go_return (Inr (result, False)) else go_return (Inr (GNil, False))))"

text \<open>
  \<open>structField2Redis\<close> returns the converted value and whether it is an allowed null.
  \<open>structArray2Redis\<close> and \<open>Interface2Redis\<close> are split into the loop over the elements and the
  loop over the fields.
\<close>

fun structField2Redis :: "'c Interface2RedisCB option \<Rightarrow> string list \<Rightarrow> property \<Rightarrow> gval \<Rightarrow> ('c, go_error + gval \<times> bool) go"
and struct_elems :: "'c Interface2RedisCB option \<Rightarrow> string list \<Rightarrow> property \<Rightarrow> nat \<Rightarrow> gval list \<Rightarrow> ('c, go_error + gval list) go"
and struct_fields :: "'c Interface2RedisCB option \<Rightarrow> string list \<Rightarrow> properties \<Rightarrow> gobj \<Rightarrow> gobj \<Rightarrow> ('c, go_error + gobj) go"
where
  "structField2Redis cb path property valueRaw =
     (if valueRaw = GNil \<and> p_NullAllowed (p_info property) then
        (case cb of
           None \<Rightarrow> go_return (Inr (GNil, True))
         | Some f \<Rightarrow> go_bind (f (Some property) path GNil False) (\<lambda>allowed. go_return (Inr (GNil, allowed))))
      else
      (case pType property of
         PropObject \<Rightarrow> (case valueRaw of
             GObj obj \<Rightarrow> go_check (struct_fields cb path (p_Properties property) obj [])
               (\<lambda>objRedis. field_done cb property path (GObj objRedis))
           | _ \<Rightarrow> go_return (Inl (convert_error path)))
       | PropAction \<Rightarrow> field_done cb property path GNil
       | PropEnum \<Rightarrow> (case valueRaw of
             GString v \<Rightarrow> field_done cb property path (GString v)
           | _ \<Rightarrow> go_return (Inl (convert_error path)))
       | PropString \<Rightarrow> (case valueRaw of
             GString v \<Rightarrow> field_done cb property path (GString v)
           | _ \<Rightarrow> go_return (Inl (convert_error path)))
       | PropNumber \<Rightarrow> (case valueRaw of
             GFloat v \<Rightarrow> field_done cb property path (GString (SprintFloat v))
           | _ \<Rightarrow> go_return (Inl (convert_error path)))
       | PropInteger \<Rightarrow> (case valueRaw of
             GFloat v \<Rightarrow> field_done cb property path (GString (FormatInt (f64_to_int64 v)))
           | _ \<Rightarrow> go_return (Inl (convert_error path)))
       | PropBool \<Rightarrow> (case valueRaw of
             GBool v \<Rightarrow> field_done cb property path (GString (FormatBool v))
           | _ \<Rightarrow> go_return (Inl (convert_error path)))
       | PropArray \<Rightarrow> (case valueRaw of
             GArr array \<Rightarrow> (case p_ArrayOf property of
                 None \<Rightarrow> go_panic ''nil pointer dereference''
               | Some elementProperty \<Rightarrow>
                   go_check (struct_elems cb path elementProperty 0 array)
                     (\<lambda>elements. field_done cb property path
                        (GRedisArray (\<not> isRedfishValueString (pType elementProperty)) elements)))
           | _ \<Rightarrow> go_return (Inl (convert_error path)))
       | PropLink \<Rightarrow> (case valueRaw of
             GObj value \<Rightarrow>
               if p_IsNavLink (p_info property) then field_done cb property path GNil
               else (case map_of value ''@odata.id'' of
                   Some (GString s) \<Rightarrow> field_done cb property path (GObj [(''@odata.id'', GString s)])
                 | _ \<Rightarrow> go_panic ''interface conversion: interface {} is not string'')
           | _ \<Rightarrow> go_panic ''interface conversion: interface {} is not map[string]interface {}'')
       | _ \<Rightarrow> go_panic (''Cannot handle type:'' @ PropertyType_String (pType property))))"
| "struct_elems cb path property i [] = go_return (Inr [])"
| "struct_elems cb path property i (elementRaw # es) =
     go_check (structField2Redis cb (path @ [FormatInt (int i)]) property elementRaw)
       (\<lambda>(element, _). go_check (struct_elems cb path property (Suc i) es)
          (\<lambda>elements. go_return (Inr (element # elements))))"
| "struct_fields cb path properties [] result = go_return (Inr result)"
| "struct_fields cb path properties ((name, valueRaw) # rest) result =
     (case map_of properties name of
        None \<Rightarrow> (case cb of
            None \<Rightarrow> go_return (Inl (Err (''Unknown property: '' @ name)))
          | Some f \<Rightarrow> go_bind (f None (path @ [name]) valueRaw True)
              (\<lambda>_. struct_fields cb path properties rest result))
      | Some property \<Rightarrow>
          go_check (structField2Redis cb (path @ [name]) property valueRaw)
            (\<lambda>(resultField, isNull).
               struct_fields cb path properties rest
                 (if resultField \<noteq> GNil \<or> isNull then AList.update name resultField result else result)))"

definition structArray2Redis :: "'c Interface2RedisCB option \<Rightarrow> string list \<Rightarrow> property \<Rightarrow> gval list \<Rightarrow> ('c, go_error + gval) go" where
  "structArray2Redis cb path arrayProperty array =
     (case p_ArrayOf arrayProperty of
        None \<Rightarrow> go_panic ''nil pointer dereference''
      | Some property \<Rightarrow> go_check (struct_elems cb path property 0 array)
          (\<lambda>elements. go_return (Inr (GRedisArray (\<not> isRedfishValueString (pType property)) elements))))"

definition Interface2Redis :: "'c Interface2RedisCB option \<Rightarrow> string list \<Rightarrow> properties \<Rightarrow> gobj \<Rightarrow> ('c, go_error + gobj) go" where
  "Interface2Redis cb path properties object = struct_fields cb path properties object []"

declare structField2Redis.simps [simp del]

section \<open>Insertion\<close>

text \<open>
  How the Redis client writes an argument: nil is the empty string, a boolean is 1 or 0, and an
  object or an array is refused.
\<close>

fun redis_arg :: "gval \<Rightarrow> string option" where
  "redis_arg GNil = Some []"
| "redis_arg (GString s) = Some s"
| "redis_arg (GInt i) = Some (FormatInt i)"
| "redis_arg (GBool b) = Some (if b then ''1'' else ''0'')"
| "redis_arg (GFloat f) = Some (FormatFloat_f f)"
| "redis_arg _ = None"

definition RPush_vals :: "'w redis_ops \<Rightarrow> string \<Rightarrow> gval list \<Rightarrow> ('w, go_error + unit) go" where
  "RPush_vals R key vs =
     (if list_all (\<lambda>v. redis_arg v \<noteq> None) vs then rRPush R key (map (\<lambda>v. the (redis_arg v)) vs)
      else go_return (Inl (Err ''redis: can't marshal argument'')))"

fun RedisInsert :: "'w redis_ops \<Rightarrow> gval \<Rightarrow> string \<Rightarrow> ('w, go_error + unit) go"
and insert_elems :: "'w redis_ops \<Rightarrow> string \<Rightarrow> nat \<Rightarrow> gval list \<Rightarrow> ('w, go_error + unit) go"
and insert_fields :: "'w redis_ops \<Rightarrow> string \<Rightarrow> gobj \<Rightarrow> ('w, unit) go"
where
  "RedisInsert R (GString value) key = rSet R key value"
| "RedisInsert R (GRedisArray isObject elements) key =
     (if isObject then insert_elems R key 0 elements else RPush_vals R key elements)"
| "RedisInsert R (GObj data) key =
     go_bind (insert_fields R key data) (\<lambda>_.
     go_must (rSAdd R key (map fst data)) (\<lambda>_. go_return (Inr ())))"
| "RedisInsert R GNil key = go_return (Inr ())"
| "RedisInsert R (GBool b) key = go_panic (''Unable to handle type of: '' @ gval_type_name (GBool b))"
| "RedisInsert R (GFloat f) key = go_panic (''Unable to handle type of: '' @ gval_type_name (GFloat f))"
| "RedisInsert R (GInt i) key = go_panic (''Unable to handle type of: '' @ gval_type_name (GInt i))"
| "RedisInsert R (GArr a) key = go_panic (''Unable to handle type of: '' @ gval_type_name (GArr a))"
| "insert_elems R key i [] = go_return (Inr ())"
| "insert_elems R key i (elementRaw # es) =
     go_check (rRPush R key [FormatInt (int i)]) (\<lambda>_.
       case elementRaw of
         GObj element \<Rightarrow>
           go_bind (RedisInsert R (GObj element) (key @ ''/'' @ FormatInt (int i)))
             (\<lambda>_. insert_elems R key (Suc i) es)
       | _ \<Rightarrow> go_panic ''interface conversion: interface {} is not map[string]interface {}'')"
| "insert_fields R key [] = go_return ()"
| "insert_fields R key ((name, propertyRaw) # data) =
     go_bind (RedisInsert R propertyRaw (key @ ''/'' @ name)) (\<lambda>_. insert_fields R key data)"

section \<open>Removal\<close>

text \<open>
  The recursion follows what the database holds, so the functions take fuel: \<open>NoFuel\<close> is never the
  outcome when the fuel is large enough, see \<open>removal_fuel\<close> below.
\<close>

fun redisRemoveField :: "'w redis_ops \<Rightarrow> nat \<Rightarrow> property option \<Rightarrow> string \<Rightarrow> ('w, unit) go"
and redisRemoveObject :: "'w redis_ops \<Rightarrow> nat \<Rightarrow> properties \<Rightarrow> string \<Rightarrow> ('w, unit) go"
and redisRemoveArray :: "'w redis_ops \<Rightarrow> nat \<Rightarrow> property option \<Rightarrow> string \<Rightarrow> ('w, unit) go"
where
  "redisRemoveField R 0 property keySpace = go_nofuel"
| "redisRemoveField R (Suc n) property keySpace =
     go_must (rType R keySpace) (\<lambda>keyType.
       if keyType = ''string'' then go_must (rDel R keySpace) (\<lambda>_. go_return ())
       else if keyType = ''set'' then
         (case property of
            None \<Rightarrow> redisRemoveObject R n [] keySpace
          | Some p \<Rightarrow> if pType p = PropLink \<and> p_IsNavLink (p_info p) then go_return ()
                      else redisRemoveObject R n (p_Properties p) keySpace)
       else if keyType = ''list'' then redisRemoveArray R n property keySpace
       else go_return ())"
| "redisRemoveObject R 0 properties keySpace = go_nofuel"
| "redisRemoveObject R (Suc n) properties keySpace =
     go_must (rSMembers R keySpace) (\<lambda>members.
     go_must (rDel R keySpace) (\<lambda>_.
       go_each (\<lambda>name. redisRemoveField R n (map_of properties name) (keySpace @ ''/'' @ name)) members))"
| "redisRemoveArray R 0 arrayProperty keySpace = go_nofuel"
| "redisRemoveArray R (Suc n) arrayProperty keySpace =
     go_bind
       (case arrayProperty of
          None \<Rightarrow> go_return ()
        | Some p \<Rightarrow> (case p_ArrayOf p of
            None \<Rightarrow> go_panic ''nil pointer dereference''
          | Some e \<Rightarrow>
              if isRedfishValueString (pType e) then go_return ()
              else go_must (rLRange R keySpace) (\<lambda>elements.
                go_each (\<lambda>element. redisRemoveObject R n (p_Properties e) (keySpace @ ''/'' @ element)) elements)))
       (\<lambda>_. go_bind (rDel R keySpace) (\<lambda>_. go_must (rDel R keySpace) (\<lambda>_. go_return ())))"

definition RedisRemoveResource :: "'w redis_ops \<Rightarrow> nat \<Rightarrow> resource \<Rightarrow> string \<Rightarrow> ('w, unit) go" where
  "RedisRemoveResource R n res uri = redisRemoveObject R n (r_Properties res) uri"

section \<open>Partial update\<close>

fun RedisPatch :: "'w redis_ops \<Rightarrow> nat \<Rightarrow> gval \<Rightarrow> string \<Rightarrow> ('w, go_error + unit) go"
and patch_fields :: "'w redis_ops \<Rightarrow> nat \<Rightarrow> string \<Rightarrow> gobj \<Rightarrow> ('w, unit) go"
where
  "RedisPatch R n (GString value) key = rSet R key value"
| "RedisPatch R n (GRedisArray isObject elements) key = go_panic ''PATCH operations are unsupported on arrays''"
| "RedisPatch R n (GObj data) key =
     go_bind (patch_fields R n key data) (\<lambda>_. go_return (Inr ()))"
| "RedisPatch R n GNil key = go_return (Inr ())"
| "RedisPatch R n (GBool b) key = go_panic (''Unable to handle type of: '' @ gval_type_name (GBool b))"
| "RedisPatch R n (GFloat f) key = go_panic (''Unable to handle type of: '' @ gval_type_name (GFloat f))"
| "RedisPatch R n (GInt i) key = go_panic (''Unable to handle type of: '' @ gval_type_name (GInt i))"
| "RedisPatch R n (GArr a) key = go_panic (''Unable to handle type of: '' @ gval_type_name (GArr a))"
| "patch_fields R n key [] = go_return ()"
| "patch_fields R n key ((name, propertyRaw) # data) =
     (let propertyKeySpace = key @ ''/'' @ name in
      go_bind
        (if propertyRaw = GNil then
           go_must (rSRem R key name) (\<lambda>_.
           go_must (rType R propertyKeySpace) (\<lambda>keyType.
             if keyType = ''string'' then go_must (rDel R propertyKeySpace) (\<lambda>_. go_return ())
             else if keyType = ''set'' then redisRemoveObject R n [] propertyKeySpace
             else go_return ()))
         else
           go_bind (RedisPatch R n propertyRaw propertyKeySpace) (\<lambda>_.
           go_must (rSAdd R key [name]) (\<lambda>_. go_return ())))
        (\<lambda>_. patch_fields R n key data))"

end
