(* ===== verification/Redis_Struct_Spec.thy ===== *)
theory Redis_Struct_Spec
  imports Redis_Struct_Write
begin

text \<open>
  What the write side promises. The flat form of an intermediate value under a key is the part of
  the database it occupies: a string key per simple value, a list per array, a set of field names
  per object. On a region of the keyspace that is empty, \<open>RedisInsert\<close> adds exactly the flat form.
\<close>

section \<open>Regions of the keyspace\<close>

definition under :: "string \<Rightarrow> string \<Rightarrow> bool" where
  "under base k \<longleftrightarrow> k = base \<or> HasPrefix k (base @ ''/'')"

definition fresh :: "string \<Rightarrow> rdb \<Rightarrow> bool" where
  "fresh base db \<longleftrightarrow> (\<forall>k. under base k \<longrightarrow> db k = None)"

lemma under_self [simp]: "under k k"
  by (simp add: under_def)

lemma under_iff: "under base k \<longleftrightarrow> k = base \<or> (\<exists>t. k = base @ CHR ''/'' # t)"
  by (auto simp: under_def HasPrefix_iff)

lemma under_trans: "under a b \<Longrightarrow> under b c \<Longrightarrow> under a c"
  by (auto simp: under_iff)

lemma under_child [simp]: "under key (key @ CHR ''/'' # n)"
  by (auto simp: under_iff)

lemma child_not_above [simp]: "\<not> under (key @ CHR ''/'' # n) key"
  by (auto simp: under_iff)

lemma no_slash_split:
  assumes "m @ CHR ''/'' # s = n @ CHR ''/'' # t" "CHR ''/'' \<notin> set m" "CHR ''/'' \<notin> set n"
  shows "m = n"
  by (metis Split1_append assms list.inject)

lemma sibling_disjoint:
  assumes "under (key @ CHR ''/'' # m) k" "under (key @ CHR ''/'' # n) k"
    and "CHR ''/'' \<notin> set m" "CHR ''/'' \<notin> set n"
  shows "m = n"
proof -
  obtain s where s: "k = (key @ CHR ''/'' # m) @ s" "s = [] \<or> hd s = CHR ''/''"
    using assms(1) by (auto simp: under_iff)
  obtain t where t: "k = (key @ CHR ''/'' # n) @ t" "t = [] \<or> hd t = CHR ''/''"
    using assms(2) by (auto simp: under_iff)
  have "m @ s = n @ t" using s(1) t(1) by simp
  then show ?thesis using s(2) t(2) assms(3,4) no_slash_split [of m _ n]
    by (cases s; cases t) (auto simp: append_eq_append_conv2 Cons_eq_append_conv)
qed

lemma fresh_mono: "fresh a db \<Longrightarrow> under a b \<Longrightarrow> fresh b db"
  unfolding fresh_def using under_trans by blast

section \<open>The flat form\<close>

fun wf_ival :: "gval \<Rightarrow> bool" where
  "wf_ival GNil \<longleftrightarrow> True"
| "wf_ival (GString s) \<longleftrightarrow> True"
| "wf_ival (GObj fs) \<longleftrightarrow> fs \<noteq> [] \<and> distinct (map fst fs) \<and>
     (\<forall>(n, v) \<in> set fs. CHR ''/'' \<notin> set n \<and> wf_ival v)"
| "wf_ival (GRedisArray b es) \<longleftrightarrow>
     (if b then (\<forall>e \<in> set es. is_GObj e \<and> wf_ival e) else list_all (\<lambda>e. redis_arg e \<noteq> None) es)"
| "wf_ival _ \<longleftrightarrow> False"

fun flat :: "string \<Rightarrow> gval \<Rightarrow> rdb"
and flat_elems :: "string \<Rightarrow> nat \<Rightarrow> gval list \<Rightarrow> rdb"
and flat_fields :: "string \<Rightarrow> gobj \<Rightarrow> rdb"
where
  "flat key (GString s) = Map.empty(key \<mapsto> RString s)"
| "flat key (GObj fs) = (flat_fields key fs)(key \<mapsto> RSet (set (map fst fs)))"
| "flat key (GRedisArray b es) =
     (if b then (flat_elems key 0 es)(key := norm_list (map (\<lambda>i. FormatInt (int i)) [0..<length es]))
      else Map.empty(key := norm_list (map (\<lambda>v. the (redis_arg v)) es)))"
| "flat key _ = Map.empty"
| "flat_elems key i [] = Map.empty"
| "flat_elems key i (e # es) = flat (key @ ''/'' @ FormatInt (int i)) e ++ flat_elems key (Suc i) es"
| "flat_fields key [] = Map.empty"
| "flat_fields key ((n, v) # fs) = flat (key @ ''/'' @ n) v ++ flat_fields key fs"

lemma flat_under:
  "flat key v k \<noteq> None \<Longrightarrow> under key k"
  "flat_elems key i es k \<noteq> None \<Longrightarrow> \<exists>j \<ge> i. j < i + length es \<and> under (key @ CHR ''/'' # FormatInt (int j)) k"
  "flat_fields key fs k \<noteq> None \<Longrightarrow> \<exists>n \<in> set (map fst fs). under (key @ CHR ''/'' # n) k"
proof (induction key v and key i es and key fs rule: flat_flat_elems_flat_fields.induct)
  case (3 key b es)
  then show ?case using under_trans [OF under_child] by (fastforce split: if_splits simp: norm_list_def)
next
  case (2 key fs)
  then show ?case using under_trans [OF under_child] by (fastforce split: if_splits)
next
  case (6 key i e es)
  then consider "flat (key @ ''/'' @ FormatInt (int i)) e k \<noteq> None" | "flat_elems key (Suc i) es k \<noteq> None"
    by (auto simp: map_add_def split: option.splits)
  then show ?case
  proof cases
    case 1
    then show ?thesis using 6(1) by (intro exI [of _ i]) simp
  next
    case 2
    then obtain j where "j \<ge> Suc i" "j < Suc i + length es" "under (key @ CHR ''/'' # FormatInt (int j)) k"
      using 6(2) by blast
    then show ?thesis by (intro exI [of _ j]) simp
  qed
next
  case (8 key n v fs)
  then show ?case by (fastforce simp: map_add_def split: option.splits)
qed (auto split: if_splits)

lemma flat_None: "\<not> under key k \<Longrightarrow> flat key v k = None"
  using flat_under(1) by blast

lemma flat_elems_None:
  "(\<And>j. i \<le> j \<Longrightarrow> j < i + length es \<Longrightarrow> \<not> under (key @ CHR ''/'' # FormatInt (int j)) k) \<Longrightarrow> flat_elems key i es k = None"
  using flat_under(2) by blast

lemma flat_fields_None:
  "(\<And>n. n \<in> set (map fst fs) \<Longrightarrow> \<not> under (key @ CHR ''/'' # n) k) \<Longrightarrow> flat_fields key fs k = None"
  using flat_under(3) by blast

lemma flat_self: "is_GObj v \<Longrightarrow> flat key v key \<noteq> None"
  by (cases v) auto

lemma flat_fields_self [simp]: "flat_fields key fs key = None"
  by (rule flat_fields_None) simp

lemma flat_elems_self [simp]: "flat_elems key i es key = None"
  by (rule flat_elems_None) simp

section \<open>Insertion adds the flat form\<close>

text \<open>The result of an insertion: pushing an empty array is an error of the server.\<close>

fun insert_result :: "gval \<Rightarrow> go_error + unit" where
  "insert_result (GRedisArray False []) = Inl (wrong_arity ''rpush'')"
| "insert_result _ = Inr ()"

lemma fresh_child_upd: "fresh (key @ CHR ''/'' # n) (db(key := x)) \<longleftrightarrow> fresh (key @ CHR ''/'' # n) db"
  unfolding fresh_def by (metis child_not_above fun_upd_other)

context redis_server
begin

lemma fresh_sibling:
  assumes "fresh (key @ CHR ''/'' # n) (view w)" "CHR ''/'' \<notin> set n" "CHR ''/'' \<notin> set m" "m \<noteq> n"
    and "view w' = view w ++ flat (key @ CHR ''/'' # m) v"
  shows "fresh (key @ CHR ''/'' # n) (view w')"
  unfolding fresh_def
proof (intro allI impI)
  fix k
  assume k: "under (key @ CHR ''/'' # n) k"
  then have "flat (key @ CHR ''/'' # m) v k = None"
    using flat_under(1) sibling_disjoint [OF _ k] assms(2-4) by blast
  then show "view w' k = None" using assms(1,5) k by (simp add: fresh_def map_add_def)
qed

lemma RPush_vals_ok:
  assumes "view w key = None" "list_all (\<lambda>e. redis_arg e \<noteq> None) es"
  shows "\<exists>w'. RPush_vals R key es w = (Ret (insert_result (GRedisArray False es)), w') \<and>
    view w' = view w ++ flat key (GRedisArray False es)"
proof (cases es)
  case Nil
  then show ?thesis using assms by (auto simp: RPush_vals_def rpush_nil norm_list_def map_add_def split: option.splits)
next
  case (Cons e es')
  let ?xs = "map (\<lambda>v. the (redis_arg v)) es"
  obtain w' where "rRPush R key ?xs w = (Ret (Inr ()), w')" "view w' = (view w)(key := Some (RList ?xs))"
    using rpush_ok [of ?xs w key "Some (RList ?xs)"] assms Cons by auto
  then show ?thesis using assms Cons
    by (intro exI [of _ w']) (auto simp: RPush_vals_def norm_list_def)
qed

lemma insert_flat:
  "wf_ival v \<Longrightarrow> fresh key (view w) \<Longrightarrow>
    \<exists>w'. RedisInsert R v key w = (Ret (insert_result v), w') \<and> view w' = view w ++ flat key v"
  "(\<forall>e \<in> set es. is_GObj e \<and> wf_ival e) \<Longrightarrow>
    (\<forall>j \<ge> i. fresh (key @ CHR ''/'' # FormatInt (int j)) (view w)) \<Longrightarrow>
    view w key = norm_list (map (\<lambda>i. FormatInt (int i)) [0..<i]) \<Longrightarrow>
    \<exists>w'. insert_elems R key i es w = (Ret (Inr ()), w') \<and>
      view w' = (view w ++ flat_elems key i es)
                  (key := norm_list (map (\<lambda>i. FormatInt (int i)) [0..<i + length es]))"
  "distinct (map fst fs) \<Longrightarrow> (\<forall>(n, v) \<in> set fs. CHR ''/'' \<notin> set n \<and> wf_ival v) \<Longrightarrow>
    (\<forall>n \<in> set (map fst fs). fresh (key @ CHR ''/'' # n) (view w)) \<Longrightarrow>
    \<exists>w'. insert_fields R key fs w = (Ret (), w') \<and> view w' = view w ++ flat_fields key fs"
proof (induction key v and key i es and key fs arbitrary: w and w and w
       rule: flat_flat_elems_flat_fields.induct)
  case (1 key s)
  show ?case by (rule set_ok [of key s w]) (auto simp: map_add_def fun_eq_iff)
next
  case (2 key fs)
  then have ch: "\<forall>n \<in> set (map fst fs). fresh (key @ CHR ''/'' # n) (view w)"
    using fresh_mono under_child by blast
  then obtain w1 where w1: "insert_fields R key fs w = (Ret (), w1)" "view w1 = view w ++ flat_fields key fs"
    using 2(1) [OF _ _ ch] 2(2) by auto
  have "view w key = None" using 2(3) by (simp add: fresh_def)
  then have "view w1 key = None" using w1(2) by (simp add: map_add_def)
  then obtain w2 where "rSAdd R key (map fst fs) w1 = (Ret (Inr ()), w2)"
    "view w2 = (view w1)(key := Some (RSet (set (map fst fs))))"
    using sadd_ok [of "map fst fs" w1 key "Some (RSet (set (map fst fs)))"] 2(2) by auto
  then show ?case using w1
    by (auto simp: go_bind_apply go_must_apply map_add_def fun_eq_iff split: option.splits)
next
  case (3 key b es)
  have none: "view w key = None" using 3(3) by (simp add: fresh_def)
  show ?case
  proof (cases b)
    case False
    then show ?thesis using RPush_vals_ok [OF none, of es] 3(2) by (simp add: fun_upd_def)
  next
    case True
    have "\<forall>j \<ge> 0. fresh (key @ CHR ''/'' # FormatInt (int j)) (view w)"
      using 3(3) fresh_mono under_child by blast
    then obtain w' where "insert_elems R key 0 es w = (Ret (Inr ()), w')"
      "view w' = (view w ++ flat_elems key 0 es)(key := norm_list (map (\<lambda>i. FormatInt (int i)) [0..<length es]))"
      using 3(1) [OF True, of w] 3(2) True none by (auto simp: norm_list_def fun_upd_def)
    then show ?thesis using True none
      by (auto simp: map_add_def fun_eq_iff split: option.splits)
  qed
next
  case (6 key i e es)
  let ?ix = "\<lambda>n. map (\<lambda>i. FormatInt (int i)) [0..<n]"
  let ?k = "key @ CHR ''/'' # FormatInt (int i)"
  obtain fs where e: "e = GObj fs" using 6(3) by (cases e) auto
  have "rpush_eff (view w key) [FormatInt (int i)] = Inr (Some (RList (?ix (Suc i))))"
    using 6(5) by (simp add: norm_list_def)
  then obtain w1 where w1: "rRPush R key [FormatInt (int i)] w = (Ret (Inr ()), w1)"
    "view w1 = (view w)(key := Some (RList (?ix (Suc i))))"
    using rpush_ok [of "[FormatInt (int i)]" w key "Some (RList (?ix (Suc i)))"] by auto
  have "fresh ?k (view w1)" using 6(4) w1(2) by (simp add: fresh_child_upd)
  then obtain w2 where w2: "RedisInsert R e ?k w1 = (Ret (insert_result e), w2)" "view w2 = view w1 ++ flat ?k e"
    using 6(1) [of w1] 6(3) by auto
  have "fresh (key @ CHR ''/'' # FormatInt (int j)) (view w2)" if "j \<ge> Suc i" for j
  proof (rule fresh_sibling [of _ _ w1 "FormatInt (int i)" w2 e])
    show "fresh (key @ CHR ''/'' # FormatInt (int j)) (view w1)"
      using 6(4) that w1(2) by (simp add: fresh_child_upd)
  qed (use that w2(2) in \<open>auto simp: FormatInt_no_slash\<close>)
  moreover have key: "view w2 key = norm_list (?ix (Suc i))"
    using w1(2) w2(2) flat_under(1) [of ?k e key] by (auto simp: map_add_def norm_list_def split: option.splits)
  ultimately obtain w3 where w3: "insert_elems R key (Suc i) es w2 = (Ret (Inr ()), w3)"
    "view w3 = (view w2 ++ flat_elems key (Suc i) es)(key := norm_list (?ix (Suc i + length es)))"
    using 6(2) [of w2] 6(3) by (auto simp: fun_upd_def)
  have "flat ?k e key = None" using flat_under(1) [of ?k e key] child_not_above by blast
  then have "view w3 = (view w ++ flat_elems key i (e # es))(key := norm_list (?ix (i + length (e # es))))"
    using w1(2) w2(2) w3(2) by (auto simp: map_add_def fun_eq_iff split: option.splits)
  then show ?case using w1 w2 w3 e by (auto simp: go_check_apply go_bind_apply)
next
  case (8 key n v fs)
  obtain w1 where w1: "RedisInsert R v (key @ CHR ''/'' # n) w = (Ret (insert_result v), w1)"
    "view w1 = view w ++ flat (key @ CHR ''/'' # n) v" using 8(1) [of w] 8(4,5) by auto
  have "fresh (key @ CHR ''/'' # m) (view w1)" if "m \<in> set (map fst fs)" for m
  proof (rule fresh_sibling [of _ _ w n w1 v])
    show "CHR ''/'' \<notin> set m" using 8(4) that by auto
  qed (use that 8(3-5) w1(2) in auto)
  then obtain w2 where "insert_fields R key fs w1 = (Ret (), w2)" "view w2 = view w1 ++ flat_fields key fs"
    using 8(2) [of w1] 8(3,4) by auto
  then show ?case using w1 by (auto simp: go_bind_apply)
qed auto

end

end
