(* ===== verification/Redis_Struct_Remove.thy ===== *)
theory Redis_Struct_Remove
  imports Redis_Struct_Spec
begin

text \<open>
  The removal of a resource: the functions return on every database once the fuel exceeds a bound
  given by the length of its longest key, and they undo an insertion.
\<close>

section \<open>Removal undoes insertion\<close>

definition clear :: "string \<Rightarrow> rdb \<Rightarrow> rdb" where
  "clear key db = (\<lambda>k. if under key k then None else db k)"

lemma clear_upd [simp]: "(clear key db)(key := None) = clear key db"
  by (auto simp: clear_def)

fun vdepth :: "gval \<Rightarrow> nat" where
  "vdepth (GObj fs) = Suc (fold max (map (\<lambda>(n, v). vdepth v) fs) 0)"
| "vdepth (GRedisArray b es) = Suc (fold max (map vdepth es) 0)"
| "vdepth _ = 0"

text \<open>
  The values whose keys the removal finds with the schema: it needs the schema to follow an array
  of objects, and it does not enter the resource behind a navigation link.
\<close>

fun removable :: "property option \<Rightarrow> gval \<Rightarrow> bool" where
  "removable po (GObj fs) \<longleftrightarrow>
     (case po of
        None \<Rightarrow> (\<forall>(n, v) \<in> set fs. removable None v)
      | Some p \<Rightarrow> \<not> (pType p = PropLink \<and> p_IsNavLink (p_info p)) \<and>
          (\<forall>(n, v) \<in> set fs. removable (map_of (p_Properties p) n) v))"
| "removable po (GRedisArray b es) \<longleftrightarrow>
     (case po of
        None \<Rightarrow> \<not> b
      | Some p \<Rightarrow> (case p_ArrayOf p of
            None \<Rightarrow> False
          | Some e \<Rightarrow> (b \<longleftrightarrow> \<not> isRedfishValueString (pType e)) \<and>
              (b \<longrightarrow> (\<forall>x \<in> set es. removable (Some e) x))))"
| "removable po _ \<longleftrightarrow> True"

lemma fold_max_init: "(a::nat) \<le> fold max xs a"
  by (induction xs arbitrary: a) (auto intro: order_trans [OF max.cobounded2])

lemma fold_max_ge: "(x::nat) \<in> set xs \<Longrightarrow> x \<le> fold max xs a"
proof (induction xs arbitrary: a)
  case (Cons y xs)
  then show ?case using fold_max_init [of "max y a" xs] by auto
qed simp

lemma vdepth_field:
  assumes "(n, v) \<in> set fs"
  shows "vdepth v < vdepth (GObj fs)"
proof -
  have "vdepth v \<in> set (map (\<lambda>(n, v). vdepth v) fs)" using imageI [OF assms, of "\<lambda>(n, v). vdepth v"] by simp
  then show ?thesis using fold_max_ge by (simp add: less_Suc_eq_le del: set_map)
qed

lemma vdepth_elem:
  assumes "v \<in> set es"
  shows "vdepth v < vdepth (GRedisArray b es)"
proof -
  have "vdepth v \<in> set (map vdepth es)" using assms by simp
  then show ?thesis using fold_max_ge by (simp add: less_Suc_eq_le del: set_map)
qed

lemma flat_fields_at:
  assumes "distinct (map fst fs)" "\<forall>n \<in> set (map fst fs). CHR ''/'' \<notin> set n"
    and "(n, v) \<in> set fs" "under (key @ CHR ''/'' # n) k"
  shows "flat_fields key fs k = flat (key @ CHR ''/'' # n) v k"
  using assms
proof (induction fs)
  case (Cons f fs)
  obtain m u where f: "f = (m, u)" by fastforce
  have "n \<in> set (map fst (f # fs))" using image_eqI [OF _ Cons.prems(3), of n fst] by simp
  then have ns: "CHR ''/'' \<notin> set n" using Cons.prems(2) by blast
  show ?case
  proof (cases "m = n")
    case True
    have "\<not> under (key @ CHR ''/'' # m') k" if "m' \<in> set (map fst fs)" for m'
    proof
      assume "under (key @ CHR ''/'' # m') k"
      moreover have "CHR ''/'' \<notin> set m'" using Cons.prems(2) that by auto
      ultimately have "m' = n" using sibling_disjoint [OF _ Cons.prems(4)] ns by blast
      then show False using that Cons.prems(1) f True by simp
    qed
    then have "flat_fields key fs k = None" using flat_under(3) by blast
    moreover have "u = v" using True f Cons.prems(1,3) by force
    ultimately show ?thesis using True f by (simp add: map_add_def)
  next
    case False
    then have "\<not> under (key @ CHR ''/'' # m) k"
      using sibling_disjoint [OF _ Cons.prems(4), of m] ns Cons.prems(2) f by auto
    then have "flat (key @ CHR ''/'' # m) u k = None" using flat_under(1) by blast
    then show ?thesis using False f Cons by (auto simp: map_add_def split: option.splits)
  qed
qed simp

lemma flat_elems_at:
  assumes "i \<le> j" "j < i + length es" "under (key @ CHR ''/'' # FormatInt (int j)) k"
  shows "flat_elems key i es k = flat (key @ CHR ''/'' # FormatInt (int j)) (es ! (j - i)) k"
  using assms
proof (induction es arbitrary: i)
  case (Cons e es)
  show ?case
  proof (cases "i = j")
    case True
    have "\<not> under (key @ CHR ''/'' # FormatInt (int m)) k" if "m \<ge> Suc i" for m
    proof
      assume "under (key @ CHR ''/'' # FormatInt (int m)) k"
      then have "FormatInt (int m) = FormatInt (int j)"
        using sibling_disjoint [OF _ Cons.prems(3)] by (simp add: FormatInt_no_slash)
      then show False using that True by simp
    qed
    then have "flat_elems key (Suc i) es k = None" using flat_under(2) by blast
    then show ?thesis using True by (simp add: map_add_def)
  next
    case False
    then have "\<not> under (key @ CHR ''/'' # FormatInt (int i)) k"
      using sibling_disjoint [OF _ Cons.prems(3), of "FormatInt (int i)"] by (auto simp: FormatInt_no_slash)
    then have "flat (key @ CHR ''/'' # FormatInt (int i)) e k = None" using flat_under(1) by blast
    moreover have "es ! (j - Suc i) = (e # es) ! (j - i)" using False Cons.prems(1) by (simp add: nth_Cons')
    ultimately show ?thesis using False Cons.IH [of "Suc i"] Cons.prems
      by (auto simp: map_add_def split: option.splits)
  qed
qed simp

text \<open>A loop that clears one child region after another clears all of them.\<close>

lemma clear_each:
  assumes step: "\<And>x w. x \<in> set xs \<Longrightarrow> (\<forall>k. under (key @ CHR ''/'' # x) k \<longrightarrow> view w k = db k) \<Longrightarrow>
      \<exists>w'. f x w = (Ret (), w') \<and> view w' = clear (key @ CHR ''/'' # x) (view w)"
    and "distinct xs" "\<forall>x \<in> set xs. CHR ''/'' \<notin> set x"
    and "\<forall>x \<in> set xs. \<forall>k. under (key @ CHR ''/'' # x) k \<longrightarrow> view w k = db k"
  shows "\<exists>w'. go_each f xs w = (Ret (), w') \<and>
      view w' = (\<lambda>k. if \<exists>x \<in> set xs. under (key @ CHR ''/'' # x) k then None else view w k)"
  using assms
proof (induction xs arbitrary: w)
  case (Cons x xs)
  obtain w1 where w1: "f x w = (Ret (), w1)" "view w1 = clear (key @ CHR ''/'' # x) (view w)"
    using Cons.prems(1) [of x w] Cons.prems(4) by auto
  have "view w1 k = db k" if "y \<in> set xs" "under (key @ CHR ''/'' # y) k" for y k
  proof -
    have "\<not> under (key @ CHR ''/'' # x) k"
      using sibling_disjoint [OF _ that(2), of x] Cons.prems(2,3) that(1) by auto
    then show ?thesis using w1(2) Cons.prems(4) that by (simp add: clear_def)
  qed
  then obtain w2 where "go_each f xs w1 = (Ret (), w2)"
    "view w2 = (\<lambda>k. if \<exists>x \<in> set xs. under (key @ CHR ''/'' # x) k then None else view w1 k)"
    using Cons.IH [of w1] Cons.prems(1-3) by auto
  then show ?case using w1 by (auto simp: go_bind_apply clear_def fun_eq_iff)
qed auto

context redis_server
begin

lemma removeField_set:
  assumes "view w k = Some (RSet S)" "\<not> (pType p = PropLink \<and> p_IsNavLink (p_info p))"
  shows "redisRemoveField R (Suc n) (Some p) k w = redisRemoveObject R n (p_Properties p) k w"
  using assms by (auto simp: go_must_apply type_law)

lemma remove_object_step:
  assumes "wf_ival (GObj fs)" "2 * vdepth (GObj fs) \<le> n"
    and "\<forall>k. under key k \<longrightarrow> view w k = flat key (GObj fs) k"
    and IH: "\<And>name v m w. (name, v) \<in> set fs \<Longrightarrow> 2 * vdepth v + 1 \<le> m \<Longrightarrow>
      (\<forall>k. under (key @ CHR ''/'' # name) k \<longrightarrow> view w k = flat (key @ CHR ''/'' # name) v k) \<Longrightarrow>
      \<exists>w'. redisRemoveField R m (map_of props name) (key @ CHR ''/'' # name) w = (Ret (), w') \<and>
           view w' = clear (key @ CHR ''/'' # name) (view w)"
  shows "\<exists>w'. redisRemoveObject R n props key w = (Ret (), w') \<and> view w' = clear key (view w)"
proof -
  obtain m where n: "n = Suc m" "2 * fold max (map (\<lambda>(n, v). vdepth v) fs) 0 + 1 \<le> m"
    using assms(2) by (cases n) auto
  have names: "\<forall>n \<in> set (map fst fs). CHR ''/'' \<notin> set n" "distinct (map fst fs)"
    using assms(1) by auto
  have set: "view w key = Some (RSet (set (map fst fs)))" using assms(3) by simp
  then obtain xs where xs: "rSMembers R key w = (Ret (Inr xs), w)" "set xs = set (map fst fs)" "distinct xs"
    using smembers_some by blast
  obtain w1 where w1: "rDel R key w = (Ret (Inr ()), w1)" "view w1 = (view w)(key := None)"
    using del_ok by blast
  have region: "view w1 k = flat (key @ CHR ''/'' # name) v k"
    if "(name, v) \<in> set fs" "under (key @ CHR ''/'' # name) k" for name v k
  proof -
    have "k \<noteq> key" "under key k" using that(2) under_trans [OF under_child] by auto
    then have "view w1 k = flat_fields key fs k" using w1(2) assms(3) by simp
    then show ?thesis using flat_fields_at [OF names(2,1) that] by simp
  qed
  have "\<exists>w'. go_each (\<lambda>name. redisRemoveField R m (map_of props name) (key @ CHR ''/'' # name)) xs w1 = (Ret (), w') \<and>
     view w' = (\<lambda>k. if \<exists>x \<in> set xs. under (key @ CHR ''/'' # x) k then None else view w1 k)"
  proof (rule clear_each [where db = "view w1"])
    fix x w'
    assume x: "x \<in> set xs" and eq: "\<forall>k. under (key @ CHR ''/'' # x) k \<longrightarrow> view w' k = view w1 k"
    obtain v where v: "(x, v) \<in> set fs" using x xs(2) by auto
    have "2 * vdepth v + 1 \<le> m" using vdepth_field [OF v] n(2) by simp
    then show "\<exists>w''. redisRemoveField R m (map_of props x) (key @ CHR ''/'' # x) w' = (Ret (), w'') \<and>
        view w'' = clear (key @ CHR ''/'' # x) (view w')"
      using IH [OF v] eq region [OF v] by simp
  qed (use xs names in auto)
  then obtain w2 where w2: "go_each (\<lambda>name. redisRemoveField R m (map_of props name) (key @ CHR ''/'' # name)) xs w1 = (Ret (), w2)"
     "view w2 = (\<lambda>k. if \<exists>x \<in> set xs. under (key @ CHR ''/'' # x) k then None else view w1 k)" by blast
  have "view w2 = clear key (view w)"
  proof
    fix k
    have "view w k = None" if "under key k" "k \<noteq> key" "\<not> (\<exists>x \<in> set xs. under (key @ CHR ''/'' # x) k)"
      using flat_fields_None [of fs key k] that assms(3) xs(2) by auto
    moreover have "under key k" if "x \<in> set xs" "under (key @ CHR ''/'' # x) k" for x
      using under_trans [OF under_child that(2)] .
    ultimately show "view w2 k = clear key (view w) k"
      using w2(2) w1(2) by (auto simp: clear_def)
  qed
  then show ?thesis using n xs(1) w1(1) w2(1) by (simp add: go_must_apply)
qed

lemma remove_array_step:
  assumes "wf_ival (GRedisArray b es)" "2 * vdepth (GRedisArray b es) \<le> n"
    and "b \<longleftrightarrow> \<not> isRedfishValueString (pType e)" "p_ArrayOf p = Some e"
    and "\<forall>k. under key k \<longrightarrow> view w k = flat key (GRedisArray b es) k"
    and IH: "\<And>i m w. b \<Longrightarrow> i < length es \<Longrightarrow> 2 * vdepth (es ! i) \<le> m \<Longrightarrow>
      (\<forall>k. under (key @ CHR ''/'' # FormatInt (int i)) k \<longrightarrow> view w k = flat (key @ CHR ''/'' # FormatInt (int i)) (es ! i) k) \<Longrightarrow>
      \<exists>w'. redisRemoveObject R m (p_Properties e) (key @ CHR ''/'' # FormatInt (int i)) w = (Ret (), w') \<and>
           view w' = clear (key @ CHR ''/'' # FormatInt (int i)) (view w)"
  shows "\<exists>w'. redisRemoveArray R n (Some p) key w = (Ret (), w') \<and> view w' = clear key (view w)"
proof -
  let ?xs = "map (\<lambda>i. FormatInt (int i)) [0..<length es]"
  obtain m where n: "n = Suc m" "2 * fold max (map vdepth es) 0 + 1 \<le> m"
    using assms(2) by (cases n) auto
  let ?body = "go_each (\<lambda>el. redisRemoveObject R m (p_Properties e) (key @ CHR ''/'' # el)) ?xs"
  have "\<exists>w1. (if isRedfishValueString (pType e) then go_return () else go_must (rLRange R key) (\<lambda>els.
        go_each (\<lambda>el. redisRemoveObject R m (p_Properties e) (key @ CHR ''/'' # el)) els)) w = (Ret (), w1) \<and>
      (view w1)(key := None) = clear key (view w)"
  proof (cases b)
    case False
    then show ?thesis using assms(3,5) by (auto simp: clear_def fun_eq_iff)
  next
    case True
    have "view w key = norm_list ?xs" using assms(5) True by simp
    then have lr: "rLRange R key w = (Ret (Inr ?xs), w)" by (auto simp: lrange_law norm_list_def)
    have region: "view w k = flat (key @ CHR ''/'' # FormatInt (int i)) (es ! i) k"
      if "i < length es" "under (key @ CHR ''/'' # FormatInt (int i)) k" for i k
    proof -
      have "k \<noteq> key" "under key k" using that(2) under_trans [OF under_child] by auto
      then show ?thesis using assms(5) True flat_elems_at [of 0 i es key k] that by simp
    qed
    have "\<exists>w1. ?body w = (Ret (), w1) \<and>
       view w1 = (\<lambda>k. if \<exists>x \<in> set ?xs. under (key @ CHR ''/'' # x) k then None else view w k)"
    proof (rule clear_each [where db = "view w"])
      fix x w'
      assume x: "x \<in> set ?xs" and eq: "\<forall>k. under (key @ CHR ''/'' # x) k \<longrightarrow> view w' k = view w k"
      obtain i where i: "i < length es" "x = FormatInt (int i)" using x by auto
      have "2 * vdepth (es ! i) \<le> m" using vdepth_elem [of "es ! i" es b] n(2) i(1) by simp
      then show "\<exists>w''. redisRemoveObject R m (p_Properties e) (key @ CHR ''/'' # x) w' = (Ret (), w'') \<and>
          view w'' = clear (key @ CHR ''/'' # x) (view w')"
        using IH [OF True i(1)] eq region [OF i(1)] i(2) by simp
    qed (auto simp: distinct_map inj_on_def FormatInt_no_slash)
    then obtain w1 where w1: "?body w = (Ret (), w1)"
       "view w1 = (\<lambda>k. if \<exists>x \<in> set ?xs. under (key @ CHR ''/'' # x) k then None else view w k)" by blast
    have "((view w1)(key := None)) k = clear key (view w) k" for k
    proof -
      have "view w k = None"
        if "under key k" "k \<noteq> key" "\<not> (\<exists>x \<in> set ?xs. under (key @ CHR ''/'' # x) k)"
        using flat_elems_None [of 0 es key k] that assms(5) True by auto
      moreover have "under key k" if "under (key @ CHR ''/'' # x) k" for x
        using under_trans [OF under_child that] .
      ultimately show ?thesis using w1(2) by (auto simp: clear_def)
    qed
    then show ?thesis using True lr w1(1) assms(3) by (auto simp: go_must_apply)
  qed
  then obtain w1 where w1: "(if isRedfishValueString (pType e) then go_return () else go_must (rLRange R key) (\<lambda>els.
        go_each (\<lambda>el. redisRemoveObject R m (p_Properties e) (key @ CHR ''/'' # el)) els)) w = (Ret (), w1)"
      "(view w1)(key := None) = clear key (view w)" by blast
  obtain w2 where w2: "rDel R key w1 = (Ret (Inr ()), w2)" "view w2 = (view w1)(key := None)"
    using del_ok by blast
  obtain w3 where w3: "rDel R key w2 = (Ret (Inr ()), w3)" "view w3 = (view w2)(key := None)"
    using del_ok by blast
  define body where "body = (if isRedfishValueString (pType e) then go_return () else go_must (rLRange R key) (\<lambda>els.
        go_each (\<lambda>el. redisRemoveObject R m (p_Properties e) (key @ CHR ''/'' # el)) els))"
  have "redisRemoveArray R n (Some p) key =
      go_bind body (\<lambda>_. go_bind (rDel R key) (\<lambda>_. go_must (rDel R key) (\<lambda>_. go_return ())))"
    using assms(4) n(1) by (simp add: body_def)
  then have "redisRemoveArray R n (Some p) key w = (Ret (), w3)"
    using w1(1) w2(1) w3(1) by (simp add: body_def [symmetric] go_bind_apply go_must_apply)
  then show ?thesis using w1(2) w2(2) w3(2) by simp
qed

lemma remove_flat:
  "wf_ival v \<Longrightarrow> removable po v \<Longrightarrow> 2 * vdepth v + 1 \<le> n \<Longrightarrow>
    (\<forall>k. under key k \<longrightarrow> view w k = flat key v k) \<Longrightarrow>
    \<exists>w'. redisRemoveField R n po key w = (Ret (), w') \<and> view w' = clear key (view w)"
proof (induction v arbitrary: po n key w)
  case GNil
  then have "view w = clear key (view w)" by (auto simp: clear_def)
  moreover have "view w key = None" using GNil(4) by simp
  ultimately show ?case using GNil(3) by (cases n) (simp_all add: go_must_apply type_law)
next
  case (GString s)
  then have "(view w)(key := None) = clear key (view w)" by (auto simp: clear_def)
  moreover obtain w' where "rDel R key w = (Ret (Inr ()), w')" "view w' = (view w)(key := None)"
    using del_ok by blast
  moreover have "view w key = Some (RString s)" using GString(4) by simp
  ultimately show ?case using GString(3) by (cases n) (simp_all add: go_must_apply type_law)
next
  case (GObj fs)
  obtain m where n: "n = Suc m" "2 * vdepth (GObj fs) \<le> m" using GObj(4) by (cases n) auto
  define props where "props = (case po of None \<Rightarrow> [] | Some p \<Rightarrow> p_Properties p)"
  have rem: "removable (map_of props name) v" "wf_ival v" if "(name, v) \<in> set fs" for name v
    using GObj(2,3) that by (auto simp: props_def split: option.splits)
  have "\<exists>w'. redisRemoveObject R m props key w = (Ret (), w') \<and> view w' = clear key (view w)"
    by (rule remove_object_step [OF GObj(2) n(2) GObj(5)], rule GObj(1)) (use rem in auto)
  moreover have "view w key = Some (RSet (set (map fst fs)))" using GObj(5) by simp
  ultimately show ?case using GObj(3) n(1)
    by (auto simp: go_must_apply type_law props_def split: option.splits)
next
  case (GRedisArray b es)
  obtain m where n: "n = Suc m" "2 * vdepth (GRedisArray b es) \<le> m" using GRedisArray(4) by (cases n) auto
  show ?case
  proof (cases "view w key")
    case None
    then have "es = []" using GRedisArray(5) by (auto simp: norm_list_def split: if_splits)
    then have "view w = clear key (view w)"
      using GRedisArray(5) by (auto simp: clear_def norm_list_def split: if_splits)
    then show ?thesis using None n(1) by (auto simp: go_must_apply type_law)
  next
    case (Some r)
    then obtain xs where xs: "view w key = Some (RList xs)"
      using GRedisArray(5) by (auto simp: norm_list_def split: if_splits)
    have "\<exists>w'. redisRemoveArray R m po key w = (Ret (), w') \<and> view w' = clear key (view w)"
    proof (cases po)
      case None
      then have "\<not> b" using GRedisArray(3) by simp
      then have cl: "(view w)(key := None) = clear key (view w)" using GRedisArray(5) by (auto simp: clear_def)
      obtain m' where m: "m = Suc m'" using n(2) by (cases m) auto
      obtain w1 where w1: "rDel R key w = (Ret (Inr ()), w1)" "view w1 = (view w)(key := None)"
        using del_ok by blast
      obtain w2 where w2: "rDel R key w1 = (Ret (Inr ()), w2)" "view w2 = (view w1)(key := None)"
        using del_ok by blast
      show ?thesis using w1 w2 m None cl
        by (intro exI [of _ w2]) (simp add: go_bind_apply go_must_apply)
    next
      case (Some p)
      then obtain e where e: "p_ArrayOf p = Some e" "b \<longleftrightarrow> \<not> isRedfishValueString (pType e)"
        "b \<Longrightarrow> \<forall>x \<in> set es. removable (Some e) x"
        using GRedisArray(3) by (auto split: option.splits)
      show ?thesis unfolding Some
      proof (rule remove_array_step [OF GRedisArray(2) n(2) e(2,1) GRedisArray(5)])
        fix i m' w'
        assume b: "b" and i: "i < length es" and m': "2 * vdepth (es ! i) \<le> m'"
          and eq: "\<forall>k. under (key @ CHR ''/'' # FormatInt (int i)) k \<longrightarrow>
                     view w' k = flat (key @ CHR ''/'' # FormatInt (int i)) (es ! i) k"
        let ?k = "key @ CHR ''/'' # FormatInt (int i)"
        have in_es: "es ! i \<in> set es" using i by simp
        then have el: "is_GObj (es ! i)" "wf_ival (es ! i)" "removable (Some e) (es ! i)"
          using GRedisArray(2) b e(3) by simp_all
        then obtain fs where fs: "es ! i = GObj fs" "wf_ival (GObj fs)" "removable (Some e) (GObj fs)"
          by (metis is_GObj_def)
        obtain w'' where w'': "redisRemoveField R (Suc m') (Some e) ?k w' = (Ret (), w'')"
          "view w'' = clear ?k (view w')"
          using GRedisArray(1) [OF in_es, of "Some e" "Suc m'" ?k w'] fs m' eq by auto
        have sv: "view w' ?k = Some (RSet (set (map fst fs)))" using eq fs(1) by simp
        have nav: "\<not> (pType e = PropLink \<and> p_IsNavLink (p_info e))" using fs(3) by auto
        show "\<exists>w''. redisRemoveObject R m' (p_Properties e) ?k w' = (Ret (), w'') \<and>
            view w'' = clear ?k (view w')"
          using w'' unfolding removeField_set [OF sv nav] by blast
      qed
    qed
    then show ?thesis using xs n(1) by (auto simp: go_must_apply type_law)
  qed
qed auto

end
section \<open>Enough fuel\<close>

text \<open>No key of the database is longer than \<open>L\<close>. A level of the recursion lengthens the key.\<close>

definition keys_upto :: "nat \<Rightarrow> rdb \<Rightarrow> bool" where
  "keys_upto L db \<longleftrightarrow> (\<forall>k. db k \<noteq> None \<longrightarrow> length k \<le> L)"

text \<open>A program that does not run out of fuel and only removes keys.\<close>

definition shrinks :: "('w \<Rightarrow> rdb) \<Rightarrow> ('w, 'a) go \<Rightarrow> 'w \<Rightarrow> bool" where
  "shrinks view m w \<longleftrightarrow> fst (m w) \<noteq> NoFuel \<and> view (snd (m w)) \<subseteq>\<^sub>m view w"

lemma keys_upto_le: "keys_upto L db \<Longrightarrow> db' \<subseteq>\<^sub>m db \<Longrightarrow> keys_upto L db'"
  unfolding keys_upto_def map_le_def by (metis domIff)

lemma shrinks_return [simp]: "shrinks view (go_return a) w"
  by (simp add: shrinks_def)

lemma shrinks_panic [simp]: "shrinks view (go_panic s) w"
  by (simp add: shrinks_def)

lemma shrinks_bind:
  assumes "shrinks view m w" "\<And>a w'. m w = (Ret a, w') \<Longrightarrow> view w' \<subseteq>\<^sub>m view w \<Longrightarrow> shrinks view (f a) w'"
  shows "shrinks view (go_bind m f) w"
proof (cases "m w")
  case (Pair r w')
  show ?thesis
  proof (cases r)
    case (Ret a)
    then have "shrinks view (f a) w'" "view w' \<subseteq>\<^sub>m view w"
      using assms Pair by (auto simp: shrinks_def)
    then show ?thesis using Pair Ret map_le_trans by (auto simp: shrinks_def go_bind_apply)
  qed (use assms(1) Pair in \<open>auto simp: shrinks_def go_bind_apply\<close>)
qed

lemma shrinks_must:
  assumes "shrinks view m w" "\<And>a w'. m w = (Ret (Inr a), w') \<Longrightarrow> view w' \<subseteq>\<^sub>m view w \<Longrightarrow> shrinks view (f a) w'"
  shows "shrinks view (go_must m f) w"
  unfolding go_must_def by (rule shrinks_bind) (use assms in \<open>auto split: sum.splits\<close>)

lemma shrinks_each:
  assumes "\<And>x w'. x \<in> set xs \<Longrightarrow> view w' \<subseteq>\<^sub>m view w \<Longrightarrow> shrinks view (f x) w'"
  shows "shrinks view (go_each f xs) w"
  using assms
proof (induction xs arbitrary: w)
  case (Cons x xs)
  have "shrinks view (go_each f xs) w'" if "view w' \<subseteq>\<^sub>m view w" for w'
    by (rule Cons.IH) (meson Cons.prems list.set_intros map_le_trans that)
  then show ?case using Cons.prems by (auto intro!: shrinks_bind)
qed simp

context redis_server
begin

lemma shrinks_type: "shrinks view (rType R k) w"
  by (simp add: shrinks_def type_law)

lemma shrinks_smembers: "shrinks view (rSMembers R k) w"
proof (cases "set_result (view w k)")
  case (Inl e)
  then show ?thesis by (simp add: shrinks_def smembers_err)
next
  case (Inr S)
  then show ?thesis using smembers_ok [of w k S] by (auto simp: shrinks_def)
qed

lemma shrinks_lrange: "shrinks view (rLRange R k) w"
  by (simp add: shrinks_def lrange_law)

lemma shrinks_del: "shrinks view (rDel R k) w"
  by (rule del_ok [of k w]) (auto simp: shrinks_def map_le_def)

lemmas shrinks_intros = shrinks_type shrinks_smembers shrinks_lrange shrinks_del

lemma removal_shrinks:
  "keys_upto L (view w) \<Longrightarrow> 2 * (L + 1 - length key) + 1 \<le> n \<Longrightarrow> shrinks view (redisRemoveField R n po key) w"
  "keys_upto L (view w) \<Longrightarrow> 2 * (L + 1 - length key) \<le> n \<Longrightarrow> 1 \<le> n \<Longrightarrow> shrinks view (redisRemoveObject R n props key) w"
  "keys_upto L (view w) \<Longrightarrow> 2 * (L + 1 - length key) \<le> n \<Longrightarrow> length key \<le> L \<Longrightarrow> shrinks view (redisRemoveArray R n po key) w"
proof (induction n arbitrary: w key po props)
  case (Suc n)
  {
    case 1
    show ?case
    proof (cases "view w key")
      case None
      then show ?thesis by (simp add: shrinks_def go_must_apply type_law)
    next
      case (Some v)
      then have "length key \<le> L" using 1 by (simp add: keys_upto_def)
      then have "shrinks view (redisRemoveObject R n props key) w'" "shrinks view (redisRemoveArray R n po key) w'"
        if "view w' \<subseteq>\<^sub>m view w" for w' props
        using Suc.IH(2,3) [OF keys_upto_le [OF 1(1) that]] 1(2) by auto
      then show ?thesis
        by (auto intro!: shrinks_must shrinks_intros split: option.splits)
    qed
  next
    case 2
    show ?case
    proof (cases "view w key")
      case None
      then show ?thesis using shrinks_del [of key w]
        by (auto simp: smembers_none intro!: shrinks_must shrinks_intros)
    next
      case (Some v)
      then have l: "length key \<le> L" using 2 by (simp add: keys_upto_def)
      have "shrinks view (redisRemoveField R n (map_of props name) (key @ CHR ''/'' # name)) w'"
        if "view w' \<subseteq>\<^sub>m view w" for w' name
        by (rule Suc.IH(1) [OF keys_upto_le [OF 2(1) that]]) (use 2(2) l in auto)
      note field = this
      show ?thesis
        by (auto intro!: shrinks_must shrinks_intros shrinks_each field) (meson map_le_trans)
    qed
  next
    case 3
    have "shrinks view (redisRemoveObject R n props (key @ CHR ''/'' # name)) w'"
      if "view w' \<subseteq>\<^sub>m view w" for w' name props
      by (rule Suc.IH(2) [OF keys_upto_le [OF 3(1) that]]) (use 3(2,3) in auto)
    note object = this
    show ?case
      by (auto intro!: shrinks_bind shrinks_must shrinks_intros shrinks_each object
          split: option.splits) (meson map_le_trans)
  }
qed (auto simp: shrinks_def)

end

section \<open>Databases on which removal succeeds\<close>

text \<open>
  The types that the removal relies on: where the schema has an object, the database has a set or
  nothing; a list is stored only for an array, and the elements of an array of objects are objects.
  Nothing is asked of fields that the schema does not know.
\<close>

inductive fits_object :: "rdb \<Rightarrow> properties \<Rightarrow> string \<Rightarrow> bool" and fits_field :: "rdb \<Rightarrow> property \<Rightarrow> string \<Rightarrow> bool" for db where
  fits_absent: "db key = None \<Longrightarrow> fits_object db ps key"
| fits_members: "db key = Some (RSet S) \<Longrightarrow> \<forall>n \<in> S. \<forall>p. map_of ps n = Some p \<longrightarrow> fits_field db p (key @ CHR ''/'' # n) \<Longrightarrow>
    fits_object db ps key"
| fits_typed: "\<forall>S. db key = Some (RSet S) \<longrightarrow> pType p = PropLink \<and> p_IsNavLink (p_info p) \<or> fits_object db (p_Properties p) key \<Longrightarrow>
    \<forall>xs. db key = Some (RList xs) \<longrightarrow> (\<exists>e. p_ArrayOf p = Some e \<and>
      (isRedfishValueString (pType e) \<or> (\<forall>x \<in> set xs. fits_object db (p_Properties e) (key @ CHR ''/'' # x)))) \<Longrightarrow>
    fits_field db p key"

inductive_cases fits_objectE: "fits_object db ps key"
inductive_cases fits_fieldE: "fits_field db p key"

lemma map_le_cases: "db' \<subseteq>\<^sub>m db \<Longrightarrow> db' k = None \<or> db' k = db k"
  unfolding map_le_def by (metis domIff)

text \<open>Removing keys keeps the types.\<close>

lemma fits_le:
  assumes "db' \<subseteq>\<^sub>m db"
  shows "fits_object db ps key \<Longrightarrow> fits_object db' ps key" "fits_field db p key \<Longrightarrow> fits_field db' p key"
proof (induction rule: fits_object_fits_field.inducts)
  case (fits_absent key ps)
  then show ?case using map_le_cases [OF assms, of key] by (auto intro: fits_object_fits_field.fits_absent)
next
  case (fits_members key S ps)
  then show ?case using map_le_cases [OF assms, of key]
    by (metis fits_object_fits_field.fits_absent fits_object_fits_field.fits_members)
next
  case (fits_typed key p)
  show ?case
  proof (rule fits_object_fits_field.fits_typed)
    show "\<forall>S. db' key = Some (RSet S) \<longrightarrow> pType p = PropLink \<and> p_IsNavLink (p_info p) \<or> fits_object db' (p_Properties p) key"
      using fits_typed(1) map_le_cases [OF assms, of key] by auto
    show "\<forall>xs. db' key = Some (RList xs) \<longrightarrow> (\<exists>e. p_ArrayOf p = Some e \<and>
        (isRedfishValueString (pType e) \<or> (\<forall>x \<in> set xs. fits_object db' (p_Properties e) (key @ CHR ''/'' # x))))"
      using fits_typed(2) map_le_cases [OF assms, of key] by (metis option.distinct(1))
  qed
qed

lemma fits_object_Nil: "db key = None \<or> (\<exists>S. db key = Some (RSet S)) \<Longrightarrow> fits_object db [] key"
  by (auto intro: fits_absent fits_members)

text \<open>A program that returns and only removes keys.\<close>

definition returns :: "('w \<Rightarrow> rdb) \<Rightarrow> ('w, 'a) go \<Rightarrow> 'w \<Rightarrow> bool" where
  "returns view m w \<longleftrightarrow> (\<exists>a. fst (m w) = Ret a) \<and> view (snd (m w)) \<subseteq>\<^sub>m view w"

lemma returns_return [simp]: "returns view (go_return a) w"
  by (simp add: returns_def)

lemma returns_bind:
  assumes "m w = (Ret a, w')" "view w' \<subseteq>\<^sub>m view w" "returns view (f a) w'"
  shows "returns view (go_bind m f) w"
  using assms map_le_trans by (auto simp: returns_def go_bind_apply)

lemma returns_then:
  assumes "returns view m w" "\<And>a w'. view w' \<subseteq>\<^sub>m view w \<Longrightarrow> returns view (f a) w'"
  shows "returns view (go_bind m f) w"
proof -
  obtain a w' where "m w = (Ret a, w')" "view w' \<subseteq>\<^sub>m view w" using assms(1) by (cases "m w") (auto simp: returns_def)
  then show ?thesis using assms(2) by (intro returns_bind) auto
qed

lemma returns_must:
  assumes "m w = (Ret (Inr a), w')" "view w' \<subseteq>\<^sub>m view w" "returns view (f a) w'"
  shows "returns view (go_must m f) w"
  unfolding go_must_def by (rule returns_bind [where m = m and w = w, OF assms(1)]) (use assms in simp_all)

lemma returns_each:
  assumes "\<And>x w'. x \<in> set xs \<Longrightarrow> view w' \<subseteq>\<^sub>m view w \<Longrightarrow> returns view (f x) w'"
  shows "returns view (go_each f xs) w"
  using assms
proof (induction xs arbitrary: w)
  case (Cons x xs)
  have "returns view (go_each f xs) w'" if "view w' \<subseteq>\<^sub>m view w" for w'
    by (rule Cons.IH) (meson Cons.prems list.set_intros map_le_trans that)
  then show ?case using Cons.prems by (auto intro!: returns_then)
qed simp

context redis_server
begin

lemma returns_del: "(\<And>w'. view w' \<subseteq>\<^sub>m view w \<Longrightarrow> view w' k = None \<Longrightarrow> returns view (f ()) w') \<Longrightarrow> returns view (go_must (rDel R k) f) w"
  by (rule del_ok [of k w]) (auto intro!: returns_must simp: map_le_def)

lemma returns_clean: "returns view (go_bind (rDel R k) (\<lambda>_. go_must (rDel R k) (\<lambda>_. go_return ()))) w"
  by (rule del_ok [of k w]) (auto intro!: returns_bind returns_del simp: map_le_def)

lemma removal_succeeds:
  "keys_upto L (view w) \<Longrightarrow> 2 * (L + 1 - length key) + 1 \<le> n \<Longrightarrow> (\<forall>p. po = Some p \<longrightarrow> fits_field (view w) p key) \<Longrightarrow>
    returns view (redisRemoveField R n po key) w"
  "keys_upto L (view w) \<Longrightarrow> 2 * (L + 1 - length key) \<le> n \<Longrightarrow> 1 \<le> n \<Longrightarrow> fits_object (view w) props key \<Longrightarrow>
    returns view (redisRemoveObject R n props key) w"
  "keys_upto L (view w) \<Longrightarrow> 2 * (L + 1 - length key) \<le> n \<Longrightarrow> view w key = Some (RList xs) \<Longrightarrow>
    (\<forall>p. po = Some p \<longrightarrow> fits_field (view w) p key) \<Longrightarrow> returns view (redisRemoveArray R n po key) w"
proof (induction n arbitrary: w key po props xs)
  case (Suc n)
  {
    case 1
    show ?case
    proof (cases "view w key")
      case None
      then show ?thesis by (simp add: returns_def go_must_apply type_law)
    next
      case (Some v)
      then have l: "length key \<le> L" using 1 by (simp add: keys_upto_def)
      show ?thesis
      proof (cases v)
        case (RString x)
        then show ?thesis using Some by (simp, intro returns_must [OF type_law]) (auto intro!: returns_del)
      next
        case (RList ys)
        then have "returns view (redisRemoveArray R n po key) w" using Suc.IH(3) [OF 1(1)] 1(2,3) l Some by simp
        then show ?thesis using Some RList by (simp, intro returns_must [OF type_law]) auto
      next
        case (RSet S)
        have "fits_object (view w) [] key" using Some RSet by (simp add: fits_object_Nil)
        then have none: "returns view (redisRemoveObject R n [] key) w" using Suc.IH(2) [OF 1(1)] 1(2) l by simp
        have some: "returns view (redisRemoveObject R n (p_Properties p) key) w"
          if "po = Some p" "\<not> (pType p = PropLink \<and> p_IsNavLink (p_info p))" for p
          by (rule Suc.IH(2) [OF 1(1)]) (use 1(2,3) l Some RSet that in \<open>auto elim: fits_fieldE\<close>)
        show ?thesis using Some RSet none some by (simp, intro returns_must [OF type_law]) (auto split: option.split)
      qed
    qed
  next
    case 2
    show ?case
    proof (cases "view w key")
      case None
      then show ?thesis by (simp, intro returns_must [OF smembers_none]) (auto intro!: returns_del)
    next
      case (Some v)
      then have l: "length key \<le> L" using 2 by (simp add: keys_upto_def)
      obtain S where S: "view w key = Some (RSet S)" "\<forall>m \<in> S. \<forall>p. map_of props m = Some p \<longrightarrow> fits_field (view w) p (key @ CHR ''/'' # m)"
        by (rule fits_objectE [OF 2(4)]) (use Some in auto)
      obtain ms where ms: "rSMembers R key w = (Ret (Inr ms), w)" "set ms = S" using smembers_ok [of w key S] S(1) by auto
      have "returns view (redisRemoveField R n (map_of props m) (key @ CHR ''/'' # m)) w'"
        if "m \<in> set ms" "view w' \<subseteq>\<^sub>m view w" for w' m
        by (rule Suc.IH(1) [OF keys_upto_le [OF 2(1) that(2)]]) (use 2(2) l S(2) ms(2) that fits_le(2) [OF that(2)] in auto)
      then show ?thesis
        by (simp, intro returns_must [where m = "rSMembers R key" and w = w, OF ms(1)] map_le_refl returns_del returns_each) (meson map_le_trans)
    qed
  next
    case 3
    have l: "length key \<le> L" using 3 by (auto simp: keys_upto_def)
    have lr: "rLRange R key w = (Ret (Inr xs), w)" using 3(3) by (simp add: lrange_law)
    have objects: "returns view (go_each (\<lambda>x. redisRemoveObject R n (p_Properties e) (key @ CHR ''/'' # x)) xs) w"
      if "\<forall>x \<in> set xs. fits_object (view w) (p_Properties e) (key @ CHR ''/'' # x)" for e
    proof (rule returns_each)
      fix x w' assume x: "x \<in> set xs" "view w' \<subseteq>\<^sub>m view w"
      show "returns view (redisRemoveObject R n (p_Properties e) (key @ CHR ''/'' # x)) w'"
        by (rule Suc.IH(2) [OF keys_upto_le [OF 3(1) x(2)]]) (use 3(2) l that x fits_le(1) [OF x(2)] in auto)
    qed
    show ?case
    proof (cases po)
      case None
      then show ?thesis using returns_clean [of key w] by simp
    next
      case (Some p)
      have "fits_field (view w) p key" using 3(4) Some by simp
      then obtain e where e: "p_ArrayOf p = Some e"
          "isRedfishValueString (pType e) \<or> (\<forall>x \<in> set xs. fits_object (view w) (p_Properties e) (key @ CHR ''/'' # x))"
        by (rule fits_fieldE) (use 3(3) in blast)
      show ?thesis
      proof (cases "isRedfishValueString (pType e)")
        case True
        then show ?thesis using returns_clean [of key w] Some e(1) by simp
      next
        case False
        then have "returns view (go_must (rLRange R key) (go_each (\<lambda>x. redisRemoveObject R n (p_Properties e) (key @ CHR ''/'' # x)))) w"
          using objects [of e] e(2) by (intro returns_must [where m = "rLRange R key" and w = w, OF lr]) auto
        from returns_then [OF this returns_clean] show ?thesis using Some e(1) False by simp
      qed
    qed
  }
qed (fastforce simp: keys_upto_def)+

text \<open>What a removal that returns has removed.\<close>

lemma go_each_establishes:
  assumes "fst (go_each f xs w) = Ret a"
    and "\<And>x w'. x \<in> set xs \<Longrightarrow> view w' \<subseteq>\<^sub>m view w \<Longrightarrow> shrinks view (f x) w'"
    and "\<And>x w' b. x \<in> set xs \<Longrightarrow> view w' \<subseteq>\<^sub>m view w \<Longrightarrow> fst (f x w') = Ret b \<Longrightarrow> view (snd (f x w')) (g x) = None \<or> P x"
  shows "\<forall>x \<in> set xs. view (snd (go_each f xs w)) (g x) = None \<or> P x"
  using assms
proof (induction xs arbitrary: w)
  case (Cons x xs)
  obtain b w1 where f: "f x w = (Ret b, w1)"
    using Cons.prems(1) by (cases "f x w"; cases "fst (f x w)") (auto simp: go_bind_apply)
  have le: "view w1 \<subseteq>\<^sub>m view w" using Cons.prems(2) [of x w] f by (simp add: shrinks_def)
  have rest: "shrinks view (go_each f xs) w1"
    by (rule shrinks_each) (use Cons.prems(2) le map_le_trans in \<open>metis list.set_intros(2)\<close>)
  have run: "go_each f (x # xs) w = go_each f xs w1" using f by (simp add: go_bind_apply)
  have "view w1 (g x) = None \<or> P x" using Cons.prems(3) [of x w b] f by simp
  then have "view (snd (go_each f xs w1)) (g x) = None \<or> P x"
    using rest map_le_cases [of "view (snd (go_each f xs w1))" "view w1" "g x"] by (auto simp: shrinks_def)
  moreover have "\<forall>x \<in> set xs. view (snd (go_each f xs w1)) (g x) = None \<or> P x"
  proof (rule Cons.IH)
    show "fst (go_each f xs w1) = Ret a" using Cons.prems(1) run by simp
  qed (use Cons.prems(2,3) le map_le_trans in \<open>metis list.set_intros(2)\<close>)+
  ultimately show ?case unfolding run by simp
qed simp

lemma removeObject_run:
  assumes "keys_upto L (view w)" "2 * (L + 1 - length key) \<le> Suc n" "fst (redisRemoveObject R (Suc n) ps key w) = Ret a"
  obtains ms w1 where "view w1 = (view w)(key := None)" "\<forall>S. view w key = Some (RSet S) \<longrightarrow> set ms = S"
    "redisRemoveObject R (Suc n) ps key w = go_each (\<lambda>m. redisRemoveField R n (map_of ps m) (key @ CHR ''/'' # m)) ms w1"
    "\<And>m w'. m \<in> set ms \<Longrightarrow> view w' \<subseteq>\<^sub>m view w \<Longrightarrow> shrinks view (redisRemoveField R n (map_of ps m) (key @ CHR ''/'' # m)) w'"
proof -
  obtain S where S: "set_result (view w key) = Inr S"
    using assms(3) smembers_err by (cases "set_result (view w key)") (auto simp: go_must_apply)
  obtain ms where ms: "rSMembers R key w = (Ret (Inr ms), w)" "set ms = S" using smembers_ok [OF S] by auto
  obtain w1 where w1: "rDel R key w = (Ret (Inr ()), w1)" "view w1 = (view w)(key := None)" by (rule del_ok [of key w]) auto
  have "shrinks view (redisRemoveField R n (map_of ps m) (key @ CHR ''/'' # m)) w'" if "m \<in> set ms" "view w' \<subseteq>\<^sub>m view w" for m w'
  proof (rule removal_shrinks(1) [OF keys_upto_le [OF assms(1) that(2)]])
    have "view w key \<noteq> None" using S that(1) ms(2) by (cases "view w key") auto
    then have "length key \<le> L" using assms(1) by (simp add: keys_upto_def)
    then show "2 * (L + 1 - length (key @ CHR ''/'' # m)) + 1 \<le> n" using assms(2) by auto
  qed
  moreover have "\<forall>S'. view w key = Some (RSet S') \<longrightarrow> set ms = S'" using S ms(2) by auto
  ultimately show thesis using that [of w1 ms] w1 ms(1) by (simp add: go_must_apply)
qed

lemma removal_gone:
  assumes "keys_upto L (view w)"
  shows "2 * (L + 1 - length key) \<le> n \<Longrightarrow> fst (redisRemoveObject R n ps key w) = Ret a \<Longrightarrow>
      view (snd (redisRemoveObject R n ps key w)) key = None"
    and "2 * (L + 1 - length key) + 1 \<le> n \<Longrightarrow> fst (redisRemoveField R n po key w) = Ret a \<Longrightarrow>
      view (snd (redisRemoveField R n po key w)) key = None \<or> (\<exists>p. po = Some p \<and> pType p = PropLink \<and> p_IsNavLink (p_info p))"
proof -
  have obj: "view (snd (redisRemoveObject R n ps key w)) key = None"
    if "2 * (L + 1 - length key) \<le> n" "fst (redisRemoveObject R n ps key w) = Ret a" for n ps a
  proof (cases n)
    case (Suc m)
    have h: "2 * (L + 1 - length key) \<le> Suc m" "fst (redisRemoveObject R (Suc m) ps key w) = Ret a" using that Suc by simp_all
    obtain ms w1 where run: "view w1 = (view w)(key := None)" "\<forall>S. view w key = Some (RSet S) \<longrightarrow> set ms = S"
        "redisRemoveObject R (Suc m) ps key w = go_each (\<lambda>x. redisRemoveField R m (map_of ps x) (key @ CHR ''/'' # x)) ms w1"
        "\<And>x w'. x \<in> set ms \<Longrightarrow> view w' \<subseteq>\<^sub>m view w \<Longrightarrow> shrinks view (redisRemoveField R m (map_of ps x) (key @ CHR ''/'' # x)) w'"
      by (rule removeObject_run [OF assms h]) blast
    have "view w1 \<subseteq>\<^sub>m view w" using run(1) by (simp add: map_le_def)
    then have "shrinks view (go_each (\<lambda>x. redisRemoveField R m (map_of ps x) (key @ CHR ''/'' # x)) ms) w1"
      by (intro shrinks_each run(4)) (auto intro: map_le_trans)
    then show ?thesis unfolding Suc run(3)
      using map_le_cases [of "view (snd (go_each (\<lambda>x. redisRemoveField R m (map_of ps x) (key @ CHR ''/'' # x)) ms w1))" "view w1" key] run(1)
      by (auto simp: shrinks_def)
  qed (use that in simp)
  show "2 * (L + 1 - length key) \<le> n \<Longrightarrow> fst (redisRemoveObject R n ps key w) = Ret a \<Longrightarrow>
      view (snd (redisRemoveObject R n ps key w)) key = None" by (rule obj)
  have arr: "view (snd (redisRemoveArray R m po key w)) key = None" if "fst (redisRemoveArray R m po key w) = Ret a" for m a
  proof (cases m)
    case (Suc m')
    have del: "view (snd (go_bind (rDel R key) (\<lambda>_. go_must (rDel R key) (\<lambda>_. go_return ())) w')) key = None" for w'
      by (rule del_ok [of key w']; rule del_ok [of key "snd (rDel R key w')"]) (auto simp: go_bind_apply go_must_apply)
    have tail: "view (snd (go_bind x (\<lambda>_. go_bind (rDel R key) (\<lambda>_. go_must (rDel R key) (\<lambda>_. go_return ()))) w)) key = None"
      if "fst (go_bind x (\<lambda>_. go_bind (rDel R key) (\<lambda>_. go_must (rDel R key) (\<lambda>_. go_return ()))) w) = Ret a" for x :: "('w, unit) go"
      using that del by (cases "x w"; cases "fst (x w)") (auto simp: go_bind_apply [of x])
    show ?thesis using that unfolding Suc redisRemoveArray.simps by (rule tail)
  qed (use that in simp)
  assume n: "2 * (L + 1 - length key) + 1 \<le> n" "fst (redisRemoveField R n po key w) = Ret a"
  then obtain m where m: "n = Suc m" by (cases n) auto
  show "view (snd (redisRemoveField R n po key w)) key = None \<or> (\<exists>p. po = Some p \<and> pType p = PropLink \<and> p_IsNavLink (p_info p))"
  proof (cases "view w key")
    case None
    then show ?thesis using m by (simp add: go_must_apply type_law)
  next
    case (Some v)
    have del: "view (snd (go_must (rDel R key) (\<lambda>_. go_return ()) w)) key = None"
      by (rule del_ok [of key w]) (auto simp: go_must_apply)
    show ?thesis
    proof (cases v)
      case (RSet S)
      then show ?thesis using Some n obj [of m] unfolding m
        by (cases po) (auto simp: go_must_apply type_law split: if_splits)
    qed (use Some n arr del in \<open>auto simp: m go_must_apply type_law\<close>)
  qed
qed

lemma members_gone:
  assumes "keys_upto L (view w)" "2 * (L + 1 - length key) \<le> n" "fst (redisRemoveObject R n ps key w) = Ret a"
    and "view w key = Some (RSet S)" "m \<in> S"
  shows "view (snd (redisRemoveObject R n ps key w)) (key @ CHR ''/'' # m) = None \<or>
    (\<exists>p. map_of ps m = Some p \<and> pType p = PropLink \<and> p_IsNavLink (p_info p))"
proof -
  obtain n' where n: "n = Suc n'" using assms(3) by (cases n) auto
  have h: "2 * (L + 1 - length key) \<le> Suc n'" "fst (redisRemoveObject R (Suc n') ps key w) = Ret a" using assms(2,3) n by simp_all
  let ?f = "\<lambda>x. redisRemoveField R n' (map_of ps x) (key @ CHR ''/'' # x)"
  obtain ms w1 where run: "view w1 = (view w)(key := None)" "\<forall>S. view w key = Some (RSet S) \<longrightarrow> set ms = S"
      "redisRemoveObject R (Suc n') ps key w = go_each ?f ms w1"
      "\<And>x w'. x \<in> set ms \<Longrightarrow> view w' \<subseteq>\<^sub>m view w \<Longrightarrow> shrinks view (?f x) w'"
    by (rule removeObject_run [OF assms(1) h]) blast
  have le: "view w1 \<subseteq>\<^sub>m view w" using run(1) by (simp add: map_le_def)
  have l: "length key \<le> L" using assms(1,4) by (simp add: keys_upto_def)
  have "\<forall>x \<in> set ms. view (snd (go_each ?f ms w1)) (key @ CHR ''/'' # x) = None \<or>
      (\<exists>p. map_of ps x = Some p \<and> pType p = PropLink \<and> p_IsNavLink (p_info p))"
  proof (rule go_each_establishes)
    show "fst (go_each ?f ms w1) = Ret a" using h(2) run(3) by simp
    fix x w' assume x: "x \<in> set ms" "view w' \<subseteq>\<^sub>m view w1"
    have le': "view w' \<subseteq>\<^sub>m view w" using x(2) le by (rule map_le_trans)
    show "shrinks view (?f x) w'" using x(1) le' by (rule run(4))
    fix b assume "fst (?f x w') = Ret b"
    then show "view (snd (?f x w')) (key @ CHR ''/'' # x) = None \<or>
        (\<exists>p. map_of ps x = Some p \<and> pType p = PropLink \<and> p_IsNavLink (p_info p))"
      by (intro removal_gone(2) [OF keys_upto_le [OF assms(1) le']]) (use assms(2) n l in auto)
  qed
  then show ?thesis using run(2,3) assms(4,5) n by auto
qed

end

end
