(* ===== verification/Redis_Struct_Read.thy ===== *)
theory Redis_Struct_Read
  imports Redis_Struct_Write
begin

text \<open>
  The read side of \<open>internal/rfdispatcher/dispatcher/redisstruct.go\<close>: a resource is rebuilt from its
  keys, guided by the schema. A value that is not in Redis is looked for as an OData annotation,
  with the file handler and with the backend helpers, in that order.
\<close>

record 'w Redis2Interface =
  r2s_RFD :: "'w RedfishDispatcher"
  r2s_Resource :: resource
  r2s_URI :: string
  r2s_XName :: string

abbreviation r2s_redis :: "'w Redis2Interface \<Rightarrow> 'w redis_ops" where
  "r2s_redis r2s \<equiv> rfd_redis (r2s_RFD r2s)"

section \<open>Values of single keys\<close>

definition generateOData :: "'w Redis2Interface \<Rightarrow> string \<Rightarrow> ('w, go_error + string) go" where
  "generateOData r2s key =
     (let trimmedURI = TrimRight1 (r2s_URI r2s) CHR ''/''; memberName = Base key in
      if memberName = ''@odata.id'' then go_return (Inr (TrimPrefix trimmedURI (r2s_XName r2s)))
      else if memberName = ''@odata.type'' then go_return (Inr (r_ODataType (r_info (r2s_Resource r2s))))
      else if memberName = ''@odata.context'' then
        go_check (rSMembers (r2s_redis r2s) trimmedURI) (\<lambda>names.
          let propertyNames = sort_Strings (filter (\<lambda>name. \<not> Contains name ''@'') names);
              fields = (if length propertyNames < 25 then Join propertyNames '','' else ''*'')
          in go_return (Inr (r_ODataContext (r_info (r2s_Resource r2s)) @ ''('' @ fields @ '')'')))
      else go_return (Inl (Err ''Unknown field name'')))"

fun action_fields :: "'w Redis2Interface \<Rightarrow> string \<Rightarrow> string list \<Rightarrow> gobj \<Rightarrow> ('w, go_error + gobj) go" where
  "action_fields r2s keySpace [] payload = go_return (Inr payload)"
| "action_fields r2s keySpace (name # names) payload =
     (let key = keySpace @ ''/'' @ name in
      go_bind (rType (r2s_redis r2s) key) (\<lambda>rType.
        if rType = Inr ''list'' then
          go_bind (rLRange (r2s_redis r2s) key) (\<lambda>result.
            action_fields r2s keySpace names
              (AList.update name (GArr (map GString (case result of Inr xs \<Rightarrow> xs | Inl _ \<Rightarrow> []))) payload))
        else if rType = Inr ''string'' then
          go_bind (rGet (r2s_redis r2s) key) (\<lambda>result.
            action_fields r2s keySpace names
              (AList.update name (GString (TrimPrefix (case result of Inr s \<Rightarrow> s | Inl _ \<Rightarrow> []) (r2s_XName r2s))) payload))
        else go_return (Inl (Err (''Unhandled datatype for:'' @ key)))))"

definition buildAction :: "'w Redis2Interface \<Rightarrow> string \<Rightarrow> ('w, go_error + gobj) go" where
  "buildAction r2s keySpace =
     go_bind (rSMembers (r2s_redis r2s) keySpace) (\<lambda>r. case r of
         Inl _ \<Rightarrow> go_return (Inl (Err (''Failed to get action members from redis:'' @ keySpace)))
       | Inr properties \<Rightarrow> action_fields r2s keySpace properties [])"

text \<open>The loop over the backend helpers.\<close>

fun ask_helpers :: "string \<Rightarrow> string \<Rightarrow> 'w backend_helper list \<Rightarrow> ('w, go_error + string) go" where
  "ask_helpers xname key [] = go_return (Inl (Err ''Unable to find handler for key''))"
| "ask_helpers xname key (h # hs) =
     go_bind (if xname \<noteq> [] then go_bind (GetEnvForXname h xname) (\<lambda>(env, _). go_return env)
              else go_return None) (\<lambda>env.
     go_bind (RunBackendHelper h key [] env) (\<lambda>r. case r of
         Inr v \<Rightarrow> go_return (Inr v)
       | Inl e \<Rightarrow>
           if e = ErrBackendContinue then ask_helpers xname key hs
           else if HasPrefix (Error e) ''unknown xname'' then go_return (Inl e)
           else ask_helpers xname key hs))"

definition getValueForKey :: "'w Redis2Interface \<Rightarrow> string \<Rightarrow> ('w, go_error + string) go" where
  "getValueForKey r2s key =
     go_bind (rGet (r2s_redis r2s) key) (\<lambda>r1. case r1 of
         Inr simpleValue \<Rightarrow> go_return (Inr simpleValue)
       | Inl _ \<Rightarrow>
     go_bind (generateOData r2s key) (\<lambda>r2. case r2 of
         Inr simpleValue \<Rightarrow> go_return (Inr simpleValue)
       | Inl _ \<Rightarrow>
     go_bind (DoFileHandler (r2s_RFD r2s) OutputOp key [] []) (\<lambda>r3. case r3 of
         Inr buffer \<Rightarrow> go_return (Inr (TrimRight1 buffer (char_of (10::nat))))
       | Inl _ \<Rightarrow> ask_helpers (r2s_XName r2s) key (BackendHelpers (r2s_RFD r2s)))))"

section \<open>Building a structure\<close>

definition props_size :: "properties \<Rightarrow> nat" where
  "props_size ps = size_list (size_prod (\<lambda>x. 0) size) ps"

lemma props_size_mem: "map_of ps n = Some p \<Longrightarrow> size p < props_size ps"
  unfolding props_size_def by (induction ps) (auto split: if_splits)

lemma props_size_property: "props_size (p_Properties p) < size p"
  by (cases p) (simp add: props_size_def)

lemma props_size_resource: "props_size (r_Properties r) < size r"
  by (cases r) (simp add: props_size_def)

lemma size_ArrayOf: "p_ArrayOf p = Some e \<Longrightarrow> size e < size p"
  by (cases p) simp

lemma size_Link: "p_Link p = Some r \<Longrightarrow> size r < size p"
  by (cases p) simp

lemma size_CollectionOf: "r_CollectionOf r = Some c \<Longrightarrow> size c < size r"
  by (cases r) simp

definition link_value :: "'w Redis2Interface \<Rightarrow> string \<Rightarrow> ('w, gobj) go" where
  "link_value r2s link =
     go_bind (rGet (r2s_redis r2s) link) (\<lambda>r.
       go_return [(''@odata.id'', GString (TrimPrefix (case r of Inr s \<Rightarrow> s | Inl _ \<Rightarrow> []) (r2s_XName r2s)))])"

definition build_measure where
  "build_measure =
     case_sum (case_sum (\<lambda>(r2s :: 'w Redis2Interface, ps, k :: string). 4 * props_size ps)
                        (\<lambda>(r2s :: 'w Redis2Interface, p :: property, k :: string, n :: string, pl :: gobj). 4 * size p + 3))
              (case_sum (\<lambda>(r2s :: 'w Redis2Interface, p :: property, k :: string). 4 * size p + 2)
                        (case_sum (\<lambda>(r2s :: 'w Redis2Interface, p :: property, k :: string). 4 * size p + 2)
                                  (\<lambda>(r2s :: 'w Redis2Interface, p :: property, k :: string). 4 * size p + (1::nat))))"

lemma props_size_field: "4 * props_size (p_Properties p) < 4 * size p + 3"
  using props_size_property [of p] by simp

text \<open>
  \<open>BuildStruct\<close>, the body of its loop, \<open>buildArray\<close> with its loop, \<open>buildLink\<close> and
  \<open>buildAutoExpandedLink\<close>. The recursion descends in the schema.
\<close>

function BuildStruct :: "'w Redis2Interface \<Rightarrow> properties \<Rightarrow> string \<Rightarrow> ('w, go_error + gobj) go"
and build_field :: "'w Redis2Interface \<Rightarrow> property \<Rightarrow> string \<Rightarrow> string \<Rightarrow> gobj \<Rightarrow> ('w, go_error + gobj) go"
and buildArray :: "'w Redis2Interface \<Rightarrow> property \<Rightarrow> string \<Rightarrow> ('w, go_error + gval list) go"
and buildLink :: "'w Redis2Interface \<Rightarrow> property \<Rightarrow> string \<Rightarrow> ('w, go_error + gval) go"
and buildAutoExpandedLink :: "'w Redis2Interface \<Rightarrow> property \<Rightarrow> string \<Rightarrow> ('w, go_error + gval list) go"
where
  "BuildStruct r2s properties baseKeySpace =
     go_bind (rSMembers (r2s_redis r2s) baseKeySpace) (\<lambda>r1.
       go_check
        (case r1 of
           Inr (k # ks) \<Rightarrow> go_return (Inr (baseKeySpace, k # ks))
         | _ \<Rightarrow>
           let keySpace = (if \<not> HasPrefix baseKeySpace (r2s_XName r2s) then r2s_XName r2s @ baseKeySpace
                           else baseKeySpace)
           in go_bind (rSMembers (r2s_redis r2s) keySpace) (\<lambda>r2. case r2 of
                  Inl _ \<Rightarrow> go_return (Inl (Err (''No redis value for link: '' @ keySpace)))
                | Inr keys \<Rightarrow> go_return (Inr (keySpace, keys))))
        (\<lambda>ksk. go_fold (\<lambda>name payload.
           case map_of properties name of
             None \<Rightarrow> go_return (Inl (Err ''No Redfish property exists for field''))
           | Some property \<Rightarrow> build_field r2s property (fst ksk @ ''/'' @ name) name payload) (snd ksk) []))"
| "build_field r2s property key name payload =
     (if isRedfishValueString (pType property) then
        go_bind (getValueForKey r2s key) (\<lambda>r. case r of
            Inl e \<Rightarrow>
              if HasPrefix (Error e) ''unknown xname'' then go_return (Inl e)
              else go_return (Inr (AList.update name GNil payload))
          | Inr simpleValue \<Rightarrow>
              (case pType property of
                 PropNumber \<Rightarrow>
                   if simpleValue = [] then go_return (Inr (AList.update name GNil payload))
                   else (case ParseFloat simpleValue of
                       Inl _ \<Rightarrow> go_return (Inl (Err ''failed to convert string to float''))
                     | Inr value \<Rightarrow> go_return (Inr (AList.update name (GFloat value) payload)))
               | PropInteger \<Rightarrow>
                   (case ParseInt simpleValue of
                       Inl _ \<Rightarrow> go_return (Inl (Err ''failed to convert string to integer''))
                     | Inr value \<Rightarrow> go_return (Inr (AList.update name (GInt value) payload)))
               | PropBool \<Rightarrow>
                   (case ParseBool simpleValue of
                       Inl _ \<Rightarrow> go_return (Inl (Err ''failed to convert string to boolean''))
                     | Inr value \<Rightarrow> go_return (Inr (AList.update name (GBool value) payload)))
               | _ \<Rightarrow> go_return (Inr (AList.update name (GString simpleValue) payload))))
      else
        (case pType property of
           PropAction \<Rightarrow> go_check (buildAction r2s key)
             (\<lambda>obj. go_return (Inr (AList.update name (GObj obj) payload)))
         | PropObject \<Rightarrow> go_check (BuildStruct r2s (p_Properties property) key)
             (\<lambda>obj. go_return (Inr (AList.update name (GObj obj) payload)))
         | PropArray \<Rightarrow> go_check (buildArray r2s property key)
             (\<lambda>array. go_return (Inr (AList.update (name @ ''@odata.count'') (GInt (int (length array)))
                (AList.update name (GArr array) payload))))
         | PropLink \<Rightarrow> go_check (buildLink r2s property key)
             (\<lambda>link. go_return (Inr (case link of
                 GArr array \<Rightarrow> AList.update (name @ ''@odata.count'') (GInt (int (length array)))
                    (AList.update name link payload)
               | _ \<Rightarrow> AList.update name link payload)))
         | _ \<Rightarrow> go_return (Inl (Err ''unknown property type''))))"
| "buildArray r2s property keySpace =
     go_check (rLRange (r2s_redis r2s) keySpace) (\<lambda>elements.
       go_fold (\<lambda>element array.
         case p_ArrayOf property of
           None \<Rightarrow> go_panic ''nil pointer dereference''
         | Some elementProperty \<Rightarrow>
             if isRedfishValueString (pType elementProperty) then go_return (Inr (array @ [GString element]))
             else if pType elementProperty = PropLink then
               go_bind (link_value r2s (keySpace @ ''/'' @ element @ ''/'' @ ''@odata.id''))
                 (\<lambda>value. go_return (Inr (array @ [GObj value])))
             else
               go_check (BuildStruct r2s (p_Properties elementProperty) (keySpace @ ''/'' @ element))
                 (\<lambda>value. go_return (Inr (array @ [GObj value])))) elements [])"
| "buildLink r2s property keySpace =
     (if p_LinkAutoExpand (p_info property) then
        go_check (buildAutoExpandedLink r2s property keySpace) (\<lambda>link. go_return (Inr (GArr link)))
      else if p_IsNavLink (p_info property) then
        go_return (Inr (GObj [(''@odata.id'', GString (TrimPrefix keySpace (r2s_XName r2s)))]))
      else go_bind (link_value r2s (keySpace @ ''/'' @ ''@odata.id'')) (\<lambda>v. go_return (Inr (GObj v))))"
| "buildAutoExpandedLink r2s property keySpace =
     go_bind (rLRange (r2s_redis r2s) keySpace) (\<lambda>r. case r of
         Inl _ \<Rightarrow> go_return (Inl (Err (''No redis value for link: '' @ keySpace)))
       | Inr indices \<Rightarrow>
           go_fold (\<lambda>iStr payload.
             case p_Link property of
               None \<Rightarrow> go_panic ''nil pointer dereference''
             | Some res \<Rightarrow> (case r_CollectionOf res of
                 None \<Rightarrow> go_panic ''nil pointer dereference''
               | Some member \<Rightarrow>
                   go_bind (BuildStruct r2s (r_Properties member) (keySpace @ ''/'' @ iStr)) (\<lambda>b.
                     go_return (Inr (payload @ [case b of Inr obj \<Rightarrow> GObj obj | Inl _ \<Rightarrow> GNil]))))) indices [])"
  by pat_completeness auto

termination
proof (relation "measure build_measure", goal_cases)
  case 1
  show ?case by simp
next
  case (2 r2s ps k r1 ksk name payload p)
  then show ?case using props_size_mem [of ps name p] by (simp add: build_measure_def)
next
  case (6 r2s p ks elements element array e)
  then show ?case using size_ArrayOf [of p e] props_size_property [of e] by (simp add: build_measure_def)
next
  case (8 r2s p ks r indices i payload res c)
  then show ?case
    using size_Link [of p res] size_CollectionOf [of res c] props_size_resource [of c]
    by (simp add: build_measure_def)
qed (simp_all add: build_measure_def props_size_field)

declare BuildStruct.simps [simp del] build_field.simps [simp del] buildArray.simps [simp del]
  buildLink.simps [simp del] buildAutoExpandedLink.simps [simp del]

end
