(* ===== verification/Redis_Roundtrip.thy ===== *)
theory Redis_Roundtrip
  imports Redis_Struct_Remove Redis_Struct_Read
begin

text \<open>
  The two directions of \<open>redisstruct.go\<close> together: what \<open>BuildStruct\<close> returns for a resource that
  \<open>Interface2Redis\<close> and \<open>RedisInsert\<close> stored. Results are compared as JSON values, in which the
  members of an object have no order.
\<close>

section \<open>JSON values\<close>

datatype json =
    JNull | JBool bool | JNum float64 | JInt int | JStr string | JArr "json list"
  | JObj "string \<Rightarrow> json option"

fun jv :: "gval \<Rightarrow> json" where
  "jv (GBool b) = JBool b"
| "jv (GFloat f) = JNum f"
| "jv (GInt i) = JInt i"
| "jv (GString s) = JStr s"
| "jv (GArr vs) = JArr (map jv vs)"
| "jv (GObj fs) = JObj (map_of (map (\<lambda>(k, v). (k, jv v)) fs))"
| "jv _ = JNull"

definition jobj :: "gobj \<Rightarrow> string \<Rightarrow> json option" where
  "jobj fs = map_of (map (\<lambda>(k, v). (k, jv v)) fs)"

lemma jv_GObj [simp]: "jv (GObj fs) = JObj (jobj fs)"
  by (simp add: jobj_def)

declare jv.simps(6) [simp del]

lemma jobj_Nil [simp]: "jobj [] = Map.empty"
  by (simp add: jobj_def)

lemma jobj_conv: "jobj fs k = map_option jv (map_of fs k)"
  by (simp add: jobj_def map_of_map)

lemma jobj_update [simp]: "jobj (AList.update k v fs) = (jobj fs)(k \<mapsto> jv v)"
  by (rule ext) (simp add: jobj_conv update_conv')

section \<open>Storable objects\<close>

text \<open>The string a simple value is stored as, and the JSON value read back from it.\<close>

fun simple_string :: "PropertyType \<Rightarrow> gval \<Rightarrow> string option" where
  "simple_string PropEnum (GString s) = Some s"
| "simple_string PropString (GString s) = Some s"
| "simple_string PropNumber (GFloat f) = Some (SprintFloat f)"
| "simple_string PropInteger (GFloat f) = Some (FormatInt (f64_to_int64 f))"
| "simple_string PropBool (GBool b) = Some (FormatBool b)"
| "simple_string _ _ = None"

fun simple_gval :: "PropertyType \<Rightarrow> gval \<Rightarrow> gval" where
  "simple_gval PropInteger (GFloat f) = GInt (f64_to_int64 f)"
| "simple_gval _ v = v"

text \<open>A number whose printed form is read back unchanged.\<close>

definition f64_stable :: "float64 \<Rightarrow> bool" where
  "f64_stable f \<longleftrightarrow> SprintFloat f \<noteq> [] \<and> ParseFloat (SprintFloat f) = Inr f"

fun stable :: "PropertyType \<Rightarrow> gval \<Rightarrow> bool" where
  "stable PropNumber (GFloat f) \<longleftrightarrow> f64_stable f"
| "stable _ _ \<longleftrightarrow> True"

definition count_name :: "string \<Rightarrow> string" where
  "count_name n = n @ ''@odata.count''"

text \<open>
  Values that conform to a property and hold no null, no empty object, no action and no navigation
  link: names are known to the schema and contain no slash, and no field has the name of the count
  of an array beside it.
\<close>

fun storable :: "property \<Rightarrow> gval \<Rightarrow> bool" where
  "storable p (GObj obj) \<longleftrightarrow>
     (if pType p = PropLink then
        \<not> p_IsNavLink (p_info p) \<and> \<not> p_LinkAutoExpand (p_info p) \<and>
        (case map_of obj ''@odata.id'' of Some (GString s) \<Rightarrow> True | _ \<Rightarrow> False)
      else pType p = PropObject \<and> obj \<noteq> [] \<and> distinct (map fst obj) \<and>
        (\<forall>(n, v) \<in> set obj. CHR ''/'' \<notin> set n \<and> count_name n \<notin> set (map fst obj) \<and>
           (case map_of (p_Properties p) n of None \<Rightarrow> False | Some q \<Rightarrow> storable q v)))"
| "storable p (GArr vs) \<longleftrightarrow> pType p = PropArray \<and>
     (case p_ArrayOf p of None \<Rightarrow> False
      | Some e \<Rightarrow> pType e \<noteq> PropArray \<and> (\<forall>v \<in> set vs. storable e v))"
| "storable p v \<longleftrightarrow> simple_string (pType p) v \<noteq> None \<and> stable (pType p) v"

text \<open>The intermediate value of a storable value.\<close>

definition link_target :: "gobj \<Rightarrow> string" where
  "link_target obj = (case map_of obj ''@odata.id'' of Some (GString s) \<Rightarrow> s | _ \<Rightarrow> [])"

fun ival :: "property \<Rightarrow> gval \<Rightarrow> gval" where
  "ival p (GObj obj) =
     (if pType p = PropLink then GObj [(''@odata.id'', GString (link_target obj))]
      else GObj (map (\<lambda>(n, v). (n, case map_of (p_Properties p) n of None \<Rightarrow> GNil | Some q \<Rightarrow> ival q v)) obj))"
| "ival p (GArr vs) =
     (case p_ArrayOf p of None \<Rightarrow> GNil
      | Some e \<Rightarrow> GRedisArray (\<not> isRedfishValueString (pType e)) (map (ival e) vs))"
| "ival p v = (case simple_string (pType p) v of None \<Rightarrow> GNil | Some s \<Rightarrow> GString s)"

definition ival_fields :: "properties \<Rightarrow> gobj \<Rightarrow> gobj" where
  "ival_fields props obj =
     map (\<lambda>(n, v). (n, case map_of props n of None \<Rightarrow> GNil | Some q \<Rightarrow> ival q v)) obj"

definition storable_fields :: "properties \<Rightarrow> gobj \<Rightarrow> bool" where
  "storable_fields props obj \<longleftrightarrow> obj \<noteq> [] \<and> distinct (map fst obj) \<and>
     (\<forall>(n, v) \<in> set obj. CHR ''/'' \<notin> set n \<and> count_name n \<notin> set (map fst obj) \<and>
        (case map_of props n of None \<Rightarrow> False | Some q \<Rightarrow> storable q v))"

text \<open>
  The JSON value read back: integers are truncated, an array gets its count beside it, the elements
  of an array of simple values come back as strings whatever their type, and links lose the prefix
  that names the device.
\<close>

fun readback :: "string \<Rightarrow> property \<Rightarrow> gval \<Rightarrow> json" where
  "readback x p (GObj obj) =
     (if pType p = PropLink then JObj [''@odata.id'' \<mapsto> JStr (TrimPrefix (link_target obj) x)]
      else JObj (\<lambda>k.
        if k \<in> set (map fst obj) then
          map_of (map (\<lambda>(n, v). (n, case map_of (p_Properties p) n of None \<Rightarrow> JNull | Some q \<Rightarrow> readback x q v)) obj) k
        else map_of (concat (map (\<lambda>(n, v). case v of GArr vs \<Rightarrow> [(count_name n, JInt (int (length vs)))] | _ \<Rightarrow> []) obj)) k))"
| "readback x p (GArr vs) =
     (case p_ArrayOf p of None \<Rightarrow> JNull
      | Some e \<Rightarrow> JArr (map (\<lambda>v. case simple_string (pType e) v of Some s \<Rightarrow> JStr s | None \<Rightarrow> readback x e v) vs))"
| "readback x p v = jv (simple_gval (pType p) v)"

definition rb_fields :: "string \<Rightarrow> properties \<Rightarrow> gobj \<Rightarrow> string \<Rightarrow> json option" where
  "rb_fields x props obj = (\<lambda>k.
     if k \<in> set (map fst obj) then
       map_of (map (\<lambda>(n, v). (n, case map_of props n of None \<Rightarrow> JNull | Some q \<Rightarrow> readback x q v)) obj) k
     else map_of (concat (map (\<lambda>(n, v). case v of GArr vs \<Rightarrow> [(count_name n, JInt (int (length vs)))] | _ \<Rightarrow> []) obj)) k)"

lemma readback_obj: "pType p \<noteq> PropLink \<Longrightarrow> readback x p (GObj obj) = JObj (rb_fields x (p_Properties p) obj)"
  by (simp add: rb_fields_def)

lemma ival_obj: "pType p \<noteq> PropLink \<Longrightarrow> ival p (GObj obj) = GObj (ival_fields (p_Properties p) obj)"
  by (simp add: ival_fields_def)

lemma storable_obj: "pType p \<noteq> PropLink \<Longrightarrow>
    storable p (GObj obj) \<longleftrightarrow> pType p = PropObject \<and> storable_fields (p_Properties p) obj"
  by (simp add: storable_fields_def)

lemma ival_fields_names [simp]: "map fst (ival_fields props obj) = map fst obj"
  by (simp add: ival_fields_def comp_def case_prod_unfold)

lemma storable_fieldsD:
  assumes "storable_fields props obj" "(n, v) \<in> set obj"
  obtains q where "map_of props n = Some q" "storable q v" "CHR ''/'' \<notin> set n"
    "count_name n \<notin> set (map fst obj)"
  using assms by (fastforce simp: storable_fields_def split: option.splits)

section \<open>The conversion\<close>

lemma ival_not_nil: "storable p v \<Longrightarrow> ival p v \<noteq> GNil"
  by (induction p v rule: ival.induct) (auto split: option.splits)

lemma storable_not_nil: "storable p v \<Longrightarrow> v \<noteq> GNil"
  by (cases v) (auto elim: simple_string.elims)

lemma update_fresh: "k \<notin> set (map fst al) \<Longrightarrow> AList.update k v al = al @ [(k, v)]"
  by (induction al) auto

lemma struct_fields_ival:
  assumes "\<And>n v (c :: 'c). (n, v) \<in> set obj \<Longrightarrow> \<exists>q. map_of props n = Some q \<and> storable q v \<and>
      structField2Redis None (path @ [n]) q v c = (Ret (Inr (ival q v, False)), c)"
    and "distinct (map fst (res @ obj))"
  shows "struct_fields None path props obj res (c :: 'c) = (Ret (Inr (res @ ival_fields props obj)), c)"
  using assms
proof (induction obj arbitrary: res c)
  case Nil
  then show ?case by (simp add: ival_fields_def)
next
  case (Cons f obj)
  obtain n v where f: "f = (n, v)" by fastforce
  obtain q where q: "map_of props n = Some q" "storable q v"
    "structField2Redis None (path @ [n]) q v c = (Ret (Inr (ival q v, False)), c)"
    using Cons.prems(1) [of n v c] f by auto
  have "AList.update n (ival q v) res = res @ [(n, ival q v)]"
    using Cons.prems(2) f by (intro update_fresh) auto
  moreover have "struct_fields None path props obj (res @ [(n, ival q v)]) c =
      (Ret (Inr ((res @ [(n, ival q v)]) @ ival_fields props obj)), c)"
    by (rule Cons.IH) (use Cons.prems f in auto)
  ultimately show ?case using f q ival_not_nil [OF q(2)]
    by (simp add: go_check_apply ival_fields_def)
qed

lemma struct_elems_ival:
  assumes "\<And>v (c :: 'c) i. v \<in> set vs \<Longrightarrow>
      structField2Redis None (path @ [FormatInt (int i)]) e v c = (Ret (Inr (ival e v, False)), c)"
  shows "struct_elems None path e i vs (c :: 'c) = (Ret (Inr (map (ival e) vs)), c)"
  using assms
proof (induction vs arbitrary: i c)
  case (Cons v vs)
  have "structField2Redis None (path @ [FormatInt (int i)]) e v c = (Ret (Inr (ival e v, False)), c)"
    using Cons.prems by simp
  moreover have "struct_elems None path e (Suc i) vs c = (Ret (Inr (map (ival e) vs)), c)"
    by (rule Cons.IH) (use Cons.prems in simp)
  ultimately show ?case by (simp add: go_check_apply)
qed simp

lemma structField_ival:
  "storable p v \<Longrightarrow> structField2Redis None path p v (c :: 'c) = (Ret (Inr (ival p v, False)), c)"
proof (induction v arbitrary: p path c)
  case (GObj obj)
  show ?case
  proof (cases "pType p = PropLink")
    case True
    then obtain s where "map_of obj ''@odata.id'' = Some (GString s)" "\<not> p_IsNavLink (p_info p)"
      using GObj.prems by (auto split: option.splits gval.splits)
    then show ?thesis using True
      by (simp add: structField2Redis.simps field_done_def link_target_def)
  next
    case False
    then have st: "pType p = PropObject" "storable_fields (p_Properties p) obj"
      using GObj.prems storable_obj [OF False] by blast+
    have "struct_fields None path (p_Properties p) obj [] c =
        (Ret (Inr ([] @ ival_fields (p_Properties p) obj)), c)"
    proof (rule struct_fields_ival)
      fix n v and c :: 'c
      assume nv: "(n, v) \<in> set obj"
      obtain q where "map_of (p_Properties p) n = Some q" "storable q v"
        using storable_fieldsD [OF st(2) nv] .
      then show "\<exists>q. map_of (p_Properties p) n = Some q \<and> storable q v \<and>
          structField2Redis None (path @ [n]) q v c = (Ret (Inr (ival q v, False)), c)"
        using GObj.IH [OF nv] by auto
    qed (use st(2) in \<open>simp add: storable_fields_def\<close>)
    then show ?thesis using st(1) ival_obj [OF False, of obj]
      by (simp add: structField2Redis.simps field_done_def go_check_apply)
  qed
next
  case (GArr vs)
  then obtain e where e: "pType p = PropArray" "p_ArrayOf p = Some e" "\<forall>v \<in> set vs. storable e v"
    by (auto split: option.splits)
  have "struct_elems None path e 0 vs c = (Ret (Inr (map (ival e) vs)), c)"
    by (rule struct_elems_ival) (use GArr.IH e(3) in auto)
  then show ?case using e by (simp add: structField2Redis.simps field_done_def go_check_apply)
qed (auto simp: structField2Redis.simps field_done_def split: PropertyType.splits elim: simple_string.elims)

lemma Interface2Redis_ival:
  assumes "storable_fields props obj"
  shows "Interface2Redis None path props obj (c :: 'c) = (Ret (Inr (ival_fields props obj)), c)"
proof -
  have "struct_fields None path props obj [] c = (Ret (Inr ([] @ ival_fields props obj)), c)"
  proof (rule struct_fields_ival)
    fix n v and c :: 'c
    assume nv: "(n, v) \<in> set obj"
    obtain q where "map_of props n = Some q" "storable q v" using storable_fieldsD [OF assms nv] .
    then show "\<exists>q. map_of props n = Some q \<and> storable q v \<and>
        structField2Redis None (path @ [n]) q v c = (Ret (Inr (ival q v, False)), c)"
      using structField_ival by auto
  qed (use assms in \<open>simp add: storable_fields_def\<close>)
  then show ?thesis by (simp add: Interface2Redis_def)
qed

section \<open>The intermediate value is well formed and removable\<close>

lemma ival_simple: "isRedfishValueString (pType p) \<Longrightarrow> storable p v \<Longrightarrow> \<exists>s. ival p v = GString s \<and> simple_string (pType p) v = Some s"
  by (cases v) (auto simp: isRedfishValueString_def split: option.splits)

lemma ival_fields_mem:
  assumes "(n, u) \<in> set (ival_fields props obj)" "storable_fields props obj"
  obtains v q where "(n, v) \<in> set obj" "map_of props n = Some q" "storable q v" "u = ival q v" "CHR ''/'' \<notin> set n"
proof -
  obtain v where v: "(n, v) \<in> set obj" "u = (case map_of props n of None \<Rightarrow> GNil | Some q \<Rightarrow> ival q v)"
    using assms(1) by (auto simp: ival_fields_def)
  obtain q where "map_of props n = Some q" "storable q v" "CHR ''/'' \<notin> set n"
    using storable_fieldsD [OF assms(2) v(1)] .
  then show ?thesis using that [OF v(1)] v(2) by simp
qed

lemma wf_ival_fields:
  assumes "storable_fields props obj" "\<And>n v q. (n, v) \<in> set obj \<Longrightarrow> map_of props n = Some q \<Longrightarrow> wf_ival (ival q v)"
  shows "wf_ival (GObj (ival_fields props obj))"
proof -
  have "CHR ''/'' \<notin> set n \<and> wf_ival u" if "(n, u) \<in> set (ival_fields props obj)" for n u
    using ival_fields_mem [OF that assms(1)] assms(2) by metis
  moreover have "ival_fields props obj \<noteq> []" "distinct (map fst (ival_fields props obj))"
    using assms(1) by (simp add: storable_fields_def ival_fields_def, simp add: storable_fields_def)
  ultimately show ?thesis by auto
qed

lemma wf_ival_storable: "storable p v \<Longrightarrow> wf_ival (ival p v)"
proof (induction v arbitrary: p)
  case (GObj obj)
  show ?case
  proof (cases "pType p = PropLink")
    case False
    then have st: "storable_fields (p_Properties p) obj" using GObj.prems storable_obj [OF False] by blast
    have "wf_ival (GObj (ival_fields (p_Properties p) obj))"
    proof (rule wf_ival_fields [OF st])
      fix n v q
      assume nv: "(n, v) \<in> set obj" and q: "map_of (p_Properties p) n = Some q"
      have "storable q v" using storable_fieldsD [OF st nv] q by force
      then show "wf_ival (ival q v)" using GObj.IH [OF nv] by simp
    qed
    then show ?thesis using ival_obj [OF False] by simp
  qed simp
next
  case (GArr vs)
  then obtain e where e: "p_ArrayOf p = Some e" "pType e \<noteq> PropArray" "\<forall>v \<in> set vs. storable e v"
    by (auto split: option.splits)
  show ?case
  proof (cases "isRedfishValueString (pType e)")
    case True
    then have "list_all (\<lambda>e. redis_arg e \<noteq> None) (map (ival e) vs)"
      using ival_simple [OF True] e(3) by (fastforce simp: list_all_iff)
    then show ?thesis using e(1) True by simp
  next
    case False
    have "is_GObj (ival e v)" if "storable e v" for v
      using that False e(2) by (cases v) (auto simp: isRedfishValueString_def elim: simple_string.elims)
    then show ?thesis using e False GArr.IH by auto
  qed
qed (auto split: option.splits)

lemma removable_storable: "storable p v \<Longrightarrow> removable (Some p) (ival p v)"
proof (induction v arbitrary: p)
  case (GObj obj)
  show ?case
  proof (cases "pType p = PropLink")
    case True
    then show ?thesis using GObj.prems by simp
  next
    case False
    then have st: "storable_fields (p_Properties p) obj" using GObj.prems storable_obj [OF False] by blast
    have "removable (map_of (p_Properties p) n) u"
      if nu: "(n, u) \<in> set (ival_fields (p_Properties p) obj)" for n u
    proof (rule ival_fields_mem [OF nu st])
      fix v q
      assume "(n, v) \<in> set obj" "map_of (p_Properties p) n = Some q" "storable q v" "u = ival q v"
      then show ?thesis using GObj.IH by simp
    qed
    then show ?thesis using ival_obj [OF False] False by auto
  qed
next
  case (GArr vs)
  then show ?case by (auto split: option.splits)
qed (auto split: option.splits)

section \<open>Reading back\<close>

lemma count_name_inj: "count_name m = count_name n \<longleftrightarrow> m = n"
  by (simp add: count_name_def)

lemma rb_fields_name:
  assumes "storable_fields props obj" "(n, v) \<in> set obj" "map_of props n = Some q"
  shows "rb_fields x props obj n = Some (readback x q v)"
proof -
  let ?f = "\<lambda>(n, v). (n, case map_of props n of None \<Rightarrow> JNull | Some q \<Rightarrow> readback x q v)"
  have "(n, readback x q v) \<in> set (map ?f obj)" using imageI [OF assms(2), of ?f] assms(3) by simp
  moreover have "distinct (map fst (map ?f obj))"
    using assms(1) by (simp add: storable_fields_def comp_def case_prod_unfold)
  ultimately have "map_of (map ?f obj) n = Some (readback x q v)" by (rule map_of_is_SomeI [rotated])
  moreover have "n \<in> set (map fst obj)" using imageI [OF assms(2), of fst] by simp
  ultimately show ?thesis by (simp add: rb_fields_def)
qed

lemma counts_of:
  "map_of (concat (map (\<lambda>(n, v). case v of GArr vs \<Rightarrow> [(count_name n, JInt (int (length vs)))] | _ \<Rightarrow> []) obj)) k = Some j \<Longrightarrow>
     \<exists>n vs. (n, GArr vs) \<in> set obj \<and> k = count_name n"
  by (drule map_of_SomeD) (auto split: gval.splits)

lemma rb_fields_count:
  assumes "storable_fields props obj" "(n, GArr vs) \<in> set obj"
  shows "rb_fields x props obj (count_name n) = Some (JInt (int (length vs)))"
proof -
  let ?f = "\<lambda>(n, v). case v of GArr vs \<Rightarrow> [(count_name n, JInt (int (length vs)))] | _ \<Rightarrow> []"
  have "distinct (map fst obj) \<Longrightarrow> (n, GArr vs) \<in> set obj \<Longrightarrow>
      map_of (concat (map ?f obj)) (count_name n) = Some (JInt (int (length vs)))"
  proof (induction obj)
    case (Cons f obj)
    obtain m v where f: "f = (m, v)" by fastforce
    show ?case
    proof (cases "m = n")
      case True
      have "v = GArr vs" using Cons.prems f True image_eqI [of n fst "(n, GArr vs)" "set obj"] by auto
      then show ?thesis using f True by simp
    next
      case False
      then show ?thesis using Cons f by (auto simp: count_name_inj split: gval.splits)
    qed
  qed simp
  moreover have "count_name n \<notin> set (map fst obj)" using storable_fieldsD [OF assms] by blast
  ultimately show ?thesis using assms by (simp add: rb_fields_def storable_fields_def)
qed

lemma rb_fields_dom:
  assumes "rb_fields x props obj k \<noteq> None"
  shows "k \<in> set (map fst obj) \<or> (\<exists>n vs. (n, GArr vs) \<in> set obj \<and> k = count_name n)"
  using assms counts_of [of obj k] by (auto simp: rb_fields_def split: if_splits)

text \<open>The fields of the object that come from the names in \<open>X\<close>.\<close>

definition rb_part :: "string \<Rightarrow> properties \<Rightarrow> gobj \<Rightarrow> string set \<Rightarrow> string \<Rightarrow> json option" where
  "rb_part x props obj X = (\<lambda>k.
     if k \<in> X \<or> (\<exists>n vs. n \<in> X \<and> (n, GArr vs) \<in> set obj \<and> k = count_name n) then rb_fields x props obj k
     else None)"

lemma rb_part_all: "rb_part x props obj (set (map fst obj)) = rb_fields x props obj"
proof
  fix k
  show "rb_part x props obj (set (map fst obj)) k = rb_fields x props obj k"
  proof (cases "rb_fields x props obj k = None")
    case False
    have "n \<in> set (map fst obj)" if "(n, v) \<in> set obj" for n v
      using imageI [OF that, of fst] by simp
    then show ?thesis using rb_fields_dom [OF False] unfolding rb_part_def by (smt (verit, best))
  qed (simp add: rb_part_def)
qed

definition add_field :: "string \<Rightarrow> gval \<Rightarrow> gobj \<Rightarrow> gobj" where
  "add_field name g payload = (case g of
     GArr a \<Rightarrow> AList.update (count_name name) (GInt (int (length a))) (AList.update name g payload)
   | _ \<Rightarrow> AList.update name g payload)"

lemma jobj_add_field:
  "jobj (add_field name g payload) = (case g of
     GArr a \<Rightarrow> (jobj payload)(name \<mapsto> jv g, count_name name \<mapsto> JInt (int (length a)))
   | _ \<Rightarrow> (jobj payload)(name \<mapsto> jv g))"
  by (simp add: add_field_def split: gval.split)

lemma rb_part_insert:
  "rb_part x props obj (insert n X) = (\<lambda>k.
     if k = n \<or> (\<exists>vs. (n, GArr vs) \<in> set obj \<and> k = count_name n) then rb_fields x props obj k
     else rb_part x props obj X k)"
  by (rule ext) (auto simp: rb_part_def)

lemma unique_value:
  "distinct (map fst obj) \<Longrightarrow> (n, v) \<in> set obj \<Longrightarrow> (n, u) \<in> set obj \<Longrightarrow> u = v"
  by (metis map_of_is_SomeI option.inject)

definition field_ok :: "string \<Rightarrow> property \<Rightarrow> gval \<Rightarrow> gval \<Rightarrow> bool" where
  "field_ok x q v g \<longleftrightarrow> jv g = readback x q v \<and>
     (case v of GArr vs \<Rightarrow> (\<exists>a. g = GArr a \<and> length a = length vs) | _ \<Rightarrow> (\<forall>a. g \<noteq> GArr a))"

lemma rb_part_step:
  assumes st: "storable_fields props obj" and nv: "(n, v) \<in> set obj" and q: "map_of props n = Some q"
    and g: "field_ok x q v g" and X: "jobj payload = rb_part x props obj X"
  shows "jobj (add_field n g payload) = rb_part x props obj (insert n X)"
proof -
  have name: "rb_fields x props obj n = Some (jv g)"
    using rb_fields_name [OF st nv q] g by (simp add: field_ok_def)
  have uniq: "(n, GArr vs) \<in> set obj \<Longrightarrow> v = GArr vs" for vs
    using unique_value [OF _ nv] st by (auto simp: storable_fields_def)
  show ?thesis
  proof (cases "is_GArr v")
    case True
    then obtain vs a where a: "v = GArr vs" "g = GArr a" "length a = length vs"
      using g by (cases v) (auto simp: field_ok_def)
    have count: "rb_fields x props obj (count_name n) = Some (JInt (int (length a)))"
      using rb_fields_count [OF st, of n vs] nv a by simp
    show ?thesis using a name count X nv
      by (auto simp: rb_part_insert jobj_add_field fun_eq_iff)
  next
    case False
    then have "\<not> (\<exists>vs. (n, GArr vs) \<in> set obj)" using uniq by auto
    moreover have "jobj (add_field n g payload) = (jobj payload)(n \<mapsto> jv g)"
      using g False by (cases v; cases g) (auto simp: field_ok_def jobj_add_field)
    ultimately show ?thesis using name X by (auto simp: rb_part_insert fun_eq_iff)
  qed
qed

lemma go_fold_fields:
  assumes "storable_fields props obj"
    and "\<And>n v q payload. (n, v) \<in> set obj \<Longrightarrow> map_of props n = Some q \<Longrightarrow>
      \<exists>g. f n payload w = (Ret (Inr (add_field n g payload)), w) \<and> field_ok x q v g"
    and "set xs \<subseteq> set (map fst obj)" "jobj payload = rb_part x props obj X"
  shows "\<exists>payload'. go_fold f xs payload w = (Ret (Inr payload'), w) \<and>
      jobj payload' = rb_part x props obj (X \<union> set xs)"
  using assms(3,4)
proof (induction xs arbitrary: payload X)
  case (Cons n xs)
  then obtain v where nv: "(n, v) \<in> set obj" by auto
  obtain q where q: "map_of props n = Some q" using storable_fieldsD [OF assms(1) nv] .
  obtain g where g: "f n payload w = (Ret (Inr (add_field n g payload)), w)" "field_ok x q v g"
    using assms(2) [OF nv q] by blast
  have "jobj (add_field n g payload) = rb_part x props obj (insert n X)"
    by (rule rb_part_step [OF assms(1) nv q g(2) Cons.prems(2)])
  then obtain payload' where "go_fold f xs (add_field n g payload) w = (Ret (Inr payload'), w)"
    "jobj payload' = rb_part x props obj (insert n X \<union> set xs)"
    using Cons.IH [of "add_field n g payload" "insert n X"] Cons.prems(1) by auto
  then show ?case using g(1) by (auto simp: go_check_apply)
qed simp

context redis_server
begin

lemma getValueForKey_stored:
  assumes "r2s_redis r2s = R" "view w key = Some (RString s)"
  shows "getValueForKey r2s key w = (Ret (Inr s), w)"
  using assms by (simp add: getValueForKey_def go_bind_apply get_law)

lemma build_field_simple:
  assumes R: "r2s_redis r2s = R" and s: "simple_string (pType p) v = Some s" and "stable (pType p) v"
    and "view w key = Some (RString s)"
  shows "build_field r2s p key name payload w =
     (Ret (Inr (add_field name (simple_gval (pType p) v) payload)), w)"
proof -
  note get = getValueForKey_stored [OF R assms(4)]
  have int: "ParseInt (FormatInt (f64_to_int64 f)) = Inr (f64_to_int64 f)" for f
    using ParseInt_FormatInt f64_to_int64_bounds by blast
  show ?thesis using s assms(3)
    by (cases "(pType p, v)" rule: simple_string.cases)
      (auto simp: build_field.simps isRedfishValueString_def get go_bind_apply add_field_def f64_stable_def int)
qed


lemma BuildStruct_fields:
  assumes R: "r2s_redis r2s = R" and st: "storable_fields props obj"
    and region: "\<forall>k. under key k \<longrightarrow> view w k = flat key (GObj (ival_fields props obj)) k"
    and IH: "\<And>n v q payload. (n, v) \<in> set obj \<Longrightarrow> map_of props n = Some q \<Longrightarrow> storable q v \<Longrightarrow>
      (\<forall>k. under (key @ CHR ''/'' # n) k \<longrightarrow> view w k = flat (key @ CHR ''/'' # n) (ival q v) k) \<Longrightarrow>
      \<exists>g. build_field r2s q (key @ CHR ''/'' # n) n payload w = (Ret (Inr (add_field n g payload)), w) \<and>
          field_ok (r2s_XName r2s) q v g"
  shows "\<exists>payload. BuildStruct r2s props key w = (Ret (Inr payload), w) \<and>
      jobj payload = rb_fields (r2s_XName r2s) props obj"
proof -
  have "view w key = Some (RSet (set (map fst obj)))"
    using region [rule_format, of key] by (simp del: set_map)
  then obtain xs where xs: "rSMembers R key w = (Ret (Inr xs), w)" "set xs = set (map fst obj)" "distinct xs" "xs \<noteq> []"
    by (rule smembers_some)
  let ?f = "\<lambda>name payload. case map_of props name of
        None \<Rightarrow> go_return (Inl (Err ''No Redfish property exists for field''))
      | Some property \<Rightarrow> build_field r2s property (key @ ''/'' @ name) name payload"
  have "\<exists>payload. go_fold ?f xs [] w = (Ret (Inr payload), w) \<and>
      jobj payload = rb_part (r2s_XName r2s) props obj ({} \<union> set xs)"
  proof (rule go_fold_fields [OF st])
    fix n v q payload
    assume nv: "(n, v) \<in> set obj" and q: "map_of props n = Some q"
    have stv: "storable q v" by (rule storable_fieldsD [OF st nv]) (use q in simp)
    let ?k = "key @ CHR ''/'' # n"
    have mem: "(n, ival q v) \<in> set (ival_fields props obj)"
      using imageI [OF nv, of "\<lambda>(n, v). (n, case map_of props n of None \<Rightarrow> GNil | Some q \<Rightarrow> ival q v)"] q
      by (simp add: ival_fields_def)
    have "view w k = flat ?k (ival q v) k" if "under ?k k" for k
    proof -
      have "k \<noteq> key" "under key k" using that under_trans [OF under_child] by auto
      moreover have "flat_fields key (ival_fields props obj) k = flat ?k (ival q v) k"
        by (rule flat_fields_at [OF _ _ mem that]) (use st in \<open>auto simp: storable_fields_def\<close>)
      ultimately show ?thesis using region by simp
    qed
    then show "\<exists>g. ?f n payload w = (Ret (Inr (add_field n g payload)), w) \<and> field_ok (r2s_XName r2s) q v g"
      using IH [OF nv q stv] q by simp
  qed (simp_all add: xs(2) rb_part_def del: set_map)
  moreover obtain k ks where "xs = k # ks" using xs(4) by (cases xs) auto
  then have "BuildStruct r2s props key w = go_fold ?f xs [] w"
    using xs(1) R by (simp add: BuildStruct.simps go_bind_apply go_check_apply del: go_fold.simps cong: option.case_cong)
  ultimately show ?thesis using xs(2) rb_part_all [of "r2s_XName r2s" props obj] by simp
qed

end
text \<open>One element of an array.\<close>

definition elem_json :: "string \<Rightarrow> property \<Rightarrow> gval \<Rightarrow> json" where
  "elem_json x e v = (case simple_string (pType e) v of Some s \<Rightarrow> JStr s | None \<Rightarrow> readback x e v)"


lemma elem_cases:
  assumes "storable e v" "pType e \<noteq> PropArray"
  obtains (simple) s where "isRedfishValueString (pType e)" "simple_string (pType e) v = Some s" "ival e v = GString s"
  | (link) obj where "pType e = PropLink" "v = GObj obj" "ival e v = GObj [(''@odata.id'', GString (link_target obj))]"
  | (obj) obj where "pType e = PropObject" "v = GObj obj" "storable_fields (p_Properties e) obj"
      "ival e v = GObj (ival_fields (p_Properties e) obj)"
proof (cases "isRedfishValueString (pType e)")
  case True
  then show ?thesis using ival_simple [OF True assms(1)] simple by blast
next
  case False
  then obtain fs where v: "v = GObj fs"
    using assms by (cases v) (auto simp: isRedfishValueString_def elim: simple_string.elims)
  show ?thesis
  proof (cases "pType e = PropLink")
    case True
    then show ?thesis using link v by simp
  next
    case False
    then show ?thesis using obj [of fs] v assms(1) storable_obj [OF False, of fs] ival_obj [OF False, of fs] by blast
  qed
qed

context redis_server
begin

lemma link_value_stored:
  assumes "r2s_redis r2s = R" "view w link = Some (RString s)"
  shows "link_value r2s link w = (Ret [(''@odata.id'', GString (TrimPrefix s (r2s_XName r2s)))], w)"
  using assms by (simp add: link_value_def go_bind_apply get_law)

lemma go_fold_elems:
  assumes "\<And>i acc. i < length vs \<Longrightarrow>
      \<exists>g. f (xs ! i) acc w = (Ret (Inr (acc @ [g])), w) \<and> jv g = elem_json x e (vs ! i)"
    and "length xs = length vs"
  shows "\<exists>gs. go_fold f xs acc w = (Ret (Inr (acc @ gs)), w) \<and> map jv gs = map (elem_json x e) vs"
  using assms
proof (induction xs arbitrary: vs acc)
  case Nil
  then show ?case by auto
next
  case (Cons y xs)
  then obtain v vs' where vs: "vs = v # vs'" by (cases vs) auto
  obtain g where g: "f y acc w = (Ret (Inr (acc @ [g])), w)" "jv g = elem_json x e v"
    using Cons.prems(1) [of 0 acc] vs by auto
  have "\<exists>gs. go_fold f xs (acc @ [g]) w = (Ret (Inr ((acc @ [g]) @ gs)), w) \<and> map jv gs = map (elem_json x e) vs'"
    by (rule Cons.IH) (use Cons.prems(1) [of "Suc _"] Cons.prems(2) vs in auto)
  then show ?case using g vs by (auto simp: go_check_apply)
qed


text \<open>The region of an element of an array of objects.\<close>

lemma elem_region:
  assumes "\<forall>k. under key k \<longrightarrow> view w k = flat key (GRedisArray True es) k" "i < length es"
    and "under (key @ CHR ''/'' # FormatInt (int i)) k"
  shows "view w k = flat (key @ CHR ''/'' # FormatInt (int i)) (es ! i) k"
proof -
  have "k \<noteq> key" "under key k" using assms(3) under_trans [OF under_child] by auto
  then show ?thesis using assms flat_elems_at [of 0 i es key k] by simp
qed

definition struct_read :: "'w Redis2Interface \<Rightarrow> 'w \<Rightarrow> gval \<Rightarrow> bool" where
  "struct_read r2s w v \<longleftrightarrow> (\<forall>obj props key. v = GObj obj \<longrightarrow> storable_fields props obj \<longrightarrow>
     (\<forall>k. under key k \<longrightarrow> view w k = flat key (GObj (ival_fields props obj)) k) \<longrightarrow>
     (\<exists>payload. BuildStruct r2s props key w = (Ret (Inr payload), w) \<and>
        jobj payload = rb_fields (r2s_XName r2s) props obj))"

lemma buildArray_read:
  assumes R: "r2s_redis r2s = R" and st: "storable p (GArr vs)"
    and region: "\<forall>k. under key k \<longrightarrow> view w k = flat key (ival p (GArr vs)) k"
    and IH: "\<And>v. v \<in> set vs \<Longrightarrow> struct_read r2s w v"
  shows "\<exists>gs. buildArray r2s p key w = (Ret (Inr gs), w) \<and> JArr (map jv gs) = readback (r2s_XName r2s) p (GArr vs)"
proof -
  let ?x = "r2s_XName r2s"
  obtain e where e: "p_ArrayOf p = Some e" "pType e \<noteq> PropArray" "\<forall>v \<in> set vs. storable e v"
    using st by (auto split: option.splits)
  define b where "b = (\<not> isRedfishValueString (pType e))"
  define es where "es = map (ival e) vs"
  define xs where "xs = (if b then map (\<lambda>i. FormatInt (int i)) [0..<length vs] else map (\<lambda>v. the (redis_arg v)) es)"
  have reg: "\<forall>k. under key k \<longrightarrow> view w k = flat key (GRedisArray b es) k"
    using region e(1) by (simp add: b_def es_def)
  then have "view w key = norm_list xs" by (simp add: xs_def es_def)
  then have lr: "rLRange R key w = (Ret (Inr xs), w)" by (auto simp: lrange_law norm_list_def)
  let ?f = "\<lambda>element array. if isRedfishValueString (pType e) then go_return (Inr (array @ [GString element]))
       else if pType e = PropLink then
         go_bind (link_value r2s (key @ ''/'' @ element @ ''/'' @ ''@odata.id''))
           (\<lambda>value. go_return (Inr (array @ [GObj value])))
       else go_check (BuildStruct r2s (p_Properties e) (key @ ''/'' @ element))
           (\<lambda>value. go_return (Inr (array @ [GObj value])))"
  have "\<exists>gs. go_fold ?f xs [] w = (Ret (Inr ([] @ gs)), w) \<and> map jv gs = map (elem_json ?x e) vs"
  proof (rule go_fold_elems)
    fix i acc
    assume i: "i < length vs"
    then have iv: "vs ! i \<in> set vs" "storable e (vs ! i)" using e(3) by auto
    show "\<exists>g. ?f (xs ! i) acc w = (Ret (Inr (acc @ [g])), w) \<and> jv g = elem_json ?x e (vs ! i)"
    proof (cases rule: elem_cases [OF iv(2) e(2), case_names simple link obj])
      case (simple s)
      then have "xs ! i = s" using i by (simp add: xs_def b_def es_def)
      then show ?thesis using simple by (auto simp: elem_json_def)
    next
      case (link obj)
      then have nb: "b" "\<not> isRedfishValueString (pType e)" by (auto simp: b_def isRedfishValueString_def)
      let ?k = "key @ CHR ''/'' # FormatInt (int i)"
      have "view w (?k @ ''/'' @ ''@odata.id'') = flat ?k (es ! i) (?k @ ''/'' @ ''@odata.id'')"
        by (rule elem_region) (use reg nb(1) i in \<open>auto simp: es_def under_iff\<close>)
      then have "view w (?k @ ''/'' @ ''@odata.id'') = Some (RString (link_target obj))"
        using link i by (simp add: es_def)
      then have "link_value r2s (?k @ ''/'' @ ''@odata.id'') w = (Ret [(''@odata.id'', GString (TrimPrefix (link_target obj) ?x))], w)"
        by (rule link_value_stored [OF R])
      then show ?thesis using link nb i
        by (auto simp: xs_def elem_json_def go_bind_apply jobj_def)
    next
      case (obj obj)
      then have nb: "b" "\<not> isRedfishValueString (pType e)" by (auto simp: b_def isRedfishValueString_def)
      let ?k = "key @ CHR ''/'' # FormatInt (int i)"
      have "\<forall>k. under ?k k \<longrightarrow> view w k = flat ?k (GObj (ival_fields (p_Properties e) obj)) k"
      proof (intro allI impI)
        fix k
        assume "under ?k k"
        then have "view w k = flat ?k (es ! i) k"
          by (rule elem_region [rotated 2]) (use reg nb(1) i in \<open>auto simp: es_def\<close>)
        then show "view w k = flat ?k (GObj (ival_fields (p_Properties e) obj)) k"
          using i obj(4) by (simp add: es_def)
      qed
      then obtain payload where "BuildStruct r2s (p_Properties e) ?k w = (Ret (Inr payload), w)"
        "jobj payload = rb_fields ?x (p_Properties e) obj"
        using IH [OF iv(1)] obj(2,3) unfolding struct_read_def by blast
      then show ?thesis using obj nb i readback_obj [of e ?x obj]
        by (auto simp: xs_def elem_json_def go_check_apply)
    qed
  qed (simp add: xs_def es_def)
  then obtain gs where gs: "go_fold ?f xs [] w = (Ret (Inr gs), w)" "map jv gs = map (elem_json ?x e) vs" by auto
  have "buildArray r2s p key w = go_fold ?f xs [] w"
    using lr R e(1) by (simp add: buildArray.simps go_check_apply del: go_fold.simps)
  then show ?thesis using gs e(1) by (auto simp: elem_json_def)
qed

definition field_read :: "'w Redis2Interface \<Rightarrow> 'w \<Rightarrow> gval \<Rightarrow> bool" where
  "field_read r2s w v \<longleftrightarrow> (\<forall>p key name payload. storable p v \<longrightarrow>
     (\<forall>k. under key k \<longrightarrow> view w k = flat key (ival p v) k) \<longrightarrow>
     (\<exists>g. build_field r2s p key name payload w = (Ret (Inr (add_field name g payload)), w) \<and>
        field_ok (r2s_XName r2s) p v g))"

lemma struct_read_obj:
  assumes R: "r2s_redis r2s = R" and IH: "\<And>n v. (n, v) \<in> set obj \<Longrightarrow> field_read r2s w v"
  shows "struct_read r2s w (GObj obj)"
  unfolding struct_read_def
proof (intro allI impI)
  fix obj' props key
  assume o: "GObj obj = GObj obj'" and st: "storable_fields props obj'"
    and region: "\<forall>k. under key k \<longrightarrow> view w k = flat key (GObj (ival_fields props obj')) k"
  show "\<exists>payload. BuildStruct r2s props key w = (Ret (Inr payload), w) \<and>
        jobj payload = rb_fields (r2s_XName r2s) props obj'"
    by (rule BuildStruct_fields [OF R st region]) (use IH o in \<open>auto simp: field_read_def\<close>)
qed

lemma field_read_obj:
  assumes R: "r2s_redis r2s = R" and sr: "struct_read r2s w (GObj obj)"
  shows "field_read r2s w (GObj obj)"
  unfolding field_read_def
proof (intro allI impI)
  fix p key name payload
  let ?x = "r2s_XName r2s"
  assume st: "storable p (GObj obj)" and region: "\<forall>k. under key k \<longrightarrow> view w k = flat key (ival p (GObj obj)) k"
  show "\<exists>g. build_field r2s p key name payload w = (Ret (Inr (add_field name g payload)), w) \<and> field_ok ?x p (GObj obj) g"
  proof (cases "pType p = PropLink")
    case True
    then have "view w (key @ ''/'' @ ''@odata.id'') = Some (RString (link_target obj))"
      using region by simp
    then have "link_value r2s (key @ ''/'' @ ''@odata.id'') w = (Ret [(''@odata.id'', GString (TrimPrefix (link_target obj) ?x))], w)"
      by (rule link_value_stored [OF R])
    then show ?thesis using True st
      by (intro exI [of _ "GObj [(''@odata.id'', GString (TrimPrefix (link_target obj) ?x))]"])
        (simp add: build_field.simps buildLink.simps isRedfishValueString_def go_check_apply go_bind_apply
          add_field_def field_ok_def jobj_def)
  next
    case False
    then have st': "pType p = PropObject" "storable_fields (p_Properties p) obj"
      using st storable_obj [OF False] by blast+
    then obtain pl where "BuildStruct r2s (p_Properties p) key w = (Ret (Inr pl), w)"
      "jobj pl = rb_fields ?x (p_Properties p) obj"
      using sr region ival_obj [OF False, of obj] unfolding struct_read_def by metis
    then show ?thesis using st' readback_obj [OF False, of ?x obj]
      by (intro exI [of _ "GObj pl"])
        (simp add: build_field.simps isRedfishValueString_def go_check_apply add_field_def field_ok_def del: readback.simps)
  qed
qed

lemma field_read_arr:
  assumes R: "r2s_redis r2s = R" and IH: "\<And>v. v \<in> set vs \<Longrightarrow> struct_read r2s w v"
  shows "field_read r2s w (GArr vs)"
  unfolding field_read_def
proof (intro allI impI)
  fix p key name payload
  assume st: "storable p (GArr vs)" and region: "\<forall>k. under key k \<longrightarrow> view w k = flat key (ival p (GArr vs)) k"
  obtain gs where gs: "buildArray r2s p key w = (Ret (Inr gs), w)"
    "JArr (map jv gs) = readback (r2s_XName r2s) p (GArr vs)"
    using buildArray_read [OF R st region IH] by blast
  have "length gs = length vs"
    using gs(2) st by (auto split: option.splits dest: arg_cong [where f = length])
  then show "\<exists>g. build_field r2s p key name payload w = (Ret (Inr (add_field name g payload)), w) \<and>
      field_ok (r2s_XName r2s) p (GArr vs) g"
    using gs st by (intro exI [of _ "GArr gs"])
      (simp add: build_field.simps isRedfishValueString_def go_check_apply add_field_def field_ok_def count_name_def del: readback.simps)
qed

lemma field_read_simple:
  assumes R: "r2s_redis r2s = R" and v: "\<And>obj. v \<noteq> GObj obj" "\<And>vs. v \<noteq> GArr vs"
  shows "field_read r2s w v"
  unfolding field_read_def
proof (intro allI impI)
  fix p key name payload
  assume st: "storable p v" and region: "\<forall>k. under key k \<longrightarrow> view w k = flat key (ival p v) k"
  then obtain s where s: "simple_string (pType p) v = Some s" "stable (pType p) v" "ival p v = GString s"
    using v by (cases v) (auto split: option.splits)
  then have "view w key = Some (RString s)" using region by simp
  then have "build_field r2s p key name payload w = (Ret (Inr (add_field name (simple_gval (pType p) v) payload)), w)"
    by (rule build_field_simple [OF R s(1,2)])
  moreover have "field_ok (r2s_XName r2s) p v (simple_gval (pType p) v)"
    using v s(1) by (cases v) (auto simp: field_ok_def elim: simple_string.elims)
  ultimately show "\<exists>g. build_field r2s p key name payload w = (Ret (Inr (add_field name g payload)), w) \<and>
      field_ok (r2s_XName r2s) p v g" by blast
qed

lemma reads:
  assumes R: "r2s_redis r2s = R"
  shows "field_read r2s w v \<and> struct_read r2s w v"
proof (induction v)
  case (GObj obj)
  then have "struct_read r2s w (GObj obj)" by (intro struct_read_obj [OF R]) auto
  then show ?case using field_read_obj [OF R] by blast
next
  case (GArr vs)
  then show ?case using field_read_arr [OF R, of vs] by (simp add: struct_read_def)
qed (use field_read_simple [OF R] in \<open>auto simp: struct_read_def\<close>)

end

section \<open>Storing in an unused region\<close>

lemma wf_ival_fields_storable:
  assumes "storable_fields props obj"
  shows "wf_ival (GObj (ival_fields props obj))"
proof (rule wf_ival_fields [OF assms])
  fix n v q
  assume nv: "(n, v) \<in> set obj" and q: "map_of props n = Some q"
  have "storable q v" by (rule storable_fieldsD [OF assms nv]) (use q in simp)
  then show "wf_ival (ival q v)" by (rule wf_ival_storable)
qed

lemma fresh_add_flat: "fresh key db \<Longrightarrow> under key k \<Longrightarrow> (db ++ flat key v) k = flat key v k"
  by (auto simp: fresh_def map_add_def split: option.splits)

lemma clear_add_flat: "fresh key db \<Longrightarrow> clear key (db ++ flat key v) = db"
  by (rule ext) (auto simp: clear_def fresh_def map_add_def flat_None)

lemma fresh_mem_Nil: "fresh key (mem_view [])"
  by (simp add: fresh_def mem_view_def mem_get_def)

context redis_server
begin

lemma BuildStruct_read:
  assumes "r2s_redis r2s = R" "storable_fields props obj"
    and "\<forall>k. under key k \<longrightarrow> view w k = flat key (GObj (ival_fields props obj)) k"
  shows "\<exists>payload. BuildStruct r2s props key w = (Ret (Inr payload), w) \<and>
      jobj payload = rb_fields (r2s_XName r2s) props obj"
  using reads [OF assms(1), of w "GObj obj"] assms(2,3) unfolding struct_read_def by blast

end

section \<open>A concrete service\<close>

text \<open>An in-memory dispatcher without files and backend helpers, and a small schema.\<close>

definition no_os :: "'w os_ops" where
  "no_os = \<lparr> osStat = (\<lambda>_. go_return (Inl (Err ''no such file''))),
             osReadFile = (\<lambda>_. go_return (Inl (Err ''no such file''))),
             osLookPath = (\<lambda>_. go_return (Inl (Err ''not found''))),
             osOutput = (\<lambda>_ _ _. go_return (Inl (Err ''not found''))) \<rparr>"

definition ex_props :: properties where
  "ex_props =
     [(''Name'', mk_prop PropString), (''Health'', mk_prop PropEnum), (''Watts'', mk_prop PropNumber),
      (''Slots'', mk_prop PropInteger), (''On'', mk_prop PropBool),
      (''Tags'', Property (prop_zero\<lparr>p_Type := PropArray\<rparr>) [] (Some (mk_prop PropString)) None [] None None),
      (''Fans'', Property (prop_zero\<lparr>p_Type := PropArray\<rparr>) []
         (Some (Property (prop_zero\<lparr>p_Type := PropObject\<rparr>) [(''Rpm'', mk_prop PropInteger)] None None [] None None))
         None [] None None),
      (''Chassis'', mk_prop PropLink)]"

definition ex_obj :: gobj where
  "ex_obj =
     [(''Name'', GString ''Outlet''), (''Watts'', GFloat 4609434218613702656),
      (''Slots'', GFloat 4607182418800017408), (''On'', GBool True),
      (''Tags'', GArr [GString ''a'', GString ''b'']),
      (''Fans'', GArr [GObj [(''Rpm'', GFloat 4607182418800017408)]]),
      (''Chassis'', GObj [(''@odata.id'', GString ''/redfish/v1/Chassis/1'')])]"

definition ex_res :: resource where
  "ex_res = Resource (res_zero\<lparr>r_Name := ''Outlet''\<rparr>) None ex_props"

definition ex_rfd :: "mem RedfishDispatcher" where
  "ex_rfd = \<lparr> scriptDirPrefix = ''/'', programName = ''rts'', schemaTree = ex_res,
     rfd_redis = mem_redis, rfd_os = no_os, additionalCollectionCBs = [], BackendHelpers = [] \<rparr>"

definition ex_r2s :: "mem Redis2Interface" where
  "ex_r2s = \<lparr> r2s_RFD = ex_rfd, r2s_Resource = ex_res, r2s_URI = ''/redfish/v1/Outlet'', r2s_XName = [] \<rparr>"

lemma ex_storable: "storable_fields ex_props ex_obj"
  by code_simp

section \<open>Properties\<close>

text \<open>
  C1. Storing a resource and reading it back: for an object that conforms to the schema, the
  conversion succeeds, the insertion under an unused key succeeds, and \<open>BuildStruct\<close> then returns
  the object described by \<open>rb_fields\<close>, whatever the order in which Redis lists a set, without
  touching the store and without asking the file handler or a backend helper.
\<close>

theorem store_then_read:
  assumes "redis_server R view" "r2s_redis r2s = R" "storable_fields props obj" "fresh key (view w)"
  shows "\<exists>w' payload.
    Interface2Redis None path props obj c = (Ret (Inr (ival_fields props obj)), c) \<and>
    RedisInsert R (GObj (ival_fields props obj)) key w = (Ret (Inr ()), w') \<and>
    BuildStruct r2s props key w' = (Ret (Inr payload), w') \<and>
    jobj payload = rb_fields (r2s_XName r2s) props obj"
proof -
  have wf: "wf_ival (GObj (ival_fields props obj))" by (rule wf_ival_fields_storable [OF assms(3)])
  obtain w' where w': "RedisInsert R (GObj (ival_fields props obj)) key w = (Ret (Inr ()), w')"
    "view w' = view w ++ flat key (GObj (ival_fields props obj))"
    using redis_server.insert_flat(1) [OF assms(1) wf assms(4)] by auto
  have region: "\<forall>k. under key k \<longrightarrow> view w' k = flat key (GObj (ival_fields props obj)) k"
    using fresh_add_flat [OF assms(4)] unfolding w'(2) by blast
  show ?thesis
    using redis_server.BuildStruct_read [OF assms(1-3) region] w'(1) Interface2Redis_ival [OF assms(3), of path c]
    by auto
qed

theorem store_then_read_witness:
  "\<exists>w' payload.
    Interface2Redis None [] ex_props ex_obj () = (Ret (Inr (ival_fields ex_props ex_obj)), ()) \<and>
    RedisInsert mem_redis (GObj (ival_fields ex_props ex_obj)) ''/redfish/v1/Outlet'' [] = (Ret (Inr ()), w') \<and>
    BuildStruct ex_r2s ex_props ''/redfish/v1/Outlet'' w' = (Ret (Inr payload), w') \<and>
    jobj payload = rb_fields (r2s_XName ex_r2s) ex_props ex_obj"
  by (rule store_then_read [OF mem_redis_server]) (simp_all add: ex_storable ex_r2s_def ex_rfd_def fresh_mem_Nil)

text \<open>
  C6. Removing a resource undoes its insertion: after a conforming object has been stored under an
  unused key, \<open>RedisRemoveResource\<close> with the schema of the resource returns, and every key of the
  database has the value it had before the insertion.
\<close>

theorem store_then_remove:
  assumes "redis_server R view" "storable_fields (r_Properties res) obj" "fresh key (view w)"
    and "2 * vdepth (GObj (ival_fields (r_Properties res) obj)) \<le> n"
    and "RedisInsert R (GObj (ival_fields (r_Properties res) obj)) key w = (Ret r, w')"
  shows "\<exists>w''. RedisRemoveResource R n res key w' = (Ret (), w'') \<and> view w'' = view w"
proof -
  let ?v = "GObj (ival_fields (r_Properties res) obj)"
  have wf: "wf_ival ?v" by (rule wf_ival_fields_storable [OF assms(2)])
  have w': "view w' = view w ++ flat key ?v"
    using redis_server.insert_flat(1) [OF assms(1) wf assms(3)] assms(5) by auto
  then have region: "\<forall>k. under key k \<longrightarrow> view w' k = flat key ?v k"
    using fresh_add_flat [OF assms(3)] by metis
  have "\<exists>w''. redisRemoveObject R n (r_Properties res) key w' = (Ret (), w'') \<and> view w'' = clear key (view w')"
  proof (rule redis_server.remove_object_step [OF assms(1) wf assms(4) region])
    fix name v m wa
    assume nv: "(name, v) \<in> set (ival_fields (r_Properties res) obj)" and m: "2 * vdepth v + 1 \<le> m"
      and reg: "\<forall>k. under (key @ CHR ''/'' # name) k \<longrightarrow> view wa k = flat (key @ CHR ''/'' # name) v k"
    obtain u q where q: "map_of (r_Properties res) name = Some q" "storable q u" "v = ival q u"
      by (rule ival_fields_mem [OF nv assms(2)])
    have "wf_ival v" "removable (Some q) v" using q wf_ival_storable removable_storable by auto
    then show "\<exists>w'. redisRemoveField R m (map_of (r_Properties res) name) (key @ CHR ''/'' # name) wa = (Ret (), w') \<and>
        view w' = clear (key @ CHR ''/'' # name) (view wa)"
      using redis_server.remove_flat [OF assms(1) _ _ m reg] q(1) by simp
  qed
  moreover have "clear key (view w') = view w"
    unfolding w' by (rule clear_add_flat [OF assms(3)])
  ultimately show ?thesis by (simp add: RedisRemoveResource_def)
qed

theorem store_then_remove_witness:
  "\<exists>w' w''. RedisInsert mem_redis (GObj (ival_fields (r_Properties ex_res) ex_obj)) ''/redfish/v1/Outlet'' [] = (Ret (Inr ()), w') \<and>
     RedisRemoveResource mem_redis 10 ex_res ''/redfish/v1/Outlet'' w' = (Ret (), w'') \<and> mem_view w'' = mem_view []"
proof -
  have st: "storable_fields (r_Properties ex_res) ex_obj" by (simp add: ex_res_def ex_storable)
  have d: "2 * vdepth (GObj (ival_fields (r_Properties ex_res) ex_obj)) \<le> 10" by code_simp
  obtain w' where w': "RedisInsert mem_redis (GObj (ival_fields (r_Properties ex_res) ex_obj)) ''/redfish/v1/Outlet'' [] = (Ret (Inr ()), w')"
    using mr.insert_flat(1) [OF wf_ival_fields_storable [OF st] fresh_mem_Nil] by auto
  then show ?thesis
    using store_then_remove [OF mem_redis_server st fresh_mem_Nil d w'] by blast
qed

end
