(* ===== verification/Redis_Struct_Frame.thy ===== *)
theory Redis_Struct_Frame
  imports Redis_Roundtrip
begin

text \<open>
  What the write operations leave alone: whatever the intermediate value and whatever the outcome,
  an insertion, a partial update or a removal below a key changes no other part of the database.
  Then the effect of a partial update on the fields it names, and the values the conversion accepts.
\<close>

section \<open>Frames\<close>

definition keeps :: "('w \<Rightarrow> rdb) \<Rightarrow> string \<Rightarrow> ('w, 'a) go \<Rightarrow> 'w \<Rightarrow> bool" where
  "keeps view base m w \<longleftrightarrow> (\<forall>k. \<not> under base k \<longrightarrow> view (snd (m w)) k = view w k)"

lemma keeps_return [simp]: "keeps view base (go_return a) w"
  by (simp add: keeps_def)

lemma keeps_panic [simp]: "keeps view base (go_panic s) w"
  by (simp add: keeps_def)

lemma keeps_nofuel [simp]: "keeps view base go_nofuel w"
  by (simp add: keeps_def)

lemma keeps_bind:
  assumes "\<And>w. keeps view base m w" "\<And>a w. keeps view base (f a) w"
  shows "keeps view base (go_bind m f) w"
proof (cases "m w")
  case (Pair r w')
  have "\<forall>k. \<not> under base k \<longrightarrow> view w' k = view w k" using assms(1) [of w] Pair by (simp add: keeps_def)
  then show ?thesis using assms(2) Pair by (cases r) (auto simp: keeps_def go_bind_apply)
qed

lemma keeps_check:
  assumes "\<And>w. keeps view base m w" "\<And>a w. keeps view base (f a) w"
  shows "keeps view base (go_check m f) w"
  unfolding go_check_def by (rule keeps_bind) (use assms in \<open>auto split: sum.split\<close>)

lemma keeps_must:
  assumes "\<And>w. keeps view base m w" "\<And>a w. keeps view base (f a) w"
  shows "keeps view base (go_must m f) w"
  unfolding go_must_def by (rule keeps_bind) (use assms in \<open>auto split: sum.split\<close>)

lemma keeps_each:
  assumes "\<And>x w. x \<in> set xs \<Longrightarrow> keeps view base (f x) w"
  shows "keeps view base (go_each f xs) w"
  using assms by (induction xs arbitrary: w) (auto intro!: keeps_bind)

lemma keeps_child: "keeps view (base @ CHR ''/'' # n) m w \<Longrightarrow> keeps view base m w"
  unfolding keeps_def using under_trans [OF under_child] by blast

lemmas keeps_intros = keeps_bind keeps_check keeps_must keeps_each

context redis_server
begin

lemma keeps_cmd: "cmd_effect view m k r w \<Longrightarrow> keeps view k m w"
  by (cases r) (auto simp: cmd_effect_def keeps_def)

lemma keeps_set [simp]: "keeps view k (rSet R k v) w"
  by (rule keeps_cmd [OF set_law])

lemma keeps_del [simp]: "keeps view k (rDel R k) w"
  by (rule keeps_cmd [OF del_law])

lemma keeps_sadd [simp]: "keeps view k (rSAdd R k xs) w"
  by (rule keeps_cmd [OF sadd_law])

lemma keeps_srem [simp]: "keeps view k (rSRem R k x) w"
  by (rule keeps_cmd [OF srem_law])

lemma keeps_rpush [simp]: "keeps view k (rRPush R k xs) w"
  by (rule keeps_cmd [OF rpush_law])

lemma keeps_type [simp]: "keeps view b (rType R k) w"
  by (simp add: keeps_def type_law)

lemma keeps_lrange [simp]: "keeps view b (rLRange R k) w"
  by (simp add: keeps_def lrange_law)

lemma keeps_smembers [simp]: "keeps view b (rSMembers R k) w"
proof (cases "set_result (view w k)")
  case (Inl e)
  then show ?thesis by (simp add: keeps_def smembers_err)
next
  case (Inr S)
  then show ?thesis using smembers_ok [of w k S] by (auto simp: keeps_def)
qed

lemma RPush_vals_keeps [simp]: "keeps view key (RPush_vals R key vs) w"
  by (simp add: RPush_vals_def)

lemma insert_keeps:
  "keeps view key (RedisInsert R v key) w"
  "keeps view key (insert_elems R key i es) w"
  "keeps view key (insert_fields R key fs) w"
proof (induction key v and key i es and key fs arbitrary: w and w and w
       rule: flat_flat_elems_flat_fields.induct)
  case (6 key i e es)
  have el: "keeps view key (RedisInsert R e (key @ CHR ''/'' # FormatInt (int i))) w" for w
    by (rule keeps_child) (use 6(1) in simp)
  show ?case using el 6(2) by (auto intro!: keeps_intros simp del: RedisInsert.simps split: gval.splits)
next
  case (8 key n v fs)
  have "keeps view key (RedisInsert R v (key @ CHR ''/'' # n)) w" for w
    by (rule keeps_child) (use 8(1) in simp)
  then show ?case using 8(2) by (auto intro!: keeps_intros)
qed (auto intro!: keeps_intros)

lemma remove_keeps:
  "keeps view key (redisRemoveField R n po key) w"
  "keeps view key (redisRemoveObject R n props key) w"
  "keeps view key (redisRemoveArray R n po key) w"
proof (induction n arbitrary: w key po props)
  case (Suc n)
  {
    case 1 show ?case using Suc.IH(2,3) by (auto intro!: keeps_intros split: option.splits)
  next
    case 2
    have "keeps view key (redisRemoveField R n po (key @ CHR ''/'' # x)) w" for po x w
      by (rule keeps_child, rule Suc.IH(1))
    then show ?case by (auto intro!: keeps_intros)
  next
    case 3
    have "keeps view key (redisRemoveObject R n ps (key @ CHR ''/'' # x)) w" for ps x w
      by (rule keeps_child, rule Suc.IH(2))
    then show ?case by (auto intro!: keeps_intros split: option.splits)
  }
qed simp_all

lemma patch_fields_keeps:
  assumes "\<And>name v k w. (name, v) \<in> set fs \<Longrightarrow> keeps view k (RedisPatch R n v k) w"
  shows "keeps view key (patch_fields R n key fs) w"
  using assms
proof (induction fs arbitrary: w)
  case (Cons f fs)
  obtain name v where f: "f = (name, v)" by fastforce
  have 1: "keeps view key (RedisPatch R n v (key @ CHR ''/'' # name)) w" for w
    by (rule keeps_child, rule Cons.prems [of name]) (simp add: f)
  have 2: "keeps view key (redisRemoveObject R n [] (key @ CHR ''/'' # name)) w" for w
    by (rule keeps_child, rule remove_keeps)
  have 3: "keeps view key (rDel R (key @ CHR ''/'' # name)) w" for w
    by (rule keeps_child [of _ _ name]) simp
  have 4: "keeps view key (patch_fields R n key fs) w" for w
    by (rule Cons.IH) (use Cons.prems in auto)
  show ?case using 1 2 3 4 by (auto simp: f Let_def intro!: keeps_intros)
qed simp

lemma patch_keeps: "keeps view key (RedisPatch R n v key) w"
proof (induction v arbitrary: key w)
  case (GObj fs)
  then show ?case by (auto intro!: keeps_intros patch_fields_keeps)
qed auto

end

section \<open>A partial update\<close>

text \<open>
  The fields of a partial update that hold no object: strings to set and nulls to remove. The
  specification is a step on the database for each of them.
\<close>

fun patch_step :: "string \<Rightarrow> string \<times> gval \<Rightarrow> rdb \<Rightarrow> rdb" where
  "patch_step key (name, GString s) db =
     db(key @ ''/'' @ name \<mapsto> RString s,
        key \<mapsto> RSet (insert name (case db key of Some (RSet S) \<Rightarrow> S | _ \<Rightarrow> {})))"
| "patch_step key (name, _) db =
     db(key := (case db key of Some (RSet S) \<Rightarrow> norm_set (S - {name}) | v \<Rightarrow> v),
        key @ ''/'' @ name := None)"

lemma go_bind_right_unit: "go_bind m go_return = m"
  by (rule ext) (auto simp: go_bind_apply split: prod.splits outcome.splits)

lemma patch_fields_Cons:
  "patch_fields R n key (f # data) = go_bind (patch_fields R n key [f]) (\<lambda>_. patch_fields R n key data)"
  by (cases f) (simp add: Let_def go_bind_right_unit)

text \<open>The object at \<open>key\<close> is a set or absent and the fields named are strings or absent.\<close>

definition patchable :: "string \<Rightarrow> gobj \<Rightarrow> rdb \<Rightarrow> bool" where
  "patchable key data db \<longleftrightarrow>
     (\<forall>v. db key = Some v \<longrightarrow> (\<exists>S. v = RSet S)) \<and>
     (\<forall>(n, v) \<in> set data. (v = GNil \<or> (\<exists>s. v = GString s)) \<and>
        (\<forall>u. db (key @ ''/'' @ n) = Some u \<longrightarrow> (\<exists>s. u = RString s)))"

lemma patchable_step:
  assumes "patchable key ((name, v) # data) db"
  shows "patchable key data (patch_step key (name, v) db)"
proof -
  have key: "\<exists>S. u = RSet S" if "db key = Some u" for u using assms that by (auto simp: patchable_def)
  have old: "\<exists>s. u = RString s" if "(n, x) \<in> set data" "db (key @ ''/'' @ n) = Some u" for n x u
    using assms that by (auto simp: patchable_def)
  have "\<exists>S. u = RSet S" if "patch_step key (name, v) db key = Some u" for u
    using that key by (cases v; cases "db key") (fastforce simp: norm_set_def split: if_splits)+
  moreover have "\<exists>s. u = RString s"
    if "(n, x) \<in> set data" "patch_step key (name, v) db (key @ ''/'' @ n) = Some u" for n x u
    using that(2) old [OF that(1)] by (cases v) (auto split: if_splits)
  moreover have "\<forall>(n, u) \<in> set data. u = GNil \<or> (\<exists>s. u = GString s)"
    using assms by (auto simp: patchable_def)
  ultimately show ?thesis unfolding patchable_def by blast
qed

context redis_server
begin

lemma patch_step_sim:
  assumes "patchable key [(name, v)] (view w)"
  shows "\<exists>w'. patch_fields R n key [(name, v)] w = (Ret (), w') \<and> view w' = patch_step key (name, v) (view w)"
proof -
  let ?k = "key @ CHR ''/'' # name"
  consider (str) s where "v = GString s" | (nil) "v = GNil" using assms by (auto simp: patchable_def)
  then show ?thesis
  proof cases
    case str
    obtain w1 where w1: "rSet R ?k s w = (Ret (Inr ()), w1)" "view w1 = (view w)(?k \<mapsto> RString s)"
      using set_ok by blast
    let ?S = "case view w key of Some (RSet S) \<Rightarrow> S | _ \<Rightarrow> {}"
    have "sadd_eff (view w1 key) [name] = Inr (Some (RSet (insert name ?S)))"
      using assms w1(2) by (cases "view w key") (auto simp: patchable_def)
    then obtain w2 where "rSAdd R key [name] w1 = (Ret (Inr ()), w2)"
      "view w2 = (view w1)(key \<mapsto> RSet (insert name ?S))"
      using sadd_ok [of "[name]" w1 key] by blast
    then show ?thesis using w1 str by (auto simp: Let_def go_bind_apply go_must_apply)
  next
    case nil
    let ?v = "case view w key of Some (RSet S) \<Rightarrow> norm_set (S - {name}) | v \<Rightarrow> v"
    have "srem_eff (view w key) name = Inr ?v"
      using assms by (cases "view w key") (auto simp: patchable_def)
    then obtain w1 where w1: "rSRem R key name w = (Ret (Inr ()), w1)" "view w1 = (view w)(key := ?v)"
      using srem_ok by blast
    have child: "view w1 ?k = view w ?k" using w1(2) by simp
    show ?thesis
    proof (cases "view w ?k")
      case None
      then show ?thesis using w1 nil child
        by (auto simp: Let_def go_bind_apply go_must_apply type_law fun_upd_idem)
    next
      case (Some u)
      then obtain s where "u = RString s" using assms by (auto simp: patchable_def)
      moreover obtain w2 where "rDel R ?k w1 = (Ret (Inr ()), w2)" "view w2 = (view w1)(?k := None)"
        using del_ok by blast
      ultimately show ?thesis using w1 nil child Some
        by (auto simp: Let_def go_bind_apply go_must_apply type_law)
    qed
  qed
qed

lemma patch_sim:
  "patchable key data (view w) \<Longrightarrow>
    \<exists>w'. patch_fields R n key data w = (Ret (), w') \<and> view w' = fold (patch_step key) data (view w)"
proof (induction data arbitrary: w)
  case (Cons f data)
  obtain name v where f: "f = (name, v)" by fastforce
  have "patchable key [(name, v)] (view w)" using Cons.prems f by (auto simp: patchable_def)
  then obtain w1 where w1: "patch_fields R n key [(name, v)] w = (Ret (), w1)"
    "view w1 = patch_step key (name, v) (view w)"
    using patch_step_sim by blast
  have "patchable key data (view w1)" using patchable_step Cons.prems w1(2) f by simp
  then obtain w2 where "patch_fields R n key data w1 = (Ret (), w2)"
    "view w2 = fold (patch_step key) data (view w1)"
    using Cons.IH by blast
  moreover have "patch_fields R n key (f # data) w = patch_fields R n key data w1"
    using w1(1) f by (simp add: patch_fields_Cons [of _ _ _ _ data] go_bind_apply del: patch_fields.simps)
  ultimately show ?case using w1(2) f by auto
qed simp

end

section \<open>What the conversion accepts\<close>

text \<open>The intermediate values that belong to a property.\<close>

fun typed_ival :: "property \<Rightarrow> gval \<Rightarrow> bool" where
  "typed_ival p GNil \<longleftrightarrow> p_NullAllowed (p_info p) \<or> pType p = PropAction \<or>
     (pType p = PropLink \<and> p_IsNavLink (p_info p))"
| "typed_ival p (GString s) \<longleftrightarrow> isRedfishValueString (pType p)"
| "typed_ival p (GObj fs) \<longleftrightarrow>
     (if pType p = PropLink then \<not> p_IsNavLink (p_info p) \<and> (\<exists>s. fs = [(''@odata.id'', GString s)])
      else pType p = PropObject \<and> distinct (map fst fs) \<and>
        (\<forall>(n, v) \<in> set fs. case map_of (p_Properties p) n of None \<Rightarrow> False | Some q \<Rightarrow> typed_ival q v))"
| "typed_ival p (GRedisArray b es) \<longleftrightarrow> pType p = PropArray \<and>
     (case p_ArrayOf p of None \<Rightarrow> False
      | Some e \<Rightarrow> b = (\<not> isRedfishValueString (pType e)) \<and> (\<forall>x \<in> set es. typed_ival e x))"
| "typed_ival p _ \<longleftrightarrow> False"

definition typed_fields :: "properties \<Rightarrow> gobj \<Rightarrow> bool" where
  "typed_fields props fs \<longleftrightarrow> distinct (map fst fs) \<and>
     (\<forall>(n, v) \<in> set fs. case map_of props n of None \<Rightarrow> False | Some q \<Rightarrow> typed_ival q v)"

lemma typed_obj: "pType p = PropObject \<Longrightarrow> typed_ival p (GObj fs) \<longleftrightarrow> typed_fields (p_Properties p) fs"
  by (simp add: typed_fields_def)

lemma typed_fields_update:
  assumes "typed_fields props fs" "map_of props n = Some q" "typed_ival q v"
  shows "typed_fields props (AList.update n v fs)"
proof -
  have "set (AList.update n v fs) \<subseteq> insert (n, v) (set fs)" by (induction fs) auto
  then show ?thesis using assms distinct_update unfolding typed_fields_def by fastforce
qed

lemma go_check_InrD:
  "go_check m f w = (Ret (Inr r), w') \<Longrightarrow> \<exists>a w1. m w = (Ret (Inr a), w1) \<and> f a w1 = (Ret (Inr r), w')"
  by (auto simp: go_check_apply split: prod.splits outcome.splits sum.splits)

lemma struct_fields_typed:
  assumes "\<And>n v q (c :: 'c) g b c'. (n, v) \<in> set obj \<Longrightarrow> map_of props n = Some q \<Longrightarrow>
      structField2Redis None (path @ [n]) q v c = (Ret (Inr (g, b)), c') \<Longrightarrow> typed_ival q g \<and> c' = c"
    and "struct_fields None path props obj res (c :: 'c) = (Ret (Inr r), c')" "typed_fields props res"
  shows "typed_fields props r \<and> c' = c \<and> set (map fst obj) \<subseteq> set (map fst props)"
  using assms
proof (induction obj arbitrary: res c)
  case (Cons f obj)
  obtain n v where f: "f = (n, v)" by fastforce
  obtain q where q: "map_of props n = Some q"
    using Cons.prems(2) f by (cases "map_of props n") auto
  obtain g b c1 where g: "structField2Redis None (path @ [n]) q v c = (Ret (Inr (g, b)), c1)"
    "struct_fields None path props obj (if g \<noteq> GNil \<or> b then AList.update n g res else res) c1 = (Ret (Inr r), c')"
    using Cons.prems(2) f q go_check_InrD by fastforce
  have ty: "typed_ival q g" "c1 = c" using Cons.prems(1) [OF _ q g(1)] f by auto
  have "typed_fields props (if g \<noteq> GNil \<or> b then AList.update n g res else res)"
    using typed_fields_update [OF Cons.prems(3) q] ty(1) Cons.prems(3) by simp
  then have "typed_fields props r \<and> c' = c1 \<and> set (map fst obj) \<subseteq> set (map fst props)"
    by (rule Cons.IH [OF _ g(2), rotated]) (rule Cons.prems(1), simp_all)
  moreover have "n \<in> set (map fst props)" using map_of_SomeD [OF q] by force
  ultimately show ?case using ty(2) f by simp
qed simp

lemma struct_elems_typed:
  assumes "\<And>v path (c :: 'c) g b c'. v \<in> set vs \<Longrightarrow>
      structField2Redis None path e v c = (Ret (Inr (g, b)), c') \<Longrightarrow> typed_ival e g \<and> c' = c"
    and "struct_elems None path e i vs (c :: 'c) = (Ret (Inr gs), c')"
  shows "(\<forall>g \<in> set gs. typed_ival e g) \<and> c' = c"
  using assms
proof (induction vs arbitrary: i gs c)
  case (Cons v vs)
  obtain g b c1 where g: "structField2Redis None (path @ [FormatInt (int i)]) e v c = (Ret (Inr (g, b)), c1)"
    "go_check (struct_elems None path e (Suc i) vs) (\<lambda>es. go_return (Inr (g # es))) c1 = (Ret (Inr gs), c')"
    using Cons.prems(2) go_check_InrD by fastforce
  obtain es where es: "struct_elems None path e (Suc i) vs c1 = (Ret (Inr es), c')" "gs = g # es"
    using go_check_InrD [OF g(2)] by auto
  have "typed_ival e g \<and> c1 = c" using Cons.prems(1) [OF _ g(1)] by simp
  moreover have "(\<forall>g \<in> set es. typed_ival e g) \<and> c' = c1"
    by (rule Cons.IH [OF _ es(1)]) (rule Cons.prems(1), simp_all)
  ultimately show ?case using es(2) by simp
qed simp

lemma structField_typed:
  "structField2Redis None path p v (c :: 'c) = (Ret (Inr (g, b)), c') \<Longrightarrow> typed_ival p g \<and> c' = c"
proof (induction v arbitrary: p path g b c c')
  case (GObj obj)
  show ?case
  proof (cases "pType p = PropObject")
    case True
    then obtain r where r: "struct_fields None path (p_Properties p) obj [] c = (Ret (Inr r), c')" "g = GObj r"
      using GObj.prems by (auto simp: structField2Redis.simps field_done_def dest!: go_check_InrD)
    have "typed_fields (p_Properties p) r \<and> c' = c \<and> set (map fst obj) \<subseteq> set (map fst (p_Properties p))"
    proof (rule struct_fields_typed [OF _ r(1)])
      fix n v q and c :: 'c and g b c'
      assume nv: "(n, v) \<in> set obj" and eq: "structField2Redis None (path @ [n]) q v c = (Ret (Inr (g, b)), c')"
      show "typed_ival q g \<and> c' = c" by (rule GObj.IH [OF nv _ eq]) simp
    qed (simp add: typed_fields_def)
    then show ?thesis using typed_obj [OF True] r(2) by simp
  next
    case False
    then show ?thesis using GObj.prems
      by (auto simp: structField2Redis.simps field_done_def split: PropertyType.splits if_splits option.splits gval.splits)
  qed
next
  case (GArr vs)
  show ?case
  proof (cases "pType p = PropArray")
    case True
    then obtain e gs where e: "p_ArrayOf p = Some e"
      "struct_elems None path e 0 vs c = (Ret (Inr gs), c')" "g = GRedisArray (\<not> isRedfishValueString (pType e)) gs"
      using GArr.prems by (auto simp: structField2Redis.simps field_done_def dest!: go_check_InrD split: option.splits)
    have "(\<forall>g \<in> set gs. typed_ival e g) \<and> c' = c"
      by (rule struct_elems_typed [OF _ e(2)]) (use GArr.IH in blast)
    then show ?thesis using True e by simp
  next
    case False
    then show ?thesis using GArr.prems
      by (auto simp: structField2Redis.simps field_done_def split: PropertyType.splits)
  qed
qed (auto simp: structField2Redis.simps field_done_def isRedfishValueString_def split: PropertyType.splits if_splits)
section \<open>Properties\<close>

text \<open>
  C2. \<open>RedisInsert\<close> refines the flat form of the keyspace: under an unused key it adds exactly the
  keys of the flat form, and the only error it can report is the one for an empty array at the top.
\<close>

theorem insert_adds_flat:
  assumes "redis_server R view" "wf_ival v" "fresh key (view w)"
  shows "\<exists>w'. RedisInsert R v key w = (Ret (insert_result v), w') \<and> view w' = view w ++ flat key v"
  by (rule redis_server.insert_flat(1) [OF assms])

theorem insert_adds_flat_witness:
  "\<exists>w'. RedisInsert mem_redis (GObj [(''A'', GString ''x''), (''B'', GNil)]) ''/k'' [] = (Ret (Inr ()), w') \<and>
     mem_view w' = mem_view [] ++ flat ''/k'' (GObj [(''A'', GString ''x''), (''B'', GNil)])"
  using insert_adds_flat [OF mem_redis_server _ fresh_mem_Nil, of "GObj [(''A'', GString ''x''), (''B'', GNil)]" "''/k''"]
  by simp

text \<open>
  C10. Whatever value they are given and however they end, \<open>RedisInsert\<close>, \<open>RedisPatch\<close> and
  \<open>RedisRemoveResource\<close> change no key outside the region below the key they work on.
\<close>

theorem write_frame:
  assumes "redis_server R view" "\<not> under key k"
  shows "view (snd (RedisInsert R v key w)) k = view w k \<and>
    view (snd (RedisPatch R n v key w)) k = view w k \<and>
    view (snd (RedisRemoveResource R n res key w)) k = view w k"
  using redis_server.insert_keeps(1) [OF assms(1)] redis_server.patch_keeps [OF assms(1)]
    redis_server.remove_keeps(2) [OF assms(1)] assms(2)
  by (simp add: keeps_def RedisRemoveResource_def)

theorem write_frame_witness:
  "mem_view (snd (RedisInsert mem_redis (GString ''x'') ''/a'' [(''/ab'', MString ''y'')])) ''/ab'' = Some (RString ''y'')"
proof -
  have "\<not> under ''/a'' ''/ab''" by (simp add: under_def HasPrefix_def)
  then show ?thesis
    using write_frame [OF mem_redis_server, of "''/a''" "''/ab''" "GString ''x''" "[(''/ab'', MString ''y'')]" 0 ex_res]
    by (simp add: mem_view_def mem_get_def)
qed

text \<open>
  C11. A partial update with strings and nulls acts field by field: a string is written and the name
  added to the object, a null removes the name and the key, and \<open>RedisPatch\<close> reports success.
\<close>

theorem patch_acts_by_field:
  assumes "redis_server R view" "patchable key data (view w)"
  shows "\<exists>w'. RedisPatch R n (GObj data) key w = (Ret (Inr ()), w') \<and>
    view w' = fold (patch_step key) data (view w)"
  using redis_server.patch_sim [OF assms, of n] by (auto simp: go_bind_apply)

theorem patch_acts_by_field_witness:
  "\<exists>w'. RedisPatch mem_redis 5 (GObj [(''Tag'', GString ''t''), (''Old'', GNil)]) ''/k''
       [(''/k'', MSet [''Old'']), (''/k/Old'', MString ''o'')] = (Ret (Inr ()), w') \<and>
     mem_view w' ''/k/Tag'' = Some (RString ''t'') \<and> mem_view w' ''/k/Old'' = None"
proof -
  let ?w = "[(''/k'', MSet [''Old'']), (''/k/Old'', MString ''o'')]"
  have "patchable ''/k'' [(''Tag'', GString ''t''), (''Old'', GNil)] (mem_view ?w)"
    by (simp add: patchable_def mem_view_def mem_get_def)
  then show ?thesis
    using patch_acts_by_field [OF mem_redis_server, of "''/k''" "[(''Tag'', GString ''t''), (''Old'', GNil)]" ?w 5]
    by auto
qed

text \<open>
  C29. Removal returns: on a database whose keys are at most \<open>L\<close> long the functions do not run out
  of fuel once it reaches twice the number of levels that can lie below the key, and whatever the
  outcome they only remove keys. When the database has the types that the schema asks for at the
  resource, the removal returns without a panic; the key of the resource is gone then, and so is the key
  of each of its fields that is not a navigation link.
\<close>

theorem removal_returns:
  assumes "redis_server R view" "keys_upto L (view w)" "2 * (L + 1 - length key) + 1 \<le> n"
    and "RedisRemoveResource R n res key w = (r, w')"
  shows "r \<noteq> NoFuel \<and> view w' \<subseteq>\<^sub>m view w \<and>
    (fits_object (view w) (r_Properties res) key \<longrightarrow> r = Ret () \<and> view w' key = None \<and>
      (\<forall>S. view w key = Some (RSet S) \<longrightarrow> (\<forall>m \<in> S. view w' (key @ ''/'' @ m) = None \<or>
        (\<exists>p. map_of (r_Properties res) m = Some p \<and> pType p = PropLink \<and> p_IsNavLink (p_info p)))))"
proof -
  note facts = redis_server.removal_shrinks(2) [OF assms(1,2)] redis_server.removal_succeeds(2) [OF assms(1,2)]
    redis_server.removal_gone(1) [OF assms(1,2)] redis_server.members_gone [OF assms(1,2)]
  have run: "redisRemoveObject R n (r_Properties res) key w = (r, w')" using assms(4) by (simp add: RedisRemoveResource_def)
  have "r \<noteq> NoFuel \<and> view w' \<subseteq>\<^sub>m view w"
    using facts(1) [of key n "r_Properties res"] run assms(3) by (simp add: shrinks_def)
  moreover have "r = Ret () \<and> view w' key = None" if "fits_object (view w) (r_Properties res) key"
    using facts(2) [of key n "r_Properties res"] facts(3) [of key n "r_Properties res" "()"] run that assms(3) by (auto simp: returns_def)
  moreover have "view w' (key @ ''/'' @ m) = None \<or> (\<exists>p. map_of (r_Properties res) m = Some p \<and> pType p = PropLink \<and> p_IsNavLink (p_info p))"
    if "r = Ret ()" "view w key = Some (RSet S)" "m \<in> S" for S m
    using facts(4) [of key n "r_Properties res" "()" S m] run that assms(3) by simp
  ultimately show ?thesis by blast
qed

theorem removal_returns_witness:
  "\<exists>w'. RedisRemoveResource mem_redis 20 ex_res ''/k'' [(''/k'', MSet [''Name'']), (''/k/Name'', MString ''o'')] = (Ret (), w') \<and>
     mem_view w' ''/k/Name'' = None"
proof -
  let ?w = "[(''/k'', MSet [''Name'']), (''/k/Name'', MString ''o'')]"
  obtain r w' where run: "RedisRemoveResource mem_redis 20 ex_res ''/k'' ?w = (r, w')" by fastforce
  have "keys_upto 7 (mem_view ?w)" by (simp add: keys_upto_def mem_view_def mem_get_def)
  moreover have "fits_field (mem_view ?w) (mk_prop PropString) ''/k/Name''"
    by (rule fits_typed) (simp_all add: mem_view_def mem_get_def)
  then have "fits_object (mem_view ?w) (r_Properties ex_res) ''/k''"
    by (intro fits_members [of _ _ "{''Name''}"]) (simp_all add: mem_view_def mem_get_def ex_res_def ex_props_def)
  moreover have "mem_view ?w ''/k'' = Some (RSet {''Name''})" by (simp add: mem_view_def mem_get_def)
  moreover have "map_of (r_Properties ex_res) ''Name'' = Some (mk_prop PropString)" by (simp add: ex_res_def ex_props_def)
  ultimately show ?thesis
    using removal_returns [OF mem_redis_server, of 7 ?w "''/k''" 20 ex_res r w'] run by (auto simp: mk_prop_def)
qed

text \<open>
  C30. Whatever the conversion without a callback returns belongs to the schema: every field of the
  request is a known property, and every field of the result has the type its property asks for.
\<close>

theorem conversion_typed:
  assumes "Interface2Redis None path props obj c = (Ret (Inr r), c')"
  shows "typed_fields props r \<and> c' = c \<and> set (map fst obj) \<subseteq> set (map fst props)"
proof (rule struct_fields_typed [where res = "[]" and path = path and obj = obj])
  show "struct_fields None path props obj [] c = (Ret (Inr r), c')"
    using assms by (simp add: Interface2Redis_def)
qed (simp_all add: typed_fields_def structField_typed)

theorem conversion_typed_witness:
  "typed_fields ex_props (ival_fields ex_props ex_obj)"
  using conversion_typed [OF Interface2Redis_ival [OF ex_storable, of "[]" "()"]] by blast

text \<open>
  Inserting an object without fields panics: the set of its names would be empty, and the
  server refuses to add no members.
\<close>

theorem insert_empty_object_panics:
  assumes "redis_server R view"
  shows "RedisInsert R (GObj []) key w = (Panic (Error (wrong_arity ''sadd'')), w)"
  using redis_server.sadd_nil [OF assms] by (simp add: go_bind_apply go_must_apply)

theorem insert_empty_object_panics_witness:
  "RedisInsert mem_redis (GObj []) ''/k'' [] = (Panic (Error (wrong_arity ''sadd'')), [])"
  by (rule insert_empty_object_panics [OF mem_redis_server])

end
