(* ===== verification/Privilege_Registry.thy ===== *)
theory Privilege_Registry
  imports Go_Lib
begin

text \<open>
  The privilege registry of \<open>internal/rfdispatcher/accountservice/PrivilegeRegistry.go\<close> and the test
  of a role against the privileges an operation requires (\<open>Role.HasPrivilege\<close> of
  \<open>AccountService.go\<close>). A registry is what \<open>json.Unmarshal\<close> leaves in the structure; a Go map from
  operations to privileges is an association list.
\<close>

record OperationPrivilege =
  Privilege :: "string list"

type_synonym OperationMap = "(string \<times> OperationPrivilege list) list"

record TargetPrivilegeMap =
  Targets :: "string list"
  tpm_OperationMap :: OperationMap

record Mapping =
  Entity :: string
  m_OperationMap :: OperationMap
  PropertyOverrides :: "TargetPrivilegeMap list"
  ResourceURIOverrides :: "TargetPrivilegeMap list"
  SubordinateOverrides :: "TargetPrivilegeMap list"

record PrivilegeRegistry =
  pr_Id :: string
  pr_Name :: string
  PrivilegesUsed :: "string list"
  OEMPrivilegesUsed :: "string list"
  Mappings :: "Mapping list"
  entityMappings :: "(string \<times> Mapping) list"

text \<open>The last step of \<open>NewPrivilegeRegistry\<close>: the index of the mappings by entity.\<close>

definition index_registry :: "PrivilegeRegistry \<Rightarrow> PrivilegeRegistry" where
  "index_registry pr = pr\<lparr>entityMappings := fold (\<lambda>m em. AList.update (Entity m) m em) (Mappings pr) []\<rparr>"

definition GetMapping :: "PrivilegeRegistry \<Rightarrow> string \<Rightarrow> Mapping option" where
  "GetMapping pr name = map_of (entityMappings pr) name"

text \<open>
  The loop over the targets of a property override: the first target that is the property decides,
  and a missing operation only leaves this loop.
\<close>

fun property_targets :: "string \<Rightarrow> string \<Rightarrow> OperationMap \<Rightarrow> string list \<Rightarrow> OperationPrivilege list option" where
  "property_targets httpOp property om [] = None"
| "property_targets httpOp property om (target # ts) =
     (if target = property then map_of om httpOp else property_targets httpOp property om ts)"

fun property_overrides :: "string \<Rightarrow> string \<Rightarrow> TargetPrivilegeMap list \<Rightarrow> OperationPrivilege list option" where
  "property_overrides httpOp property [] = None"
| "property_overrides httpOp property (po # pos) =
     (case property_targets httpOp property (tpm_OperationMap po) (Targets po) of
        Some result \<Rightarrow> Some result
      | None \<Rightarrow> property_overrides httpOp property pos)"

text \<open>
  The loop over the subordinate overrides: the first target that is the owning entity decides; a
  missing operation gives the nil slice, that is no alternative at all.
\<close>

fun subordinate_targets :: "string \<Rightarrow> string \<Rightarrow> OperationMap \<Rightarrow> string list \<Rightarrow> OperationPrivilege list option" where
  "subordinate_targets httpOp owningEntity om [] = None"
| "subordinate_targets httpOp owningEntity om (target # ts) =
     (if target = owningEntity then Some (case map_of om httpOp of Some r \<Rightarrow> r | None \<Rightarrow> [])
      else subordinate_targets httpOp owningEntity om ts)"

fun subordinate_overrides :: "string \<Rightarrow> string \<Rightarrow> TargetPrivilegeMap list \<Rightarrow> OperationPrivilege list option" where
  "subordinate_overrides httpOp owningEntity [] = None"
| "subordinate_overrides httpOp owningEntity (so # sos) =
     (case subordinate_targets httpOp owningEntity (tpm_OperationMap so) (Targets so) of
        Some result \<Rightarrow> Some result
      | None \<Rightarrow> subordinate_overrides httpOp owningEntity sos)"

definition RequiredPrivileges :: "PrivilegeRegistry \<Rightarrow> string \<Rightarrow> string \<Rightarrow> string \<Rightarrow> string \<Rightarrow> ('w, OperationPrivilege list) go" where
  "RequiredPrivileges pr httpOp owningEntity entity property =
     (case map_of (entityMappings pr) entity of
        None \<Rightarrow> go_panic (''Entity does not exist in Privilege Registry: '' @ entity)
      | Some mapping \<Rightarrow>
        (case property_overrides httpOp property (PropertyOverrides mapping) of
           Some result \<Rightarrow> go_return result
         | None \<Rightarrow>
           (case subordinate_overrides httpOp owningEntity (SubordinateOverrides mapping) of
              Some result \<Rightarrow> go_return result
            | None \<Rightarrow>
              (case map_of (m_OperationMap mapping) httpOp of
                 None \<Rightarrow> go_fatal ''Operation map does contain http operation''
               | Some privileges \<Rightarrow> go_return privileges))))"

section \<open>Roles\<close>

record Role =
  AssignedPrivileges :: "string list"
  role_RoleId :: string

text \<open>\<open>found\<close> and \<open>allowed\<close> are the flags of the two inner loops of \<open>HasPrivilege\<close>.\<close>

fun priv_found :: "string \<Rightarrow> string list \<Rightarrow> bool" where
  "priv_found requiredPriv [] = False"
| "priv_found requiredPriv (p # ps) = (if requiredPriv = p then True else priv_found requiredPriv ps)"

fun op_allowed :: "Role \<Rightarrow> string list \<Rightarrow> bool \<Rightarrow> bool" where
  "op_allowed r [] allowed = allowed"
| "op_allowed r (requiredPriv # ps) allowed =
     op_allowed r ps (allowed \<and> priv_found requiredPriv (AssignedPrivileges r))"

fun HasPrivilege :: "Role \<Rightarrow> OperationPrivilege list \<Rightarrow> bool" where
  "HasPrivilege r [] = False"
| "HasPrivilege r (op # required) = (if op_allowed r (Privilege op) True then True else HasPrivilege r required)"

section \<open>Lemmas\<close>

lemma property_targets_iff:
  "property_targets httpOp p om ts = (if p \<in> set ts then map_of om httpOp else None)"
  by (induction ts) auto

lemma subordinate_targets_iff:
  "subordinate_targets httpOp e om ts =
     (if e \<in> set ts then Some (case map_of om httpOp of Some r \<Rightarrow> r | None \<Rightarrow> []) else None)"
  by (induction ts) auto

lemma op_allowed_iff: "op_allowed r ps a \<longleftrightarrow> a \<and> set ps \<subseteq> set (AssignedPrivileges r)"
proof (induction ps arbitrary: a)
  case (Cons p ps)
  have "priv_found p qs \<longleftrightarrow> p \<in> set qs" for qs by (induction qs) auto
  then show ?case using Cons by auto
qed simp

lemma HasPrivilege_ex:
  "HasPrivilege r required \<longleftrightarrow> (\<exists>op \<in> set required. set (Privilege op) \<subseteq> set (AssignedPrivileges r))"
  by (induction required) (auto simp: op_allowed_iff)

lemma find_snoc:
  "find P (xs @ [x]) = (case find P xs of Some y \<Rightarrow> Some y | None \<Rightarrow> if P x then Some x else None)"
  by (induction xs) auto

text \<open>The index finds the last mapping of an entity.\<close>

lemma index_registry_last:
  "map_of (fold (\<lambda>m em. AList.update (Entity m) m em) ms em0) e =
     (case find (\<lambda>m. Entity m = e) (rev ms) of Some m \<Rightarrow> Some m | None \<Rightarrow> map_of em0 e)"
  by (induction ms arbitrary: em0) (auto simp: find_snoc update_conv' split: option.splits)

section \<open>Properties\<close>

text \<open>
  A role may perform an operation exactly when one of the alternatives the registry requires
  lists only privileges that are assigned to the role. In particular no role may perform an
  operation for which the registry has no alternative.
\<close>

theorem HasPrivilege_correct:
  "HasPrivilege r required \<longleftrightarrow> (\<exists>op \<in> set required. set (Privilege op) \<subseteq> set (AssignedPrivileges r))"
  by (rule HasPrivilege_ex)

text \<open>
  C34. The privileges required of an operation: the first property override that names the property
  and knows the operation, else the first subordinate override that names the owning entity, even
  if it does not know the operation, else the entry of the entity; an entity that is not in the
  registry panics and an operation that is not in its map ends the process.
\<close>

theorem RequiredPrivileges_precedence:
  "RequiredPrivileges pr httpOp owner entity property w =
    (case GetMapping pr entity of
       None \<Rightarrow> (Panic (''Entity does not exist in Privilege Registry: '' @ entity), w)
     | Some m \<Rightarrow>
       (case find (\<lambda>ov. property \<in> set (Targets ov) \<and> map_of (tpm_OperationMap ov) httpOp \<noteq> None) (PropertyOverrides m) of
          Some ov \<Rightarrow> (Ret (the (map_of (tpm_OperationMap ov) httpOp)), w)
        | None \<Rightarrow>
          (case find (\<lambda>ov. owner \<in> set (Targets ov)) (SubordinateOverrides m) of
             Some ov \<Rightarrow> (Ret (case map_of (tpm_OperationMap ov) httpOp of Some r \<Rightarrow> r | None \<Rightarrow> []), w)
           | None \<Rightarrow>
             (case map_of (m_OperationMap m) httpOp of
                Some r \<Rightarrow> (Ret r, w)
              | None \<Rightarrow> (Fatal ''Operation map does contain http operation'', w)))))"
proof -
  have 1: "property_overrides httpOp property pos =
      (case find (\<lambda>ov. property \<in> set (Targets ov) \<and> map_of (tpm_OperationMap ov) httpOp \<noteq> None) pos of
         Some ov \<Rightarrow> map_of (tpm_OperationMap ov) httpOp | None \<Rightarrow> None)" for pos
    by (induction pos) (auto simp: property_targets_iff split: option.splits)
  have 2: "subordinate_overrides httpOp owner sos =
      (case find (\<lambda>ov. owner \<in> set (Targets ov)) sos of
         Some ov \<Rightarrow> Some (case map_of (tpm_OperationMap ov) httpOp of Some r \<Rightarrow> r | None \<Rightarrow> []) | None \<Rightarrow> None)" for sos
    by (induction sos) (auto simp: subordinate_targets_iff split: option.splits)
  have 3: "find P xs = Some x \<Longrightarrow> P x" for P and xs :: "TargetPrivilegeMap list" and x
    by (induction xs) (auto split: if_splits)
  show ?thesis
    by (auto simp: RequiredPrivileges_def GetMapping_def 1 2 split: option.splits dest!: 3)
qed

end
