(* ===== verification/Account_Service.thy ===== *)
theory Account_Service
  imports Redis_Struct_Frame Privilege_Registry
begin

text \<open>
  The account service of \<open>internal/rfdispatcher/accountservice\<close>: loading the service, its accounts
  and its roles from Redis, authentication, the lockout of accounts and the hooks that the HTTP
  server runs around requests on accounts. Accounts are shared through pointers, so they live in a
  heap and the collection maps names to addresses. The clock is part of the state; time is counted
  in nanoseconds. The \<open>bcrypt\<close> package is a parameter. Mutexes are left out: an operation of the
  model runs alone, as it does under the locks.
\<close>

section \<open>Machine integers and time\<close>

definition int64 :: "int \<Rightarrow> int" where
  "int64 n = (n + 2 ^ 63) mod 2 ^ 64 - 2 ^ 63"

text \<open>\<open>time.Since\<close>: the difference saturates at the ends of the range of a duration.\<close>

definition Since :: "int \<Rightarrow> int \<Rightarrow> int" where
  "Since now t = max (- (2 ^ 63)) (min (2 ^ 63 - 1) (now - t))"

text \<open>\<open>time.Duration(n) * time.Second\<close>, a 64 bit product.\<close>

definition seconds :: "int \<Rightarrow> int" where
  "seconds n = int64 (n * 10 ^ 9)"

section \<open>State\<close>

record ManagerAccount =
  ma_Id :: string
  UserName :: string
  ma_RoleId :: string
  Locked :: bool
  Enabled :: bool
  passwordHash :: string
  failedLoginAttempts :: int
  lastFailedLogin :: int
  lockOutStart :: int

text \<open>\<open>bcryptGenerate\<close> draws a salt from the world.\<close>

record 'w bcrypt_ops =
  bcryptCompare :: "string \<Rightarrow> string \<Rightarrow> go_error option"
  bcryptGenerate :: "string \<Rightarrow> ('w, go_error + string) go"

record 'w AccountService =
  AccountLockoutCounterResetAfter :: int
  AccountLockoutDuration :: int
  AccountLockoutThreshold :: int
  MinPasswordLength :: int
  MaxPasswordLength :: int
  ServiceEnabled :: bool
  Members :: "(string \<times> nat) list"
  Roles :: "(string \<times> Role) list"
  as_heap :: "(nat \<times> ManagerAccount) list"
  as_next :: nat
  clock :: int
  ext :: 'w

definition zero_account :: ManagerAccount where
  "zero_account = \<lparr> ma_Id = [], UserName = [], ma_RoleId = [], Locked = False, Enabled = False,
     passwordHash = [], failedLoginAttempts = 0, lastFailedLogin = 0, lockOutStart = 0 \<rparr>"

definition acct :: "'w AccountService \<Rightarrow> nat \<Rightarrow> ManagerAccount" where
  "acct s a = (case map_of (as_heap s) a of Some m \<Rightarrow> m | None \<Rightarrow> zero_account)"

definition set_acct :: "nat \<Rightarrow> ManagerAccount \<Rightarrow> 'w AccountService \<Rightarrow> 'w AccountService" where
  "set_acct a m s = s\<lparr>as_heap := AList.update a m (as_heap s)\<rparr>"

text \<open>Running an operation of the dispatcher inside the service.\<close>

definition on_ext :: "('w, 'a) go \<Rightarrow> ('w AccountService, 'a) go" where
  "on_ext m = (\<lambda>s. case m (ext s) of (r, w) \<Rightarrow> (r, s\<lparr>ext := w\<rparr>))"

section \<open>Lockout and authentication\<close>

definition isAccountLockoutEnabled :: "'w AccountService \<Rightarrow> bool" where
  "isAccountLockoutEnabled s \<longleftrightarrow> AccountLockoutThreshold s \<noteq> 0 \<and> AccountLockoutDuration s \<noteq> 0"

text \<open>The key of an account is built from its Id; the update goes to Redis as a string.\<close>

definition setLockOut :: "'w RedfishDispatcher \<Rightarrow> nat \<Rightarrow> nat \<Rightarrow> bool \<Rightarrow> ('w AccountService, go_error + unit) go" where
  "setLockOut rfd fuel a value =
     go_bind (modifies (\<lambda>s. set_acct a ((acct s a)\<lparr>Locked := value\<rparr>) s)) (\<lambda>_.
     go_bind (gets (\<lambda>s. acct s a)) (\<lambda>ma.
       let accountKey = ''/redfish/v1/AccountService/Accounts/'' @ ma_Id ma;
           update = [(''Locked'', GString (FormatBool (Locked ma)))]
       in on_ext (RedisPatch (rfd_redis rfd) fuel (GObj update) accountKey)))"

definition failedLogin :: "'w RedfishDispatcher \<Rightarrow> nat \<Rightarrow> nat \<Rightarrow> ('w AccountService, go_error + unit) go" where
  "failedLogin rfd fuel a =
     go_bind (gets isAccountLockoutEnabled) (\<lambda>enabled.
       if \<not> enabled then go_return (Inr ())
       else
         go_bind (modifies (\<lambda>s. set_acct a ((acct s a)\<lparr>failedLoginAttempts := int64 (failedLoginAttempts (acct s a) + 1),
                                                       lastFailedLogin := clock s\<rparr>) s)) (\<lambda>_.
         go_bind (gets (\<lambda>s. AccountLockoutThreshold s < failedLoginAttempts (acct s a))) (\<lambda>over.
           if over then
             go_bind (modifies (\<lambda>s. set_acct a ((acct s a)\<lparr>lockOutStart := clock s\<rparr>) s)) (\<lambda>_.
             go_check (setLockOut rfd fuel a True) (\<lambda>_. go_return (Inr ())))
           else go_return (Inr ()))))"

text \<open>
  \<open>Authenticate\<close> reads the lock and the hash without a mutex; an operation is taken to run alone here.
\<close>

definition Authenticate :: "'w RedfishDispatcher \<Rightarrow> 'w bcrypt_ops \<Rightarrow> nat \<Rightarrow> nat \<Rightarrow> string \<Rightarrow> ('w AccountService, go_error + unit) go" where
  "Authenticate rfd bc fuel a password =
     go_bind (gets (\<lambda>s. acct s a)) (\<lambda>ma.
       if Locked ma then go_return (Inl (Err ''Login by locked account''))
       else case bcryptCompare bc (passwordHash ma) password of
           Some _ \<Rightarrow> go_check (failedLogin rfd fuel a) (\<lambda>_. go_return (Inl (Err ''Invalid password'')))
         | None \<Rightarrow> go_return (Inr ()))"

text \<open>
  \<open>ManagerAccountCollection.get\<close>: the first account in the order of the map with that name. Go visits a
  map in another order each time; here the order is that of the list, which makes a difference only when
  two members share a user name.
\<close>

definition get_account :: "'w AccountService \<Rightarrow> string \<Rightarrow> nat option" where
  "get_account s username = map_option snd (find (\<lambda>(k, a). UserName (acct s a) = username) (Members s))"

definition AuthenticateAccount :: "'w RedfishDispatcher \<Rightarrow> 'w bcrypt_ops \<Rightarrow> nat \<Rightarrow> string \<Rightarrow> string \<Rightarrow> ('w AccountService, go_error + nat) go" where
  "AuthenticateAccount rfd bc fuel username password =
     go_bind (gets (\<lambda>s. get_account s username)) (\<lambda>r. case r of
         None \<Rightarrow> go_return (Inl (Err ''Account with provided user name does not exist''))
       | Some a \<Rightarrow> go_check (Authenticate rfd bc fuel a password) (\<lambda>_. go_return (Inr a)))"

definition account_updatePeriodic :: "'w RedfishDispatcher \<Rightarrow> nat \<Rightarrow> nat \<Rightarrow> ('w AccountService, go_error + unit) go" where
  "account_updatePeriodic rfd fuel a =
     go_bind (modifies (\<lambda>s. let ma = acct s a in
         if failedLoginAttempts ma \<noteq> 0 \<and>
            seconds (AccountLockoutCounterResetAfter s) < Since (clock s) (lastFailedLogin ma)
         then set_acct a (ma\<lparr>failedLoginAttempts := 0\<rparr>) s else s)) (\<lambda>_.
     go_bind (gets (\<lambda>s. let ma = acct s a in
         Locked ma \<and> seconds (AccountLockoutDuration s) < Since (clock s) (lockOutStart ma))) (\<lambda>elapsed.
       if elapsed then go_check (setLockOut rfd fuel a False) (\<lambda>_. go_return (Inr ()))
       else go_return (Inr ())))"

definition updatePeriodic :: "'w RedfishDispatcher \<Rightarrow> nat \<Rightarrow> ('w AccountService, unit) go" where
  "updatePeriodic rfd fuel =
     go_bind (gets Members) (\<lambda>members.
       go_each (\<lambda>(k, a). go_bind (account_updatePeriodic rfd fuel a) (\<lambda>_. go_return ())) members)"

section \<open>Roles and permissions\<close>

definition GetRole :: "nat \<Rightarrow> ('w AccountService, Role) go" where
  "GetRole a =
     go_bind (gets (\<lambda>s. map_of (Roles s) (ma_RoleId (acct s a)))) (\<lambda>r. case r of
         None \<Rightarrow> go_panic ''Role does not exist''
       | Some role \<Rightarrow> go_return role)"

definition OperationAllowed :: "nat \<Rightarrow> OperationPrivilege list \<Rightarrow> ('w AccountService, bool) go" where
  "OperationAllowed a privileges =
     go_bind (gets (\<lambda>s. acct s a)) (\<lambda>ma.
       if Enabled ma \<and> \<not> Locked ma
       then go_bind (GetRole a) (\<lambda>role. go_return (HasPrivilege role privileges))
       else go_return False)"

section \<open>Loading from Redis\<close>

text \<open>
  The steps that the four loading functions share: find the resource, refuse a missing resource or
  a property, rebuild the structure. A service or a collection that is missing panics, an account
  or a role ends the process.
\<close>

definition load_struct :: "'w RedfishDispatcher \<Rightarrow> (string \<Rightarrow> ('w, gobj) go) \<Rightarrow> string \<Rightarrow> string \<Rightarrow> string \<Rightarrow> ('w, gobj) go" where
  "load_struct rfd stop uri missing is_property =
     go_bind (GetResource rfd uri []) (\<lambda>(res, property). case res of
         None \<Rightarrow> stop missing
       | Some r \<Rightarrow>
           if property \<noteq> None then stop is_property
           else go_must (BuildStruct \<lparr> r2s_RFD = rfd, r2s_Resource = r, r2s_URI = uri, r2s_XName = [] \<rparr>
                           (r_Properties r) uri) go_return)"

definition conv_panic :: "('w, 'a) go" where
  "conv_panic = go_panic ''interface conversion''"

definition raw_string :: "gobj \<Rightarrow> string \<Rightarrow> ('w, string) go" where
  "raw_string raw k = (case map_of raw k of Some (GString s) \<Rightarrow> go_return s | _ \<Rightarrow> conv_panic)"

definition raw_bool :: "gobj \<Rightarrow> string \<Rightarrow> ('w, bool) go" where
  "raw_bool raw k = (case map_of raw k of Some (GBool b) \<Rightarrow> go_return b | _ \<Rightarrow> conv_panic)"

definition raw_int :: "gobj \<Rightarrow> string \<Rightarrow> ('w, int) go" where
  "raw_int raw k = (case map_of raw k of Some (GInt i) \<Rightarrow> go_return i | _ \<Rightarrow> conv_panic)"

definition account_initFromStruct :: "gobj \<Rightarrow> string \<Rightarrow> ('w, ManagerAccount) go" where
  "account_initFromStruct raw hash =
     go_bind (raw_string raw ''Id'') (\<lambda>Id.
     go_bind (raw_string raw ''UserName'') (\<lambda>userName.
     go_bind (raw_string raw ''RoleId'') (\<lambda>roleId.
     go_bind (raw_bool raw ''Locked'') (\<lambda>locked.
     go_bind (raw_bool raw ''Enabled'') (\<lambda>enabled.
       go_return (zero_account\<lparr>ma_Id := Id, UserName := userName, ma_RoleId := roleId,
                               Locked := locked, Enabled := enabled, passwordHash := hash\<rparr>))))))"

definition account_initFromRedis :: "'w RedfishDispatcher \<Rightarrow> string \<Rightarrow> ('w, ManagerAccount) go" where
  "account_initFromRedis rfd uri =
     go_bind (load_struct rfd go_fatal uri ''Manager Account resource is nil'' ''Manager Account URI returned a property'') (\<lambda>raw.
     go_bind (rGet (rfd_redis rfd) (uri @ ''/Password:hash'')) (\<lambda>h. case h of
         Inl _ \<Rightarrow> go_fatal ''Unable to retrieve password hash''
       | Inr passwordHashRaw \<Rightarrow> (case DecodeString passwordHashRaw of
             Inl e \<Rightarrow> go_panic (Error e)
           | Inr hash \<Rightarrow> account_initFromStruct raw hash)))"

text \<open>The URIs of the members of a collection.\<close>

fun member_uri :: "gval \<Rightarrow> ('w, string) go" where
  "member_uri (GObj member) = raw_string member ''@odata.id''"
| "member_uri _ = conv_panic"

definition add_account :: "ManagerAccount \<Rightarrow> 'w AccountService \<Rightarrow> 'w AccountService" where
  "add_account newAccount s =
     (case map_of (Members s) (UserName newAccount) of
        None \<Rightarrow> s\<lparr>Members := AList.update (UserName newAccount) (as_next s) (Members s),
                  as_heap := AList.update (as_next s) newAccount (as_heap s),
                  as_next := Suc (as_next s)\<rparr>
      | Some a \<Rightarrow> set_acct a ((acct s a)\<lparr>passwordHash := passwordHash newAccount\<rparr>) s)"

definition accounts_initFromRedis :: "'w RedfishDispatcher \<Rightarrow> ('w AccountService, unit) go" where
  "accounts_initFromRedis rfd =
     go_bind (on_ext (load_struct rfd go_panic ''/redfish/v1/AccountService/Accounts''
        ''Manager Account Collection resource is nil'' ''Manager Account Collection URI returned a property'')) (\<lambda>raw.
     case map_of raw ''Members'' of
       None \<Rightarrow> go_fatal ''Account Collection is empty. Did the backend helpers not create an account? ''
     | Some GNil \<Rightarrow> go_fatal ''Account Collection is empty. Did the backend helpers not create an account? ''
     | Some (GArr members) \<Rightarrow>
         go_each (\<lambda>memberRaw.
           go_bind (on_ext (go_bind (member_uri memberRaw) (account_initFromRedis rfd))) (\<lambda>newAccount.
             modifies (add_account newAccount))) members
     | Some _ \<Rightarrow> conv_panic)"

definition updateAccountsPeriodic :: "'w RedfishDispatcher \<Rightarrow> ('w AccountService, unit) go" where
  "updateAccountsPeriodic rfd = accounts_initFromRedis rfd"

fun role_privileges :: "gval list \<Rightarrow> ('w, string list) go" where
  "role_privileges [] = go_return []"
| "role_privileges (GString p # ps) = go_bind (role_privileges ps) (\<lambda>qs. go_return (p # qs))"
| "role_privileges (_ # ps) = conv_panic"

definition role_initFromStruct :: "gobj \<Rightarrow> ('w, Role) go" where
  "role_initFromStruct raw =
     (case map_of raw ''AssignedPrivileges'' of
        Some (GArr privileges) \<Rightarrow>
          go_bind (role_privileges privileges) (\<lambda>ps.
          go_bind (raw_string raw ''RoleId'') (\<lambda>roleId.
            go_return \<lparr> AssignedPrivileges = ps, role_RoleId = roleId \<rparr>))
      | _ \<Rightarrow> conv_panic)"

definition role_initFromRedis :: "'w RedfishDispatcher \<Rightarrow> string \<Rightarrow> ('w, Role) go" where
  "role_initFromRedis rfd uri =
     go_bind (load_struct rfd go_fatal uri ''Manager Account resource is nil'' ''Manager Account URI returned a property'')
       role_initFromStruct"

definition roles_initFromRedis :: "'w RedfishDispatcher \<Rightarrow> ('w AccountService, unit) go" where
  "roles_initFromRedis rfd =
     go_bind (on_ext (load_struct rfd go_panic ''/redfish/v1/AccountService/Roles''
        ''Role Collection resource is nil'' ''Role Collection URI returned a property'')) (\<lambda>raw.
     case map_of raw ''Members'' of
       Some (GArr members) \<Rightarrow>
         go_each (\<lambda>memberRaw.
           go_bind (on_ext (go_bind (member_uri memberRaw) (role_initFromRedis rfd))) (\<lambda>role.
             modifies (\<lambda>s. s\<lparr>Roles := AList.update (role_RoleId role) role (Roles s)\<rparr>))) members
     | _ \<Rightarrow> conv_panic)"

definition InitFromRedis :: "'w RedfishDispatcher \<Rightarrow> ('w AccountService, unit) go" where
  "InitFromRedis rfd =
     go_bind (on_ext (load_struct rfd go_panic ''/redfish/v1/AccountService''
        ''Account Service resource is nil'' ''Account Service URI returned a property'')) (\<lambda>raw.
     go_bind (raw_int raw ''AccountLockoutDuration'') (\<lambda>duration.
     go_bind (modifies (\<lambda>s. s\<lparr>AccountLockoutDuration := duration\<rparr>)) (\<lambda>_.
     go_bind (raw_int raw ''AccountLockoutCounterResetAfter'') (\<lambda>resetAfter.
     go_bind (modifies (\<lambda>s. s\<lparr>AccountLockoutCounterResetAfter := resetAfter\<rparr>)) (\<lambda>_.
     go_bind (raw_int raw ''AccountLockoutThreshold'') (\<lambda>threshold.
     go_bind (modifies (\<lambda>s. s\<lparr>AccountLockoutThreshold := threshold\<rparr>)) (\<lambda>_.
     go_bind (raw_int raw ''MinPasswordLength'') (\<lambda>minLength.
     go_bind (modifies (\<lambda>s. s\<lparr>MinPasswordLength := minLength\<rparr>)) (\<lambda>_.
     go_bind (raw_int raw ''MaxPasswordLength'') (\<lambda>maxLength.
     go_bind (modifies (\<lambda>s. s\<lparr>MaxPasswordLength := maxLength\<rparr>)) (\<lambda>_.
     go_bind (raw_bool raw ''ServiceEnabled'') (\<lambda>enabled.
     go_bind (modifies (\<lambda>s. s\<lparr>ServiceEnabled := enabled, Members := []\<rparr>)) (\<lambda>_.
     go_bind (accounts_initFromRedis rfd) (\<lambda>_.
     go_bind (modifies (\<lambda>s. s\<lparr>Roles := []\<rparr>)) (\<lambda>_.
       roles_initFromRedis rfd)))))))))))))))"

section \<open>Hooks\<close>

record Event =
  HTTPOperation :: string
  ev_URI :: string
  ev_Resource :: "resource option"
  ev_Property :: "property option"

text \<open>The entries the account hooks use of the context map they share during a request.\<close>

record hook_ctx =
  ctx_hash :: "string option"
  ctx_Account :: "nat option"
  ctx_DuplicateUserName :: bool

text \<open>A hook returns a response body, a status code and an error; a body is kept before marshalling.\<close>

type_synonym hook_result = "gobj option \<times> int \<times> go_error option"

definition StatusBadRequest :: int where
  "StatusBadRequest = 400"

definition password_message :: "string \<Rightarrow> string \<Rightarrow> string \<Rightarrow> gobj" where
  "password_message msg msgId resolution =
     [(''Message'', GString msg), (''MessageId'', GString msgId), (''Resolution'', GString resolution),
      (''Severity'', GString ''Critical'')]"

text \<open>
  The length checks and the hashing that \<open>AddAccountBefore\<close> and \<open>UpdateBefore\<close> share; \<open>None\<close> for the
  result means that the hook goes on.
\<close>

definition take_password :: "'w bcrypt_ops \<Rightarrow> string \<Rightarrow> hook_ctx \<Rightarrow> gobj \<Rightarrow>
    ('w AccountService, hook_result option \<times> hook_ctx \<times> gobj) go" where
  "take_password bc password ctx request =
     (let passwordLen = int (length password) in
      go_bind (gets (\<lambda>s. (MinPasswordLength s, MaxPasswordLength s))) (\<lambda>(mn, mx).
        if passwordLen < mn then
          go_return (Some (Some (password_message ''Supplied password is shorter then the minimum password length''
              ''CustomHTTP.1.0.PasswordTooShort'' ''Supply a longer password''),
            StatusBadRequest, Some (Err ''Supplied password is too short'')), ctx, request)
        else if mx < passwordLen then
          go_return (Some (Some (password_message ''Supplied password is longer then the maximum password length''
              ''CustomHTTP.1.0.PasswordTooLong'' ''Supply a shorter password''),
            StatusBadRequest, Some (Err ''Supplied password is too long'')), ctx, request)
        else
          go_bind (on_ext (bcryptGenerate bc password)) (\<lambda>r. case r of
              Inl e \<Rightarrow> go_return (Some (None, 0, Some e), ctx, request)
            | Inr hash \<Rightarrow> go_return (None, ctx\<lparr>ctx_hash := Some hash\<rparr>, AList.delete ''Password'' request))))"

definition with_default :: "string \<Rightarrow> gval \<Rightarrow> gobj \<Rightarrow> gobj" where
  "with_default k v m = (if map_of m k = None then AList.update k v m else m)"

definition AddAccountBefore :: "'w bcrypt_ops \<Rightarrow> Event \<Rightarrow> hook_ctx \<Rightarrow> gobj \<Rightarrow>
    ('w AccountService, hook_result \<times> hook_ctx \<times> gobj) go" where
  "AddAccountBefore bc event ctx request =
     (case map_of request ''Password'' of
        None \<Rightarrow> go_return ((None, 0, Some (Err ''Password field not present in request'')), ctx, request)
      | Some (GString password) \<Rightarrow>
          go_bind (take_password bc password ctx request) (\<lambda>(r, ctx, request). case r of
              Some res \<Rightarrow> go_return (res, ctx, request)
            | None \<Rightarrow> go_return ((None, 0, None), ctx,
                with_default ''Enabled'' (GBool True) (with_default ''Locked'' (GBool False) request)))
      | Some _ \<Rightarrow> conv_panic)"

definition AddAccountAfter :: "'w RedfishDispatcher \<Rightarrow> Event \<Rightarrow> hook_ctx \<Rightarrow> gobj \<Rightarrow>
    ('w AccountService, hook_result) go" where
  "AddAccountAfter rfd event ctx response =
     (case ctx_hash ctx of
        None \<Rightarrow> go_return (None, 0, Some (Err ''Password hash missing from context''))
      | Some hash \<Rightarrow>
          go_bind (account_initFromStruct response hash) (\<lambda>account.
          go_bind (gets (\<lambda>s. map_of (Members s) (UserName account))) (\<lambda>present.
            if present \<noteq> None then go_return (None, 0, Some (Err ''Account already exists in collection''))
            else
              go_bind (modifies (\<lambda>s. s\<lparr>Members := AList.update (ma_Id account) (as_next s) (Members s),
                  as_heap := AList.update (as_next s) account (as_heap s), as_next := Suc (as_next s)\<rparr>)) (\<lambda>_.
              go_bind (on_ext (rSet (rfd_redis rfd) (ev_URI event @ ''/'' @ ma_Id account @ ''/Password:hash'')
                  (EncodeToString hash))) (\<lambda>r. case r of
                  Inl e \<Rightarrow> go_return (None, 0, Some e)
                | Inr _ \<Rightarrow> go_return (None, 0, None))))))"

text \<open>The body of \<open>ManagerAccount.UpdateBefore\<close>.\<close>

definition UpdateBefore :: "'w bcrypt_ops \<Rightarrow> nat \<Rightarrow> Event \<Rightarrow> hook_ctx \<Rightarrow> gobj \<Rightarrow>
    ('w AccountService, hook_result \<times> hook_ctx \<times> gobj) go" where
  "UpdateBefore bc a event ctx request =
     go_bind (case map_of request ''Password'' of
         None \<Rightarrow> go_return (None, ctx, request)
       | Some (GString password) \<Rightarrow> take_password bc password ctx request
       | Some _ \<Rightarrow> conv_panic) (\<lambda>(r, ctx, request). case r of
         Some res \<Rightarrow> go_return (res, ctx, request)
       | None \<Rightarrow>
           (case map_of request ''UserName'' of
              None \<Rightarrow> go_return ((None, 0, None), ctx, request)
            | Some (GString username) \<Rightarrow>
                go_bind (gets (\<lambda>s. map_of (Members s) username)) (\<lambda>present.
                  if present \<noteq> None
                  then go_return ((None, 0, None), ctx\<lparr>ctx_DuplicateUserName := True\<rparr>, AList.delete ''UserName'' request)
                  else go_return ((None, 0, None), ctx, request))
            | Some _ \<Rightarrow> conv_panic))"

definition UpdateAccountBefore :: "'w bcrypt_ops \<Rightarrow> Event \<Rightarrow> hook_ctx \<Rightarrow> gobj \<Rightarrow>
    ('w AccountService, hook_result \<times> hook_ctx \<times> gobj) go" where
  "UpdateAccountBefore bc event ctx request =
     (let id = last (Split1 (ev_URI event) CHR ''/'') in
      go_bind (gets (\<lambda>s. map_of (Members s) id)) (\<lambda>account. case account of
          None \<Rightarrow> go_return ((None, 0, Some (Err (''Account does not exist with id: '' @ id))), ctx, request)
        | Some a \<Rightarrow> UpdateBefore bc a event (ctx\<lparr>ctx_Account := Some a\<rparr>) request))"

text \<open>
  \<open>map2struct\<close> on an account: a value that is not a string, boolean or 64 bit integer is skipped, a
  field of another kind is an error, and setting an unexported field panics.
\<close>

fun simple_kind :: "gval \<Rightarrow> bool" where
  "simple_kind (GString _) = True"
| "simple_kind (GBool _) = True"
| "simple_kind (GInt _) = True"
| "simple_kind _ = False"

definition field_mismatch :: go_error where
  "field_mismatch = Err ''Map and field types do not match''"

definition account_fields :: "string list" where
  "account_fields = [''Id'', ''UserName'', ''RoleId'', ''Locked'', ''Enabled'', ''passwordHash'', ''failedLoginMux'',
     ''failedLoginAttempts'', ''lastFailedLogin'', ''lockOutStart'', ''as'']"

definition account_set_field :: "string \<Rightarrow> gval \<Rightarrow> ManagerAccount \<Rightarrow> (go_error + ManagerAccount) outcome" where
  "account_set_field name value ma =
     (if name \<notin> set account_fields \<or> \<not> simple_kind value then Ret (Inr ma)
      else case value of
          GString s \<Rightarrow>
            if name = ''Id'' then Ret (Inr (ma\<lparr>ma_Id := s\<rparr>))
            else if name = ''UserName'' then Ret (Inr (ma\<lparr>UserName := s\<rparr>))
            else if name = ''RoleId'' then Ret (Inr (ma\<lparr>ma_RoleId := s\<rparr>))
            else Ret (Inl field_mismatch)
        | GBool b \<Rightarrow>
            if name = ''Locked'' then Ret (Inr (ma\<lparr>Locked := b\<rparr>))
            else if name = ''Enabled'' then Ret (Inr (ma\<lparr>Enabled := b\<rparr>))
            else Ret (Inl field_mismatch)
        | _ \<Rightarrow>
            if name = ''failedLoginAttempts''
            then Panic ''reflect.Set: value obtained using unexported field''
            else Ret (Inl field_mismatch))"

fun map2struct_account :: "gobj \<Rightarrow> nat \<Rightarrow> ('w AccountService, go_error option) go" where
  "map2struct_account [] a = go_return None"
| "map2struct_account ((name, value) # m) a =
     go_bind (gets (\<lambda>s. account_set_field name value (acct s a))) (\<lambda>r. case r of
         Ret (Inr ma) \<Rightarrow> go_bind (modifies (set_acct a ma)) (\<lambda>_. map2struct_account m a)
       | Ret (Inl e) \<Rightarrow> go_return (Some e)
       | Panic p \<Rightarrow> go_panic p
       | Fatal p \<Rightarrow> go_fatal p
       | NoFuel \<Rightarrow> go_nofuel)"

definition service_fields :: "string list" where
  "service_fields = [''AccountLockoutCounterResetAfter'', ''AccountLockoutDuration'', ''AccountLockoutThreshold'',
     ''MinPasswordLength'', ''MaxPasswordLength'', ''ServiceEnabled'', ''Accounts'', ''Roles'', ''rfd'', ''schema'']"

definition service_set_field :: "string \<Rightarrow> gval \<Rightarrow> 'w AccountService \<Rightarrow> go_error + 'w AccountService" where
  "service_set_field name value s =
     (if name \<notin> set service_fields \<or> \<not> simple_kind value then Inr s
      else case value of
          GInt i \<Rightarrow>
            if name = ''AccountLockoutCounterResetAfter'' then Inr (s\<lparr>AccountLockoutCounterResetAfter := i\<rparr>)
            else if name = ''AccountLockoutDuration'' then Inr (s\<lparr>AccountLockoutDuration := i\<rparr>)
            else if name = ''AccountLockoutThreshold'' then Inr (s\<lparr>AccountLockoutThreshold := i\<rparr>)
            else if name = ''MinPasswordLength'' then Inr (s\<lparr>MinPasswordLength := i\<rparr>)
            else if name = ''MaxPasswordLength'' then Inr (s\<lparr>MaxPasswordLength := i\<rparr>)
            else Inl field_mismatch
        | GBool b \<Rightarrow>
            if name = ''ServiceEnabled'' then Inr (s\<lparr>ServiceEnabled := b\<rparr>) else Inl field_mismatch
        | _ \<Rightarrow> Inl field_mismatch)"

fun map2struct_service :: "gobj \<Rightarrow> ('w AccountService, go_error option) go" where
  "map2struct_service [] = go_return None"
| "map2struct_service ((name, value) # m) =
     go_bind (gets (service_set_field name value)) (\<lambda>r. case r of
         Inr s \<Rightarrow> go_bind (modifies (\<lambda>_. s)) (\<lambda>_. map2struct_service m)
       | Inl e \<Rightarrow> go_return (Some e))"

definition Update :: "Event \<Rightarrow> gobj \<Rightarrow> ('w AccountService, hook_result) go" where
  "Update event response = go_bind (map2struct_service response) (\<lambda>err. go_return (None, 0, err))"

definition UpdateAfter :: "'w RedfishDispatcher \<Rightarrow> nat \<Rightarrow> Event \<Rightarrow> hook_ctx \<Rightarrow> gobj \<Rightarrow> ('w AccountService, hook_result) go" where
  "UpdateAfter rfd a event ctx response =
     go_bind (map2struct_account response a) (\<lambda>err. case err of
         Some e \<Rightarrow> go_return (None, 0, Some e)
       | None \<Rightarrow>
           (case ctx_hash ctx of
              None \<Rightarrow> go_return (None, 0, None)
            | Some hash \<Rightarrow>
                go_bind (modifies (\<lambda>s. set_acct a ((acct s a)\<lparr>passwordHash := hash\<rparr>) s)) (\<lambda>_.
                go_bind (gets (\<lambda>s. ev_URI event @ ''/'' @ ma_Id (acct s a) @ ''/Password:hash'')) (\<lambda>key.
                go_bind (on_ext (rSet (rfd_redis rfd) key (EncodeToString hash))) (\<lambda>r. case r of
                    Inl e \<Rightarrow> go_return (None, 0, Some e)
                  | Inr _ \<Rightarrow> go_return (None, 0, None))))))"

definition UpdateAccountAfter :: "'w RedfishDispatcher \<Rightarrow> Event \<Rightarrow> hook_ctx \<Rightarrow> gobj \<Rightarrow> ('w AccountService, hook_result) go" where
  "UpdateAccountAfter rfd event ctx response =
     (case ctx_Account ctx of
        None \<Rightarrow> conv_panic
      | Some a \<Rightarrow> UpdateAfter rfd a event ctx response)"

definition RemoveAccount :: "'w RedfishDispatcher \<Rightarrow> Event \<Rightarrow> gobj \<Rightarrow> ('w AccountService, hook_result) go" where
  "RemoveAccount rfd event response =
     (case map_of response ''Id'' of
        None \<Rightarrow> go_return (None, 0, Some (Err ''Id is not present''))
      | Some (GString accountId) \<Rightarrow>
          go_bind (gets (\<lambda>s. map_of (Members s) accountId)) (\<lambda>present.
            if present = None then go_return (None, 0, Some (Err ''Account does not exist is collection''))
            else
              go_bind (modifies (\<lambda>s. s\<lparr>Members := AList.delete accountId (Members s)\<rparr>)) (\<lambda>_.
              go_bind (on_ext (rDel (rfd_redis rfd) (ev_URI event @ ''/Password:hash''))) (\<lambda>r. case r of
                  Inl e \<Rightarrow> go_return (None, 0, Some e)
                | Inr _ \<Rightarrow> go_return (None, 0, None))))
      | Some _ \<Rightarrow> conv_panic)"

end
