(* ===== verification/Account_Lockout.thy ===== *)
theory Account_Lockout
  imports Account_Service
begin

text \<open>
  The lockout of accounts as a state machine: logins, the periodic task and the passing of time in
  any order. The memory of the service decides, so the statements about it need no assumption on
  the outcome of the Redis commands.
\<close>

section \<open>Single operations\<close>

lemma acct_set_acct [simp]: "acct (set_acct a m s) b = (if b = a then m else acct s b)"
  by (simp add: acct_def set_acct_def update_conv')

lemma set_acct_simps [simp]:
  "Members (set_acct a m s) = Members s" "as_next (set_acct a m s) = as_next s" "clock (set_acct a m s) = clock s" "ext (set_acct a m s) = ext s"
  "AccountLockoutDuration (set_acct a m s) = AccountLockoutDuration s"
  "AccountLockoutThreshold (set_acct a m s) = AccountLockoutThreshold s"
  "AccountLockoutCounterResetAfter (set_acct a m s) = AccountLockoutCounterResetAfter s"
  by (simp_all add: set_acct_def)

lemma acct_ext [simp]: "acct (s\<lparr>ext := w\<rparr>) b = acct s b"
  by (simp add: acct_def)

lemma acct_clock [simp]: "acct (s\<lparr>clock := t\<rparr>) b = acct s b"
  by (simp add: acct_def)

lemma on_ext_apply: "on_ext m s = (fst (m (ext s)), s\<lparr>ext := snd (m (ext s))\<rparr>)"
  by (simp add: on_ext_def split: prod.split)

text \<open>What the operations on one account never change.\<close>

definition same_service :: "nat \<Rightarrow> 'w AccountService \<Rightarrow> 'w AccountService \<Rightarrow> bool" where
  "same_service a s s' \<longleftrightarrow> Members s' = Members s \<and> as_next s' = as_next s \<and> clock s' = clock s \<and>
     AccountLockoutDuration s' = AccountLockoutDuration s \<and>
     AccountLockoutThreshold s' = AccountLockoutThreshold s \<and>
     AccountLockoutCounterResetAfter s' = AccountLockoutCounterResetAfter s \<and>
     (\<forall>b. b \<noteq> a \<longrightarrow> acct s' b = acct s b) \<and> UserName (acct s' a) = UserName (acct s a)"

lemma same_service_refl [simp]: "same_service a s s"
  by (simp add: same_service_def)

lemma setLockOut_state:
  "\<exists>w. snd (setLockOut rfd fuel a v s) = (set_acct a ((acct s a)\<lparr>Locked := v\<rparr>) s)\<lparr>ext := w\<rparr>"
proof -
  let ?s = "set_acct a ((acct s a)\<lparr>Locked := v\<rparr>) s"
  have "snd (setLockOut rfd fuel a v s) = ?s\<lparr>ext := snd (RedisPatch (rfd_redis rfd) fuel
      (GObj [(''Locked'', GString (FormatBool v))])
      (''/redfish/v1/AccountService/Accounts/'' @ ma_Id (acct s a)) (ext s))\<rparr>"
    by (simp add: setLockOut_def go_bind_apply on_ext_apply Let_def del: RedisPatch.simps append_Cons append_Nil)
  then show ?thesis by blast
qed

lemma go_check_unit_state: "snd (go_check m (\<lambda>_. go_return (Inr ())) s) = snd (m s)"
  by (simp add: go_check_apply split: prod.split outcome.split sum.split)

lemma setLockOut_acct:
  "acct (snd (setLockOut rfd fuel a v s)) b = (if b = a then (acct s a)\<lparr>Locked := v\<rparr> else acct s b)"
  "same_service a s (snd (setLockOut rfd fuel a v s))"
proof -
  obtain w where "snd (setLockOut rfd fuel a v s) = (set_acct a ((acct s a)\<lparr>Locked := v\<rparr>) s)\<lparr>ext := w\<rparr>"
    using setLockOut_state [of rfd fuel a v s] by blast
  then show "acct (snd (setLockOut rfd fuel a v s)) b = (if b = a then (acct s a)\<lparr>Locked := v\<rparr> else acct s b)"
    "same_service a s (snd (setLockOut rfd fuel a v s))" by (simp_all add: same_service_def)
qed

lemma same_service_trans: "same_service a s s' \<Longrightarrow> same_service a s' s'' \<Longrightarrow> same_service a s s''"
  by (simp add: same_service_def)

lemma same_service_set_acct: "UserName m = UserName (acct s a) \<Longrightarrow> same_service a s (set_acct a m s)"
  by (simp add: same_service_def)

lemma set_acct_twice [simp]: "set_acct a m (set_acct a m' s) = set_acct a m s"
  by (simp add: set_acct_def)

text \<open>The account after a failed login.\<close>

definition failed_account :: "'w AccountService \<Rightarrow> ManagerAccount \<Rightarrow> ManagerAccount" where
  "failed_account s ma =
     (if \<not> isAccountLockoutEnabled s then ma
      else let n = int64 (failedLoginAttempts ma + 1) in
        if AccountLockoutThreshold s < n
        then ma\<lparr>failedLoginAttempts := n, lastFailedLogin := clock s, lockOutStart := clock s, Locked := True\<rparr>
        else ma\<lparr>failedLoginAttempts := n, lastFailedLogin := clock s\<rparr>)"

lemma failedLogin_state:
  "acct (snd (failedLogin rfd fuel a s)) a = failed_account s (acct s a)"
  "same_service a s (snd (failedLogin rfd fuel a s))"
proof -
  let ?ma = "(acct s a)\<lparr>failedLoginAttempts := int64 (failedLoginAttempts (acct s a) + 1), lastFailedLogin := clock s,
      lockOutStart := clock s\<rparr>"
  obtain w where "snd (setLockOut rfd fuel a True (set_acct a ?ma s)) = (set_acct a (?ma\<lparr>Locked := True\<rparr>) s)\<lparr>ext := w\<rparr>"
    using setLockOut_state [of rfd fuel a True "set_acct a ?ma s"] by auto
  then show "acct (snd (failedLogin rfd fuel a s)) a = failed_account s (acct s a)"
    "same_service a s (snd (failedLogin rfd fuel a s))"
    by (simp_all add: failedLogin_def go_bind_apply go_check_unit_state failed_account_def same_service_def Let_def)
qed

text \<open>A failed login: the counter grows, and the account is locked when it passes the threshold.\<close>

lemma Authenticate_state:
  "snd (Authenticate rfd bc fuel a p s) =
    (if Locked (acct s a) \<or> bcryptCompare bc (passwordHash (acct s a)) p = None then s
     else snd (failedLogin rfd fuel a s))"
  by (auto simp: Authenticate_def go_bind_apply go_check_apply split: option.split prod.split outcome.split sum.split)

lemma AuthenticateAccount_state:
  "snd (AuthenticateAccount rfd bc fuel u p s) =
    (case get_account s u of None \<Rightarrow> s | Some a \<Rightarrow> snd (Authenticate rfd bc fuel a p s))"
  by (auto simp: AuthenticateAccount_def go_bind_apply go_check_apply split: option.split prod.split outcome.split sum.split)

definition elapsed :: "'w AccountService \<Rightarrow> ManagerAccount \<Rightarrow> bool" where
  "elapsed s ma \<longleftrightarrow> seconds (AccountLockoutDuration s) < Since (clock s) (lockOutStart ma)"

definition ticked_account :: "'w AccountService \<Rightarrow> ManagerAccount \<Rightarrow> ManagerAccount" where
  "ticked_account s ma =
     (let ma1 = (if failedLoginAttempts ma \<noteq> 0 \<and>
                    seconds (AccountLockoutCounterResetAfter s) < Since (clock s) (lastFailedLogin ma)
                 then ma\<lparr>failedLoginAttempts := 0\<rparr> else ma)
      in if Locked ma \<and> elapsed s ma then ma1\<lparr>Locked := False\<rparr> else ma1)"

lemma account_updatePeriodic_state:
  "acct (snd (account_updatePeriodic rfd fuel a s)) a = ticked_account s (acct s a)"
  "same_service a s (snd (account_updatePeriodic rfd fuel a s))"
proof -
  define s1 where "s1 = (let ma = acct s a in
      if failedLoginAttempts ma \<noteq> 0 \<and> seconds (AccountLockoutCounterResetAfter s) < Since (clock s) (lastFailedLogin ma)
      then set_acct a (ma\<lparr>failedLoginAttempts := 0\<rparr>) s else s)"
  have s1: "same_service a s s1" "Locked (acct s1 a) = Locked (acct s a)" "elapsed s1 (acct s1 a) = elapsed s (acct s a)"
    by (auto simp: s1_def Let_def same_service_def elapsed_def)
  have "account_updatePeriodic rfd fuel a s =
      (if Locked (acct s1 a) \<and> elapsed s1 (acct s1 a)
       then go_check (setLockOut rfd fuel a False) (\<lambda>_. go_return (Inr ())) s1 else (Ret (Inr ()), s1))"
    unfolding account_updatePeriodic_def go_bind_apply modifies_apply gets_apply prod.case outcome.case
      s1_def [symmetric]
    unfolding elapsed_def Let_def by simp
  then have eq: "snd (account_updatePeriodic rfd fuel a s) =
      (if Locked (acct s1 a) \<and> elapsed s1 (acct s1 a) then snd (setLockOut rfd fuel a False s1) else s1)"
    by (simp add: go_check_unit_state)
  show "same_service a s (snd (account_updatePeriodic rfd fuel a s))"
    using s1(1) same_service_trans [OF s1(1) setLockOut_acct(2)] unfolding eq by simp
  show "acct (snd (account_updatePeriodic rfd fuel a s)) a = ticked_account s (acct s a)"
    unfolding eq s1(2,3) by (auto simp: setLockOut_acct ticked_account_def s1_def Let_def)
qed

section \<open>The machine\<close>

datatype as_event = Login string string | Tick | Refresh | Advance int

inductive as_step :: "'w RedfishDispatcher \<Rightarrow> 'w bcrypt_ops \<Rightarrow> nat \<Rightarrow> 'w AccountService \<Rightarrow> as_event \<Rightarrow> 'w AccountService \<Rightarrow> bool"
  for rfd bc fuel where
  step_login: "AuthenticateAccount rfd bc fuel u p s = (r, s') \<Longrightarrow> as_step rfd bc fuel s (Login u p) s'"
| step_tick: "updatePeriodic rfd fuel s = (r, s') \<Longrightarrow> as_step rfd bc fuel s Tick s'"
| step_refresh: "updateAccountsPeriodic rfd s = (r, s') \<Longrightarrow> as_step rfd bc fuel s Refresh s'"
| step_advance: "0 \<le> d \<Longrightarrow> as_step rfd bc fuel s (Advance d) (s\<lparr>clock := clock s + d\<rparr>)"

inductive as_run :: "'w RedfishDispatcher \<Rightarrow> 'w bcrypt_ops \<Rightarrow> nat \<Rightarrow> 'w AccountService \<Rightarrow> as_event list \<Rightarrow> 'w AccountService \<Rightarrow> bool"
  for rfd bc fuel where
  run_nil: "as_run rfd bc fuel s [] s"
| run_snoc: "as_run rfd bc fuel s es s' \<Longrightarrow> as_step rfd bc fuel s' e s'' \<Longrightarrow> as_run rfd bc fuel s (es @ [e]) s''"

inductive_cases as_stepE: "as_step rfd bc fuel s e s'"

lemma seconds_lower: "- (2 ^ 63) \<le> seconds n"
  by (simp add: seconds_def int64_def)

text \<open>An account that stays locked: the lockout began at \<open>t\<close> and lasts \<open>d\<close> nanoseconds.\<close>

definition locked_since :: "nat \<Rightarrow> int \<Rightarrow> int \<Rightarrow> 'w AccountService \<Rightarrow> bool" where
  "locked_since a t d s \<longleftrightarrow> a < as_next s \<and> Locked (acct s a) \<and> lockOutStart (acct s a) = t \<and>
     seconds (AccountLockoutDuration s) = d"

lemma locked_since_other:
  "locked_since a t d s \<Longrightarrow> same_service b s s' \<Longrightarrow> b \<noteq> a \<Longrightarrow> locked_since a t d s'"
  by (simp add: locked_since_def same_service_def)

lemma locked_since_tick:
  assumes "locked_since a t d s" "clock s \<le> t + d"
  shows "locked_since a t d (snd (account_updatePeriodic rfd fuel b s))"
proof (cases "b = a")
  case True
  have "\<not> elapsed s (acct s a)"
    using assms seconds_lower [of "AccountLockoutDuration s"] by (simp add: locked_since_def elapsed_def Since_def)
  then show ?thesis
    using assms(1) account_updatePeriodic_state [where a = a and s = s and rfd = rfd and fuel = fuel] True
    by (auto simp: locked_since_def same_service_def ticked_account_def Let_def)
next
  case False
  then show ?thesis
    using locked_since_other [OF assms(1) account_updatePeriodic_state(2)] by blast
qed

lemma updatePeriodic_clock: "clock (snd (account_updatePeriodic rfd fuel b s)) = clock s"
  using account_updatePeriodic_state(2) [where a = b and s = s and rfd = rfd and fuel = fuel] by (simp add: same_service_def)

abbreviation ticks :: "'w RedfishDispatcher \<Rightarrow> nat \<Rightarrow> (string \<times> nat) list \<Rightarrow> ('w AccountService, unit) go" where
  "ticks rfd fuel \<equiv> go_each (\<lambda>(k, b). go_bind (account_updatePeriodic rfd fuel b) (\<lambda>_. go_return ()))"

lemma ticks_invariant:
  assumes step: "\<And>b s. P s \<Longrightarrow> P (snd (account_updatePeriodic rfd fuel b s))" and "P s"
  shows "P (snd (ticks rfd fuel ms s))"
  using assms(2)
proof (induction ms arbitrary: s)
  case (Cons m ms)
  obtain k b where m: "m = (k, b)" by fastforce
  obtain r s1 where r: "account_updatePeriodic rfd fuel b s = (r, s1)" by fastforce
  have "P s1" using step [OF Cons.prems, of b] r by simp
  then show ?case using Cons.IH [of s1] m r by (cases r) (auto simp: go_bind_apply)
qed simp

lemma ticks_clock: "clock (snd (ticks rfd fuel ms s)) = clock s"
  by (rule ticks_invariant [where P = "\<lambda>s'. clock s' = clock s"]) (simp_all add: updatePeriodic_clock)

lemma locked_since_ticks:
  assumes "locked_since a t d s" "clock s \<le> t + d"
  shows "locked_since a t d (snd (ticks rfd fuel ms s))"
proof -
  have "locked_since a t d (snd (ticks rfd fuel ms s)) \<and> clock (snd (ticks rfd fuel ms s)) \<le> t + d"
    by (rule ticks_invariant [where P = "\<lambda>s. locked_since a t d s \<and> clock s \<le> t + d"])
      (use assms locked_since_tick in \<open>auto simp: updatePeriodic_clock\<close>)
  then show ?thesis ..
qed

text \<open>The accounts that are read again from Redis never touch the state of an account in memory.\<close>

lemma preserves_on_ext [intro]: "(\<And>s w. P s \<Longrightarrow> P (s\<lparr>ext := w\<rparr>)) \<Longrightarrow> preserves P (on_ext m)"
  by (simp add: preserves_def on_ext_apply)

lemma refresh_preserves:
  assumes "\<And>s w. P s \<Longrightarrow> P (s\<lparr>ext := w\<rparr>)" "\<And>s ma. P s \<Longrightarrow> P (add_account ma s)"
  shows "preserves P (updateAccountsPeriodic rfd)"
proof -
  have "preserves P (go_each (\<lambda>memberRaw. go_bind (on_ext (go_bind (member_uri memberRaw) (account_initFromRedis rfd)))
      (\<lambda>newAccount. modifies (add_account newAccount))) members)" for members
    by (intro preserves_each preserves_bind preserves_on_ext preserves_modifies assms)
  then show ?thesis unfolding updateAccountsPeriodic_def accounts_initFromRedis_def conv_panic_def
    by (intro preserves_bind preserves_on_ext assms(1)) (auto split: option.split gval.split)
qed

lemma add_account_keeps:
  "clock (add_account ma s) = clock s" "AccountLockoutDuration (add_account ma s) = AccountLockoutDuration s"
  "as_next s \<le> as_next (add_account ma s)"
  "a < as_next s \<Longrightarrow> Locked (acct (add_account ma s) a) = Locked (acct s a) \<and>
     lockOutStart (acct (add_account ma s) a) = lockOutStart (acct s a)"
  by (auto simp: add_account_def acct_def set_acct_def update_conv' split: option.split)

lemma locked_since_refresh: "locked_since a t d s \<Longrightarrow> locked_since a t d (snd (updateAccountsPeriodic rfd s))"
proof (erule preservesD [rotated], rule refresh_preserves)
  fix s :: "'a AccountService" and ma assume "locked_since a t d s"
  then show "locked_since a t d (add_account ma s)"
    using add_account_keeps(2-4) [where ma = ma and s = s] by (auto simp: locked_since_def intro: less_le_trans)
qed (simp add: locked_since_def)

lemma refresh_clock: "clock (snd (updateAccountsPeriodic rfd s)) = clock s"
proof -
  have "preserves (\<lambda>s'. clock s' = clock s) (updateAccountsPeriodic rfd)"
    by (rule refresh_preserves) (simp_all add: add_account_keeps)
  then show ?thesis by (simp add: preserves_def)
qed

lemma locked_since_step:
  assumes "as_step rfd bc fuel s e s'" "locked_since a t d s" "clock s' \<le> t + d"
  shows "locked_since a t d s' \<and> clock s \<le> clock s'"
  using assms(1)
proof (cases rule: as_step.cases)
  case (step_login u p r)
  then have s': "s' = snd (AuthenticateAccount rfd bc fuel u p s)" by simp
  show ?thesis
  proof (cases "get_account s u")
    case None
    then show ?thesis using s' assms(2) by (simp add: AuthenticateAccount_state)
  next
    case (Some b)
    then show ?thesis
      using s' assms(2) locked_since_other [OF assms(2) failedLogin_state(2) [where a = b and rfd = rfd and fuel = fuel]]
        failedLogin_state(2) [where a = b and s = s and rfd = rfd and fuel = fuel]
      by (cases "b = a") (auto simp: AuthenticateAccount_state Authenticate_state locked_since_def same_service_def)
  qed
next
  case (step_tick r)
  then have s': "s' = snd (ticks rfd fuel (Members s) s)"
    by (simp add: updatePeriodic_def go_bind_apply)
  then have "clock s' = clock s" by (simp add: ticks_clock)
  then show ?thesis using locked_since_ticks [OF assms(2), of rfd fuel "Members s"] assms(3) s' by simp
next
  case (step_refresh r)
  then show ?thesis using locked_since_refresh [OF assms(2), of rfd] refresh_clock [of rfd s] by simp
next
  case (step_advance d)
  then show ?thesis using assms(2) by (simp add: locked_since_def)
qed

lemma get_account_same: "same_service a s s' \<Longrightarrow> get_account s' u = get_account s u"
proof -
  assume ss: "same_service a s s'"
  have "UserName (acct s' b) = UserName (acct s b)" for b
    using ss by (cases "b = a") (simp_all add: same_service_def)
  then show ?thesis using ss by (simp add: get_account_def same_service_def)
qed

lemma locked_since_run:
  "as_run rfd bc fuel s es s' \<Longrightarrow> locked_since a t d s \<Longrightarrow> clock s' \<le> t + d \<Longrightarrow> locked_since a t d s' \<and> clock s \<le> clock s'"
proof (induction rule: as_run.induct)
  case (run_snoc s es s' e s'')
  have mono: "clock s' \<le> clock s''"
    using run_snoc.hyps(2)
  proof (cases rule: as_step.cases)
    case (step_login u p r)
    then have "s'' = snd (AuthenticateAccount rfd bc fuel u p s')" by simp
    then show ?thesis using failedLogin_state(2) [where s = s' and rfd = rfd and fuel = fuel]
      by (auto simp: AuthenticateAccount_state Authenticate_state same_service_def split: option.splits)
  next
    case (step_tick r)
    then show ?thesis using ticks_clock [of rfd fuel "Members s'" s'] by (simp add: updatePeriodic_def go_bind_apply)
  next
    case (step_refresh r)
    then show ?thesis using refresh_clock [of rfd s'] by simp
  next
    case (step_advance d)
    then show ?thesis by simp
  qed
  then have "locked_since a t d s' \<and> clock s \<le> clock s'" using run_snoc by simp
  then show ?case using locked_since_step [OF run_snoc.hyps(2)] run_snoc.prems mono by fastforce
qed simp

fun logins :: "'w RedfishDispatcher \<Rightarrow> 'w bcrypt_ops \<Rightarrow> nat \<Rightarrow> string \<Rightarrow> string \<Rightarrow> nat \<Rightarrow> 'w AccountService \<Rightarrow> 'w AccountService" where
  "logins rfd bc fuel u p 0 s = s"
| "logins rfd bc fuel u p (Suc n) s = snd (AuthenticateAccount rfd bc fuel u p (logins rfd bc fuel u p n s))"

lemma login_same: "get_account s u = Some a \<Longrightarrow> same_service a s (snd (AuthenticateAccount rfd bc fuel u p s))"
  by (simp add: AuthenticateAccount_state Authenticate_state failedLogin_state(2))

lemma int64_id: "- (2 ^ 63) \<le> n \<Longrightarrow> n < 2 ^ 63 \<Longrightarrow> int64 n = n"
  by (simp add: int64_def)

section \<open>The end of a lockout\<close>

definition account_key :: "ManagerAccount \<Rightarrow> string" where
  "account_key ma = ''/redfish/v1/AccountService/Accounts/'' @ ma_Id ma"

text \<open>The account is a stored object with a \<open>Locked\<close> field.\<close>

definition account_stored :: "rdb \<Rightarrow> ManagerAccount \<Rightarrow> bool" where
  "account_stored db ma \<longleftrightarrow> (\<exists>S. db (account_key ma) = Some (RSet S)) \<and>
     (\<exists>v. db (account_key ma @ ''/Locked'') = Some (RString v))"

definition unlock_patch :: "ManagerAccount \<Rightarrow> rdb \<Rightarrow> rdb" where
  "unlock_patch ma = patch_step (account_key ma) (''Locked'', GString ''false'')"

lemma unlock_patch_stored:
  assumes "account_stored db ma"
  shows "account_stored (unlock_patch ma db) ma' \<longleftrightarrow> account_stored db ma'"
    "unlock_patch ma db (account_key ma @ ''/Locked'') = Some (RString ''false'')"
    "db k = Some (RString ''false'') \<Longrightarrow> unlock_patch ma db k = Some (RString ''false'')"
  using assms by (auto simp: account_stored_def unlock_patch_def)

lemma unlock_patchable: "account_stored db ma \<Longrightarrow> patchable (account_key ma) [(''Locked'', GString ''false'')] db"
  by (auto simp: account_stored_def patchable_def)

lemma ma_Id_ticked [simp]: "account_key (ticked_account s ma) = account_key ma" "lockOutStart (ticked_account s ma) = lockOutStart ma"
  by (simp_all add: ticked_account_def account_key_def Let_def)

lemma Locked_ticked [simp]: "Locked (ticked_account s ma) \<longleftrightarrow> Locked ma \<and> \<not> elapsed s ma"
  by (auto simp: ticked_account_def Let_def)

context redis_server
begin

lemma unlock_redis:
  assumes "rfd_redis rfd = R" "account_stored (view (ext s)) (acct s a)"
  shows "\<exists>s'. setLockOut rfd fuel a False s = (Ret (Inr ()), s') \<and>
    view (ext s') = unlock_patch (acct s a) (view (ext s))"
proof -
  let ?k = "account_key (acct s a)"
  obtain w' where "patch_fields R fuel ?k [(''Locked'', GString ''false'')] (ext s) = (Ret (), w')"
    "view w' = unlock_patch (acct s a) (view (ext s))"
    using patch_sim [OF unlock_patchable [OF assms(2)], of fuel] by (auto simp: unlock_patch_def)
  then show ?thesis using assms(1)
    by (simp add: setLockOut_def go_bind_apply on_ext_apply account_key_def FormatBool_def Let_def
        del: patch_fields.simps append_Cons append_Nil)
qed

lemma tick_redis:
  assumes "rfd_redis rfd = R" "account_stored (view (ext s)) (acct s a)"
  shows "\<exists>s'. account_updatePeriodic rfd fuel a s = (Ret (Inr ()), s') \<and>
    view (ext s') = (if Locked (acct s a) \<and> elapsed s (acct s a) then unlock_patch (acct s a) (view (ext s)) else view (ext s))"
proof -
  define s1 where "s1 = (let ma = acct s a in
      if failedLoginAttempts ma \<noteq> 0 \<and> seconds (AccountLockoutCounterResetAfter s) < Since (clock s) (lastFailedLogin ma)
      then set_acct a (ma\<lparr>failedLoginAttempts := 0\<rparr>) s else s)"
  have s1: "Locked (acct s1 a) = Locked (acct s a)" "elapsed s1 (acct s1 a) = elapsed s (acct s a)"
    "account_key (acct s1 a) = account_key (acct s a)" "ext s1 = ext s"
    by (auto simp: s1_def Let_def elapsed_def account_key_def)
  have eq: "account_updatePeriodic rfd fuel a s =
      (if Locked (acct s1 a) \<and> elapsed s1 (acct s1 a)
       then go_check (setLockOut rfd fuel a False) (\<lambda>_. go_return (Inr ())) s1 else (Ret (Inr ()), s1))"
    unfolding account_updatePeriodic_def go_bind_apply modifies_apply gets_apply prod.case outcome.case
      s1_def [symmetric]
    unfolding elapsed_def Let_def by simp
  have "account_stored (view (ext s1)) (acct s1 a)" using assms(2) s1 by (simp add: account_stored_def)
  then obtain s2 where "setLockOut rfd fuel a False s1 = (Ret (Inr ()), s2)"
    "view (ext s2) = unlock_patch (acct s1 a) (view (ext s1))"
    using unlock_redis [OF assms(1), of s1 a fuel] by blast
  then show ?thesis unfolding eq using s1 by (auto simp: go_check_apply unlock_patch_def)
qed

end

text \<open>What a run of the periodic task over a list of accounts does to the accounts and to Redis.\<close>

definition ticked :: "('w \<Rightarrow> rdb) \<Rightarrow> nat set \<Rightarrow> 'w AccountService \<Rightarrow> 'w AccountService \<Rightarrow> bool" where
  "ticked view B s s' \<longleftrightarrow> clock s' = clock s \<and> AccountLockoutDuration s' = AccountLockoutDuration s \<and>
     (\<forall>b. account_key (acct s' b) = account_key (acct s b) \<and> lockOutStart (acct s' b) = lockOutStart (acct s b) \<and>
        Locked (acct s' b) = (Locked (acct s b) \<and> (b \<in> B \<longrightarrow> \<not> elapsed s (acct s b))) \<and>
        (b \<in> B \<longrightarrow> Locked (acct s b) \<longrightarrow> elapsed s (acct s b) \<longrightarrow>
           view (ext s') (account_key (acct s b) @ ''/Locked'') = Some (RString ''false''))) \<and>
     (\<forall>ma. account_stored (view (ext s')) ma = account_stored (view (ext s)) ma) \<and>
     (\<forall>k. view (ext s) k = Some (RString ''false'') \<longrightarrow> view (ext s') k = Some (RString ''false''))"

lemma ticked_trans: "ticked view B s s' \<Longrightarrow> ticked view C s' s'' \<Longrightarrow> ticked view (B \<union> C) s s''"
  by (auto simp: ticked_def elapsed_def)

context redis_server
begin

lemma tick_ticked:
  assumes "rfd_redis rfd = R" "account_stored (view (ext s)) (acct s a)"
  shows "\<exists>s'. account_updatePeriodic rfd fuel a s = (Ret (Inr ()), s') \<and> ticked view {a} s s'"
proof -
  obtain s' where s': "account_updatePeriodic rfd fuel a s = (Ret (Inr ()), s')"
    "view (ext s') = (if Locked (acct s a) \<and> elapsed s (acct s a) then unlock_patch (acct s a) (view (ext s)) else view (ext s))"
    using tick_redis [OF assms] by blast
  have st: "acct s' a = ticked_account s (acct s a)" "same_service a s s'"
    using account_updatePeriodic_state [where rfd = rfd and fuel = fuel and a = a and s = s] s'(1) by simp_all
  have acct: "account_key (acct s' b) = account_key (acct s b) \<and> lockOutStart (acct s' b) = lockOutStart (acct s b) \<and>
      Locked (acct s' b) = (Locked (acct s b) \<and> (b \<in> {a} \<longrightarrow> \<not> elapsed s (acct s b)))" for b
    using st by (cases "b = a") (simp_all add: same_service_def)
  show ?thesis unfolding ticked_def
    using s' acct st(2) unlock_patch_stored [OF assms(2)] by (auto simp: same_service_def)
qed

lemma ticks_ticked:
  assumes "rfd_redis rfd = R" "\<forall>(k, a) \<in> set ms. account_stored (view (ext s)) (acct s a)"
  shows "\<exists>s'. ticks rfd fuel ms s = (Ret (), s') \<and> ticked view (snd ` set ms) s s'"
  using assms(2)
proof (induction ms arbitrary: s)
  case Nil
  then show ?case by (simp add: ticked_def)
next
  case (Cons m ms)
  obtain k a where m: "m = (k, a)" by fastforce
  have "account_stored (view (ext s)) (acct s a)" using Cons.prems m by simp
  then obtain s1 where s1: "account_updatePeriodic rfd fuel a s = (Ret (Inr ()), s1)" "ticked view {a} s s1"
    using tick_ticked [OF assms(1)] by blast
  have "account_stored (view (ext s1)) (acct s1 b) = account_stored (view (ext s)) (acct s b)" for b
    using s1(2) by (simp add: ticked_def account_stored_def)
  then have "\<forall>(k, a) \<in> set ms. account_stored (view (ext s1)) (acct s1 a)" using Cons.prems by auto
  then obtain s2 where "ticks rfd fuel ms s1 = (Ret (), s2)" "ticked view (snd ` set ms) s1 s2"
    using Cons.IH [of s1] by blast
  moreover have "ticks rfd fuel (m # ms) s = ticks rfd fuel ms s1"
    using s1(1) m by (simp add: go_bind_apply)
  moreover have "snd ` set (m # ms) = {a} \<union> snd ` set ms" using m by simp
  ultimately show ?case using ticked_trans [OF s1(2)] by metis
qed

end

text \<open>With unique user names the search finds the member of that name.\<close>

lemma get_account_member:
  assumes "\<forall>(k, a) \<in> set (Members s). \<forall>(k', a') \<in> set (Members s). UserName (acct s a) = UserName (acct s a') \<longrightarrow> a = a'"
  shows "get_account s u = Some b \<longleftrightarrow> b \<in> snd ` set (Members s) \<and> UserName (acct s b) = u"
proof (cases "find (\<lambda>(k, a). UserName (acct s a) = u) (Members s)")
  case None
  then have "\<forall>x \<in> set (Members s). UserName (acct s (snd x)) \<noteq> u" by (fastforce simp: find_None_iff)
  then show ?thesis using None by (auto simp: get_account_def)
next
  case (Some x)
  then have x: "x \<in> set (Members s)" "UserName (acct s (snd x)) = u" by (auto simp: find_Some_iff) (metis nth_mem)
  have "b = snd x" if "b \<in> snd ` set (Members s)" "UserName (acct s b) = u"
    using assms x that by fastforce
  moreover have "get_account s u = Some (snd x)" using Some by (simp add: get_account_def)
  ultimately show ?thesis using x(2) imageI [OF x(1), of snd] by (metis option.inject)
qed

section \<open>Properties\<close>

text \<open>
  C8. While a lockout lasts nobody logs in: after any sequence of logins with any passwords, of
  runs of the periodic tasks and of waiting, as long as the duration of the lockout has not passed
  the account is locked, and a login to it fails without changing anything.
\<close>

theorem lockout_holds:
  assumes "as_run rfd bc fuel s es s'" "a < as_next s" "Locked (acct s a)"
    and "clock s' \<le> lockOutStart (acct s a) + seconds (AccountLockoutDuration s)" "get_account s' u = Some a"
  shows "Locked (acct s' a) \<and>
    AuthenticateAccount rfd bc fuel u p s' = (Ret (Inl (Err ''Login by locked account'')), s')"
proof -
  have "locked_since a (lockOutStart (acct s a)) (seconds (AccountLockoutDuration s)) s'"
    using locked_since_run [OF assms(1)] assms(2-4) by (simp add: locked_since_def)
  then have "Locked (acct s' a)" by (simp add: locked_since_def)
  then show ?thesis
    using assms(5) by (simp add: AuthenticateAccount_def Authenticate_def go_bind_apply go_check_apply)
qed

text \<open>
  C9. The number of failed logins that lock an account: with a positive threshold, an account with
  no recorded failures is locked after \<open>n\<close> logins with a wrong password if and only if \<open>n\<close> exceeds
  the threshold, so the lock comes one failure after the threshold is reached.
\<close>

theorem lockout_threshold:
  assumes "get_account s u = Some a" "bcryptCompare bc (passwordHash (acct s a)) p \<noteq> None"
    and "isAccountLockoutEnabled s" "\<not> Locked (acct s a)" "failedLoginAttempts (acct s a) = 0"
    and "0 < AccountLockoutThreshold s" "AccountLockoutThreshold s < 2 ^ 63 - 1"
  shows "Locked (acct (logins rfd bc fuel u p n s) a) \<longleftrightarrow> AccountLockoutThreshold s < int n"
proof -
  let ?s = "\<lambda>n. logins rfd bc fuel u p n s"
  let ?T = "AccountLockoutThreshold s"
  have "same_service a s (?s n) \<and> passwordHash (acct (?s n) a) = passwordHash (acct s a) \<and>
      Locked (acct (?s n) a) = (?T < int n) \<and> (\<not> Locked (acct (?s n) a) \<longrightarrow> failedLoginAttempts (acct (?s n) a) = int n)"
  proof (induction n)
    case 0
    then show ?case using assms(4-6) by simp
  next
    case (Suc n)
    let ?t = "?s n"
    have ga: "get_account ?t u = Some a" using get_account_same Suc assms(1) by metis
    have same: "same_service a s (?s (Suc n))"
      using same_service_trans [of a s ?t] login_same [OF ga] Suc by simp
    have T: "AccountLockoutThreshold ?t = ?T" "isAccountLockoutEnabled ?t" "passwordHash (acct ?t a) = passwordHash (acct s a)"
      using Suc assms(3) by (simp_all add: same_service_def isAccountLockoutEnabled_def)
    show ?case
    proof (cases "Locked (acct ?t a)")
      case True
      then have "?s (Suc n) = ?t" using ga by (simp add: AuthenticateAccount_state Authenticate_state)
      then show ?thesis using Suc True same by simp
    next
      case False
      then have "acct (?s (Suc n)) a = failed_account ?t (acct ?t a)"
        using ga T(3) assms(2) by (auto simp: AuthenticateAccount_state Authenticate_state failedLogin_state(1))
      moreover have n: "failedLoginAttempts (acct ?t a) = int n" "int n \<le> ?T" using Suc False by auto
      then have "int64 (int n + 1) = int n + 1" using assms(7) by (intro int64_id) auto
      ultimately show ?thesis using same T n False Suc by (simp add: failed_account_def Let_def)
    qed
  qed
  then show ?thesis by blast
qed

text \<open>
  C27. Authentication by user name: when no two members share a user name, a login with a name and a
  password succeeds exactly for the member of that name, if it is not locked and its hash accepts the
  password, and success changes nothing; this does not depend on the order in which the collection is
  searched. When there is no such member, or when it is locked, the login fails and changes nothing,
  whatever the password; when the hash refuses the password, the login fails.
\<close>

theorem AuthenticateAccount_correct:
  assumes "\<forall>(k, a) \<in> set (Members s). \<forall>(k', a') \<in> set (Members s). UserName (acct s a) = UserName (acct s a') \<longrightarrow> a = a'"
  shows "(AuthenticateAccount rfd bc fuel u p s = (Ret (Inr a), s') \<longleftrightarrow>
      s' = s \<and> a \<in> snd ` set (Members s) \<and> UserName (acct s a) = u \<and> \<not> Locked (acct s a) \<and>
      bcryptCompare bc (passwordHash (acct s a)) p = None) \<and>
    ((\<forall>b \<in> snd ` set (Members s). UserName (acct s b) = u \<longrightarrow> Locked (acct s b)) \<longrightarrow>
      (\<exists>e. AuthenticateAccount rfd bc fuel u p s = (Ret (Inl e), s)))"
proof -
  have found: "get_account s u = Some b \<longleftrightarrow> b \<in> snd ` set (Members s) \<and> UserName (acct s b) = u" for b
    by (rule get_account_member [OF assms])
  have "AuthenticateAccount rfd bc fuel u p s = (Ret (Inr a), s') \<longleftrightarrow>
      s' = s \<and> get_account s u = Some a \<and> \<not> Locked (acct s a) \<and> bcryptCompare bc (passwordHash (acct s a)) p = None"
    by (auto simp: AuthenticateAccount_def Authenticate_def go_bind_apply go_check_apply
        split: option.splits prod.splits outcome.splits sum.splits)
  moreover have "\<exists>e. AuthenticateAccount rfd bc fuel u p s = (Ret (Inl e), s)"
    if locked: "\<forall>b \<in> snd ` set (Members s). UserName (acct s b) = u \<longrightarrow> Locked (acct s b)"
  proof (cases "get_account s u")
    case None
    then show ?thesis by (simp add: AuthenticateAccount_def go_bind_apply)
  next
    case (Some b)
    then have "Locked (acct s b)" using found locked by blast
    then show ?thesis using Some by (simp add: AuthenticateAccount_def Authenticate_def go_bind_apply go_check_apply)
  qed
  ultimately show ?thesis unfolding found by blast
qed


section \<open>A concrete service\<close>

definition ex_bcrypt :: "'w bcrypt_ops" where
  "ex_bcrypt = \<lparr> bcryptCompare = (\<lambda>hash p. if hash = p then None else Some (Err ''mismatch'')),
     bcryptGenerate = (\<lambda>p. go_return (Inr p)) \<rparr>"

definition ex_account :: ManagerAccount where
  "ex_account = zero_account\<lparr>ma_Id := ''1'', UserName := ''root'', ma_RoleId := ''Administrator'', Enabled := True,
     passwordHash := ''secret''\<rparr>"

definition ex_store :: mem where
  "ex_store = [(''/redfish/v1/AccountService/Accounts/1'', MSet [''Locked'']),
     (''/redfish/v1/AccountService/Accounts/1/Locked'', MString ''true'')]"

definition ex_service :: "ManagerAccount \<Rightarrow> int \<Rightarrow> mem AccountService" where
  "ex_service ma now = \<lparr> AccountLockoutCounterResetAfter = 30, AccountLockoutDuration = 60, AccountLockoutThreshold = 2,
     MinPasswordLength = 4, MaxPasswordLength = 8, ServiceEnabled = True, Members = [(''root'', 0)],
     Roles = [(''Administrator'', \<lparr> AssignedPrivileges = [''Login''], role_RoleId = ''Administrator'' \<rparr>)],
     as_heap = [(0, ma)], as_next = 1, clock = now, ext = ex_store \<rparr>"

lemmas ex_service_simps = ex_service_def ex_account_def ex_bcrypt_def zero_account_def acct_def get_account_def

theorem lockout_holds_witness:
  "AuthenticateAccount ex_rfd ex_bcrypt 9 ''root'' ''secret'' (ex_service (ex_account\<lparr>Locked := True\<rparr>) (10 ^ 9)) =
    (Ret (Inl (Err ''Login by locked account'')), ex_service (ex_account\<lparr>Locked := True\<rparr>) (10 ^ 9))"
proof -
  let ?s = "ex_service (ex_account\<lparr>Locked := True\<rparr>) 0"
  let ?s' = "?s\<lparr>clock := clock ?s + 10 ^ 9\<rparr>"
  have "as_run ex_rfd ex_bcrypt 9 ?s ([] @ [Advance (10 ^ 9)]) ?s'"
    by (rule run_snoc [OF run_nil step_advance]) simp
  moreover have "0 < as_next ?s" "Locked (acct ?s 0)"
    "clock ?s' \<le> lockOutStart (acct ?s 0) + seconds (AccountLockoutDuration ?s)"
    "get_account ?s' ''root'' = Some 0"
    by (simp_all add: ex_service_simps seconds_def int64_def)
  ultimately have "AuthenticateAccount ex_rfd ex_bcrypt 9 ''root'' ''secret'' ?s' =
      (Ret (Inl (Err ''Login by locked account'')), ?s')"
    using lockout_holds [of ex_rfd ex_bcrypt 9 ?s "[] @ [Advance (10 ^ 9)]" ?s' 0 "''root''" "''secret''"] by blast
  then show ?thesis by (simp add: ex_service_def)
qed

theorem lockout_threshold_witness:
  "\<not> Locked (acct (logins ex_rfd ex_bcrypt 9 ''root'' ''guess'' 2 (ex_service ex_account 0)) 0) \<and>
   Locked (acct (logins ex_rfd ex_bcrypt 9 ''root'' ''guess'' 3 (ex_service ex_account 0)) 0)"
proof -
  let ?s = "ex_service ex_account 0"
  have h: "get_account ?s ''root'' = Some 0" "bcryptCompare ex_bcrypt (passwordHash (acct ?s 0)) ''guess'' \<noteq> None"
    "isAccountLockoutEnabled ?s" "\<not> Locked (acct ?s 0)" "failedLoginAttempts (acct ?s 0) = 0"
    "0 < AccountLockoutThreshold ?s" "AccountLockoutThreshold ?s < 2 ^ 63 - 1"
    by (simp_all add: ex_service_simps isAccountLockoutEnabled_def)
  show ?thesis
    using lockout_threshold [OF h, of ex_rfd 9 2] lockout_threshold [OF h, of ex_rfd 9 3]
    by (simp add: ex_service_def)
qed

theorem AuthenticateAccount_correct_witness:
  "AuthenticateAccount ex_rfd ex_bcrypt 9 ''root'' ''secret'' (ex_service ex_account 0) = (Ret (Inr 0), ex_service ex_account 0) \<and>
   (\<exists>e. AuthenticateAccount ex_rfd ex_bcrypt 9 ''admin'' ''secret'' (ex_service ex_account 0) = (Ret (Inl e), ex_service ex_account 0))"
proof -
  let ?s = "ex_service ex_account 0"
  have unique: "\<forall>(k, a) \<in> set (Members ?s). \<forall>(k', a') \<in> set (Members ?s). UserName (acct ?s a) = UserName (acct ?s a') \<longrightarrow> a = a'"
    by (simp add: ex_service_def)
  have "0 \<in> snd ` set (Members ?s)" "UserName (acct ?s 0) = ''root''" "\<not> Locked (acct ?s 0)"
    "bcryptCompare ex_bcrypt (passwordHash (acct ?s 0)) ''secret'' = None"
    "\<forall>b \<in> snd ` set (Members ?s). UserName (acct ?s b) \<noteq> ''admin''"
    by (simp_all add: ex_service_simps)
  then show ?thesis
    using AuthenticateAccount_correct [OF unique, of ex_rfd ex_bcrypt 9 "''root''" "''secret''" 0 ?s]
      AuthenticateAccount_correct [OF unique, of ex_rfd ex_bcrypt 9 "''admin''" "''secret''" 0 ?s] by blast
qed


end
