(* ===== verification/Account_Hooks.thy ===== *)
theory Account_Hooks
  imports Account_Lockout
begin

text \<open>
  Properties of the account hooks of \<open>AccountServiceHooks.go\<close>: what happens to a password on its way
  from a request to the store, that a created account can log in, the shape of the account
  collection, and the permission check on an account.
\<close>

section \<open>Hexadecimal strings\<close>

lemma hex_val_hex_char: "d < 16 \<Longrightarrow> hex_val (hex_char d) = Some d"
proof -
  have "\<forall>d \<in> set [0..<16]. hex_val (hex_char d) = Some d" by code_simp
  then show "d < 16 \<Longrightarrow> hex_val (hex_char d) = Some d" by simp
qed

lemma DecodeString_EncodeToString: "DecodeString (EncodeToString bs) = Inr bs"
proof (induction bs)
  case (Cons b bs)
  have "(of_char b :: nat) < 256" by (rule nat_of_char_less_256)
  then have "(of_char b :: nat) div 16 < 16" "(of_char b :: nat) mod 16 < 16" by (simp_all add: div_less_iff_less_mult)
  moreover have "char_of (of_char b div 16 * 16 + of_char b mod 16 :: nat) = b" by simp
  ultimately show ?case using Cons by (simp add: EncodeToString_def hex_val_hex_char)
qed (simp add: EncodeToString_def)

section \<open>The collection of accounts\<close>

text \<open>Every member has an address of its own, below the next free one.\<close>

definition service_wf :: "'w AccountService \<Rightarrow> bool" where
  "service_wf s \<longleftrightarrow> distinct (map fst (Members s)) \<and> distinct (map snd (Members s)) \<and>
     (\<forall>a \<in> snd ` set (Members s). a < as_next s)"

lemma AList_update_set: "set (AList.update k v al) \<subseteq> insert (k, v) (set al)"
  by (induction al) auto

lemma update_absent: "map_of al k = None \<Longrightarrow> AList.update k v al = al @ [(k, v)]"
  by (induction al) (auto split: if_splits)

lemma distinct_snd_update:
  "distinct (map snd al) \<Longrightarrow> v \<notin> snd ` set al \<Longrightarrow> distinct (map snd (AList.update k v al))"
proof (induction al)
  case (Cons p al)
  obtain k' v' where p: "p = (k', v')" by fastforce
  have "snd ` set (AList.update k v al) \<subseteq> insert v (snd ` set al)" using AList_update_set [of k v al] by force
  then show ?case using Cons p by force
qed simp

definition add_member :: "string \<Rightarrow> ManagerAccount \<Rightarrow> 'w AccountService \<Rightarrow> 'w AccountService" where
  "add_member k ma s = s\<lparr>Members := AList.update k (as_next s) (Members s),
     as_heap := AList.update (as_next s) ma (as_heap s), as_next := Suc (as_next s)\<rparr>"

lemma add_member_simps [simp]:
  "Members (add_member k ma s) = AList.update k (as_next s) (Members s)" "as_next (add_member k ma s) = Suc (as_next s)"
  "acct (add_member k ma s) b = (if b = as_next s then ma else acct s b)" "ext (add_member k ma s) = ext s"
  by (simp_all add: add_member_def acct_def update_conv')

lemma add_member_wf: "service_wf s \<Longrightarrow> service_wf (add_member k ma s)"
proof -
  assume wf: "service_wf s"
  have "distinct (map snd (AList.update k (as_next s) (Members s)))"
    using wf by (intro distinct_snd_update) (auto simp: service_wf_def)
  moreover have "\<forall>a \<in> snd ` set (AList.update k (as_next s) (Members s)). a < Suc (as_next s)"
    using wf AList_update_set [of k "as_next s" "Members s"] by (fastforce simp: service_wf_def)
  ultimately show ?thesis using wf by (simp add: service_wf_def distinct_update)
qed

lemma service_wf_delete: "service_wf s \<Longrightarrow> service_wf (s\<lparr>Members := AList.delete k (Members s)\<rparr>)"
  by (auto simp: service_wf_def AList.delete_eq distinct_map_filter split: prod.splits)

lemma service_wf_ext [simp]: "service_wf (s\<lparr>ext := w\<rparr>) = service_wf s"
  by (simp add: service_wf_def)

lemma service_wf_set_acct [simp]: "service_wf (set_acct a m s) = service_wf s"
  by (simp add: service_wf_def set_acct_def)

lemma AddAccountAfter_state:
  assumes "ctx_hash ctx = Some h" "account_initFromStruct response h s = (Ret ma, s)"
    and "map_of (Members s) (UserName ma) = None"
  shows "AddAccountAfter rfd event ctx response s =
    (case rSet (rfd_redis rfd) (ev_URI event @ ''/'' @ ma_Id ma @ ''/Password:hash'') (EncodeToString h) (ext s) of
       (Ret (Inl e), w) \<Rightarrow> (Ret (None, 0, Some e), (add_member (ma_Id ma) ma s)\<lparr>ext := w\<rparr>)
     | (Ret (Inr _), w) \<Rightarrow> (Ret (None, 0, None), (add_member (ma_Id ma) ma s)\<lparr>ext := w\<rparr>)
     | (Panic p, w) \<Rightarrow> (Panic p, (add_member (ma_Id ma) ma s)\<lparr>ext := w\<rparr>)
     | (Fatal p, w) \<Rightarrow> (Fatal p, (add_member (ma_Id ma) ma s)\<lparr>ext := w\<rparr>)
     | (NoFuel, w) \<Rightarrow> (NoFuel, (add_member (ma_Id ma) ma s)\<lparr>ext := w\<rparr>))"
  using assms
  by (simp add: AddAccountAfter_def go_bind_apply on_ext_def add_member_def split: prod.split outcome.split sum.split)

lemma go_bind_pure:
  "(\<And>s. snd (m s) = s) \<Longrightarrow> (\<And>x s. snd (f x s) = s) \<Longrightarrow> snd (go_bind m f s) = s"
proof -
  assume m: "\<And>s. snd (m s) = s" and f: "\<And>x s. snd (f x s) = s"
  obtain r where "m s = (r, s)" using m [of s] by (metis prod.collapse)
  then show ?thesis using f by (cases r) (simp_all add: go_bind_apply)
qed

lemma raw_pure: "snd (raw_string raw k s) = s" "snd (raw_bool raw k s) = s"
  by (simp_all add: raw_string_def raw_bool_def conv_panic_def split: option.split gval.split)

lemma account_initFromStruct_pure: "snd (account_initFromStruct raw h s) = s"
  unfolding account_initFromStruct_def by (intro go_bind_pure raw_pure) simp

lemma AddAccountAfter_wf: "service_wf s \<Longrightarrow> service_wf (snd (AddAccountAfter rfd event ctx response s))"
proof -
  assume wf: "service_wf s"
  show ?thesis
  proof (cases "ctx_hash ctx")
    case None
    then show ?thesis using wf by (simp add: AddAccountAfter_def)
  next
    case (Some h)
    obtain r where r: "account_initFromStruct response h s = (r, s)"
      using account_initFromStruct_pure [of response h s] by (metis prod.collapse)
    show ?thesis
    proof (cases "\<exists>ma. r = Ret ma \<and> map_of (Members s) (UserName ma) = None")
      case True
      then obtain ma where "r = Ret ma" "map_of (Members s) (UserName ma) = None" by blast
      then show ?thesis using AddAccountAfter_state [OF Some, of response s ma rfd event] r add_member_wf [OF wf]
        by (simp split: prod.split outcome.split sum.split)
    next
      case False
      then show ?thesis using wf Some r by (cases r) (auto simp: AddAccountAfter_def go_bind_apply)
    qed
  qed
qed

lemma map2struct_account_wf: "service_wf s \<Longrightarrow> service_wf (snd (map2struct_account m a s))"
  by (induction m a arbitrary: s rule: map2struct_account.induct)
    (auto simp: go_bind_apply split: outcome.split sum.split)

lemma UpdateAfter_wf: "service_wf s \<Longrightarrow> service_wf (snd (UpdateAfter rfd a event ctx response s))"
  using map2struct_account_wf [of s response a]
  by (auto simp: UpdateAfter_def go_bind_apply on_ext_apply split: prod.split outcome.split option.split sum.split)

lemma RemoveAccount_wf: "service_wf s \<Longrightarrow> service_wf (snd (RemoveAccount rfd event response s))"
  using service_wf_delete [of s]
  by (auto simp: RemoveAccount_def go_bind_apply on_ext_apply conv_panic_def
      split: prod.split outcome.split option.split sum.split gval.split)

lemma same_service_wf: "same_service a s s' \<Longrightarrow> service_wf s' = service_wf s"
  by (simp add: same_service_def service_wf_def)

lemma login_wf: "service_wf s \<Longrightarrow> service_wf (snd (AuthenticateAccount rfd bc fuel u p s))"
  using same_service_wf [OF login_same [of s u]]
  by (cases "get_account s u") (simp_all add: AuthenticateAccount_state)

lemma tick_wf: "service_wf s \<Longrightarrow> service_wf (snd (updatePeriodic rfd fuel s))"
  by (simp add: updatePeriodic_def go_bind_apply)
    (erule ticks_invariant [rotated], simp add: same_service_wf [OF account_updatePeriodic_state(2)])

lemma refresh_wf: "service_wf s \<Longrightarrow> service_wf (snd (updateAccountsPeriodic rfd s))"
proof (erule preservesD [rotated], rule refresh_preserves)
  fix s :: "'a AccountService" and ma assume "service_wf s"
  then show "service_wf (add_account ma s)"
    using add_member_wf [of s "UserName ma" ma] by (simp add: add_account_def add_member_def split: option.split)
qed simp

text \<open>The fields an account is built from.\<close>

definition account_struct :: "gobj \<Rightarrow> ManagerAccount \<Rightarrow> bool" where
  "account_struct raw ma \<longleftrightarrow> map_of raw ''Id'' = Some (GString (ma_Id ma)) \<and>
     map_of raw ''UserName'' = Some (GString (UserName ma)) \<and> map_of raw ''RoleId'' = Some (GString (ma_RoleId ma)) \<and>
     map_of raw ''Locked'' = Some (GBool (Locked ma)) \<and> map_of raw ''Enabled'' = Some (GBool (Enabled ma)) \<and>
     failedLoginAttempts ma = 0 \<and> lastFailedLogin ma = 0 \<and> lockOutStart ma = 0"

lemma account_initFromStruct_ok:
  "account_struct raw ma \<Longrightarrow> account_initFromStruct raw (passwordHash ma) s = (Ret ma, s)"
  by (simp add: account_struct_def account_initFromStruct_def raw_string_def raw_bool_def go_bind_apply zero_account_def)


lemma find_update_fresh:
  assumes "\<forall>(k', a) \<in> set al. f a \<noteq> u" "f v = u"
  shows "find (\<lambda>(k, a). f a = u) (AList.update k v al) = Some (k, v)"
  using assms by (induction al) auto

lemma get_account_added:
  assumes "service_wf s" "get_account s (UserName ma) = None"
  shows "get_account (add_member k ma s) (UserName ma) = Some (as_next s)"
proof -
  have "\<forall>(k', a) \<in> set (Members s). UserName (acct (add_member k ma s) a) \<noteq> UserName ma"
    using assms by (fastforce simp: get_account_def find_None_iff service_wf_def)
  then show ?thesis
    using find_update_fresh [of "Members s" "\<lambda>a. UserName (acct (add_member k ma s) a)" "UserName ma" "as_next s" k]
    unfolding get_account_def by simp
qed

section \<open>Properties\<close>

text \<open>
  A new account gets its password hashed and only its hash kept: a request to create an account
  is accepted exactly when the length of the password is in the bounds of the service; then the
  context carries the hash, the password is gone from the request and the account is by default
  enabled and not locked. Otherwise the answer is a 400 with a message and nothing changes.
\<close>

theorem AddAccountBefore_password:
  assumes "map_of request ''Password'' = Some (GString p)" "bcryptGenerate bc p (ext s) = (Ret (Inr h), w)"
  shows "\<exists>body code err ctx' request' s'. AddAccountBefore bc event ctx request s = (Ret ((body, code, err), ctx', request'), s') \<and>
    (err = None \<longleftrightarrow> MinPasswordLength s \<le> int (length p) \<and> int (length p) \<le> MaxPasswordLength s) \<and>
    (err = None \<longrightarrow> ctx_hash ctx' = Some h \<and> s' = s\<lparr>ext := w\<rparr> \<and>
       map_of request' = (map_of [(''Locked'', GBool False), (''Enabled'', GBool True)] ++ map_of request)(''Password'' := None)) \<and>
    (err \<noteq> None \<longrightarrow> body \<noteq> None \<and> code = 400 \<and> ctx' = ctx \<and> request' = request \<and> s' = s)"
proof -
  have dflt: "map_of (with_default k v m) = [k \<mapsto> v] ++ map_of m" for k v and m :: gobj
    by (auto simp: with_default_def update_conv' map_add_def split: option.split)
  have "map_of (with_default ''Enabled'' (GBool True) (with_default ''Locked'' (GBool False) (AList.delete ''Password'' request))) =
      (map_of [(''Locked'', GBool False), (''Enabled'', GBool True)] ++ map_of request)(''Password'' := None)"
    unfolding dflt by (auto simp: delete_conv' map_add_def fun_eq_iff split: option.split)
  then show ?thesis using assms
    by (auto simp: AddAccountBefore_def take_password_def go_bind_apply on_ext_apply StatusBadRequest_def Let_def)
qed

theorem AddAccountBefore_password_witness:
  "\<exists>r ctx' request' s'. AddAccountBefore ex_bcrypt \<lparr> HTTPOperation = ''POST'', ev_URI = ''/a'', ev_Resource = None, ev_Property = None \<rparr>
      \<lparr> ctx_hash = None, ctx_Account = None, ctx_DuplicateUserName = False \<rparr> [(''Password'', GString ''hunter2'')]
      (ex_service ex_account 0) = (Ret (r, ctx', request'), s') \<and>
    ctx_hash ctx' = Some ''hunter2'' \<and> map_of request' ''Password'' = None \<and> map_of request' ''Enabled'' = Some (GBool True)"
  using AddAccountBefore_password [of "[(''Password'', GString ''hunter2'')]" "''hunter2''" ex_bcrypt "ex_service ex_account 0" "''hunter2''"
      ex_store "\<lparr> HTTPOperation = ''POST'', ev_URI = ''/a'', ev_Resource = None, ev_Property = None \<rparr>"
      "\<lparr> ctx_hash = None, ctx_Account = None, ctx_DuplicateUserName = False \<rparr>"]
  by (auto simp: ex_service_def ex_bcrypt_def)

text \<open>
  C28. A created account can log in, before and after a restart: when the user name is free, the hook
  after the creation adds the account to the service, a login with the password whose hash the
  context carries succeeds, and Redis holds the hash under the key of the new account, in the form
  from which loading the accounts decodes it.
\<close>

theorem created_account_logs_in:
  assumes "redis_server (rfd_redis rfd) view" "service_wf s"
    and "account_struct response ma" "ctx_hash ctx = Some (passwordHash ma)" "\<not> Locked ma"
    and "bcryptCompare bc (passwordHash ma) p = None"
    and "get_account s (UserName ma) = None" "map_of (Members s) (UserName ma) = None"
  shows "\<exists>s'. AddAccountAfter rfd event ctx response s = (Ret (None, 0, None), s') \<and> service_wf s' \<and>
    AuthenticateAccount rfd bc fuel (UserName ma) p s' = (Ret (Inr (as_next s)), s') \<and> acct s' (as_next s) = ma \<and>
    (\<exists>v. view (ext s') (ev_URI event @ ''/'' @ ma_Id ma @ ''/Password:hash'') = Some (RString v) \<and>
       DecodeString v = Inr (passwordHash ma))"
proof -
  let ?key = "ev_URI event @ ''/'' @ ma_Id ma @ ''/Password:hash''"
  let ?h = "passwordHash ma"
  obtain w where w: "rSet (rfd_redis rfd) ?key (EncodeToString ?h) (ext s) = (Ret (Inr ()), w)"
    "view w = (view (ext s))(?key \<mapsto> RString (EncodeToString ?h))"
    using redis_server.set_ok [OF assms(1)] by blast
  let ?s' = "(add_member (ma_Id ma) ma s)\<lparr>ext := w\<rparr>"
  have run: "AddAccountAfter rfd event ctx response s = (Ret (None, 0, None), ?s')"
    using AddAccountAfter_state [OF assms(4) account_initFromStruct_ok [OF assms(3)] assms(8), of rfd event] w(1) by simp
  have get: "get_account ?s' (UserName ma) = Some (as_next s)"
    using assms(2,7) get_account_added [of s ma] by (simp add: get_account_def)
  then have "AuthenticateAccount rfd bc fuel (UserName ma) p ?s' = (Ret (Inr (as_next s)), ?s')"
    using assms(5,6) by (simp add: AuthenticateAccount_def Authenticate_def go_bind_apply go_check_apply)
  then show ?thesis using run w(2) add_member_wf [OF assms(2)] by (auto simp: DecodeString_EncodeToString)
qed


theorem created_account_logs_in_witness:
  "\<exists>s'. AddAccountAfter ex_rfd \<lparr> HTTPOperation = ''POST'', ev_URI = ''/a'', ev_Resource = None, ev_Property = None \<rparr>
      \<lparr> ctx_hash = Some ''hunter2'', ctx_Account = None, ctx_DuplicateUserName = False \<rparr>
      [(''Id'', GString ''2''), (''UserName'', GString ''ada''), (''RoleId'', GString ''Operator''), (''Locked'', GBool False),
       (''Enabled'', GBool True)] (ex_service ex_account 0) = (Ret (None, 0, None), s') \<and>
    AuthenticateAccount ex_rfd ex_bcrypt 9 ''ada'' ''hunter2'' s' = (Ret (Inr 1), s')"
proof -
  let ?ma = "zero_account\<lparr>ma_Id := ''2'', UserName := ''ada'', ma_RoleId := ''Operator'', Enabled := True,
     passwordHash := ''hunter2''\<rparr>"
  have "redis_server (rfd_redis ex_rfd) mem_view" by (simp add: ex_rfd_def mem_redis_server)
  moreover have "service_wf (ex_service ex_account 0)" by (simp add: service_wf_def ex_service_def)
  moreover have "account_struct [(''Id'', GString ''2''), (''UserName'', GString ''ada''), (''RoleId'', GString ''Operator''),
      (''Locked'', GBool False), (''Enabled'', GBool True)] ?ma" by (simp add: account_struct_def zero_account_def)
  moreover have "\<not> Locked ?ma" by (simp add: zero_account_def)
  moreover have "get_account (ex_service ex_account 0) (UserName ?ma) = None" by (simp add: ex_service_simps)
  moreover have "map_of (Members (ex_service ex_account 0)) (UserName ?ma) = None" by (simp add: ex_service_simps)
  ultimately have "\<exists>s'. AddAccountAfter ex_rfd \<lparr> HTTPOperation = ''POST'', ev_URI = ''/a'', ev_Resource = None, ev_Property = None \<rparr>
      \<lparr> ctx_hash = Some ''hunter2'', ctx_Account = None, ctx_DuplicateUserName = False \<rparr>
      [(''Id'', GString ''2''), (''UserName'', GString ''ada''), (''RoleId'', GString ''Operator''), (''Locked'', GBool False),
       (''Enabled'', GBool True)] (ex_service ex_account 0) = (Ret (None, 0, None), s') \<and>
    AuthenticateAccount ex_rfd ex_bcrypt 9 (UserName ?ma) ''hunter2'' s' = (Ret (Inr (as_next (ex_service ex_account 0))), s')"
    using created_account_logs_in [of ex_rfd mem_view "ex_service ex_account 0" _ ?ma
        "\<lparr> ctx_hash = Some ''hunter2'', ctx_Account = None, ctx_DuplicateUserName = False \<rparr>" ex_bcrypt "''hunter2''"]
    by (force simp: ex_bcrypt_def)
  then show ?thesis by (simp add: ex_service_def)
qed

text \<open>
  User names are not unique: the hook compares the user name with the keys of the collection,
  and the accounts it adds are keyed by their Id. When no key equals the user name, the hook
  accepts a second account with the user name of a member.
\<close>

theorem duplicate_user_name_accepted:
  assumes "redis_server (rfd_redis rfd) view" "service_wf s"
    and "account_struct response ma" "ctx_hash ctx = Some (passwordHash ma)"
    and "get_account s (UserName ma) = Some a" "map_of (Members s) (UserName ma) = None"
    and "map_of (Members s) (ma_Id ma) = None"
  shows "\<exists>s'. AddAccountAfter rfd event ctx response s = (Ret (None, 0, None), s') \<and>
    a \<noteq> as_next s \<and> {a, as_next s} \<subseteq> snd ` set (Members s') \<and>
    UserName (acct s' a) = UserName ma \<and> UserName (acct s' (as_next s)) = UserName ma"
proof -
  obtain w where w: "rSet (rfd_redis rfd) (ev_URI event @ ''/'' @ ma_Id ma @ ''/Password:hash'')
      (EncodeToString (passwordHash ma)) (ext s) = (Ret (Inr ()), w)"
    using redis_server.set_ok [OF assms(1)] by blast
  let ?s' = "(add_member (ma_Id ma) ma s)\<lparr>ext := w\<rparr>"
  have run: "AddAccountAfter rfd event ctx response s = (Ret (None, 0, None), ?s')"
    using AddAccountAfter_state [OF assms(4) account_initFromStruct_ok [OF assms(3)] assms(6), of rfd event] w(1) by simp
  obtain k where k: "(k, a) \<in> set (Members s)" "UserName (acct s a) = UserName ma"
    using assms(5) by (auto simp: get_account_def find_Some_iff) (metis nth_mem)
  have new: "AList.update (ma_Id ma) (as_next s) (Members s) = Members s @ [(ma_Id ma, as_next s)]"
    using assms(7) by (rule update_absent)
  have "a \<noteq> as_next s" using assms(2) k(1) by (force simp: service_wf_def)
  then show ?thesis using run k new by (intro exI [of _ ?s']) force
qed

text \<open>
  A changed password is lost at a restart: after an update with a new password the account in
  memory has the new hash, but the key from which the hash is read at start-up, the URI of the
  account followed by \<open>/Password:hash\<close>, is not written; the hook appends the Id of the account to
  its own URI once more.
\<close>

theorem password_update_not_stored:
  assumes "redis_server (rfd_redis rfd) view" "ctx_hash ctx = Some h"
    and "UpdateAfter rfd a event ctx response s = (Ret (None, 0, None), s')"
  shows "passwordHash (acct s' a) = h \<and>
    rGet (rfd_redis rfd) (ev_URI event @ ''/Password:hash'') (ext s') =
      (Ret (get_result (view (ext s) (ev_URI event @ ''/Password:hash''))), ext s')"
proof -
  have ext: "ext s1 = ext s" if "map2struct_account m a s = (r, s1)" for m r s1 and s :: "'a AccountService"
    using that
    by (induction m a arbitrary: s rule: map2struct_account.induct)
      (auto simp: go_bind_apply split: outcome.splits sum.splits)
  obtain s1 where s1: "map2struct_account response a s = (Ret None, s1)"
    using assms(3) by (auto simp: UpdateAfter_def go_bind_apply split: prod.splits outcome.splits option.splits)
  let ?key = "ev_URI event @ ''/'' @ ma_Id (acct s1 a) @ ''/Password:hash''"
  obtain w where w: "rSet (rfd_redis rfd) ?key (EncodeToString h) (ext s) = (Ret (Inr ()), w)"
    "view w = (view (ext s))(?key \<mapsto> RString (EncodeToString h))"
    using redis_server.set_ok [OF assms(1)] by blast
  have "s' = (set_acct a ((acct s1 a)\<lparr>passwordHash := h\<rparr>) s1)\<lparr>ext := w\<rparr>"
    using assms(2,3) s1 w ext [OF s1] by (auto simp: UpdateAfter_def go_bind_apply on_ext_apply)
  moreover have "view w (ev_URI event @ ''/Password:hash'') = view (ext s) (ev_URI event @ ''/Password:hash'')"
    using w(2) by (auto dest: arg_cong [where f = length])
  ultimately show ?thesis using redis_server.get_law [OF assms(1)] by simp
qed


theorem duplicate_user_name_accepted_witness:
  "\<exists>s'. AddAccountAfter ex_rfd \<lparr> HTTPOperation = ''POST'', ev_URI = ''/a'', ev_Resource = None, ev_Property = None \<rparr>
      \<lparr> ctx_hash = Some ''hunter2'', ctx_Account = None, ctx_DuplicateUserName = False \<rparr>
      [(''Id'', GString ''2''), (''UserName'', GString ''root''), (''RoleId'', GString ''Operator''), (''Locked'', GBool False),
       (''Enabled'', GBool True)] ((ex_service ex_account 0)\<lparr>Members := [(''1'', 0)]\<rparr>) = (Ret (None, 0, None), s') \<and>
    UserName (acct s' 0) = ''root'' \<and> UserName (acct s' 1) = ''root''"
proof -
  let ?ma = "zero_account\<lparr>ma_Id := ''2'', UserName := ''root'', ma_RoleId := ''Operator'', Enabled := True,
     passwordHash := ''hunter2''\<rparr>"
  let ?s = "(ex_service ex_account 0)\<lparr>Members := [(''1'', 0)]\<rparr>"
  have "redis_server (rfd_redis ex_rfd) mem_view" by (simp add: ex_rfd_def mem_redis_server)
  moreover have "service_wf ?s" by (simp add: service_wf_def ex_service_def)
  moreover have "account_struct [(''Id'', GString ''2''), (''UserName'', GString ''root''), (''RoleId'', GString ''Operator''),
      (''Locked'', GBool False), (''Enabled'', GBool True)] ?ma" by (simp add: account_struct_def zero_account_def)
  moreover have "get_account ?s (UserName ?ma) = Some 0" by (simp add: ex_service_simps)
  moreover have "map_of (Members ?s) (UserName ?ma) = None" "map_of (Members ?s) (ma_Id ?ma) = None"
    by (simp_all add: ex_service_simps)
  ultimately show ?thesis
    using duplicate_user_name_accepted [of ex_rfd mem_view ?s _ ?ma
        "\<lparr> ctx_hash = Some ''hunter2'', ctx_Account = None, ctx_DuplicateUserName = False \<rparr>" 0
        "\<lparr> HTTPOperation = ''POST'', ev_URI = ''/a'', ev_Resource = None, ev_Property = None \<rparr>"]
    by (force simp: ex_service_def)
qed

theorem password_update_not_stored_witness:
  "\<exists>s'. UpdateAfter ex_rfd 0 \<lparr> HTTPOperation = ''PATCH'', ev_URI = ''/a/1'', ev_Resource = None, ev_Property = None \<rparr>
      \<lparr> ctx_hash = Some ''new'', ctx_Account = Some 0, ctx_DuplicateUserName = False \<rparr> [(''Enabled'', GBool True)]
      (ex_service ex_account 0) = (Ret (None, 0, None), s') \<and>
    passwordHash (acct s' 0) = ''new'' \<and> rGet mem_redis ''/a/1/Password:hash'' (ext s') = (Ret (Inl RedisNil), ext s')"
proof -
  let ?ev = "\<lparr> HTTPOperation = ''PATCH'', ev_URI = ''/a/1'', ev_Resource = None, ev_Property = None \<rparr>"
  let ?ctx = "\<lparr> ctx_hash = Some ''new'', ctx_Account = Some 0, ctx_DuplicateUserName = False \<rparr>"
  let ?s = "ex_service ex_account 0"
  obtain s' where s': "UpdateAfter ex_rfd 0 ?ev ?ctx [(''Enabled'', GBool True)] ?s = (Ret (None, 0, None), s')"
    by (simp add: UpdateAfter_def go_bind_apply on_ext_apply account_set_field_def account_fields_def ex_rfd_def mem_redis_def)
  moreover have "redis_server (rfd_redis ex_rfd) mem_view" by (simp add: ex_rfd_def mem_redis_server)
  moreover have "mem_view (ext ?s) ''/a/1/Password:hash'' = None"
    by (simp add: ex_service_def ex_store_def mem_view_def mem_get_def)
  ultimately show ?thesis
    using password_update_not_stored [of ex_rfd mem_view ?ctx "''new''" 0 ?ev "[(''Enabled'', GBool True)]" ?s s']
    by (auto simp: ex_rfd_def)
qed

text \<open>
  C33. What an account may do: an operation is allowed exactly when the account is enabled, is not
  locked and its role has the privileges, and the check changes nothing. An enabled account whose
  role is missing makes the check panic.
\<close>

theorem OperationAllowed_correct:
  "(OperationAllowed a privileges s = (Ret True, s') \<longleftrightarrow>
     s' = s \<and> Enabled (acct s a) \<and> \<not> Locked (acct s a) \<and>
     (\<exists>role. map_of (Roles s) (ma_RoleId (acct s a)) = Some role \<and>
        (\<exists>op \<in> set privileges. set (Privilege op) \<subseteq> set (AssignedPrivileges role)))) \<and>
   (fst (OperationAllowed a privileges s) = Panic ''Role does not exist'' \<longleftrightarrow>
     Enabled (acct s a) \<and> \<not> Locked (acct s a) \<and> map_of (Roles s) (ma_RoleId (acct s a)) = None)"
  by (auto simp: OperationAllowed_def GetRole_def HasPrivilege_ex go_bind_apply split: option.splits)

text \<open>
  The form of the collection that the creation of an account starts from is kept by every operation that changes
  the collection or an account.
\<close>

lemma account_operations_keep_wf:
  assumes "service_wf s"
  shows "service_wf (snd (AddAccountAfter rfd event ctx response s)) \<and>
    service_wf (snd (UpdateAccountAfter rfd event ctx response s)) \<and>
    service_wf (snd (RemoveAccount rfd event response s)) \<and>
    service_wf (snd (AuthenticateAccount rfd bc fuel u p s)) \<and>
    service_wf (snd (updatePeriodic rfd fuel s)) \<and>
    service_wf (snd (updateAccountsPeriodic rfd s))"
  using AddAccountAfter_wf [OF assms] UpdateAfter_wf [OF assms] RemoveAccount_wf [OF assms] login_wf [OF assms]
    tick_wf [OF assms] refresh_wf [OF assms] by (simp add: UpdateAccountAfter_def conv_panic_def assms split: option.split)

end
