(* ===== verification/Rf_Validator.thy ===== *)
theory Rf_Validator
  imports Redis_Struct_Read
begin

text \<open>
  The validation of request bodies against the schema, \<open>cmd/rfdispatcher/rfvalidator.go\<close>: the
  reports, the check of a resource and of each kind of property. The methods that write a report
  to the log are left out. Whether the time and URL packages accept a text, and regular expressions, are
  parameters; compiling a bad expression panics.
\<close>

section \<open>Reports\<close>

type_synonym name_flags = "(string \<times> bool) list"

record report_flags =
  Missing :: name_flags
  Added :: name_flags
  InvalidNames :: name_flags
  MissingRequired :: name_flags
  MissingRequiredOnCreate :: name_flags
  InvalidEnum :: name_flags
  InvalidString :: name_flags
  InvalidNumber :: name_flags
  InvalidInteger :: name_flags
  InvalidBool :: name_flags
  InvalidLink :: name_flags
  InvalidObject :: name_flags
  InvalidArray :: name_flags

datatype ObjectReport =
  ObjectReport (or_flags: report_flags) (or_Properties: "(string \<times> ObjectReport) list") (or_Arrays: "(string \<times> ArrayReport) list")
and ArrayReport =
  ArrayReport (InvalidElements: "(nat \<times> bool) list") (ar_Properties: "(nat \<times> ObjectReport) list")

definition no_flags :: report_flags where
  "no_flags = \<lparr> Missing = [], Added = [], InvalidNames = [], MissingRequired = [], MissingRequiredOnCreate = [],
     InvalidEnum = [], InvalidString = [], InvalidNumber = [], InvalidInteger = [], InvalidBool = [], InvalidLink = [],
     InvalidObject = [], InvalidArray = [] \<rparr>"

definition NewObjectReport :: ObjectReport where
  "NewObjectReport = ObjectReport no_flags [] []"

definition NewArrayReport :: ArrayReport where
  "NewArrayReport = ArrayReport [] []"

definition getMissingRequired :: "ObjectReport \<Rightarrow> string list" where
  "getMissingRequired r = sort_Strings (map fst (filter snd (MissingRequired (or_flags r))))"

definition getMissingRequiredOnCreate :: "ObjectReport \<Rightarrow> string list" where
  "getMissingRequiredOnCreate r = sort_Strings (map fst (MissingRequiredOnCreate (or_flags r)))"

definition flag :: "((name_flags \<Rightarrow> name_flags) \<Rightarrow> report_flags \<Rightarrow> report_flags) \<Rightarrow> string \<Rightarrow> bool \<Rightarrow> ObjectReport \<Rightarrow> ObjectReport" where
  "flag upd name b r = ObjectReport (upd (AList.update name b) (or_flags r)) (or_Properties r) (or_Arrays r)"

definition put_object :: "string \<Rightarrow> ObjectReport \<Rightarrow> ObjectReport \<Rightarrow> ObjectReport" where
  "put_object name sub r = ObjectReport (or_flags r) (AList.update name sub (or_Properties r)) (or_Arrays r)"

definition put_array :: "string \<Rightarrow> ArrayReport \<Rightarrow> ObjectReport \<Rightarrow> ObjectReport" where
  "put_array name sub r = ObjectReport (or_flags r) (or_Properties r) (AList.update name sub (or_Arrays r))"

definition put_elem :: "nat \<Rightarrow> bool \<Rightarrow> ArrayReport \<Rightarrow> ArrayReport" where
  "put_elem i b ar = ArrayReport (AList.update i b (InvalidElements ar)) (ar_Properties ar)"

definition put_elem_object :: "nat \<Rightarrow> ObjectReport \<Rightarrow> ArrayReport \<Rightarrow> ArrayReport" where
  "put_elem_object i sub ar = ArrayReport (InvalidElements ar) (AList.update i sub (ar_Properties ar))"

section \<open>Simple values\<close>

record validators =
  timeParse_RFC3339 :: "string \<Rightarrow> bool"
  ParseRequestURI :: "string \<Rightarrow> bool"
  Compile :: "string \<Rightarrow> (string \<Rightarrow> bool) option"

definition Validate :: "validators \<Rightarrow> StringFormat \<Rightarrow> string \<Rightarrow> bool" where
  "Validate vd sf str = (case sf of
      FormatDate \<Rightarrow> timeParse_RFC3339 vd str
    | FormatURI \<Rightarrow> ParseRequestURI vd str
    | FormatUnknown \<Rightarrow> False)"

definition MatchString :: "validators \<Rightarrow> string \<Rightarrow> string \<Rightarrow> ('w, bool) go" where
  "MatchString vd pattern s = (case Compile vd pattern of
      None \<Rightarrow> go_panic (''regexp: Compile('' @ pattern @ '')'')
    | Some m \<Rightarrow> go_return (m s))"

definition checkEnum :: "gval \<Rightarrow> property \<Rightarrow> bool" where
  "checkEnum raw p = (case raw of
      GString v \<Rightarrow> list_ex (\<lambda>enum. v = em_Name enum) (p_EnumMembers (p_info p))
    | _ \<Rightarrow> False)"

definition checkString :: "validators \<Rightarrow> gval \<Rightarrow> property \<Rightarrow> ('w, bool) go" where
  "checkString vd raw p =
     (let i = p_info p in
      case raw of
        GString v \<Rightarrow>
          if (case p_StringFormat i of None \<Rightarrow> False | Some f \<Rightarrow> f \<noteq> FormatUnknown \<and> \<not> Validate vd f v) then go_return False
          else if (case p_StringMinLength i of None \<Rightarrow> False | Some n \<Rightarrow> int (length v) < n) then go_return False
          else if (case p_StringMaxLength i of None \<Rightarrow> False | Some n \<Rightarrow> n < int (length v)) then go_return False
          else (case p_StringPattern i of None \<Rightarrow> go_return True | Some pat \<Rightarrow> MatchString vd pat v)
      | _ \<Rightarrow> go_return False)"

definition checkNumber :: "gval \<Rightarrow> property \<Rightarrow> bool" where
  "checkNumber raw p =
     (let i = p_info p in
      case raw of
        GFloat v \<Rightarrow>
          if (case p_NumberMinimum i of None \<Rightarrow> False | Some n \<Rightarrow> f64_lt v n) then False
          else if (case p_NumberMaximum i of None \<Rightarrow> False | Some n \<Rightarrow> f64_lt n v) then False
          else True
      | _ \<Rightarrow> False)"

fun checkBool :: "gval \<Rightarrow> property \<Rightarrow> bool" where
  "checkBool (GBool b) p = True"
| "checkBool _ p = False"

definition checkLink :: "validators \<Rightarrow> gval \<Rightarrow> property \<Rightarrow> bool" where
  "checkLink vd raw p = (case raw of
      GObj payloadLink \<Rightarrow>
        if length payloadLink \<noteq> 1 then False
        else (case map_of payloadLink ''@odata.id'' of
            Some (GString link) \<Rightarrow> Validate vd FormatURI link
          | _ \<Rightarrow> False)
    | _ \<Rightarrow> False)"

section \<open>Objects, arrays and resources\<close>

text \<open>
  The loop over the names of the payload. A name that is not a property is recorded as invalid at
  the first pattern that does not match it.
\<close>

fun invalid_name :: "validators \<Rightarrow> string \<Rightarrow> PatternProperties list \<Rightarrow> ('w, bool) go" where
  "invalid_name vd name [] = go_return False"
| "invalid_name vd name (pattern # ps) =
     go_bind (MatchString vd (pp_Pattern pattern) name) (\<lambda>m. if \<not> m then go_return True else invalid_name vd name ps)"

fun added_names :: "validators \<Rightarrow> properties \<Rightarrow> bool \<Rightarrow> PatternProperties list \<Rightarrow> gobj \<Rightarrow> ObjectReport \<Rightarrow> ('w, ObjectReport) go" where
  "added_names vd properties additional patterns [] op = go_return op"
| "added_names vd properties additional patterns ((name, v) # payload) op =
     go_bind
       (if map_of properties name \<noteq> None then go_return op
        else if additional then go_return (flag Added_update name True op)
        else go_bind (invalid_name vd name patterns) (\<lambda>bad.
          go_return (if bad then flag InvalidNames_update name True (flag Added_update name True op)
                     else flag Added_update name True op)))
       (added_names vd properties additional patterns payload)"

definition auto_expanded :: "property \<Rightarrow> bool" where
  "auto_expanded p \<longleftrightarrow> p_IsNavLink (p_info p) \<and> p_LinkAutoExpand (p_info p)"

lemma elem_props_size: "p_ArrayOf p = Some e \<Longrightarrow> Suc (2 * props_size (p_Properties e)) < 2 * size p"
  using size_ArrayOf [of p e] props_size_property [of e] by simp

lemma elem_link_size:
  "p_ArrayOf p = Some e \<Longrightarrow> p_Link e = Some r \<Longrightarrow> Suc (2 * props_size (r_Properties r)) < 2 * size p"
  using size_ArrayOf [of p e] size_Link [of e r] props_size_resource [of r] by simp

definition check_measure1 where
  "check_measure1 =
     case_sum (case_sum (\<lambda>(vd :: validators, pl :: gobj, ps, ap :: bool, pp :: PatternProperties list). 2 * props_size ps + 1)
                        (\<lambda>(vd :: validators, pl :: gobj, ps, op :: ObjectReport). 2 * props_size ps))
              (case_sum (\<lambda>(vd :: validators, n :: string, p :: property, raw :: gval, op :: ObjectReport). 2 * size p + 1)
                        (\<lambda>(vd :: validators, p :: property, i :: nat, es :: gval list, ar :: ArrayReport). 2 * size p))"

definition check_measure2 where
  "check_measure2 =
     case_sum (case_sum (\<lambda>(vd :: validators, pl :: gobj, ps :: properties, ap :: bool, pp :: PatternProperties list). 0)
                        (\<lambda>(vd :: validators, pl :: gobj, ps :: properties, op :: ObjectReport). 0))
              (case_sum (\<lambda>(vd :: validators, n :: string, p :: property, raw :: gval, op :: ObjectReport). 0)
                        (\<lambda>(vd :: validators, p :: property, i :: nat, es :: gval list, ar :: ArrayReport). length es))"

text \<open>
  \<open>check_props\<close> is the loop over the properties of the schema in \<open>checkProperties\<close>, \<open>check_field\<close> its
  body with \<open>checkObject\<close> inlined; \<open>checkArray\<close> carries the index of the element and the report.
\<close>

function (sequential) checkProperties :: "validators \<Rightarrow> gobj \<Rightarrow> properties \<Rightarrow> bool \<Rightarrow> PatternProperties list \<Rightarrow> ('w, ObjectReport) go"
and check_props :: "validators \<Rightarrow> gobj \<Rightarrow> properties \<Rightarrow> ObjectReport \<Rightarrow> ('w, ObjectReport) go"
and check_field :: "validators \<Rightarrow> string \<Rightarrow> property \<Rightarrow> gval \<Rightarrow> ObjectReport \<Rightarrow> ('w, ObjectReport) go"
and checkArray :: "validators \<Rightarrow> property \<Rightarrow> nat \<Rightarrow> gval list \<Rightarrow> ArrayReport \<Rightarrow> ('w, ArrayReport) go"
where
  "checkProperties vd payload properties additional patterns =
     go_bind (added_names vd properties additional patterns payload NewObjectReport) (check_props vd payload properties)"
| "check_props vd payload [] op = go_return op"
| "check_props vd payload ((name, property) # ps) op =
     go_bind (case map_of payload name of
         None \<Rightarrow> go_return (flag Missing_update name True op)
       | Some payloadRaw \<Rightarrow> check_field vd name property payloadRaw op) (check_props vd payload ps)"
| "check_field vd name property payloadRaw op =
     (case pType property of
        PropObject \<Rightarrow> (case payloadRaw of
            GObj payloadProperty \<Rightarrow>
              go_bind (checkProperties vd payloadProperty (p_Properties property)
                  (case p_AdditionalProperties (p_info property) of None \<Rightarrow> False | Some b \<Rightarrow> b)
                  (p_PatternProperties (p_info property)))
                (\<lambda>sub. go_return (put_object name sub op))
          | _ \<Rightarrow> go_return (flag InvalidObject_update name True op))
      | PropAction \<Rightarrow> go_return op
      | PropEnum \<Rightarrow> go_return (flag InvalidEnum_update name (\<not> checkEnum payloadRaw property) op)
      | PropString \<Rightarrow> go_bind (checkString vd payloadRaw property) (\<lambda>ok. go_return (flag InvalidString_update name (\<not> ok) op))
      | PropInteger \<Rightarrow> go_return (flag InvalidNumber_update name (\<not> checkNumber payloadRaw property) op)
      | PropNumber \<Rightarrow> go_return (flag InvalidNumber_update name (\<not> checkNumber payloadRaw property) op)
      | PropBool \<Rightarrow> go_return (flag InvalidBool_update name (\<not> checkBool payloadRaw property) op)
      | PropArray \<Rightarrow> (case payloadRaw of
            GArr payloadArray \<Rightarrow>
              go_bind (checkArray vd property 0 payloadArray NewArrayReport) (\<lambda>sub. go_return (put_array name sub op))
          | _ \<Rightarrow> go_return (flag InvalidArray_update name True op))
      | PropLink \<Rightarrow>
          if auto_expanded property then (case payloadRaw of
              GArr payloadArray \<Rightarrow>
                go_bind (checkArray vd property 0 payloadArray NewArrayReport) (\<lambda>sub. go_return (put_array name sub op))
            | _ \<Rightarrow> go_return (flag InvalidArray_update name True op))
          else go_return (flag InvalidLink_update name (\<not> checkLink vd payloadRaw property) op)
      | _ \<Rightarrow> go_panic (''Cannot handle type:'' @ PropertyType_String (pType property)))"
| "checkArray vd arrayProperty i [] ar = go_return ar"
| "checkArray vd arrayProperty i (raw # es) ar =
     (case p_ArrayOf arrayProperty of
        None \<Rightarrow> go_panic ''nil pointer dereference''
      | Some elementProperty \<Rightarrow>
          go_bind
            (case pType elementProperty of
               PropObject \<Rightarrow> (case raw of
                   GObj payloadElement \<Rightarrow>
                     go_bind (checkProperties vd payloadElement (p_Properties elementProperty)
                         (case p_AdditionalProperties (p_info elementProperty) of None \<Rightarrow> False | Some b \<Rightarrow> b)
                         (p_PatternProperties (p_info elementProperty)))
                       (\<lambda>sub. go_return (put_elem_object i sub ar))
                 | _ \<Rightarrow> go_return (put_elem i True ar))
             | PropAction \<Rightarrow> go_return ar
             | PropEnum \<Rightarrow> go_return (put_elem i (\<not> checkEnum raw elementProperty) ar)
             | PropString \<Rightarrow> go_bind (checkString vd raw elementProperty) (\<lambda>ok. go_return (put_elem i (\<not> ok) ar))
             | PropNumber \<Rightarrow> go_return (put_elem i (\<not> checkNumber raw elementProperty) ar)
             | PropBool \<Rightarrow> go_return (put_elem i (\<not> checkBool raw elementProperty) ar)
             | PropArray \<Rightarrow> go_panic ''Nested arrays are not supported''
             | PropLink \<Rightarrow>
                 if auto_expanded elementProperty then
                   (case raw of
                      GObj elementProperties \<Rightarrow>
                        (case p_Link elementProperty of
                           None \<Rightarrow> go_panic ''nil pointer dereference''
                         | Some collection \<Rightarrow>
                             go_bind (checkProperties vd elementProperties (r_Properties collection)
                                 (r_AdditionalProperties (r_info collection)) (r_PatternProperties (r_info collection)))
                               (\<lambda>sub. go_return (put_elem_object i sub ar)))
                    | _ \<Rightarrow> go_panic ''interface conversion: interface {} is not map[string]interface {}'')
                 else go_return (put_elem i (\<not> checkLink vd raw elementProperty) ar)
             | _ \<Rightarrow> go_panic (''Cannot handle type:'' @ PropertyType_String (pType elementProperty)))
            (checkArray vd arrayProperty (Suc i) es))"
  by pat_completeness auto
termination
proof (relation "measures [check_measure1, check_measure2]", goal_cases)
  case 1
  show ?case by simp
next
  case (3 vd payload name property ps op raw)
  then show ?case by (simp add: check_measure1_def props_size_def)
next
  case (4 vd payload name property ps op x)
  then show ?case by (simp add: check_measure1_def props_size_def)
qed (simp_all add: check_measure1_def check_measure2_def props_size_property elem_props_size elem_link_size)

text \<open>
  \<open>checkResource\<close>: the checks of the properties, then the required properties that the object lacks.
\<close>

definition checkResource :: "validators \<Rightarrow> resource \<Rightarrow> gobj \<Rightarrow> ('w, ObjectReport) go" where
  "checkResource vd r obj =
     go_bind (checkProperties vd obj (r_Properties r) (r_AdditionalProperties (r_info r)) (r_PatternProperties (r_info r))) (\<lambda>report.
       let report1 = fold (\<lambda>name op. if map_of obj name = None then flag MissingRequired_update name True op else op)
                       (r_RequiredProperties (r_info r)) report;
           report2 = fold (\<lambda>name op. if map_of obj name = None then flag MissingRequiredOnCreate_update name True op else op)
                       (r_RequiredOnCreate (r_info r)) report1
       in go_return report2)"


declare checkProperties.simps [simp del] check_props.simps [simp del] check_field.simps [simp del] checkArray.simps [simp del]

section \<open>Lemmas\<close>

text \<open>Validation reads nothing and writes nothing, and only \<open>checkResource\<close> looks at required properties.\<close>

definition required_flags :: "ObjectReport \<Rightarrow> name_flags \<times> name_flags" where
  "required_flags r = (MissingRequired (or_flags r), MissingRequiredOnCreate (or_flags r))"

definition checks :: "('w, 'a) go \<Rightarrow> ('a \<Rightarrow> bool) \<Rightarrow> bool" where
  "checks m P \<longleftrightarrow> (\<forall>w. snd (m w) = w \<and> (\<forall>r. fst (m w) = Ret r \<longrightarrow> P r))"

lemma checks_return [simp]: "checks (go_return r) P = P r"
  by (simp add: checks_def)

lemma checks_Pair [simp]: "checks (Pair (Ret r)) P = P r" "checks (Pair (Panic s)) P"
  by (simp_all add: checks_def)

lemma checks_panic [simp]: "checks (go_panic s) P"
  by (simp add: checks_def)

lemma checksD: "checks m P \<Longrightarrow> m w = (Ret r, w') \<Longrightarrow> P r"
  unfolding checks_def by (metis fst_conv)

lemma checks_state: "checks m P \<Longrightarrow> \<exists>r. m w = (r, w)"
  unfolding checks_def by (metis prod.collapse)

lemma checks_bind: "checks m Q \<Longrightarrow> (\<And>r. Q r \<Longrightarrow> checks (f r) P) \<Longrightarrow> checks (go_bind m f) P"
proof -
  assume m: "checks m Q" and f: "\<And>r. Q r \<Longrightarrow> checks (f r) P"
  have "snd (go_bind m f w) = w \<and> (\<forall>r. fst (go_bind m f w) = Ret r \<longrightarrow> P r)" for w
  proof -
    obtain r where r: "m w = (r, w)" using checks_state [OF m, of w] by (rule exE)
    show ?thesis
    proof (cases r)
      case (Ret a)
      then have "Q a" using checksD [OF m] r by simp
      then show ?thesis using f r Ret by (simp add: go_bind_apply checks_def)
    qed (use r in \<open>simp_all add: go_bind_apply\<close>)
  qed
  then show ?thesis by (simp add: checks_def)
qed

lemma checks_bind_any: "checks m Q \<Longrightarrow> (\<And>r. checks (f r) P) \<Longrightarrow> checks (go_bind m f) P"
  by (rule checks_bind) auto

lemma checks_mono: "checks m P \<Longrightarrow> (\<And>r. P r \<Longrightarrow> Q r) \<Longrightarrow> checks m Q"
  by (auto simp: checks_def)

lemma checks_eq: "checks m (\<lambda>r. f r = c) \<Longrightarrow> c = d \<Longrightarrow> checks m (\<lambda>r. f r = d)"
  by simp

lemma checks_MatchString [simp]: "checks (MatchString vd pat s) (\<lambda>_. True)"
  by (simp add: MatchString_def split: option.split)

lemma checks_checkString: "checks (checkString vd raw p) (\<lambda>_. True)"
  by (simp add: checkString_def Let_def split: gval.split option.split)

lemma checks_invalid_name: "checks (invalid_name vd name ps) (\<lambda>_. True)"
proof (induction ps)
  case (Cons pat ps)
  then show ?case unfolding invalid_name.simps by (intro checks_bind [OF checks_MatchString]) simp
qed simp

lemma required_flags_simps [simp]:
  "required_flags (flag Missing_update n b r) = required_flags r"
  "required_flags (flag Added_update n b r) = required_flags r"
  "required_flags (flag InvalidNames_update n b r) = required_flags r"
  "required_flags (flag InvalidEnum_update n b r) = required_flags r"
  "required_flags (flag InvalidString_update n b r) = required_flags r"
  "required_flags (flag InvalidNumber_update n b r) = required_flags r"
  "required_flags (flag InvalidBool_update n b r) = required_flags r"
  "required_flags (flag InvalidLink_update n b r) = required_flags r"
  "required_flags (flag InvalidObject_update n b r) = required_flags r"
  "required_flags (flag InvalidArray_update n b r) = required_flags r"
  "required_flags (put_object n sub r) = required_flags r"
  "required_flags (put_array n sa r) = required_flags r"
  by (simp_all add: required_flags_def flag_def put_object_def put_array_def)

lemma checks_added_names:
  "checks (added_names vd ps a pats payload op) (\<lambda>r. required_flags r = required_flags op)"
proof (induction payload arbitrary: op)
  case (Cons nv payload)
  obtain name v where nv: "nv = (name, v)" by fastforce
  show ?case unfolding nv added_names.simps
  proof (rule checks_bind)
    show "checks (if map_of ps name \<noteq> None then go_return op
        else if a then go_return (flag Added_update name True op)
        else go_bind (invalid_name vd name pats) (\<lambda>bad.
          go_return (if bad then flag InvalidNames_update name True (flag Added_update name True op)
                     else flag Added_update name True op))) (\<lambda>r. required_flags r = required_flags op)"
      by (auto intro: checks_bind [OF checks_invalid_name])
  qed (simp add: Cons.IH [THEN checks_eq])
qed simp

lemma check_pure:
  fixes vd :: validators
  shows "checks (checkProperties vd payload ps a pats :: ('w, ObjectReport) go) (\<lambda>r. required_flags r = ([], []))"
    and "checks (check_props vd payload ps op :: ('w, ObjectReport) go) (\<lambda>r. required_flags r = required_flags op)"
    and "checks (check_field vd name p raw op :: ('w, ObjectReport) go) (\<lambda>r. required_flags r = required_flags op)"
    and "checks (checkArray vd p i es ar :: ('w, ArrayReport) go) (\<lambda>_. True)"
proof (induction vd payload ps a pats and vd payload ps op and vd name p raw op and vd p i es ar
    rule: checkProperties_check_props_check_field_checkArray.induct)
  case (1 vd payload properties additional patterns)
  have new: "required_flags NewObjectReport = ([], [])"
    by (simp add: required_flags_def NewObjectReport_def no_flags_def)
  show ?case unfolding checkProperties.simps
    by (rule checks_bind [OF checks_added_names]) (simp add: new 1 [THEN checks_eq])
next
  case (3 vd payload name property ps op)
  have "checks (case map_of payload name of None \<Rightarrow> go_return (flag Missing_update name True op)
      | Some raw \<Rightarrow> (check_field vd name property raw op :: ('w, ObjectReport) go)) (\<lambda>r. required_flags r = required_flags op)"
    using 3(1) by (simp split: option.split)
  then show ?case unfolding check_props.simps
    by (rule checks_bind) (rule checks_eq [OF 3(2)], assumption)
next
  case (4 vd name property raw op)
  then show ?case
    by (auto simp: check_field.simps split: PropertyType.split gval.split
        intro: checks_bind_any checks_checkString)
next
  case (6 vd p i raw es ar)
  show ?case
  proof (cases "p_ArrayOf p")
    case (Some e)
    show ?thesis unfolding checkArray.simps Some option.case
    proof (rule checks_bind [where Q = "\<lambda>_. True"], goal_cases)
      case 1
      show ?case
        by (cases "pType e"; cases raw; cases "p_Link e")
          (auto intro: checks_bind_any checks_checkString 6(1) [OF Some] 6(2) [OF Some])
    qed (rule 6(3) [OF Some])
  qed (simp add: checkArray.simps)
qed (simp_all add: check_props.simps checkArray.simps)

lemma fold_required:
  "MissingRequired (or_flags (fold (\<lambda>name op. if P name then flag MissingRequired_update name True op else op) ns r)) =
     fold (\<lambda>name fs. if P name then AList.update name True fs else fs) ns (MissingRequired (or_flags r))"
  "MissingRequiredOnCreate (or_flags (fold (\<lambda>name op. if P name then flag MissingRequired_update name True op else op) ns r)) =
     MissingRequiredOnCreate (or_flags r)"
  by (induction ns arbitrary: r) (simp_all add: flag_def)

lemma fold_on_create:
  "MissingRequiredOnCreate (or_flags (fold (\<lambda>name op. if P name then flag MissingRequiredOnCreate_update name True op else op) ns r)) =
     fold (\<lambda>name fs. if P name then AList.update name True fs else fs) ns (MissingRequiredOnCreate (or_flags r))"
  "MissingRequired (or_flags (fold (\<lambda>name op. if P name then flag MissingRequiredOnCreate_update name True op else op) ns r)) =
     MissingRequired (or_flags r)"
  by (induction ns arbitrary: r) (simp_all add: flag_def)

lemma set_flags:
  "set (fold (\<lambda>name fs. if P name then AList.update name True fs else fs) ns fs0) = {(n, True) |n. n \<in> set ns \<and> P n} \<union> set fs0"
  if "\<forall>(n, b) \<in> set fs0. b"
  using that
proof (induction ns arbitrary: fs0)
  case (Cons n ns)
  have upd: "set (AList.update n True fs0) = insert (n, True) (set fs0)"
    using Cons.prems by (induction fs0) auto
  show ?case using Cons.IH [of "AList.update n True fs0"] Cons.IH [of fs0] Cons.prems upd by auto
qed simp

section \<open>Properties\<close>

text \<open>
  C35. The check of required properties: validating a body has no effect, and when it returns a report the
  names listed as missing are exactly the required properties, and those required on creation, that the body lacks.
\<close>

theorem checkResource_required:
  assumes "checkResource vd r obj w = (Ret report, w')"
  shows "w' = w \<and>
    set (MissingRequired (or_flags report)) = {(n, True) |n. n \<in> set (r_RequiredProperties (r_info r)) \<and> map_of obj n = None} \<and>
    set (MissingRequiredOnCreate (or_flags report)) = {(n, True) |n. n \<in> set (r_RequiredOnCreate (r_info r)) \<and> map_of obj n = None}"
proof -
  let ?c = "checkProperties vd obj (r_Properties r) (r_AdditionalProperties (r_info r)) (r_PatternProperties (r_info r))"
  have pure: "checks ?c (\<lambda>r. required_flags r = ([], []))" by (rule check_pure(1))
  obtain c where c: "?c w = (c, w)" using checks_state [OF pure, of w] by (rule exE)
  obtain rep where rep: "c = Ret rep" using assms c by (cases c) (simp_all add: checkResource_def go_bind_apply Let_def del: fold_simps)
  have "required_flags rep = ([], [])" using checksD [OF pure, of w rep] c rep by simp
  then have none: "MissingRequired (or_flags rep) = []" "MissingRequiredOnCreate (or_flags rep) = []"
    by (simp_all add: required_flags_def)
  let ?lack = "\<lambda>name. map_of obj name = None"
  let ?rep1 = "fold (\<lambda>name op. if ?lack name then flag MissingRequired_update name True op else op)
    (r_RequiredProperties (r_info r)) rep"
  have "report = fold (\<lambda>name op. if ?lack name then flag MissingRequiredOnCreate_update name True op else op)
      (r_RequiredOnCreate (r_info r)) ?rep1" "w' = w"
    using assms unfolding checkResource_def Let_def go_bind_Ret [of ?c, OF c [unfolded rep]] by simp_all
  moreover have "set (fold (\<lambda>name fs. if ?lack name then AList.update name True fs else fs) ns []) = {(n, True) |n. n \<in> set ns \<and> ?lack n}" for ns
    using set_flags [of "[]" ?lack ns] by simp
  ultimately show ?thesis
    by (simp only: fold_required [where P = ?lack] fold_on_create [where P = ?lack] none)
qed

theorem checkResource_required_witness:
  "\<exists>report. checkResource \<lparr> timeParse_RFC3339 = (\<lambda>_. True), ParseRequestURI = (\<lambda>_. True), Compile = (\<lambda>_. None) \<rparr>
      (Resource (res_zero\<lparr>r_RequiredProperties := [''Id'', ''Name'']\<rparr>) None []) [(''Id'', GString ''1'')] () = (Ret report, ()) \<and>
    (''Name'', True) \<in> set (MissingRequired (or_flags report)) \<and> (''Id'', True) \<notin> set (MissingRequired (or_flags report))"
proof -
  let ?vd = "\<lparr> timeParse_RFC3339 = (\<lambda>_. True), ParseRequestURI = (\<lambda>_. True), Compile = (\<lambda>_. None) \<rparr>"
  let ?r = "Resource (res_zero\<lparr>r_RequiredProperties := [''Id'', ''Name'']\<rparr>) None []"
  have "\<exists>report. checkResource ?vd ?r [(''Id'', GString ''1'')] () = (Ret report, ())"
    by (simp add: checkResource_def checkProperties.simps check_props.simps res_zero_def go_bind_apply Let_def)
  then obtain report where r: "checkResource ?vd ?r [(''Id'', GString ''1'')] () = (Ret report, ())" ..
  then show ?thesis using checkResource_required [OF r] by (intro exI [of _ report]) simp
qed

text \<open>
  A body with a non-empty array of integers cannot be validated: the loop over array elements has no case for
  integers and panics, although the same property outside an array is checked like a number.
\<close>

theorem integer_array_panics:
  assumes "pType p = PropArray" "p_ArrayOf p = Some e" "pType e = PropInteger"
  shows "check_field vd name p (GArr (v # vs)) op w = (Panic ''Cannot handle type:Integer'', w) \<and>
    (\<exists>op'. check_field vd name e v op w = (Ret op', w))"
  using assms by (simp add: check_field.simps checkArray.simps go_bind_apply)

theorem integer_array_panics_witness:
  "check_field \<lparr> timeParse_RFC3339 = (\<lambda>_. True), ParseRequestURI = (\<lambda>_. True), Compile = (\<lambda>_. None) \<rparr> ''Slots''
     (Property (prop_zero\<lparr>p_Type := PropArray\<rparr>) [] (Some (mk_prop PropInteger)) None [] None None)
     (GArr [GFloat 0]) NewObjectReport () = (Panic ''Cannot handle type:Integer'', ())"
proof -
  let ?p = "Property (prop_zero\<lparr>p_Type := PropArray\<rparr>) [] (Some (mk_prop PropInteger)) None [] None None"
  have "pType ?p = PropArray" "p_ArrayOf ?p = Some (mk_prop PropInteger)" "pType (mk_prop PropInteger) = PropInteger"
    by (simp_all add: mk_prop_def)
  then show ?thesis by (rule integer_array_panics [THEN conjunct1])
qed

end
