(* ===== verification/Rf_Messages.thy ===== *)
theory Rf_Messages
  imports Redis_Struct_Read
begin

text \<open>
  Message registries, \<open>internal/rfdispatcher/dispatcher/rfmessages.go\<close>, and the annotation of
  properties with messages (\<open>AddPropertyMessage\<close> of \<open>rfdispatcher.go\<close>). A registry is the decoded
  JSON document; finding, reading and decoding the files is left out.
\<close>

section \<open>Response bodies\<close>

text \<open>
  A body is kept before it is marshalled. Marshalling a decoded value fails only on the numbers
  that JSON cannot express.
\<close>

datatype body = Text string | Json gval

fun json_ok :: "gval \<Rightarrow> bool" where
  "json_ok (GFloat f) = (\<not> f64_nan f \<and> \<not> f64_inf f)"
| "json_ok (GArr vs) = list_all json_ok vs"
| "json_ok (GRedisArray b vs) = list_all json_ok vs"
| "json_ok (GObj fs) = list_all (\<lambda>(n, v). json_ok v) fs"
| "json_ok _ = True"

definition Marshal :: "gval \<Rightarrow> go_error + body" where
  "Marshal v = (if json_ok v then Inr (Json v) else Inl (Err ''json: unsupported value''))"

section \<open>Loading registries\<close>

definition SupportedRegistryIDs :: "string list" where
  "SupportedRegistryIDs = [''Base.1.4.0'', ''CrayTelemetry.1.0.0'']"

text \<open>
  The body of the loop of \<open>InitMessageRegistries\<close> over the files: the checks of known keys only
  write to the trace; a registry with a supported Id is stored under its prefix.
\<close>

definition add_registry :: "gobj \<Rightarrow> gobj \<Rightarrow> ('w, gobj) go" where
  "add_registry registry registries =
     (if list_ex (\<lambda>supportedID. map_of registry ''Id'' = Some (GString supportedID)) SupportedRegistryIDs
      then (case map_of registry ''RegistryPrefix'' of
          Some (GString key) \<Rightarrow> go_return (AList.update key (GObj registry) registries)
        | _ \<Rightarrow> go_panic ''interface conversion: interface {} is not string'')
      else go_return registries)"

fun InitMessageRegistries :: "gobj list \<Rightarrow> gobj \<Rightarrow> ('w, gobj) go" where
  "InitMessageRegistries [] registries = go_return registries"
| "InitMessageRegistries (registry # files) registries =
     go_bind (add_registry registry registries) (InitMessageRegistries files)"

section \<open>Messages\<close>

text \<open>\<open>strings.Replace\<close> of all occurrences of a non-empty string.\<close>

function ReplaceAll :: "string \<Rightarrow> string \<Rightarrow> string \<Rightarrow> string" where
  "ReplaceAll old new [] = []"
| "ReplaceAll old new (c # s) =
     (if old \<noteq> [] \<and> HasPrefix (c # s) old then new @ ReplaceAll old new (drop (length old) (c # s))
      else c # ReplaceAll old new s)"
  by pat_completeness auto
termination
  by (relation "measure (\<lambda>(old, new, s). length s)") (auto simp: Suc_diff_le)

datatype msg_arg = IntArg int | StrArg string | OtherArg

definition f64_of_nat :: "nat \<Rightarrow> float64" where
  "f64_of_nat n = (if n = 0 then 0 else f64_of False (f64_round (int n) 1))"

text \<open>The text of an argument, refused when the registry declares another type for it.\<close>

definition arg_text :: "gval option \<Rightarrow> nat \<Rightarrow> msg_arg \<Rightarrow> ('w, go_error + string) go" where
  "arg_text paramTypes i arg =
     (let param_is = (\<lambda>t err s. case paramTypes of
          Some (GArr ts) \<Rightarrow>
            if i < length ts then go_return (if ts ! i \<noteq> GString t then Inl (Err err) else Inr s)
            else go_panic ''index out of range''
        | _ \<Rightarrow> go_panic ''interface conversion: interface {} is not []interface {}'')
      in case arg of
          IntArg n \<Rightarrow> param_is ''number'' ''Int provided for non-number ParamType'' (FormatInt n)
        | StrArg s \<Rightarrow> param_is ''string'' ''String provided for non-string ParamType'' s
        | OtherArg \<Rightarrow> go_return (Inl (Err ''Unsupported data type'')))"

fun fill_args :: "gval option \<Rightarrow> nat \<Rightarrow> msg_arg list \<Rightarrow> gobj \<Rightarrow> ('w, go_error + gobj) go" where
  "fill_args paramTypes i [] msg = go_return (Inr msg)"
| "fill_args paramTypes i (arg # args) msg =
     go_check (arg_text paramTypes i arg) (\<lambda>s_val.
       case map_of msg ''Message'' of
         Some (GString m) \<Rightarrow>
           (let msg1 = AList.update ''Message'' (GString (ReplaceAll (CHR ''%'' # FormatInt (int i + 1)) s_val m)) msg in
            case map_of msg1 ''MessageArgs'' of
              Some (GArr vs) \<Rightarrow>
                fill_args paramTypes (Suc i) args (AList.update ''MessageArgs'' (GArr (vs @ [GString s_val])) msg1)
            | _ \<Rightarrow> go_panic ''interface conversion: interface {} is not []interface {}'')
       | _ \<Rightarrow> go_panic ''interface conversion: interface {} is not string'')"

definition nilable :: "gval option \<Rightarrow> gval" where
  "nilable v = (case v of None \<Rightarrow> GNil | Some x \<Rightarrow> x)"

definition GetRedfishMessage :: "gobj \<Rightarrow> string \<Rightarrow> string \<Rightarrow> msg_arg list \<Rightarrow> ('w, go_error + gobj) go" where
  "GetRedfishMessage registries registryPrefix messageID args =
     (case map_of registries registryPrefix of
        Some (GObj messageRegistry) \<Rightarrow>
          (case map_of messageRegistry ''Messages'' of
             Some (GObj msgs) \<Rightarrow>
               (case map_of msgs messageID of
                  Some (GObj regMsg) \<Rightarrow>
                    (case map_of messageRegistry ''RegistryVersion'' of
                       Some (GString version) \<Rightarrow>
                         (let verDigits = Split1 version CHR ''.'' in
                          if length verDigits < 2 then go_panic ''index out of range''
                          else
                            (let msg = [(''Message'', nilable (map_of regMsg ''Message'')),
                                  (''MessageId'', GString (Join [registryPrefix, verDigits ! 0, verDigits ! 1, messageID] ''.'')),
                                  (''Resolution'', nilable (map_of regMsg ''Resolution'')),
                                  (''Severity'', nilable (map_of regMsg ''Severity''))]
                             in case map_of regMsg ''NumberOfArgs'' of
                                  Some (GFloat numArgs) \<Rightarrow>
                                    if f64_lt (f64_of_nat (length args)) numArgs
                                    then go_return (Inl (Err ''Not enough arguments provided''))
                                    else if f64_lt numArgs (f64_of_nat (length args))
                                    then go_return (Inl (Err ''Too many arguments arguments provided''))
                                    else fill_args (map_of regMsg ''ParamTypes'') 0 args
                                      (if f64_lt 0 numArgs then AList.update ''MessageArgs'' (GArr []) msg else msg)
                                | _ \<Rightarrow> go_panic ''interface conversion: interface {} is not float64''))
                     | _ \<Rightarrow> go_panic ''interface conversion: interface {} is not string'')
                | _ \<Rightarrow> go_return (Inl (Err ''MessageID not found'')))
           | _ \<Rightarrow> go_panic ''interface conversion: interface {} is not map[string]interface {}'')
      | _ \<Rightarrow> go_return (Inl (Err (''Registry not found:'' @ registryPrefix))))"

text \<open>
  \<open>GetRedfishMessageString\<close> as its callers use it: the error is dropped and the body is the empty
  string then.
\<close>

definition message_body :: "gobj \<Rightarrow> string \<Rightarrow> msg_arg list \<Rightarrow> ('w, body) go" where
  "message_body registries messageID args =
     go_bind (GetRedfishMessage registries ''Base'' messageID args) (\<lambda>r. go_return (case r of
         Inl _ \<Rightarrow> Text []
       | Inr msg \<Rightarrow> (case Marshal (GObj msg) of Inl _ \<Rightarrow> Text [] | Inr b \<Rightarrow> b)))"

section \<open>Annotating properties\<close>

text \<open>
  The walk along the path and the update of the innermost object. The maps are changed in place by
  the code; here the objects on the path are rebuilt.
\<close>

fun annotate :: "gobj \<Rightarrow> string list \<Rightarrow> string \<Rightarrow> gobj \<Rightarrow> ('w, go_error + gobj) go" where
  "annotate current [] fieldName msg =
     (let annotation = fieldName @ ''@Message.ExtendedInfo'' in
      case map_of current annotation of
        None \<Rightarrow> go_return (Inr (AList.update annotation (GArr [GObj msg]) current))
      | Some (GArr msgArray) \<Rightarrow> go_return (Inr (AList.update annotation (GArr (msgArray @ [GObj msg])) current))
      | Some _ \<Rightarrow> go_panic ''interface conversion: interface {} is not []interface {}'')"
| "annotate current (token # path) fieldName msg =
     (case map_of current token of
        None \<Rightarrow> go_return (Inl (Err (''Path token not present in object: '' @ token)))
      | Some (GObj next) \<Rightarrow>
          go_check (annotate next path fieldName msg) (\<lambda>next'. go_return (Inr (AList.update token (GObj next') current)))
      | Some _ \<Rightarrow> go_panic ''interface conversion: interface {} is not map[string]interface {}'')"

text \<open>The object is nil when it could not be built; writing into a nil map panics.\<close>

definition AddPropertyMessage :: "gobj \<Rightarrow> gobj option \<Rightarrow> string list \<Rightarrow> string \<Rightarrow> msg_arg list \<Rightarrow> ('w, go_error + gobj option) go" where
  "AddPropertyMessage registries obj path messageID args =
     (if path = [] then go_return (Inl (Err ''Path must contain at least one element''))
      else go_check (GetRedfishMessage registries ''Base'' messageID args) (\<lambda>msg.
        case obj of
          Some m \<Rightarrow> go_check (annotate m (butlast path) (last path) msg) (\<lambda>m'. go_return (Inr (Some m')))
        | None \<Rightarrow>
            if length path = 1 then go_panic ''assignment to entry in nil map''
            else go_return (Inl (Err (''Path token not present in object: '' @ hd path)))))"

end
