(* ===== verification/Rf_Actions.thy ===== *)
theory Rf_Actions
  imports Rf_Messages
begin

text \<open>
  Actions of resources, \<open>PerformIPC\<close> and \<open>HandleAction\<close> of
  \<open>internal/rfdispatcher/dispatcher/rfdispatcher.go\<close>. The commands on hashes, the publish/subscribe
  channel with its timeout and the generation of an identifier are parameters, as is the text that
  \<open>encoding/json\<close> and \<open>fmt\<close> print for a value.
\<close>

record 'w ipc_ops =
  newUUID :: "('w, string) go"
  rHMSet :: "string \<Rightarrow> gobj \<Rightarrow> ('w, go_error + unit) go"
  rRenameNX :: "string \<Rightarrow> string \<Rightarrow> ('w, go_error + bool) go"
  awaitKey :: "string \<Rightarrow> ('w, bool) go"
  rHGetAll :: "string \<Rightarrow> ('w, go_error + (string \<times> string) list) go"
  rDelAll :: "string list \<Rightarrow> ('w, go_error + unit) go"
  jsonText :: "gval \<Rightarrow> string"
  sprintText :: "gval \<Rightarrow> string"

section \<open>IPC\<close>

text \<open>
  The select on the subscription and the timer: \<open>awaitKey\<close> is false when the timer wins. The
  deferred removal of the two keys runs on both ways out once the target key is owned.
\<close>

definition ipc_wait :: "'w ipc_ops \<Rightarrow> string \<Rightarrow> ('w, go_error + (string \<times> string) list) go" where
  "ipc_wait ipc responseKey =
     go_bind (awaitKey ipc responseKey) (\<lambda>received.
       if \<not> received then go_return (Inl (Err ''IPC operation timed out''))
       else rHGetAll ipc responseKey)"

definition PerformIPC :: "'w RedfishDispatcher \<Rightarrow> 'w ipc_ops \<Rightarrow> string \<Rightarrow> gobj \<Rightarrow> ('w, go_error + (string \<times> string) list) go" where
  "PerformIPC rfd ipc targetkey request =
     go_bind (newUUID ipc) (\<lambda>uuid.
       let keyspace = ''Cray:'' @ programName rfd @ '':IPC:'' @ uuid;
           requestKey = keyspace @ '':Request''; responseKey = keyspace @ '':Response'' in
       go_check (rHMSet ipc requestKey (AList.update ''ResponseKey'' (GString responseKey) request)) (\<lambda>_.
       go_must (rRenameNX ipc requestKey targetkey) (\<lambda>keyWasSet.
         if \<not> keyWasSet then go_return (Inl (Err ''Backend is currently performing an action''))
         else
           go_bind (ipc_wait ipc responseKey) (\<lambda>result.
           go_must (rDelAll ipc [requestKey, responseKey]) (\<lambda>_. go_return result)))))"

section \<open>Actions\<close>

text \<open>The environment variable for a parameter of the action.\<close>

definition env_value :: "'w ipc_ops \<Rightarrow> gval \<Rightarrow> string" where
  "env_value ipc v = (case v of
      GString s \<Rightarrow> s
    | GObj fs \<Rightarrow> (case map_of fs ''@odata.id'' of Some (GString odataID) \<Rightarrow> odataID | _ \<Rightarrow> sprintText ipc v)
    | _ \<Rightarrow> sprintText ipc v)"

text \<open>
  The loop over the backend helpers; the error of the last helper asked is the error of the call.
  The answer of a helper is marshalled into a variable that shadows the result, so it is dropped.
\<close>

fun action_helpers :: "'w ipc_ops \<Rightarrow> string \<Rightarrow> string \<Rightarrow> gobj \<Rightarrow> 'w backend_helper list \<Rightarrow> body option \<Rightarrow> go_error option \<Rightarrow>
    ('w, body option \<times> go_error option) go" where
  "action_helpers ipc uri host postBody [] responseBody err = go_return (responseBody, err)"
| "action_helpers ipc uri host postBody (h # hs) responseBody err =
     (if host = [] then go_panic ''BackendHelper is set but there is no host set''
      else go_bind (GetEnvForXname h host) (\<lambda>(env, envErr).
        if envErr \<noteq> None then go_panic ''Failed to get ENV for host''
        else (case env of
            None \<Rightarrow> go_panic ''assignment to entry in nil map''
          | Some e \<Rightarrow>
              go_bind (RunBackendHelper h uri [] (Some (fold (\<lambda>(k, v). AList.update k (env_value ipc v)) postBody e))) (\<lambda>r. case r of
                  Inl ErrBackendContinue \<Rightarrow> action_helpers ipc uri host postBody hs responseBody (Some ErrBackendContinue)
                | Inr _ \<Rightarrow> go_return (None, None)
                | Inl e' \<Rightarrow> go_return (responseBody, Some e')))))"

text \<open>What the file handler leaves in the result when it fails: nil only after a failed execution.\<close>

definition failed_file_body :: "go_error \<Rightarrow> body option" where
  "failed_file_body e = (case e of
      Err s \<Rightarrow> if HasPrefix s ''Script execution failed: '' then None else Some (Text [])
    | _ \<Rightarrow> Some (Text []))"

definition output_body :: "string \<Rightarrow> body option" where
  "output_body out = (if out = [] then None else Some (Text out))"

definition HandleAction :: "'w RedfishDispatcher \<Rightarrow> 'w ipc_ops \<Rightarrow> string \<Rightarrow> go_error + gobj \<Rightarrow> string \<Rightarrow>
    ('w, body option \<times> go_error option) go" where
  "HandleAction rfd ipc uri postBody host =
     go_bind (rSMembers (rfd_redis rfd) uri) (\<lambda>m. case m of
         Inl e \<Rightarrow> go_return (None, Some e)
       | Inr _ \<Rightarrow>
         (case postBody of
            Inl e \<Rightarrow> go_return (None, Some e)
          | Inr postBodyMap \<Rightarrow>
            if postBodyMap = [] then go_return (None, None)
            else
              go_bind (DoFileHandler rfd ActionOp uri (concat (map (\<lambda>(k, v). [k, jsonText ipc v]) postBodyMap)) []) (\<lambda>fh. case fh of
                  Inr out \<Rightarrow> go_return (output_body out, None)
                | Inl fe \<Rightarrow>
                  (let targetKey = uri @ ''/Target''; ipcKey = targetKey @ '':ipc'' in
                   go_bind (rExists (rfd_redis rfd) ipcKey) (\<lambda>ex. case ex of
                       Inl _ \<Rightarrow> go_panic ''Unable to check ipcKey existence''
                     | Inr ipcExists \<Rightarrow>
                         if ipcExists > 0 then
                           go_bind (PerformIPC rfd ipc targetKey postBodyMap) (\<lambda>r. case r of
                               Inl e \<Rightarrow> go_return (failed_file_body fe, Some e)
                             | Inr response \<Rightarrow>
                                 go_return (Some (Json (GObj (map (\<lambda>(k, v). (k, GString v)) response))), None))
                         else action_helpers ipc uri host postBodyMap (BackendHelpers rfd) (failed_file_body fe) None)))))"

section \<open>Properties\<close>

text \<open>
  An action nobody handles is reported as done: without a backend helper, when no file handler
  takes the action and no IPC key exists, the result carries no error and nothing has changed.
\<close>

theorem unhandled_action_succeeds:
  assumes "redis_server (rfd_redis rfd) view" "set_result (view w uri) \<noteq> Inl wrongtype"
    and "DoFileHandler rfd ActionOp uri (concat (map (\<lambda>(k, v). [k, jsonText ipc v]) postBody)) [] w = (Ret (Inl ErrFileHandlerNoAction), w)"
    and "view w (uri @ ''/Target:ipc'') = None" "BackendHelpers rfd = []"
  shows "\<exists>b. HandleAction rfd ipc uri (Inr postBody) host w = (Ret (b, None), w)"
proof -
  obtain S where S: "set_result (view w uri) = Inr S"
    using assms(2) by (cases "view w uri" rule: set_result.cases) auto
  obtain xs where "rSMembers (rfd_redis rfd) uri w = (Ret (Inr xs), w)"
    using redis_server.smembers_ok [OF assms(1) S] by blast
  moreover have "rExists (rfd_redis rfd) (uri @ ''/Target:ipc'') w = (Ret (Inr 0), w)"
    using redis_server.exists_law [OF assms(1), of "uri @ ''/Target:ipc''" w] assms(4) by simp
  ultimately show ?thesis using assms(3,5)
    by (simp add: HandleAction_def go_bind_apply failed_file_body_def Let_def)
qed

definition ex_ipc :: "'w ipc_ops" where
  "ex_ipc = \<lparr> newUUID = go_return ''u'', rHMSet = (\<lambda>_ _. go_return (Inr ())), rRenameNX = (\<lambda>_ _. go_return (Inr True)),
     awaitKey = (\<lambda>_. go_return False), rHGetAll = (\<lambda>_. go_return (Inr [])), rDelAll = (\<lambda>_. go_return (Inr ())),
     jsonText = (\<lambda>_. ''null''), sprintText = (\<lambda>_. []) \<rparr>"

theorem unhandled_action_succeeds_witness:
  "\<exists>b. HandleAction ex_tree_rfd ex_ipc ''/Outlet'' (Inr [(''PowerState'', GString ''On'')]) ''x0'' [] = (Ret (b, None), [])"
proof (rule unhandled_action_succeeds [where view = mem_view])
  show "redis_server (rfd_redis ex_tree_rfd) mem_view" by (simp add: ex_tree_rfd_def mem_redis_server)
  show "DoFileHandler ex_tree_rfd ActionOp ''/Outlet'' (concat (map (\<lambda>(k, v). [k, jsonText ex_ipc v]) [(''PowerState'', GString ''On'')])) [] [] =
      (Ret (Inl ErrFileHandlerNoAction), [])" by code_simp
qed (simp_all add: mem_view_def mem_get_def wrongtype_def ex_tree_rfd_def)

end
