(* ===== verification/Json_Schemas.thy ===== *)
theory Json_Schemas
  imports Account_Service Rf_Messages
begin

text \<open>
  The JSON schema service, \<open>internal/rfdispatcher/jsonschemas/jsonschema.go\<close>: the collection of schema
  files, the hooks that generate its members and resources, and the handler that serves a file.
  The pool maps the name of a file to the decoded schema.
\<close>

type_synonym schema_pool = "(string \<times> gobj) list"

definition Exists :: "schema_pool \<Rightarrow> string \<Rightarrow> bool" where
  "Exists pool name \<longleftrightarrow> map_of pool name \<noteq> None"

definition HandleCollection :: "schema_pool \<Rightarrow> Event \<Rightarrow> hook_ctx \<Rightarrow> gobj \<Rightarrow> ('w, hook_result \<times> hook_ctx \<times> gobj) go" where
  "HandleCollection pool event ctx response =
     (let links = sort_Strings (map (\<lambda>(name, b). ''/redfish/v1/JSONSchemas/'' @ TrimSuffix name ''.json'') pool);
          members = map (\<lambda>link. GObj [(''@odata.id'', GString link)]) links;
          response1 = AList.update ''Members'' (GArr members) response;
          response2 = AList.update ''Members@odata.count'' (GInt (int (length members))) response1
      in go_return ((None, 0, None), ctx, response2))"

definition alnum :: "char \<Rightarrow> bool" where
  "alnum c \<longleftrightarrow> (let n = (of_char c :: nat) in (48 \<le> n \<and> n \<le> 57) \<or> (65 \<le> n \<and> n \<le> 90) \<or> (97 \<le> n \<and> n \<le> 122))"

text \<open>An empty location field is left out of the answer.\<close>

definition omit_empty :: "(string \<times> string) list \<Rightarrow> gobj" where
  "omit_empty fs = map (\<lambda>(k, v). (k, GString v)) (filter (\<lambda>(k, v). v \<noteq> []) fs)"

definition HandleResource :: "schema_pool \<Rightarrow> Event \<Rightarrow> hook_ctx \<Rightarrow> gobj \<Rightarrow> ('w, hook_result \<times> hook_ctx \<times> gobj) go" where
  "HandleResource pool event ctx response =
     (let id = last (Split1 (ev_URI event) CHR ''/''); schemaFileName = id @ ''.json''; schemaName = takeWhile alnum id;
          schemaODataType = ''#'' @ id @ ''.'' @ schemaName
      in case map_of pool schemaFileName of
           None \<Rightarrow> go_return ((None, 0, Some (Err (''Json Schema does not exist: '' @ id))), ctx, response)
         | Some schema \<Rightarrow>
             (case ev_Resource event of
                None \<Rightarrow> go_panic ''nil pointer dereference''
              | Some r \<Rightarrow>
                  go_bind (case map_of schema ''$id'' of
                      None \<Rightarrow> go_return []
                    | Some (GString i) \<Rightarrow> go_return i
                    | Some _ \<Rightarrow> go_panic ''interface conversion: interface {} is not string'') (\<lambda>publicationUri.
                  let location = omit_empty [(''PublicationUri'', publicationUri), (''Uri'', ''/redfish/v1/JsonSchemas/Files/'' @ schemaFileName)];
                      file = [(''@odata.id'', GString (ev_URI event)), (''@odata.type'', GString (r_ODataType (r_info r))),
                        (''@odata.context'', GString (r_ODataContext (r_info r) @ ''('' @ Join [''Languages'', ''Location'', ''Schema''] '','' @ '')'')),
                        (''Languages'', GArr [GString ''en-US'']), (''Location'', GArr [GObj location]), (''Schema'', GString schemaODataType)]
                  in go_return ((Some file, 200, Some (Err ''Overriding GET request'')), ctx, response))))"

text \<open>\<open>ServeSchemaFile\<close>: the answer to a request path, a status and a body.\<close>

definition ServeSchemaFile :: "schema_pool \<Rightarrow> string \<Rightarrow> int \<times> body option" where
  "ServeSchemaFile pool path =
     (if \<not> HasPrefix path ''/redfish/v1/JsonSchemas/Files/'' then (404, None)
      else (case map_of pool (last (Split1 path CHR ''/'')) of
          None \<Rightarrow> (404, None)
        | Some b \<Rightarrow> (case Marshal (GObj b) of Inl _ \<Rightarrow> (500, None) | Inr body \<Rightarrow> (200, Some body))))"

lemma Split1_split: "Split1 (p @ c # n) c = Split1 p c @ Split1 n c"
  by (induction p) (auto split: list.splits)

lemma last_Split1: "c \<notin> set n \<Longrightarrow> last (Split1 (p @ c # n) c) = n"
  by (simp add: Split1_split Split1_no_sep)

section \<open>Properties\<close>

text \<open>
  The members that the collection of schemas lists do not lead to its resources: every link it
  generates starts with \<open>/redfish/v1/JSONSchemas/\<close>, so none lies below the URI of the collection,
  \<open>/redfish/v1/JsonSchemas\<close>.
\<close>

theorem schema_links_leave_collection:
  "\<exists>members response'. HandleCollection pool event ctx response w = (Ret ((None, 0, None), ctx, response'), w) \<and>
    map_of response' ''Members'' = Some (GArr members) \<and> length members = length pool \<and>
    list_all (\<lambda>m. \<exists>link. m = GObj [(''@odata.id'', GString link)] \<and> \<not> HasPrefix link ''/redfish/v1/JsonSchemas'') members"
proof -
  let ?links = "sort_Strings (map (\<lambda>(name, b). ''/redfish/v1/JSONSchemas/'' @ TrimSuffix name ''.json'') pool)"
  have "\<not> HasPrefix link ''/redfish/v1/JsonSchemas''" if "link \<in> set ?links" for link
    using that by (auto simp: sort_Strings_def HasPrefix_def)
  moreover have "length ?links = length pool" by (simp add: sort_Strings_def)
  ultimately show ?thesis
    by (auto simp: HandleCollection_def Let_def update_conv' list_all_iff)
qed

text \<open>
  A schema file and its resource agree: when the pool holds a schema without an unprintable number, the
  resource generated for its name gives a location whose URI serves exactly that schema.
\<close>

theorem schema_resource_location:
  assumes "map_of pool (name @ ''.json'') = Some schema" "json_ok (GObj schema)" "CHR ''/'' \<notin> set name"
    and "ev_URI event = ''/redfish/v1/JsonSchemas/'' @ name" "ev_Resource event = Some r"
    and "\<forall>v. map_of schema ''$id'' = Some v \<longrightarrow> (\<exists>s. v = GString s)"
  shows "\<exists>file loc uri. HandleResource pool event ctx response w = (Ret ((Some file, 200, Some (Err ''Overriding GET request'')), ctx, response), w) \<and>
    map_of file ''Location'' = Some (GArr [GObj loc]) \<and> map_of loc ''Uri'' = Some (GString uri) \<and>
    ServeSchemaFile pool uri = (200, Some (Json (GObj schema)))"
proof -
  have uri: "last (Split1 (ev_URI event) CHR ''/'') = name"
    using last_Split1 [OF assms(3), of "''/redfish/v1/JsonSchemas''"] assms(4) by simp
  have served: "last (Split1 (''/redfish/v1/JsonSchemas/Files/'' @ name @ ''.json'') CHR ''/'') = name @ ''.json''"
    using last_Split1 [of "CHR ''/''" "name @ ''.json''" "''/redfish/v1/JsonSchemas/Files''"] assms(3) by simp
  have serve: "ServeSchemaFile pool (''/redfish/v1/JsonSchemas/Files/'' @ name @ ''.json'') = (200, Some (Json (GObj schema)))"
    using assms(1,2) served unfolding ServeSchemaFile_def by (simp add: HasPrefix_def Marshal_def)
  obtain pub where "(case map_of schema ''$id'' of None \<Rightarrow> go_return [] | Some (GString i) \<Rightarrow> go_return i
      | Some _ \<Rightarrow> go_panic ''interface conversion: interface {} is not string'') w = (Ret pub, w)"
    using assms(6) by (cases "map_of schema ''$id''") auto
  then show ?thesis using assms(1,5) serve uri
    by (simp add: HandleResource_def Let_def go_bind_apply omit_empty_def)
qed

theorem schema_resource_location_witness:
  "\<exists>file loc uri. HandleResource [(''Chassis.json'', [(''title'', GString ''Chassis'')])]
      \<lparr> HTTPOperation = ''GET'', ev_URI = ''/redfish/v1/JsonSchemas/Chassis'', ev_Resource = Some ex_tree, ev_Property = None \<rparr>
      \<lparr> ctx_hash = None, ctx_Account = None, ctx_DuplicateUserName = False \<rparr> [] () =
      (Ret ((Some file, 200, Some (Err ''Overriding GET request'')), \<lparr> ctx_hash = None, ctx_Account = None, ctx_DuplicateUserName = False \<rparr>, []), ()) \<and>
    map_of file ''Location'' = Some (GArr [GObj loc]) \<and> map_of loc ''Uri'' = Some (GString uri) \<and>
    ServeSchemaFile [(''Chassis.json'', [(''title'', GString ''Chassis'')])] uri = (200, Some (Json (GObj [(''title'', GString ''Chassis'')])))"
  by (rule schema_resource_location [where name = "''Chassis''"]) simp_all

end
