(* ===== verification/Rf_Server.thy ===== *)
theory Rf_Server
  imports Account_Hooks Rf_Validator Rf_Actions Json_Schemas
begin

text \<open>
  The HTTP server, \<open>cmd/rfdispatcher/rfserver.go\<close>: hooks, the handlers of the five methods and the
  top-level handler with authentication and the recovery from panics. The state is the account
  service, which holds the world of Redis. A request carries the outcome of decoding its body as
  a JSON object and the credentials of basic authentication; the answer is a body, headers and a
  status. Opening sockets, certificates, signals and the timers of \<open>main\<close> are left out.
\<close>

section \<open>State\<close>

type_synonym 'w hook_cb = "Event \<Rightarrow> hook_ctx \<Rightarrow> gobj \<Rightarrow> ('w AccountService, hook_result \<times> hook_ctx \<times> gobj) go"

record 'w HookIn =
  URIRegex :: "string \<Rightarrow> bool"
  BeforeCB :: "'w hook_cb option"
  AfterCB :: "'w hook_cb option"

record 'w redfishServer =
  rs_rfd :: "'w RedfishDispatcher"
  rs_ipc :: "'w ipc_ops"
  rs_bcrypt :: "'w bcrypt_ops"
  rs_validators :: validators
  rs_fuel :: nat
  privilegeRegistry :: PrivilegeRegistry
  messageRegistries :: gobj
  jsonSchemasCollection :: schema_pool
  beforeHookIns :: "(string \<times> 'w HookIn list) list"
  afterHookIns :: "(string \<times> 'w HookIn list) list"

record httpRequest =
  httpOperation :: string
  rq_account :: nat
  rq_uri :: string
  rq_resource :: "resource option"
  rq_property :: "property option"
  rq_xname :: string
  requestBody :: "go_error + gobj"

text \<open>A body that is nil, the headers the handler sets, the status.\<close>

type_synonym response = "body option \<times> (string \<times> string) list \<times> int"

section \<open>Hooks\<close>

definition hooks_for :: "(string \<times> 'w HookIn list) list \<Rightarrow> string \<Rightarrow> 'w HookIn list" where
  "hooks_for m method = (case map_of m method of None \<Rightarrow> [] | Some hs \<Rightarrow> hs)"

definition addHookIn :: "string \<Rightarrow> 'w HookIn \<Rightarrow> 'w redfishServer \<Rightarrow> 'w redfishServer" where
  "addHookIn method hook rs =
     (let rs1 = (if BeforeCB hook \<noteq> None
                 then rs\<lparr>beforeHookIns := AList.update method (hooks_for (beforeHookIns rs) method @ [hook]) (beforeHookIns rs)\<rparr>
                 else rs)
      in if AfterCB hook \<noteq> None
         then rs1\<lparr>afterHookIns := AList.update method (hooks_for (afterHookIns rs1) method @ [hook]) (afterHookIns rs1)\<rparr>
         else rs1)"

definition findBeforeHookIns :: "'w redfishServer \<Rightarrow> string \<Rightarrow> string \<Rightarrow> 'w HookIn list" where
  "findBeforeHookIns rs method uri = filter (\<lambda>h. URIRegex h uri) (hooks_for (beforeHookIns rs) method)"

definition findAfterHookIns :: "'w redfishServer \<Rightarrow> string \<Rightarrow> string \<Rightarrow> 'w HookIn list" where
  "findAfterHookIns rs method uri = filter (\<lambda>h. URIRegex h uri) (hooks_for (afterHookIns rs) method)"

definition internalServerError :: "'w redfishServer \<Rightarrow> ('s, body \<times> int) go" where
  "internalServerError rs = go_bind (message_body (messageRegistries rs) ''InternalError'' []) (\<lambda>b. go_return (b, 500))"

definition resourceMissing :: "'w redfishServer \<Rightarrow> string \<Rightarrow> ('s, body \<times> int) go" where
  "resourceMissing rs uri =
     go_bind (message_body (messageRegistries rs) ''ResourceMissingAtURI'' [StrArg uri]) (\<lambda>b. go_return (b, 404))"

text \<open>
  The loop over the matching hooks. A hook that reports an error ends the request, with its own
  answer if it has one; the map it was given carries its changes on.
\<close>

fun run_hooks :: "'w redfishServer \<Rightarrow> 'w hook_cb option list \<Rightarrow> Event \<Rightarrow> hook_ctx \<Rightarrow> gobj \<Rightarrow>
    ('w AccountService, (body \<times> int) option \<times> hook_ctx \<times> gobj) go" where
  "run_hooks rs [] event ctx request = go_return (None, ctx, request)"
| "run_hooks rs (None # hs) event ctx request = go_panic ''nil pointer dereference''"
| "run_hooks rs (Some cb # hs) event ctx request =
     go_bind (cb event ctx request) (\<lambda>((hookResponse, hookStatus, err), ctx1, request1).
       if err \<noteq> None then
         (case hookResponse of
            None \<Rightarrow> go_bind (internalServerError rs) (\<lambda>bs. go_return (Some bs, ctx1, request1))
          | Some b \<Rightarrow> go_return (Some (Json (GObj b), hookStatus), ctx1, request1))
       else run_hooks rs hs event ctx1 request1)"

definition runBeforeHookIns :: "'w redfishServer \<Rightarrow> string \<Rightarrow> Event \<Rightarrow> hook_ctx \<Rightarrow> gobj \<Rightarrow>
    ('w AccountService, (body \<times> int) option \<times> hook_ctx \<times> gobj) go" where
  "runBeforeHookIns rs method event ctx request =
     run_hooks rs (map BeforeCB (findBeforeHookIns rs method (ev_URI event))) event ctx request"

definition runAfterHookIns :: "'w redfishServer \<Rightarrow> string \<Rightarrow> Event \<Rightarrow> hook_ctx \<Rightarrow> gobj \<Rightarrow>
    ('w AccountService, (body \<times> int) option \<times> hook_ctx \<times> gobj) go" where
  "runAfterHookIns rs method event ctx request =
     run_hooks rs (map AfterCB (findAfterHookIns rs method (ev_URI event))) event ctx request"

definition empty_ctx :: hook_ctx where
  "empty_ctx = \<lparr> ctx_hash = None, ctx_Account = None, ctx_DuplicateUserName = False \<rparr>"

definition request_event :: "httpRequest \<Rightarrow> Event" where
  "request_event r = \<lparr> HTTPOperation = httpOperation r, ev_URI = rq_uri r, ev_Resource = rq_resource r, ev_Property = rq_property r \<rparr>"

section \<open>Shared steps of the handlers\<close>

definition operationPermitted :: "'w redfishServer \<Rightarrow> httpRequest \<Rightarrow> resource \<Rightarrow> string \<Rightarrow> ('w AccountService, bool) go" where
  "operationPermitted rs r res property =
     go_bind (RequiredPrivileges (privilegeRegistry rs) (httpOperation r) [] (r_Name (r_info res)) property)
       (OperationAllowed (rq_account r))"

definition fixed :: "body \<times> int \<Rightarrow> response" where
  "fixed bs = (Some (fst bs), [], snd bs)"

definition message_response :: "'w redfishServer \<Rightarrow> string \<Rightarrow> int \<Rightarrow> ('s, response) go" where
  "message_response rs messageID status =
     go_bind (message_body (messageRegistries rs) messageID []) (\<lambda>b. go_return (Some b, [], status))"

definition not_allowed :: response where
  "not_allowed = (Some (Text (''Message: CustomHTTP->StatusMethodNotAllowed'' @ [CHR 0x0A])), [], 405)"

text \<open>The payload of a resource is nil when it could not be built; nil is marshalled to null.\<close>

definition payload_value :: "gobj option \<Rightarrow> gval" where
  "payload_value p = (case p of None \<Rightarrow> GNil | Some m \<Rightarrow> GObj m)"

definition payload_map :: "gobj option \<Rightarrow> gobj" where
  "payload_map p = (case p of None \<Rightarrow> [] | Some m \<Rightarrow> m)"

definition build_payload :: "'w Redis2Interface \<Rightarrow> properties \<Rightarrow> string \<Rightarrow> ('w AccountService, gobj option) go" where
  "build_payload r2s properties uri =
     go_bind (on_ext (BuildStruct r2s properties uri)) (\<lambda>r. go_return (case r of Inl _ \<Rightarrow> None | Inr m \<Rightarrow> Some m))"

fun missing_messages :: "'w redfishServer \<Rightarrow> string \<Rightarrow> string list \<Rightarrow> ('s, gval list) go" where
  "missing_messages rs messageID [] = go_return []"
| "missing_messages rs messageID (missing # ns) =
     go_must (GetRedfishMessage (messageRegistries rs) ''Base'' messageID [StrArg missing]) (\<lambda>msg.
     go_bind (missing_messages rs messageID ns) (\<lambda>msgs. go_return (GObj msg # msgs)))"

text \<open>
  The answer when required properties are missing, none if they are all there. The second list of
  messages is built from the first set, which is empty at that point.
\<close>

definition reject_missing :: "'w redfishServer \<Rightarrow> ObjectReport \<Rightarrow> ('s, (body \<times> int) option) go" where
  "reject_missing rs report =
     (let required = map fst (MissingRequired (or_flags report));
          answer = (\<lambda>messageID. go_bind (missing_messages rs messageID required) (\<lambda>msgs.
            case Marshal (GArr msgs) of Inl e \<Rightarrow> go_panic (Error e) | Inr b \<Rightarrow> go_return (Some (b, 400))))
      in if required \<noteq> [] then answer ''PropertyMissing''
         else if MissingRequiredOnCreate (or_flags report) \<noteq> [] then answer ''CreateFailedMissingReqProperties''
         else go_return None)"

section \<open>GET\<close>

definition handleGetRequest :: "'w redfishServer \<Rightarrow> httpRequest \<Rightarrow> 'w Redis2Interface \<Rightarrow> ('w AccountService, response) go" where
  "handleGetRequest rs r r2s =
     (case rq_resource r of
        None \<Rightarrow> go_bind (resourceMissing rs (rq_uri r)) (\<lambda>bs. go_return (fixed bs))
      | Some resource \<Rightarrow>
        if rq_property r \<noteq> None then go_bind (resourceMissing rs (rq_uri r)) (\<lambda>bs. go_return (fixed bs))
        else
          go_bind (operationPermitted rs r resource []) (\<lambda>permitted.
          if \<not> permitted then message_response rs ''InsufficientPrivilege'' 401
          else
            go_bind (runBeforeHookIns rs ''GET'' (request_event r) empty_ctx []) (\<lambda>(hookResponse, ctx, _). case hookResponse of
                Some bs \<Rightarrow> go_return (fixed bs)
              | None \<Rightarrow>
                go_bind (on_ext (BuildStruct r2s (r_Properties resource) (TrimSuffix (rq_uri r) ''/''))) (\<lambda>built. case built of
                    Inl _ \<Rightarrow> go_return (None, [], 500)
                  | Inr responsePayload \<Rightarrow>
                    go_bind (runAfterHookIns rs ''GET'' (request_event r) ctx responsePayload) (\<lambda>(hookResponse, _, responsePayload). case hookResponse of
                        Some bs \<Rightarrow> go_return (fixed bs)
                      | None \<Rightarrow> (case Marshal (GObj responsePayload) of
                            Inl _ \<Rightarrow> go_return (None, [], 500)
                          | Inr b \<Rightarrow> go_return (Some b, [], 200)))))))"

section \<open>POST\<close>

text \<open>The Id of a new resource: \<open>MemberId\<close> wins over \<open>Id\<close>.\<close>

definition posted_id :: "gobj \<Rightarrow> ('s, string) go" where
  "posted_id body =
     go_bind (case map_of body ''Id'' of
         None \<Rightarrow> go_return []
       | Some (GString s) \<Rightarrow> go_return s
       | Some _ \<Rightarrow> conv_panic) (\<lambda>id1.
     go_bind (case map_of body ''MemberId'' of
         None \<Rightarrow> go_return id1
       | Some (GString s) \<Rightarrow> go_return s
       | Some _ \<Rightarrow> conv_panic) (\<lambda>id2.
       if id2 = [] then go_panic ''Resource ID not present'' else go_return id2))"

text \<open>The largest index in use, never below zero.\<close>

fun max_index :: "string list \<Rightarrow> int \<Rightarrow> ('s, int) go" where
  "max_index [] offset = go_return offset"
| "max_index (iRaw # is) offset =
     (case ParseInt iRaw of
        Inl _ \<Rightarrow> go_panic ''strconv.ParseInt''
      | Inr i \<Rightarrow> max_index is (if offset < i then i else offset))"

text \<open>Adding the link to a new resource to the members of its collection.\<close>

definition append_member :: "'w redis_ops \<Rightarrow> string \<Rightarrow> string \<Rightarrow> ('w, unit) go" where
  "append_member R uri resourceURI =
     go_must (rLRange R (uri @ ''/Members'')) (\<lambda>indexesInUse.
     go_bind (max_index indexesInUse 0) (\<lambda>offset0.
     let offset = int64 (offset0 + 1) in
     go_must (rRPush R (uri @ ''/Members'') [FormatInt offset]) (\<lambda>_.
     go_bind (RedisInsert R (GObj [(''@odata.id'', GString resourceURI)]) (uri @ ''/Members/'' @ FormatInt offset)) (\<lambda>_.
       go_return ()))))"

definition generated_odata :: "gobj \<Rightarrow> gobj" where
  "generated_odata data = AList.update ''@odata.context'' GNil (AList.update ''@odata.type'' GNil (AList.update ''@odata.id'' GNil data))"

text \<open>The writing part of the creation: convert, insert, link.\<close>

definition create_resource :: "'w RedfishDispatcher \<Rightarrow> resource \<Rightarrow> string \<Rightarrow> string \<Rightarrow> gobj \<Rightarrow> ('w, unit) go" where
  "create_resource rfd resource uri keySpace body =
     go_must (Interface2Redis None [] (r_Properties resource) body) (\<lambda>data.
     go_must (RedisInsert (rfd_redis rfd) (GObj (generated_odata data)) keySpace) (\<lambda>_.
       append_member (rfd_redis rfd) uri keySpace))"

definition handleResourceCreation :: "'w redfishServer \<Rightarrow> httpRequest \<Rightarrow> resource \<Rightarrow> ('w AccountService, response) go" where
  "handleResourceCreation rs r collection =
     (if \<not> r_Insertable (r_info collection)
      then go_return (Some (Text (''Message: CustomHTTP->ResourceNotInsertable'' @ [CHR 0x0A])), [], 400)
      else (case requestBody r of
          Inl _ \<Rightarrow> message_response rs ''MalformedJSON'' 400
        | Inr postBody \<Rightarrow>
          if postBody = [] then message_response rs ''EmptyJSON'' 400
          else (case r_CollectionOf collection of
              None \<Rightarrow> go_panic ''nil pointer dereference''
            | Some resource \<Rightarrow>
              go_bind (checkResource (rs_validators rs) resource postBody) (\<lambda>report.
              go_bind (reject_missing rs report) (\<lambda>rejected. case rejected of
                  Some bs \<Rightarrow> go_return (fixed bs)
                | None \<Rightarrow>
                  go_bind (posted_id postBody) (\<lambda>id.
                  if map_of (r_Properties collection) id \<noteq> None
                  then go_return (Some (Text (''Message: CustomHTTP->ResourceNameIsInvalid'' @ [CHR 0x0A])), [], 400)
                  else
                    (let keySpace = rq_uri r @ ''/'' @ id in
                     go_must (on_ext (rExists (rfd_redis (rs_rfd rs)) keySpace)) (\<lambda>exists.
                     if exists \<noteq> 0
                     then go_return (Some (Text (''Message: CustomHTTP->ResourceAlreadyExists'' @ [CHR 0x0A])), [], 409)
                     else
                       go_bind (runBeforeHookIns rs ''POST'' (request_event r) empty_ctx postBody) (\<lambda>(hookResponse, ctx, postBody). case hookResponse of
                           Some bs \<Rightarrow> go_return (fixed bs)
                         | None \<Rightarrow>
                           go_bind (on_ext (create_resource (rs_rfd rs) resource (rq_uri r) keySpace postBody)) (\<lambda>_.
                           go_bind (build_payload \<lparr> r2s_RFD = rs_rfd rs, r2s_Resource = resource, r2s_URI = keySpace, r2s_XName = rq_xname r \<rparr>
                               (r_Properties resource) keySpace) (\<lambda>responsePayload.
                           case Marshal (payload_value responsePayload) of
                             Inl _ \<Rightarrow> go_return (None, [], 500)
                           | Inr jsonPayload \<Rightarrow>
                             go_bind (runAfterHookIns rs ''POST'' (request_event r) ctx (payload_map responsePayload)) (\<lambda>(hookResponse, _, _). case hookResponse of
                                 Some bs \<Rightarrow> go_return (fixed bs)
                               | None \<Rightarrow> go_return (Some jsonPayload, [(''Location'', keySpace)], 201)))))))))))))"

definition handlePostRequest :: "'w redfishServer \<Rightarrow> httpRequest \<Rightarrow> ('w AccountService, response) go" where
  "handlePostRequest rs r =
     (case rq_resource r of
        None \<Rightarrow> go_bind (resourceMissing rs (rq_uri r)) (\<lambda>bs. go_return (fixed bs))
      | Some resource \<Rightarrow>
        go_bind (operationPermitted rs r resource []) (\<lambda>permitted.
        if \<not> permitted then message_response rs ''InsufficientPrivilege'' 401
        else if (case rq_property r of None \<Rightarrow> False | Some p \<Rightarrow> pType p = PropAction) then
          go_bind (on_ext (HandleAction (rs_rfd rs) (rs_ipc rs) (rq_xname r @ rq_uri r) (requestBody r) (rq_xname r))) (\<lambda>(response, err).
            if err = None then
              (case response of
                 None \<Rightarrow> go_return (None, [], 204)
               | Some b \<Rightarrow> go_return (Some b, [(''Content-Type'', ''application/json'')], 200))
            else go_bind (internalServerError rs) (\<lambda>bs. go_return (fixed bs)))
        else if r_IsCollection (r_info resource) then handleResourceCreation rs r resource
        else go_return not_allowed))"

section \<open>DELETE\<close>

text \<open>The first index whose link is the URI; errors of the lookup are ignored.\<close>

fun find_link :: "'w redis_ops \<Rightarrow> string \<Rightarrow> string \<Rightarrow> string list \<Rightarrow> ('w, string) go" where
  "find_link R collectionURI uri [] = go_return []"
| "find_link R collectionURI uri (index # is) =
     go_bind (rGet R (collectionURI @ ''/Members/'' @ index @ ''/@odata.id'')) (\<lambda>link.
       if (case link of Inr l \<Rightarrow> l | Inl _ \<Rightarrow> []) = uri then go_return index else find_link R collectionURI uri is)"

definition remove_member :: "'w redis_ops \<Rightarrow> string \<Rightarrow> string \<Rightarrow> ('w, unit) go" where
  "remove_member R collectionURI uri =
     go_must (rLRange R (collectionURI @ ''/Members'')) (\<lambda>indexesInUse.
     go_bind (find_link R collectionURI uri indexesInUse) (\<lambda>indexToRemove.
       if indexToRemove = [] then go_panic (''Link Index not found for: '' @ uri)
       else
         go_bind (rLRem R (collectionURI @ ''/Members'') indexToRemove) (\<lambda>_.
         go_bind (rDel R (collectionURI @ ''/Members/'' @ indexToRemove)) (\<lambda>_.
         go_bind (rDel R (collectionURI @ ''/Members/'' @ indexToRemove @ ''/@odata.id'')) (\<lambda>_. go_return ())))))"

definition handleDeleteRequest :: "'w redfishServer \<Rightarrow> httpRequest \<Rightarrow> 'w Redis2Interface \<Rightarrow> ('w AccountService, response) go" where
  "handleDeleteRequest rs r r2s =
     (case rq_resource r of
        None \<Rightarrow> go_bind (resourceMissing rs (rq_uri r)) (\<lambda>bs. go_return (fixed bs))
      | Some resource \<Rightarrow>
        go_bind (operationPermitted rs r resource []) (\<lambda>permitted.
        if \<not> permitted then message_response rs ''InsufficientPrivilege'' 401
        else if r_IsCollection (r_info resource) then go_return not_allowed
        else if \<not> r_Deletable (r_info resource) then go_return not_allowed
        else
          go_bind (build_payload r2s (r_Properties resource) (rq_uri r)) (\<lambda>responsePayload.
          case Marshal (payload_value responsePayload) of
            Inl _ \<Rightarrow> go_return (None, [], 500)
          | Inr jsonPayload \<Rightarrow>
            go_bind (runBeforeHookIns rs ''DELETE'' (request_event r) empty_ctx []) (\<lambda>(hookResponse, ctx, _). case hookResponse of
                Some bs \<Rightarrow> go_return (fixed bs)
              | None \<Rightarrow>
                go_bind (on_ext (RedisRemoveResource (rfd_redis (rs_rfd rs)) (rs_fuel rs) resource (rq_uri r))) (\<lambda>_.
                go_bind (on_ext (remove_member (rfd_redis (rs_rfd rs)) (Join (butlast (Split1 (rq_uri r) CHR ''/'')) ''/'') (rq_uri r))) (\<lambda>_.
                go_bind (runAfterHookIns rs ''DELETE'' (request_event r) ctx (payload_map responsePayload)) (\<lambda>(hookResponse, _, _). case hookResponse of
                    Some bs \<Rightarrow> go_return (fixed bs)
                  | None \<Rightarrow> go_return (Some jsonPayload, [], 200))))))))"


section \<open>PATCH\<close>

text \<open>What the callback of the conversion records.\<close>

record patch_log =
  fieldCount :: int
  readonlyFields :: "string list list"
  unknownFields :: "string list list"
  insufficientPrivilegeFields :: "string list list"

definition ident_char :: "char \<Rightarrow> bool" where
  "ident_char c \<longleftrightarrow> alnum c \<or> c = CHR ''_''"

text \<open>The regular expression of annotations, \<open>^([a-zA-Z_][a-zA-Z0-9_]*)@(odata|Redfish|Message)\.[a-zA-Z_][a-zA-Z0-9_.]+$\<close>.\<close>

definition ident_start :: "char \<Rightarrow> bool" where
  "ident_start c \<longleftrightarrow> ident_char c \<and> digit_val c = None"

definition annotation_term :: "string \<Rightarrow> bool" where
  "annotation_term s \<longleftrightarrow> (case s of
      c # d # t \<Rightarrow> ident_start c \<and> list_all (\<lambda>c. ident_char c \<or> c = CHR ''.'') (d # t)
    | _ \<Rightarrow> False)"

definition is_annotation :: "string \<Rightarrow> bool" where
  "is_annotation s =
     (let name = takeWhile ident_char s; rest = dropWhile ident_char s in
      name \<noteq> [] \<and> ident_start (hd name) \<and>
      list_ex (\<lambda>p. HasPrefix rest p \<and> annotation_term (drop (length p) rest)) [''@odata.'', ''@Redfish.'', ''@Message.''])"

definition on_fst :: "('s, 'a) go \<Rightarrow> ('s \<times> 'l, 'a) go" where
  "on_fst m = (\<lambda>(s, l). case m s of (r, s') \<Rightarrow> (r, (s', l)))"

definition log_path :: "(patch_log \<Rightarrow> patch_log) \<Rightarrow> ('s \<times> patch_log, bool) go" where
  "log_path f = (\<lambda>(s, l). (Ret False, (s, f l)))"

text \<open>
  The paths of the lists are values here. In the code they are slices, and below the third level two
  siblings may share the array behind theirs, so that a path recorded first can show the name of a later
  sibling; this concerns the messages of an answer only.
\<close>

definition patch_cb :: "'w redfishServer \<Rightarrow> httpRequest \<Rightarrow> resource \<Rightarrow> ('w AccountService \<times> patch_log) Interface2RedisCB" where
  "patch_cb rs r resource property path value unknown =
     (let fieldName = last path in
      if is_annotation fieldName then go_return False
      else
        go_bind (\<lambda>(s, l). (Ret (), (s, l\<lparr>fieldCount := fieldCount l + 1\<rparr>))) (\<lambda>_.
        if unknown then log_path (\<lambda>l. l\<lparr>unknownFields := unknownFields l @ [path]\<rparr>)
        else (case property of
            None \<Rightarrow> go_panic ''nil pointer dereference''
          | Some p \<Rightarrow>
            if p_ReadOnly (p_info p) then log_path (\<lambda>l. l\<lparr>readonlyFields := readonlyFields l @ [path]\<rparr>)
            else if length path = 1 then
              go_bind (on_fst (operationPermitted rs r resource fieldName)) (\<lambda>permitted.
                if \<not> permitted then log_path (\<lambda>l. l\<lparr>insufficientPrivilegeFields := insufficientPrivilegeFields l @ [path]\<rparr>)
                else go_return True)
            else go_return True)))"

text \<open>Running the conversion with an empty log; the log is part of the result.\<close>

definition with_log :: "('s \<times> patch_log, 'a) go \<Rightarrow> ('s, 'a \<times> patch_log) go" where
  "with_log m = (\<lambda>s. case m (s, \<lparr> fieldCount = 0, readonlyFields = [], unknownFields = [], insufficientPrivilegeFields = [] \<rparr>) of
      (Ret a, (s', l)) \<Rightarrow> (Ret (a, l), s')
    | (Panic p, (s', l)) \<Rightarrow> (Panic p, s')
    | (Fatal p, (s', l)) \<Rightarrow> (Fatal p, s')
    | (NoFuel, (s', l)) \<Rightarrow> (NoFuel, s'))"

text \<open>The loops that annotate the fields of one list; a message that cannot be added is dropped.\<close>

fun annotate_paths :: "'w redfishServer \<Rightarrow> string \<Rightarrow> string list list \<Rightarrow> gobj option \<Rightarrow> ('s, gobj option) go" where
  "annotate_paths rs messageID [] payload = go_return payload"
| "annotate_paths rs messageID (path # paths) payload =
     go_bind (AddPropertyMessage (messageRegistries rs) payload path messageID [StrArg (last path)]) (\<lambda>r.
       annotate_paths rs messageID paths (case r of Inl _ \<Rightarrow> payload | Inr p \<Rightarrow> p))"

definition handlePatchRequest :: "'w redfishServer \<Rightarrow> httpRequest \<Rightarrow> 'w Redis2Interface \<Rightarrow> ('w AccountService, response) go" where
  "handlePatchRequest rs r r2s =
     (case rq_resource r of
        None \<Rightarrow> go_bind (resourceMissing rs (rq_uri r)) (\<lambda>bs. go_return (fixed bs))
      | Some resource \<Rightarrow>
        (case requestBody r of
           Inl _ \<Rightarrow> message_response rs ''MalformedJSON'' 400
         | Inr postBody \<Rightarrow>
           if r_IsCollection (r_info resource) then go_return not_allowed
           else if \<not> r_Updatable (r_info resource) then go_return not_allowed
           else
             go_bind (runBeforeHookIns rs ''PATCH'' (request_event r) empty_ctx postBody) (\<lambda>(hookResponse, ctx, postBody). case hookResponse of
                 Some bs \<Rightarrow> go_return (fixed bs)
               | None \<Rightarrow>
                 go_bind (with_log (Interface2Redis (Some (patch_cb rs r resource)) [] (r_Properties resource) postBody)) (\<lambda>(converted, log).
                 case converted of
                   Inl e \<Rightarrow> go_panic (Error e)
                 | Inr redisData \<Rightarrow>
                   go_must (on_ext (RedisPatch (rfd_redis (rs_rfd rs)) (rs_fuel rs) (GObj redisData) (rq_uri r))) (\<lambda>_.
                   go_bind (build_payload r2s (r_Properties resource) (rq_uri r)) (\<lambda>payload0.
                   go_bind (annotate_paths rs ''PropertyNotWritable'' (readonlyFields log) payload0) (\<lambda>payload1.
                   go_bind (annotate_paths rs ''PropertyUnknown'' (unknownFields log) payload1) (\<lambda>payload2.
                   go_bind (annotate_paths rs ''InsufficientPrivilege'' (insufficientPrivilegeFields log) payload2) (\<lambda>responsePayload.
                   case Marshal (payload_value responsePayload) of
                     Inl _ \<Rightarrow> go_return (None, [], 500)
                   | Inr jsonPayload \<Rightarrow>
                     (let status = (if fieldCount log = 1 \<and> readonlyFields log \<noteq> [] \<or> unknownFields log \<noteq> [] then 400 else 200) in
                      go_bind (runAfterHookIns rs ''PATCH'' (request_event r) ctx (payload_map responsePayload)) (\<lambda>(hookResponse, _, _). case hookResponse of
                          Some bs \<Rightarrow> go_return (fixed bs)
                        | None \<Rightarrow> go_return (Some jsonPayload, [], status))))))))))))"

section \<open>PUT\<close>

text \<open>The writing part: the stored resource is removed before the body is converted.\<close>

definition replace_resource :: "'w RedfishDispatcher \<Rightarrow> nat \<Rightarrow> resource \<Rightarrow> string \<Rightarrow> gobj \<Rightarrow> ('w, unit) go" where
  "replace_resource rfd fuel resource uri body =
     go_bind (RedisRemoveResource (rfd_redis rfd) fuel resource uri) (\<lambda>_.
     go_must (Interface2Redis None [] (r_Properties resource) body) (\<lambda>data.
     go_must (RedisInsert (rfd_redis rfd) (GObj data) uri) (\<lambda>_. go_return ())))"

definition handlePutRequest :: "'w redfishServer \<Rightarrow> httpRequest \<Rightarrow> 'w Redis2Interface \<Rightarrow> ('w AccountService, response) go" where
  "handlePutRequest rs r r2s =
     (case rq_resource r of
        None \<Rightarrow> go_bind (resourceMissing rs (rq_uri r)) (\<lambda>bs. go_return (fixed bs))
      | Some resource \<Rightarrow>
        go_bind (operationPermitted rs r resource []) (\<lambda>permitted.
        if \<not> permitted then message_response rs ''InsufficientPrivilege'' 401
        else if r_IsCollection (r_info resource)
        then go_return (Some (Text ''Message: CustomHTTP->ResourceIsCollection''), [], 405)
        else (case requestBody r of
            Inl _ \<Rightarrow> message_response rs ''MalformedJSON'' 400
          | Inr postBody \<Rightarrow>
            if postBody = [] then message_response rs ''EmptyJSON'' 400
            else
              go_bind (checkResource (rs_validators rs) resource postBody) (\<lambda>report.
              go_bind (reject_missing rs report) (\<lambda>rejected. case rejected of
                  Some bs \<Rightarrow> go_return (fixed bs)
                | None \<Rightarrow>
                  go_bind (runBeforeHookIns rs ''PUT'' (request_event r) empty_ctx postBody) (\<lambda>(hookResponse, ctx, postBody). case hookResponse of
                      Some bs \<Rightarrow> go_return (fixed bs)
                    | None \<Rightarrow>
                      go_bind (on_ext (replace_resource (rs_rfd rs) (rs_fuel rs) resource (rq_uri r) postBody)) (\<lambda>_.
                      go_bind (build_payload r2s (r_Properties resource) (rq_uri r)) (\<lambda>responsePayload.
                      case Marshal (payload_value responsePayload) of
                        Inl _ \<Rightarrow> go_return (None, [], 500)
                      | Inr jsonPayload \<Rightarrow>
                        go_bind (runAfterHookIns rs ''PUT'' (request_event r) ctx (payload_map responsePayload)) (\<lambda>(hookResponse, _, _). case hookResponse of
                            Some bs \<Rightarrow> go_return (fixed bs)
                          | None \<Rightarrow> go_return (Some jsonPayload, [], 200))))))))))"

section \<open>The top-level handler\<close>

record http_input =
  in_Host :: string
  in_Path :: string
  in_Method :: string
  in_BasicAuth :: "(string \<times> string) option"
  in_Body :: "go_error + gobj"

definition recovering :: "('s, 'a) go \<Rightarrow> ('s, 'a) go \<Rightarrow> ('s, 'a) go" where
  "recovering m h = (\<lambda>s. case m s of (Panic p, s') \<Rightarrow> h s' | r \<Rightarrow> r)"

text \<open>The dispatch on the method and the header of a body that is not nil.\<close>

definition dispatch :: "'w redfishServer \<Rightarrow> httpRequest \<Rightarrow> ('w AccountService, response) go" where
  "dispatch rs request =
     (let r2s = \<lparr> r2s_RFD = rs_rfd rs,
                  r2s_Resource = (case rq_resource request of Some r \<Rightarrow> r | None \<Rightarrow> Resource res_zero None []),
                  r2s_URI = rq_uri request, r2s_XName = rq_xname request \<rparr>;
          m = httpOperation request
      in if m = ''POST'' then handlePostRequest rs request
         else if m = ''GET'' then handleGetRequest rs request r2s
         else if m = ''PATCH'' then handlePatchRequest rs request r2s
         else if m = ''DELETE'' then handleDeleteRequest rs request r2s
         else if m = ''PUT'' then handlePutRequest rs request r2s
         else go_return not_allowed)"

definition finish :: "response \<Rightarrow> response" where
  "finish r = (case r of (body, headers, status) \<Rightarrow>
     (body, if body \<noteq> None then AList.updates (map fst headers) (map snd headers) [(''Content-Type'', ''application/json'')] else headers, status))"

definition handleRequest :: "'w redfishServer \<Rightarrow> http_input \<Rightarrow> ('w AccountService, response) go" where
  "handleRequest rs req =
     recovering
       (let xname = TrimSuffix (hd (Split1 (in_Host req) CHR '':'')) ''-rts'' in
        go_bind (on_ext (GetResource (rs_rfd rs) (in_Path req) xname)) (\<lambda>(resource, property).
        let (username, password) = (case in_BasicAuth req of Some up \<Rightarrow> up | None \<Rightarrow> ([], [])) in
        go_bind (AuthenticateAccount (rs_rfd rs) (rs_bcrypt rs) (rs_fuel rs) username password) (\<lambda>auth. case auth of
            Inl _ \<Rightarrow> go_return (None, [], 401)
          | Inr account \<Rightarrow>
              go_bind (dispatch rs \<lparr> httpOperation = in_Method req, rq_account = account, rq_uri = in_Path req,
                  rq_resource = resource, rq_property = property, rq_xname = xname, requestBody = in_Body req \<rparr>) (\<lambda>response.
                go_return (finish response)))))
       (go_bind (message_body (messageRegistries rs) ''InternalError'' []) (\<lambda>b.
          go_return (Some b, [(''Content-Type'', ''application/json'')], 500)))"

section \<open>Registration of the hooks\<close>

definition accounts_uri :: string where
  "accounts_uri = ''/redfish/v1/AccountService/Accounts''"

definition account_uri :: "string \<Rightarrow> bool" where
  "account_uri uri \<longleftrightarrow> HasPrefix uri (accounts_uri @ ''/'') \<and>
     (let rest = drop (length accounts_uri + 1) uri in rest \<noteq> [] \<and> list_all alnum rest)"

definition schema_uri :: "string \<Rightarrow> bool" where
  "schema_uri uri \<longleftrightarrow> HasPrefix uri ''/redfish/v1/JsonSchemas/'' \<and>
     (let rest = drop 24 uri in rest \<noteq> [] \<and> list_all (\<lambda>c. alnum c \<or> c = CHR ''.'' \<or> c = CHR ''_'') rest)"

text \<open>An after hook of the account service leaves the response as it is.\<close>

definition after_hook :: "(Event \<Rightarrow> hook_ctx \<Rightarrow> gobj \<Rightarrow> ('w AccountService, hook_result) go) \<Rightarrow> 'w hook_cb" where
  "after_hook f event ctx response = go_bind (f event ctx response) (\<lambda>r. go_return (r, ctx, response))"

definition initAccountService :: "'w redfishServer \<Rightarrow> 'w redfishServer" where
  "initAccountService rs =
     (let rfd = rs_rfd rs; bc = rs_bcrypt rs;
          service = \<lparr> URIRegex = (\<lambda>uri. uri = ''/redfish/v1/AccountService''), BeforeCB = None,
                      AfterCB = Some (after_hook (\<lambda>event ctx response. Update event response)) \<rparr>;
          account = \<lparr> URIRegex = account_uri, BeforeCB = Some (UpdateAccountBefore bc),
                      AfterCB = Some (after_hook (UpdateAccountAfter rfd)) \<rparr>
      in (addHookIn ''DELETE'' \<lparr> URIRegex = account_uri, BeforeCB = None,
              AfterCB = Some (after_hook (\<lambda>event ctx response. RemoveAccount rfd event response)) \<rparr>
          (addHookIn ''PUT'' account (addHookIn ''PUT'' service
          (addHookIn ''PATCH'' account (addHookIn ''PATCH'' service
          (addHookIn ''POST'' \<lparr> URIRegex = (\<lambda>uri. uri = accounts_uri), BeforeCB = Some (AddAccountBefore bc),
              AfterCB = Some (after_hook (AddAccountAfter rfd)) \<rparr> rs)))))))"

definition schema_collection_cb :: "schema_pool \<Rightarrow> 'w CollectionCB" where
  "schema_collection_cb pool collection collectionPath instance_name =
     (if r_Name (r_info collection) \<noteq> ''JsonSchemaFileCollection'' \<and> collectionPath \<noteq> ''/redfish/v1/JsonSchemas''
      then go_return False else go_return (Exists pool (instance_name @ ''.json'')))"

definition initJSONSchemaService :: "'w redfishServer \<Rightarrow> 'w redfishServer" where
  "initJSONSchemaService rs =
     (let pool = jsonSchemasCollection rs
      in addHookIn ''GET'' \<lparr> URIRegex = schema_uri, BeforeCB = Some (HandleResource pool), AfterCB = None \<rparr>
          (addHookIn ''GET'' \<lparr> URIRegex = (\<lambda>uri. uri = ''/redfish/v1/JsonSchemas''), BeforeCB = None,
              AfterCB = Some (HandleCollection pool) \<rparr>
          (rs\<lparr>rs_rfd := RegisterCollectionCB (rs_rfd rs) (schema_collection_cb pool)\<rparr>)))"

end
