(* ===== verification/Rf_Answers.thy ===== *)
theory Rf_Answers
  imports Rf_Server
begin

text \<open>
  The answers of the server: every request that ends is answered with a known status, whatever the
  world does. The proof follows the structure of the handlers with rules for the sequencing.
\<close>

section \<open>Answers\<close>

text \<open>\<open>yields m P\<close>: whenever \<open>m\<close> returns, it returns a value with \<open>P\<close>.\<close>

definition yields :: "('s, 'a) go \<Rightarrow> ('a \<Rightarrow> bool) \<Rightarrow> bool" where
  "yields m P \<longleftrightarrow> (\<forall>s r s'. m s = (Ret r, s') \<longrightarrow> P r)"

lemma yields_leaf [simp]:
  "yields (go_return r) P = P r" "yields (Pair (Ret r)) P = P r" "yields (go_panic p) P" "yields (Pair (Panic p)) P"
  "yields (go_fatal p) P" "yields conv_panic P"
  by (simp_all add: yields_def conv_panic_def)

lemma yields_bind: "yields m Q \<Longrightarrow> (\<And>x. Q x \<Longrightarrow> yields (f x) P) \<Longrightarrow> yields (go_bind m f) P"
  unfolding yields_def go_bind_apply by (fastforce split: prod.splits outcome.splits)

lemma yields_True [simp]: "yields m (\<lambda>_. True)"
  by (simp add: yields_def)

lemma yields_bind_any: "(\<And>x. yields (f x) P) \<Longrightarrow> yields (go_bind m f) P"
  by (rule yields_bind [OF yields_True])

lemma yields_must: "(\<And>x. yields (f x) P) \<Longrightarrow> yields (go_must m f) P"
  unfolding go_must_def by (rule yields_bind_any) (simp split: sum.split)

definition known_statuses :: "int set" where
  "known_statuses = {200, 201, 204, 400, 401, 404, 405, 409, 500}"

definition known :: "response \<Rightarrow> bool" where
  "known r \<longleftrightarrow> snd (snd r) \<in> known_statuses"

definition known_fixed :: "body \<times> int \<Rightarrow> bool" where
  "known_fixed bs \<longleftrightarrow> snd bs \<in> known_statuses"

text \<open>A hook that ends a request with an answer of its own uses a known status.\<close>

definition result_ok :: "hook_result \<Rightarrow> bool" where
  "result_ok r \<longleftrightarrow> (fst r \<noteq> None \<longrightarrow> fst (snd r) \<in> known_statuses)"

definition opt_result_ok :: "hook_result option \<Rightarrow> bool" where
  "opt_result_ok r \<longleftrightarrow> (\<forall>res. r = Some res \<longrightarrow> result_ok res)"

definition hook_ok :: "'w hook_cb \<Rightarrow> bool" where
  "hook_ok cb \<longleftrightarrow> (\<forall>event ctx m. yields (cb event ctx m) (\<lambda>x. result_ok (fst x)))"

definition hooks_ok :: "'w redfishServer \<Rightarrow> bool" where
  "hooks_ok rs \<longleftrightarrow> (\<forall>(m, hs) \<in> set (beforeHookIns rs). \<forall>h \<in> set hs. \<forall>cb. BeforeCB h = Some cb \<longrightarrow> hook_ok cb) \<and>
     (\<forall>(m, hs) \<in> set (afterHookIns rs). \<forall>h \<in> set hs. \<forall>cb. AfterCB h = Some cb \<longrightarrow> hook_ok cb)"

definition opt_known :: "(body \<times> int) option \<Rightarrow> bool" where
  "opt_known o' \<longleftrightarrow> (\<forall>bs. o' = Some bs \<longrightarrow> known_fixed bs)"

lemma known_simps [simp]:
  "known (b, hs, code) \<longleftrightarrow> code \<in> known_statuses" "known_fixed (b', code) \<longleftrightarrow> code \<in> known_statuses"
  "known (fixed bs) \<longleftrightarrow> known_fixed bs" "opt_known None" "opt_known (Some bs) \<longleftrightarrow> known_fixed bs" "known not_allowed"
  "result_ok (None, code, err)" "result_ok (Some b'', code, err) \<longleftrightarrow> code \<in> known_statuses"
  "opt_result_ok None" "opt_result_ok (Some res) \<longleftrightarrow> result_ok res"
  by (simp_all add: result_ok_def opt_result_ok_def known_def known_fixed_def fixed_def opt_known_def not_allowed_def known_statuses_def)

lemma known_codes [simp]:
  "200 \<in> known_statuses" "201 \<in> known_statuses" "204 \<in> known_statuses" "400 \<in> known_statuses" "401 \<in> known_statuses"
  "404 \<in> known_statuses" "405 \<in> known_statuses" "409 \<in> known_statuses" "500 \<in> known_statuses"
  by (simp_all add: known_statuses_def)

lemma known_finish [simp]: "known (finish r) \<longleftrightarrow> known r"
  by (simp add: known_def finish_def split: prod.split)

lemma yields_messages:
  "yields (resourceMissing rs uri) known_fixed" "yields (internalServerError rs) known_fixed"
  "code \<in> known_statuses \<Longrightarrow> yields (message_response rs m code) known"
  by (simp_all add: resourceMissing_def internalServerError_def message_response_def yields_bind_any)

lemma yields_run_hooks:
  "\<forall>cb. Some cb \<in> set hs \<longrightarrow> hook_ok cb \<Longrightarrow> yields (run_hooks rs hs event ctx m) (\<lambda>x. opt_known (fst x))"
proof (induction rs hs event ctx m rule: run_hooks.induct)
  case (3 rs cb hs event ctx request)
  have cb: "yields (cb event ctx request) (\<lambda>x. result_ok (fst x))"
    using 3(2) by (simp add: hook_ok_def)
  show ?case unfolding run_hooks.simps
    by (rule yields_bind [OF cb])
      (use 3 in \<open>auto split: option.split intro!: yields_bind [OF yields_messages(2)]\<close>)
qed simp_all

lemma hooks_for_mem: "h \<in> set (hooks_for m meth) \<Longrightarrow> \<exists>hs. (meth, hs) \<in> set m \<and> h \<in> set hs"
  using map_of_SomeD [of m meth] by (force simp: hooks_for_def split: option.splits)

lemma yields_before: "hooks_ok rs \<Longrightarrow> yields (runBeforeHookIns rs m event ctx req) (\<lambda>x. opt_known (fst x))"
  unfolding runBeforeHookIns_def findBeforeHookIns_def
  by (rule yields_run_hooks) (auto simp: hooks_ok_def dest!: hooks_for_mem)

lemma yields_after: "hooks_ok rs \<Longrightarrow> yields (runAfterHookIns rs m event ctx req) (\<lambda>x. opt_known (fst x))"
  unfolding runAfterHookIns_def findAfterHookIns_def
  by (rule yields_run_hooks) (auto simp: hooks_ok_def dest!: hooks_for_mem)


lemma yields_reject: "yields (reject_missing rs report) opt_known"
  by (auto simp: reject_missing_def Let_def Marshal_def intro!: yields_bind_any)

text \<open>The steps whose result says nothing about the status.\<close>

lemmas yields_step =
  yields_bind_any [of _ known "operationPermitted rs r x y" for rs r x y]
  yields_bind_any [of _ known "on_ext m" for m]
  yields_bind_any [of _ known "build_payload r2s ps uri" for r2s ps uri]
  yields_bind_any [of _ known "checkResource vd res obj" for vd res obj]
  yields_bind_any [of _ known "posted_id obj" for obj]
  yields_bind_any [of _ known "with_log m" for m]
  yields_bind_any [of _ known "annotate_paths rs m ps pl" for rs m ps pl]

lemmas answer_intros = yields_bind [OF yields_messages(1)] yields_bind [OF yields_messages(2)] yields_messages(3)
  yields_bind [OF yields_reject] yields_must yields_step

lemma handleGet_known: "hooks_ok rs \<Longrightarrow> yields (handleGetRequest rs r r2s) known"
  unfolding handleGetRequest_def
  by (auto split: option.split sum.split intro!: answer_intros yields_bind [OF yields_before] yields_bind [OF yields_after])

lemma handleDelete_known: "hooks_ok rs \<Longrightarrow> yields (handleDeleteRequest rs r r2s) known"
  unfolding handleDeleteRequest_def
  by (auto split: option.split sum.split intro!: answer_intros yields_bind [OF yields_before] yields_bind [OF yields_after])

lemma handlePut_known: "hooks_ok rs \<Longrightarrow> yields (handlePutRequest rs r r2s) known"
  unfolding handlePutRequest_def
  by (auto split: option.split sum.split intro!: answer_intros yields_bind [OF yields_before] yields_bind [OF yields_after])

lemma handlePatch_known: "hooks_ok rs \<Longrightarrow> yields (handlePatchRequest rs r r2s) known"
  unfolding handlePatchRequest_def Let_def
  by (auto split: option.split sum.split intro!: answer_intros yields_bind [OF yields_before] yields_bind [OF yields_after])

lemma creation_known: "hooks_ok rs \<Longrightarrow> yields (handleResourceCreation rs r c) known"
  unfolding handleResourceCreation_def Let_def
  by (auto split: option.split sum.split intro!: answer_intros yields_bind [OF yields_before] yields_bind [OF yields_after])

lemma handlePost_known: "hooks_ok rs \<Longrightarrow> yields (handlePostRequest rs r) known"
  unfolding handlePostRequest_def
  by (auto split: option.split sum.split intro!: answer_intros creation_known)

lemma dispatch_known: "hooks_ok rs \<Longrightarrow> yields (dispatch rs r) known"
  by (simp add: dispatch_def Let_def handlePost_known handleGet_known handlePatch_known handleDelete_known handlePut_known)

lemma yields_recovering: "yields m P \<Longrightarrow> yields h P \<Longrightarrow> yields (recovering m h) P"
  unfolding yields_def recovering_def by (fastforce split: prod.splits outcome.splits)

lemma recovering_no_panic: "(\<And>s p. fst (h s) \<noteq> Panic p) \<Longrightarrow> fst (recovering m h s) \<noteq> Panic p"
  by (simp add: recovering_def split: prod.split outcome.split)

lemma error_answer:
  fixes s :: 's
  assumes "\<forall>s' :: 's. \<exists>b. message_body regs ''InternalError'' [] s' = (Ret b, s')"
  shows "fst (go_bind (message_body regs ''InternalError'' []) (\<lambda>b. go_return (f b)) s) \<noteq> Panic p"
proof -
  obtain b where "message_body regs ''InternalError'' [] s = (Ret b, s)" using assms by blast
  then show ?thesis by (simp add: go_bind_Ret)
qed

lemma handleRequest_known: "hooks_ok rs \<Longrightarrow> yields (handleRequest rs req) known"
  unfolding handleRequest_def Let_def
  by (intro yields_recovering yields_bind_any)
    (auto split: prod.split option.split sum.split intro!: yields_bind_any [of _ known "AuthenticateAccount a b c d e" for a b c d e]
       yields_bind [OF dispatch_known])

text \<open>The hooks that the server registers.\<close>

lemma yields_password:
  "yields (take_password bc p ctx m) (\<lambda>x. opt_result_ok (fst x))"
  by (auto simp: take_password_def Let_def StatusBadRequest_def split: sum.split intro!: yields_bind_any)

lemma AddAccountBefore_ok: "hook_ok (AddAccountBefore bc)"
  unfolding hook_ok_def AddAccountBefore_def
  by (auto split: option.split gval.split intro!: yields_bind [OF yields_password])

lemma UpdateBefore_ok: "yields (UpdateBefore bc a event ctx m) (\<lambda>x. result_ok (fst x))"
proof -
  have "yields (case map_of m ''Password'' of None \<Rightarrow> go_return (None, ctx, m)
      | Some (GString password) \<Rightarrow> take_password bc password ctx m | Some _ \<Rightarrow> conv_panic)
      (\<lambda>x. opt_result_ok (fst x))"
    by (auto split: option.split gval.split intro!: yields_password)
  then show ?thesis unfolding UpdateBefore_def
    by (rule yields_bind) (auto split: option.split gval.split intro!: yields_bind_any)
qed

lemma UpdateAccountBefore_ok: "hook_ok (UpdateAccountBefore bc)"
  unfolding hook_ok_def UpdateAccountBefore_def Let_def
  by (auto split: option.split intro!: yields_bind_any UpdateBefore_ok)

lemma after_hook_ok: "(\<And>event ctx m. yields (f event ctx m) (\<lambda>(b, _). b = None)) \<Longrightarrow> hook_ok (after_hook f)"
  unfolding hook_ok_def after_hook_def
  by (intro allI, rule yields_bind [where Q = "\<lambda>(b, _). b = None"]) (auto simp: result_ok_def)

lemma yields_no_body: "yields m (\<lambda>x. fst x = None) \<Longrightarrow> yields m (\<lambda>(b, _). b = None)"
  by (simp add: case_prod_beta')

lemma AddAccountAfter_ok: "yields (AddAccountAfter rfd event ctx m) (\<lambda>x. fst x = None)"
  unfolding AddAccountAfter_def by (auto split: option.split sum.split intro!: yields_bind_any)

lemma UpdateAfter_ok: "yields (UpdateAccountAfter rfd event ctx m) (\<lambda>x. fst x = None)"
  unfolding UpdateAccountAfter_def UpdateAfter_def by (auto split: option.split sum.split intro!: yields_bind_any)

lemma RemoveAccount_ok: "yields (RemoveAccount rfd event m) (\<lambda>x. fst x = None)"
  unfolding RemoveAccount_def by (auto split: option.split sum.split gval.split intro!: yields_bind_any)

lemma Update_ok: "yields (Update event m) (\<lambda>x. fst x = None)"
  unfolding Update_def by (auto intro!: yields_bind_any)

lemmas after_hooks_ok = AddAccountAfter_ok [THEN yields_no_body, THEN after_hook_ok]
  UpdateAfter_ok [THEN yields_no_body, THEN after_hook_ok] RemoveAccount_ok [THEN yields_no_body, THEN after_hook_ok]
  Update_ok [THEN yields_no_body, THEN after_hook_ok]

lemma schema_hooks_ok: "hook_ok (HandleCollection pool)" "hook_ok (HandleResource pool)"
  unfolding hook_ok_def HandleCollection_def HandleResource_def Let_def
  by (auto split: option.split gval.split intro!: yields_bind_any)

lemma addHookIn_simps [simp]:
  "messageRegistries (addHookIn m h rs) = messageRegistries rs" "rs_rfd (addHookIn m h rs) = rs_rfd rs"
  "jsonSchemasCollection (addHookIn m h rs) = jsonSchemasCollection rs"
  by (simp_all add: addHookIn_def Let_def)

lemma hooks_ok_add:
  assumes "hooks_ok rs" "\<forall>cb. BeforeCB h = Some cb \<longrightarrow> hook_ok cb" "\<forall>cb. AfterCB h = Some cb \<longrightarrow> hook_ok cb"
  shows "hooks_ok (addHookIn m h rs)"
proof -
  have new: "\<forall>(m', hs') \<in> set (AList.update m (hooks_for t m @ [h]) t). \<forall>x \<in> set hs'. P x"
    if "\<forall>(m', hs') \<in> set t. \<forall>x \<in> set hs'. P x" "P h" for t and P :: "'a HookIn \<Rightarrow> bool"
    using that AList_update_set [of m "hooks_for t m @ [h]" t] by (fastforce dest: hooks_for_mem)
  show ?thesis using assms new [of "beforeHookIns rs" "\<lambda>h. \<forall>cb. BeforeCB h = Some cb \<longrightarrow> hook_ok cb"]
      new [of "afterHookIns rs" "\<lambda>h. \<forall>cb. AfterCB h = Some cb \<longrightarrow> hook_ok cb"]
    by (simp add: hooks_ok_def addHookIn_def Let_def)
qed

lemma init_hooks_ok: "hooks_ok rs \<Longrightarrow> hooks_ok (initJSONSchemaService (initAccountService rs))"
proof -
  assume rs: "hooks_ok rs"
  have rfd: "hooks_ok (r\<lparr>rs_rfd := d\<rparr>) = hooks_ok r" for r d by (simp add: hooks_ok_def)
  show ?thesis unfolding initAccountService_def initJSONSchemaService_def Let_def
    by (intro hooks_ok_add) (simp_all add: rfd rs hooks_ok_add AddAccountBefore_ok UpdateAccountBefore_ok after_hooks_ok schema_hooks_ok)
qed

section \<open>Properties\<close>

text \<open>
  C26. Every request gets an answer with one of the statuses of the interface: a request to the server with the hooks of the
  account and schema services never ends in a panic, and when it is answered the status is 200, 201,
  204, 400, 401, 404, 405, 409 or 500.
\<close>

theorem request_answered:
  assumes "beforeHookIns rs0 = []" "afterHookIns rs0 = []" "rs = initJSONSchemaService (initAccountService rs0)"
    and "\<forall>s'. \<exists>b. message_body (messageRegistries rs0) ''InternalError'' [] (s' :: 'w AccountService) = (Ret b, s')"
  shows "(\<forall>p. fst (handleRequest rs req (s :: 'w AccountService)) \<noteq> Panic p) \<and>
    (\<forall>body headers status s'. handleRequest rs req s = (Ret (body, headers, status), s') \<longrightarrow>
       status \<in> {200, 201, 204, 400, 401, 404, 405, 409, 500})"
proof -
  have "hooks_ok rs" unfolding assms(3) by (rule init_hooks_ok) (simp add: hooks_ok_def assms(1,2))
  then have "yields (handleRequest rs req) known" by (rule handleRequest_known)
  moreover have "messageRegistries rs = messageRegistries rs0"
    by (simp add: assms(3) initJSONSchemaService_def initAccountService_def Let_def)
  then have "fst (handleRequest rs req s) \<noteq> Panic p" for p
    unfolding handleRequest_def by (intro recovering_no_panic) (simp, rule error_answer [OF assms(4)])
  ultimately show ?thesis by (auto simp: yields_def known_def known_statuses_def)
qed


section \<open>A concrete server\<close>

definition ex_message :: "string \<Rightarrow> float64 \<Rightarrow> gval" where
  "ex_message text n = GObj [(''Message'', GString text), (''NumberOfArgs'', GFloat n), (''ParamTypes'', GArr [GString ''string''])]"

definition ex_registries :: gobj where
  "ex_registries = [(''Base'', GObj [(''RegistryVersion'', GString ''1.4.0''),
     (''Messages'', GObj [(''InternalError'', ex_message ''internal error'' 0),
        (''InsufficientPrivilege'', ex_message ''insufficient privileges'' 0),
        (''PropertyUnknown'', ex_message ''The property %1 is not known'' 0x3FF0000000000000)])])]"

definition ex_privileges :: PrivilegeRegistry where
  "ex_privileges = index_registry \<lparr> pr_Id = [], pr_Name = [], PrivilegesUsed = [], OEMPrivilegesUsed = [],
     Mappings = [\<lparr> Entity = ''Outlet'', m_OperationMap = [(''GET'', [\<lparr> Privilege = [''Login''] \<rparr>]),
         (''DELETE'', [\<lparr> Privilege = [''ConfigureManager''] \<rparr>]), (''PATCH'', [\<lparr> Privilege = [''Login''] \<rparr>]),
         (''PUT'', [\<lparr> Privilege = [''Login''] \<rparr>])],
       PropertyOverrides = [], ResourceURIOverrides = [], SubordinateOverrides = [] \<rparr>], entityMappings = [] \<rparr>"

definition ex_server :: "mem redfishServer" where
  "ex_server = \<lparr> rs_rfd = ex_rfd, rs_ipc = ex_ipc, rs_bcrypt = ex_bcrypt,
     rs_validators = \<lparr> timeParse_RFC3339 = (\<lambda>_. True), ParseRequestURI = (\<lambda>_. True), Compile = (\<lambda>_. None) \<rparr>, rs_fuel = 20,
     privilegeRegistry = ex_privileges, messageRegistries = ex_registries, jsonSchemasCollection = [],
     beforeHookIns = [], afterHookIns = [] \<rparr>"

definition ex_input :: "string \<Rightarrow> (string \<times> string) option \<Rightarrow> http_input" where
  "ex_input method auth = \<lparr> in_Host = ''x0:80'', in_Path = ''/redfish/v1/Outlet'', in_Method = method, in_BasicAuth = auth, in_Body = Inr [] \<rparr>"

lemma ex_internal_error: "\<exists>b. message_body ex_registries ''InternalError'' [] s = (Ret b, s)"
proof -
  have split: "Split1 ''1.4.0'' CHR ''.'' = [''1'', ''4'', ''0'']" by code_simp
  have lt: "f64_lt (f64_of_nat 0) 0 = False" "f64_lt 0 (f64_of_nat 0) = False" "f64_lt 0 0 = False" by code_simp+
  show ?thesis by (simp add: message_body_def GetRedfishMessage_def ex_registries_def ex_message_def split lt go_bind_apply Let_def)
qed

theorem request_answered_witness:
  "\<forall>p. fst (handleRequest (initJSONSchemaService (initAccountService ex_server)) (ex_input ''GET'' None) (ex_service ex_account 0)) \<noteq> Panic p"
proof -
  have "beforeHookIns ex_server = []" "afterHookIns ex_server = []" by (simp_all add: ex_server_def)
  moreover have "\<forall>s'. \<exists>b. message_body (messageRegistries ex_server) ''InternalError'' [] (s' :: mem AccountService) = (Ret b, s')"
    unfolding ex_server_def by (simp add: ex_internal_error)
  ultimately show ?thesis by (rule request_answered [OF _ _ refl, THEN conjunct1])
qed

end
