(* ===== verification/Rf_Access.thy ===== *)
theory Rf_Access
  imports Rf_Answers
begin

text \<open>
  Who may change what: requests without valid credentials and requests without the required
  privileges have no effect on the resources, and a partial update writes only fields that are
  known, writable and permitted.
\<close>

section \<open>Messages and lookups do not write\<close>

lemma checks_fill_args: "checks (fill_args pt i args msg) (\<lambda>_. True)"
proof (induction args arbitrary: i msg)
  case (Cons arg args)
  have "checks (arg_text pt i arg) (\<lambda>_. True)" for i
    by (simp add: arg_text_def Let_def split: msg_arg.split option.split gval.split)
  then show ?case unfolding fill_args.simps go_check_def
    by (rule checks_bind_any) (auto simp: Cons Let_def split: sum.split option.split gval.split)
qed simp

lemma checks_GetRedfishMessage: "checks (GetRedfishMessage regs p m args) (\<lambda>_. True)"
  by (simp add: GetRedfishMessage_def Let_def checks_fill_args split: option.split gval.split)

lemma checks_message_body: "checks (message_body regs m args) (\<lambda>_. True)"
  unfolding message_body_def by (rule checks_bind_any [OF checks_GetRedfishMessage]) simp

lemma checks_snd: "checks m P \<Longrightarrow> snd (m s) = s"
  by (simp add: checks_def)

lemma preserves_Pair [simp, intro]: "preserves P (Pair r)"
  by (simp add: preserves_def)

lemma preserves_walk_loop:
  assumes "\<And>r p t. preserves P (cb r p t)"
  shows "preserves P (walk_loop cb seen tokens res cur walking)"
proof (induction tokens arbitrary: seen res cur walking)
  case (Cons token tokens)
  then show ?case using assms
    by (auto split: option.split intro!: preserves_bind)
qed (auto split: option.split)

lemma preserves_GetResource:
  assumes "redis_server (rfd_redis rfd) view" "\<forall>cb \<in> set (additionalCollectionCBs rfd). \<forall>r p t. preserves P (cb r p t)"
  shows "preserves P (GetResource rfd uri xname)"
proof -
  have "preserves P (any_cb cbs r p t)" if "\<forall>cb \<in> set cbs. \<forall>r p t. preserves P (cb r p t)" for cbs r p t
    using that by (induction cbs) (auto intro!: preserves_bind)
  then have "preserves P (any_cb (additionalCollectionCBs rfd) r p t)" for r p t using assms(2) by blast
  moreover have "preserves P (rExists (rfd_redis rfd) k)" for k
    using redis_server.exists_law [OF assms(1)] by (simp add: preserves_def)
  ultimately have "preserves P (collection_cb rfd xname r p t)" for r p t
    unfolding collection_cb_def Let_def by (auto intro!: preserves_must)
  then show ?thesis unfolding GetResource_def WalkTree_def
    by (auto split: option.split intro!: preserves_walk_loop)
qed

section \<open>Authentication only touches accounts\<close>

definition account_region :: "string \<Rightarrow> bool" where
  "account_region k \<longleftrightarrow> HasPrefix k ''/redfish/v1/AccountService/Accounts/''"

definition same_outside :: "('w \<Rightarrow> rdb) \<Rightarrow> 'w \<Rightarrow> 'w \<Rightarrow> bool" where
  "same_outside view w w' \<longleftrightarrow> (\<forall>k. \<not> account_region k \<longrightarrow> view w' k = view w k)"

lemma setLockOut_outside:
  assumes "redis_server (rfd_redis rfd) view"
  shows "same_outside view (ext s) (ext (snd (setLockOut rfd fuel a v s)))"
proof -
  let ?key = "''/redfish/v1/AccountService/Accounts/'' @ ma_Id (acct s a)"
  have region: "under ?key k \<Longrightarrow> account_region k" for k
    by (auto simp: under_iff account_region_def HasPrefix_def)
  have "ext (snd (setLockOut rfd fuel a v s)) =
      snd (RedisPatch (rfd_redis rfd) fuel (GObj [(''Locked'', GString (FormatBool v))]) ?key (ext s))"
    by (simp add: setLockOut_def go_bind_apply on_ext_apply Let_def del: RedisPatch.simps append_Cons append_Nil)
  moreover have "keeps view ?key (RedisPatch (rfd_redis rfd) fuel (GObj [(''Locked'', GString (FormatBool v))]) ?key) (ext s)"
    by (rule redis_server.patch_keeps [OF assms])
  ultimately show ?thesis using region unfolding same_outside_def keeps_def by metis
qed

lemma login_outside:
  assumes "redis_server (rfd_redis rfd) view"
  shows "same_outside view (ext s) (ext (snd (AuthenticateAccount rfd bc fuel u p s)))"
proof -
  have "same_outside view (ext s) (ext (snd (failedLogin rfd fuel a s)))" for a
    using setLockOut_outside [OF assms, where fuel = fuel and a = a and v = True]
    by (auto simp: failedLogin_def go_bind_apply go_check_unit_state same_outside_def)
  then show ?thesis by (auto simp: AuthenticateAccount_state Authenticate_state same_outside_def split: option.split)
qed


section \<open>Properties\<close>


text \<open>
  C5. Missing privileges stop a request: a GET, POST, PUT or DELETE by an account that lacks the
  privileges for the resource leaves the state as it is, and it is answered with the message
  \<open>InsufficientPrivilege\<close> and the status 401, or, for a GET of a property, with the message
  \<open>ResourceMissingAtURI\<close> and the status 404. The answer is fixed by the message: when the registry yields
  its text the request returns it with that status, and otherwise it fails in the same way as the message.
\<close>

theorem unprivileged_no_effect:
  assumes "httpOperation r \<in> {''GET'', ''POST'', ''PUT'', ''DELETE''}" "rq_resource r = Some res"
    and "operationPermitted rs r res [] s = (Ret False, s)" "dispatch rs r s = (outcome, s')"
    and "(message, args, code :: int) = (if httpOperation r = ''GET'' \<and> rq_property r \<noteq> None
      then (''ResourceMissingAtURI'', [StrArg (rq_uri r)], 404) else (''InsufficientPrivilege'', [], 401))"
  shows "s' = s \<and> outcome = (case fst (message_body (messageRegistries rs) message args s) of
      Ret b \<Rightarrow> Ret (Some b, [], code) | Panic p \<Rightarrow> Panic p | Fatal f \<Rightarrow> Fatal f | NoFuel \<Rightarrow> NoFuel)"
proof -
  have run: "go_bind (message_body (messageRegistries rs) m ms) (\<lambda>b. go_return (Some b, [], c)) s =
      (case fst (message_body (messageRegistries rs) m ms s) of
        Ret b \<Rightarrow> Ret (Some b, [], c) | Panic p \<Rightarrow> Panic p | Fatal f \<Rightarrow> Fatal f | NoFuel \<Rightarrow> NoFuel, s)" for m ms and c :: int
    using checks_state [OF checks_message_body, of "messageRegistries rs" m ms s] by (auto simp: go_bind_apply split: outcome.split)
  have priv: "message_response rs ''InsufficientPrivilege'' 401 s =
      go_bind (message_body (messageRegistries rs) ''InsufficientPrivilege'' []) (\<lambda>b. go_return (Some b, [], 401)) s"
    by (simp add: message_response_def)
  have miss: "go_bind (resourceMissing rs (rq_uri r)) (\<lambda>bs. go_return (fixed bs)) s =
      go_bind (message_body (messageRegistries rs) ''ResourceMissingAtURI'' [StrArg (rq_uri r)]) (\<lambda>b. go_return (Some b, [], 404)) s"
    by (simp add: resourceMissing_def fixed_def go_bind_apply split: outcome.split prod.split)
  have post: "handlePostRequest rs r s = message_response rs ''InsufficientPrivilege'' 401 s"
    using assms(2,3) by (simp add: handlePostRequest_def go_bind_apply)
  have put: "handlePutRequest rs r x s = message_response rs ''InsufficientPrivilege'' 401 s" for x
    using assms(2,3) by (simp add: handlePutRequest_def go_bind_apply)
  have del: "handleDeleteRequest rs r x s = message_response rs ''InsufficientPrivilege'' 401 s" for x
    using assms(2,3) by (simp add: handleDeleteRequest_def go_bind_apply)
  have get: "handleGetRequest rs r x s = (if rq_property r = None then message_response rs ''InsufficientPrivilege'' 401 s
      else go_bind (resourceMissing rs (rq_uri r)) (\<lambda>bs. go_return (fixed bs)) s)" for x
    using assms(2,3) by (simp add: handleGetRequest_def go_bind_apply)
  have "dispatch rs r s = (if httpOperation r = ''GET'' \<and> rq_property r \<noteq> None
      then go_bind (resourceMissing rs (rq_uri r)) (\<lambda>bs. go_return (fixed bs)) s else message_response rs ''InsufficientPrivilege'' 401 s)"
    using assms(1) by (auto simp: dispatch_def Let_def post put del get)
  then have "dispatch rs r s = go_bind (message_body (messageRegistries rs) message args) (\<lambda>b. go_return (Some b, [], code)) s"
    using assms(5) unfolding priv miss by (cases "httpOperation r = ''GET'' \<and> rq_property r \<noteq> None") (simp_all only: if_True if_False prod.inject simp_thms)
  then show ?thesis using assms(4) unfolding run by (simp only: prod.inject simp_thms)
qed

text \<open>
  The members of the collections of a running server: an instance that is not named like a property of the
  collection and whose key is in the database, or a schema file of the collection of schemas.
\<close>

definition server_member :: "('w \<Rightarrow> rdb) \<Rightarrow> schema_pool \<Rightarrow> string \<Rightarrow> 'w \<Rightarrow> resource \<Rightarrow> string \<Rightarrow> string \<Rightarrow> bool" where
  "server_member view pool xname w collection path instance_name \<longleftrightarrow>
     map_of (r_Properties collection) instance_name = None \<and>
     (view w (xname @ path @ ''/'' @ instance_name) \<noteq> None \<or>
      (r_Name (r_info collection) = ''JsonSchemaFileCollection'' \<or> xname @ path = ''/redfish/v1/JsonSchemas'') \<and>
      Exists pool (instance_name @ ''.json''))"

lemma addHookIn_same [simp]: "rs_rfd (addHookIn m h rs) = rs_rfd rs" "jsonSchemasCollection (addHookIn m h rs) = jsonSchemasCollection rs"
  "privilegeRegistry (addHookIn m h rs) = privilegeRegistry rs"
  by (simp_all add: addHookIn_def Let_def)

lemma server_dispatcher:
  "rs_rfd (initJSONSchemaService (initAccountService rs)) = RegisterCollectionCB (rs_rfd rs) (schema_collection_cb (jsonSchemasCollection rs))"
  by (simp add: initJSONSchemaService_def initAccountService_def Let_def)

text \<open>
  C13. A running server resolves a URI exactly when its tokens lead to a location of the schema: with
  the hooks and the callback of the account and schema services, \<open>GetResource\<close> returns a resource and
  property if and only if they are the ones the navigation rules reach, with the members of collections
  taken from the database of the device and, for the collection of schemas, from the loaded files.
\<close>

theorem GetResource_resolves:
  assumes "redis_server (rfd_redis (rs_rfd rs0)) view" "additionalCollectionCBs (rs_rfd rs0) = []"
    and "rs = initJSONSchemaService (initAccountService rs0)"
  shows "GetResource (rs_rfd rs) uri xname w = (Ret (Some r, po), w) \<longleftrightarrow>
    (\<exists>ts. path_location uri = Some ts \<and>
       located (server_member view (jsonSchemasCollection rs0) xname w) (schemaTree (rs_rfd rs0)) ts r po)"
proof -
  let ?pool = "jsonSchemasCollection rs0"
  let ?q = "\<lambda>collection path t. (r_Name (r_info collection) = ''JsonSchemaFileCollection'' \<or> path = ''/redfish/v1/JsonSchemas'') \<and> Exists ?pool (t @ ''.json'')"
  have cb: "schema_collection_cb ?pool c p t w = (Ret (?q c p t), w)" for c p t by (simp add: schema_collection_cb_def)
  have m: "known_member view [?q] xname w = server_member view ?pool xname w"
    by (intro ext) (auto simp: known_member_def server_member_def)
  show ?thesis unfolding assms(3) server_dispatcher
    using GetResource_located [OF assms(1), of "RegisterCollectionCB (rs_rfd rs0) (schema_collection_cb ?pool)" w "[?q]" uri xname r po]
    by (simp add: RegisterCollectionCB_def assms(2) cb m)
qed


definition ex_request :: "string \<Rightarrow> gobj \<Rightarrow> httpRequest" where
  "ex_request method body = \<lparr> httpOperation = method, rq_account = 0, rq_uri = ''/redfish/v1/Outlet'', rq_resource = Some ex_res,
     rq_property = None, rq_xname = [], requestBody = Inr body \<rparr>"

lemmas ex_access_simps = operationPermitted_def RequiredPrivileges_def ex_server_def ex_privileges_def index_registry_def
  OperationAllowed_def GetRole_def ex_request_def ex_res_def

theorem unprivileged_no_effect_witness:
  "\<exists>outcome. dispatch ex_server (ex_request ''DELETE'' []) (ex_service ex_account 0) = (outcome, ex_service ex_account 0) \<and>
    (\<forall>body headers status. outcome = Ret (body, headers, status) \<longrightarrow> status = 401)"
proof -
  let ?s = "ex_service ex_account 0" and ?r = "ex_request ''DELETE'' []"
  have h: "httpOperation ?r \<in> {''GET'', ''POST'', ''PUT'', ''DELETE''}" "rq_resource ?r = Some ex_res"
    by (simp_all add: ex_request_def)
  have p: "operationPermitted ex_server ?r ex_res [] ?s = (Ret False, ?s)"
    by (simp add: ex_access_simps ex_service_simps go_bind_apply)
  obtain outcome s' where d: "dispatch ex_server ?r ?s = (outcome, s')" by fastforce
  have m: "(''InsufficientPrivilege'', [], 401) = (if httpOperation ?r = ''GET'' \<and> rq_property ?r \<noteq> None
      then (''ResourceMissingAtURI'', [StrArg (rq_uri ?r)], 404) else (''InsufficientPrivilege'', [], 401))"
    by (simp add: ex_request_def)
  show ?thesis using unprivileged_no_effect [OF h p d m] d by (auto split: outcome.splits)
qed

text \<open>A chassis that is in the database, and a schema that is not but has a file.\<close>

theorem GetResource_resolves_witness:
  "\<exists>r po r' po'. located (server_member mem_view [(''Chassis.json'', [])] ''x0'' [(''x0/redfish/v1/Chassis/1'', MSet [''Name''])]) ex_tree
       [''Chassis'', ''1'', ''Name''] r po \<and> po \<noteq> None \<and>
     located (server_member mem_view [(''Chassis.json'', [])] ''x0'' [(''x0/redfish/v1/Chassis/1'', MSet [''Name''])]) ex_tree
       [''JsonSchemas'', ''Chassis''] r' po' \<and> r_Name (r_info r') = ''JsonSchemaFile''"
proof -
  let ?w = "[(''x0/redfish/v1/Chassis/1'', MSet [''Name''])]"
  let ?base = "ex_server\<lparr>rs_rfd := ex_tree_rfd, jsonSchemasCollection := [(''Chassis.json'', [])]\<rparr>"
  let ?rs = "initJSONSchemaService (initAccountService ?base)"
  let ?r = "Resource (res_zero\<lparr>r_Name := ''Chassis''\<rparr>) None [(''Name'', mk_prop PropString)]"
    and ?r' = "Resource (res_zero\<lparr>r_Name := ''JsonSchemaFile''\<rparr>) None [(''Id'', mk_prop PropString)]"
  have rfd: "rs_rfd ?rs = RegisterCollectionCB ex_tree_rfd (schema_collection_cb [(''Chassis.json'', [])])"
    by (simp add: server_dispatcher)
  have run: "GetResource (rs_rfd ?rs) ''/redfish/v1/Chassis/1/Name/'' ''x0'' ?w = (Ret (Some ?r, Some (mk_prop PropString)), ?w)"
    "GetResource (rs_rfd ?rs) ''/redfish/v1/JsonSchemas/Chassis'' ''x0'' ?w = (Ret (Some ?r', None), ?w)"
    unfolding rfd by code_simp+
  have loc: "path_location ''/redfish/v1/Chassis/1/Name/'' = Some [''Chassis'', ''1'', ''Name'']"
    "path_location ''/redfish/v1/JsonSchemas/Chassis'' = Some [''JsonSchemas'', ''Chassis'']"
    by code_simp+
  have tree: "schemaTree (rs_rfd ?base) = ex_tree" "redis_server (rfd_redis (rs_rfd ?base)) mem_view"
    "additionalCollectionCBs (rs_rfd ?base) = []" by (simp_all add: ex_tree_rfd_def mem_redis_server)
  note res = GetResource_resolves [OF tree(2,3) refl]
  show ?thesis
    using res [of "''/redfish/v1/Chassis/1/Name/''" "''x0''" ?w ?r "Some (mk_prop PropString)"]
      res [of "''/redfish/v1/JsonSchemas/Chassis''" "''x0''" ?w ?r' None] run loc tree(1)
    by (intro exI [of _ ?r] exI [of _ "Some (mk_prop PropString)"] exI [of _ ?r'] exI [of _ None]) simp
qed

end
