(* ===== verification/Rf_Effects.thy ===== *)
theory Rf_Effects
  imports Rf_Access
begin

text \<open>
  What requests change: a GET changes nothing, and a PATCH writes only below the properties of the
  resource that are known, writable and permitted to the account.
\<close>

section \<open>Rebuilding a resource does not write\<close>

text \<open>
  The programs and the backend helpers that a read may run keep the property \<open>P\<close> of the world, for
  example what Redis holds.
\<close>

definition quiet :: "('w \<Rightarrow> bool) \<Rightarrow> 'w RedfishDispatcher \<Rightarrow> bool" where
  "quiet P rfd \<longleftrightarrow>
     (\<forall>f. preserves P (osStat (rfd_os rfd) f)) \<and> (\<forall>f. preserves P (osReadFile (rfd_os rfd) f)) \<and>
     (\<forall>f. preserves P (osLookPath (rfd_os rfd) f)) \<and> (\<forall>f args env. preserves P (osOutput (rfd_os rfd) f args env)) \<and>
     (\<forall>h \<in> set (BackendHelpers rfd). (\<forall>x. preserves P (GetEnvForXname h x)) \<and>
        (\<forall>k args env. preserves P (RunBackendHelper h k args env)))"

declare preserves_basic [simp]

context redis_server
begin

lemma reads_preserve [simp, intro]:
  "preserves P (rGet R k)" "preserves P (rExists R k)" "preserves P (rType R k)"
  "preserves P (rLRange R k)" "preserves P (rSMembers R k)"
proof -
  have "snd (rSMembers R k w) = w" for w
  proof (cases "set_result (view w k)")
    case (Inr S)
    then show ?thesis using smembers_ok [of w k S] by auto
  qed (simp add: smembers_err)
  then show "preserves P (rSMembers R k)" by (rule preserves_same)
qed (simp_all add: preserves_same get_law exists_law type_law lrange_law)

end

lemma preserves_executeFile: "quiet P rfd \<Longrightarrow> preserves P (executeFile (rfd_os rfd) s args env)"
  by (auto simp: executeFile_def quiet_def intro!: preserves_bind split: sum.split)

lemma preserves_DoFileHandler:
  assumes "redis_server (rfd_redis rfd) view" "quiet P rfd"
  shows "preserves P (DoFileHandler rfd h uri args env)"
proof -
  have "preserves P (file_fallback rfd uri args env)" for uri args env
    unfolding file_fallback_def using assms(2) preserves_executeFile [OF assms(2)]
    by (auto simp: quiet_def intro!: preserves_bind split: sum.split)
  then show ?thesis unfolding DoFileHandler_def Let_def
    using assms(2) preserves_executeFile [OF assms(2)] redis_server.reads_preserve [OF assms(1)]
    by (auto simp: quiet_def intro!: preserves_bind preserves_check split: sum.split DispatchHandlerOp.split)
qed

lemma preserves_ask_helpers:
  "\<forall>h \<in> set hs. (\<forall>x. preserves P (GetEnvForXname h x)) \<and> (\<forall>k args env. preserves P (RunBackendHelper h k args env)) \<Longrightarrow>
    preserves P (ask_helpers xname key hs)"
  by (induction hs) (auto intro!: preserves_bind split: sum.split)

lemma preserves_getValueForKey:
  assumes "redis_server (r2s_redis r2s) view" "quiet P (r2s_RFD r2s)"
  shows "preserves P (getValueForKey r2s key)"
proof -
  note reads = redis_server.reads_preserve [OF assms(1)]
  have "preserves P (generateOData r2s key)"
    unfolding generateOData_def Let_def using reads by (auto intro!: preserves_check)
  moreover have "preserves P (ask_helpers (r2s_XName r2s) key (BackendHelpers (r2s_RFD r2s)))"
    by (rule preserves_ask_helpers) (use assms(2) in \<open>simp add: quiet_def\<close>)
  ultimately show ?thesis unfolding getValueForKey_def
    using reads preserves_DoFileHandler [OF assms] by (auto intro!: preserves_bind split: sum.split)
qed

lemma preserves_buildAction:
  assumes "redis_server (r2s_redis r2s) view"
  shows "preserves P (buildAction r2s key)"
proof -
  note reads = redis_server.reads_preserve [OF assms]
  have "preserves P (action_fields r2s key names payload)" for names payload
    by (induction names arbitrary: payload) (auto simp: Let_def reads intro!: preserves_bind)
  then show ?thesis unfolding buildAction_def using reads by (auto intro!: preserves_bind split: sum.split)
qed

lemma preserves_build:
  fixes r2s :: "'w Redis2Interface"
  assumes "redis_server (r2s_redis r2s) view" "quiet P (r2s_RFD r2s)"
  shows "preserves P (BuildStruct r2s ps k)" "preserves P (build_field r2s p k n pl)"
    "preserves P (buildArray r2s p k)" "preserves P (buildLink r2s p k)" "preserves P (buildAutoExpandedLink r2s p k)"
  using assms
proof (induction r2s ps k and r2s p k n pl and r2s p k and r2s p k and r2s p k
       rule: BuildStruct_build_field_buildArray_buildLink_buildAutoExpandedLink.induct)
  case (1 r2s ps k)
  note reads = redis_server.reads_preserve [OF 1(2)]
  show ?case unfolding BuildStruct.simps Let_def using 1 reads
    by (auto intro!: preserves_bind preserves_check preserves_fold split: sum.split list.split option.split)
next
  case (2 r2s p k n pl)
  note facts = preserves_getValueForKey [OF 2(4,5)] preserves_buildAction [OF 2(4)]
  show ?case unfolding build_field.simps using 2 facts
    by (auto intro!: preserves_bind preserves_check split: sum.split PropertyType.split)
next
  case (3 r2s p k)
  note reads = redis_server.reads_preserve [OF 3(2)]
  show ?case unfolding buildArray.simps link_value_def using 3 reads
    by (auto intro!: preserves_bind preserves_check preserves_fold split: option.split)
next
  case (4 r2s p k)
  note reads = redis_server.reads_preserve [OF 4(2)]
  show ?case unfolding buildLink.simps link_value_def using 4 reads
    by (auto intro!: preserves_bind preserves_check)
next
  case (5 r2s p k)
  note reads = redis_server.reads_preserve [OF 5(2)]
  show ?case unfolding buildAutoExpandedLink.simps using 5 reads
    by (auto intro!: preserves_bind preserves_check preserves_fold split: option.split sum.split)
qed


section \<open>Effects on the whole state\<close>

text \<open>The state \<open>s0\<close> with another world, of which \<open>Q\<close> holds.\<close>

definition within :: "'w AccountService \<Rightarrow> ('w \<Rightarrow> bool) \<Rightarrow> 'w AccountService \<Rightarrow> bool" where
  "within s0 Q s \<longleftrightarrow> (\<exists>w. s = s0\<lparr>ext := w\<rparr> \<and> Q w)"

lemma within_iff: "within s0 Q s \<longleftrightarrow> s = s0\<lparr>ext := ext s\<rparr> \<and> Q (ext s)"
  by (force simp: within_def)

lemma preserves_within: "preserves Q m \<Longrightarrow> preserves (within s0 Q) (on_ext m)"
  by (auto simp: preserves_def within_def on_ext_apply)

lemma checks_preserves: "checks m P \<Longrightarrow> preserves Q m"
  by (rule preserves_same) (rule checks_snd)

lemma operationPermitted_same: "snd (operationPermitted rs r res property s) = s"
  by (auto simp: operationPermitted_def RequiredPrivileges_def OperationAllowed_def GetRole_def go_bind_apply split: option.split)

lemma preserves_message [simp]: "preserves Q (message_body regs m args)"
  by (rule checks_preserves [OF checks_message_body])

lemma preserves_answers [simp]:
  "preserves Q (internalServerError rs)" "preserves Q (resourceMissing rs uri)" "preserves Q (message_response rs m c)"
  by (auto simp: internalServerError_def resourceMissing_def message_response_def intro!: preserves_bind)

lemma preserves_permitted [simp]: "preserves Q (operationPermitted rs r res property)"
  by (simp add: preserves_same operationPermitted_same)

lemma preserves_run_hooks:
  "(\<And>cb e c q. Some cb \<in> set cbs \<Longrightarrow> preserves Q (cb e c q)) \<Longrightarrow> preserves Q (run_hooks rs cbs event ctx request)"
  by (induction rs cbs event ctx request rule: run_hooks.induct) (auto intro!: preserves_bind split: option.split)

lemma schema_hooks_same [simp]: "preserves Q (HandleCollection pool e c q)" "preserves Q (HandleResource pool e c q)"
  by (auto simp: HandleCollection_def HandleResource_def Let_def split: option.split gval.split intro!: preserves_bind)

lemma hooks_for_addHookIn [simp]:
  "hooks_for (beforeHookIns (addHookIn m h rs)) m' = hooks_for (beforeHookIns rs) m' @ (if m' = m \<and> BeforeCB h \<noteq> None then [h] else [])"
  "hooks_for (afterHookIns (addHookIn m h rs)) m' = hooks_for (afterHookIns rs) m' @ (if m' = m \<and> AfterCB h \<noteq> None then [h] else [])"
  by (simp_all add: addHookIn_def hooks_for_def Let_def update_conv')

lemmas server_hooks = initJSONSchemaService_def initAccountService_def Let_def findBeforeHookIns_def findAfterHookIns_def

lemma get_hooks:
  assumes "beforeHookIns rs0 = []" "afterHookIns rs0 = []"
  shows "Some cb \<in> set (map BeforeCB (findBeforeHookIns (initJSONSchemaService (initAccountService rs0)) ''GET'' uri)) \<Longrightarrow>
      cb = HandleResource (jsonSchemasCollection rs0)"
    "Some cb \<in> set (map AfterCB (findAfterHookIns (initJSONSchemaService (initAccountService rs0)) ''GET'' uri)) \<Longrightarrow>
      cb = HandleCollection (jsonSchemasCollection rs0)"
  using assms by (simp_all add: server_hooks hooks_for_def [of "[]"] split: if_splits)


section \<open>What the conversion of a PATCH lets through\<close>

text \<open>
  A field reaches the result of a conversion only when the callback agrees to it: \<open>Q\<close> is what the
  callback has checked when it agrees.
\<close>

definition allowed_field :: "(property \<Rightarrow> string list \<Rightarrow> bool) \<Rightarrow> property \<Rightarrow> string list \<Rightarrow> go_error + gval \<times> bool \<Rightarrow> bool" where
  "allowed_field Q p path r \<longleftrightarrow> (\<forall>g b. r = Inr (g, b) \<longrightarrow> g \<noteq> GNil \<or> b \<longrightarrow> Q p path)"

definition allowed_names :: "(property \<Rightarrow> string list \<Rightarrow> bool) \<Rightarrow> string list \<Rightarrow> properties \<Rightarrow> string set \<Rightarrow> go_error + gobj \<Rightarrow> bool" where
  "allowed_names Q path ps S r \<longleftrightarrow>
     (\<forall>fs. r = Inr fs \<longrightarrow> (\<forall>n \<in> fst ` set fs. n \<in> S \<or> (\<exists>p. map_of ps n = Some p \<and> Q p (path @ [n]))))"

lemma allowed_simps [simp]:
  "allowed_field Q p path (Inl e)" "allowed_field Q p path (Inr (g, b)) \<longleftrightarrow> g = GNil \<and> \<not> b \<or> Q p path"
  "allowed_names Q path ps S (Inl e)" "allowed_names Q path ps (fst ` set fs) (Inr fs)"
  by (auto simp: allowed_field_def allowed_names_def)

lemma allowed_names_update:
  assumes "allowed_names Q path ps (fst ` set (AList.update n g res)) r" "map_of ps n = Some p" "Q p (path @ [n])"
  shows "allowed_names Q path ps (fst ` set res) r"
proof -
  have "fst ` set (AList.update n g res) \<subseteq> insert n (fst ` set res)" by (induction res) auto
  then show ?thesis using assms unfolding allowed_names_def by blast
qed

lemma struct_allowed:
  fixes f :: "'c Interface2RedisCB"
  assumes unknown: "\<And>path v. ensures I (f None path v True) (\<lambda>_. True)"
    and agreed: "\<And>p path v. ensures I (f (Some p) path v False) (\<lambda>ok. ok \<longrightarrow> Q p path)"
  shows "ensures I (structField2Redis (Some f) path p v) (allowed_field Q p path)"
    and "ensures I (struct_elems (Some f) path p i vs) (\<lambda>_. True)"
    and "ensures I (struct_fields (Some f) path ps obj res) (allowed_names Q path ps (fst ` set res))"
proof (induction "Some f" path p v and "Some f" path p i vs and "Some f" path ps obj res
       rule: structField2Redis_struct_elems_struct_fields.induct)
  case (1 path p v)
  have fin: "ensures I (field_done (Some f) p path g) (allowed_field Q p path)" for g
    unfolding field_done_def by (simp, rule ensures_bind [OF agreed]) auto
  have null: "ensures I (go_bind (f (Some p) path GNil False) (\<lambda>allowed. go_return (Inr (GNil, allowed)))) (allowed_field Q p path)"
    by (rule ensures_bind [OF agreed]) auto
  have fields: "ensures I (struct_fields (Some f) path (p_Properties p) obj []) (\<lambda>r. \<forall>a. r = Inr a \<longrightarrow> True)"
    if "v = GObj obj" "pType p = PropObject" for obj using 1(1) that by (auto intro: ensures_mono)
  have elems: "ensures I (struct_elems (Some f) path e 0 vs) (\<lambda>r. \<forall>a. r = Inr a \<longrightarrow> True)"
    if "v = GArr vs" "pType p = PropArray" "p_ArrayOf p = Some e" for vs e using 1(2) that by (auto intro: ensures_mono)
  show ?case unfolding structField2Redis.simps
    by (auto simp: null fin intro!: ensures_check [OF fields] ensures_check [OF elems] split: PropertyType.split gval.split option.split)
next
  case (3 path p i e es)
  have "ensures I (structField2Redis (Some f) (path @ [FormatInt (int i)]) p e) (\<lambda>r. \<forall>a. r = Inr a \<longrightarrow> True)"
    using 3(1) by (rule ensures_mono) simp
  then show ?case unfolding struct_elems.simps
    by (rule ensures_check) (auto intro!: ensures_check [where Q = "\<lambda>_. True"] 3(2))
next
  case (5 path ps n v rest res)
  show ?case
  proof (cases "map_of ps n")
    case None
    then show ?thesis using 5(1) [OF None refl] by (auto intro!: ensures_bind [OF unknown])
  next
    case (Some p)
    have "ensures I (structField2Redis (Some f) (path @ [n]) p v) (\<lambda>r. \<forall>a. r = Inr a \<longrightarrow> allowed_field Q p (path @ [n]) (Inr a))"
      using 5(2) [OF Some] by (rule ensures_mono) auto
    then show ?thesis unfolding struct_fields.simps Some option.case
    proof (rule ensures_check)
      fix a :: "gval \<times> bool" assume a: "allowed_field Q p (path @ [n]) (Inr a)"
      show "ensures I (case a of (g, b) \<Rightarrow> struct_fields (Some f) path ps rest (if g \<noteq> GNil \<or> b then AList.update n g res else res))
          (allowed_names Q path ps (fst ` set res))"
        using 5(3) [OF Some, of "fst a" "snd a"] a
        by (cases a) (auto intro: ensures_mono elim!: allowed_names_update [OF _ Some])
    qed simp
  qed
qed simp_all


text \<open>What the callback of a PATCH has checked when it agrees to a field.\<close>

definition may_patch :: "'w redfishServer \<Rightarrow> httpRequest \<Rightarrow> resource \<Rightarrow> 'w AccountService \<Rightarrow> property \<Rightarrow> string list \<Rightarrow> bool" where
  "may_patch rs r res s p path \<longleftrightarrow> \<not> is_annotation (last path) \<and> \<not> p_ReadOnly (p_info p) \<and>
     (length path = 1 \<longrightarrow> fst (operationPermitted rs r res (last path) s) = Ret True)"

lemma operationPermitted_ext: "fst (operationPermitted rs r res n (s\<lparr>ext := w\<rparr>)) = fst (operationPermitted rs r res n s)"
  by (auto simp: operationPermitted_def RequiredPrivileges_def OperationAllowed_def GetRole_def acct_def go_bind_apply split: option.split)

lemma on_fst_simps: "fst (on_fst m c) = fst (m (fst c))" "fst (snd (on_fst m c)) = snd (m (fst c))"
  by (simp_all add: on_fst_def split: prod.split)

lemma patch_cb_agrees:
  fixes s :: "'w AccountService"
  shows "ensures (\<lambda>c. within s Q (fst c)) (patch_cb rs r res None path v True) (\<lambda>_. True)"
  "ensures (\<lambda>c. within s Q (fst c)) (patch_cb rs r res (Some p) path v False) (\<lambda>ok. ok \<longrightarrow> may_patch rs r res s p path)"
proof -
  let ?I = "\<lambda>c :: 'w AccountService \<times> patch_log. within s Q (fst c)"
  have count: "ensures ?I (\<lambda>(s, l). (Ret (), (s, l\<lparr>fieldCount := fieldCount l + 1\<rparr>))) (\<lambda>_. True)"
    by (auto simp: ensures_def)
  have log: "ensures ?I (log_path g) (\<lambda>ok. \<not> ok)" for g
    by (auto simp: ensures_def log_path_def)
  have perm: "ensures ?I (on_fst (operationPermitted rs r res n)) (\<lambda>ok. ok \<longrightarrow> fst (operationPermitted rs r res n s) = Ret True)" for n
    by (auto simp: ensures_def on_fst_simps operationPermitted_same operationPermitted_ext within_def)
  show "ensures ?I (patch_cb rs r res None path v True) (\<lambda>_. True)"
    unfolding patch_cb_def Let_def by (auto intro!: ensures_bind [OF count] ensures_mono [OF log])
  show "ensures ?I (patch_cb rs r res (Some p) path v False) (\<lambda>ok. ok \<longrightarrow> may_patch rs r res s p path)"
    unfolding patch_cb_def Let_def
    by (auto simp: may_patch_def intro!: ensures_bind [OF count] ensures_bind [OF perm] intro: ensures_mono [OF log])
qed

lemma patch_conversion:
  "ensures (within s Q) (with_log (Interface2Redis (Some (patch_cb rs r res)) [] props body))
     (\<lambda>x. \<forall>data n. fst x = Inr data \<longrightarrow> n \<in> fst ` set data \<longrightarrow>
        (\<exists>p. map_of props n = Some p \<and> may_patch rs r res s p [n]))"
proof -
  have conv: "ensures (\<lambda>c. within s Q (fst c)) (Interface2Redis (Some (patch_cb rs r res)) [] props body)
      (allowed_names (may_patch rs r res s) [] props {})"
    using struct_allowed(3) [OF patch_cb_agrees, where path = "[]" and ps = props and obj = body and res = "[]"] by (simp add: Interface2Redis_def)
  show ?thesis unfolding ensures_def
  proof (intro allI impI)
    fix s' assume s': "within s Q s'"
    let ?m = "Interface2Redis (Some (patch_cb rs r res)) [] props body"
    let ?l = "\<lparr> fieldCount = 0, readonlyFields = [], unknownFields = [], insufficientPrivilegeFields = [] \<rparr>"
    obtain r' c' where m: "?m (s', ?l) = (r', c')" by (rule prod.exhaust)
    have "within s Q (fst c')" "\<forall>a. r' = Ret a \<longrightarrow> allowed_names (may_patch rs r res s) [] props {} a"
      using conv s' m unfolding ensures_def by (metis fst_conv snd_conv)+
    then show "within s Q (snd (with_log ?m s')) \<and> (\<forall>a. fst (with_log ?m s') = Ret a \<longrightarrow>
        (\<forall>data n. fst a = Inr data \<longrightarrow> n \<in> fst ` set data \<longrightarrow> (\<exists>p. map_of props n = Some p \<and> may_patch rs r res s p [n])))"
      using m by (cases r'; cases c') (auto simp: with_log_def allowed_names_def)
  qed
qed


section \<open>Where a partial update writes\<close>

text \<open>The keys of \<open>C\<close> have their values of \<open>db\<close>.\<close>

definition fixes_keys :: "('w \<Rightarrow> rdb) \<Rightarrow> (string \<Rightarrow> bool) \<Rightarrow> rdb \<Rightarrow> 'w \<Rightarrow> bool" where
  "fixes_keys view C db w \<longleftrightarrow> (\<forall>k. C k \<longrightarrow> view w k = db k)"

lemma keeps_fixes: "(\<And>w. keeps view base m w) \<Longrightarrow> (\<And>k. C k \<Longrightarrow> \<not> under base k) \<Longrightarrow> preserves (fixes_keys view C db) m"
  by (auto simp: preserves_def fixes_keys_def keeps_def)

context redis_server
begin

lemma command_fixes:
  assumes "\<not> C key"
  shows "preserves (fixes_keys view C db) (rSAdd R key xs)" "preserves (fixes_keys view C db) (rSRem R key x)"
proof -
  have cmd: "preserves (fixes_keys view C db) m" if effects: "\<forall>w. \<exists>r. cmd_effect view m key r w" for m :: "('w, go_error + unit) go"
  proof (unfold preserves_def, intro allI impI)
    fix w assume w: "fixes_keys view C db w"
    obtain r where "cmd_effect view m key r w" using effects by blast
    then show "fixes_keys view C db (snd (m w))" using w assms by (cases r) (auto simp: fixes_keys_def cmd_effect_def)
  qed
  show "preserves (fixes_keys view C db) (rSAdd R key xs)" "preserves (fixes_keys view C db) (rSRem R key x)"
    by (rule cmd, blast intro: sadd_law srem_law)+
qed

lemma patch_fixes:
  assumes "\<not> C key" "\<And>n k. n \<in> fst ` set data \<Longrightarrow> C k \<Longrightarrow> \<not> under (key @ ''/'' @ n) k"
  shows "preserves (fixes_keys view C db) (RedisPatch R m (GObj data) key)"
proof -
  have "preserves (fixes_keys view C db) (patch_fields R m key data)"
    using assms(2)
  proof (induction data)
    case (Cons f data)
    obtain n v where f: "f = (n, v)" by fastforce
    have field: "preserves (fixes_keys view C db) op" if "\<And>w. keeps view (key @ ''/'' @ n) op w" for op :: "('w, 'x) go"
      by (rule keeps_fixes [OF that]) (use Cons.prems f in auto)
    note ops = field [OF keeps_del] field [OF remove_keeps(2)] field [OF patch_keeps]
      command_fixes [where C = C and key = key, OF assms(1)]
    show ?case unfolding f patch_fields.simps Let_def
      using ops Cons.IH Cons.prems f by (auto intro!: preserves_bind preserves_must)
  qed simp
  then show ?thesis by (auto intro!: preserves_bind)
qed

end


section \<open>The handlers\<close>

lemma preserves_view: "(\<And>db. preserves (\<lambda>w. view w = db) m) \<Longrightarrow> preserves (\<lambda>w. P (view w)) m"
  by (simp add: preserves_def)

lemma quiet_view: "\<forall>db. quiet (\<lambda>w. view w = db) rfd \<Longrightarrow> quiet (\<lambda>w. P (view w)) rfd"
  unfolding quiet_def by (intro conjI allI ballI; rule preserves_view [where view = view]; simp)

lemma preserves_fixes: "(\<And>db. preserves (\<lambda>w. view w = db) m) \<Longrightarrow> preserves (fixes_keys view C db) m"
  unfolding fixes_keys_def [abs_def] by (rule preserves_view [where view = view and P = "\<lambda>v. \<forall>k. C k \<longrightarrow> v k = db k"])

lemma quiet_fixes: "\<forall>db. quiet (\<lambda>w. view w = db) rfd \<Longrightarrow> quiet (fixes_keys view C db) rfd"
  using quiet_view [where P = "\<lambda>v. \<forall>k. C k \<longrightarrow> v k = db k"] by (simp add: fixes_keys_def [abs_def])

lemma preserves_annotate [simp]: "preserves Q (annotate_paths rs m paths payload)"
proof -
  have "preserves Q (annotate msg path field obj)" for msg path field obj
    by (induction msg path field obj rule: annotate.induct)
      (auto simp: Let_def split: option.split gval.split intro!: preserves_bind preserves_check)
  then have "preserves Q (AddPropertyMessage regs obj path m args)" for regs obj path args
    unfolding AddPropertyMessage_def
    by (auto intro!: preserves_check checks_preserves [OF checks_GetRedfishMessage] preserves_bind split: option.split)
  then show ?thesis by (induction paths arbitrary: payload) (auto intro!: preserves_bind)
qed

lemma preserves_build_payload:
  assumes "redis_server (r2s_redis r2s) view" "quiet Q (r2s_RFD r2s)"
  shows "preserves (within s Q) (build_payload r2s ps k)"
  unfolding build_payload_def by (intro preserves_bind preserves_within preserves_build(1) [OF assms]) simp

section \<open>The hooks of a PATCH\<close>

text \<open>A program that leads from \<open>I\<close> to \<open>J\<close>, whatever its outcome.\<close>

definition leads :: "('s \<Rightarrow> bool) \<Rightarrow> ('s \<Rightarrow> bool) \<Rightarrow> ('s, 'a) go \<Rightarrow> bool" where
  "leads I J m \<longleftrightarrow> (\<forall>s. I s \<longrightarrow> J (snd (m s)))"

lemma leads_through: "preserves K m \<Longrightarrow> (\<And>s. I s \<Longrightarrow> K s) \<Longrightarrow> (\<And>s. K s \<Longrightarrow> J s) \<Longrightarrow> leads I J m"
  by (simp add: leads_def preserves_def)

lemma leads_bind:
  assumes "ensures I m A" "\<And>a. A a \<Longrightarrow> leads I J (f a)" "\<And>s. I s \<Longrightarrow> J s"
  shows "leads I J (go_bind m f)"
  unfolding leads_def
proof (intro allI impI)
  fix s assume s: "I s"
  obtain r t where m: "m s = (r, t)" by fastforce
  then have "I t" "\<forall>a. r = Ret a \<longrightarrow> A a" using assms(1) s unfolding ensures_def by (metis fst_conv snd_conv)+
  then show "J (snd (go_bind m f s))" using assms(2,3) m by (cases r) (auto simp: go_bind_apply leads_def)
qed

lemma leads_then: "preserves I m \<Longrightarrow> (\<And>a. leads I J (f a)) \<Longrightarrow> (\<And>s. I s \<Longrightarrow> J s) \<Longrightarrow> leads I J (go_bind m f)"
  by (rule leads_bind [OF ensures_preserves]) auto

lemma leads_must: "preserves I m \<Longrightarrow> (\<And>a. leads I J (f a)) \<Longrightarrow> (\<And>s. I s \<Longrightarrow> J s) \<Longrightarrow> leads I J (go_must m f)"
  unfolding go_must_def by (rule leads_then) (auto simp: leads_def split: sum.split)

lemma leads_if: "(c \<Longrightarrow> leads I J a) \<Longrightarrow> (\<not> c \<Longrightarrow> leads I J b) \<Longrightarrow> leads I J (if c then a else b)"
  by simp

text \<open>A last step that does not change the state.\<close>

lemma leads_answer: "leads I J m \<Longrightarrow> (\<And>a s. snd (f a s) = s) \<Longrightarrow> leads I J (go_bind m f)"
  by (auto simp: leads_def go_bind_apply split: outcome.split prod.split)

lemma server_patch_hooks:
  assumes "beforeHookIns rs0 = []" "afterHookIns rs0 = []" "rs = initJSONSchemaService (initAccountService rs0)"
  shows "map BeforeCB (findBeforeHookIns rs ''PATCH'' uri) = (if account_uri uri then [Some (UpdateAccountBefore (rs_bcrypt rs0))] else [])"
    and "map AfterCB (findAfterHookIns rs ''PATCH'' uri) =
      (if uri = ''/redfish/v1/AccountService'' then [Some (after_hook (\<lambda>event ctx response. Update event response))] else []) @
      (if account_uri uri then [Some (after_hook (UpdateAccountAfter (rs_rfd rs0)))] else [])"
  using assms by (simp_all add: server_hooks hooks_for_def [of "[]"])

lemma service_no_account: "\<not> account_uri ''/redfish/v1/AccountService''"
  by code_simp

text \<open>The member that a URI of the collection of accounts names.\<close>

definition uri_member :: "'w AccountService \<Rightarrow> string \<Rightarrow> nat option" where
  "uri_member s uri = map_of (Members s) (last (Split1 uri CHR ''/''))"

lemma preserves_gets [simp]: "preserves I (gets f)"
  by (simp add: preserves_def)

lemma ensures_gets: "ensures I (gets f) (\<lambda>x. \<exists>s. I s \<and> x = f s)"
  by (auto simp: ensures_def)

lemma take_password_keeps:
  assumes "\<And>p. preserves Q (bcryptGenerate bc p)"
  shows "ensures (within s Q) (take_password bc password ctx q) (\<lambda>(r, ctx', q'). ctx_Account ctx' = ctx_Account ctx)"
  unfolding take_password_def Let_def
  by (rule ensures_bind [OF ensures_gets])
    (auto intro!: ensures_bind [OF ensures_preserves] preserves_within assms split: sum.split)

lemma UpdateBefore_keeps:
  assumes "\<And>p. preserves Q (bcryptGenerate bc p)"
  shows "ensures (within s Q) (UpdateBefore bc a event ctx q) (\<lambda>(r, ctx', q'). ctx_Account ctx' = ctx_Account ctx)"
  unfolding UpdateBefore_def
proof (rule ensures_bind)
  show "ensures (within s Q) (case map_of q ''Password'' of None \<Rightarrow> go_return (None, ctx, q)
      | Some (GString password) \<Rightarrow> take_password bc password ctx q | Some _ \<Rightarrow> conv_panic)
      (\<lambda>(r, ctx', q'). ctx_Account ctx' = ctx_Account ctx)"
    using take_password_keeps [OF assms] by (auto simp: conv_panic_def split: option.split gval.split)
qed (auto simp: conv_panic_def intro!: ensures_bind [OF ensures_gets] split: option.split gval.split)

lemma UpdateAccountBefore_keeps:
  assumes "\<And>p. preserves Q (bcryptGenerate bc p)" "ctx_Account ctx = None"
  shows "ensures (within s Q) (UpdateAccountBefore bc event ctx q)
    (\<lambda>(r, ctx', q'). \<forall>a. ctx_Account ctx' = Some a \<longrightarrow> uri_member s (ev_URI event) = Some a)"
  unfolding UpdateAccountBefore_def Let_def
proof (rule ensures_bind [OF ensures_gets])
  fix x assume "\<exists>t. within s Q t \<and> x = map_of (Members t) (last (Split1 (ev_URI event) CHR ''/''))"
  then have x: "x = uri_member s (ev_URI event)" by (auto simp: within_def uri_member_def)
  show "ensures (within s Q) (case x of None \<Rightarrow> go_return ((None, 0, Some (Err (''Account does not exist with id: '' @ last (Split1 (ev_URI event) CHR ''/'')))), ctx, q)
      | Some a \<Rightarrow> UpdateBefore bc a event (ctx\<lparr>ctx_Account := Some a\<rparr>) q)
      (\<lambda>(r, ctx', q'). \<forall>a. ctx_Account ctx' = Some a \<longrightarrow> uri_member s (ev_URI event) = Some a)"
    using assms(2) x by (auto split: option.split intro!: ensures_mono [OF UpdateBefore_keeps [OF assms(1)]])
qed

text \<open>What the hooks after the update change.\<close>

lemma map2struct_service_keeps: "preserves (\<lambda>t. Members t = M \<and> as_heap t = H \<and> Q (ext t)) (map2struct_service m)"
proof (induction m)
  case (Cons f m)
  obtain n v where f: "f = (n, v)" by fastforce
  have set_field: "service_set_field n v t = Inr t' \<Longrightarrow> Members t' = Members t \<and> as_heap t' = as_heap t \<and> ext t' = ext t" for t t' :: "'a AccountService"
    by (auto simp: service_set_field_def split: if_splits gval.splits)
  show ?case unfolding f map2struct_service.simps
  proof (unfold preserves_def, intro allI impI)
    fix t :: "'a AccountService" assume t: "Members t = M \<and> as_heap t = H \<and> Q (ext t)"
    show "(\<lambda>t. Members t = M \<and> as_heap t = H \<and> Q (ext t)) (snd (go_bind (gets (service_set_field n v)) (\<lambda>r. case r of
         Inr s \<Rightarrow> go_bind (modifies (\<lambda>_. s)) (\<lambda>_. map2struct_service m) | Inl e \<Rightarrow> go_return (Some e)) t))"
      using t set_field [of t] Cons by (cases "service_set_field n v t") (auto simp: go_bind_apply preserves_def)
  qed
qed simp

lemma acct_set [simp]: "acct (set_acct a m s) b = (if b = a then m else acct s b)"
  by (simp add: acct_def set_acct_def update_conv')

lemma map2struct_account_keeps:
  "preserves (\<lambda>t. Members t = M \<and> (\<forall>b. b \<noteq> a \<longrightarrow> acct t b = A b) \<and> Q (ext t)) (map2struct_account m a)"
proof (induction m)
  case (Cons f m)
  obtain n v where f: "f = (n, v)" by fastforce
  have mod: "preserves (\<lambda>t. Members t = M \<and> (\<forall>b. b \<noteq> a \<longrightarrow> acct t b = A b) \<and> Q (ext t)) (modifies (set_acct a ma))" for ma
    by (auto simp: preserves_def)
  show ?case unfolding f map2struct_account.simps
    by (intro preserves_bind) (auto split: outcome.split sum.split intro!: preserves_bind Cons mod)
qed simp

lemma UpdateAfter_keeps:
  assumes "redis_server (rfd_redis rfd) view" "\<And>id. \<not> C (ev_URI event @ ''/'' @ id @ ''/Password:hash'')"
  shows "preserves (\<lambda>t. Members t = M \<and> (\<forall>b. b \<noteq> a \<longrightarrow> acct t b = A b) \<and> fixes_keys view C db (ext t)) (UpdateAfter rfd a event ctx response)"
    (is "preserves ?K _")
proof -
  have hash: "preserves ?K (modifies (\<lambda>s. set_acct a ((acct s a)\<lparr>passwordHash := h\<rparr>) s))" for h
    by (auto simp: preserves_def)
  have store: "preserves ?K (go_bind (gets (\<lambda>s. ev_URI event @ ''/'' @ ma_Id (acct s a) @ ''/Password:hash'')) (\<lambda>key.
      go_bind (on_ext (rSet (rfd_redis rfd) key v)) f))" if f: "\<And>r. preserves ?K (f r)" for v and f :: "_ \<Rightarrow> ('a AccountService, hook_result) go"
  proof (unfold preserves_def, intro allI impI)
    fix t :: "'a AccountService" assume t: "?K t"
    let ?key = "ev_URI event @ ''/'' @ ma_Id (acct t a) @ ''/Password:hash''"
    obtain w where w: "rSet (rfd_redis rfd) ?key v (ext t) = (Ret (Inr ()), w)" "view w = (view (ext t))(?key \<mapsto> RString v)"
      by (rule redis_server.set_ok [OF assms(1)])
    have "?K (t\<lparr>ext := w\<rparr>)" using t w(2) assms(2) [of "ma_Id (acct t a)"] by (auto simp: fixes_keys_def acct_def)
    then show "?K (snd (go_bind (gets (\<lambda>s. ev_URI event @ ''/'' @ ma_Id (acct s a) @ ''/Password:hash'')) (\<lambda>key.
        go_bind (on_ext (rSet (rfd_redis rfd) key v)) f) t))"
      using f [of "Inr ()"] w(1) unfolding preserves_def by (simp add: go_bind_apply on_ext_apply)
  qed
  show ?thesis unfolding UpdateAfter_def
    by (rule preserves_bind [OF map2struct_account_keeps])
      (auto split: option.split intro!: preserves_bind hash store [unfolded append_Cons append_Nil] split: sum.split)
qed

lemma preserves_single_hook: "preserves K (cb event ctx q) \<Longrightarrow> preserves K (run_hooks rs [Some cb] event ctx q)"
  by (auto intro!: preserves_bind split: option.split)

text \<open>The properties of a resource that a request of an account in state \<open>s\<close> may change.\<close>

definition patchable_property :: "'w redfishServer \<Rightarrow> httpRequest \<Rightarrow> resource \<Rightarrow> 'w AccountService \<Rightarrow> string \<Rightarrow> bool" where
  "patchable_property rs r res s n \<longleftrightarrow>
     (\<exists>p. map_of (r_Properties res) n = Some p \<and> \<not> p_ReadOnly (p_info p)) \<and> \<not> is_annotation n \<and>
     fst (operationPermitted rs r res n s) = Ret True"

definition patch_region :: "'w redfishServer \<Rightarrow> httpRequest \<Rightarrow> resource \<Rightarrow> 'w AccountService \<Rightarrow> string \<Rightarrow> bool" where
  "patch_region rs r res s k \<longleftrightarrow>
     (\<exists>n. patchable_property rs r res s n \<and> (k = rq_uri r \<or> under (rq_uri r @ ''/'' @ n) k))"

text \<open>
  The outcome of a PATCH in state \<open>s\<close>: the keys that change belong to properties that may be patched or
  are that of the hash of a password, and the only account that changes is the one at the URI.
\<close>

definition hash_key :: "httpRequest \<Rightarrow> string \<Rightarrow> bool" where
  "hash_key r k \<longleftrightarrow> account_uri (rq_uri r) \<and> (\<exists>id. k = rq_uri r @ ''/'' @ id @ ''/Password:hash'')"

definition patch_outcome :: "('w \<Rightarrow> rdb) \<Rightarrow> 'w redfishServer \<Rightarrow> httpRequest \<Rightarrow> resource \<Rightarrow> 'w AccountService \<Rightarrow> 'w AccountService \<Rightarrow> bool" where
  "patch_outcome view rs r res s t \<longleftrightarrow>
     fixes_keys view (\<lambda>k. \<not> patch_region rs r res s k \<and> \<not> hash_key r k) (view (ext s)) (ext t) \<and> Members t = Members s \<and>
     (\<forall>a. acct t a = acct s a \<or> account_uri (rq_uri r) \<and> uri_member s (rq_uri r) = Some a) \<and>
     (rq_uri r = ''/redfish/v1/AccountService'' \<or> account_uri (rq_uri r) \<or> t = s\<lparr>ext := ext t\<rparr>)"

lemma within_outcome: "within s (fixes_keys view (\<lambda>k. \<not> patch_region rs r res s k) (view (ext s))) t \<Longrightarrow> patch_outcome view rs r res s t"
  by (auto simp: within_def patch_outcome_def fixes_keys_def acct_def)

lemma patch_after:
  assumes "redis_server (rfd_redis (rs_rfd rs0)) view" "beforeHookIns rs0 = []" "afterHookIns rs0 = []"
    and "rs = initJSONSchemaService (initAccountService rs0)" "\<forall>a. ctx_Account ctx = Some a \<longrightarrow> uri_member s (rq_uri r) = Some a"
  shows "leads (within s (fixes_keys view (\<lambda>k. \<not> patch_region rs r res s k) (view (ext s)))) (patch_outcome view rs r res s)
    (runAfterHookIns rs ''PATCH'' (request_event r) ctx q)"
proof -
  let ?I = "within s (fixes_keys view (\<lambda>k. \<not> patch_region rs r res s k) (view (ext s)))" and ?J = "patch_outcome view rs r res s"
  let ?C = "\<lambda>k. \<not> patch_region rs r res s k \<and> \<not> hash_key r k" and ?u = "rq_uri r"
  note hooks = server_patch_hooks(2) [OF assms(2-4), of ?u]
  consider (other) "?u \<noteq> ''/redfish/v1/AccountService''" "\<not> account_uri ?u" | (service) "?u = ''/redfish/v1/AccountService''" "\<not> account_uri ?u"
    | (account) "?u \<noteq> ''/redfish/v1/AccountService''" "account_uri ?u" using service_no_account by metis
  then show ?thesis
  proof cases
    case other
    then show ?thesis unfolding runAfterHookIns_def request_event_def using hooks
      by (auto intro: leads_through [where K = ?I] within_outcome)
  next
    case service
    have "preserves (\<lambda>t. Members t = Members s \<and> as_heap t = as_heap s \<and> fixes_keys view ?C (view (ext s)) (ext t))
        (run_hooks rs [Some (after_hook (\<lambda>event ctx response. Update event response))] (request_event r) ctx q)"
      unfolding after_hook_def Update_def by (intro preserves_single_hook preserves_bind map2struct_service_keeps) auto
    then show ?thesis unfolding runAfterHookIns_def request_event_def using hooks service
      by (auto elim!: leads_through simp: within_def fixes_keys_def patch_outcome_def acct_def)
  next
    case account
    have keys: "\<And>id. \<not> ?C (ev_URI (request_event r) @ ''/'' @ id @ ''/Password:hash'')"
      using account(2) by (auto simp: hash_key_def request_event_def)
    define K where "K t \<longleftrightarrow> Members t = Members s \<and> (\<forall>b. Some b \<noteq> uri_member s ?u \<longrightarrow> acct t b = acct s b) \<and> fixes_keys view ?C (view (ext s)) (ext t)"
      for t
    have "preserves K (UpdateAccountAfter (rs_rfd rs0) (request_event r) ctx q)"
    proof (cases "ctx_Account ctx")
      case None
      then show ?thesis by (simp add: UpdateAccountAfter_def conv_panic_def)
    next
      case (Some a)
      then have a: "uri_member s ?u = Some a" using assms(5) by blast
      have "K = (\<lambda>t. Members t = Members s \<and> (\<forall>b. b \<noteq> a \<longrightarrow> acct t b = acct s b) \<and> fixes_keys view ?C (view (ext s)) (ext t))"
        unfolding K_def a by auto
      then show ?thesis using UpdateAfter_keeps [OF assms(1), of ?C "request_event r", OF keys] Some by (simp add: UpdateAccountAfter_def)
    qed
    then have "preserves K (run_hooks rs [Some (after_hook (UpdateAccountAfter (rs_rfd rs0)))] (request_event r) ctx q)"
      unfolding after_hook_def by (intro preserves_single_hook preserves_bind) auto
    then show ?thesis unfolding runAfterHookIns_def using hooks account
      by (auto elim!: leads_through simp: within_def fixes_keys_def patch_outcome_def acct_def K_def request_event_def)
  qed
qed

lemma patch_before:
  assumes "\<And>p. preserves Q (bcryptGenerate (rs_bcrypt rs0) p)" "beforeHookIns rs0 = []" "afterHookIns rs0 = []"
    and "rs = initJSONSchemaService (initAccountService rs0)"
  shows "ensures (within s Q) (runBeforeHookIns rs ''PATCH'' (request_event r) empty_ctx q)
    (\<lambda>(_, ctx, _). \<forall>a. ctx_Account ctx = Some a \<longrightarrow> uri_member s (rq_uri r) = Some a)"
proof (cases "account_uri (rq_uri r)")
  case True
  have hooks: "runBeforeHookIns rs ''PATCH'' (request_event r) empty_ctx q =
      run_hooks rs [Some (UpdateAccountBefore (rs_bcrypt rs0))] (request_event r) empty_ctx q"
    using server_patch_hooks(1) [OF assms(2-4), of "rq_uri r"] True by (simp add: runBeforeHookIns_def request_event_def)
  have uri: "ev_URI (request_event r) = rq_uri r" by (simp add: request_event_def)
  have e: "empty_ctx = \<lparr> ctx_hash = None, ctx_Account = None, ctx_DuplicateUserName = False \<rparr>" by (rule empty_ctx_def)
  have "ensures (within s Q) (UpdateAccountBefore (rs_bcrypt rs0) (request_event r) empty_ctx q)
      (\<lambda>(_, ctx, _). \<forall>a. ctx_Account ctx = Some a \<longrightarrow> uri_member s (rq_uri r) = Some a)"
    using UpdateAccountBefore_keeps [OF assms(1), of empty_ctx s "request_event r" q] unfolding uri by (simp add: e)
  then show ?thesis unfolding hooks run_hooks.simps
    by (rule ensures_bind) (auto intro!: ensures_bind [OF ensures_preserves] split: option.split)
next
  case False
  then show ?thesis using server_patch_hooks(1) [OF assms(2-4), of "rq_uri r"]
    by (simp add: runBeforeHookIns_def request_event_def empty_ctx_def)
qed

lemma handlePatch_outcome:
  fixes view :: "'w \<Rightarrow> rdb"
  assumes "redis_server (rfd_redis (rs_rfd rs)) view" "\<forall>db. quiet (\<lambda>w. view w = db) (rs_rfd rs)" "r2s_RFD r2s = rs_rfd rs"
    and "\<And>q. ensures (within s (fixes_keys view (\<lambda>k. \<not> patch_region rs r res s k) db)) (runBeforeHookIns rs ''PATCH'' (request_event r) empty_ctx q)
        (\<lambda>(_, ctx, _). A ctx)"
    and "\<And>ctx q. A ctx \<Longrightarrow> leads (within s (fixes_keys view (\<lambda>k. \<not> patch_region rs r res s k) db)) J (runAfterHookIns rs ''PATCH'' (request_event r) ctx q)"
    and "rq_resource r = Some res" "\<And>t. within s (fixes_keys view (\<lambda>k. \<not> patch_region rs r res s k) db) t \<Longrightarrow> J t"
  shows "leads (within s (fixes_keys view (\<lambda>k. \<not> patch_region rs r res s k) db)) J (handlePatchRequest rs r r2s)"
proof -
  let ?C = "\<lambda>k. \<not> patch_region rs r res s k"
  let ?I = "within s (fixes_keys view ?C db)"
  have stores: "preserves ?I (on_ext (RedisPatch (rfd_redis (rs_rfd rs)) n (GObj data) (rq_uri r)))"
    if names: "\<forall>n. n \<in> fst ` set data \<longrightarrow> (\<exists>p. map_of (r_Properties res) n = Some p \<and> may_patch rs r res s p [n])" for n data
  proof (cases "data = []")
    case True
    have "preserves Q (RedisPatch (rfd_redis (rs_rfd rs)) n (GObj []) (rq_uri r))" for Q :: "'w \<Rightarrow> bool"
      by (auto intro!: preserves_bind)
    then show ?thesis unfolding True by (rule preserves_within)
  next
    case False
    have region: "patch_region rs r res s k" if "n \<in> fst ` set data" "k = rq_uri r \<or> under (rq_uri r @ ''/'' @ n) k" for n k
    proof -
      have "patchable_property rs r res s n"
        using names [rule_format, OF that(1)] by (auto simp: patchable_property_def may_patch_def)
      then show ?thesis using that(2) by (auto simp: patch_region_def)
    qed
    obtain n0 where "n0 \<in> fst ` set data" using False by (cases data) auto
    then have "\<not> \<not> patch_region rs r res s (rq_uri r)" using region by blast
    then show ?thesis
      by (rule preserves_within [OF redis_server.patch_fixes [OF assms(1)]]) (use region in blast)
  qed
  have build: "preserves ?I (build_payload r2s (r_Properties res) (rq_uri r))"
    using preserves_build_payload [of r2s view] assms(1-3) quiet_fixes [OF assms(2)] by simp
  have stay: "leads ?I J m" if "preserves ?I m" for m :: "('w AccountService, response) go"
    using leads_through [OF that, where J = J] assms(7) by blast
  have conv: "leads ?I J (go_bind (with_log (Interface2Redis (Some (patch_cb rs r res)) [] (r_Properties res) body)) f)"
    if "\<And>e l. leads ?I J (f (Inl e, l))" "\<And>data l. \<forall>n. n \<in> fst ` set data \<longrightarrow>
        (\<exists>p. map_of (r_Properties res) n = Some p \<and> may_patch rs r res s p [n]) \<Longrightarrow> leads ?I J (f (Inr data, l))"
    for body and f :: "(go_error + gobj) \<times> patch_log \<Rightarrow> ('w AccountService, response) go"
  proof (rule leads_bind [OF patch_conversion])
    fix x :: "(go_error + gobj) \<times> patch_log"
    assume x: "\<forall>data n. fst x = Inr data \<longrightarrow> n \<in> fst ` set data \<longrightarrow>
        (\<exists>p. map_of (r_Properties res) n = Some p \<and> may_patch rs r res s p [n])"
    then show "leads ?I J (f x)" using that by (cases x; cases "fst x"; force)
  qed (rule assms(7))
  show ?thesis
  proof (cases "requestBody r")
    case (Inl e)
    then show ?thesis unfolding handlePatchRequest_def assms(6) by (auto intro!: stay)
  next
    case (Inr body)
    show ?thesis unfolding handlePatchRequest_def assms(6) Inr option.case sum.case
      apply (intro leads_if)
      apply (simp_all add: stay del: RedisPatch.simps)
      apply (rule leads_bind [OF assms(4) _ assms(7)])
      apply (clarsimp split: option.split simp: stay simp del: RedisPatch.simps)
      apply (rule conv)
      apply (simp_all only: prod.case sum.case)
      apply (simp add: stay)
      apply (rule leads_must [OF stores _ assms(7)], assumption)
      apply (intro leads_then [OF build _ assms(7)] leads_then [OF preserves_annotate _ assms(7)])
      apply (auto split: sum.split option.split simp: stay Let_def intro!: leads_answer [OF assms(5)])
      done
  qed
qed

section \<open>Properties\<close>

text \<open>
  C25. A GET changes nothing: when the programs and helpers it runs leave Redis alone, a GET on a
  server with the hooks of the account and schema services leaves Redis and the accounts as they are,
  whatever its outcome.
\<close>

theorem get_reads_only:
  assumes "redis_server (rfd_redis (rs_rfd rs)) view" "\<forall>db. quiet (\<lambda>w. view w = db) (rs_rfd rs)"
    and "beforeHookIns rs0 = []" "afterHookIns rs0 = []" "rs = initJSONSchemaService (initAccountService rs0)"
    and "httpOperation r = ''GET''" "dispatch rs r s = (outcome, s')"
  shows "view (ext s') = view (ext s) \<and> s' = s\<lparr>ext := ext s'\<rparr>"
proof -
  let ?Q = "\<lambda>w. view w = view (ext s)"
  have before: "preserves (within s ?Q) (runBeforeHookIns rs ''GET'' (request_event r) ctx q)" for ctx q
    unfolding runBeforeHookIns_def request_event_def
    by (rule preserves_run_hooks) (use get_hooks(1) [OF assms(3,4)] assms(5) in force)
  have after: "preserves (within s ?Q) (runAfterHookIns rs ''GET'' (request_event r) ctx q)" for ctx q
    unfolding runAfterHookIns_def request_event_def
    by (rule preserves_run_hooks) (use get_hooks(2) [OF assms(3,4)] assms(5) in force)
  have "preserves ?Q (BuildStruct r2s ps k)" if "r2s_RFD r2s = rs_rfd rs" for r2s ps k
    using preserves_build(1) [of r2s view ?Q] assms(1,2) that by simp
  then have "preserves (within s ?Q) (handleGetRequest rs r r2s)" if "r2s_RFD r2s = rs_rfd rs" for r2s
    unfolding handleGetRequest_def using that before after
    by (auto intro!: preserves_bind preserves_within split: option.split sum.split)
  then have "preserves (within s ?Q) (dispatch rs r)" using assms(6) by (simp add: dispatch_def Let_def)
  moreover have "within s ?Q s" by (force simp: within_iff)
  ultimately have "within s ?Q s'" using assms(7) by (metis preservesD snd_conv)
  then show ?thesis by (simp add: within_iff)
qed

text \<open>
  C4. A PATCH writes only what the account may write: a key of Redis can only change when some
  property of the resource is known, not read-only, not an annotation and permitted to the account,
  and the key is that of the resource or lies below the one of such a property. The one exception is a
  key \<open><uri>/<id>/Password:hash\<close> below the URI of an account, which the hooks of the account service
  write. The collection of accounts stays as it is, the only account that can change is the one at the
  URI, and outside the URIs of the account service nothing but Redis changes. This holds for every body
  and every outcome, when the programs and helpers that run and the generation of hashes leave Redis alone.
\<close>

theorem patch_respects_permissions:
  assumes "redis_server (rfd_redis (rs_rfd rs)) view" "\<forall>db. quiet (\<lambda>w. view w = db) (rs_rfd rs)"
    and "\<forall>db p. preserves (\<lambda>w. view w = db) (bcryptGenerate (rs_bcrypt rs0) p)"
    and "beforeHookIns rs0 = []" "afterHookIns rs0 = []" "rs = initJSONSchemaService (initAccountService rs0)"
    and "httpOperation r = ''PATCH''" "rq_resource r = Some res" "dispatch rs r s = (outcome, s')"
  shows "(view (ext s') k \<noteq> view (ext s) k \<longrightarrow>
      (\<exists>n p. map_of (r_Properties res) n = Some p \<and> \<not> p_ReadOnly (p_info p) \<and> \<not> is_annotation n \<and>
         fst (operationPermitted rs r res n s) = Ret True \<and>
         (k = rq_uri r \<or> under (rq_uri r @ ''/'' @ n) k)) \<or>
      account_uri (rq_uri r) \<and> (\<exists>id. k = rq_uri r @ ''/'' @ id @ ''/Password:hash'')) \<and>
    Members s' = Members s \<and>
    (acct s' a \<noteq> acct s a \<longrightarrow> account_uri (rq_uri r) \<and> map_of (Members s) (last (Split1 (rq_uri r) CHR ''/'')) = Some a) \<and>
    (rq_uri r \<noteq> ''/redfish/v1/AccountService'' \<and> \<not> account_uri (rq_uri r) \<longrightarrow> s' = s\<lparr>ext := ext s'\<rparr>)"
proof -
  let ?P = "fixes_keys view (\<lambda>k. \<not> patch_region rs r res s k) (view (ext s))"
  have redis: "redis_server (rfd_redis (rs_rfd rs0)) view"
    using assms(1) unfolding assms(6) server_dispatcher by (simp add: RegisterCollectionCB_def)
  have gen: "preserves ?P (bcryptGenerate (rs_bcrypt rs0) p)" for p
    using assms(3) by (intro preserves_fixes) blast
  have "leads (within s ?P) (patch_outcome view rs r res s) (dispatch rs r)"
    unfolding dispatch_def Let_def assms(7)
    by (simp, rule handlePatch_outcome [OF assms(1,2) _ patch_before [OF gen assms(4-6)] patch_after [OF redis assms(4-6)] assms(8) within_outcome]) auto
  moreover have "within s ?P s" by (force simp: within_iff fixes_keys_def)
  ultimately have "patch_outcome view rs r res s s'" using assms(9) unfolding leads_def by (metis snd_conv)
  then have keys: "view (ext s') k = view (ext s) k \<or> patch_region rs r res s k \<or> hash_key r k"
    and rest: "Members s' = Members s" "acct s' a = acct s a \<or> account_uri (rq_uri r) \<and> uri_member s (rq_uri r) = Some a"
      "rq_uri r = ''/redfish/v1/AccountService'' \<or> account_uri (rq_uri r) \<or> s' = s\<lparr>ext := ext s'\<rparr>"
    unfolding patch_outcome_def fixes_keys_def by blast+
  show ?thesis using keys rest unfolding patch_region_def patchable_property_def hash_key_def uri_member_def by blast
qed

lemma ex_quiet: "quiet Q (rs_rfd (initJSONSchemaService (initAccountService ex_server)))"
  by (simp add: quiet_def initJSONSchemaService_def initAccountService_def Let_def RegisterCollectionCB_def ex_server_def ex_rfd_def no_os_def)

lemma ex_redis: "redis_server (rfd_redis (rs_rfd (initJSONSchemaService (initAccountService ex_server)))) mem_view"
  by (simp add: initJSONSchemaService_def initAccountService_def Let_def RegisterCollectionCB_def ex_server_def ex_rfd_def mem_redis_server)

lemma ex_no_hooks: "beforeHookIns ex_server = []" "afterHookIns ex_server = []"
  by (simp_all add: ex_server_def)

theorem get_reads_only_witness:
  "\<exists>s'. snd (dispatch (initJSONSchemaService (initAccountService ex_server)) (ex_request ''GET'' []) (ex_service ex_account 0)) = s' \<and>
    mem_view (ext s') = mem_view (ext (ex_service ex_account 0))"
proof -
  let ?rs = "initJSONSchemaService (initAccountService ex_server)"
  obtain r s' where d: "dispatch ?rs (ex_request ''GET'' []) (ex_service ex_account 0) = (r, s')" by fastforce
  have "httpOperation (ex_request ''GET'' []) = ''GET''" by (simp add: ex_request_def)
  then have "mem_view (ext s') = mem_view (ext (ex_service ex_account 0))"
    using get_reads_only [OF ex_redis _ ex_no_hooks refl _ d] ex_quiet by blast
  then show ?thesis using d by auto
qed

definition ex_updatable :: resource where
  "ex_updatable = Resource (res_zero\<lparr>r_Name := ''Outlet'', r_Updatable := True\<rparr>) None ex_props"

definition ex_patch :: httpRequest where
  "ex_patch = (ex_request ''PATCH'' [(''Name'', GString ''x'')])\<lparr>rq_resource := Some ex_updatable\<rparr>"

theorem patch_respects_permissions_witness:
  "mem_view (ext (snd (dispatch (initJSONSchemaService (initAccountService ex_server)) ex_patch
      (ex_service ex_account 0)))) ''/redfish/v1/Other'' = mem_view (ext (ex_service ex_account 0)) ''/redfish/v1/Other''"
proof -
  let ?rs = "initJSONSchemaService (initAccountService ex_server)" and ?r = ex_patch
  obtain r s' where d: "dispatch ?rs ?r (ex_service ex_account 0) = (r, s')" by fastforce
  have req: "httpOperation ?r = ''PATCH''" "rq_resource ?r = Some ex_updatable" "rq_uri ?r = ''/redfish/v1/Outlet''"
    by (simp_all add: ex_patch_def ex_request_def)
  have uri: "\<not> account_uri (rq_uri ?r)" unfolding req by code_simp
  have gen: "\<forall>db p. preserves (\<lambda>w. mem_view w = db) (bcryptGenerate (rs_bcrypt ex_server) p)"
    by (simp add: ex_server_def ex_bcrypt_def)
  have "\<not> under (rq_uri ?r @ ''/'' @ n) ''/redfish/v1/Other''" for n by (simp add: req under_iff)
  then have "mem_view (ext s') ''/redfish/v1/Other'' = mem_view (ext (ex_service ex_account 0)) ''/redfish/v1/Other''"
    using patch_respects_permissions [OF ex_redis _ gen ex_no_hooks refl req(1,2) d, of "''/redfish/v1/Other''"] ex_quiet req(3) uri by auto
  then show ?thesis using d by simp
qed

text \<open>
  C32. Nobody's password is protected by privileges: a PATCH of an account with nothing but a password of
  an accepted length, sent by any account whatever its role, is answered with the status 200 and replaces
  the hash in memory, so that the password logs in to the account unless that is locked; Redis gets the new
  hash under \<open><uri>/<id>/Password:hash\<close>. The hook that runs before the check of the fields takes the
  password out of the body, so the check never sees it.
\<close>

theorem password_patch_unchecked:
  fixes r :: httpRequest and s :: "'w AccountService"
  assumes "beforeHookIns rs0 = []" "afterHookIns rs0 = []" "rs = initJSONSchemaService (initAccountService rs0)"
    and "httpOperation r = ''PATCH''" "rq_resource r = Some res" "\<not> r_IsCollection (r_info res)" "r_Updatable (r_info res)"
    and "account_uri (rq_uri r)" "map_of (Members s) (last (Split1 (rq_uri r) CHR ''/'')) = Some a"
    and "requestBody r = Inr [(''Password'', GString p)]" "MinPasswordLength s \<le> int (length p)" "int (length p) \<le> MaxPasswordLength s"
    and "bcryptGenerate (rs_bcrypt rs0) p (ext s) = (Ret (Inr hash), ext s)"
    and "build_payload \<lparr> r2s_RFD = rs_rfd rs, r2s_Resource = res, r2s_URI = rq_uri r, r2s_XName = rq_xname r \<rparr>
        (r_Properties res) (rq_uri r) s = (Ret payload, s)"
    and "Marshal (payload_value payload) = Inr json" "map2struct_account (payload_map payload) a s = (Ret None, s1)"
    and "redis_server (rfd_redis (rs_rfd rs)) view"
  shows "\<exists>s'. dispatch rs r s = (Ret (Some json, [], 200), s') \<and> passwordHash (acct s' a) = hash \<and>
    view (ext s') (rq_uri r @ ''/'' @ ma_Id (acct s' a) @ ''/Password:hash'') = Some (RString (EncodeToString hash)) \<and>
    (bcryptCompare (rs_bcrypt rs0) hash p = None \<and> \<not> Locked (acct s' a) \<and> get_account s' u = Some a \<longrightarrow>
       AuthenticateAccount (rs_rfd rs) (rs_bcrypt rs0) fuel u p s' = (Ret (Inr a), s'))"
proof -
  note hooks = server_patch_hooks [OF assms(1-3), of "rq_uri r"]
  have other: "rq_uri r \<noteq> ''/redfish/v1/AccountService''" using assms(8) service_no_account by metis
  let ?ctx = "\<lparr> ctx_hash = Some hash, ctx_Account = Some a, ctx_DuplicateUserName = False \<rparr>"
  have before: "runBeforeHookIns rs ''PATCH'' (request_event r) empty_ctx [(''Password'', GString p)] s = (Ret (None, ?ctx, []), s)"
    using assms(9,11-13) hooks(1) assms(8)
    by (simp add: runBeforeHookIns_def request_event_def UpdateAccountBefore_def UpdateBefore_def take_password_def empty_ctx_def
        Let_def go_bind_apply on_ext_apply)
  have conv: "with_log (Interface2Redis (Some (patch_cb rs r res)) [] (r_Properties res) []) s =
      (Ret (Inr [], \<lparr> fieldCount = 0, readonlyFields = [], unknownFields = [], insufficientPrivilegeFields = [] \<rparr>), s)"
    by (simp add: with_log_def Interface2Redis_def)
  have same: "rfd_redis (rs_rfd rs) = rfd_redis (rs_rfd rs0)"
    unfolding assms(3) server_dispatcher by (simp add: RegisterCollectionCB_def)
  let ?s2 = "set_acct a ((acct s1 a)\<lparr>passwordHash := hash\<rparr>) s1"
  let ?key = "rq_uri r @ ''/'' @ ma_Id (acct s1 a) @ ''/Password:hash''"
  obtain w where w: "rSet (rfd_redis (rs_rfd rs0)) ?key (EncodeToString hash) (ext ?s2) = (Ret (Inr ()), w)"
      "view w = (view (ext ?s2))(?key \<mapsto> RString (EncodeToString hash))"
    using redis_server.set_ok [OF assms(17)] same by metis
  have after: "runAfterHookIns rs ''PATCH'' (request_event r) ?ctx (payload_map payload) s = (Ret (None, ?ctx, payload_map payload), ?s2\<lparr>ext := w\<rparr>)"
    using hooks(2) assms(8,16) other w(1)
    by (simp add: runAfterHookIns_def request_event_def UpdateAccountAfter_def UpdateAfter_def after_hook_def go_bind_apply on_ext_apply)
  have "dispatch rs r s = (Ret (Some json, [], 200), ?s2\<lparr>ext := w\<rparr>)"
    unfolding dispatch_def Let_def using assms(4-7,10,14,15) before conv after
    by (simp add: handlePatchRequest_def go_bind_apply go_must_apply on_ext_apply Let_def)
  moreover have "acct (?s2\<lparr>ext := w\<rparr>) a = (acct s1 a)\<lparr>passwordHash := hash\<rparr>" by (simp add: acct_def set_acct_def update_conv')
  ultimately show ?thesis using w(2)
    by (intro exI [of _ "?s2\<lparr>ext := w\<rparr>"]) (simp add: AuthenticateAccount_def Authenticate_def go_bind_apply go_check_apply)
qed

text \<open>An account whose role has no privilege at all changes a password.\<close>

definition ex_powerless :: "mem AccountService" where
  "ex_powerless = (ex_service ex_account 0)\<lparr>Roles := [(''Administrator'', \<lparr> AssignedPrivileges = [], role_RoleId = ''Administrator'' \<rparr>)]\<rparr>"

definition ex_password_patch :: httpRequest where
  "ex_password_patch = (ex_request ''PATCH'' [(''Password'', GString ''newpass'')])
     \<lparr>rq_uri := ''/redfish/v1/AccountService/Accounts/root'', rq_resource := Some ex_updatable\<rparr>"

theorem password_patch_unchecked_witness:
  "operationPermitted (initJSONSchemaService (initAccountService ex_server)) ex_password_patch ex_updatable ''Password'' ex_powerless =
      (Ret False, ex_powerless) \<and>
   (\<exists>body s'. dispatch (initJSONSchemaService (initAccountService ex_server)) ex_password_patch ex_powerless = (Ret (Some body, [], 200), s') \<and>
      passwordHash (acct s' 0) = ''newpass'')"
proof
  let ?rs = "initJSONSchemaService (initAccountService ex_server)" and ?r = ex_password_patch
  have reg: "privilegeRegistry ?rs = ex_privileges" by (simp add: initJSONSchemaService_def initAccountService_def Let_def, simp add: ex_server_def)
  show "operationPermitted ?rs ?r ex_updatable ''Password'' ex_powerless = (Ret False, ex_powerless)"
    by (simp add: reg operationPermitted_def RequiredPrivileges_def ex_privileges_def index_registry_def OperationAllowed_def GetRole_def
        ex_password_patch_def ex_request_def ex_updatable_def ex_powerless_def ex_service_simps go_bind_apply)
  have req: "httpOperation ?r = ''PATCH''" "rq_resource ?r = Some ex_updatable" "requestBody ?r = Inr [(''Password'', GString ''newpass'')]"
    "rq_uri ?r = ''/redfish/v1/AccountService/Accounts/root''"
    by (simp_all add: ex_password_patch_def ex_request_def)
  have res: "\<not> r_IsCollection (r_info ex_updatable)" "r_Updatable (r_info ex_updatable)" by (simp_all add: ex_updatable_def res_zero_def)
  have uri: "account_uri (rq_uri ?r)" "last (Split1 (rq_uri ?r) CHR ''/'') = ''root''" unfolding req by code_simp+
  have member: "map_of (Members ex_powerless) (last (Split1 (rq_uri ?r) CHR ''/'')) = Some 0" unfolding uri(2) by (simp add: ex_powerless_def ex_service_def)
  have len: "MinPasswordLength ex_powerless \<le> int (length ''newpass'')" "int (length ''newpass'') \<le> MaxPasswordLength ex_powerless"
    by (simp_all add: ex_powerless_def ex_service_def)
  have gen: "bcryptGenerate (rs_bcrypt ex_server) ''newpass'' (ext ex_powerless) = (Ret (Inr ''newpass''), ext ex_powerless)"
    by (simp add: ex_server_def ex_bcrypt_def)
  let ?r2s = "\<lparr> r2s_RFD = rs_rfd ?rs, r2s_Resource = ex_updatable, r2s_URI = rq_uri ?r, r2s_XName = rq_xname ?r \<rparr>"
  have pay: "build_payload ?r2s (r_Properties ex_updatable) (rq_uri ?r) ex_powerless = (Ret (Some []), ex_powerless)"
    by (simp add: build_payload_def server_dispatcher RegisterCollectionCB_def BuildStruct.simps req ex_server_def ex_rfd_def mem_redis_def
        ex_powerless_def ex_service_def ex_store_def mem_get_def go_bind_apply go_check_apply on_ext_apply Let_def)
  have fields: "map2struct_account (payload_map (Some [])) 0 ex_powerless = (Ret None, ex_powerless)" by (simp add: payload_map_def)
  obtain json where json: "Marshal (payload_value (Some [])) = Inr json" by (simp add: payload_value_def Marshal_def)
  show "\<exists>body s'. dispatch ?rs ?r ex_powerless = (Ret (Some body, [], 200), s') \<and> passwordHash (acct s' 0) = ''newpass''"
    using password_patch_unchecked [OF ex_no_hooks refl req(1,2) res uri(1) member req(3) len gen pay json fields ex_redis, of undefined undefined] by blast
qed

end
