(* ===== verification/Rf_Crud.thy ===== *)
theory Rf_Crud
  imports Rf_Effects
begin

text \<open>
  The writing parts of POST, DELETE and PUT: a created resource is stored and linked under a new
  index of its collection, deleting it restores the database, and a PUT replaces what was stored.
\<close>

section \<open>Regions of stored values\<close>

context redis_server
begin

lemma remove_stored:
  assumes "wf_ival (GObj fs)" "2 * vdepth (GObj fs) \<le> n"
    and "\<forall>k. under key k \<longrightarrow> view w k = flat key (GObj fs) k"
    and "\<forall>(name, v) \<in> set fs. removable (map_of (r_Properties res) name) v"
  shows "\<exists>w'. RedisRemoveResource R n res key w = (Ret (), w') \<and> view w' = clear key (view w)"
  unfolding RedisRemoveResource_def
proof (rule remove_object_step [OF assms(1-3)])
  fix name v m wa
  assume nv: "(name, v) \<in> set fs" and m: "2 * vdepth v + 1 \<le> m"
    and reg: "\<forall>k. under (key @ CHR ''/'' # name) k \<longrightarrow> view wa k = flat (key @ CHR ''/'' # name) v k"
  have "wf_ival v" "removable (map_of (r_Properties res) name) v" using assms(1,4) nv by auto
  then show "\<exists>w'. redisRemoveField R m (map_of (r_Properties res) name) (key @ CHR ''/'' # name) wa = (Ret (), w') \<and>
      view w' = clear (key @ CHR ''/'' # name) (view wa)"
    using remove_flat [OF _ _ m reg] by blast
qed

end

lemma ival_fields_removable:
  "storable_fields props obj \<Longrightarrow> \<forall>(n, v) \<in> set (ival_fields props obj). removable (map_of props n) v"
  by (auto elim!: ival_fields_mem simp: removable_storable)

lemma update_set_subset: "set (AList.update n v fs) \<subseteq> insert (n, v) (set fs)"
  by (induction fs) auto

lemma generated_subset:
  "set (generated_odata fs) \<subseteq> {(''@odata.id'', GNil), (''@odata.type'', GNil), (''@odata.context'', GNil)} \<union> set fs"
proof -
  let ?a = "AList.update ''@odata.id'' GNil fs"
  let ?b = "AList.update ''@odata.type'' GNil ?a"
  have "set ?a \<subseteq> insert (''@odata.id'', GNil) (set fs)" "set ?b \<subseteq> insert (''@odata.type'', GNil) (set ?a)"
    "set (generated_odata fs) \<subseteq> insert (''@odata.context'', GNil) (set ?b)"
    unfolding generated_odata_def by (rule update_set_subset)+
  then show ?thesis by blast
qed

lemma wf_generated:
  assumes "wf_ival (GObj fs)"
  shows "wf_ival (GObj (generated_odata fs))"
proof -
  have "distinct (map fst (generated_odata fs))" using assms by (simp add: generated_odata_def distinct_update)
  moreover have "generated_odata fs \<noteq> []" by (cases fs) (auto simp: generated_odata_def)
  moreover have "\<forall>(n, v) \<in> set (generated_odata fs). CHR ''/'' \<notin> set n \<and> wf_ival v"
    using generated_subset [of fs] assms by fastforce
  ultimately show ?thesis by simp
qed

lemma removable_generated:
  "\<forall>(n, v) \<in> set fs. removable (map_of props n) v \<Longrightarrow> \<forall>(n, v) \<in> set (generated_odata fs). removable (map_of props n) v"
  using generated_subset [of fs] by fastforce

section \<open>The members of a collection\<close>

text \<open>The keys of the members and of a link, in the form of a key and its child.\<close>

definition members_key :: "string \<Rightarrow> string" where
  "members_key uri = uri @ ''/Members''"

definition link_key :: "string \<Rightarrow> string \<Rightarrow> string" where
  "link_key uri index = members_key uri @ CHR ''/'' # index"

lemma member_keys:
  "uri @ ''/Members'' = members_key uri" "uri @ ''/Members/'' @ index = link_key uri index"
  "uri @ ''/Members/'' @ index @ ''/@odata.id'' = link_key uri index @ ''/@odata.id''"
  by (simp_all add: members_key_def link_key_def)

text \<open>
  The list of members holds decimal indices. A new member gets the index after the largest in use,
  and its link is stored under that index.
\<close>

definition next_index :: "int list \<Rightarrow> int" where
  "next_index is = fold max is 0 + 1"

definition member_indices :: "int list \<Rightarrow> bool" where
  "member_indices is \<longleftrightarrow> (\<forall>i \<in> set is. 0 \<le> i \<and> i < 2 ^ 63 - 1)"

definition member_link :: "string \<Rightarrow> gval" where
  "member_link target = GObj [(''@odata.id'', GString target)]"

definition with_member :: "string \<Rightarrow> string \<Rightarrow> int list \<Rightarrow> rdb \<Rightarrow> rdb" where
  "with_member uri target is db =
     db(members_key uri \<mapsto> RList (map FormatInt (is @ [next_index is]))) ++
     flat (link_key uri (FormatInt (next_index is))) (member_link target)"

lemma fold_max_bounds:
  assumes "member_indices is" "0 \<le> a" "a < 2 ^ 63 - 1"
  shows "0 \<le> fold max is a \<and> fold max is a < 2 ^ 63 - 1 \<and> (\<forall>i \<in> set is. i \<le> fold max is a) \<and> a \<le> fold max is (a :: int)"
  using assms
proof (induction "is" arbitrary: a)
  case (Cons i "is")
  have "member_indices is" "0 \<le> max i a" "max i a < 2 ^ 63 - 1" using Cons.prems by (auto simp: member_indices_def)
  then show ?case using Cons.IH [of "max i a"] by auto
qed simp

lemma next_index_bounds:
  assumes "member_indices is"
  shows "0 < next_index is" "next_index is < 2 ^ 63" "next_index is \<notin> set is"
    "FormatInt (next_index is) \<notin> set (map FormatInt is)"
proof -
  note b = fold_max_bounds [OF assms, of 0]
  show 1: "0 < next_index is" "next_index is < 2 ^ 63" "next_index is \<notin> set is"
    using b by (force simp: next_index_def)+
  show "FormatInt (next_index is) \<notin> set (map FormatInt is)"
  proof
    assume "FormatInt (next_index is) \<in> set (map FormatInt is)"
    then obtain i where "i \<in> set is" "FormatInt (next_index is) = FormatInt i" by auto
    then have "next_index is = i" using FormatInt_inj [of "next_index is" i] assms 1(1) by (auto simp: member_indices_def)
    then show False using 1(3) \<open>i \<in> set is\<close> by simp
  qed
qed

lemma max_index_format: "member_indices is \<Longrightarrow> max_index (map FormatInt is) a = go_return (fold max is a)"
proof (induction "is" arbitrary: a)
  case (Cons i "is")
  then have "ParseInt (FormatInt i) = Inr i" by (intro ParseInt_FormatInt) (auto simp: member_indices_def)
  then show ?case using Cons by (auto simp: member_indices_def max_def)
qed simp


lemma link_flat:
  "flat key (member_link t) = Map.empty(key @ ''/@odata.id'' \<mapsto> RString t, key \<mapsto> RSet {''@odata.id''})"
  by (simp add: member_link_def)

lemma link_key_not_members [simp]: "\<not> under (link_key uri i) (members_key uri)"
  by (simp add: link_key_def)

context redis_server
begin

lemma append_member_effect:
  assumes "list_result (view w (members_key uri)) = Inr (map FormatInt is)" "member_indices is"
    and "fresh (link_key uri (FormatInt (next_index is))) (view w)"
  shows "\<exists>w'. append_member R uri t w = (Ret (), w') \<and> view w' = with_member uri t is (view w)"
proof -
  let ?M = "members_key uri" and ?i = "FormatInt (next_index is)"
  have off: "int64 (fold max is 0 + 1) = next_index is"
    using next_index_bounds(1,2) [OF assms(2)] by (simp add: int64_id next_index_def)
  have "rpush_eff (view w ?M) [?i] = Inr (Some (RList (map FormatInt is @ [?i])))"
    using assms(1) by (cases "view w ?M" rule: list_result.cases) auto
  then obtain w1 where w1: "rRPush R ?M [?i] w = (Ret (Inr ()), w1)"
    "view w1 = (view w)(?M \<mapsto> RList (map FormatInt is @ [?i]))"
    using rpush_ok [of "[?i]" w ?M] by blast
  have "fresh (link_key uri ?i) (view w1)" unfolding w1(2) using assms(3) by (auto simp: fresh_def)
  then obtain w2 where w2: "RedisInsert R (member_link t) (link_key uri ?i) w1 = (Ret (Inr ()), w2)"
    "view w2 = view w1 ++ flat (link_key uri ?i) (member_link t)"
    using insert_flat(1) [of "member_link t" "link_key uri ?i" w1] by (auto simp: member_link_def)
  have "append_member R uri t w = (Ret (), w2)"
    unfolding append_member_def member_keys
    using w1(1) w2(1) lrange_law [of ?M w] off assms(1)
    by (simp add: go_must_apply go_bind_apply max_index_format [OF assms(2)] member_link_def Let_def del: RedisInsert.simps)
  then show ?thesis using w1(2) w2(2) by (simp add: with_member_def)
qed

lemma find_link_Cons:
  "find_link R uri t (x # xs) w =
    (if view w (link_key uri x @ ''/@odata.id'') = Some (RString t) \<or> t = [] \<and> get_result (view w (link_key uri x @ ''/@odata.id'')) \<in> range Inl
     then (Ret x, w) else find_link R uri t xs w)"
  using get_law [of "link_key uri x @ ''/@odata.id''" w]
  by (cases "view w (link_key uri x @ ''/@odata.id'')" rule: get_result.cases)
    (auto simp: go_bind_apply link_key_def members_key_def)

lemma find_link_skip:
  "\<forall>x \<in> set xs. view w (link_key uri x @ ''/@odata.id'') \<noteq> Some (RString t) \<Longrightarrow> t \<noteq> [] \<Longrightarrow>
    find_link R uri t (xs @ ys) w = find_link R uri t ys w"
  by (induction xs) (simp_all add: find_link_Cons del: find_link.simps)

lemma remove_member_effect:
  assumes "view w = with_member uri t is db" "member_indices is" "t \<noteq> []"
    and "list_result (db (members_key uri)) = Inr (map FormatInt is)" "db (members_key uri) \<noteq> Some (RList [])"
    and "fresh (link_key uri (FormatInt (next_index is))) db"
    and "\<forall>i \<in> set is. db (link_key uri (FormatInt i) @ ''/@odata.id'') \<noteq> Some (RString t)"
  shows "\<exists>w'. remove_member R uri t w = (Ret (), w') \<and> view w' = db"
proof -
  let ?M = "members_key uri" and ?i = "FormatInt (next_index is)" and ?xs = "map FormatInt is"
  let ?L = "link_key uri ?i"
  have view: "view w = (db(?M \<mapsto> RList (?xs @ [?i])))(?L @ ''/@odata.id'' \<mapsto> RString t, ?L \<mapsto> RSet {''@odata.id''})"
    unfolding assms(1) with_member_def link_flat by (auto simp: map_add_def fun_eq_iff)
  have other: "link_key uri (FormatInt i) @ ''/@odata.id'' \<noteq> ?L @ ''/@odata.id''" if "i \<in> set is" for i
  proof -
    have "FormatInt i \<noteq> ?i" using next_index_bounds(4) [OF assms(2)] that by (metis imageI set_map)
    then show ?thesis by (simp add: link_key_def)
  qed
  have skip: "\<forall>x \<in> set ?xs. view w (link_key uri x @ ''/@odata.id'') \<noteq> Some (RString t)"
    using assms(7) other unfolding view by (auto simp: link_key_def)
  have found: "find_link R uri t (?xs @ [?i]) w = (Ret ?i, w)"
    unfolding find_link_skip [OF skip assms(3)] find_link_Cons by (simp add: view link_key_def)
  have "removeAll ?i (?xs @ [?i]) = ?xs" using next_index_bounds(4) [OF assms(2)] by (simp add: removeAll_id)
  then have "lrem_eff (view w ?M) ?i = Inr (norm_list ?xs)" by (simp add: view link_key_def)
  then obtain w1 where w1: "rLRem R ?M ?i w = (Ret (Inr ()), w1)" "view w1 = (view w)(?M := norm_list ?xs)"
    using lrem_law [of ?M ?i w] by (cases "rLRem R ?M ?i w") (auto simp: cmd_effect_def)
  obtain w2 where w2: "rDel R ?L w1 = (Ret (Inr ()), w2)" "view w2 = (view w1)(?L := None)" by (rule del_ok)
  obtain w3 where w3: "rDel R (?L @ ''/@odata.id'') w2 = (Ret (Inr ()), w3)" "view w3 = (view w2)(?L @ ''/@odata.id'' := None)"
    by (rule del_ok)
  have keys: "uri @ ''/Members/'' @ ?i @ ''/@odata.id'' = ?L @ ''/@odata.id''" "uri @ ''/Members/'' @ ?i = ?L" "uri @ ''/Members'' = ?M"
    by (simp_all add: link_key_def members_key_def)
  have "rLRange R ?M w = (Ret (Inr (?xs @ [?i])), w)" using lrange_law [of ?M w] by (simp add: view link_key_def)
  then have run: "remove_member R uri t w = (Ret (), w3)"
    unfolding remove_member_def keys(3) using found w1(1) w2(1) w3(1)
    by (simp add: go_must_apply go_bind_apply keys del: append_Cons append_Nil append_assoc)
  have "norm_list ?xs = db ?M" using assms(4,5) by (cases "db ?M" rule: list_result.cases) (auto simp: norm_list_def)
  moreover have "db ?L = None" "db (?L @ ''/@odata.id'') = None"
    using assms(6) under_child [of ?L "''@odata.id''"] by (simp_all add: fresh_def)
  ultimately have "view w3 = db" unfolding w3(2) w2(2) w1(2) view by (auto simp: fun_eq_iff link_key_def)
  then show ?thesis using run by blast
qed

end


section \<open>Creating and deleting\<close>

text \<open>The key of a resource and those of the members of its collection are apart.\<close>

lemma apart_members:
  assumes "CHR ''/'' \<notin> set name" "name \<noteq> ''Members''" "under (members_key uri) k"
  shows "\<not> under (uri @ CHR ''/'' # name) k"
proof
  assume "under (uri @ CHR ''/'' # name) k"
  moreover have "under (uri @ CHR ''/'' # ''Members'') k" using assms(3) by (simp add: members_key_def)
  ultimately show False using sibling_disjoint [of uri name k "''Members''"] assms(1,2) by simp
qed

lemma under_link: "under (link_key uri i) k \<Longrightarrow> under (members_key uri) k"
  unfolding link_key_def by (rule under_trans [OF under_child])

lemma link_under [simp]: "under (link_key uri i) (link_key uri i @ ''/@odata.id'')"
  using under_child [of "link_key uri i" "''@odata.id''"] by simp

definition free_place :: "string \<Rightarrow> string \<Rightarrow> int list \<Rightarrow> rdb \<Rightarrow> bool" where
  "free_place uri name is db \<longleftrightarrow> CHR ''/'' \<notin> set name \<and> name \<noteq> ''Members'' \<and> fresh (uri @ ''/'' @ name) db \<and>
     list_result (db (members_key uri)) = Inr (map FormatInt is) \<and> member_indices is \<and>
     fresh (link_key uri (FormatInt (next_index is))) db"

context redis_server
begin

lemma create_effect:
  assumes "rfd_redis rfd = R" "storable_fields (r_Properties res) obj" "free_place uri name is (view w)"
  defines "key \<equiv> uri @ ''/'' @ name" and "v \<equiv> GObj (generated_odata (ival_fields (r_Properties res) obj))"
  shows "\<exists>w'. create_resource rfd res uri key obj w = (Ret (), w') \<and> view w' = with_member uri key is (view w ++ flat key v)"
proof -
  have wf: "wf_ival v" unfolding v_def by (rule wf_generated [OF wf_ival_fields_storable [OF assms(2)]])
  have place: "CHR ''/'' \<notin> set name" "name \<noteq> ''Members''" "fresh key (view w)"
    "list_result (view w (members_key uri)) = Inr (map FormatInt is)" "member_indices is"
    "fresh (link_key uri (FormatInt (next_index is))) (view w)"
    using assms(3) by (simp_all add: free_place_def key_def)
  obtain w1 where w1: "RedisInsert R v key w = (Ret (Inr ()), w1)" "view w1 = view w ++ flat key v"
    using insert_flat(1) [OF wf place(3)] by (auto simp: v_def)
  have same: "view w1 k = view w k" if "under (members_key uri) k" for k
    unfolding w1(2) using apart_members [OF place(1,2) that] by (simp add: map_add_def flat_None key_def)
  have "list_result (view w1 (members_key uri)) = Inr (map FormatInt is)" using same place(4) by simp
  moreover have "fresh (link_key uri (FormatInt (next_index is))) (view w1)"
    using place(6) same under_link by (auto simp: fresh_def)
  ultimately obtain w2 where "append_member R uri key w1 = (Ret (), w2)" "view w2 = with_member uri key is (view w1)"
    using append_member_effect place(5) by blast
  moreover have "create_resource rfd res uri key obj w = append_member R uri key w1"
    unfolding create_resource_def assms(1)
    using w1(1) by (simp add: go_must_apply Interface2Redis_ival [OF assms(2)] v_def del: RedisInsert.simps)
  ultimately show ?thesis using w1(2) by auto
qed

lemma delete_effect:
  assumes "storable_fields (r_Properties res) obj" "free_place uri name is db" "db (members_key uri) \<noteq> Some (RList [])"
    and "\<forall>i \<in> set is. db (link_key uri (FormatInt i) @ ''/@odata.id'') \<noteq> Some (RString (uri @ ''/'' @ name))"
  defines "key \<equiv> uri @ ''/'' @ name" and "v \<equiv> GObj (generated_odata (ival_fields (r_Properties res) obj))"
  assumes "2 * vdepth v \<le> n" "view w = with_member uri key is (db ++ flat key v)"
  shows "\<exists>w1 w2. RedisRemoveResource R n res key w = (Ret (), w1) \<and> remove_member R uri key w1 = (Ret (), w2) \<and> view w2 = db"
proof -
  have place: "CHR ''/'' \<notin> set name" "name \<noteq> ''Members''" "fresh key db"
    "list_result (db (members_key uri)) = Inr (map FormatInt is)" "member_indices is"
    "fresh (link_key uri (FormatInt (next_index is))) db"
    using assms(2) by (simp_all add: free_place_def key_def)
  have apart: "\<not> under (members_key uri) k" if "under key k" for k
    using apart_members [OF place(1,2), of uri k] that by (auto simp: key_def)
  have outside: "with_member uri key is d k = d k" if "\<not> under (members_key uri) k" for d k
  proof -
    have "k \<noteq> members_key uri" "\<not> under (link_key uri (FormatInt (next_index is))) k" using that under_link by auto
    then show ?thesis by (simp add: with_member_def map_add_def flat_None)
  qed
  have region: "\<forall>k. under key k \<longrightarrow> view w k = flat key v k"
    unfolding assms(8) using outside apart fresh_add_flat [OF place(3)] by simp
  have wf: "wf_ival v" unfolding v_def by (rule wf_generated [OF wf_ival_fields_storable [OF assms(1)]])
  obtain w1 where w1: "RedisRemoveResource R n res key w = (Ret (), w1)" "view w1 = clear key (view w)"
    using remove_stored [where w = w and key = key, OF wf [unfolded v_def] assms(7) [unfolded v_def] region [unfolded v_def]
        removable_generated [OF ival_fields_removable [OF assms(1)]]] by blast
  have "clear key (with_member uri key is (db ++ flat key v)) k = with_member uri key is db k" for k
  proof (cases "under key k")
    case True
    then show ?thesis using place(3) outside [OF apart [OF True], of db] by (simp add: clear_def fresh_def)
  next
    case False
    then show ?thesis by (simp add: clear_def with_member_def map_add_def flat_None split: option.split)
  qed
  then have "view w1 = with_member uri key is db" unfolding w1(2) assms(8) by blast
  then have "\<exists>w2. remove_member R uri key w1 = (Ret (), w2) \<and> view w2 = db"
    by (rule remove_member_effect [OF _ place(5) _ place(4) assms(3) place(6)]) (use assms(4) in \<open>simp_all add: key_def\<close>)
  then show ?thesis using w1(1) by blast
qed

end

lemma collection_of: "CHR ''/'' \<notin> set name \<Longrightarrow> Join (butlast (Split1 (uri @ ''/'' @ name) CHR ''/'')) ''/'' = uri"
  using Join_Split1 [of uri "CHR ''/''"] by (simp add: Split1_split Split1_no_sep del: Join_Split1)

section \<open>Replacing\<close>

lemma conversion_pure:
  "preserves I (structField2Redis None path p v)"
  "preserves I (struct_elems None path p i vs)"
  "preserves I (struct_fields None path ps obj res)"
proof (induction "None :: 'c Interface2RedisCB option" path p v and "None :: 'c Interface2RedisCB option" path p i vs
       and "None :: 'c Interface2RedisCB option" path ps obj res
       rule: structField2Redis_struct_elems_struct_fields.induct)
  case (1 path p v)
  then show ?case unfolding structField2Redis.simps field_done_def
    by (auto intro!: preserves_check split: PropertyType.split gval.split option.split)
qed (auto intro!: preserves_check split: option.split)

lemma unknown_not_converted:
  assumes "n \<in> set (map fst body)" "map_of props n = None"
  shows "Interface2Redis None [] props body c \<noteq> (Ret (Inr r), c')"
proof
  assume "Interface2Redis None [] props body c = (Ret (Inr r), c')"
  then have "struct_fields None [] props body [] c = (Ret (Inr r), c')" by (simp add: Interface2Redis_def)
  then have "set (map fst body) \<subseteq> set (map fst props)"
    by (rule struct_fields_typed [rotated, THEN conjunct2, THEN conjunct2]) (simp_all add: typed_fields_def structField_typed)
  then show False using assms by (auto simp: map_of_eq_None_iff)
qed

definition holds_object :: "string \<Rightarrow> properties \<Rightarrow> gobj \<Rightarrow> rdb \<Rightarrow> bool" where
  "holds_object key props obj db \<longleftrightarrow> (\<forall>k. under key k \<longrightarrow> db k = flat key (GObj (ival_fields props obj)) k)"

lemma fresh_clear: "fresh key (clear key db)"
  by (simp add: fresh_def clear_def)

context redis_server
begin

lemma remove_held:
  assumes "storable_fields (r_Properties res) obj" "holds_object key (r_Properties res) obj (view w)"
    and "2 * vdepth (GObj (ival_fields (r_Properties res) obj)) \<le> n"
  shows "\<exists>w'. RedisRemoveResource R n res key w = (Ret (), w') \<and> view w' = clear key (view w)"
  by (rule remove_stored [OF wf_ival_fields_storable [OF assms(1)] assms(3) _ ival_fields_removable [OF assms(1)]])
    (use assms(2) in \<open>simp add: holds_object_def\<close>)

end

section \<open>Properties\<close>

text \<open>
  C3. POST and DELETE are inverse: a conforming resource whose name is free in its collection is
  stored and linked under an index that no other member has; deleting it then finds that link and
  leaves every key of Redis as it was before the creation, provided no other member of the collection
  links to the name.
\<close>

theorem create_then_delete:
  assumes "redis_server R view" "rfd_redis rfd = R" "storable_fields (r_Properties res) obj"
    and "free_place uri name is (view w)"
    and "\<forall>i \<in> set is. view w (link_key uri (FormatInt i) @ ''/@odata.id'') \<noteq> Some (RString (uri @ ''/'' @ name))"
    and "2 * vdepth (GObj (generated_odata (ival_fields (r_Properties res) obj))) \<le> n"
  shows "\<exists>w1 w2 w3. create_resource rfd res uri (uri @ ''/'' @ name) obj w = (Ret (), w1) \<and>
    view w1 (link_key uri (FormatInt (next_index is)) @ ''/@odata.id'') = Some (RString (uri @ ''/'' @ name)) \<and>
    RedisRemoveResource R n res (uri @ ''/'' @ name) w1 = (Ret (), w2) \<and>
    remove_member R (Join (butlast (Split1 (uri @ ''/'' @ name) CHR ''/'')) ''/'') (uri @ ''/'' @ name) w2 = (Ret (), w3) \<and>
    view w3 = view w"
proof -
  let ?key = "uri @ ''/'' @ name" and ?v = "GObj (generated_odata (ival_fields (r_Properties res) obj))"
  obtain w1 where w1: "create_resource rfd res uri ?key obj w = (Ret (), w1)"
    "view w1 = with_member uri ?key is (view w ++ flat ?key ?v)"
    using redis_server.create_effect [OF assms(1-4)] by blast
  obtain w2 w3 where "RedisRemoveResource R n res ?key w1 = (Ret (), w2)" "remove_member R uri ?key w2 = (Ret (), w3)" "view w3 = view w"
    using redis_server.delete_effect [OF assms(1,3,4) redis_server.no_empty_list [OF assms(1)] assms(5,6) w1(2)] by blast
  moreover have "view w1 (link_key uri (FormatInt (next_index is)) @ ''/@odata.id'') = Some (RString ?key)"
    unfolding w1(2) with_member_def link_flat by (simp add: map_add_def link_key_def)
  moreover have "Join (butlast (Split1 ?key CHR ''/'')) ''/'' = uri"
    using assms(4) by (intro collection_of) (simp add: free_place_def)
  ultimately show ?thesis using w1(1) by metis
qed


text \<open>
  C7. A PUT replaces the resource: when a conforming object is stored at the URI, a new conforming
  object takes its place, no key of the old object remains, no key elsewhere changes, and reading the
  resource returns the new object.
\<close>

theorem put_replaces:
  assumes "redis_server R view" "rfd_redis rfd = R" "r2s_redis r2s = R"
    and "storable_fields (r_Properties res) old" "storable_fields (r_Properties res) new"
    and "holds_object uri (r_Properties res) old (view w)"
    and "2 * vdepth (GObj (ival_fields (r_Properties res) old)) \<le> n"
  shows "\<exists>w' payload. replace_resource rfd n res uri new w = (Ret (), w') \<and>
    holds_object uri (r_Properties res) new (view w') \<and> (\<forall>k. \<not> under uri k \<longrightarrow> view w' k = view w k) \<and>
    BuildStruct r2s (r_Properties res) uri w' = (Ret (Inr payload), w') \<and>
    jobj payload = rb_fields (r2s_XName r2s) (r_Properties res) new"
proof -
  let ?v = "GObj (ival_fields (r_Properties res) new)"
  obtain w1 where w1: "RedisRemoveResource R n res uri w = (Ret (), w1)" "view w1 = clear uri (view w)"
    using redis_server.remove_held [OF assms(1,4,6,7)] by blast
  have fresh: "fresh uri (view w1)" unfolding w1(2) by (rule fresh_clear)
  obtain w2 where w2: "RedisInsert R ?v uri w1 = (Ret (Inr ()), w2)" "view w2 = view w1 ++ flat uri ?v"
    using redis_server.insert_flat(1) [OF assms(1) wf_ival_fields_storable [OF assms(5)] fresh] by auto
  have region: "\<forall>k. under uri k \<longrightarrow> view w2 k = flat uri ?v k"
    unfolding w2(2) using fresh_add_flat [OF fresh] by blast
  have "replace_resource rfd n res uri new w = (Ret (), w2)"
    unfolding replace_resource_def assms(2)
    using w1(1) w2(1) by (simp add: go_bind_apply go_must_apply Interface2Redis_ival [OF assms(5)] del: RedisInsert.simps)
  moreover have "\<forall>k. \<not> under uri k \<longrightarrow> view w2 k = view w k"
    by (simp add: w2(2) w1(2) map_add_def flat_None clear_def del: flat.simps)
  ultimately show ?thesis
    using redis_server.BuildStruct_read [OF assms(1,3,5) region] region by (auto simp: holds_object_def)
qed

text \<open>
  C37. A PUT that cannot be converted destroys the resource: when the body names a property that the
  schema does not have, the replacement fails, and by then all keys of the stored resource are gone.
\<close>

theorem put_failure_loses_resource:
  assumes "redis_server R view" "rfd_redis rfd = R" "storable_fields (r_Properties res) old"
    and "holds_object uri (r_Properties res) old (view w)"
    and "2 * vdepth (GObj (ival_fields (r_Properties res) old)) \<le> n"
    and "m \<in> set (map fst body)" "map_of (r_Properties res) m = None"
  shows "\<exists>r w'. replace_resource rfd n res uri body w = (r, w') \<and> r \<noteq> Ret () \<and> view w' = clear uri (view w)"
proof -
  obtain w1 where w1: "RedisRemoveResource R n res uri w = (Ret (), w1)" "view w1 = clear uri (view w)"
    using redis_server.remove_held [OF assms(1,3-5)] by blast
  let ?conv = "Interface2Redis None [] (r_Properties res) body w1"
  have "snd ?conv = w1"
    using conversion_pure(3) [of "\<lambda>x. x = w1"] unfolding preserves_def Interface2Redis_def by blast
  moreover have "fst ?conv \<noteq> Ret (Inr data)" for data
    using unknown_not_converted [OF assms(6,7), of w1 data "snd ?conv"] by (metis prod.collapse)
  ultimately have "\<exists>r. go_must (Interface2Redis None [] (r_Properties res) body) f w1 = (r, w1) \<and> r \<noteq> Ret ()" for f :: "gobj \<Rightarrow> ('a, unit) go"
    by (cases ?conv) (auto simp: go_must_apply split: outcome.split sum.split)
  then obtain r where "replace_resource rfd n res uri body w = (r, w1)" "r \<noteq> Ret ()"
    unfolding replace_resource_def assms(2) go_bind_apply w1(1) by force
  then show ?thesis using w1(2) by blast
qed


text \<open>Instances with the in-memory server.\<close>

lemma ex_res_storable: "storable_fields (r_Properties ex_res) ex_obj"
  by (simp add: ex_res_def ex_storable)

lemma ex_held:
  obtains w where "RedisInsert mem_redis (GObj (ival_fields (r_Properties ex_res) ex_obj)) ''/redfish/v1/Outlet'' [] = (Ret (Inr ()), w)"
    "holds_object ''/redfish/v1/Outlet'' (r_Properties ex_res) ex_obj (mem_view w)"
proof -
  let ?v = "GObj (ival_fields (r_Properties ex_res) ex_obj)" and ?k = "''/redfish/v1/Outlet''"
  obtain w where w: "RedisInsert mem_redis ?v ?k [] = (Ret (Inr ()), w)" "mem_view w = mem_view [] ++ flat ?k ?v"
    using mr.insert_flat(1) [OF wf_ival_fields_storable [OF ex_res_storable] fresh_mem_Nil] by auto
  have "holds_object ?k (r_Properties ex_res) ex_obj (mem_view w)"
    unfolding holds_object_def w(2) using fresh_add_flat [OF fresh_mem_Nil] by blast
  then show ?thesis using that w(1) by blast
qed

theorem create_then_delete_witness:
  "\<exists>w1 w2 w3. create_resource ex_rfd ex_res ''/redfish/v1/Outlets'' ''/redfish/v1/Outlets/A'' ex_obj [] = (Ret (), w1) \<and>
    mem_view w1 ''/redfish/v1/Outlets/Members/1/@odata.id'' = Some (RString ''/redfish/v1/Outlets/A'') \<and>
    RedisRemoveResource mem_redis 10 ex_res ''/redfish/v1/Outlets/A'' w1 = (Ret (), w2) \<and>
    remove_member mem_redis ''/redfish/v1/Outlets'' ''/redfish/v1/Outlets/A'' w2 = (Ret (), w3) \<and> mem_view w3 = mem_view []"
proof -
  have place: "free_place ''/redfish/v1/Outlets'' ''A'' [] (mem_view [])"
    using fresh_mem_Nil by (simp add: free_place_def member_indices_def mem_view_def mem_get_def)
  have d: "2 * vdepth (GObj (generated_odata (ival_fields (r_Properties ex_res) ex_obj))) \<le> 10" by code_simp
  have rfd: "rfd_redis ex_rfd = mem_redis" by (simp add: ex_rfd_def)
  have keys: "link_key ''/redfish/v1/Outlets'' (FormatInt (next_index [])) = ''/redfish/v1/Outlets/Members/1''"
    "Join (butlast (Split1 ''/redfish/v1/Outlets/A'' CHR ''/'')) ''/'' = ''/redfish/v1/Outlets''" by code_simp+
  show ?thesis
    using create_then_delete [OF mem_redis_server rfd ex_res_storable place _ d] by (simp add: keys)
qed

theorem put_replaces_witness:
  "\<exists>w w' payload. holds_object ''/redfish/v1/Outlet'' (r_Properties ex_res) ex_obj (mem_view w) \<and>
    replace_resource ex_rfd 10 ex_res ''/redfish/v1/Outlet'' [(''Name'', GString ''new'')] w = (Ret (), w') \<and>
    BuildStruct ex_r2s (r_Properties ex_res) ''/redfish/v1/Outlet'' w' = (Ret (Inr payload), w')"
proof -
  obtain w where "holds_object ''/redfish/v1/Outlet'' (r_Properties ex_res) ex_obj (mem_view w)" by (rule ex_held)
  moreover have "rfd_redis ex_rfd = mem_redis" "r2s_redis ex_r2s = mem_redis" by (simp_all add: ex_rfd_def ex_r2s_def)
  moreover have "storable_fields (r_Properties ex_res) [(''Name'', GString ''new'')]" by code_simp
  moreover have "2 * vdepth (GObj (ival_fields (r_Properties ex_res) ex_obj)) \<le> 10" by code_simp
  ultimately show ?thesis
    using put_replaces [OF mem_redis_server, of ex_rfd ex_r2s ex_res ex_obj "[(''Name'', GString ''new'')]" "''/redfish/v1/Outlet''" w 10]
      ex_res_storable by blast
qed

theorem put_failure_loses_resource_witness:
  "\<exists>w r w'. holds_object ''/redfish/v1/Outlet'' (r_Properties ex_res) ex_obj (mem_view w) \<and>
    replace_resource ex_rfd 10 ex_res ''/redfish/v1/Outlet'' [(''Colour'', GString ''red'')] w = (r, w') \<and> r \<noteq> Ret () \<and>
    mem_view w' ''/redfish/v1/Outlet'' = None"
proof -
  obtain w where w: "holds_object ''/redfish/v1/Outlet'' (r_Properties ex_res) ex_obj (mem_view w)" by (rule ex_held)
  have "rfd_redis ex_rfd = mem_redis" by (simp add: ex_rfd_def)
  moreover have "2 * vdepth (GObj (ival_fields (r_Properties ex_res) ex_obj)) \<le> 10" by code_simp
  moreover have "map_of (r_Properties ex_res) ''Colour'' = None" by code_simp
  ultimately obtain r w' where "replace_resource ex_rfd 10 ex_res ''/redfish/v1/Outlet'' [(''Colour'', GString ''red'')] w = (r, w')"
    "r \<noteq> Ret ()" "mem_view w' = clear ''/redfish/v1/Outlet'' (mem_view w)"
    using put_failure_loses_resource [OF mem_redis_server _ ex_res_storable w, of ex_rfd 10 "''Colour''" "[(''Colour'', GString ''red'')]"] by auto
  then show ?thesis using w by (auto simp: clear_def)
qed

end
