(* ===== verification/Schema_Versions.thy ===== *)
theory Schema_Versions
  imports Dispatcher
begin

text \<open>
  The releases of the DMTF schema bundles and the choice of a version of a resource or an object
  (\<open>internal/rfschema/versions.go\<close>), and the checks of the configuration
  (\<open>internal/rfschema/configuration.go\<close>). The process-wide \<open>VersionMapper\<close> is passed along as a
  value; the files of a directory are given as their names with what reading and unmarshalling them
  returns.
\<close>

section \<open>Releases\<close>

datatype Version =
    VersionUnknown | Version1_0 | Version1_0_1 | Version1_1 | Version2016_1 | Version2016_2 | Version2016_3
  | Version2017_1 | Version2017_2 | Version2017_3 | Version2018_1 | Version2018_2 | Version2018_3
  | Version2019_1 | VersionLatest

fun Version_String :: "Version \<Rightarrow> string" where
  "Version_String Version1_0 = ''Version 1.0''"
| "Version_String Version1_0_1 = ''Version 1.0.1''"
| "Version_String Version1_1 = ''Version 1.1''"
| "Version_String Version2016_1 = ''Version 2016.1''"
| "Version_String Version2016_2 = ''Version 2016.2''"
| "Version_String Version2016_3 = ''Version 2016.3''"
| "Version_String Version2017_1 = ''Version 2017.1''"
| "Version_String Version2017_2 = ''Version 2017.2''"
| "Version_String Version2017_3 = ''Version 2017.3''"
| "Version_String Version2018_1 = ''Version 2018.1''"
| "Version_String Version2018_2 = ''Version 2018.2''"
| "Version_String Version2018_3 = ''Version 2018.3''"
| "Version_String Version2019_1 = ''Version 2019.1''"
| "Version_String VersionLatest = ''Version Latest''"
| "Version_String VersionUnknown = ''Unknown''"

definition version_names :: "(string \<times> Version) list" where
  "version_names =
     [(''1.0'', Version1_0), (''1.0.1'', Version1_0_1), (''1.1'', Version1_1),
      (''2016.1'', Version2016_1), (''2016.2'', Version2016_2), (''2016.3'', Version2016_3),
      (''2017.1'', Version2017_1), (''2017.2'', Version2017_2), (''2017.3'', Version2017_3),
      (''2018.1'', Version2018_1), (''2018.2'', Version2018_2), (''2018.3'', Version2018_3),
      (''2019.1'', Version2019_1), (''Latest'', VersionLatest)]"

definition ParseVersion :: "string \<Rightarrow> Version \<times> go_error option" where
  "ParseVersion name = (case map_of version_names name of
      Some version \<Rightarrow> (version, None)
    | None \<Rightarrow> (VersionUnknown, Some (Err (name @ '' is not a valid version''))))"

section \<open>Mappings\<close>

record Cycle =
  SourceField :: string
  DestinationResource :: string

record VersionMapping =
  vm_Version :: Version
  vm_Resources :: "(string \<times> string) list"
  vm_Objects :: "(string \<times> string) list"
  AllowedCollections :: "(string \<times> bool) list"
  KnownCycles :: "(string \<times> Cycle) list"

type_synonym VersionMapper = "(Version \<times> VersionMapping) list"

definition AddMapping :: "VersionMapping \<Rightarrow> VersionMapper \<Rightarrow> go_error + VersionMapper" where
  "AddMapping mapping vm =
     (if map_of vm (vm_Version mapping) \<noteq> None then Inl (Err ''Version mapping already exists'')
      else Inr (AList.update (vm_Version mapping) mapping vm))"

text \<open>A file fails with the mappings of the files before it already added.\<close>

fun add_files :: "string \<Rightarrow> (string \<times> (go_error + VersionMapping)) list \<Rightarrow> VersionMapper \<Rightarrow> VersionMapper \<times> go_error option" where
  "add_files dir [] vm = (vm, None)"
| "add_files dir ((f, content) # fs) vm =
     (case (case content of Inl e \<Rightarrow> Inl e | Inr mapping \<Rightarrow> AddMapping mapping vm) of
        Inl e \<Rightarrow> (vm, Some (Err (''Unable to add mapping file: '' @ filepath_Join [dir, f] @ '' Reason: '' @ Error e)))
      | Inr vm' \<Rightarrow> add_files dir fs vm')"

definition ReadDir :: "string \<Rightarrow> (go_error + (string \<times> (go_error + VersionMapping)) list) \<Rightarrow> VersionMapper \<Rightarrow> VersionMapper \<times> go_error option" where
  "ReadDir dir listing vm = (case listing of
      Inl e \<Rightarrow> (vm, Some (Err (''Unable to read mapping directory. Reason: '' @ Error e)))
    | Inr fs \<Rightarrow> add_files dir fs vm)"

definition GetVersionMapping :: "VersionMapper \<Rightarrow> Version \<Rightarrow> VersionMapping option" where
  "GetVersionMapping vm version = map_of vm version"

section \<open>Choosing a version\<close>

definition selectResourceVersion :: "VersionMapper \<Rightarrow> string \<Rightarrow> Version \<Rightarrow> string list \<Rightarrow> ('w, string) go" where
  "selectResourceVersion vm schemaName version versions =
     (if versions = [] then go_panic ''No versions present''
      else if version = VersionLatest then go_return (last (sort_Strings versions))
      else (case GetVersionMapping vm version of
          Some mapping \<Rightarrow> (case map_of (vm_Resources mapping) schemaName of
              Some v \<Rightarrow> go_return v
            | None \<Rightarrow> go_panic (''Resource not found: '' @ schemaName))
        | None \<Rightarrow> go_panic (''Unsupported version: '' @ Version_String version @ '' for: '' @ schemaName)))"

definition selectObjectVersion :: "VersionMapper \<Rightarrow> string \<Rightarrow> Version \<Rightarrow> string list \<Rightarrow> ('w, string) go" where
  "selectObjectVersion vm schemaName version versions =
     (if versions = [] then go_panic ''No versions present''
      else if version = VersionLatest then go_return (last (sort_Strings versions))
      else (case GetVersionMapping vm version of
          Some mapping \<Rightarrow> (case map_of (vm_Objects mapping) schemaName of
              Some v \<Rightarrow> go_return v
            | None \<Rightarrow> (case map_of (vm_Resources mapping) schemaName of
                Some v \<Rightarrow> go_return v
              | None \<Rightarrow> go_panic (''Object not found: '' @ schemaName)))
        | None \<Rightarrow> go_panic (''Unsupported version: '' @ Version_String version @ '' for: '' @ schemaName)))"

text \<open>The first match of the expression \<open>v[0-9]_[0-9]_[0-9]\<close>, or the empty string.\<close>

definition is_digit :: "char \<Rightarrow> bool" where
  "is_digit c \<longleftrightarrow> digit_val c \<noteq> None"

fun find_version :: "string \<Rightarrow> string" where
  "find_version [] = []"
| "find_version (c # s) =
     (case s of
        a # u # b # v # d # _ \<Rightarrow>
          if c = CHR ''v'' \<and> is_digit a \<and> u = CHR ''_'' \<and> is_digit b \<and> v = CHR ''_'' \<and> is_digit d
          then [c, a, u, b, v, d] else find_version s
      | _ \<Rightarrow> [])"

fun extract_refs :: "gval list \<Rightarrow> (string \<times> string) list \<Rightarrow> ('w, (string \<times> string) list) go" where
  "extract_refs [] version2Ref = go_return version2Ref"
| "extract_refs (rawElement # rest) version2Ref =
     (case rawElement of
        GObj element \<Rightarrow> (case map_of element ''$ref'' of
            Some (GString refString) \<Rightarrow>
              if Contains refString ''idRef'' then extract_refs rest version2Ref
              else if find_version refString = [] then go_panic ''Could not find version from reference''
              else extract_refs rest (AList.update (find_version refString) refString version2Ref)
          | Some _ \<Rightarrow> go_panic ''interface conversion: interface {} is not string''
          | None \<Rightarrow> go_panic ''Expected reference'')
      | _ \<Rightarrow> go_panic ''interface conversion: interface {} is not map[string]interface {}'')"

definition ExtractResourceVersions :: "gobj \<Rightarrow> ('w, (string \<times> string) list) go" where
  "ExtractResourceVersions obj = (case map_of obj ''anyOf'' of
      None \<Rightarrow> go_return []
    | Some (GArr anyOf) \<Rightarrow> extract_refs anyOf []
    | Some _ \<Rightarrow> go_panic ''interface conversion: interface {} is not []interface {}'')"

section \<open>Configuration\<close>

record Config =
  ContribDirPrefix :: string
  SchemaDir :: string
  MappingDir :: string
  cfg_Version :: string
  OemMappings :: string
  OemExtensionDir :: string

definition ParsePFlagConfig :: "Config \<Rightarrow> go_error option" where
  "ParsePFlagConfig config =
     (if cfg_Version config = [] then Some (Err ''-version flag is not set'')
      else if OemMappings config \<noteq> [] \<and> OemExtensionDir config = []
      then Some (Err ''-oem flag required -oemext to be also set'') else None)"


text \<open>The environment and the existence of a directory are given as functions.\<close>

definition SetupEnvConfig :: "(string \<Rightarrow> string option) \<Rightarrow> (string \<Rightarrow> bool) \<Rightarrow> go_error + Config" where
  "SetupEnvConfig LookupEnv isDir =
     (let contribDirPrefix = (case LookupEnv ''CONTRIB_DIR_PREFIX'' of Some p \<Rightarrow> p | None \<Rightarrow> ''.'') in
      case LookupEnv ''SCHEMA_VERSION'' of
        None \<Rightarrow> Inl (Err ''SCHEMA_VERSION environment variable is not set'')
      | Some versionStr \<Rightarrow>
          (let schemaDir = filepath_Join [contribDirPrefix, ''contrib/DMTF/DSP8010-Redfish_Schema/DSP8010_'' @ versionStr @ ''/json-schema''];
               mappingDir = filepath_Join [contribDirPrefix, ''contrib/Cray/hms-redfish-schema-tools/Mappings'']
           in if \<not> isDir schemaDir then Inl (Err ''schema directory does not exist'')
              else if \<not> isDir mappingDir then Inl (Err ''mapping directory does not exist'')
              else if LookupEnv ''OEM_MAPPINGS'' \<noteq> None \<and> LookupEnv ''OEM_EXTENSION_DIR'' = None
              then Inl (Err ''OEM_MAPPINGS environment variable requires OEM_EXTENSION_DIR to be also set'')
              else Inr \<lparr> ContribDirPrefix = contribDirPrefix, SchemaDir = schemaDir, MappingDir = mappingDir,
                     cfg_Version = versionStr,
                     OemMappings = (case LookupEnv ''OEM_MAPPINGS'' of Some m \<Rightarrow> m | None \<Rightarrow> []),
                     OemExtensionDir = (case LookupEnv ''OEM_EXTENSION_DIR'' of Some d \<Rightarrow> d | None \<Rightarrow> []) \<rparr>))"

section \<open>Facts about versions\<close>

text \<open>A version with two digits in one of its numbers is not found, so its reference panics.\<close>

lemma two_digit_version_panics:
  "ExtractResourceVersions [(''anyOf'', GArr [GObj [(''$ref'', GString ''http://redfish.dmtf.org/schemas/v1/Chassis.v1_10_0.json#/definitions/Chassis'')]])] w =
     (Panic ''Could not find version from reference'', w)"
proof -
  have "find_version ''http://redfish.dmtf.org/schemas/v1/Chassis.v1_10_0.json#/definitions/Chassis'' = []" by code_simp
  moreover have "\<not> Contains ''http://redfish.dmtf.org/schemas/v1/Chassis.v1_10_0.json#/definitions/Chassis'' ''idRef''" by code_simp
  ultimately show ?thesis by (simp add: ExtractResourceVersions_def)
qed

lemma sorted_last: "sorted xs \<Longrightarrow> u \<in> set xs \<Longrightarrow> u \<le> last xs"
  by (induction xs) auto

lemma latest_is_last:
  assumes "versions \<noteq> []"
  shows "\<exists>v \<in> set versions. selectResourceVersion vm n VersionLatest versions w = (Ret v, w) \<and> (\<forall>u \<in> set versions. u \<le> v)"
proof -
  let ?s = "sort versions"
  have "?s \<noteq> []" using assms by (metis set_empty set_sort)
  then have "last ?s \<in> set versions" using last_in_set [of ?s] by simp
  moreover have "u \<le> last ?s" if "u \<in> set versions" for u
    using sorted_last [of ?s u] that by simp
  ultimately show ?thesis using assms by (auto simp: selectResourceVersion_def sort_Strings_def)
qed

section \<open>Properties\<close>

text \<open>
  The names of the releases and the enumeration agree: a name parses to a release without an
  error exactly when the release is printed as \<open>Version\<close> followed by the name, and every release
  but the unknown one has a name.
\<close>

theorem ParseVersion_String:
  "(ParseVersion name = (v, None) \<longleftrightarrow> Version_String v = ''Version '' @ name) \<and>
   ((\<exists>n. ParseVersion n = (v, None)) \<longleftrightarrow> v \<noteq> VersionUnknown)"
proof -
  have parse: "ParseVersion n = (v, None) \<longleftrightarrow> map_of version_names n = Some v" for n
    by (auto simp: ParseVersion_def split: option.split)
  have "map_of version_names n = Some v \<longleftrightarrow> Version_String v = ''Version '' @ n" for n
    by (cases v) (auto simp: version_names_def)
  then show ?thesis unfolding parse by (cases v) auto
qed

end
