(* ===== verification/Schema_Refs.thy ===== *)
theory Schema_Refs
  imports Schema_Versions
begin

text \<open>
  What the schema parser (\<open>internal/rfschema/parsing.go\<close>) rests on: type assertions on JSON values,
  URLs, JSON pointers and JSON references (the vendored packages \<open>gojsonpointer\<close> and
  \<open>gojsonreference\<close>), the regular expressions for the names of schema files, and the pool of
  schemas with the loading of its files. Of \<open>net/url\<close> the scheme, host, path, query and fragment
  are kept; what stands between \<open>//\<close> and the next slash is the host, unchecked. Reading files and
  unmarshalling JSON are parameters; a schema file holds an object.
\<close>

section \<open>Type assertions\<close>

definition conversion_panic :: "gval \<Rightarrow> string \<Rightarrow> ('w, 'a) go" where
  "conversion_panic v t = go_panic (''interface conversion: interface {} is ''
     @ (if v = GNil then ''nil'' else gval_type_name v) @ '', not '' @ t)"

definition as_string :: "gval \<Rightarrow> ('w, string) go" where
  "as_string v = (case v of GString s \<Rightarrow> go_return s | _ \<Rightarrow> conversion_panic v ''string'')"

definition as_bool :: "gval \<Rightarrow> ('w, bool) go" where
  "as_bool v = (case v of GBool b \<Rightarrow> go_return b | _ \<Rightarrow> conversion_panic v ''bool'')"

definition as_float64 :: "gval \<Rightarrow> ('w, float64) go" where
  "as_float64 v = (case v of GFloat f \<Rightarrow> go_return f | _ \<Rightarrow> conversion_panic v ''float64'')"

text \<open>No value of \<open>encoding/json\<close> is an \<open>int\<close>, nor is an \<open>int64\<close> one.\<close>

definition as_int :: "gval \<Rightarrow> ('w, int) go" where
  "as_int v = conversion_panic v ''int''"

definition as_array :: "gval \<Rightarrow> ('w, gval list) go" where
  "as_array v = (case v of GArr xs \<Rightarrow> go_return xs | _ \<Rightarrow> conversion_panic v ''[]interface {}'')"

definition as_object :: "gval \<Rightarrow> ('w, gobj) go" where
  "as_object v = (case v of GObj m \<Rightarrow> go_return m | _ \<Rightarrow> conversion_panic v ''map[string]interface {}'')"

text \<open>\<open>if raw, ok := m[key]; ok { x := raw.(T) }\<close>: the value under a key, if there is one.\<close>

definition opt_key :: "(gval \<Rightarrow> ('w, 'a) go) \<Rightarrow> gobj \<Rightarrow> string \<Rightarrow> ('w, 'a option) go" where
  "opt_key conv m key = (case map_of m key of
      None \<Rightarrow> go_return None
    | Some raw \<Rightarrow> go_bind (conv raw) (\<lambda>x. go_return (Some x)))"

text \<open>A loop whose body carries a value.\<close>

fun go_loop :: "('a \<Rightarrow> 'b \<Rightarrow> ('w, 'b) go) \<Rightarrow> 'a list \<Rightarrow> 'b \<Rightarrow> ('w, 'b) go" where
  "go_loop f [] b = go_return b"
| "go_loop f (x # xs) b = go_bind (f x b) (go_loop f xs)"

text \<open>The loop that appends the assertion of every element to a slice.\<close>

definition as_strings :: "gval list \<Rightarrow> ('w, string list) go" where
  "as_strings xs = go_loop (\<lambda>x acc. go_bind (as_string x) (\<lambda>s. go_return (acc @ [s]))) xs []"

section \<open>URLs\<close>

record URL =
  u_Scheme :: string
  u_Host :: string
  u_Path :: string
  u_RawQuery :: string
  u_Fragment :: string

definition escape_error :: "string \<Rightarrow> go_error" where
  "escape_error s = Err (''invalid URL escape '' @ take 3 s)"

text \<open>Percent decoding of a path or a fragment.\<close>

fun unescape :: "string \<Rightarrow> go_error + string" where
  "unescape [] = Inr []"
| "unescape (c # s) =
     (if c = CHR ''%'' then
        (case s of
           a # b # t \<Rightarrow> (case (hex_val a, hex_val b) of
               (Some x, Some y) \<Rightarrow> map_sum id (\<lambda>r. char_of (x * 16 + y) # r) (unescape t)
             | _ \<Rightarrow> Inl (escape_error (c # s)))
         | _ \<Rightarrow> Inl (escape_error (c # s)))
      else map_sum id (\<lambda>r. c # r) (unescape s))"

text \<open>\<open>strings.Cut\<close> at the first occurrence of a byte.\<close>

definition Cut1 :: "string \<Rightarrow> char \<Rightarrow> string \<times> string" where
  "Cut1 s c = (takeWhile (\<lambda>x. x \<noteq> c) s, drop 1 (dropWhile (\<lambda>x. x \<noteq> c) s))"

definition is_letter :: "char \<Rightarrow> bool" where
  "is_letter c = (let n = (of_char c :: nat) in (65 \<le> n \<and> n \<le> 90) \<or> (97 \<le> n \<and> n \<le> 122))"

definition is_upper :: "char \<Rightarrow> bool" where
  "is_upper c = (let n = (of_char c :: nat) in 65 \<le> n \<and> n \<le> 90)"

text \<open>The scheme before the first colon, if only scheme characters precede it.\<close>

definition getScheme :: "string \<Rightarrow> go_error + string \<times> string" where
  "getScheme s =
     (let ok = (\<lambda>c. is_letter c \<or> is_digit c \<or> c = CHR ''+'' \<or> c = CHR ''-'' \<or> c = CHR ''.'');
          a = takeWhile ok s; r = dropWhile ok s
      in if a \<noteq> [] \<and> \<not> is_letter (hd a) then Inr ([], s)
         else case r of
           [] \<Rightarrow> Inr ([], s)
         | c # t \<Rightarrow> if c = CHR '':'' then (if a = [] then Inl (Err ''missing protocol scheme'') else Inr (a, t))
                    else Inr ([], s))"

definition is_ctl :: "char \<Rightarrow> bool" where
  "is_ctl c = (let n = (of_char c :: nat) in n < 32 \<or> n = 127)"

definition url_rest :: "string \<Rightarrow> string \<Rightarrow> string \<Rightarrow> go_error + URL" where
  "url_rest scheme query rest =
     (if \<not> HasPrefix rest ''/'' \<and> scheme \<noteq> [] then Inr \<lparr>u_Scheme = scheme, u_Host = [], u_Path = [], u_RawQuery = query, u_Fragment = []\<rparr>
      else if \<not> HasPrefix rest ''/'' \<and> CHR '':'' \<in> set (fst (Cut1 rest CHR ''/''))
      then Inl (Err ''first path segment in URL cannot contain colon'')
      else let (host, path) = (if (scheme \<noteq> [] \<or> \<not> HasPrefix rest ''///'') \<and> HasPrefix rest ''//''
                               then (takeWhile (\<lambda>c. c \<noteq> CHR ''/'') (drop 2 rest), dropWhile (\<lambda>c. c \<noteq> CHR ''/'') (drop 2 rest))
                               else ([], rest))
        in map_sum id (\<lambda>p. \<lparr>u_Scheme = scheme, u_Host = host, u_Path = p, u_RawQuery = query, u_Fragment = []\<rparr>) (unescape path))"

definition url_parse :: "string \<Rightarrow> go_error + URL" where
  "url_parse s =
     (if list_ex is_ctl s then Inl (Err ''net/url: invalid control character in URL'')
      else if s = ''*'' then Inr \<lparr>u_Scheme = [], u_Host = [], u_Path = ''*'', u_RawQuery = [], u_Fragment = []\<rparr>
      else case getScheme s of
        Inl e \<Rightarrow> Inl e
      | Inr (scheme, rest) \<Rightarrow> (let (r, q) = Cut1 rest CHR ''?'' in url_rest (ToLower scheme) q r))"

definition url_Parse :: "string \<Rightarrow> go_error + URL" where
  "url_Parse raw =
     (let (u, frag) = Cut1 raw CHR ''#'' in
      case url_parse u of
        Inl e \<Rightarrow> Inl (Err (''parse '' @ u @ '': '' @ Error e))
      | Inr url \<Rightarrow> if frag = [] then Inr url
          else case unescape frag of
            Inl e \<Rightarrow> Inl (Err (''parse '' @ raw @ '': '' @ Error e))
          | Inr f \<Rightarrow> Inr (url\<lparr>u_Fragment := f\<rparr>))"

section \<open>JSON pointers and references\<close>

text \<open>A pointer is the list of its reference tokens; the empty list is the whole document.\<close>

type_synonym JsonPointer = "string list"

definition NewJsonPointer :: "string \<Rightarrow> go_error + JsonPointer" where
  "NewJsonPointer s = (case s of
      [] \<Rightarrow> Inr []
    | c # t \<Rightarrow> if c \<noteq> CHR ''/'' then Inl (Err (''JSON pointer must be empty or start with a '' @ [CHR 0x22] @ ''/'' @ [CHR 0x22]))
               else Inr (Split1 t CHR ''/''))"

text \<open>\<open>strings.Replace\<close> of a sequence of two bytes by one.\<close>

fun replace2 :: "char \<Rightarrow> char \<Rightarrow> char \<Rightarrow> string \<Rightarrow> string" where
  "replace2 a b r (c # d # s) = (if c = a \<and> d = b then r # replace2 a b r s else c # replace2 a b r (d # s))"
| "replace2 a b r s = s"

definition decodeReferenceToken :: "string \<Rightarrow> string" where
  "decodeReferenceToken token = replace2 CHR ''~'' CHR ''0'' CHR ''~'' (replace2 CHR ''~'' CHR ''1'' CHR ''/'' token)"

fun pointer_Get :: "JsonPointer \<Rightarrow> gval \<Rightarrow> go_error + gval" where
  "pointer_Get [] node = Inr node"
| "pointer_Get (token # tokens) (GObj v) = (case map_of v (decodeReferenceToken token) of
       Some node \<Rightarrow> pointer_Get tokens node
     | None \<Rightarrow> Inl (Err (''Object has no key '' @ [CHR 0x27] @ decodeReferenceToken token @ [CHR 0x27])))"
| "pointer_Get (token # tokens) (GArr v) = (case ParseInt token of
       Inl _ \<Rightarrow> Inl (Err (''Invalid array index '' @ [CHR 0x27] @ token @ [CHR 0x27]))
     | Inr i \<Rightarrow> if i < 0 \<or> int (length v) \<le> i then Inl (Err (''Out of bound array[0,'' @ FormatInt (int (length v)) @ ''] index '' @ [CHR 0x27] @ FormatInt i @ [CHR 0x27]))
                else pointer_Get tokens (v ! nat i))"
| "pointer_Get (token # tokens) _ = Inl (Err (''Invalid token reference '' @ [CHR 0x27] @ token @ [CHR 0x27]))"

definition pointer_String :: "JsonPointer \<Rightarrow> string" where
  "pointer_String p = (if p = [] then [] else CHR ''/'' # Join p ''/'')"

record JsonReference =
  ref_Url :: URL
  ref_Pointer :: JsonPointer
  HasFragmentOnly :: bool

text \<open>A fragment that is no pointer leaves the empty pointer; the error is dropped.\<close>

definition NewJsonReference :: "string \<Rightarrow> go_error + JsonReference" where
  "NewJsonReference s = (case url_Parse s of
      Inl e \<Rightarrow> Inl e
    | Inr u \<Rightarrow> Inr \<lparr> ref_Url = u,
        ref_Pointer = (case NewJsonPointer (u_Fragment u) of Inr p \<Rightarrow> p | Inl _ \<Rightarrow> []),
        HasFragmentOnly = (\<not> (u_Scheme u \<noteq> [] \<and> u_Host u \<noteq> []) \<and> u_Path u = [] \<and> u_RawQuery u = [] \<and> u_Fragment u \<noteq> []) \<rparr>)"

section \<open>Names of schema files\<close>

text \<open>The match of \<open>v[0-9]*_[0-9]*_[0-9]*|test\<close> at the start of a string.\<close>

definition match_tag :: "string \<Rightarrow> string option" where
  "match_tag s =
     (if HasPrefix s ''test'' then Some ''test''
      else let s1 = drop 1 s; d1 = takeWhile is_digit s1; r1 = dropWhile is_digit s1;
               d2 = takeWhile is_digit (drop 1 r1); r2 = dropWhile is_digit (drop 1 r1);
               d3 = takeWhile is_digit (drop 1 r2)
           in if HasPrefix s ''v'' \<and> HasPrefix r1 ''_'' \<and> HasPrefix r2 ''_''
              then Some (''v'' @ d1 @ ''_'' @ d2 @ ''_'' @ d3) else None)"

text \<open>The match of \<open>VersionResourceFileRegex\<close> at the start of a string.\<close>

definition match_versioned :: "string \<Rightarrow> string option" where
  "match_versioned s = (case s of [] \<Rightarrow> None
    | c # t \<Rightarrow>
       (let l = takeWhile is_letter t; r = dropWhile is_letter t in
        if is_upper c \<and> l \<noteq> [] \<and> HasPrefix r ''.'' then
          (case match_tag (drop 1 r) of
             Some tag \<Rightarrow> if HasPrefix (drop (1 + length tag) r) ''.json'' then Some (c # l @ ''.'' @ tag @ ''.json'') else None
           | None \<Rightarrow> None)
        else None))"

text \<open>The leftmost match, or the empty string.\<close>

fun find_versioned :: "string \<Rightarrow> string" where
  "find_versioned [] = []"
| "find_versioned (c # s) = (case match_versioned (c # s) of Some m \<Rightarrow> m | None \<Rightarrow> find_versioned s)"

text \<open>A match of \<open>Redundancy\.v[0-9]_[0-9]_[0-9]\.json\<close> anywhere.\<close>

fun redundancy_file :: "string \<Rightarrow> bool" where
  "redundancy_file [] = False"
| "redundancy_file (c # s) =
     (HasPrefix (c # s) ''Redundancy.'' \<and> (let r = drop 11 (c # s) in
        find_version (take 6 r) \<noteq> [] \<and> HasPrefix (drop 6 r) ''.json'') \<or> redundancy_file s)"

section \<open>Schemas and the pool\<close>

record OemExtension =
  oem_FileName :: string
  oem_Reference :: string

text \<open>\<open>TopLevel\<close> is \<open>None\<close> for a nil map. The pool that contains a schema is passed along.\<close>

record Schema =
  sc_FileName :: string
  sc_Body :: gobj
  sc_TopLevel :: "gobj option"

record SchemaPool =
  sp_Pool :: "(string \<times> Schema) list"
  sp_Version :: Version
  OemExtensions :: "(string \<times> OemExtension) list"

definition NewSchemaPool :: "Version \<Rightarrow> SchemaPool" where
  "NewSchemaPool version = \<lparr> sp_Pool = [], sp_Version = version, OemExtensions = [] \<rparr>"

definition SchemaPool_Get :: "SchemaPool \<Rightarrow> string \<Rightarrow> Schema option" where
  "SchemaPool_Get sp schemaFile = map_of (sp_Pool sp) schemaFile"

text \<open>A nil map reads as an empty one.\<close>

definition TopLevel :: "Schema \<Rightarrow> gobj" where
  "TopLevel s = (case sc_TopLevel s of None \<Rightarrow> [] | Some m \<Rightarrow> m)"

definition Schema_IsCollection :: "Schema \<Rightarrow> bool" where
  "Schema_IsCollection s = HasSuffix (sc_FileName s) ''Collection.json''"

definition IsVersionedResource :: "Schema \<Rightarrow> bool" where
  "IsVersionedResource s = (sc_TopLevel s \<noteq> None \<and> find_versioned (sc_FileName s) \<noteq> [])"

definition IsResource :: "Schema \<Rightarrow> bool" where
  "IsResource s = (sc_TopLevel s \<noteq> None \<and> \<not> IsVersionedResource s)"

record schema_files =
  sfReadDir :: "string \<Rightarrow> go_error + string list"
  sfReadFile :: "string \<Rightarrow> go_error + string"
  sfUnmarshal :: "string \<Rightarrow> go_error + gobj"
  sfUnmarshalOem :: "string \<Rightarrow> go_error + (string \<times> OemExtension) list"

text \<open>The reference to the top level schema of a file: the fixed one of \<open>Redundancy\<close>, or its \<open>$ref\<close>.\<close>

definition top_ref :: "string \<Rightarrow> gobj \<Rightarrow> ('w, string option) go" where
  "top_ref fileName body =
     (if fileName = ''Redundancy.json'' \<or> redundancy_file fileName then go_return (Some ''#/definitions/Redundancy'')
      else case pointer_Get [''$ref''] (GObj body) of
        Inl _ \<Rightarrow> go_return None
      | Inr rawRef \<Rightarrow> go_bind (as_string rawRef) (\<lambda>refString. go_return (Some refString)))"

definition ReadSchema :: "schema_files \<Rightarrow> string \<Rightarrow> ('w, go_error + Schema) go" where
  "ReadSchema fs filePath =
     (case sfReadFile fs filePath of
        Inl e \<Rightarrow> go_return (Inl (Err (''Unable to read schema: '' @ filePath @ '' Reason: '' @ Error e)))
      | Inr text \<Rightarrow> (case sfUnmarshal fs text of
          Inl e \<Rightarrow> go_return (Inl (Err (''Unable to unmarshal schema: '' @ filePath @ '' Reason: '' @ Error e)))
        | Inr body \<Rightarrow>
            (let schema = \<lparr> sc_FileName = Base filePath, sc_Body = body, sc_TopLevel = None \<rparr> in
             go_bind (top_ref (sc_FileName schema) body) (\<lambda>refString.
               case refString of
                 None \<Rightarrow> go_return (Inr schema)
               | Some r \<Rightarrow> (case NewJsonReference r of
                   Inl e \<Rightarrow> go_return (Inl e)
                 | Inr ref \<Rightarrow>
                     if HasFragmentOnly ref then
                       go_must (go_return (pointer_Get (ref_Pointer ref) (GObj body))) (\<lambda>top.
                         go_bind (as_object top) (\<lambda>m. go_return (Inr (schema\<lparr>sc_TopLevel := Some m\<rparr>))))
                     else go_return (Inr schema))))))"

text \<open>The loop of \<open>ReadDir\<close>; a failing file leaves the files before it in the pool.\<close>

fun read_files :: "schema_files \<Rightarrow> string \<Rightarrow> string list \<Rightarrow> SchemaPool \<Rightarrow> ('w, SchemaPool \<times> go_error option) go" where
  "read_files fs schemaDir [] sp = go_return (sp, None)"
| "read_files fs schemaDir (name # names) sp =
     go_bind (ReadSchema fs (filepath_Join [schemaDir, name])) (\<lambda>r. case r of
         Inl e \<Rightarrow> go_return (sp, Some e)
       | Inr schema \<Rightarrow> read_files fs schemaDir names (sp\<lparr>sp_Pool := AList.update name schema (sp_Pool sp)\<rparr>))"

definition SchemaPool_ReadDir :: "schema_files \<Rightarrow> string \<Rightarrow> SchemaPool \<Rightarrow> ('w, SchemaPool \<times> go_error option) go" where
  "SchemaPool_ReadDir fs schemaDir sp =
     (case sfReadDir fs schemaDir of
        Inl e \<Rightarrow> go_return (sp, Some (Err (''Unable to read schema dir. Reason: '' @ Error e)))
      | Inr names \<Rightarrow> read_files fs schemaDir names sp)"

text \<open>\<open>json.Unmarshal\<close> adds its entries to the map it is given.\<close>

definition AddOemExtensions :: "schema_files \<Rightarrow> string \<Rightarrow> string \<Rightarrow> SchemaPool \<Rightarrow> ('w, SchemaPool \<times> go_error option) go" where
  "AddOemExtensions fs mappingFile extensionDir sp =
     (case sfReadFile fs mappingFile of
        Inl e \<Rightarrow> go_return (sp, Some (Err (''Unable to read oem mapping file. Reason: '' @ Error e)))
      | Inr mappingRaw \<Rightarrow> (case sfUnmarshalOem fs mappingRaw of
          Inl e \<Rightarrow> go_return (sp, Some (Err (''Unable to parse oem mapping file. Reason: '' @ Error e)))
        | Inr mappings \<Rightarrow>
            go_bind (SchemaPool_ReadDir fs extensionDir
                (sp\<lparr>OemExtensions := fold (\<lambda>(k, v). AList.update k v) mappings (OemExtensions sp)\<rparr>)) (\<lambda>(sp', err).
              case err of
                Some e \<Rightarrow> go_return (sp', Some (Err (''Unable to read oem extension dir. Reason: '' @ Error e)))
              | None \<Rightarrow> go_return (sp', None))))"

end
