(* ===== verification/Schema_Copy.thy ===== *)
theory Schema_Copy
  imports Rf_Schema
begin

text \<open>
  Copying resources and properties of the schema (\<open>internal/rfschema/copy.go\<close>). A copy is only
  taken of an unlinked resource: a link or a collection that already leads to a resource panics.
  What is copied is proved equal to the original up to the integer bounds, which are lost.
\<close>

section \<open>The operations\<close>

text \<open>The composite literal and the simple fields of \<open>copyProperty\<close>.\<close>

definition copy_info :: "prop_info \<Rightarrow> prop_info" where
  "copy_info from =
     prop_zero\<lparr> p_Type := p_Type from, p_NullAllowed := p_NullAllowed from, p_ReadOnly := p_ReadOnly from,
       p_Deprecated := p_Deprecated from, p_linkRef := p_linkRef from, p_IsNavLink := p_IsNavLink from,
       p_IsNavArray := p_IsNavArray from, p_LinkAutoExpand := p_LinkAutoExpand from,
       p_Types := [] @ p_Types from, p_PatternProperties := [] @ p_PatternProperties from,
       p_EnumMembers := [] @ p_EnumMembers from, p_DeprecatedEnums := p_DeprecatedEnums from,
       p_DeprecatedReason := p_DeprecatedReason from, p_Description := p_Description from,
       p_LongDescription := p_LongDescription from, p_AdditionalProperties := p_AdditionalProperties from,
       p_arrayRefString := p_arrayRefString from, p_StringFormat := p_StringFormat from,
       p_StringMaxLength := p_StringMaxLength from, p_StringMinLength := p_StringMinLength from,
       p_StringPattern := p_StringPattern from, p_NumberMaximum := p_NumberMaximum from,
       p_NumberMinimum := p_NumberMinimum from, p_Units := p_Units from,
       p_RequiredParameters := [] @ p_RequiredParameters from \<rparr>"

fun copyProperty :: "property \<Rightarrow> ('w, property) go"
and copy_props :: "properties \<Rightarrow> ('w, properties) go"
and copy_opt :: "property option \<Rightarrow> ('w, property option) go"
where
  "copyProperty (Property info props arrayOf link params target title) =
     go_bind (copy_props props) (\<lambda>props'.
       if link \<noteq> None then go_panic ''Link has value''
       else
         go_bind (copy_opt arrayOf) (\<lambda>arrayOf'.
         go_bind (copy_props params) (\<lambda>params'.
         go_bind (copy_opt target) (\<lambda>target'.
         go_bind (copy_opt title) (\<lambda>title'.
           go_return (Property (copy_info info) props' arrayOf' None params' target' title'))))))"
| "copy_props [] = go_return []"
| "copy_props ((name, fromProp) # rest) =
     go_bind (copyProperty fromProp) (\<lambda>p. go_bind (copy_props rest) (\<lambda>ps. go_return ((name, p) # ps)))"
| "copy_opt None = go_return None"
| "copy_opt (Some p) = go_bind (copyProperty p) (\<lambda>p'. go_return (Some p'))"

definition copy_res_info :: "res_info \<Rightarrow> res_info" where
  "copy_res_info from =
     res_zero\<lparr> r_InstanceID := r_InstanceID from, r_Name := r_Name from, r_ODataType := r_ODataType from,
       r_ODataContext := r_ODataContext from, r_AdditionalProperties := r_AdditionalProperties from,
       r_PatternProperties := r_PatternProperties from, r_IsCollection := r_IsCollection from,
       r_EmbeddedCollection := r_EmbeddedCollection from, r_RequiredProperties := r_RequiredProperties from,
       r_RequiredOnCreate := r_RequiredOnCreate from, r_VersionString := r_VersionString from,
       r_ReferenceCount := r_ReferenceCount from, r_Insertable := r_Insertable from,
       r_Updatable := r_Updatable from, r_Deletable := r_Deletable from,
       r_Description := r_Description from, r_LongDescription := r_LongDescription from \<rparr>"

definition copyResource :: "resource \<Rightarrow> ('w, resource) go" where
  "copyResource from =
     (if r_CollectionOf from \<noteq> None then go_panic ''Collection can not link a resource yet''
      else go_bind (copy_props (r_Properties from)) (\<lambda>props.
        go_return (Resource (copy_res_info (r_info from)) None props)))"

section \<open>What a copy keeps\<close>

text \<open>No property leads to a resource.\<close>

fun unlinked :: "property \<Rightarrow> bool" where
  "unlinked (Property info props arrayOf link params target title) \<longleftrightarrow>
     link = None \<and> (\<forall>(n, p) \<in> set props. unlinked p) \<and> (\<forall>(n, p) \<in> set params. unlinked p) \<and>
     (\<forall>p \<in> set_option arrayOf. unlinked p) \<and> (\<forall>p \<in> set_option target. unlinked p) \<and> (\<forall>p \<in> set_option title. unlinked p)"

definition unlinked_resource :: "resource \<Rightarrow> bool" where
  "unlinked_resource r \<longleftrightarrow> r_CollectionOf r = None \<and> (\<forall>(n, p) \<in> set (r_Properties r). unlinked p)"

text \<open>The bounds of integers are dropped at every level.\<close>

fun without_int_bounds :: "property \<Rightarrow> property" where
  "without_int_bounds (Property info props arrayOf link params target title) =
     Property (info\<lparr>p_IntegerMaximun := None, p_IntegerMinimun := None\<rparr>)
       (map (\<lambda>(n, p). (n, without_int_bounds p)) props) (map_option without_int_bounds arrayOf) link
       (map (\<lambda>(n, p). (n, without_int_bounds p)) params) (map_option without_int_bounds target)
       (map_option without_int_bounds title)"

lemma copy_info_eq: "copy_info i = i\<lparr>p_IntegerMaximun := None, p_IntegerMinimun := None\<rparr>"
  by (simp add: copy_info_def prop_zero_def)

lemma copy_res_info_eq: "copy_res_info i = i"
  by (simp add: copy_res_info_def res_zero_def)

text \<open>
  A copy either is the original without integer bounds or panics on a link, and never touches the
  state.
\<close>

definition copies :: "('w, 'a) go \<Rightarrow> bool \<Rightarrow> 'a \<Rightarrow> bool" where
  "copies m ok a \<longleftrightarrow> (\<forall>w. m w = (if ok then (Ret a, w) else (Panic ''Link has value'', w)))"

lemma copy_copies:
  "copies (copyProperty p :: ('w, property) go) (unlinked p) (without_int_bounds p)"
  "copies (copy_props ps :: ('w, properties) go) (\<forall>(n, p) \<in> set ps. unlinked p) (map (\<lambda>(n, p). (n, without_int_bounds p)) ps)"
  "copies (copy_opt po :: ('w, property option) go) (\<forall>p \<in> set_option po. unlinked p) (map_option without_int_bounds po)"
proof (induction p and ps and po rule: copyProperty_copy_props_copy_opt.induct)
  case (1 info props arrayOf link params target title)
  then show ?case by (auto simp: copies_def go_bind_apply copy_info_eq)
next
  case (3 name p rest)
  then show ?case by (auto simp: copies_def go_bind_apply)
next
  case (5 p)
  then show ?case by (auto simp: copies_def go_bind_apply)
qed (simp_all add: copies_def)

lemmas copy_props_apply = copy_copies(2) [unfolded copies_def, rule_format]

lemma copyResource_cases: "(\<exists>c. copyResource r w = (Ret c, w)) \<or> (\<exists>e. copyResource r w = (Panic e, w))"
  by (simp add: copyResource_def go_bind_apply copy_props_apply)

section \<open>Properties\<close>

text \<open>
  A copy of a resource is equal to the resource but for the bounds of integers, which are lost at
  every level; it is taken exactly when neither the resource nor any property in it is linked, and a
  linked one panics.
\<close>

theorem copyResource_result:
  "copyResource r w =
    (if r_CollectionOf r \<noteq> None then (Panic ''Collection can not link a resource yet'', w)
     else if unlinked_resource r
     then (Ret (Resource (r_info r) None (map (\<lambda>(n, p). (n, without_int_bounds p)) (r_Properties r))), w)
     else (Panic ''Link has value'', w))"
  by (simp add: copyResource_def unlinked_resource_def go_bind_apply copy_props_apply copy_res_info_eq)

end
