(* ===== verification/Schema_Parser.thy ===== *)
theory Schema_Parser
  imports Schema_Refs Schema_Copy
begin

text \<open>
  The schema parser of \<open>internal/rfschema/parsing.go\<close>: a JSON schema is explored into the properties
  of a resource. References lead from file to file and may be cyclic, so the exploration takes fuel:
  the functions that call each other receive the callees as a record, and \<open>explore\<close> ties the knot
  with one unit of fuel less. The level, which only indents debug output, is left out; a property
  that may be a nil pointer is an option. A nil map of the source is an empty list.
\<close>

section \<open>Leaves\<close>

definition with_info :: "(prop_info \<Rightarrow> prop_info) \<Rightarrow> property \<Rightarrow> property" where
  "with_info f p = Property (f (p_info p)) (p_Properties p) (p_ArrayOf p) (p_Link p) (p_Parameters p) (p_Target p) (p_Title p)"

definition nil_deref :: "('w, 'a) go" where
  "nil_deref = go_panic ''runtime error: invalid memory address or nil pointer dereference''"

definition extractDescription :: "gobj \<Rightarrow> ('w, string option) go" where
  "extractDescription obj = opt_key as_string obj ''description''"

definition extractLongDescription :: "gobj \<Rightarrow> ('w, string option) go" where
  "extractLongDescription obj = opt_key as_string obj ''longDescription''"

definition extractNameVersion :: "string \<Rightarrow> ('w, string \<times> string) go" where
  "extractNameVersion resourceFileName = (case Split1 resourceFileName CHR ''.'' of
      n # v # _ # _ \<Rightarrow> go_return (n, v)
    | _ \<Rightarrow> go_panic (''Resource Name, Version or '' @ [CHR 0x27] @ ''.json'' @ [CHR 0x27] @ '' is missing''))"

definition findRequiredProperties :: "gobj \<Rightarrow> ('w, string list) go" where
  "findRequiredProperties schema = (case map_of schema ''required'' of
      Some rawRequired \<Rightarrow> go_bind (as_array rawRequired) as_strings
    | None \<Rightarrow> go_panic ''Entity does not have a required property'')"

definition findResourceRequiredProperties :: "Schema \<Rightarrow> ('w, string list) go" where
  "findResourceRequiredProperties schema = (case map_of (TopLevel schema) ''required'' of
      Some rawRequired \<Rightarrow> go_bind (as_array rawRequired) as_strings
    | None \<Rightarrow> go_panic ''Entity does not have a required property'')"

definition findRequiredOnCreate :: "gobj \<Rightarrow> ('w, string list) go" where
  "findRequiredOnCreate object = (case map_of object ''requiredOnCreate'' of
      Some rawRequired \<Rightarrow> go_bind (as_array rawRequired) as_strings
    | None \<Rightarrow> go_return [])"

definition findAdditionalProperties :: "gobj \<Rightarrow> ('w, bool option) go" where
  "findAdditionalProperties object = opt_key as_bool object ''additionalProperties''"

text \<open>The types a pattern applies to.\<close>

definition pattern_types :: "gval \<Rightarrow> ('w, string list) go" where
  "pattern_types rawType = (case rawType of
      GArr types \<Rightarrow> as_strings types
    | GString typeString \<Rightarrow> go_return [typeString]
    | _ \<Rightarrow> go_panic ''Unsupported type'')"

definition find_pattern :: "string \<Rightarrow> gval \<Rightarrow> ('w, PatternProperties) go" where
  "find_pattern patternRegex rawPatternObject =
     go_bind (as_object rawPatternObject) (\<lambda>patternObject.
     go_bind (opt_key as_string patternObject ''description'') (\<lambda>description.
     go_bind (opt_key pattern_types patternObject ''type'') (\<lambda>types.
       go_return \<lparr> pp_Pattern = patternRegex,
         pp_Description = (case description of None \<Rightarrow> [] | Some d \<Rightarrow> d),
         pp_Types = (case types of None \<Rightarrow> [] | Some ts \<Rightarrow> ts) \<rparr>)))"

definition findPatternProperties :: "gobj \<Rightarrow> ('w, PatternProperties list) go" where
  "findPatternProperties object = (case map_of object ''patternProperties'' of
      None \<Rightarrow> go_return []
    | Some rawPatternProps \<Rightarrow>
        go_bind (as_object rawPatternProps) (\<lambda>patternProps.
          go_loop (\<lambda>(patternRegex, rawPatternObject) patterns.
            go_bind (find_pattern patternRegex rawPatternObject) (\<lambda>pattern. go_return (patterns @ [pattern])))
            patternProps []))"

definition string_format :: "string \<Rightarrow> StringFormat" where
  "string_format formatStr = (if formatStr = ''date-time'' then FormatDate
     else if formatStr = ''uri'' then FormatURI else FormatUnknown)"

definition handleString :: "gobj \<Rightarrow> ('w, property) go" where
  "handleString prop =
     go_bind (opt_key as_int prop ''minLength'') (\<lambda>min.
     go_bind (opt_key as_int prop ''maxLength'') (\<lambda>max.
     go_bind (opt_key as_string prop ''pattern'') (\<lambda>pattern.
     go_bind (opt_key as_string prop ''format'') (\<lambda>format.
       go_return (with_info (\<lambda>i. i\<lparr> p_StringMinLength := min, p_StringMaxLength := max,
         p_StringPattern := pattern, p_StringFormat := map_option string_format format \<rparr>) (mk_prop PropString))))))"

text \<open>The descriptions of the members of an enumeration, from one of the two description maps.\<close>

definition describe_members :: "(string \<Rightarrow> EnumMember \<Rightarrow> EnumMember) \<Rightarrow> gobj \<Rightarrow> EnumMember list \<Rightarrow> ('w, EnumMember list) go" where
  "describe_members set_field descriptions members =
     go_loop (\<lambda>enum acc. go_bind (opt_key as_string descriptions (em_Name enum)) (\<lambda>desc.
       go_return (acc @ [case desc of None \<Rightarrow> enum | Some d \<Rightarrow> set_field d enum]))) members []"

definition enum_descriptions :: "string \<Rightarrow> (string \<Rightarrow> EnumMember \<Rightarrow> EnumMember) \<Rightarrow> gobj \<Rightarrow> EnumMember list \<Rightarrow> ('w, EnumMember list) go" where
  "enum_descriptions key set_field prop members = (case map_of prop key of
      None \<Rightarrow> go_return members
    | Some raw \<Rightarrow> go_bind (as_object raw) (\<lambda>descriptions. describe_members set_field descriptions members))"

definition deprecated_enums :: "gobj \<Rightarrow> ('w, (string \<times> string) list) go" where
  "deprecated_enums prop = (case map_of prop ''enumDeprecated'' of
      None \<Rightarrow> go_return []
    | Some raw \<Rightarrow> go_bind (as_object raw) (\<lambda>deprecated.
        go_loop (\<lambda>(name, rawReason) acc. go_bind (as_string rawReason) (\<lambda>reason.
          go_return (AList.update name reason acc))) deprecated []))"

definition handleEnum :: "gobj \<Rightarrow> gval \<Rightarrow> ('w, property) go" where
  "handleEnum prop rawEnums =
     go_bind (as_array rawEnums) (\<lambda>enums.
     go_bind (as_strings enums) (\<lambda>names.
     go_bind (deprecated_enums prop) (\<lambda>deprecated.
     go_bind (enum_descriptions ''enumDescriptions'' (\<lambda>d m. m\<lparr>em_Description := d\<rparr>) prop
         (map (\<lambda>n. \<lparr> em_Name = n, em_Description = [], em_LongDescription = [] \<rparr>) names)) (\<lambda>members.
     go_bind (enum_descriptions ''enumLongDescriptions'' (\<lambda>d m. m\<lparr>em_LongDescription := d\<rparr>) prop members) (\<lambda>members'.
       go_return (with_info (\<lambda>i. i\<lparr> p_EnumMembers := members', p_DeprecatedEnums := deprecated \<rparr>) (mk_prop PropEnum)))))))"

definition handleNumber :: "gobj \<Rightarrow> ('w, property) go" where
  "handleNumber prop =
     go_bind (opt_key as_float64 prop ''minimum'') (\<lambda>min.
     go_bind (opt_key as_float64 prop ''maximum'') (\<lambda>max.
     go_bind (opt_key as_string prop ''units'') (\<lambda>units.
       go_return (with_info (\<lambda>i. i\<lparr> p_NumberMinimum := min, p_NumberMaximum := max, p_Units := units \<rparr>) (mk_prop PropNumber)))))"

definition handleInteger :: "gobj \<Rightarrow> ('w, property) go" where
  "handleInteger prop =
     go_bind (opt_key as_float64 prop ''minimum'') (\<lambda>min.
     go_bind (opt_key as_float64 prop ''maximum'') (\<lambda>max.
     go_bind (opt_key as_string prop ''units'') (\<lambda>units.
       go_return (with_info (\<lambda>i. i\<lparr> p_IntegerMinimun := map_option f64_to_int64 min,
         p_IntegerMaximun := map_option f64_to_int64 max, p_Units := units \<rparr>) (mk_prop PropInteger)))))"

definition handleBool :: "gobj \<Rightarrow> ('w, property) go" where
  "handleBool prop = go_return (mk_prop PropBool)"

section \<open>Following references\<close>

text \<open>A reference that starts with the fragment has no path.\<close>

lemma fragment_no_path: "NewJsonReference (CHR ''#'' # t) = Inr ref \<Longrightarrow> u_Path (ref_Url ref) = []"
  by (auto simp: NewJsonReference_def url_Parse_def url_parse_def url_rest_def getScheme_def Cut1_def HasPrefix_def
      split: if_splits sum.splits)

function followReference :: "SchemaPool \<Rightarrow> Schema \<Rightarrow> string \<Rightarrow> ('w, (JsonPointer \<times> Schema \<times> gobj) option) go" where
  "followReference pool s refString =
     (case NewJsonReference refString of
        Inl e \<Rightarrow> go_panic (Error e)
      | Inr ref \<Rightarrow>
          if HasFragmentOnly ref then
            (case pointer_Get (ref_Pointer ref) (GObj (sc_Body s)) of
               Inl _ \<Rightarrow> go_panic ''File does not contain reference string''
             | Inr raw \<Rightarrow> go_bind (as_object raw) (\<lambda>m. go_return (Some (ref_Pointer ref, s, m))))
          else if HasPrefix (u_Path (ref_Url ref)) ''/schemas/v1/'' then
            (case SchemaPool_Get pool (TrimPrefix (u_Path (ref_Url ref)) ''/schemas/v1/'') of
               None \<Rightarrow> go_panic (''Referenced schema not found:'' @ refString)
             | Some referencedSchema \<Rightarrow>
                 followReference pool referencedSchema (''#'' @ pointer_String (ref_Pointer ref)))
          else go_return None)"
  by pat_completeness auto
termination
  by (relation "measure (\<lambda>(pool, s, r). case NewJsonReference r of
        Inl _ \<Rightarrow> 0 | Inr ref \<Rightarrow> if HasPrefix (u_Path (ref_Url ref)) ''/schemas/v1/'' then 1 else 0)")
    (auto split: sum.split dest!: fragment_no_path simp: HasPrefix_def)

declare followReference.simps [simp del]

definition exceptions :: "(string \<times> string \<times> string) list" where
  "exceptions = [(''Storage.v1_4_0.json'', ''Storage.json'', ''#/definitions/StorageController'')]"

definition isLinkException :: "string \<Rightarrow> string \<Rightarrow> string \<Rightarrow> bool" where
  "isLinkException sourceFileName resourceName linkRef = List.member exceptions (sourceFileName, resourceName, linkRef)"

text \<open>The loop over the elements of \<open>anyOf\<close>: the first reference to an id or a resource decides.\<close>

fun any_link :: "gval list \<Rightarrow> ('w, bool) go" where
  "any_link [] = go_return False"
| "any_link (rawElement # rest) =
     go_bind (as_object rawElement) (\<lambda>element. case map_of element ''$ref'' of
         None \<Rightarrow> any_link rest
       | Some rawRef \<Rightarrow> go_bind (as_string rawRef) (\<lambda>ref.
           if Contains ref ''#/definitions/idRef'' then go_return True
           else if Contains ref ''#/definitions/Resource'' then go_return True
           else any_link rest))"

definition isResourceLink :: "JsonPointer \<Rightarrow> Schema \<Rightarrow> Schema \<Rightarrow> ('w, bool) go" where
  "isResourceLink refPtr refSchema srcSchema =
     (if isLinkException (sc_FileName srcSchema) (sc_FileName refSchema) (''#'' @ pointer_String refPtr) then go_return False
      else go_must (go_return (pointer_Get refPtr (GObj (sc_Body refSchema)))) (\<lambda>rawRefBody.
        go_bind (as_object rawRefBody) (\<lambda>refBody. case map_of refBody ''anyOf'' of
            None \<Rightarrow> go_return False
          | Some rawAnyOf \<Rightarrow> go_bind (as_array rawAnyOf) any_link)))"

section \<open>Exploring\<close>

text \<open>The callees of the mutually recursive functions.\<close>

record 'w explorers =
  xObject :: "Schema \<Rightarrow> string list \<Rightarrow> gobj \<Rightarrow> ('w, properties) go"
  xType :: "Schema \<Rightarrow> string list \<Rightarrow> gobj \<Rightarrow> gval \<Rightarrow> ('w, property option) go"
  xSchema :: "Schema \<Rightarrow> string list \<Rightarrow> gobj \<Rightarrow> gval \<Rightarrow> ('w, property option) go"
  xRef :: "Schema \<Rightarrow> string list \<Rightarrow> gobj \<Rightarrow> string \<Rightarrow> ('w, property option) go"
  xActions :: "Schema \<Rightarrow> string list \<Rightarrow> gobj \<Rightarrow> ('w, property) go"
  xAction :: "Schema \<Rightarrow> string list \<Rightarrow> gobj \<Rightarrow> ('w, property) go"

definition linkProperty :: "gobj \<Rightarrow> string \<Rightarrow> ('w, property option) go" where
  "linkProperty referingObject linkRef =
     go_bind (extractDescription referingObject) (\<lambda>d.
       go_return (Some (with_info (\<lambda>i. i\<lparr> p_linkRef := linkRef, p_Description := d \<rparr>) (mk_prop PropLink))))"

definition exploreVersionedObject :: "'w explorers \<Rightarrow> VersionMapper \<Rightarrow> SchemaPool \<Rightarrow> string list \<Rightarrow> JsonPointer \<Rightarrow> Schema \<Rightarrow> ('w, property option) go" where
  "exploreVersionedObject ex vm pool path refPtr refSchema =
     go_must (go_return (pointer_Get refPtr (GObj (sc_Body refSchema)))) (\<lambda>rawObject.
     go_bind (as_object rawObject) (\<lambda>object.
     go_bind (ExtractResourceVersions object) (\<lambda>version2Ref.
     go_bind (selectObjectVersion vm (sc_FileName refSchema) (sp_Version pool) (map fst version2Ref)) (\<lambda>selectedVersion.
       xRef ex refSchema path [] (case map_of version2Ref selectedVersion of Some r \<Rightarrow> r | None \<Rightarrow> [])))))"

definition empty_schema_ref :: string where
  "empty_schema_ref = ''http://redfish.dmtf.org/schemas/v1/Resource.v1_0_0.json#/definitions/Resource''"

definition exploreRef :: "'w explorers \<Rightarrow> VersionMapper \<Rightarrow> SchemaPool \<Rightarrow> Schema \<Rightarrow> string list \<Rightarrow> gobj \<Rightarrow> string \<Rightarrow> ('w, property option) go" where
  "exploreRef ex vm pool s path referingObject refString =
     (if Contains refString ''swordfish'' then go_return None
      else if Contains refString ''#/definitions/idRef'' then linkProperty referingObject []
      else go_bind (followReference pool s refString) (\<lambda>r. case r of
          None \<Rightarrow> go_panic (''Reference not present:'' @ refString)
        | Some (refPtr, refSchema, reference) \<Rightarrow>
            go_bind (isResourceLink refPtr refSchema s) (\<lambda>link.
              if link then linkProperty referingObject refString
              else (case map_of reference ''type'' of
                  Some rawType \<Rightarrow> xSchema ex refSchema path reference rawType
                | None \<Rightarrow>
                    if map_of reference ''$ref'' \<noteq> None then go_panic ''What?''
                    else if map_of reference ''anyOf'' \<noteq> None
                    then exploreVersionedObject ex vm pool path refPtr refSchema
                    else if reference = [] then
                      (if refString = empty_schema_ref
                       then go_return (Some (with_info (\<lambda>i. i\<lparr>p_linkRef := refString\<rparr>) (mk_prop PropLink)))
                       else go_return (Some (mk_prop PropUnknown)))
                    else go_panic ''Unable to handle reference''))))"

definition handleOEMExtension :: "'w explorers \<Rightarrow> SchemaPool \<Rightarrow> string list \<Rightarrow> ('w, property option) go" where
  "handleOEMExtension ex pool path =
     (case map_of (OemExtensions pool) (Join path ''/'') of
        Some mapping \<Rightarrow> (case SchemaPool_Get pool (oem_FileName mapping) of
            None \<Rightarrow> go_panic (''Oem extension schema not present: '' @ oem_FileName mapping)
          | Some schema \<Rightarrow> xRef ex schema path [] (oem_Reference mapping))
      | None \<Rightarrow> go_return (Some (mk_prop PropObject)))"

definition null_allowed :: "property option \<Rightarrow> property option" where
  "null_allowed = map_option (with_info (\<lambda>i. i\<lparr>p_NullAllowed := True\<rparr>))"

text \<open>The element of an array by the type of its items. It is explored in the schema of the array.\<close>

definition array_of_type :: "'w explorers \<Rightarrow> Schema \<Rightarrow> string list \<Rightarrow> gobj \<Rightarrow> gval \<Rightarrow> ('w, property option) go" where
  "array_of_type ex s path prop rawItemType = (case rawItemType of
      GArr itemTypes \<Rightarrow>
        (case itemTypes of
           [raw0, raw1] \<Rightarrow>
             go_bind (as_string raw0) (\<lambda>typeStr0. go_bind (as_string raw1) (\<lambda>typeStr1.
               go_bind (if typeStr0 = ''null'' then xType ex s path prop (GString typeStr1)
                        else if typeStr1 = ''null'' then xType ex s path prop (GString typeStr0)
                        else go_panic ''Neither of the 2 types were null'')
                 (\<lambda>property. go_return (null_allowed property))))
         | _ \<Rightarrow> go_panic ''Item array contains more than 2 type elements'')
    | GNil \<Rightarrow> go_panic ''Cannot handle type''
    | _ \<Rightarrow> xType ex s path prop rawItemType)"

definition is_null_type :: "gobj \<Rightarrow> bool" where
  "is_null_type element = (map_of element ''type'' = Some (GString ''null''))"

definition array_any_of :: "'w explorers \<Rightarrow> Schema \<Rightarrow> string list \<Rightarrow> gval \<Rightarrow> ('w, property option) go" where
  "array_any_of ex s path rawAnyOf =
     go_bind (as_array rawAnyOf) (\<lambda>anyOf. case anyOf of
         [raw0, raw1] \<Rightarrow>
           go_bind (as_object raw0) (\<lambda>anyOf0. go_bind (as_object raw1) (\<lambda>anyOf1.
             go_bind (case (map_of anyOf0 ''$ref'', map_of anyOf1 ''$ref'') of
                 (Some rawRef, other) \<Rightarrow>
                   if is_null_type anyOf1 then go_bind (as_string rawRef) (xRef ex s path [])
                   else (case other of
                       Some rawRef' \<Rightarrow> if is_null_type anyOf0 then go_bind (as_string rawRef') (xRef ex s path [])
                         else go_panic ''Could not handle anyOf''
                     | None \<Rightarrow> go_panic ''Could not handle anyOf'')
               | (None, Some rawRef) \<Rightarrow> if is_null_type anyOf0 then go_bind (as_string rawRef) (xRef ex s path [])
                   else go_panic ''Could not handle anyOf''
               | (None, None) \<Rightarrow> go_panic ''Could not handle anyOf'')
               (\<lambda>property. go_return (null_allowed property))))
       | _ \<Rightarrow> go_panic ''Item array contains more than 2 type elements'')"

definition exploreArray :: "'w explorers \<Rightarrow> Schema \<Rightarrow> string list \<Rightarrow> gobj \<Rightarrow> ('w, property option \<times> string option) go" where
  "exploreArray ex s path prop =
     (case map_of prop ''items'' of
        None \<Rightarrow> go_panic ''Does not have items key''
      | Some (GArr _) \<Rightarrow> go_panic ''Cannot handle arrays of multiple types''
      | Some (GObj item) \<Rightarrow>
          (case map_of item ''$ref'' of
             Some rawRef \<Rightarrow> go_bind (as_string rawRef) (\<lambda>refString.
               go_bind (xRef ex s path [] refString) (\<lambda>p. go_return (p, Some refString)))
           | None \<Rightarrow> (case map_of item ''type'' of
               Some rawItemType \<Rightarrow> go_bind (array_of_type ex s path prop rawItemType) (\<lambda>p. go_return (p, None))
             | None \<Rightarrow> (case map_of item ''anyOf'' of
                 Some rawAnyOf \<Rightarrow> go_bind (array_any_of ex s path rawAnyOf) (\<lambda>p. go_return (p, None))
               | None \<Rightarrow> go_panic ''Could not handle array'')))
      | Some _ \<Rightarrow> go_panic ''Unknown type'')"

text \<open>The switch of \<open>exploreType\<close>, before the descriptions are set.\<close>

definition explore_switch :: "'w explorers \<Rightarrow> Schema \<Rightarrow> string list \<Rightarrow> gobj \<Rightarrow> string \<Rightarrow> ('w, property option) go" where
  "explore_switch ex s path prop typeStr =
     (if typeStr = ''object'' then
        go_bind (xObject ex s path prop) (\<lambda>props.
        go_bind (findAdditionalProperties prop) (\<lambda>additional.
        go_bind (findPatternProperties prop) (\<lambda>patterns.
          go_return (Some (Property (prop_zero\<lparr> p_Type := PropObject, p_AdditionalProperties := additional,
            p_PatternProperties := patterns \<rparr>) props None None [] None None)))))
      else if typeStr = ''array'' then
        go_bind (exploreArray ex s path prop) (\<lambda>(elementProperty, refString).
          go_return (map_option (\<lambda>e. Property (prop_zero\<lparr> p_Type := PropArray, p_arrayRefString := refString \<rparr>)
            [] (Some e) None [] None None) elementProperty))
      else if typeStr = ''string'' then
        (case map_of prop ''enum'' of
           Some rawEnums \<Rightarrow> go_bind (handleEnum prop rawEnums) (\<lambda>p. go_return (Some p))
         | None \<Rightarrow> go_bind (handleString prop) (\<lambda>p. go_return (Some p)))
      else if typeStr = ''number'' then go_bind (handleNumber prop) (\<lambda>p. go_return (Some p))
      else if typeStr = ''integer'' then go_bind (handleInteger prop) (\<lambda>p. go_return (Some p))
      else if typeStr = ''boolean'' then go_bind (handleBool prop) (\<lambda>p. go_return (Some p))
      else go_panic (''Unsupported type:'' @ typeStr @ '' in '' @ sc_FileName s))"

definition exploreType :: "'w explorers \<Rightarrow> Schema \<Rightarrow> string list \<Rightarrow> gobj \<Rightarrow> gval \<Rightarrow> ('w, property option) go" where
  "exploreType ex s path prop rawType =
     go_bind (as_string rawType) (\<lambda>typeStr.
     go_bind (explore_switch ex s path prop typeStr) (\<lambda>property. case property of
         None \<Rightarrow> go_return None
       | Some p \<Rightarrow>
           go_bind (extractDescription prop) (\<lambda>d. go_bind (extractLongDescription prop) (\<lambda>l.
             go_return (Some (with_info (\<lambda>i. i\<lparr> p_Description := d, p_LongDescription := l \<rparr>) p))))))"

text \<open>The fields of one of several types go to the combined property.\<close>

definition combine_type :: "property \<Rightarrow> property \<Rightarrow> ('w, property) go" where
  "combine_type c p =
     (let i = p_info p in
      go_bind (case pType p of
          PropObject \<Rightarrow> go_return (Property ((p_info c)\<lparr> p_AdditionalProperties := p_AdditionalProperties i,
              p_PatternProperties := p_PatternProperties i \<rparr>) (p_Properties p) (p_ArrayOf c) (p_Link c) (p_Parameters c) (p_Target c) (p_Title c))
        | PropAction \<Rightarrow> go_return (Property ((p_info c)\<lparr> p_RequiredParameters := p_RequiredParameters i \<rparr>)
              (p_Properties c) (p_ArrayOf c) (p_Link c) (p_Parameters p) (p_Target p) (p_Title p))
        | PropEnum \<Rightarrow> go_return (with_info (\<lambda>j. j\<lparr> p_EnumMembers := p_EnumMembers i \<rparr>) c)
        | PropString \<Rightarrow> go_return (with_info (\<lambda>j. j\<lparr> p_StringFormat := p_StringFormat i, p_StringMaxLength := p_StringMaxLength i,
              p_StringMinLength := p_StringMinLength i, p_StringPattern := p_StringPattern i \<rparr>) c)
        | PropNumber \<Rightarrow> go_return (with_info (\<lambda>j. j\<lparr> p_NumberMaximum := p_NumberMaximum i, p_NumberMinimum := p_NumberMinimum i,
              p_Units := p_Units i \<rparr>) c)
        | PropBool \<Rightarrow> go_return c
        | PropArray \<Rightarrow> go_return (Property ((p_info c)\<lparr> p_arrayRefString := p_arrayRefString i \<rparr>) (p_Properties c)
              (p_ArrayOf p) (p_Link c) (p_Parameters c) (p_Target c) (p_Title c))
        | PropLink \<Rightarrow> go_panic ''A link is not a primitive type''
        | PropMultiple \<Rightarrow> go_panic ''A multiple data type is not a primitive type''
        | _ \<Rightarrow> go_panic (''Unsupported type:'' @ PropertyType_String (pType p)))
      (\<lambda>c'. go_return (with_info (\<lambda>j. j\<lparr> p_Types := p_Types j @ [pType p] \<rparr>) c')))"

text \<open>The loop over several types; it ends with nil when one of them cannot be explored.\<close>

fun explore_types :: "'w explorers \<Rightarrow> Schema \<Rightarrow> string list \<Rightarrow> gobj \<Rightarrow> gval list \<Rightarrow> property \<Rightarrow> ('w, property option) go" where
  "explore_types ex s path prop [] c = go_return (Some c)"
| "explore_types ex s path prop (rawType # rest) c =
     go_bind (as_string rawType) (\<lambda>typeString.
       if typeString = ''null'' then explore_types ex s path prop rest (with_info (\<lambda>i. i\<lparr>p_NullAllowed := True\<rparr>) c)
       else go_bind (exploreType ex s path prop (GString typeString)) (\<lambda>r. case r of
           None \<Rightarrow> go_return None
         | Some p \<Rightarrow>
             go_bind (combine_type (if p_NullAllowed (p_info p) then with_info (\<lambda>i. i\<lparr>p_NullAllowed := True\<rparr>) c else c) p)
               (explore_types ex s path prop rest)))"

definition exploreSchema :: "'w explorers \<Rightarrow> Schema \<Rightarrow> string list \<Rightarrow> gobj \<Rightarrow> gval \<Rightarrow> ('w, property option) go" where
  "exploreSchema ex s path prop rawType = (case rawType of
      GString _ \<Rightarrow> exploreType ex s path prop rawType
    | GArr typeArray \<Rightarrow>
        if length typeArray = 2 \<and> typeArray ! 0 = GString ''null'' then
          go_bind (exploreType ex s path prop (typeArray ! 1)) (\<lambda>p. go_return (null_allowed p))
        else if length typeArray = 2 \<and> typeArray ! 1 = GString ''null'' then
          go_bind (exploreType ex s path prop (typeArray ! 0)) (\<lambda>p. go_return (null_allowed p))
        else
          go_bind (extractDescription prop) (\<lambda>d. go_bind (extractLongDescription prop) (\<lambda>l.
            explore_types ex s path prop typeArray
              (with_info (\<lambda>i. i\<lparr> p_Description := d, p_LongDescription := l \<rparr>) (mk_prop PropMultiple))))
    | _ \<Rightarrow> go_panic (''Invalid type for '' @ [CHR 0x27] @ ''type'' @ [CHR 0x27] @ '' field''))"

subsection \<open>Actions\<close>

definition explore_param :: "'w explorers \<Rightarrow> VersionMapper \<Rightarrow> SchemaPool \<Rightarrow> Schema \<Rightarrow> string list \<Rightarrow> gobj \<Rightarrow> string \<times> gval \<Rightarrow>
    properties \<times> string list \<Rightarrow> ('w, properties \<times> string list) go" where
  "explore_param ex vm pool s path actionFields = (\<lambda>(name, rawParam) (params, requireds).
     go_bind (as_object rawParam) (\<lambda>param.
     go_bind (case map_of param ''$ref'' of
          Some rawRef \<Rightarrow> go_bind (as_string rawRef) (exploreRef ex vm pool s path actionFields)
        | None \<Rightarrow> (case map_of param ''type'' of
            Some rawType \<Rightarrow> exploreSchema ex s path param rawType
          | None \<Rightarrow> go_panic (''Can'' @ [CHR 0x27] @ ''t handle action'')))
       (\<lambda>property. case property of
          None \<Rightarrow> go_return (params, requireds)
        | Some p \<Rightarrow>
            go_bind (opt_key as_bool param ''requiredParameter'') (\<lambda>required.
            go_bind (opt_key as_bool param ''readonly'') (\<lambda>readOnly.
              go_return (AList.update name
                  (case readOnly of None \<Rightarrow> p | Some b \<Rightarrow> with_info (\<lambda>i. i\<lparr>p_ReadOnly := b\<rparr>) p) params,
                if required = Some True then requireds @ [name] else requireds))))))"

definition exploreAction :: "'w explorers \<Rightarrow> VersionMapper \<Rightarrow> SchemaPool \<Rightarrow> Schema \<Rightarrow> string list \<Rightarrow> gobj \<Rightarrow> ('w, property) go" where
  "exploreAction ex vm pool s path actionFields =
     (case map_of actionFields ''$ref'' of
        Some rawRef \<Rightarrow> go_bind (as_string rawRef) (\<lambda>refString.
          go_bind (followReference pool s refString) (\<lambda>r. case r of
              Some (_, refSchema, reference) \<Rightarrow> xAction ex refSchema path reference
            | None \<Rightarrow> go_panic (''Reference could not be followed: '' @ refString)))
      | None \<Rightarrow>
          go_bind (extractDescription actionFields) (\<lambda>d.
          go_bind (extractLongDescription actionFields) (\<lambda>l.
          go_bind (case map_of actionFields ''parameters'' of
              None \<Rightarrow> go_return ([], [])
            | Some rawParamaters \<Rightarrow> go_bind (as_object rawParamaters) (\<lambda>params.
                go_loop (explore_param ex vm pool s path actionFields) params ([], []))) (\<lambda>(params, requireds).
          go_bind (case map_of actionFields ''properties'' of
              None \<Rightarrow> go_return []
            | Some _ \<Rightarrow> xObject ex s path actionFields) (\<lambda>props.
            go_return (Property (prop_zero\<lparr> p_Type := PropAction, p_Description := d, p_LongDescription := l,
                p_RequiredParameters := requireds \<rparr>) [] None None params (map_of props ''target'') (map_of props ''title'')))))))"

definition exploreActions :: "'w explorers \<Rightarrow> VersionMapper \<Rightarrow> SchemaPool \<Rightarrow> Schema \<Rightarrow> string list \<Rightarrow> gobj \<Rightarrow> ('w, property) go" where
  "exploreActions ex vm pool s path actions =
     (case map_of actions ''$ref'' of
        Some rawRef \<Rightarrow> go_bind (as_string rawRef) (\<lambda>refString.
          go_bind (followReference pool s refString) (\<lambda>r. case r of
              Some (_, refSchema, reference) \<Rightarrow> xActions ex refSchema path reference
            | None \<Rightarrow> go_panic (''Reference could not be followed: '' @ refString)))
      | None \<Rightarrow>
          go_bind (extractDescription actions) (\<lambda>d.
          go_bind (extractLongDescription actions) (\<lambda>l.
          go_bind (findAdditionalProperties actions) (\<lambda>additional.
          go_bind (findPatternProperties actions) (\<lambda>patterns.
            case map_of actions ''properties'' of
              None \<Rightarrow> go_panic ''Actions does not contain a properties property''
            | Some rawProperties \<Rightarrow>
                go_bind (as_object rawProperties) (\<lambda>properties.
                go_bind (go_loop (\<lambda>(name, rawActionProperties) acc.
                    go_bind (as_object rawActionProperties) (\<lambda>actionProperties.
                    go_bind (exploreAction ex vm pool s (path @ [name]) actionProperties) (\<lambda>action.
                      go_return (AList.update name action acc)))) properties []) (\<lambda>props.
                  go_return (Property (prop_zero\<lparr> p_Type := PropObject, p_Description := d, p_LongDescription := l,
                    p_AdditionalProperties := additional, p_PatternProperties := patterns \<rparr>) props None None [] None None))))))))"

subsection \<open>Objects\<close>

text \<open>The two elements of \<open>anyOf\<close>: a reference and null, in either order.\<close>

definition any_of_element :: "'w explorers \<Rightarrow> VersionMapper \<Rightarrow> SchemaPool \<Rightarrow> Schema \<Rightarrow> string list \<Rightarrow> gobj \<Rightarrow> gval \<Rightarrow>
    property option \<times> bool \<Rightarrow> ('w, property option \<times> bool) go" where
  "any_of_element ex vm pool s propPath prop rawElement = (\<lambda>(property, nullAllowed).
     go_bind (as_object rawElement) (\<lambda>element. case map_of element ''$ref'' of
         Some rawRef \<Rightarrow> go_bind (as_string rawRef) (\<lambda>ref.
           go_bind (exploreRef ex vm pool s propPath prop ref) (\<lambda>p. go_return (p, nullAllowed)))
       | None \<Rightarrow> (case map_of element ''type'' of
           None \<Rightarrow> go_return (property, nullAllowed)
         | Some rawType \<Rightarrow> go_bind (as_string rawType) (\<lambda>typeStr.
             if typeStr = ''null'' then go_return (property, True)
             else go_panic (''Type other than null and $ref:'' @ typeStr)))))"

text \<open>The property a member of \<open>properties\<close> describes; \<open>None\<close> when it is left out.\<close>

definition explore_member :: "'w explorers \<Rightarrow> VersionMapper \<Rightarrow> SchemaPool \<Rightarrow> Schema \<Rightarrow> string list \<Rightarrow> string \<Rightarrow> gobj \<Rightarrow> ('w, property option) go" where
  "explore_member ex vm pool s propPath name prop =
     (if name = ''Actions'' then go_bind (exploreActions ex vm pool s propPath prop) (\<lambda>p. go_return (Some p))
      else if name = ''Oem'' then handleOEMExtension ex pool propPath
      else case map_of prop ''anyOf'' of
        Some rawAnyOf \<Rightarrow>
          go_bind (as_array rawAnyOf) (\<lambda>anyOf.
            if length anyOf \<noteq> 2 then go_panic (''Property '' @ name @ '' does not contain 2 elements in a AnyOf field'')
            else go_bind (go_loop (any_of_element ex vm pool s propPath prop) anyOf (None, False)) (\<lambda>(property, nullAllowed).
              case property of
                None \<Rightarrow> nil_deref
              | Some p \<Rightarrow> go_return (Some (with_info (\<lambda>i. i\<lparr>p_NullAllowed := nullAllowed\<rparr>) p))))
      | None \<Rightarrow> (case map_of prop ''$ref'' of
          Some rawRef \<Rightarrow> go_bind (as_string rawRef) (exploreRef ex vm pool s propPath prop)
        | None \<Rightarrow> (case map_of prop ''type'' of
            Some rawType \<Rightarrow> exploreSchema ex s propPath prop rawType
          | None \<Rightarrow> go_return None)))"

text \<open>The annotations of a member: deprecated with a reason, read-only.\<close>

definition annotate :: "gobj \<Rightarrow> property \<Rightarrow> ('w, property) go" where
  "annotate prop p =
     go_bind (opt_key as_string prop ''deprecated'') (\<lambda>reason.
     go_bind (opt_key as_bool prop ''readonly'') (\<lambda>readOnly.
       go_return (with_info (\<lambda>i. i\<lparr>
           p_Deprecated := (if reason = None then p_Deprecated i else True),
           p_DeprecatedReason := (if reason = None then p_DeprecatedReason i else reason),
           p_ReadOnly := (case readOnly of None \<Rightarrow> p_ReadOnly i | Some b \<Rightarrow> b) \<rparr>) p)))"

definition explore_field :: "'w explorers \<Rightarrow> VersionMapper \<Rightarrow> SchemaPool \<Rightarrow> Schema \<Rightarrow> string list \<Rightarrow> string \<times> gval \<Rightarrow> properties \<Rightarrow> ('w, properties) go" where
  "explore_field ex vm pool s path = (\<lambda>(name, rawProp) properties.
     go_bind (as_object rawProp) (\<lambda>prop.
     go_bind (explore_member ex vm pool s (path @ [name]) name prop) (\<lambda>property. case property of
         None \<Rightarrow> go_return properties
       | Some p \<Rightarrow> go_bind (annotate prop p) (\<lambda>p'. go_return (AList.update name p' properties)))))"

definition exploreObject :: "'w explorers \<Rightarrow> VersionMapper \<Rightarrow> SchemaPool \<Rightarrow> Schema \<Rightarrow> string list \<Rightarrow> gobj \<Rightarrow> ('w, properties) go" where
  "exploreObject ex vm pool s path prop =
     go_must (go_return (pointer_Get [''properties''] (GObj prop))) (\<lambda>props.
     go_bind (as_object props) (\<lambda>members.
       go_loop (explore_field ex vm pool s path) members []))"

text \<open>The functions with \<open>n\<close> calls deep of fuel.\<close>

primrec explore :: "VersionMapper \<Rightarrow> SchemaPool \<Rightarrow> nat \<Rightarrow> 'w explorers" where
  "explore vm pool 0 =
     \<lparr> xObject = (\<lambda>_ _ _. go_nofuel), xType = (\<lambda>_ _ _ _. go_nofuel), xSchema = (\<lambda>_ _ _ _. go_nofuel),
       xRef = (\<lambda>_ _ _ _. go_nofuel), xActions = (\<lambda>_ _ _. go_nofuel), xAction = (\<lambda>_ _ _. go_nofuel) \<rparr>"
| "explore vm pool (Suc n) =
     (let ex = explore vm pool n in
      \<lparr> xObject = exploreObject ex vm pool, xType = exploreType ex, xSchema = exploreSchema ex,
        xRef = exploreRef ex vm pool, xActions = exploreActions ex vm pool, xAction = exploreAction ex vm pool \<rparr>)"

section \<open>Resources and collections\<close>

definition findResourceProperties :: "VersionMapper \<Rightarrow> SchemaPool \<Rightarrow> nat \<Rightarrow> Schema \<Rightarrow> string list \<Rightarrow> ('w, properties) go" where
  "findResourceProperties vm pool n schema path = exploreObject (explore vm pool n) vm pool schema path (TopLevel schema)"

definition findCollectionProperties :: "VersionMapper \<Rightarrow> SchemaPool \<Rightarrow> nat \<Rightarrow> Schema \<Rightarrow> gobj \<Rightarrow> string list \<Rightarrow> ('w, properties) go" where
  "findCollectionProperties vm pool n schema body path = exploreObject (explore vm pool n) vm pool schema path body"

text \<open>\<open>*findAdditionalProperties(m)\<close>.\<close>

definition must_additional :: "gobj \<Rightarrow> ('w, bool) go" where
  "must_additional m = go_bind (findAdditionalProperties m) (\<lambda>b. case b of None \<Rightarrow> nil_deref | Some x \<Rightarrow> go_return x)"

definition capability :: "Schema \<Rightarrow> string \<Rightarrow> ('w, bool) go" where
  "capability schema key = (case map_of (TopLevel schema) key of
      None \<Rightarrow> go_panic (''Resource '' @ sc_FileName schema @ '' missing '' @ [CHR 0x27] @ key @ [CHR 0x27] @ '' key'')
    | Some raw \<Rightarrow> as_bool raw)"

definition with_capabilities :: "Schema \<Rightarrow> res_info \<Rightarrow> ('w, res_info) go" where
  "with_capabilities schema i =
     go_bind (capability schema ''insertable'') (\<lambda>insertable.
     go_bind (capability schema ''updatable'') (\<lambda>updatable.
     go_bind (capability schema ''deletable'') (\<lambda>deletable.
       go_return (i\<lparr> r_Insertable := insertable, r_Updatable := updatable, r_Deletable := deletable \<rparr>))))"

definition ParseCollection :: "VersionMapper \<Rightarrow> SchemaPool \<Rightarrow> nat \<Rightarrow> Schema \<Rightarrow> ('w, resource \<times> string) go" where
  "ParseCollection vm pool n schema =
     (let name = TrimSuffix (Base (sc_FileName schema)) ''.json'' in
      go_must (go_return (pointer_Get [''anyOf'', ''1''] (GObj (TopLevel schema)))) (\<lambda>bodyRaw.
      go_bind (as_object bodyRaw) (\<lambda>body.
      go_bind (extractDescription body) (\<lambda>d.
      go_bind (extractLongDescription body) (\<lambda>l.
      go_bind (findCollectionProperties vm pool n schema body [name]) (\<lambda>props.
      go_bind (findRequiredProperties body) (\<lambda>requireds.
      go_bind (findRequiredOnCreate body) (\<lambda>onCreate.
      go_bind (must_additional body) (\<lambda>additional.
      go_bind (findPatternProperties body) (\<lambda>patterns.
      go_bind (with_capabilities schema (res_zero\<lparr> r_IsCollection := True, r_Name := name,
          r_ODataType := ''#'' @ name @ ''.'' @ name,
          r_ODataContext := ''/redfish/v1/$metadata#'' @ name @ ''.'' @ name,
          r_Description := d, r_LongDescription := l, r_RequiredProperties := requireds,
          r_RequiredOnCreate := onCreate, r_AdditionalProperties := additional,
          r_PatternProperties := patterns \<rparr>)) (\<lambda>i.
        go_return (Resource i None props, name))))))))))))"

definition parseVersionedResource :: "VersionMapper \<Rightarrow> SchemaPool \<Rightarrow> nat \<Rightarrow> Schema \<Rightarrow> ('w, resource) go" where
  "parseVersionedResource vm pool n schema =
     go_bind (extractNameVersion (sc_FileName schema)) (\<lambda>(name, version).
     go_bind (extractDescription (TopLevel schema)) (\<lambda>d.
     go_bind (extractLongDescription (TopLevel schema)) (\<lambda>l.
     go_bind (findResourceProperties vm pool n schema [name]) (\<lambda>props.
     go_bind (findResourceRequiredProperties schema) (\<lambda>requireds.
     go_bind (findRequiredOnCreate (TopLevel schema)) (\<lambda>onCreate.
     go_bind (must_additional (TopLevel schema)) (\<lambda>additional.
     go_bind (findPatternProperties (TopLevel schema)) (\<lambda>patterns.
       go_return (Resource (res_zero\<lparr> r_Name := name, r_VersionString := version, r_Description := d,
         r_LongDescription := l, r_RequiredProperties := requireds, r_RequiredOnCreate := onCreate,
         r_AdditionalProperties := additional, r_PatternProperties := patterns \<rparr>) None props)))))))))"

definition ParseResource :: "VersionMapper \<Rightarrow> SchemaPool \<Rightarrow> nat \<Rightarrow> Schema \<Rightarrow> ('w, resource \<times> string) go" where
  "ParseResource vm pool n schema =
     go_bind (ExtractResourceVersions (TopLevel schema)) (\<lambda>version2Ref.
     go_bind (selectResourceVersion vm (sc_FileName schema) (sp_Version pool) (map fst version2Ref)) (\<lambda>selectedVersion.
       (let refString = (case map_of version2Ref selectedVersion of Some r \<Rightarrow> r | None \<Rightarrow> []);
            resourceFileName = find_versioned refString
        in if resourceFileName = [] then go_panic (''Could not extract resource version: '' @ refString)
           else case SchemaPool_Get pool resourceFileName of
             None \<Rightarrow> go_panic (''Schema not found: '' @ resourceFileName)
           | Some resourceSchema \<Rightarrow>
               go_bind (parseVersionedResource vm pool n resourceSchema) (\<lambda>resource.
                 let i = r_info resource;
                     i' = i\<lparr> r_ODataType := ''#'' @ r_Name i @ ''.'' @ r_VersionString i @ ''.'' @ r_Name i,
                             r_ODataContext := ''/redfish/v1/$metadata#'' @ r_Name i @ ''.'' @ r_Name i \<rparr>
                 in go_bind (if sc_FileName schema = ''Redundancy.json'' then go_return i' else with_capabilities schema i')
                   (\<lambda>i''. go_return (Resource i'' (r_CollectionOf resource) (r_Properties resource), r_Name i''))))))"

end
