(* ===== verification/Schema_Parsed.thy ===== *)
theory Schema_Parsed
  imports Schema_Parser
begin

text \<open>
  What the schema parser returns. The functions of the parser call each other through a record of
  callees; the locale \<open>parsing_callees\<close> is the contract of that record and its lemmas show that every
  function keeps it, so the parser with any amount of fuel satisfies it. The locale \<open>more_fuel\<close>
  relates two records in the same way and shows that a result does not depend on the fuel.
\<close>

section \<open>Programs that only compute\<close>

definition parses :: "('w, 'a) go \<Rightarrow> ('a \<Rightarrow> bool) \<Rightarrow> bool" where
  "parses m Q \<longleftrightarrow> (\<forall>w. snd (m w) = w \<and> (\<forall>a. fst (m w) = Ret a \<longrightarrow> Q a))"

lemma parses_basic [simp, intro]:
  "parses (go_return a) Q \<longleftrightarrow> Q a" "parses (go_panic e) Q" "parses go_nofuel Q" "parses nil_deref Q"
  "parses (conversion_panic v t) Q"
  by (auto simp: parses_def nil_deref_def conversion_panic_def)

lemma parses_Pair [simp]: "parses (Pair (Ret a)) Q \<longleftrightarrow> Q a" "parses (Pair (Panic e)) Q"
  by (auto simp: parses_def)

lemma go_bind_panic [simp]: "go_bind (go_panic e) f = go_panic e"
  by (rule ext) (simp add: go_bind_apply)

lemma parses_bind:
  assumes "parses m Q" "\<And>a. Q a \<Longrightarrow> parses (f a) R"
  shows "parses (go_bind m f) R"
  unfolding parses_def
proof (intro allI)
  fix w
  obtain r w' where r: "m w = (r, w')" by fastforce
  moreover have "snd (m w) = w" "\<forall>a. fst (m w) = Ret a \<longrightarrow> Q a" using assms(1) by (simp_all add: parses_def)
  ultimately have "w' = w" "\<forall>a. r = Ret a \<longrightarrow> Q a" by simp_all
  then show "snd (go_bind m f w) = w \<and> (\<forall>a. fst (go_bind m f w) = Ret a \<longrightarrow> R a)"
    using assms(2) r by (cases r) (auto simp: go_bind_apply parses_def)
qed

lemma parsesD: "parses m Q \<Longrightarrow> m w = (Ret a, w') \<Longrightarrow> w' = w \<and> Q a"
  unfolding parses_def by (drule spec [of _ w]) simp

lemma parses_mono: "parses m Q \<Longrightarrow> (\<And>a. Q a \<Longrightarrow> R a) \<Longrightarrow> parses m R"
  by (auto simp: parses_def)

lemma parses_must: "(\<And>a. r = Inr a \<Longrightarrow> parses (f a) R) \<Longrightarrow> parses (go_must (go_return r) f) R"
  by (cases r) (auto simp: go_must_def)

lemma parses_if: "(b \<Longrightarrow> parses m Q) \<Longrightarrow> (\<not> b \<Longrightarrow> parses m' Q) \<Longrightarrow> parses (if b then m else m') Q"
  by simp

lemma parses_loop:
  assumes "\<And>x b. x \<in> set xs \<Longrightarrow> Q b \<Longrightarrow> parses (f x b) Q" "Q b"
  shows "parses (go_loop f xs b) Q"
  using assms by (induction xs arbitrary: b) (auto intro: parses_bind)

text \<open>Any result.\<close>

abbreviation silent :: "('w, 'a) go \<Rightarrow> bool" where
  "silent m \<equiv> parses m (\<lambda>_. True)"

lemma silent_bind: "silent m \<Longrightarrow> (\<And>a. parses (f a) R) \<Longrightarrow> parses (go_bind m f) R"
  by (rule parses_bind)

lemma silent_as [simp]:
  "silent (as_string v)" "silent (as_bool v)" "silent (as_float64 v)" "silent (as_array v)" "silent (as_object v)"
  by (cases v; simp add: as_string_def as_bool_def as_float64_def as_array_def as_object_def)+

lemma as_int_never: "parses (as_int v) Q"
  by (simp add: as_int_def)

lemma silent_opt_key: "(\<And>v. silent (conv v)) \<Longrightarrow> silent (opt_key conv m k)"
  by (auto simp: opt_key_def split: option.split intro!: silent_bind)

lemma no_int_key: "parses (opt_key as_int m k) (\<lambda>r. r = None)"
  by (auto simp: opt_key_def as_int_never split: option.split intro!: parses_bind [of _ "\<lambda>_. False"])

lemma silent_strings [simp]: "silent (as_strings xs)"
  unfolding as_strings_def by (rule parses_loop) (auto intro!: silent_bind)

lemma silent_leaves [simp]:
  "silent (extractDescription m)" "silent (extractLongDescription m)" "silent (findAdditionalProperties m)"
  by (simp_all add: extractDescription_def extractLongDescription_def findAdditionalProperties_def silent_opt_key)

lemma silent_pattern_types [simp]: "silent (pattern_types v)"
  by (simp add: pattern_types_def split: gval.split)

lemma silent_pattern [simp]: "silent (find_pattern k v)"
  unfolding find_pattern_def by (intro silent_bind) (simp_all add: silent_opt_key)

lemma silent_patterns [simp]: "silent (findPatternProperties m)"
  by (auto simp: findPatternProperties_def split: option.split intro!: silent_bind parses_loop)

lemma silent_versions [simp]: "silent (extract_refs xs vs)" "silent (ExtractResourceVersions m)"
proof -
  show refs: "silent (extract_refs xs vs)" for xs vs
    by (induction xs arbitrary: vs) (auto split: gval.split option.split)
  show "silent (ExtractResourceVersions m)"
    by (simp add: ExtractResourceVersions_def refs split: option.split gval.split)
qed

lemma silent_select [simp]: "silent (selectObjectVersion vm n v vs)" "silent (selectResourceVersion vm n v vs)"
  by (simp_all add: selectObjectVersion_def selectResourceVersion_def split: option.split)

lemma silent_follow [simp]: "silent (followReference pool s r)"
proof (induction pool s r rule: followReference.induct)
  case (1 pool s r)
  show ?case
    by (subst followReference.simps) (auto split: sum.split option.split intro!: silent_bind 1 [simplified])
qed

lemma silent_any_link [simp]: "silent (any_link xs)"
  by (induction xs) (auto split: option.split intro!: silent_bind)

lemma silent_isResourceLink [simp]: "silent (isResourceLink p s s')"
  by (auto simp: isResourceLink_def split: option.split intro!: parses_must silent_bind)

lemma silent_keys [simp]:
  "silent (opt_key as_string m k)" "silent (opt_key as_bool m k)" "silent (opt_key as_float64 m k)"
  by (simp_all add: silent_opt_key)

lemmas silent_binds = silent_as [THEN silent_bind] silent_keys [THEN silent_bind] silent_leaves [THEN silent_bind]
  silent_patterns [THEN silent_bind] silent_strings [THEN silent_bind] silent_follow [THEN silent_bind]
  silent_isResourceLink [THEN silent_bind] silent_versions [THEN silent_bind] silent_select [THEN silent_bind]

section \<open>Well-formed properties\<close>

text \<open>The types that a property of several types may list.\<close>

definition listed_types :: "PropertyType set" where
  "listed_types = {PropObject, PropAction, PropEnum, PropString, PropNumber, PropBool, PropArray}"

definition info_ok :: "prop_info \<Rightarrow> bool" where
  "info_ok i \<longleftrightarrow> \<not> p_IsNavLink i \<and> \<not> p_IsNavArray i \<and> \<not> p_LinkAutoExpand i \<and>
     p_StringMinLength i = None \<and> p_StringMaxLength i = None \<and>
     set (p_Types i) \<subseteq> listed_types \<and> (p_Types i \<noteq> [] \<longrightarrow> p_Type i = PropMultiple)"

text \<open>
  No link, no navigation flag and no length bound is set, names are distinct, an array has an
  element, and so for everything inside.
\<close>

fun parsed :: "property \<Rightarrow> bool" where
  "parsed (Property i props arr link params target title) \<longleftrightarrow>
     info_ok i \<and> link = None \<and> (p_Type i = PropArray \<longrightarrow> arr \<noteq> None) \<and>
     distinct (map fst props) \<and> distinct (map fst params) \<and>
     (\<forall>(n, p) \<in> set props. parsed p) \<and> (\<forall>(n, p) \<in> set params. parsed p) \<and>
     (\<forall>p \<in> set_option arr. parsed p) \<and> (\<forall>p \<in> set_option target. parsed p) \<and> (\<forall>p \<in> set_option title. parsed p)"

definition all_parsed :: "properties \<Rightarrow> bool" where
  "all_parsed ps \<longleftrightarrow> distinct (map fst ps) \<and> (\<forall>(n, p) \<in> set ps. parsed p)"

definition opt_parsed :: "property option \<Rightarrow> bool" where
  "opt_parsed po \<longleftrightarrow> (\<forall>p \<in> set_option po. parsed p)"

lemma all_parsed_Nil [simp]: "all_parsed []"
  by (simp add: all_parsed_def)

lemma opt_parsed_simps [simp]: "opt_parsed None" "opt_parsed (Some p) \<longleftrightarrow> parsed p"
  by (simp_all add: opt_parsed_def)

lemma set_update_sub: "set (AList.update k v al) \<subseteq> insert (k, v) (set al)"
  by (induction al) auto

lemma all_parsed_update: "all_parsed ps \<Longrightarrow> parsed p \<Longrightarrow> all_parsed (AList.update n p ps)"
  using set_update_sub [of n p ps] by (auto simp: all_parsed_def distinct_update)

lemma all_parsed_lookup: "all_parsed ps \<Longrightarrow> opt_parsed (map_of ps n)"
  by (cases "map_of ps n") (auto simp: all_parsed_def dest: map_of_SomeD)

lemma parsed_iff:
  "parsed (Property i props arr link params target title) \<longleftrightarrow>
     info_ok i \<and> link = None \<and> (p_Type i = PropArray \<longrightarrow> arr \<noteq> None) \<and> all_parsed props \<and> all_parsed params \<and>
     opt_parsed arr \<and> opt_parsed target \<and> opt_parsed title"
  by (auto simp: all_parsed_def opt_parsed_def)

lemmas parsed_simps = parsed_iff info_ok_def prop_zero_def mk_prop_def with_info_def

declare parsed.simps [simp del]

lemma parsed_with_info:
  assumes "parsed p" "info_ok (p_info p) \<Longrightarrow> info_ok (f (p_info p))" "p_Type (f (p_info p)) = pType p"
  shows "parsed (with_info f p)"
  using assms by (cases p) (auto simp: parsed_iff with_info_def)

lemma parsed_mk_prop [simp]: "parsed (mk_prop t) \<longleftrightarrow> t \<noteq> PropArray"
  by (simp add: parsed_simps)

lemma parsed_set_null [simp]: "parsed p \<Longrightarrow> parsed (with_info (\<lambda>i. i\<lparr>p_NullAllowed := b\<rparr>) p)"
  by (rule parsed_with_info) (auto simp: info_ok_def)

lemma opt_parsed_null [simp]: "opt_parsed po \<Longrightarrow> opt_parsed (null_allowed po)"
  by (cases po) (auto simp: null_allowed_def)

text \<open>A parsed property is not linked, so it can be copied.\<close>

lemma parsed_unlinked: "parsed p \<Longrightarrow> unlinked p"
proof (induction p rule: unlinked.induct)
  case (1 info props arrayOf link params target title)
  then show ?case by (fastforce simp: parsed.simps)
qed

section \<open>Every function keeps the contract\<close>

lemma parses_handleString: "parses (handleString m) parsed"
  unfolding handleString_def
  by (rule parses_bind [OF no_int_key], rule parses_bind [OF no_int_key], (rule silent_bind, simp add: silent_opt_key)+)
    (simp add: parsed_simps)

lemma parses_handleNumber: "parses (handleNumber m) parsed" "parses (handleInteger m) parsed" "parses (handleBool m) parsed"
  by (auto simp: handleNumber_def handleInteger_def handleBool_def silent_opt_key parsed_simps intro!: silent_bind)

lemma silent_enum [simp]: "silent (deprecated_enums m)" "silent (enum_descriptions k f m ms)"
  by (auto simp: deprecated_enums_def enum_descriptions_def describe_members_def silent_opt_key
      split: option.split intro!: silent_bind parses_loop)

lemma parses_handleEnum: "parses (handleEnum m v) parsed"
  unfolding handleEnum_def by (intro silent_bind) (simp_all add: parsed_simps)

lemma parses_linkProperty: "parses (linkProperty m r) opt_parsed"
  unfolding linkProperty_def by (intro silent_bind) (simp_all add: parsed_simps)

lemma parses_annotate: "parsed p \<Longrightarrow> parses (annotate m p) parsed"
  unfolding annotate_def
  by (intro silent_bind) (auto simp: silent_opt_key info_ok_def intro!: parsed_with_info)

lemma parses_combine:
  assumes "parsed c" "pType c = PropMultiple" "parsed p"
  shows "parses (combine_type c p) (\<lambda>c'. parsed c' \<and> pType c' = PropMultiple)"
  using assms
  by (cases c; cases p; cases "pType p") (simp_all add: combine_type_def parsed_simps listed_types_def)

locale parsing_callees =
  fixes ex :: "'w explorers"
  assumes object: "parses (xObject ex s path m) all_parsed"
    and type: "parses (xType ex s path m t) opt_parsed"
    and schema: "parses (xSchema ex s path m t) opt_parsed"
    and ref: "parses (xRef ex s path m r) opt_parsed"
    and actions: "parses (xActions ex s path m) parsed"
    and action: "parses (xAction ex s path m) parsed"
begin

lemma versioned: "parses (exploreVersionedObject ex vm pool path ptr s) opt_parsed"
  unfolding exploreVersionedObject_def by (intro parses_must silent_binds) (simp_all add: ref)

lemma explore_ref: "parses (exploreRef ex vm pool s path m r) opt_parsed"
  unfolding exploreRef_def
  by (auto simp: parses_linkProperty schema versioned parsed_simps split: option.split intro!: silent_binds)

lemma oem: "parses (handleOEMExtension ex pool path) opt_parsed"
  by (simp add: handleOEMExtension_def ref split: option.split)

lemma of_type: "parses (array_of_type ex s path m t) opt_parsed"
  unfolding array_of_type_def
  by (auto simp: type split: gval.split list.split intro!: silent_binds parses_bind [where Q = opt_parsed])

lemma any_of: "parses (array_any_of ex s path v) opt_parsed"
  unfolding array_any_of_def
  by (auto split: list.split option.split intro!: silent_binds parses_bind [where Q = opt_parsed] ref)

lemma explore_array: "parses (exploreArray ex s path m) (\<lambda>(p, r). opt_parsed p)"
  unfolding exploreArray_def
  by (auto split: option.split gval.split intro!: silent_binds parses_bind [OF ref] parses_bind [OF of_type] parses_bind [OF any_of])

lemma switch: "parses (explore_switch ex s path m t) opt_parsed"
  unfolding explore_switch_def
proof (intro parses_if, goal_cases)
  case 1
  show ?case by (rule parses_bind [OF object], (rule silent_binds)+) (simp add: parsed_simps)
next
  case 2
  show ?case by (rule parses_bind [OF explore_array]) (auto simp: parsed_simps opt_parsed_def)
next
  case 3
  show ?case by (auto split: option.split intro: parses_bind [OF parses_handleEnum] parses_bind [OF parses_handleString])
qed (auto intro: parses_bind [OF parses_handleNumber(1)] parses_bind [OF parses_handleNumber(2)] parses_bind [OF parses_handleNumber(3)])

lemma explore_type: "parses (exploreType ex s path m t) opt_parsed"
  unfolding exploreType_def
  by (rule silent_binds, rule parses_bind [OF switch])
    (auto split: option.split intro!: silent_binds parsed_with_info simp: info_ok_def)

lemma types: "parsed c \<Longrightarrow> pType c = PropMultiple \<Longrightarrow> parses (explore_types ex s path m ts c) opt_parsed"
proof (induction ts arbitrary: c)
  case (Cons t ts)
  have null: "parsed (with_info (\<lambda>i. i\<lparr>p_NullAllowed := True\<rparr>) c)" "pType (with_info (\<lambda>i. i\<lparr>p_NullAllowed := True\<rparr>) c) = PropMultiple"
    using Cons.prems parsed_set_null [of c True] by (simp_all add: with_info_def)
  show ?case
    by (auto intro!: silent_binds Cons.IH null parses_bind [OF explore_type] parses_bind [OF parses_combine] simp: Cons.prems
        split: option.split)
qed simp

lemma explore_schema: "parses (exploreSchema ex s path m t) opt_parsed"
  unfolding exploreSchema_def
  by (auto split: gval.split intro!: explore_type parses_bind [OF explore_type] silent_bind types)
    (auto simp: parsed_simps)

lemma param:
  assumes "(\<lambda>(ps, rs). all_parsed ps) acc"
  shows "parses (explore_param ex vm pool s path m x acc) (\<lambda>(ps, rs). all_parsed ps)"
proof -
  have upd: "parsed p \<Longrightarrow> parsed (with_info (\<lambda>i. i\<lparr>p_ReadOnly := b\<rparr>) p)" for p b
    by (rule parsed_with_info) (auto simp: info_ok_def)
  obtain n raw ps rs where x: "x = (n, raw)" "acc = (ps, rs)" by (metis surj_pair)
  have "parses (case map_of param ''$ref'' of
          Some rawRef \<Rightarrow> go_bind (as_string rawRef) (exploreRef ex vm pool s path m)
        | None \<Rightarrow> (case map_of param ''type'' of
            Some rawType \<Rightarrow> exploreSchema ex s path param rawType
          | None \<Rightarrow> go_panic (''Can'' @ [CHR 0x27] @ ''t handle action''))) opt_parsed" for param
    by (auto split: option.split intro!: silent_binds explore_ref explore_schema)
  then show ?thesis
    using assms unfolding explore_param_def x
    by (auto intro!: silent_binds parses_bind [where Q = opt_parsed] all_parsed_update upd split: option.split simp: silent_opt_key)
qed

lemma explore_action: "parses (exploreAction ex vm pool s path m) parsed"
proof -
  have params: "parses (case map_of m ''parameters'' of None \<Rightarrow> go_return ([], [])
      | Some raw \<Rightarrow> go_bind (as_object raw) (\<lambda>params. go_loop (explore_param ex vm pool s path m) params ([], [])))
      (\<lambda>(ps, rs). all_parsed ps)"
    by (auto split: option.split intro!: silent_binds parses_loop param)
  have props: "parses (case map_of m ''properties'' of None \<Rightarrow> go_return [] | Some _ \<Rightarrow> xObject ex s path m) all_parsed"
    by (simp add: object split: option.split)
  show ?thesis
  proof (cases "map_of m ''$ref''")
    case None
    then show ?thesis unfolding exploreAction_def
      by (auto intro!: silent_binds parses_bind [OF params] parses_bind [OF props] all_parsed_lookup simp: parsed_simps)
  qed (auto simp: exploreAction_def action split: option.split intro!: silent_binds)
qed

lemma explore_actions: "parses (exploreActions ex vm pool s path m) parsed"
proof -
  have "parses (go_loop (\<lambda>(name, raw) acc. go_bind (as_object raw) (\<lambda>m. go_bind (exploreAction ex vm pool s (path @ [name]) m)
      (\<lambda>action. go_return (AList.update name action acc)))) ps []) all_parsed" for ps
    by (rule parses_loop) (auto intro!: silent_binds parses_bind [OF explore_action] all_parsed_update)
  then show ?thesis unfolding exploreActions_def
    by (auto split: option.split intro!: silent_binds parses_bind [where Q = all_parsed] simp: actions parsed_simps)
qed

lemma element: "(\<lambda>(p, b). opt_parsed p) acc \<Longrightarrow> parses (any_of_element ex vm pool s path m x acc) (\<lambda>(p, b). opt_parsed p)"
  unfolding any_of_element_def
  by (auto split: option.split intro!: silent_binds parses_bind [OF explore_ref])

lemma member: "parses (explore_member ex vm pool s path n m) opt_parsed"
proof -
  have "parses (go_loop (any_of_element ex vm pool s path m) xs (None, False)) (\<lambda>(p, b). opt_parsed p)" for xs
    by (rule parses_loop) (auto intro!: element)
  then show ?thesis unfolding explore_member_def
    by (auto split: option.split intro!: silent_binds parses_bind [where Q = "\<lambda>(p, b). opt_parsed p"]
        parses_bind [OF explore_actions] oem explore_ref explore_schema)
qed

lemma field: "all_parsed acc \<Longrightarrow> parses (explore_field ex vm pool s path x acc) all_parsed"
  unfolding explore_field_def
  by (cases x) (auto split: option.split intro!: silent_binds parses_bind [OF member] parses_bind [OF parses_annotate] all_parsed_update)

lemma explore_object: "parses (exploreObject ex vm pool s path m) all_parsed"
  unfolding exploreObject_def by (auto intro!: parses_must silent_binds parses_loop field)

end

lemma explore_callees: "parsing_callees (explore vm pool n)"
proof (induction n)
  case 0
  show ?case by (rule parsing_callees.intro) simp_all
next
  case (Suc n)
  note callees = parsing_callees.explore_object [OF Suc] parsing_callees.explore_type [OF Suc] parsing_callees.explore_schema [OF Suc]
    parsing_callees.explore_ref [OF Suc] parsing_callees.explore_actions [OF Suc] parsing_callees.explore_action [OF Suc]
  show ?case by (rule parsing_callees.intro) (simp_all add: Let_def callees)
qed

interpretation pc: parsing_callees "explore vm pool n" for vm pool n
  by (rule explore_callees)

section \<open>More fuel\<close>

text \<open>\<open>m'\<close> behaves as \<open>m\<close> wherever \<open>m\<close> does not run out of fuel.\<close>

definition extends :: "('w, 'a) go \<Rightarrow> ('w, 'a) go \<Rightarrow> bool" where
  "extends m m' \<longleftrightarrow> (\<forall>w. fst (m w) = NoFuel \<or> m' w = m w)"

lemma extends_refl [simp]: "extends m m"
  by (simp add: extends_def)

lemma extends_nofuel [simp]: "extends go_nofuel m"
  by (simp add: extends_def)

lemma extends_bind:
  assumes "extends m m'" "\<And>a. extends (f a) (f' a)"
  shows "extends (go_bind m f) (go_bind m' f')"
  unfolding extends_def
proof
  fix w
  obtain r w1 where r: "m w = (r, w1)" by fastforce
  have "fst (m w) = NoFuel \<or> m' w = m w" "\<And>a. fst (f a w1) = NoFuel \<or> f' a w1 = f a w1"
    using assms by (simp_all add: extends_def)
  then show "fst (go_bind m f w) = NoFuel \<or> go_bind m' f' w = go_bind m f w"
    using r by (cases r) (auto simp: go_bind_apply)
qed

lemma extends_must: "(\<And>a. extends (f a) (f' a)) \<Longrightarrow> extends (go_must m f) (go_must m f')"
  unfolding go_must_def by (rule extends_bind) (auto split: sum.split)

lemma extends_loop: "(\<And>x b. extends (f x b) (f' x b)) \<Longrightarrow> extends (go_loop f xs b) (go_loop f' xs b)"
  by (induction xs arbitrary: b) (auto intro!: extends_bind)

locale more_fuel =
  fixes ex ex' :: "'w explorers"
  assumes object: "extends (xObject ex s path m) (xObject ex' s path m)"
    and type: "extends (xType ex s path m t) (xType ex' s path m t)"
    and schema: "extends (xSchema ex s path m t) (xSchema ex' s path m t)"
    and ref: "extends (xRef ex s path m r) (xRef ex' s path m r)"
    and actions: "extends (xActions ex s path m) (xActions ex' s path m)"
    and action: "extends (xAction ex s path m) (xAction ex' s path m)"
begin

lemma versioned: "extends (exploreVersionedObject ex vm pool path ptr s) (exploreVersionedObject ex' vm pool path ptr s)"
  unfolding exploreVersionedObject_def by (intro extends_must extends_bind extends_refl ref)

lemma explore_ref: "extends (exploreRef ex vm pool s path m r) (exploreRef ex' vm pool s path m r)"
  unfolding exploreRef_def by (auto split: option.split intro!: extends_bind schema versioned)

lemma oem: "extends (handleOEMExtension ex pool path) (handleOEMExtension ex' pool path)"
  by (simp add: handleOEMExtension_def ref split: option.split)

lemma of_type: "extends (array_of_type ex s path m t) (array_of_type ex' s path m t)"
  unfolding array_of_type_def by (auto split: gval.split list.split intro!: extends_bind type)

lemma any_of: "extends (array_any_of ex s path v) (array_any_of ex' s path v)"
  unfolding array_any_of_def by (auto split: list.split option.split intro!: extends_bind ref)

lemma explore_array: "extends (exploreArray ex s path m) (exploreArray ex' s path m)"
  unfolding exploreArray_def by (auto split: option.split gval.split intro!: extends_bind ref of_type any_of)

lemma switch: "extends (explore_switch ex s path m t) (explore_switch ex' s path m t)"
  unfolding explore_switch_def by (auto split: option.split intro!: extends_bind object explore_array)

lemma explore_type: "extends (exploreType ex s path m t) (exploreType ex' s path m t)"
  unfolding exploreType_def by (intro extends_bind extends_refl switch)

lemma types: "extends (explore_types ex s path m ts c) (explore_types ex' s path m ts c)"
  by (induction ts arbitrary: c) (auto split: option.split intro!: extends_bind explore_type)

lemma explore_schema: "extends (exploreSchema ex s path m t) (exploreSchema ex' s path m t)"
  unfolding exploreSchema_def by (auto split: gval.split intro!: extends_bind explore_type types)

lemma param: "extends (explore_param ex vm pool s path m x acc) (explore_param ex' vm pool s path m x acc)"
  unfolding explore_param_def by (auto split: option.split prod.split intro!: extends_bind explore_ref explore_schema)

lemma explore_action: "extends (exploreAction ex vm pool s path m) (exploreAction ex' vm pool s path m)"
  unfolding exploreAction_def by (auto split: option.split prod.split intro!: extends_bind extends_loop param object action)

lemma explore_actions: "extends (exploreActions ex vm pool s path m) (exploreActions ex' vm pool s path m)"
  unfolding exploreActions_def by (auto split: option.split prod.split intro!: extends_bind extends_loop explore_action actions)

lemma element: "extends (any_of_element ex vm pool s path m x acc) (any_of_element ex' vm pool s path m x acc)"
  unfolding any_of_element_def by (auto split: option.split prod.split intro!: extends_bind explore_ref)

lemma member: "extends (explore_member ex vm pool s path n m) (explore_member ex' vm pool s path n m)"
  unfolding explore_member_def
  by (auto split: option.split prod.split intro!: extends_bind extends_loop element explore_actions oem explore_ref explore_schema)

lemma explore_object: "extends (exploreObject ex vm pool s path m) (exploreObject ex' vm pool s path m)"
  unfolding exploreObject_def explore_field_def
  by (auto split: option.split prod.split intro!: extends_must extends_bind extends_loop member)

end

lemma explore_more: "more_fuel (explore vm pool n) (explore vm pool (n + k))"
proof (induction n)
  case 0
  show ?case by (rule more_fuel.intro) simp_all
next
  case (Suc n)
  note steps = more_fuel.explore_object [OF Suc] more_fuel.explore_type [OF Suc] more_fuel.explore_schema [OF Suc]
    more_fuel.explore_ref [OF Suc] more_fuel.explore_actions [OF Suc] more_fuel.explore_action [OF Suc]
  show ?case by (rule more_fuel.intro) (simp_all add: Let_def steps)
qed

interpretation mf: more_fuel "explore vm pool n" "explore vm pool (n + k)" for vm pool n k
  by (rule explore_more)

section \<open>Resources\<close>

definition res_parsed :: "resource \<times> string \<Rightarrow> bool" where
  "res_parsed = (\<lambda>(r, name). name = r_Name (r_info r) \<and> r_CollectionOf r = None \<and> all_parsed (r_Properties r))"

lemma silent_required [simp]:
  "silent (findRequiredProperties m)" "silent (findResourceRequiredProperties s)" "silent (findRequiredOnCreate m)"
  "silent (must_additional m)" "silent (capability s k)"
  by (auto simp: findRequiredProperties_def findResourceRequiredProperties_def findRequiredOnCreate_def must_additional_def capability_def
      split: option.split intro!: silent_binds)

lemmas required_binds = silent_required [THEN silent_bind]

lemma parses_capabilities: "parses (with_capabilities s i) (\<lambda>i'. r_Name i' = r_Name i)"
  unfolding with_capabilities_def by (intro required_binds) simp

lemma parses_collection: "parses (ParseCollection vm pool n s) res_parsed"
  unfolding ParseCollection_def Let_def findCollectionProperties_def
  by (intro parses_must silent_binds required_binds parses_bind [OF pc.explore_object] parses_bind [OF parses_capabilities])
    (simp add: res_parsed_def)

lemma parses_versioned: "parses (parseVersionedResource vm pool n s) (\<lambda>r. r_CollectionOf r = None \<and> all_parsed (r_Properties r))"
proof -
  have nv: "silent (extractNameVersion f)" for f
    by (simp add: extractNameVersion_def split: list.split)
  show ?thesis unfolding parseVersionedResource_def findResourceProperties_def
    by (rule silent_bind [OF nv], simp only: split_beta, intro silent_binds required_binds parses_bind [OF pc.explore_object]) simp
qed

lemma parses_resource: "parses (ParseResource vm pool n s) res_parsed"
  unfolding ParseResource_def Let_def
  by (auto intro!: silent_binds parses_bind [OF parses_versioned] parses_bind [OF parses_capabilities] split: option.split
      simp: res_parsed_def)

lemma parsed_copies: "res_parsed (r, name) \<Longrightarrow> \<exists>c. copyResource r w = (Ret c, w)"
  by (auto simp: res_parsed_def all_parsed_def copyResource_def copy_props_apply go_bind_apply intro: parsed_unlinked)

lemma extends_collection: "extends (ParseCollection vm pool n s) (ParseCollection vm pool (n + k) s)"
  unfolding ParseCollection_def Let_def findCollectionProperties_def
  by (intro extends_must extends_bind extends_refl mf.explore_object)

lemma extends_resource: "extends (ParseResource vm pool n s) (ParseResource vm pool (n + k) s)"
proof -
  have "extends (parseVersionedResource vm pool n t) (parseVersionedResource vm pool (n + k) t)" for t
    unfolding parseVersionedResource_def findResourceProperties_def split_beta
    by (intro extends_bind extends_refl mf.explore_object)
  then show ?thesis unfolding ParseResource_def Let_def
    by (auto split: option.split intro!: extends_bind)
qed

section \<open>Members of an object\<close>

text \<open>The members of \<open>properties\<close> and the property each of them becomes.\<close>

definition described :: "'w explorers \<Rightarrow> VersionMapper \<Rightarrow> SchemaPool \<Rightarrow> Schema \<Rightarrow> string list \<Rightarrow> 'w \<Rightarrow> gobj \<Rightarrow> string \<Rightarrow> property \<Rightarrow> bool" where
  "described ex vm pool s path w members name p \<longleftrightarrow>
     (\<exists>m p0. map_of members name = Some (GObj m) \<and>
        explore_member ex vm pool s (path @ [name]) name m w = (Ret (Some p0), w) \<and> annotate m p0 w = (Ret p, w))"

context parsing_callees
begin

lemma field_result:
  assumes "explore_field ex vm pool s path (name, raw) acc w = (Ret acc', w')"
  shows "w' = w \<and> (k \<noteq> name \<longrightarrow> map_of acc' k = map_of acc k) \<and>
    (map_of acc name = None \<longrightarrow> (map_of acc' name = Some p \<longleftrightarrow> described ex vm pool s path w [(name, raw)] name p))"
proof -
  obtain m where m: "raw = GObj m"
    using assms by (cases raw) (auto simp: explore_field_def as_object_def go_bind_apply conversion_panic_def)
  obtain r w1 where r: "explore_member ex vm pool s (path @ [name]) name m w = (r, w1)" by fastforce
  have w1: "w1 = w" and ok: "\<And>a. r = Ret a \<Longrightarrow> opt_parsed a"
    using member [of vm pool s "path @ [name]" name m] r by (metis fst_conv parses_def snd_conv)+
  show ?thesis
  proof (cases r)
    case (Ret po)
    show ?thesis
    proof (cases po)
      case None
      then show ?thesis using assms m r w1 Ret by (auto simp: explore_field_def as_object_def go_bind_apply described_def)
    next
      case (Some p0)
      obtain q w2 where q: "annotate m p0 w = (q, w2)" by fastforce
      have "w2 = w" using parses_annotate [of p0 m] ok [OF Ret] Some q by (metis opt_parsed_simps(2) parses_def snd_conv)
      then show ?thesis using assms m r w1 Ret Some q
        by (cases q) (auto simp: explore_field_def as_object_def go_bind_apply described_def update_conv')
    qed
  qed (use assms m r in \<open>auto simp: explore_field_def as_object_def go_bind_apply\<close>)
qed

lemma fields_result:
  assumes "go_loop (explore_field ex vm pool s path) members acc w = (Ret ps, w')"
    and "distinct (map fst members)" "fst ` set members \<inter> dom (map_of acc) = {}"
  shows "w' = w \<and> (map_of ps k = Some p \<longleftrightarrow>
    (if k \<in> fst ` set members then described ex vm pool s path w members k p else map_of acc k = Some p))"
  using assms
proof (induction members arbitrary: acc)
  case (Cons x members)
  obtain name raw where x: "x = (name, raw)" by fastforce
  obtain acc1 w1 where 1: "explore_field ex vm pool s path (name, raw) acc w = (Ret acc1, w1)"
    "go_loop (explore_field ex vm pool s path) members acc1 w1 = (Ret ps, w')"
    using Cons.prems(1) x by (auto simp: go_bind_apply split: prod.splits outcome.splits)
  note field = field_result [OF 1(1)]
  have "map_of acc name = None" using Cons.prems(3) x by (auto simp: domIff)
  then have own: "map_of acc1 name = Some p \<longleftrightarrow> described ex vm pool s path w [(name, raw)] name p" for p using field by blast
  have other: "map_of acc1 k = map_of acc k" if "k \<noteq> name" for k using field that by blast
  have "fst ` set members \<inter> dom (map_of acc1) = {}"
    using Cons.prems(2,3) x other by (auto simp: domIff disjoint_iff) (metis fst_conv image_eqI option.distinct(1))
  then have IH: "w' = w \<and> (map_of ps k = Some p \<longleftrightarrow>
      (if k \<in> fst ` set members then described ex vm pool s path w members k p else map_of acc1 k = Some p))"
    using Cons.IH [of acc1] 1(2) Cons.prems(2) field by auto
  show ?case
  proof (cases "k = name")
    case True
    then have "k \<notin> fst ` set members" using Cons.prems(2) x by auto
    then show ?thesis using IH own True x by (simp add: described_def)
  next
    case False
    then show ?thesis using IH other x by (auto simp: described_def)
  qed
qed simp

lemma object_result:
  assumes "exploreObject ex vm pool s path m w = (Ret ps, w')"
    and "map_of m ''properties'' = Some (GObj members)" "distinct (map fst members)"
  shows "map_of ps k = Some p \<longleftrightarrow> described ex vm pool s path w members k p"
proof -
  have "decodeReferenceToken ''properties'' = ''properties''" by (simp add: decodeReferenceToken_def)
  then have "go_loop (explore_field ex vm pool s path) members [] w = (Ret ps, w')"
    using assms(1,2) by (simp add: exploreObject_def go_must_def as_object_def)
  note res = fields_result [OF this assms(3), of k p]
  show ?thesis using res by (auto simp: described_def dest: map_of_SomeD intro: rev_image_eqI)
qed

end

lemma annotate_readonly:
  assumes "annotate m p0 w = (Ret p, w')" "map_of m ''readonly'' = Some v"
  shows "v = GBool (p_ReadOnly (p_info p))"
  using assms
  by (cases v) (auto simp: annotate_def go_bind_apply opt_key_def as_bool_def conversion_panic_def with_info_def
      split: option.splits prod.splits outcome.splits)

section \<open>Items of arrays\<close>

text \<open>Items that are strings, perhaps null.\<close>

definition string_items :: "gobj \<Rightarrow> bool" where
  "string_items item \<longleftrightarrow> map_of item ''$ref'' = None \<and>
     List.member [GString ''string'', GArr [GString ''string'', GString ''null''], GArr [GString ''null'', GString ''string'']]
       (case map_of item ''type'' of Some t \<Rightarrow> t | None \<Rightarrow> GNil)"

lemma string_items_explored:
  assumes "map_of m ''items'' = Some (GObj item)" "string_items item"
  shows "\<exists>b. exploreArray ex s path m = go_bind (xType ex s path m (GString ''string''))
    (\<lambda>p. go_return (if b then null_allowed p else p, None))"
proof -
  obtain t where t: "map_of item ''$ref'' = None" "map_of item ''type'' = Some t"
    "t = GString ''string'' \<or> t = GArr [GString ''string'', GString ''null''] \<or> t = GArr [GString ''null'', GString ''string'']"
    using assms(2) by (cases "map_of item ''type''") (auto simp: string_items_def)
  show ?thesis using t(3)
  proof (elim disjE)
    assume "t = GString ''string''"
    then show ?thesis using t assms(1) by (intro exI [of _ False]) (simp add: exploreArray_def array_of_type_def)
  qed (use t assms(1) in \<open>auto intro!: exI [of _ True] ext simp: exploreArray_def array_of_type_def as_string_def go_bind_apply
         split: prod.splits outcome.splits\<close>)
qed

lemma string_element:
  assumes "map_of m ''items'' = Some (GObj item)" "string_items item" "xType ex = exploreType ex'"
    and "map_of m ''enum'' = None" "map_of m ''format'' = None" "map_of m ''pattern'' = None"
    and "exploreArray ex s path m w = (Ret (Some e, r), w')"
  shows "pType e = PropString \<and> p_StringFormat (p_info e) = None \<and> p_StringPattern (p_info e) = None \<and> p_EnumMembers (p_info e) = []"
proof -
  obtain b where b: "exploreArray ex s path m =
      go_bind (exploreType ex' s path m (GString ''string'')) (\<lambda>p. go_return (if b then null_allowed p else p, None))"
    using string_items_explored [OF assms(1,2), of ex s path] assms(3) by auto
  obtain p where "exploreType ex' s path m (GString ''string'') w = (Ret (Some p), w')"
    "e = (if b then with_info (\<lambda>i. i\<lparr>p_NullAllowed := True\<rparr>) p else p)"
    using assms(7) unfolding b
    by (auto simp: go_bind_apply null_allowed_def split: prod.splits outcome.splits if_splits)
  then show ?thesis
    using assms(4-6)
    by (auto simp: exploreType_def as_string_def explore_switch_def handleString_def opt_key_def as_int_def conversion_panic_def
        go_bind_apply with_info_def mk_prop_def prop_zero_def split: option.splits prod.splits outcome.splits)
qed

text \<open>An array of arrays never ends: its items are explored in the schema of the outer array again.\<close>

lemma nested_array_diverges:
  assumes "map_of m ''items'' = Some (GObj item)" "map_of item ''$ref'' = None" "map_of item ''type'' = Some (GString ''array'')"
  shows "xType (explore vm pool n) s path m (GString ''array'') w = (NoFuel, w)"
proof (induction n)
  case (Suc n)
  then show ?case using assms
    by (simp add: Let_def exploreType_def as_string_def explore_switch_def exploreArray_def array_of_type_def go_bind_apply)
qed simp

text \<open>A property of several types of which one is integer is refused.\<close>

lemma integer_among_types_panics:
  "pType p = PropInteger \<Longrightarrow> combine_type c p = go_panic ''Unsupported type:Integer''"
  by (simp add: combine_type_def Let_def)

section \<open>An example\<close>

definition ex_lamp_schema :: Schema where
  "ex_lamp_schema = \<lparr> sc_FileName = ''Lamp.json'', sc_Body = [],
     sc_TopLevel = Some [(''anyOf'', GArr [GObj [(''$ref'', GString ''/schemas/v1/Lamp.v1_0_0.json'')]]),
       (''insertable'', GBool True), (''updatable'', GBool True), (''deletable'', GBool False)] \<rparr>"

definition ex_lamp_members :: gobj where
  "ex_lamp_members = [(''Id'', GObj [(''type'', GString ''string''), (''readonly'', GBool True)]),
     (''On'', GObj [(''type'', GArr [GString ''boolean'', GString ''null''])])]"

definition ex_lamp_v1 :: Schema where
  "ex_lamp_v1 = \<lparr> sc_FileName = ''Lamp.v1_0_0.json'', sc_Body = [],
     sc_TopLevel = Some [(''properties'', GObj ex_lamp_members), (''required'', GArr [GString ''Id'']),
       (''additionalProperties'', GBool False)] \<rparr>"

definition ex_pool :: SchemaPool where
  "ex_pool = \<lparr> sp_Pool = [(''Lamp.json'', ex_lamp_schema), (''Lamp.v1_0_0.json'', ex_lamp_v1)],
     sp_Version = VersionLatest, OemExtensions = [] \<rparr>"

lemma ex_lamp_parses: "\<exists>r. ParseResource [] ex_pool 1 ex_lamp_schema () = (Ret (r, ''Lamp''), ()) \<and>
   map fst (r_Properties r) = [''Id'', ''On'']"
proof -
  have "case ParseResource [] ex_pool 1 ex_lamp_schema () of
     (Ret (r, n), _) \<Rightarrow> n = ''Lamp'' \<and> map fst (r_Properties r) = [''Id'', ''On''] | _ \<Rightarrow> False" by code_simp
  then show ?thesis by (auto split: prod.splits outcome.splits)
qed

lemma ex_lamp_properties: "\<exists>ps. findResourceProperties [] ex_pool 1 ex_lamp_v1 [''Lamp''] () = (Ret ps, ()) \<and>
   map_of ps ''Id'' \<noteq> None"
proof -
  have "case findResourceProperties [] ex_pool 1 ex_lamp_v1 [''Lamp''] () of
     (Ret ps, _) \<Rightarrow> map_of ps ''Id'' \<noteq> None | _ \<Rightarrow> False" by code_simp
  then show ?thesis by (auto split: prod.splits outcome.splits)
qed

section \<open>Properties\<close>

text \<open>
  C15. What the parser returns is well formed: whatever the schema files hold and however much fuel is
  given, a resource or collection that is parsed carries the name it is stored under, is not linked
  yet, has distinct property names at every level, an element for every array, no length bound and
  no integer in a list of several types. It can therefore be copied, which linking relies on.
\<close>

theorem parsed_resource_wf:
  assumes "ParseResource vm pool n schema w = (Ret (r, name), w') \<or> ParseCollection vm pool n schema w = (Ret (r, name), w')"
  shows "w' = w \<and> name = r_Name (r_info r) \<and> r_CollectionOf r = None \<and> all_parsed (r_Properties r) \<and>
    (\<exists>c. copyResource r w = (Ret c, w))"
proof -
  have "w' = w \<and> res_parsed (r, name)"
    using assms by (elim disjE) (rule parsesD [OF parses_resource], assumption, rule parsesD [OF parses_collection])
  then show ?thesis using parsed_copies [of r name w] by (simp add: res_parsed_def)
qed

theorem parsed_resource_wf_witness:
  "\<exists>r c. ParseResource [] ex_pool 1 ex_lamp_schema () = (Ret (r, ''Lamp''), ()) \<and> all_parsed (r_Properties r) \<and> copyResource r () = (Ret c, ())"
proof -
  obtain r where r: "ParseResource [] ex_pool 1 ex_lamp_schema () = (Ret (r, ''Lamp''), ())" using ex_lamp_parses by blast
  show ?thesis using r parsed_resource_wf [OF disjI1, OF r] by blast
qed

text \<open>
  The fuel only bounds the depth of the exploration: where parsing a resource or a collection does
  not run out of fuel, it gives the same result, a panic included, with any larger amount.
\<close>

theorem parse_fuel_irrelevant:
  "(fst (ParseResource vm pool n schema w) \<noteq> NoFuel \<longrightarrow>
      ParseResource vm pool (n + k) schema w = ParseResource vm pool n schema w) \<and>
   (fst (ParseCollection vm pool n schema w) \<noteq> NoFuel \<longrightarrow>
      ParseCollection vm pool (n + k) schema w = ParseCollection vm pool n schema w)"
  using extends_resource [of vm pool n schema k] extends_collection [of vm pool n schema k]
  by (auto simp: extends_def)

theorem parse_fuel_irrelevant_witness:
  "fst (ParseResource [] ex_pool 1 ex_lamp_schema ()) \<noteq> NoFuel \<and>
   ParseResource [] ex_pool (1 + 5) ex_lamp_schema () = ParseResource [] ex_pool 1 ex_lamp_schema ()"
proof -
  have "fst (ParseResource [] ex_pool 1 ex_lamp_schema ()) \<noteq> NoFuel" using ex_lamp_parses by auto
  then show ?thesis using parse_fuel_irrelevant [of "[]" ex_pool 1 ex_lamp_schema "()" 5] by blast
qed

text \<open>
  The properties of a versioned resource are members of the \<open>properties\<close> of its schema, each as the
  parser describes that member; and where the schema says whether a member is read-only, the flag of
  the property, which decides whether a PATCH may change it, is what the schema says.
\<close>

theorem explored_properties:
  assumes "findResourceProperties vm pool n schema path w = (Ret ps, w')"
    and "map_of (TopLevel schema) ''properties'' = Some (GObj members)" "distinct (map fst members)"
  shows "(map_of ps k = Some p \<longleftrightarrow> described (explore vm pool n) vm pool schema path w members k p) \<and>
    (map_of ps k = Some p \<and> map_of members k = Some (GObj m) \<and> map_of m ''readonly'' = Some v \<longrightarrow>
      v = GBool (p_ReadOnly (p_info p)))"
proof -
  have iff: "map_of ps k = Some p \<longleftrightarrow> described (explore vm pool n) vm pool schema path w members k p"
    using pc.object_result [OF assms(1) [unfolded findResourceProperties_def] assms(2,3)] .
  then show ?thesis by (auto simp: described_def dest: annotate_readonly)
qed

theorem explored_properties_witness:
  "\<exists>ps p. findResourceProperties [] ex_pool 1 ex_lamp_v1 [''Lamp''] () = (Ret ps, ()) \<and> map_of ps ''Id'' = Some p \<and>
    p_ReadOnly (p_info p)"
proof -
  obtain ps p where ps: "findResourceProperties [] ex_pool 1 ex_lamp_v1 [''Lamp''] () = (Ret ps, ())" "map_of ps ''Id'' = Some p"
    using ex_lamp_properties by auto
  have "GBool True = GBool (p_ReadOnly (p_info p))"
    using explored_properties [OF ps(1), of ex_lamp_members "''Id''" p "[(''type'', GString ''string''), (''readonly'', GBool True)]" "GBool True"] ps(2)
    by (simp add: ex_lamp_v1_def TopLevel_def ex_lamp_members_def)
  then show ?thesis using ps by simp
qed

text \<open>
  Constraints on the strings of an array are lost: the items are explored in the schema of the array,
  so the format, pattern and enumeration that the items give do not reach the element property.
\<close>

theorem item_constraints_lost:
  assumes "map_of m ''items'' = Some (GObj item)" "string_items item"
    and "map_of m ''enum'' = None" "map_of m ''format'' = None" "map_of m ''pattern'' = None"
    and "exploreArray (explore vm pool (Suc n)) s path m w = (Ret (Some e, r), w')"
  shows "pType e = PropString \<and> p_StringFormat (p_info e) = None \<and> p_StringPattern (p_info e) = None \<and> p_EnumMembers (p_info e) = []"
  by (rule string_element [OF assms(1,2) _ assms(3-6), of "explore vm pool n"]) (simp add: Let_def)

theorem item_constraints_lost_witness:
  "\<exists>e. exploreArray (explore [] ex_pool (Suc 0)) ex_lamp_v1 [''Lamp'']
      [(''type'', GString ''array''), (''items'', GObj [(''type'', GArr [GString ''string'', GString ''null'']), (''format'', GString ''uri'')])] () =
      (Ret (Some e, None), ()) \<and> p_StringFormat (p_info e) = None"
proof -
  let ?m = "[(''type'', GString ''array''), (''items'', GObj [(''type'', GArr [GString ''string'', GString ''null'']), (''format'', GString ''uri'')])]"
  have "case exploreArray (explore [] ex_pool (Suc 0)) ex_lamp_v1 [''Lamp''] ?m () of (Ret (Some e, None), _) \<Rightarrow> True | _ \<Rightarrow> False" by code_simp
  then obtain e where e: "exploreArray (explore [] ex_pool (Suc 0)) ex_lamp_v1 [''Lamp''] ?m () = (Ret (Some e, None), ())"
    by (auto split: prod.splits outcome.splits option.splits)
  show ?thesis using e item_constraints_lost [OF _ _ _ _ _ e, of "[(''type'', GArr [GString ''string'', GString ''null'']), (''format'', GString ''uri'')]"]
    by (simp add: string_items_def)
qed

end
