(* ===== verification/Schema_Tree.thy ===== *)
theory Schema_Tree
  imports Schema_Copy Schema_Versions
begin

text \<open>
  Linking the parsed schemas to a tree and traversing it (\<open>internal/rfschema/tree.go\<close> and
  \<open>traverse.go\<close>). The parsed resources are templates; every link to one gets a copy of its own. The
  copies live in a heap, a list of nodes whose addresses are the positions, since the code fills in
  the links of a resource after it has been pushed on the stack. A node keeps its copy without links
  and, apart from it, the addresses that the links of its properties hold.
\<close>

section \<open>References\<close>

definition upper :: "char \<Rightarrow> bool" where
  "upper c \<longleftrightarrow> (let n = (of_char c :: int) in 65 \<le> n \<and> n \<le> 90)"

definition letter :: "char \<Rightarrow> bool" where
  "letter c \<longleftrightarrow> upper c \<or> (let n = (of_char c :: int) in 97 \<le> n \<and> n \<le> 122)"

text \<open>The longest match of \<open>[A-Z][A-Za-z]+\<close> at the start, with what follows it.\<close>

definition type_name_prefix :: "string \<Rightarrow> (string \<times> string) option" where
  "type_name_prefix s =
     (let m = takeWhile letter s in
      if length m \<ge> 2 \<and> upper (hd m) then Some (m, drop (length m) s) else None)"

text \<open>
  \<open>ReplaceAllString\<close> with the anchored expression replaces the match by its group and keeps the rest;
  a reference that does not match is returned as it is.
\<close>

definition extractLinkedResourceType :: "string \<Rightarrow> ('w, string) go" where
  "extractLinkedResourceType linkRef =
     (let base = ''http://redfish.dmtf.org/schemas/v1/'' in
      if HasPrefix linkRef base then
        go_return (case type_name_prefix (TrimPrefix linkRef base) of
            None \<Rightarrow> linkRef
          | Some (_, rest) \<Rightarrow>
              if HasPrefix rest ''.json#/definitions/'' then
                (case type_name_prefix (TrimPrefix rest ''.json#/definitions/'') of
                   None \<Rightarrow> linkRef
                 | Some (typ, rest') \<Rightarrow> typ @ rest')
              else linkRef)
      else if HasPrefix linkRef ''#/definitions/'' then go_return (TrimPrefix linkRef ''#/definitions/'')
      else go_panic (''Bad format for link reference: '' @ linkRef))"

section \<open>Navigation properties\<close>

text \<open>The flags that the detection of navigation links and arrays sets in the properties of a resource.\<close>

definition set_nav_link :: "property \<Rightarrow> property" where
  "set_nav_link p = Property ((p_info p)\<lparr>p_IsNavLink := True\<rparr>) (p_Properties p) (p_ArrayOf p) (p_Link p) (p_Parameters p) (p_Target p) (p_Title p)"

definition set_nav_array :: "property \<Rightarrow> property" where
  "set_nav_array p = Property ((p_info p)\<lparr>p_IsNavArray := True\<rparr>) (p_Properties p) (p_ArrayOf p) (p_Link p) (p_Parameters p) (p_Target p) (p_Title p)"

definition nav_link_property :: "string \<Rightarrow> property \<Rightarrow> property" where
  "nav_link_property name property =
     (if pType property = PropLink then set_nav_link property
      else if name \<noteq> ''Links'' \<and> pType property = PropObject then
        Property (p_info property)
          (map (\<lambda>(childName, childProperty). (childName, if pType childProperty = PropLink then set_nav_link childProperty else childProperty))
             (p_Properties property))
          (p_ArrayOf property) (p_Link property) (p_Parameters property) (p_Target property) (p_Title property)
      else property)"

definition detectNavigationLinks :: "(string \<times> resource) list \<Rightarrow> (string \<times> resource) list" where
  "detectNavigationLinks = map (\<lambda>(n, r). (n, Resource (r_info r) (r_CollectionOf r)
     (map (\<lambda>(name, property). (name, nav_link_property name property)) (r_Properties r))))"

fun nav_array_props :: "properties \<Rightarrow> ('w, properties) go" where
  "nav_array_props [] = go_return []"
| "nav_array_props ((name, property) # rest) =
     go_bind (if pType property = PropArray then
                (case p_ArrayOf property of
                   None \<Rightarrow> go_panic ''nil pointer dereference''
                 | Some e \<Rightarrow> go_return (if pType e = PropLink \<and> p_linkRef (p_info e) \<noteq> [] then set_nav_array property else property))
              else go_return property) (\<lambda>p.
     go_bind (nav_array_props rest) (\<lambda>ps. go_return ((name, p) # ps)))"

fun detectNavigationArrays :: "(string \<times> resource) list \<Rightarrow> ('w, (string \<times> resource) list) go" where
  "detectNavigationArrays [] = go_return []"
| "detectNavigationArrays ((n, r) # rest) =
     go_bind (if r_Name (r_info r) = ''ResourceBlock'' then go_return r
              else go_bind (nav_array_props (r_Properties r)) (\<lambda>ps. go_return (Resource (r_info r) (r_CollectionOf r) ps))) (\<lambda>r'.
     go_bind (detectNavigationArrays rest) (\<lambda>rs. go_return ((n, r') # rs)))"

section \<open>The heap of copies\<close>

text \<open>
  Where a link is held: in a top-level property, in a property of a top-level object, or in the
  element of a top-level array.
\<close>

datatype site = AtProp string | AtChild string string | AtElem string

record node =
  n_res :: resource
  n_CollectionOf :: "nat option"
  n_links :: "(site \<times> nat) list"

record link_state =
  ls_collections :: "(string \<times> resource) list"
  ls_resources :: "(string \<times> resource) list"
  ls_nodes :: "node list"

definition new_node :: "resource \<Rightarrow> node" where
  "new_node r = \<lparr> n_res = r, n_CollectionOf = None, n_links = [] \<rparr>"

text \<open>The map \<open>allResources\<close>; a resource is entered after the collections.\<close>

definition template :: "link_state \<Rightarrow> string \<Rightarrow> resource option" where
  "template ls name = (case map_of (ls_resources ls) name of Some r \<Rightarrow> Some r | None \<Rightarrow> map_of (ls_collections ls) name)"

definition add_node :: "node \<Rightarrow> (link_state, nat) go" where
  "add_node n = go_bind (gets (\<lambda>ls. length (ls_nodes ls))) (\<lambda>a.
     go_bind (modifies (\<lambda>ls. ls\<lparr>ls_nodes := ls_nodes ls @ [n]\<rparr>)) (\<lambda>_. go_return a))"

definition bump :: "resource \<Rightarrow> resource" where
  "bump r = Resource ((r_info r)\<lparr>r_InstanceID := r_InstanceID (r_info r) + 1\<rparr>) (r_CollectionOf r) (r_Properties r)"

definition bump_template :: "string \<Rightarrow> link_state \<Rightarrow> link_state" where
  "bump_template name ls =
     ls\<lparr>ls_resources := map (\<lambda>(n, r). (n, if n = name then bump r else r)) (ls_resources ls),
        ls_collections := map (\<lambda>(n, r). (n, if n = name \<and> map_of (ls_resources ls) name = None then bump r else r)) (ls_collections ls)\<rparr>"

text \<open>\<open>InstanceID++\<close> on the template and a copy of it in the heap.\<close>

definition instantiate :: "string \<Rightarrow> resource \<Rightarrow> (link_state, nat) go" where
  "instantiate name r =
     go_bind (modifies (bump_template name)) (\<lambda>_.
     go_bind (copyResource (bump r)) (\<lambda>c. add_node (new_node c)))"

definition update_node :: "nat \<Rightarrow> (node \<Rightarrow> node) \<Rightarrow> (link_state, unit) go" where
  "update_node a f = modifies (\<lambda>ls. ls\<lparr>ls_nodes := (ls_nodes ls)[a := f (ls_nodes ls ! a)]\<rparr>)"

definition set_link :: "site \<Rightarrow> nat \<Rightarrow> node \<Rightarrow> node" where
  "set_link site a n = n\<lparr>n_links := AList.update site a (n_links n)\<rparr>"

text \<open>
  \<open>resource.Properties[name] = property\<close>: for a property of an object this enters the child, with its
  link, among the properties of the resource.
\<close>

definition put_property :: "string \<Rightarrow> property \<Rightarrow> nat \<Rightarrow> node \<Rightarrow> node" where
  "put_property name property a n =
     set_link (AtProp name) a
       (n\<lparr>n_res := Resource (r_info (n_res n)) (r_CollectionOf (n_res n)) (AList.update name property (r_Properties (n_res n)))\<rparr>)"

section \<open>Linking\<close>

definition cycle_resource :: resource where
  "cycle_resource = Resource (res_zero\<lparr>r_Name := ''CycleDetected'',
     r_Description := Some ''A cycle was detected when linking the schema tree''\<rparr>) None []"

definition known_cycle :: "VersionMapping \<Rightarrow> string \<Rightarrow> string \<Rightarrow> string \<Rightarrow> bool" where
  "known_cycle mapping source field dest =
     (case map_of (KnownCycles mapping) source of
        None \<Rightarrow> False
      | Some c \<Rightarrow> SourceField c = field \<and> DestinationResource c = dest)"

text \<open>\<open>linkNavProperty\<close> for the property \<open>property\<close> of the node \<open>a\<close> that holds its link at \<open>site\<close>; returns the address linked.\<close>

definition linkNavProperty :: "VersionMapping option \<Rightarrow> nat \<Rightarrow> string \<Rightarrow> site \<Rightarrow> property \<Rightarrow> (link_state, nat) go" where
  "linkNavProperty mappingO a name site property =
     go_bind (extractLinkedResourceType (p_linkRef (p_info property))) (\<lambda>linkedResourceType.
     if linkedResourceType = [] then go_panic (''Could not extract linked resource type:'' @ p_linkRef (p_info property))
     else
       go_bind (gets (\<lambda>ls. template ls linkedResourceType)) (\<lambda>linked. case linked of
           None \<Rightarrow> go_panic ''Property requested in resource does not exist in linked resource''
         | Some linkedResource \<Rightarrow>
       go_bind (gets (\<lambda>ls. ls_nodes ls ! a)) (\<lambda>node.
       if map_of (n_links node) site \<noteq> None then go_panic ''Link is not nil''
       else (case mappingO of
           None \<Rightarrow> go_panic ''Version mapping is not present''
         | Some mapping \<Rightarrow>
             (let resourceName = r_Name (r_info (n_res node)); linkedName = r_Name (r_info linkedResource) in
              if known_cycle mapping resourceName name linkedName then
                go_bind (add_node (new_node cycle_resource)) (\<lambda>link.
                go_bind (update_node a (set_link site link)) (\<lambda>_. go_return link))
              else if resourceName = linkedName then go_panic ''Cycle!''
              else
                go_bind (instantiate linkedResourceType linkedResource) (\<lambda>link.
                go_bind (update_node a (put_property name property link \<circ> set_link site link)) (\<lambda>_. go_return link)))))))"


fun link_children :: "VersionMapping option \<Rightarrow> nat \<Rightarrow> string \<Rightarrow> property \<Rightarrow> properties \<Rightarrow> (link_state, nat list) go" where
  "link_children mo a name property [] = go_return []"
| "link_children mo a name property ((childName, childProperty) # rest) =
     (let isNavLink = (pType childProperty = PropLink \<and> p_IsNavLink (p_info childProperty));
          notYetLinked = (p_Link property = None \<and> p_linkRef (p_info property) \<noteq> [])
      in if \<not> isNavLink \<and> \<not> notYetLinked then link_children mo a name property rest
         else
           go_bind (linkNavProperty mo a childName (AtChild name childName) childProperty) (\<lambda>link.
           go_bind (link_children mo a name property rest) (\<lambda>links. go_return (link # links))))"

definition link_array :: "nat \<Rightarrow> string \<Rightarrow> property \<Rightarrow> (link_state, nat list) go" where
  "link_array a name element =
     go_bind (extractLinkedResourceType (p_linkRef (p_info element))) (\<lambda>linkedResourceType.
     if linkedResourceType = [] then go_panic (''Could not extract linked resource type:'' @ p_linkRef (p_info element))
     else
       go_bind (gets (\<lambda>ls. template ls linkedResourceType)) (\<lambda>linked. case linked of
           None \<Rightarrow> go_panic (''Does not have resource: '' @ linkedResourceType)
         | Some linkedResource \<Rightarrow>
       go_bind (gets (\<lambda>ls. ls_nodes ls ! a)) (\<lambda>node.
       if map_of (n_links node) (AtElem name) \<noteq> None then go_panic ''Link is not nil''
       else if r_Name (r_info (n_res node)) = r_Name (r_info linkedResource) then go_panic ''Cycle!''
       else
         go_bind (instantiate linkedResourceType linkedResource) (\<lambda>link.
         go_bind (update_node a (set_link (AtElem name) link)) (\<lambda>_. go_return [link])))))"

text \<open>The body of the loop over the properties; the value of a property is the one it has when the loop reaches it.\<close>

definition link_property :: "VersionMapping option \<Rightarrow> nat \<Rightarrow> string \<Rightarrow> (link_state, nat list) go" where
  "link_property mo a name =
     go_bind (gets (\<lambda>ls. ls_nodes ls ! a)) (\<lambda>node.
     case map_of (r_Properties (n_res node)) name of
       None \<Rightarrow> go_return []
     | Some property \<Rightarrow>
         if pType property = PropLink \<and> p_IsNavLink (p_info property) \<and> map_of (n_links node) (AtProp name) = None \<and> p_linkRef (p_info property) \<noteq> []
         then go_bind (linkNavProperty mo a name (AtProp name) property) (\<lambda>link. go_return [link])
         else if name \<noteq> ''Links'' \<and> pType property = PropObject
         then link_children mo a name property (p_Properties property)
         else if pType property = PropArray \<and> p_IsNavArray (p_info property)
         then (case p_ArrayOf property of
             None \<Rightarrow> go_panic ''nil pointer dereference''
           | Some element \<Rightarrow> if p_linkRef (p_info element) \<noteq> [] then link_array a name element else go_return [])
         else go_return [])"

fun link_properties :: "VersionMapping option \<Rightarrow> nat \<Rightarrow> string list \<Rightarrow> (link_state, nat list) go" where
  "link_properties mo a [] = go_return []"
| "link_properties mo a (name # names) =
     go_bind (link_property mo a name) (\<lambda>links.
     go_bind (link_properties mo a names) (\<lambda>links'. go_return (links @ links')))"

definition link_collection :: "nat \<Rightarrow> string \<Rightarrow> (link_state, nat list) go" where
  "link_collection a name =
     (if \<not> HasSuffix name ''Collection'' then go_panic (''Does not have 'Collection' as a suffix: '' @ name)
      else
        (let resourceName = TrimSuffix name ''Collection'' in
         go_bind (gets (\<lambda>ls. map_of (ls_resources ls) resourceName)) (\<lambda>collectionOf. case collectionOf of
             None \<Rightarrow> go_panic ''Does not have resource''
           | Some r \<Rightarrow>
               go_bind (instantiate resourceName r) (\<lambda>link.
               go_bind (update_node a (\<lambda>n. n\<lparr>n_CollectionOf := Some link\<rparr>)) (\<lambda>_. go_return [link])))))"

text \<open>What a visit of a node pushes, in order.\<close>

definition link_resource :: "VersionMapping option \<Rightarrow> nat \<Rightarrow> (link_state, nat list) go" where
  "link_resource mo a =
     go_bind (gets (\<lambda>ls. n_res (ls_nodes ls ! a))) (\<lambda>resource.
       if r_IsCollection (r_info resource) then link_collection a (r_Name (r_info resource))
       else link_properties mo a (map fst (r_Properties resource)))"

fun checkNilLinks :: "properties \<Rightarrow> ('w, unit) go" where
  "checkNilLinks [] = go_return ()"
| "checkNilLinks ((name, p) # ps) =
     (if pType p = PropLink \<and> p_IsNavLink (p_info p) \<and> p_Link p \<noteq> None then go_panic (name @ '' Should be nil'')
      else checkNilLinks ps)"

definition check_templates :: "(link_state, unit) go" where
  "check_templates = go_bind (gets (\<lambda>ls. map snd (ls_collections ls @ ls_resources ls))) (go_each (\<lambda>r. checkNilLinks (r_Properties r)))"

text \<open>
  The loop over the stack. A schema with a cycle that is not known makes the code run forever, so the
  loop takes fuel.
\<close>

fun link_loop :: "nat \<Rightarrow> VersionMapping option \<Rightarrow> nat list \<Rightarrow> nat list \<Rightarrow> (link_state, nat list) go" where
  "link_loop fuel mo [] visited = go_return visited"
| "link_loop 0 mo (a # stack) visited = go_nofuel"
| "link_loop (Suc fuel) mo (a # stack) visited =
     go_bind check_templates (\<lambda>_.
       if a \<in> set visited then link_loop fuel mo stack visited
       else go_bind (link_resource mo a) (\<lambda>links. link_loop fuel mo (rev links @ stack) (a # visited)))"

section \<open>Traversal and checks\<close>

text \<open>
  The resources that a node leads to, that of a collection or those of the navigation links; a link
  that is nil panics with the given message.
\<close>

fun nav_links :: "(string \<Rightarrow> string) \<Rightarrow> node \<Rightarrow> properties \<Rightarrow> ('w, nat list) go" where
  "nav_links msg n [] = go_return []"
| "nav_links msg n ((name, p) # ps) =
     (if pType p = PropLink \<and> p_IsNavLink (p_info p) then
        (case map_of (n_links n) (AtProp name) of
           None \<Rightarrow> go_panic (msg name)
         | Some a \<Rightarrow> go_bind (nav_links msg n ps) (\<lambda>as. go_return (a # as)))
      else nav_links msg n ps)"

definition successors :: "(string \<Rightarrow> string) \<Rightarrow> node \<Rightarrow> ('w, nat list) go" where
  "successors msg n =
     (if r_IsCollection (r_info (n_res n)) then
        (case n_CollectionOf n of None \<Rightarrow> go_panic ''nil pointer dereference'' | Some a \<Rightarrow> go_return [a])
      else nav_links msg n (r_Properties (n_res n)))"

function TraverseTree :: "node list \<Rightarrow> (nat \<Rightarrow> ('s, unit) go) \<Rightarrow> nat list \<Rightarrow> nat list \<Rightarrow> ('s, unit) go" where
  "TraverseTree nodes onResourceVisit [] discovered = go_return ()"
| "TraverseTree nodes onResourceVisit (a # stack) discovered =
     (if a \<in> set discovered then TraverseTree nodes onResourceVisit stack discovered
      else if length nodes \<le> a then go_panic ''invalid memory address''
      else
        go_bind (onResourceVisit a) (\<lambda>_.
        go_bind (successors (\<lambda>name. ''Link does not exist: '' @ name) (nodes ! a)) (\<lambda>as.
          TraverseTree nodes onResourceVisit (rev as @ stack) (a # discovered))))"
  by pat_completeness auto

termination
proof (relation "measures [\<lambda>(nodes, _, _, discovered). card ({..<length nodes} - set discovered), \<lambda>(_, _, stack, _). length stack]", goal_cases)
  case 1
  show ?case by simp
next
  case (2 nodes visit a stack discovered)
  then show ?case by simp
next
  case (3 nodes visit a stack discovered x as)
  have "{..<length nodes} - set (a # discovered) \<subset> {..<length nodes} - set discovered"
    using 3(1,2) by (auto simp: not_le)
  moreover have "finite ({..<length nodes} - set discovered)" by simp
  ultimately have "card ({..<length nodes} - set (a # discovered)) < card ({..<length nodes} - set discovered)"
    by (metis psubset_card_mono)
  then show ?case by simp
qed


text \<open>The reference counts of the nodes, kept apart from them.\<close>

definition countReferences :: "node list \<Rightarrow> (nat \<Rightarrow> int, unit) go" where
  "countReferences nodes =
     TraverseTree nodes
       (\<lambda>a. go_bind (successors (\<lambda>_. ''nil pointer dereference'') (nodes ! a)) (\<lambda>as.
              modifies (fold (\<lambda>b c. c(b := c b + 1)) as)))
       [0] []"

definition consistencyCheck :: "node list \<Rightarrow> (nat \<Rightarrow> int, unit) go" where
  "consistencyCheck nodes =
     go_bind (TraverseTree nodes
       (\<lambda>a. go_bind (nav_links (\<lambda>name. ''Link is nil: '' @ r_Name (r_info (n_res (nodes ! a))) @ ''->'' @ name) (nodes ! a)
              (r_Properties (n_res (nodes ! a)))) (\<lambda>_. go_return ())) [0] []) (\<lambda>_.
     go_bind (countReferences nodes) (\<lambda>_.
     TraverseTree nodes
       (\<lambda>a. go_bind (gets (\<lambda>c. c a)) (\<lambda>n. if n > 1 then go_panic ''Resource has too many references'' else go_return ()))
       [0] []))"

fun check_node_links :: "node \<Rightarrow> properties \<Rightarrow> ('w, unit) go" where
  "check_node_links n [] = go_return ()"
| "check_node_links n ((name, p) # ps) =
     (if pType p = PropLink \<and> p_IsNavLink (p_info p) \<and> map_of (n_links n) (AtProp name) = None
      then go_panic (''Nil Nav Link: '' @ r_Name (r_info (n_res n)) @ '':'' @ name)
      else if pType p = PropArray \<and> p_IsNavArray (p_info p) \<and> map_of (n_links n) (AtElem name) = None
      then go_panic (''Nil Nav Array Link: '' @ r_Name (r_info (n_res n)) @ '':'' @ name)
      else check_node_links n ps)"

definition checkLinks :: "nat list \<Rightarrow> (link_state, unit) go" where
  "checkLinks visited =
     go_bind (gets ls_nodes) (\<lambda>nodes. go_each (\<lambda>a. check_node_links (nodes ! a) (r_Properties (n_res (nodes ! a)))) visited)"

text \<open>The checks at the end; the linked tree is the list of nodes with its root at address 0.\<close>

definition check_tree :: "nat list \<Rightarrow> (link_state, node list) go" where
  "check_tree visited =
     go_bind (checkLinks visited) (\<lambda>_.
     go_bind (gets ls_nodes) (\<lambda>nodes.
       case fst (consistencyCheck nodes (\<lambda>a. r_ReferenceCount (r_info (n_res (nodes ! a))))) of
         Ret _ \<Rightarrow> go_return nodes
       | Panic s \<Rightarrow> go_panic s
       | Fatal s \<Rightarrow> go_fatal s
       | NoFuel \<Rightarrow> go_nofuel))"

definition link_from :: "nat \<Rightarrow> VersionMapping option \<Rightarrow> resource \<Rightarrow> (link_state, node list) go" where
  "link_from fuel mo serviceRoot =
     go_bind (copyResource serviceRoot) (\<lambda>root.
     go_bind (add_node (new_node root)) (\<lambda>a.
     go_bind (link_loop fuel mo [a] []) check_tree))"

definition linkDFS :: "nat \<Rightarrow> VersionMapping option \<Rightarrow> (string \<times> resource) list \<Rightarrow> (string \<times> resource) list \<Rightarrow> node list outcome" where
  "linkDFS fuel mo collections resources =
     fst (go_bind (if set (map fst collections) \<inter> set (map fst resources) \<noteq> {} then go_panic ''Size mismatch'' else check_templates) (\<lambda>_.
          case map_of resources ''ServiceRoot'' of
            None \<Rightarrow> go_panic ''Could not get service root''
          | Some serviceRoot \<Rightarrow> link_from fuel mo serviceRoot)
        \<lparr> ls_collections = collections, ls_resources = resources, ls_nodes = [] \<rparr>)"

section \<open>The linked structure is a tree\<close>

text \<open>The addresses a node refers to, and the forests: a node refers to later ones only, and no two nodes to the same.\<close>

definition targets :: "node \<Rightarrow> nat set" where
  "targets n = set_option (n_CollectionOf n) \<union> snd ` set (n_links n)"

definition own_links :: "node \<Rightarrow> bool" where
  "own_links n \<longleftrightarrow> (\<forall>x y b. map_of (n_links n) (AtProp x) = Some b \<longrightarrow> map_of (n_links n) (AtProp y) = Some b \<longrightarrow> x = y)"

definition forest :: "node list \<Rightarrow> bool" where
  "forest nodes \<longleftrightarrow>
     (\<forall>a < length nodes. own_links (nodes ! a) \<and> (\<forall>b \<in> targets (nodes ! a). a < b \<and> b < length nodes)) \<and>
     (\<forall>a < length nodes. \<forall>a' < length nodes. \<forall>b. b \<in> targets (nodes ! a) \<longrightarrow> b \<in> targets (nodes ! a') \<longrightarrow> a = a')"

lemma targets_new [simp]: "targets (new_node r) = {}" "own_links (new_node r)"
  by (simp_all add: targets_def own_links_def new_node_def)

lemma forestD:
  assumes "forest nodes" "a < length nodes"
  shows "own_links (nodes ! a)" "b \<in> targets (nodes ! a) \<Longrightarrow> a < b" "b \<in> targets (nodes ! a) \<Longrightarrow> b < length nodes"
    "b \<in> targets (nodes ! a) \<Longrightarrow> c < length nodes \<Longrightarrow> b \<in> targets (nodes ! c) \<Longrightarrow> c = a"
  using assms unfolding forest_def by blast+

lemma forestI:
  assumes "\<And>a. a < length nodes \<Longrightarrow> own_links (nodes ! a)"
    and "\<And>a b. a < length nodes \<Longrightarrow> b \<in> targets (nodes ! a) \<Longrightarrow> a < b \<and> b < length nodes"
    and "\<And>a c b. a < length nodes \<Longrightarrow> c < length nodes \<Longrightarrow> b \<in> targets (nodes ! a) \<Longrightarrow> b \<in> targets (nodes ! c) \<Longrightarrow> a = c"
  shows "forest nodes"
  using assms unfolding forest_def by blast

text \<open>Node \<open>a\<close> gets a link to a new node at the end of the heap.\<close>

lemma forest_link:
  assumes "forest nodes" "a < length nodes" "targets n' \<subseteq> insert (length nodes) (targets (nodes ! a))" "own_links n'"
  shows "forest ((nodes @ [new_node r])[a := n'])"
proof -
  let ?L = "length nodes" and ?M = "(nodes @ [new_node r])[a := n']"
  have node: "?M ! c = (if c = a then n' else if c < ?L then nodes ! c else new_node r)" if "c < Suc ?L" for c
    using that assms(2) by (auto simp: nth_list_update nth_append)
  have low: "b < ?L" if "b \<in> targets (nodes ! c)" "c < ?L" for b c using forestD(3) [OF assms(1) that(2,1)] .
  have target: "b = ?L \<and> c = a \<or> c < ?L \<and> b \<in> targets (nodes ! c)" if "c < Suc ?L" "b \<in> targets (?M ! c)" for b c
    using that node [OF that(1)] assms(2,3) by (auto split: if_splits)
  show ?thesis
  proof (rule forestI)
    fix c assume "c < length ?M"
    then show "own_links (?M ! c)" using node [of c] forestD(1) [OF assms(1)] assms(4) by auto
  next
    fix c b assume "c < length ?M" "b \<in> targets (?M ! c)"
    then show "c < b \<and> b < length ?M"
      using target [of c b] assms(2) forestD(2) [OF assms(1), of c b] low [of b c] by auto
  next
    fix c d b assume c: "c < length ?M" "d < length ?M" "b \<in> targets (?M ! c)" "b \<in> targets (?M ! d)"
    show "c = d"
    proof (cases "b = ?L")
      case True
      then show ?thesis using target [of c b] target [of d b] low [of b c] low [of b d] c by auto
    next
      case False
      then have "c < ?L" "b \<in> targets (nodes ! c)" "d < ?L" "b \<in> targets (nodes ! d)" using target [of c b] target [of d b] c by auto
      then show ?thesis using forestD(4) [OF assms(1)] by blast
    qed
  qed
qed


text \<open>
  From a forest that has the addresses \<open>K\<close>, \<open>m\<close> leads to a larger forest, which has the addresses
  \<open>A x\<close> when \<open>m\<close> returns \<open>x\<close>.
\<close>

definition linking :: "nat set \<Rightarrow> (link_state, 'a) go \<Rightarrow> ('a \<Rightarrow> nat set) \<Rightarrow> bool" where
  "linking K m A \<longleftrightarrow> (\<forall>ls r ls'. forest (ls_nodes ls) \<longrightarrow> K \<subseteq> {..<length (ls_nodes ls)} \<longrightarrow> m ls = (r, ls') \<longrightarrow>
     forest (ls_nodes ls') \<and> length (ls_nodes ls) \<le> length (ls_nodes ls') \<and>
     (\<forall>x. r = Ret x \<longrightarrow> A x \<subseteq> {..<length (ls_nodes ls')}))"

lemma linkingD:
  assumes "linking K m A" "forest (ls_nodes ls)" "K \<subseteq> {..<length (ls_nodes ls)}" "m ls = (r, ls')"
  shows "forest (ls_nodes ls')" "length (ls_nodes ls) \<le> length (ls_nodes ls')" "r = Ret x \<Longrightarrow> A x \<subseteq> {..<length (ls_nodes ls')}"
  using assms unfolding linking_def by blast+

lemma linking_basic [simp]:
  "A x \<subseteq> K \<Longrightarrow> linking K (go_return x) A" "linking K (go_panic e) A" "linking K go_nofuel A"
  "(\<And>ls. A (f ls) \<subseteq> K) \<Longrightarrow> linking K (gets f) A" "A x \<subseteq> K \<Longrightarrow> linking K (Pair (Ret x)) A" "linking K (Pair NoFuel) A"
  by (auto simp: linking_def)

lemma linking_mono: "linking K m A \<Longrightarrow> K \<subseteq> K' \<Longrightarrow> linking K' m A"
  unfolding linking_def by blast

lemma linking_bind:
  assumes "linking K m A" "\<And>x. linking (K \<union> A x) (f x) B"
  shows "linking K (go_bind m f) B"
  unfolding linking_def
proof (intro allI impI)
  fix ls r ls'
  assume F: "forest (ls_nodes ls)" and K: "K \<subseteq> {..<length (ls_nodes ls)}" and run: "go_bind m f ls = (r, ls')"
  obtain r1 ls1 where m: "m ls = (r1, ls1)" by fastforce
  note one = linkingD [OF assms(1) F K m]
  show "forest (ls_nodes ls') \<and> length (ls_nodes ls) \<le> length (ls_nodes ls') \<and> (\<forall>x. r = Ret x \<longrightarrow> B x \<subseteq> {..<length (ls_nodes ls')})"
  proof (cases r1)
    case (Ret x)
    have "K \<union> A x \<subseteq> {..<length (ls_nodes ls1)}" using K one(2) one(3) [OF Ret] by auto
    moreover have "f x ls1 = (r, ls')" using run m Ret by (simp add: go_bind_apply)
    ultimately show ?thesis using linkingD [OF assms(2) one(1), of x r ls'] one(2) by fastforce
  qed (use run m one in \<open>auto simp: go_bind_apply\<close>)
qed

lemma linking_state: "(\<And>ls. snd (m ls) = ls) \<Longrightarrow> (\<And>ls x. fst (m ls) = Ret x \<Longrightarrow> A x \<subseteq> K) \<Longrightarrow> linking K m A"
  unfolding linking_def by (metis fst_conv snd_conv order_refl subset_trans)

lemma linking_extract [simp]: "linking K (extractLinkedResourceType l) (\<lambda>_. {})"
  by (simp add: extractLinkedResourceType_def Let_def)

text \<open>An operation that puts one new node at the end of the heap and returns its address.\<close>

definition adds :: "(link_state, nat) go \<Rightarrow> bool" where
  "adds m \<longleftrightarrow> (\<forall>ls. (\<exists>c ls'. m ls = (Ret (length (ls_nodes ls)), ls') \<and> ls_nodes ls' = ls_nodes ls @ [new_node c]) \<or>
     (\<exists>e ls'. m ls = (Panic e, ls') \<and> ls_nodes ls' = ls_nodes ls))"

lemma adds_add_node: "adds (add_node (new_node c))"
  by (auto simp: adds_def add_node_def go_bind_apply)

lemma adds_instantiate: "adds (instantiate name r)"
  unfolding adds_def
proof
  fix ls
  let ?ls = "bump_template name ls"
  have n: "ls_nodes ?ls = ls_nodes ls" by (simp add: bump_template_def)
  show "(\<exists>c ls'. instantiate name r ls = (Ret (length (ls_nodes ls)), ls') \<and> ls_nodes ls' = ls_nodes ls @ [new_node c]) \<or>
     (\<exists>e ls'. instantiate name r ls = (Panic e, ls') \<and> ls_nodes ls' = ls_nodes ls)"
    using copyResource_cases [of "bump r" ?ls] n by (auto simp: instantiate_def add_node_def go_bind_apply)
qed

lemma linking_new:
  assumes "adds m" "a \<in> K" "\<And>l n. targets (f l n) \<subseteq> insert l (targets n)"
    and "\<And>l n. l \<notin> targets n \<Longrightarrow> own_links n \<Longrightarrow> own_links (f l n)" "\<And>l. A (g l) \<subseteq> {l}"
  shows "linking K (go_bind m (\<lambda>l. go_bind (update_node a (f l)) (\<lambda>_. go_return (g l)))) A"
  unfolding linking_def
proof (intro allI impI)
  fix ls r ls'
  assume F: "forest (ls_nodes ls)" and K: "K \<subseteq> {..<length (ls_nodes ls)}"
    and run: "go_bind m (\<lambda>l. go_bind (update_node a (f l)) (\<lambda>_. go_return (g l))) ls = (r, ls')"
  let ?N = "ls_nodes ls" and ?l = "length (ls_nodes ls)"
  have a: "a < ?l" using K assms(2) by auto
  consider c ls1 where "m ls = (Ret ?l, ls1)" "ls_nodes ls1 = ?N @ [new_node c]" | e ls1 where "m ls = (Panic e, ls1)" "ls_nodes ls1 = ?N"
    using assms(1) unfolding adds_def by blast
  then show "forest (ls_nodes ls') \<and> ?l \<le> length (ls_nodes ls') \<and> (\<forall>x. r = Ret x \<longrightarrow> A x \<subseteq> {..<length (ls_nodes ls')})"
  proof cases
    case 1
    have "?l \<notin> targets (?N ! a)" using forestD(3) [OF F a] by blast
    then have "forest ((?N @ [new_node c])[a := f ?l (?N ! a)])"
      by (intro forest_link [OF F a assms(3)] assms(4) forestD(1) [OF F a])
    moreover have "ls_nodes ls' = (?N @ [new_node c])[a := f ?l (?N ! a)]" "r = Ret (g ?l)"
      using run 1 a by (auto simp: go_bind_apply update_node_def nth_append)
    ultimately show ?thesis using assms(5) [of ?l] by auto
  next
    case 2
    then show ?thesis using run F by (auto simp: go_bind_apply)
  qed
qed


lemma update_links: "snd ` set (AList.update s l links) \<subseteq> insert l (snd ` set links)"
  by (induction links) auto

lemma targets_set_link: "targets (set_link s l n) \<subseteq> insert l (targets n)"
  using update_links [of s l "n_links n"] by (auto simp: targets_def set_link_def)

lemma targets_put: "targets (put_property name p l (set_link s l n)) \<subseteq> insert l (targets n)"
proof -
  have "targets (put_property name p l m) \<subseteq> insert l (targets m)" for m
    using update_links [of "AtProp name" l "n_links m"] by (auto simp: targets_def put_property_def set_link_def)
  then show ?thesis using targets_set_link [of s l n] by blast
qed

lemma link_target: "map_of (n_links n) s = Some b \<Longrightarrow> b \<in> targets n"
  by (force dest: map_of_SomeD simp: targets_def)

lemma own_set_link: "l \<notin> targets n \<Longrightarrow> own_links n \<Longrightarrow> own_links (set_link s l n)"
  using link_target [of n] by (auto simp: own_links_def set_link_def update_conv')

lemma own_put:
  assumes "l \<notin> targets n" "own_links n" "s = AtProp name \<or> (\<forall>x. s \<noteq> AtProp x)"
  shows "own_links (put_property name p l (set_link s l n))"
  using link_target [of n] assms by (auto simp: own_links_def put_property_def set_link_def update_conv')

lemmas linking_intros = linking_bind linking_new adds_instantiate adds_add_node

lemma linking_nav:
  assumes "a \<in> K" "s = AtProp name \<or> (\<forall>x. s \<noteq> AtProp x)"
  shows "linking K (linkNavProperty mo a name s p) (\<lambda>l. {l})"
proof -
  have link: "linking K (go_bind (instantiate t r) (\<lambda>l. go_bind (update_node a (put_property name p l \<circ> set_link s l)) (\<lambda>_. go_return l))) (\<lambda>l. {l})" for t r
    by (rule linking_new [OF adds_instantiate assms(1)]) (use targets_put own_put assms(2) in \<open>auto simp: subset_iff\<close>)
  have cyc: "linking K (go_bind (add_node (new_node c)) (\<lambda>l. go_bind (update_node a (set_link s l)) (\<lambda>_. go_return l))) (\<lambda>l. {l})" for c
    by (rule linking_new [OF adds_add_node assms(1)]) (use targets_set_link own_set_link in auto)
  show ?thesis unfolding linkNavProperty_def
    by (rule linking_bind [OF linking_extract])
      (auto simp: Let_def link cyc intro!: linking_bind [where A = "\<lambda>_. {}"] split: option.split)
qed

lemma linking_children: "a \<in> K \<Longrightarrow> linking K (link_children mo a name p ps) set"
proof (induction ps arbitrary: K)
  case (Cons c ps)
  obtain n q where c: "c = (n, q)" by fastforce
  have nav: "linking K (linkNavProperty mo a n (AtChild name n) q) (\<lambda>l. {l})" by (rule linking_nav [OF Cons.prems]) simp
  have "linking K (go_bind (linkNavProperty mo a n (AtChild name n) q) (\<lambda>link. go_bind (link_children mo a name p ps) (\<lambda>links. go_return (link # links)))) set"
    by (rule linking_bind [OF nav], rule linking_bind [OF Cons.IH]) (use Cons.prems in \<open>auto intro!: linking_basic(1)\<close>)
  then show ?case using Cons c by (auto simp: Let_def)
qed simp

lemma linking_array:
  assumes "a \<in> K"
  shows "linking K (link_array a name e) set"
proof -
  have link: "linking K (go_bind (instantiate t r) (\<lambda>l. go_bind (update_node a (set_link (AtElem name) l)) (\<lambda>_. go_return [l]))) set" for t r
    by (rule linking_new [OF adds_instantiate assms]) (use targets_set_link own_set_link in auto)
  show ?thesis unfolding link_array_def
    by (rule linking_bind [OF linking_extract])
      (auto simp: link intro!: linking_bind [where A = "\<lambda>_. {}"] split: option.split)
qed

lemma linking_property:
  assumes "a \<in> K"
  shows "linking K (link_property mo a name) set"
proof -
  have "linking K (go_bind (linkNavProperty mo a name (AtProp name) p) (\<lambda>link. go_return [link])) set" for p
    by (rule linking_bind [OF linking_nav [OF assms]]) auto
  then show ?thesis unfolding link_property_def
    by (auto simp: linking_children [OF assms] linking_array [OF assms] intro!: linking_bind [where A = "\<lambda>_. {}"] split: option.split)
qed

lemma linking_properties: "a \<in> K \<Longrightarrow> linking K (link_properties mo a names) set"
proof (induction names arbitrary: K)
  case (Cons name names)
  show ?case unfolding link_properties.simps
    by (rule linking_bind [OF linking_property [OF Cons.prems]], rule linking_bind [OF Cons.IH]) (use Cons.prems in \<open>auto intro!: linking_basic(1)\<close>)
qed simp

lemma linking_resource:
  assumes "a \<in> K"
  shows "linking K (link_resource mo a) set"
proof -
  have "linking K (go_bind (instantiate t r) (\<lambda>l. go_bind (update_node a (\<lambda>n. n\<lparr>n_CollectionOf := Some l\<rparr>)) (\<lambda>_. go_return [l]))) set" for t r
    by (rule linking_new [OF adds_instantiate assms]) (auto simp: targets_def own_links_def)
  then have "linking K (link_collection a name) set" for name
    unfolding link_collection_def Let_def by (auto intro!: linking_bind [where A = "\<lambda>_. {}"] split: option.split)
  then show ?thesis unfolding link_resource_def
    by (auto simp: linking_properties [OF assms] intro!: linking_bind [where A = "\<lambda>_. {}"])
qed

lemma checkNilLinks_same: "snd (checkNilLinks ps w) = w"
  by (induction ps) auto

lemma go_each_same: "(\<And>x w. snd (f x w) = w) \<Longrightarrow> snd (go_each f xs w) = w"
proof (induction xs arbitrary: w)
  case (Cons x xs)
  then show ?case using Cons.prems [of x w] by (cases "f x w") (auto simp: go_bind_apply split: outcome.split)
qed simp

lemma linking_check: "linking K check_templates (\<lambda>_. {})"
  unfolding check_templates_def
  by (rule linking_bind [where A = "\<lambda>_. {}"]) (auto intro!: linking_state go_each_same checkNilLinks_same)

lemma linking_loop: "linking (set stack) (link_loop fuel mo stack visited) (\<lambda>_. {})"
proof (induction fuel mo stack visited rule: link_loop.induct)
  case (3 fuel mo a stack visited)
  have visit: "linking (insert a (set stack)) (go_bind (link_resource mo a) (\<lambda>links. link_loop fuel mo (rev links @ stack) (a # visited))) (\<lambda>_. {})"
    if "a \<notin> set visited"
  proof (rule linking_bind [OF linking_resource])
    fix links
    show "linking (insert a (set stack) \<union> set links) (link_loop fuel mo (rev links @ stack) (a # visited)) (\<lambda>_. {})"
      by (rule linking_mono [OF 3(2) [OF that]]) auto
  qed simp
  show ?case unfolding link_loop.simps
  proof (rule linking_bind [OF linking_check])
    fix x :: unit
    show "linking (set (a # stack) \<union> {}) (if a \<in> set visited then link_loop fuel mo stack visited
        else go_bind (link_resource mo a) (\<lambda>links. link_loop fuel mo (rev links @ stack) (a # visited))) (\<lambda>_. {})"
      using visit linking_mono [OF 3(1)] by auto
  qed
qed simp_all

lemma go_bind_RetD: "fst (go_bind m f w) = Ret r \<Longrightarrow> \<exists>a w1. m w = (Ret a, w1) \<and> fst (f a w1) = Ret r"
  by (auto simp: go_bind_apply split: prod.splits outcome.splits)

lemma check_templates_same: "snd (check_templates ls) = ls"
  by (simp add: check_templates_def go_bind_apply go_each_same checkNilLinks_same)

lemma check_node_links_same: "snd (check_node_links n ps w) = w"
  by (induction ps) auto

lemma checkLinks_same: "snd (checkLinks visited ls) = ls"
  by (simp add: checkLinks_def go_bind_apply go_each_same check_node_links_same)

text \<open>What \<open>linkDFS\<close> returns are the nodes with which its loop ends, and they pass the checks.\<close>

lemma linkDFS_Ret:
  assumes "linkDFS fuel mo collections resources = Ret nodes"
  obtains root c visited ls where "map_of resources ''ServiceRoot'' = Some root"
    "link_loop fuel mo [0] [] \<lparr> ls_collections = collections, ls_resources = resources, ls_nodes = [new_node c] \<rparr> = (Ret visited, ls)"
    "ls_nodes ls = nodes" "fst (checkLinks visited ls) = Ret ()"
    "fst (consistencyCheck nodes (\<lambda>a. r_ReferenceCount (r_info (n_res (nodes ! a))))) = Ret ()"
proof -
  let ?ls = "\<lparr> ls_collections = collections, ls_resources = resources, ls_nodes = [] \<rparr>"
  have check: "(if X then go_panic e else check_templates) ?ls = (Ret u, ls1) \<Longrightarrow> ls1 = ?ls" for X e u ls1
    using check_templates_same [of ?ls] by (auto split: if_splits)
  obtain root where root: "map_of resources ''ServiceRoot'' = Some root"
    using assms by (cases "map_of resources ''ServiceRoot''") (auto simp: linkDFS_def dest!: go_bind_RetD)
  have "fst (link_from fuel mo root ?ls) = Ret nodes"
    using assms check unfolding linkDFS_def root option.case by (blast dest: go_bind_RetD)
  then obtain c ls1 where c: "copyResource root ?ls = (Ret c, ls1)"
    "fst (go_bind (add_node (new_node c)) (\<lambda>a. go_bind (link_loop fuel mo [a] []) check_tree) ls1) = Ret nodes"
    unfolding link_from_def by (blast dest: go_bind_RetD)
  have "ls1 = ?ls" using c(1) copyResource_cases [of root ?ls] by auto
  then have "fst (go_bind (link_loop fuel mo [0] []) check_tree (?ls\<lparr>ls_nodes := [new_node c]\<rparr>)) = Ret nodes"
    using c(2) by (simp add: add_node_def go_bind_apply)
  then obtain visited ls where loop: "link_loop fuel mo [0] [] (?ls\<lparr>ls_nodes := [new_node c]\<rparr>) = (Ret visited, ls)" "fst (check_tree visited ls) = Ret nodes"
    by (blast dest: go_bind_RetD)
  have "fst (checkLinks visited ls) = Ret () \<and> ls_nodes ls = nodes \<and>
      fst (consistencyCheck nodes (\<lambda>a. r_ReferenceCount (r_info (n_res (nodes ! a))))) = Ret ()"
    using loop(2) checkLinks_same [of visited ls] unfolding check_tree_def
    by (cases "checkLinks visited ls") (auto simp: go_bind_apply split: outcome.splits)
  then show ?thesis using that root loop(1) by auto
qed

section \<open>Properties\<close>

text \<open>
  C14. Linking yields a tree: when \<open>linkDFS\<close> returns, every resource refers to later ones only and no
  resource is referred to from two others, whatever the schema; so the links form no cycle, the root
  has no parent, and every other resource has at most one.
\<close>

theorem linkDFS_forest:
  assumes "linkDFS fuel mo collections resources = Ret nodes"
  shows "nodes \<noteq> [] \<and>
    (\<forall>a < length nodes. \<forall>b \<in> targets (nodes ! a). a < b \<and> b < length nodes) \<and>
    (\<forall>a < length nodes. \<forall>c < length nodes. targets (nodes ! a) \<inter> targets (nodes ! c) \<noteq> {} \<longrightarrow> a = c)"
proof -
  obtain c visited ls where loop: "link_loop fuel mo [0] []
      \<lparr> ls_collections = collections, ls_resources = resources, ls_nodes = [new_node c] \<rparr> = (Ret visited, ls)" "ls_nodes ls = nodes"
    using linkDFS_Ret [OF assms] by metis
  have "forest [new_node c]" by (rule forestI) auto
  then have "forest (ls_nodes ls)" "length [new_node c] \<le> length (ls_nodes ls)"
    using linkingD(1,2) [OF linking_loop _ _ loop(1)] by auto
  then show ?thesis unfolding loop(2) by (auto dest: forestD)
qed


definition ex_mapping :: VersionMapping where
  "ex_mapping = \<lparr> vm_Version = Version2018_1, vm_Resources = [], vm_Objects = [], AllowedCollections = [], KnownCycles = [] \<rparr>"

definition ex_link :: "string \<Rightarrow> property" where
  "ex_link ref = Property (prop_zero\<lparr>p_Type := PropLink, p_IsNavLink := True, p_linkRef := ref\<rparr>) [] None None [] None None"

definition ex_collections :: "(string \<times> resource) list" where
  "ex_collections = [(''ACollection'', Resource (res_zero\<lparr>r_Name := ''ACollection'', r_IsCollection := True\<rparr>) None [])]"

definition ex_resources :: "(string \<times> resource) list" where
  "ex_resources =
     [(''ServiceRoot'', Resource (res_zero\<lparr>r_Name := ''ServiceRoot''\<rparr>) None [(''A'', ex_link ''#/definitions/ACollection'')]),
      (''A'', Resource (res_zero\<lparr>r_Name := ''A''\<rparr>) None [])]"

theorem linkDFS_forest_witness:
  "\<exists>nodes. linkDFS 3 (Some ex_mapping) ex_collections ex_resources = Ret nodes \<and> length nodes = 3 \<and>
     targets (nodes ! 0) \<inter> targets (nodes ! 1) = {}"
proof -
  have "case linkDFS 3 (Some ex_mapping) ex_collections ex_resources of Ret nodes \<Rightarrow> length nodes = 3 | _ \<Rightarrow> False" by code_simp
  then obtain nodes where n: "linkDFS 3 (Some ex_mapping) ex_collections ex_resources = Ret nodes" "length nodes = 3"
    by (auto split: outcome.splits)
  have "targets (nodes ! 0) \<inter> targets (nodes ! 1) = {}"
  proof (rule ccontr)
    assume "targets (nodes ! 0) \<inter> targets (nodes ! 1) \<noteq> {}"
    then have "(0::nat) = 1"
      by (rule linkDFS_forest [OF n(1), THEN conjunct2, THEN conjunct2, rule_format, rotated 2]) (simp_all add: n(2))
    then show False by simp
  qed
  then show ?thesis using n by (intro exI [of _ nodes] conjI)
qed

end
