(* ===== verification/Schema_Load.thy ===== *)
theory Schema_Load
  imports Schema_Parsed Schema_Tree
begin

text \<open>
  Creating the schema tree (\<open>CreateTree\<close> of \<open>internal/rfschema/tree.go\<close>): loading the pool, parsing
  every schema of the release, turning arrays of members into embedded collections, marking
  navigation properties and linking. An embedded resource shares its properties with the array it
  was made from; \<open>reshare\<close> carries what the later stages change in them back to the array.
\<close>

section \<open>The stages\<close>

definition parse_schema :: "VersionMapper \<Rightarrow> SchemaPool \<Rightarrow> nat \<Rightarrow> VersionMapping \<Rightarrow> string \<times> Schema \<Rightarrow>
    (string \<times> resource) list \<times> (string \<times> resource) list \<Rightarrow> ('w, (string \<times> resource) list \<times> (string \<times> resource) list) go" where
  "parse_schema vm pool n versionMapping = (\<lambda>(_, schema) (collections, resources).
     if Schema_IsCollection schema then
       (if map_of (AllowedCollections versionMapping) (sc_FileName schema) \<noteq> Some True then go_return (collections, resources)
        else go_bind (ParseCollection vm pool n schema) (\<lambda>(collection, name).
          go_return (AList.update name collection collections, resources)))
     else if IsResource schema then
       (if map_of (vm_Resources versionMapping) (sc_FileName schema) = None then go_return (collections, resources)
        else go_bind (ParseResource vm pool n schema) (\<lambda>(resource, name).
          go_return (collections, AList.update name resource resources)))
     else go_return (collections, resources))"

definition parseSchemas :: "VersionMapper \<Rightarrow> SchemaPool \<Rightarrow> nat \<Rightarrow> Version \<Rightarrow> ('w, (string \<times> resource) list \<times> (string \<times> resource) list) go" where
  "parseSchemas vm pool n version = (case GetVersionMapping vm version of
      None \<Rightarrow> go_panic (Version_String version @ '' does not exist'')
    | Some versionMapping \<Rightarrow> go_loop (parse_schema vm pool n versionMapping) (sp_Pool pool) ([], []))"

text \<open>The resource and the collection made from the array property of a resource, and the property after it.\<close>

definition convertArrayToCollection :: "res_info \<Rightarrow> property \<Rightarrow> property \<Rightarrow> ('w, resource \<times> resource \<times> property) go" where
  "convertArrayToCollection parent property arrayOf =
     (let i = p_info property in
      case p_arrayRefString i of
        None \<Rightarrow> go_panic ''Array does not have reference string''
      | Some refString \<Rightarrow>
          go_bind (extractLinkedResourceType refString) (\<lambda>resourceType.
          go_bind (case p_AdditionalProperties i of
                None \<Rightarrow> go_return False
              | Some _ \<Rightarrow> (case p_AdditionalProperties (p_info arrayOf) of None \<Rightarrow> nil_deref | Some b \<Rightarrow> go_return b)) (\<lambda>additional.
            let resource = Resource (res_zero\<lparr> r_Name := resourceType, r_ODataContext := r_ODataContext parent,
                    r_ODataType := ''#'' @ r_Name parent @ ''.'' @ r_VersionString parent @ ''.'' @ resourceType,
                    r_AdditionalProperties := additional, r_PatternProperties := p_PatternProperties i \<rparr>)
                  None (p_Properties arrayOf);
                collection = Resource (res_zero\<lparr> r_Name := resourceType @ ''Collection'', r_IsCollection := True,
                    r_EmbeddedCollection := True \<rparr>) None [];
                property' = with_info (\<lambda>j. j\<lparr> p_Type := PropLink, p_LinkAutoExpand := True, p_IsNavLink := True,
                    p_linkRef := ''#/definitions/'' @ resourceType @ ''Collection'' \<rparr>) property
            in go_return (collection, resource, property'))))"

text \<open>What the detection has found so far: collections, resources, and where each resource came from.\<close>

record embedded =
  e_collections :: "(string \<times> resource) list"
  e_resources :: "(string \<times> resource) list"
  e_origins :: "(string \<times> string \<times> string) list"

fun embed_props :: "string \<Rightarrow> res_info \<Rightarrow> properties \<Rightarrow> embedded \<Rightarrow> ('w, properties \<times> embedded) go" where
  "embed_props key parent [] e = go_return ([], e)"
| "embed_props key parent ((name, property) # rest) e =
     go_bind (if pType property = PropArray then
         (case p_ArrayOf property of
            None \<Rightarrow> nil_deref
          | Some arrayOf \<Rightarrow>
              if map_of (p_Properties arrayOf) ''MemberId'' \<noteq> None then
                go_bind (convertArrayToCollection parent property arrayOf) (\<lambda>(collection, resource, property').
                  go_return (property', e\<lparr> e_collections := AList.update (r_Name (r_info collection)) collection (e_collections e),
                    e_resources := AList.update (r_Name (r_info resource)) resource (e_resources e),
                    e_origins := e_origins e @ [(key, name, r_Name (r_info resource))] \<rparr>))
              else go_return (property, e))
        else go_return (property, e)) (\<lambda>(p, e').
     go_bind (embed_props key parent rest e') (\<lambda>(ps, e''). go_return ((name, p) # ps, e'')))"

text \<open>The resources after the detection, and what it found.\<close>

fun detectEmbeddedCollections :: "(string \<times> resource) list \<Rightarrow> embedded \<Rightarrow> ('w, (string \<times> resource) list \<times> embedded) go" where
  "detectEmbeddedCollections [] e = go_return ([], e)"
| "detectEmbeddedCollections ((key, r) # rest) e =
     go_bind (embed_props key (r_info r) (r_Properties r) e) (\<lambda>(ps, e').
     go_bind (detectEmbeddedCollections rest e') (\<lambda>(rs, e'').
       go_return ((key, Resource (r_info r) (r_CollectionOf r) ps) # rs, e'')))"

definition add_all :: "(string \<times> 'a) list \<Rightarrow> (string \<times> 'a) list \<Rightarrow> (string \<times> 'a) list" where
  "add_all new = fold (\<lambda>(k, v). AList.update k v) new"

text \<open>The array shares its properties with the resource that was made from it last under its name.\<close>

fun shared_with :: "(string \<times> string \<times> string) list \<Rightarrow> string list \<Rightarrow> string \<Rightarrow> string \<Rightarrow> string option" where
  "shared_with [] replaced key name = None"
| "shared_with ((k, n, r) # origins) replaced key name =
     (if k = key \<and> n = name \<and> \<not> List.member (map (snd \<circ> snd) origins) r \<and> \<not> List.member replaced key then Some r
      else shared_with origins replaced key name)"

definition share_array :: "properties \<Rightarrow> property \<Rightarrow> property" where
  "share_array ps p = Property (p_info p) (p_Properties p)
     (map_option (\<lambda>a. Property (p_info a) ps (p_ArrayOf a) (p_Link a) (p_Parameters a) (p_Target a) (p_Title a)) (p_ArrayOf p))
     (p_Link p) (p_Parameters p) (p_Target p) (p_Title p)"

definition reshare :: "embedded \<Rightarrow> (string \<times> resource) list \<Rightarrow> (string \<times> resource) list" where
  "reshare e resources = map (\<lambda>(key, r). (key, Resource (r_info r) (r_CollectionOf r)
     (map (\<lambda>(name, p). (name,
        case shared_with (e_origins e) (map fst (e_resources e)) key name of
          None \<Rightarrow> p
        | Some rn \<Rightarrow> (case map_of resources rn of None \<Rightarrow> p | Some r' \<Rightarrow> share_array (r_Properties r') p)))
      (r_Properties r)))) resources"

text \<open>Stages 1 and 2 up to linking: the collections and resources that linking copies.\<close>

definition prepare :: "VersionMapper \<Rightarrow> SchemaPool \<Rightarrow> nat \<Rightarrow> Version \<Rightarrow> ('w, (string \<times> resource) list \<times> (string \<times> resource) list) go" where
  "prepare vm pool n version =
     go_bind (parseSchemas vm pool n version) (\<lambda>(collections, resources).
     go_bind (detectEmbeddedCollections resources \<lparr> e_collections = [], e_resources = [], e_origins = [] \<rparr>) (\<lambda>(resources', e).
     go_bind (detectNavigationArrays (detectNavigationLinks (add_all (e_resources e) resources'))) (\<lambda>rs.
       go_return (add_all (e_collections e) collections, reshare e rs))))"

definition CreateTree :: "schema_files \<Rightarrow> VersionMapper \<Rightarrow> nat \<Rightarrow> nat \<Rightarrow> Config \<Rightarrow> Version \<Rightarrow> ('w, go_error + node list) go" where
  "CreateTree fs vm n fuel config version =
     go_bind (SchemaPool_ReadDir fs (SchemaDir config) (NewSchemaPool version)) (\<lambda>(pool, err). case err of
         Some e \<Rightarrow> go_return (Inl e)
       | None \<Rightarrow>
           go_bind (if OemMappings config \<noteq> [] then AddOemExtensions fs (OemMappings config) (OemExtensionDir config) pool
                    else go_return (pool, None)) (\<lambda>(pool', err'). case err' of
               Some e \<Rightarrow> go_return (Inl e)
             | None \<Rightarrow>
                 go_bind (prepare vm pool' n version) (\<lambda>(collections, resources).
                   case linkDFS fuel (GetVersionMapping vm version) collections resources of
                     Ret nodes \<Rightarrow> go_return (Inr nodes)
                   | Panic s \<Rightarrow> go_panic s
                   | Fatal s \<Rightarrow> go_fatal s
                   | NoFuel \<Rightarrow> go_nofuel)))"

section \<open>What is handed to linking is not linked\<close>

definition all_unlinked :: "properties \<Rightarrow> bool" where
  "all_unlinked ps \<longleftrightarrow> (\<forall>(n, p) \<in> set ps. unlinked p)"

definition res_unlinked :: "(string \<times> resource) list \<Rightarrow> bool" where
  "res_unlinked rs \<longleftrightarrow> (\<forall>(n, r) \<in> set rs. unlinked_resource r)"

lemma unlinked_iff:
  "unlinked p \<longleftrightarrow> p_Link p = None \<and> all_unlinked (p_Properties p) \<and> all_unlinked (p_Parameters p) \<and>
     (\<forall>q \<in> set_option (p_ArrayOf p). unlinked q) \<and> (\<forall>q \<in> set_option (p_Target p). unlinked q) \<and> (\<forall>q \<in> set_option (p_Title p). unlinked q)"
  by (cases p) (simp add: all_unlinked_def)

lemma unlinked_Property [simp]:
  "unlinked (Property i props arr link params target title) \<longleftrightarrow> link = None \<and> all_unlinked props \<and> all_unlinked params \<and>
     (\<forall>q \<in> set_option arr. unlinked q) \<and> (\<forall>q \<in> set_option target. unlinked q) \<and> (\<forall>q \<in> set_option title. unlinked q)"
  by (simp add: all_unlinked_def)

declare unlinked.simps [simp del]

lemma unlinked_resource_iff: "unlinked_resource (Resource i c ps) \<longleftrightarrow> c = None \<and> all_unlinked ps"
  by (simp add: unlinked_resource_def all_unlinked_def)

lemma all_unlinked_simps [simp]:
  "all_unlinked []" "all_unlinked ((n, p) # ps) \<longleftrightarrow> unlinked p \<and> all_unlinked ps"
  by (simp_all add: all_unlinked_def)

lemma res_unlinked_simps [simp]:
  "res_unlinked []" "res_unlinked ((n, r) # rs) \<longleftrightarrow> unlinked_resource r \<and> res_unlinked rs"
  by (simp_all add: res_unlinked_def)

lemma res_unlinked_update: "res_unlinked rs \<Longrightarrow> unlinked_resource r \<Longrightarrow> res_unlinked (AList.update n r rs)"
  using set_update_sub [of n r rs] by (auto simp: res_unlinked_def)

lemma res_unlinked_add_all: "res_unlinked new \<Longrightarrow> res_unlinked rs \<Longrightarrow> res_unlinked (add_all new rs)"
  unfolding add_all_def by (induction new arbitrary: rs) (auto simp: res_unlinked_update)

lemma all_parsed_unlinked: "all_parsed ps \<Longrightarrow> all_unlinked ps"
  by (auto simp: all_parsed_def all_unlinked_def intro: parsed_unlinked)

lemma res_parsed_unlinked: "res_parsed x \<Longrightarrow> unlinked_resource (fst x)"
  by (cases x; cases "fst x") (simp add: res_parsed_def unlinked_resource_iff all_parsed_unlinked)

lemma parses_parse_schema:
  "(\<lambda>(cs, rs). res_unlinked cs \<and> res_unlinked rs) acc \<Longrightarrow>
   parses (parse_schema vm pool n vmap x acc) (\<lambda>(cs, rs). res_unlinked cs \<and> res_unlinked rs)"
  unfolding parse_schema_def
  by (auto intro!: parses_bind [OF parses_collection] parses_bind [OF parses_resource] res_unlinked_update split: prod.split
      dest!: res_parsed_unlinked)

lemma parses_parseSchemas: "parses (parseSchemas vm pool n version) (\<lambda>(cs, rs). res_unlinked cs \<and> res_unlinked rs)"
proof (cases "GetVersionMapping vm version")
  case (Some vmap)
  then show ?thesis unfolding parseSchemas_def
    by simp (rule parses_loop, erule parses_parse_schema, simp)
qed (simp add: parseSchemas_def)

definition e_unlinked :: "embedded \<Rightarrow> bool" where
  "e_unlinked e \<longleftrightarrow> res_unlinked (e_collections e) \<and> res_unlinked (e_resources e)"

lemma silent_type [simp]: "silent (extractLinkedResourceType r)"
  by (simp add: extractLinkedResourceType_def Let_def split: option.split)

lemma parses_convert:
  assumes "unlinked p" "unlinked a"
  shows "parses (convertArrayToCollection i p a) (\<lambda>(c, r, p'). unlinked_resource c \<and> unlinked_resource r \<and> unlinked p')"
  using assms unfolding convertArrayToCollection_def Let_def
  by (auto split: option.split intro!: silent_bind [OF silent_type] silent_bind
      simp: unlinked_resource_iff unlinked_iff [of p] unlinked_iff [of a] with_info_def)

lemma parses_embed_props:
  "all_unlinked ps \<Longrightarrow> e_unlinked e \<Longrightarrow> parses (embed_props key i ps e) (\<lambda>(ps', e'). all_unlinked ps' \<and> e_unlinked e')"
proof (induction ps arbitrary: e)
  case (Cons x ps)
  obtain name p where x: "x = (name, p)" by fastforce
  have p: "unlinked p" "all_unlinked ps" using Cons.prems x by auto
  have "parses (if pType p = PropArray then
         (case p_ArrayOf p of
            None \<Rightarrow> nil_deref
          | Some arrayOf \<Rightarrow>
              if map_of (p_Properties arrayOf) ''MemberId'' \<noteq> None then
                go_bind (convertArrayToCollection i p arrayOf) (\<lambda>(collection, resource, property').
                  go_return (property', e\<lparr> e_collections := AList.update (r_Name (r_info collection)) collection (e_collections e),
                    e_resources := AList.update (r_Name (r_info resource)) resource (e_resources e),
                    e_origins := e_origins e @ [(key, name, r_Name (r_info resource))] \<rparr>))
              else go_return (p, e))
        else go_return (p, e)) (\<lambda>(p', e'). unlinked p' \<and> e_unlinked e')"
    using p(1) Cons.prems(2) unlinked_iff [of p]
    by (auto split: option.split intro!: parses_bind [OF parses_convert] res_unlinked_update simp: e_unlinked_def)
  then show ?case unfolding x embed_props.simps
    by (rule parses_bind) (auto intro!: parses_bind [OF Cons.IH] p(2))
qed simp

lemma parses_embed:
  "res_unlinked rs \<Longrightarrow> e_unlinked e \<Longrightarrow> parses (detectEmbeddedCollections rs e) (\<lambda>(rs', e'). res_unlinked rs' \<and> e_unlinked e')"
proof (induction rs arbitrary: e)
  case (Cons x rs)
  obtain key r where x: "x = (key, r)" by fastforce
  have r: "r_CollectionOf r = None" "all_unlinked (r_Properties r)" "res_unlinked rs"
    using Cons.prems x by (cases r; simp add: unlinked_resource_iff)+
  show ?case unfolding x detectEmbeddedCollections.simps
    by (rule parses_bind [OF parses_embed_props [OF r(2) Cons.prems(2)]])
      (auto intro!: parses_bind [OF Cons.IH] r(3) simp: unlinked_resource_iff r(1))
qed simp

lemma unlinked_set_nav [simp]: "unlinked (set_nav_link p) \<longleftrightarrow> unlinked p" "unlinked (set_nav_array p) \<longleftrightarrow> unlinked p"
  by (simp_all add: unlinked_iff [of p] set_nav_link_def set_nav_array_def)

lemma unlinked_nav_link: "unlinked p \<Longrightarrow> unlinked (nav_link_property n p)"
  unfolding nav_link_property_def
  by (auto simp: unlinked_iff [of p] all_unlinked_def)

lemma res_unlinked_nav_links: "res_unlinked rs \<Longrightarrow> res_unlinked (detectNavigationLinks rs)"
  by (fastforce simp: res_unlinked_def detectNavigationLinks_def unlinked_resource_def intro: unlinked_nav_link)

lemma parses_nav_props: "all_unlinked ps \<Longrightarrow> parses (nav_array_props ps) all_unlinked"
proof (induction ps)
  case (Cons x ps)
  obtain name p where x: "x = (name, p)" by fastforce
  have "parses (if pType p = PropArray then (case p_ArrayOf p of None \<Rightarrow> go_panic ''nil pointer dereference''
      | Some e \<Rightarrow> go_return (if pType e = PropLink \<and> p_linkRef (p_info e) \<noteq> [] then set_nav_array p else p)) else go_return p) unlinked"
    using Cons.prems x by (auto split: option.split)
  then show ?case unfolding x nav_array_props.simps
    by (rule parses_bind) (use Cons x in \<open>auto intro!: parses_bind [OF Cons.IH]\<close>)
qed simp

lemma parses_nav_arrays: "res_unlinked rs \<Longrightarrow> parses (detectNavigationArrays rs) res_unlinked"
proof (induction rs)
  case (Cons x rs)
  obtain key r where x: "x = (key, r)" by fastforce
  have r: "r_CollectionOf r = None" "all_unlinked (r_Properties r)"
    using Cons.prems x by (cases r; simp add: unlinked_resource_iff)+
  have "parses (if r_Name (r_info r) = ''ResourceBlock'' then go_return r
      else go_bind (nav_array_props (r_Properties r)) (\<lambda>ps. go_return (Resource (r_info r) (r_CollectionOf r) ps))) unlinked_resource"
    using Cons.prems x r by (auto intro!: parses_bind [OF parses_nav_props] simp: unlinked_resource_iff)
  then show ?case unfolding x detectNavigationArrays.simps
    by (rule parses_bind) (use Cons x in \<open>auto intro!: parses_bind [OF Cons.IH]\<close>)
qed simp

lemma unlinked_share: "all_unlinked ps \<Longrightarrow> unlinked p \<Longrightarrow> unlinked (share_array ps p)"
proof (cases "p_ArrayOf p")
  case (Some a)
  assume "all_unlinked ps" "unlinked p"
  then show ?thesis using Some unlinked_iff [of p] unlinked_iff [of a]
    by (simp add: share_array_def)
qed (simp add: unlinked_iff [of p] share_array_def)

lemma res_unlinked_reshare:
  assumes "res_unlinked rs"
  shows "res_unlinked (reshare e rs)"
proof -
  have look: "all_unlinked (r_Properties r)" if "map_of rs k = Some r" for k r
    using assms that by (cases r) (auto simp: res_unlinked_def unlinked_resource_iff dest!: map_of_SomeD)
  have "unlinked (case shared_with os rp key name of None \<Rightarrow> p
      | Some rn \<Rightarrow> (case map_of rs rn of None \<Rightarrow> p | Some r' \<Rightarrow> share_array (r_Properties r') p))" if "unlinked p" for os rp key name p
    using that look by (auto split: option.split intro: unlinked_share)
  then show ?thesis using assms
    by (fastforce simp: res_unlinked_def reshare_def unlinked_resource_def)
qed

lemma parses_prepare: "parses (prepare vm pool n version) (\<lambda>(cs, rs). res_unlinked cs \<and> res_unlinked rs)"
proof -
  have "e_unlinked \<lparr> e_collections = [], e_resources = [], e_origins = [] \<rparr>" by (simp add: e_unlinked_def)
  then show ?thesis unfolding prepare_def
    by (auto intro!: parses_bind [OF parses_parseSchemas] parses_bind [OF parses_embed] parses_bind [OF parses_nav_arrays]
        res_unlinked_nav_links res_unlinked_add_all res_unlinked_reshare simp: e_unlinked_def)
qed

lemma unlinked_copies: "unlinked_resource r \<Longrightarrow> \<exists>c. copyResource r w = (Ret c, w)"
  by (cases r) (auto simp: unlinked_resource_def copyResource_def copy_props_apply go_bind_apply)

section \<open>An example\<close>

definition ex_rack_v1 :: Schema where
  "ex_rack_v1 = \<lparr> sc_FileName = ''Rack.v1_0_0.json'',
     sc_Body = [(''definitions'', GObj [(''Fan'', GObj [(''type'', GString ''object''),
       (''properties'', GObj [(''MemberId'', GObj [(''type'', GString ''string'')])])])])],
     sc_TopLevel = Some [(''properties'', GObj [(''Fans'', GObj [(''type'', GString ''array''),
         (''items'', GObj [(''$ref'', GString ''#/definitions/Fan'')])])]),
       (''required'', GArr []), (''additionalProperties'', GBool False)] \<rparr>"

definition ex_rack_schema :: Schema where
  "ex_rack_schema = \<lparr> sc_FileName = ''Rack.json'', sc_Body = [],
     sc_TopLevel = Some [(''anyOf'', GArr [GObj [(''$ref'', GString ''/schemas/v1/Rack.v1_0_0.json'')]]),
       (''insertable'', GBool False), (''updatable'', GBool False), (''deletable'', GBool False)] \<rparr>"

definition ex_racks :: SchemaPool where
  "ex_racks = \<lparr> sp_Pool = [(''Rack.json'', ex_rack_schema), (''Rack.v1_0_0.json'', ex_rack_v1)],
     sp_Version = VersionLatest, OemExtensions = [] \<rparr>"

definition ex_mapper :: VersionMapper where
  "ex_mapper = [(VersionLatest, \<lparr> vm_Version = VersionLatest, vm_Resources = [(''Rack.json'', ''v1_0_0'')], vm_Objects = [],
     AllowedCollections = [], KnownCycles = [] \<rparr>)]"

lemma ex_racks_prepared: "\<exists>cs rs. prepare ex_mapper ex_racks 3 VersionLatest () = (Ret (cs, rs), ()) \<and>
   map fst cs = [''FanCollection''] \<and> map fst rs = [''Rack'', ''Fan'']"
proof -
  have "case prepare ex_mapper ex_racks 3 VersionLatest () of
     (Ret (cs, rs), _) \<Rightarrow> map fst cs = [''FanCollection''] \<and> map fst rs = [''Rack'', ''Fan''] | _ \<Rightarrow> False" by code_simp
  then show ?thesis by (auto split: prod.splits outcome.splits)
qed

section \<open>Properties\<close>

text \<open>
  C18. Every collection and resource that is handed to linking, parsed or embedded, can be copied: no
  stage before linking sets a link, although embedded resources share their properties with the
  arrays they were made from.
\<close>

theorem templates_copyable:
  assumes "prepare vm pool n version w = (Ret (collections, resources), w')"
  shows "w' = w \<and> list_all (\<lambda>(name, r). \<exists>c. copyResource r w = (Ret c, w)) (collections @ resources)"
proof -
  have "w' = w \<and> res_unlinked collections \<and> res_unlinked resources"
    using parsesD [OF parses_prepare assms] by simp
  then show ?thesis
    by (fastforce simp: res_unlinked_def list_all_iff intro: unlinked_copies)
qed

theorem templates_copyable_witness:
  "\<exists>cs rs. prepare ex_mapper ex_racks 3 VersionLatest () = (Ret (cs, rs), ()) \<and> map fst (cs @ rs) = [''FanCollection'', ''Rack'', ''Fan''] \<and>
     list_all (\<lambda>(name, r). \<exists>c. copyResource r () = (Ret c, ())) (cs @ rs)"
proof -
  obtain cs rs where p: "prepare ex_mapper ex_racks 3 VersionLatest () = (Ret (cs, rs), ())" "map fst cs = [''FanCollection'']"
    "map fst rs = [''Rack'', ''Fan'']" using ex_racks_prepared by (elim exE conjE) (rule that)
  have "list_all (\<lambda>(name, r). \<exists>c. copyResource r () = (Ret c, ())) (cs @ rs)" using templates_copyable [OF p(1)] by blast
  then show ?thesis using p by (intro exI [of _ cs] exI [of _ rs]) simp
qed

end
