(* ===== verification/Redis_Helper.thy ===== *)
theory Redis_Helper
  imports Redis_Struct_Spec Dispatcher
begin

text \<open>
  The Redis helper of the backends (\<open>RedisHelper\<close> of \<open>internal/backend_helpers/common.go\<close>). Between the
  creation of a pipeline and its execution, sets and values are queued in it, while the list commands
  go to the server at once; the state is the world and the queue, if there is one. \<open>KEYS\<close> and the
  expiring \<open>SET\<close>, which only the backends use, are a further record of commands, whose law the locale
  \<open>redis_scan\<close> adds to the server. Mutexes are left out: an operation of the model runs alone.
\<close>

section \<open>Commands and state\<close>

datatype rcmd = CmdSet string string | CmdSAdd string string | CmdDel string

record 'w hstate =
  hs_world :: 'w
  hs_pipe :: "rcmd list option"

definition on_world :: "('w, 'a) go \<Rightarrow> ('w hstate, 'a) go" where
  "on_world m = (\<lambda>s. case m (hs_world s) of (r, w) \<Rightarrow> (r, s\<lparr>hs_world := w\<rparr>))"

definition run_cmd :: "'w redis_ops \<Rightarrow> rcmd \<Rightarrow> ('w, go_error + unit) go" where
  "run_cmd R c = (case c of CmdSet k v \<Rightarrow> rSet R k v | CmdSAdd k m \<Rightarrow> rSAdd R k [m] | CmdDel k \<Rightarrow> rDel R k)"

text \<open>
  \<open>pipe.Exec()\<close>: every command is executed and the first error is returned.
\<close>

fun Exec :: "'w redis_ops \<Rightarrow> rcmd list \<Rightarrow> ('w, go_error option) go" where
  "Exec R [] = go_return None"
| "Exec R (c # cs) = go_bind (run_cmd R c) (\<lambda>r. go_bind (Exec R cs) (\<lambda>e.
     go_return (case r of Inl err \<Rightarrow> Some err | Inr _ \<Rightarrow> e)))"

text \<open>
  A queued command reports no error; without a pipeline the command runs.
\<close>

definition cmd :: "'w redis_ops \<Rightarrow> rcmd \<Rightarrow> ('w hstate, go_error option) go" where
  "cmd R c = (\<lambda>s. case hs_pipe s of
      Some q \<Rightarrow> (Ret None, s\<lparr>hs_pipe := Some (q @ [c])\<rparr>)
    | None \<Rightarrow> go_bind (on_world (run_cmd R c)) (\<lambda>r. go_return (case r of Inl e \<Rightarrow> Some e | Inr _ \<Rightarrow> None)) s)"

record 'w redis_more =
  rKeys :: "string \<Rightarrow> ('w, go_error + string list) go"
  rSetExpire :: "string \<Rightarrow> string \<Rightarrow> int \<Rightarrow> ('w, go_error + unit) go"

text \<open>What a call of the helper returns: a keyspace and an error.\<close>

type_synonym keyspace_result = "string \<times> go_error option"

definition ServiceRootKeyspace :: string where
  "ServiceRootKeyspace = ''/redfish/v1''"

definition ChassisKeyspace :: string where
  "ChassisKeyspace = ServiceRootKeyspace @ ''/Chassis''"

definition SystemsKeyspace :: string where
  "SystemsKeyspace = ServiceRootKeyspace @ ''/Systems''"

definition ManagersKeyspace :: string where
  "ManagersKeyspace = ServiceRootKeyspace @ ''/Managers''"

definition GenericBmcID :: string where
  "GenericBmcID = ''BMC''"

definition GenericCertificateID :: string where
  "GenericCertificateID = ''1''"

section \<open>The operations\<close>

definition addMemberToSet :: "'w redis_ops \<Rightarrow> string \<Rightarrow> string \<Rightarrow> ('w hstate, keyspace_result) go" where
  "addMemberToSet R keyspace member =
     go_bind (cmd R (CmdSAdd keyspace member)) (\<lambda>err. case err of
         Some e \<Rightarrow> go_return ([], Some e)
       | None \<Rightarrow> go_return (keyspace @ ''/'' @ member, None))"

definition setValueForPropertyInKeyspace :: "'w redis_ops \<Rightarrow> string \<Rightarrow> string \<Rightarrow> string \<Rightarrow> ('w hstate, keyspace_result) go" where
  "setValueForPropertyInKeyspace R keyspace property value =
     (let propertyKeyspace = keyspace @ ''/'' @ property in
      go_bind (cmd R (CmdSet propertyKeyspace value)) (\<lambda>err. case err of
          Some e \<Rightarrow> go_return (propertyKeyspace, Some e)
        | None \<Rightarrow> go_bind (addMemberToSet R keyspace property) (\<lambda>(_, err'). go_return (propertyKeyspace, err'))))"

definition addMemberToArray :: "'w redis_ops \<Rightarrow> string \<Rightarrow> string \<Rightarrow> ('w hstate, keyspace_result) go" where
  "addMemberToArray R keyspace property =
     (let propertyKeyspace = keyspace @ ''/'' @ property in
      go_bind (on_world (rLLen R propertyKeyspace)) (\<lambda>r. case r of
          Inl e \<Rightarrow> go_return ([], Some e)
        | Inr count \<Rightarrow>
            go_bind (if count = 0 then addMemberToSet R keyspace property else go_return ([], None)) (\<lambda>(_, err). case err of
                Some e \<Rightarrow> go_return ([], Some e)
              | None \<Rightarrow>
                  go_bind (on_world (rRPush R propertyKeyspace [FormatInt count])) (\<lambda>r. case r of
                      Inl e \<Rightarrow> go_return ([], Some e)
                    | Inr _ \<Rightarrow> go_return (propertyKeyspace @ ''/'' @ FormatInt count, None)))))"

definition removeXnamePrependedKeys :: "'w redis_ops \<Rightarrow> 'w redis_more \<Rightarrow> string \<Rightarrow> ('w hstate, go_error option) go" where
  "removeXnamePrependedKeys R K xname =
     go_bind (on_world (rKeys K (xname @ ''*''))) (\<lambda>r. case r of
         Inl e \<Rightarrow> go_return (Some e)
       | Inr xnameKeys \<Rightarrow> on_world (Exec R (map CmdDel xnameKeys)))"

definition invalidateRedisKeys :: "'w redis_ops \<Rightarrow> string list \<Rightarrow> ('w hstate, unit) go" where
  "invalidateRedisKeys R keys = go_each (\<lambda>key. go_bind (on_world (rDel R key)) (\<lambda>_. go_return ())) keys"

fun member_links :: "'w redis_ops \<Rightarrow> string \<Rightarrow> string list \<Rightarrow> string list \<Rightarrow> ('w, go_error + string list) go" where
  "member_links R memberKey [] members = go_return (Inr members)"
| "member_links R memberKey (index # indexes) members =
     go_check (rGet R (filepath_Join [memberKey, index, ''@odata.id''])) (\<lambda>link.
       member_links R memberKey indexes (members @ [Base link]))"

definition collectionMembers :: "'w redis_ops \<Rightarrow> string \<Rightarrow> ('w, go_error + string list) go" where
  "collectionMembers R memberKey = go_check (rLRange R memberKey) (\<lambda>indexes. member_links R memberKey indexes [])"

definition checkTimeoutKey :: "'w redis_ops \<Rightarrow> 'w redis_more \<Rightarrow> string \<Rightarrow> int \<Rightarrow> ('w, go_error + bool) go" where
  "checkTimeoutKey R K key timeout =
     go_check (rExists R key) (\<lambda>n.
       if n = 0 then go_check (rSetExpire K key ''rts'' timeout) (\<lambda>_. go_return (Inr True))
       else go_return (Inr False))"

section \<open>Accounts and managers\<close>

text \<open>Calls whose results are dropped.\<close>

definition calls :: "('w hstate, keyspace_result) go list \<Rightarrow> ('w hstate, unit) go" where
  "calls = go_each (\<lambda>m. go_bind m (\<lambda>_. go_return ()))"

definition AccountsKeyspace :: string where
  "AccountsKeyspace = ''/redfish/v1/AccountService/Accounts''"

text \<open>
  \<open>hash\<close> is what \<open>bcrypt.GenerateFromPassword\<close> returns. An error of the write of the hash is
  overwritten by the result of the next call.
\<close>

definition initAccount :: "'w redis_ops \<Rightarrow> ('w, go_error + string) go \<Rightarrow> string \<Rightarrow> string \<Rightarrow> ('w hstate, go_error option) go" where
  "initAccount R hash username role =
     go_bind (on_world hash) (\<lambda>h. case h of
         Inl e \<Rightarrow> go_return (Some e)
       | Inr hashed \<Rightarrow>
           (let accountsKeyspace = filepath_Join [filepath_Join [ServiceRootKeyspace, ''AccountService''], ''Accounts''];
                instanceKeyspace = filepath_Join [accountsKeyspace, username] in
            go_bind (calls
              [addMemberToSet R instanceKeyspace ''@odata.id'',
               addMemberToSet R instanceKeyspace ''@odata.type'',
               addMemberToSet R instanceKeyspace ''@odata.context'',
               setValueForPropertyInKeyspace R instanceKeyspace ''Name'' username,
               setValueForPropertyInKeyspace R instanceKeyspace ''Id'' username,
               setValueForPropertyInKeyspace R instanceKeyspace ''RoleId'' role,
               setValueForPropertyInKeyspace R instanceKeyspace ''Enabled'' ''true'',
               setValueForPropertyInKeyspace R instanceKeyspace ''Locked'' ''false'',
               setValueForPropertyInKeyspace R instanceKeyspace ''UserName'' username]) (\<lambda>_.
            go_bind (on_world (rSet R (filepath_Join [instanceKeyspace, ''Password:hash'']) (EncodeToString hashed))) (\<lambda>_.
            go_bind (addMemberToArray R accountsKeyspace ''Members'') (\<lambda>(memberKeyspace, err).
            go_bind (setValueForPropertyInKeyspace R memberKeyspace ''@odata.id'' instanceKeyspace) (\<lambda>_.
              go_return err))))))"

definition initManagerCollection :: "'w redis_ops \<Rightarrow> string \<Rightarrow> ('w hstate, go_error option) go" where
  "initManagerCollection R xname =
     go_bind (addMemberToSet R ServiceRootKeyspace ''Managers'') (\<lambda>(k, err). case err of
         Some e \<Rightarrow> go_return (Some e)
       | None \<Rightarrow>
           (let keyspace = filepath_Join [xname, k] in
            go_bind (calls
              [addMemberToSet R keyspace ''@odata.id'',
               addMemberToSet R keyspace ''@odata.type'',
               setValueForPropertyInKeyspace R keyspace ''Name'' ''Managers Collection'',
               setValueForPropertyInKeyspace R keyspace ''Description'' ''A collection of all Manager instances on this host'',
               addMemberToSet R keyspace ''Members'']) (\<lambda>_. go_return None)))"

definition initManager :: "'w redis_ops \<Rightarrow> string \<Rightarrow> string \<Rightarrow> string \<Rightarrow> ('w hstate, go_error option) go" where
  "initManager R xname bmcID model =
     (let keyspace = filepath_Join [xname, ManagersKeyspace, bmcID] in
      go_bind (calls
        [addMemberToSet R keyspace ''@odata.id'',
         addMemberToSet R keyspace ''@odata.type'',
         setValueForPropertyInKeyspace R keyspace ''Id'' bmcID,
         setValueForPropertyInKeyspace R keyspace ''Name'' ''Redfish Translation Service'',
         setValueForPropertyInKeyspace R keyspace ''Model'' model,
         setValueForPropertyInKeyspace R keyspace ''PowerState'' ''On'']) (\<lambda>_.
      go_bind (addMemberToArray R (filepath_Join [xname, ManagersKeyspace]) ''Members'') (\<lambda>(memberKeyspace, err). case err of
          Some _ \<Rightarrow> go_return (Some (Err (''unable to add member to array for instance: '' @ xname)))
        | None \<Rightarrow> go_bind (setValueForPropertyInKeyspace R memberKeyspace ''@odata.id'' keyspace) (\<lambda>_. go_return None))))"

end
