(* ===== verification/Backend_Services.thy ===== *)
theory Backend_Services
  imports Redis_Interface
begin

text \<open>
  The services the backends report to (\<open>internal/backend_helpers/common.go\<close>): the hardware state
  manager, the name service, the event collector and the credential store. The environment, the HTTP
  transport, JSON marshalling, the credential store and the Kubernetes client are a record of
  functions; \<open>DoHTTPAction\<close> of the vendored HTTP library is translated over the transport. The locale
  \<open>hsm_service\<close> says what the hardware state manager does with the requests.
\<close>

section \<open>Requests and services\<close>

record HTTPRequest =
  hr_Method :: string
  hr_FullURL :: string
  hr_ExpectedStatusCodes :: "int list"
  hr_Payload :: "string option"
  hr_Auth :: "(string \<times> string) option"
  hr_CustomHeaders :: "(string \<times> string) list"

text \<open>The fields of an endpoint that the backends fill in.\<close>

record RawRedfishEP =
  ep_ID :: string
  ep_FQDN :: string
  ep_RediscOnUpdate :: "bool option"

record EventRecord =
  ev_EventId :: string
  ev_EventTimestamp :: string
  ev_Severity :: string
  ev_Message :: string
  ev_MessageId :: string
  ev_MessageArgs :: "string list"
  ev_OriginOfCondition :: string

record Event =
  ev_Context :: string
  ev_Events :: "EventRecord list"
  ev_EventsOCount :: int

record CompCredentials =
  cc_Xname :: string
  cc_URL :: string
  cc_Username :: string
  cc_Password :: string
  cc_SNMPAuthPass :: string
  cc_SNMPPrivPass :: string

record k8s_service =
  ks_Name :: string
  ks_Namespace :: string
  ks_Selector :: "(string \<times> string) list"
  ks_Ports :: "(string \<times> string \<times> int \<times> int) list"

text \<open>
  \<open>sDo\<close> is the transport: it fails, or gives a status code and a body that may fail to be read.
  \<open>sTelemetry\<close> marshals a telemetry event, whose structure is not looked at.
\<close>

record ('w, 'e) services =
  LookupEnv :: "string \<Rightarrow> string option"
  GetServiceInstanceName :: "go_error + string"
  sDo :: "HTTPRequest \<Rightarrow> ('w, go_error + int \<times> (go_error + string)) go"
  sMarshalEP :: "RawRedfishEP \<Rightarrow> go_error + string"
  sUnmarshalEP :: "string \<Rightarrow> go_error + RawRedfishEP"
  sMarshalEvent :: "Event \<Rightarrow> go_error + string"
  sTelemetry :: "'e \<Rightarrow> go_error + string"
  sNow :: "('w, string) go"
  GetCompCred :: "string \<Rightarrow> ('w, go_error + CompCredentials) go"
  StoreCompCred :: "CompCredentials \<Rightarrow> ('w, go_error + unit) go"
  sK8sConfig :: "('w, go_error + unit) go"
  sK8sGet :: "string \<Rightarrow> string \<Rightarrow> ('w, go_error + k8s_service) go"
  sK8sDelete :: "string \<Rightarrow> string \<Rightarrow> ('w, go_error + unit) go"
  sK8sCreate :: "string \<Rightarrow> k8s_service \<Rightarrow> ('w, go_error + unit) go"

definition getSvcInstName :: "('w, 'e) services \<Rightarrow> (string \<times> string) list" where
  "getSvcInstName V = [(''User-Agent'', case GetServiceInstanceName V of Inl _ \<Rightarrow> ''RTS_BE'' | Inr sn \<Rightarrow> sn)]"

text \<open>What a request gives: the body, the status code and an error. No caller looks at the body of a failed request.\<close>

type_synonym http_result = "string \<times> int \<times> go_error option"

definition DoHTTPAction :: "('w, 'e) services \<Rightarrow> HTTPRequest \<Rightarrow> ('w, http_result) go" where
  "DoHTTPAction V request =
     (if hr_FullURL request = [] then go_return ([], 0, Some (Err ''URL can not be empty''))
      else go_bind (sDo V request) (\<lambda>r. case r of
          Inl doErr \<Rightarrow> go_return ([], 0, Some (Err (''unable to do request: '' @ Error doErr)))
        | Inr (code, body) \<Rightarrow>
            (let err = (if hr_ExpectedStatusCodes request \<noteq> [] \<and> \<not> List.member (hr_ExpectedStatusCodes request) code
                        then Some (Err (''received unexpected status code: '' @ FormatInt code)) else None)
             in go_return (case body of
                 Inl readErr \<Rightarrow> ([], code, Some (Err (''unable to read response body: '' @ Error readErr)))
               | Inr payload \<Rightarrow> (payload, code, err)))))"

section \<open>The hardware state manager\<close>

text \<open>The address of the manager, if one is set.\<close>

definition hsm_url :: "('w, 'e) services \<Rightarrow> string option" where
  "hsm_url V = (case LookupEnv V ''HSM_URL'' of None \<Rightarrow> None | Some u \<Rightarrow> if u = [] then None else Some u)"

definition endpoints_path :: string where
  "endpoints_path = ''/hsm/v2/Inventory/RedfishEndpoints''"

text \<open>The error of an unreadable answer is logged and not returned.\<close>

definition getRedfishEndpointFromHSM :: "('w, 'e) services \<Rightarrow> string \<Rightarrow> ('w, RawRedfishEP option \<times> int \<times> go_error option) go" where
  "getRedfishEndpointFromHSM V xname = (case hsm_url V of
      None \<Rightarrow> go_return (None, 0, None)
    | Some hsmURL \<Rightarrow>
        go_bind (DoHTTPAction V \<lparr> hr_Method = ''GET'', hr_FullURL = hsmURL @ endpoints_path @ ''/'' @ xname,
            hr_ExpectedStatusCodes = [200, 404], hr_Payload = None, hr_Auth = None, hr_CustomHeaders = getSvcInstName V \<rparr>)
          (\<lambda>(responsePayload, statusCode, err). case err of
              Some e \<Rightarrow> go_return (None, statusCode,
                Some (Err (''attempted to retrieve redfish endpoint from HSM received unexpected status code: '' @ Error e)))
            | None \<Rightarrow>
                if statusCode = 404 then go_return (None, statusCode, None)
                else (case sUnmarshalEP V responsePayload of
                    Inl _ \<Rightarrow> go_return (None, statusCode, None)
                  | Inr rfEndpoint \<Rightarrow> go_return (Some rfEndpoint, statusCode, None))))"

definition createRedfishEndpointInHSM :: "('w, 'e) services \<Rightarrow> RawRedfishEP \<Rightarrow> ('w, int \<times> go_error option) go" where
  "createRedfishEndpointInHSM V rfEndpoint = (case hsm_url V of
      None \<Rightarrow> go_return (0, None)
    | Some hsmURL \<Rightarrow> (case sMarshalEP V rfEndpoint of
        Inl e \<Rightarrow> go_return (0, Some (Err (''attempted to marshal JSON payload but failed: '' @ Error e)))
      | Inr payload \<Rightarrow>
          go_bind (DoHTTPAction V \<lparr> hr_Method = ''POST'', hr_FullURL = hsmURL @ endpoints_path,
              hr_ExpectedStatusCodes = [201], hr_Payload = Some payload, hr_Auth = None, hr_CustomHeaders = getSvcInstName V \<rparr>)
            (\<lambda>(_, statusCode, err). go_return (statusCode, case err of
                None \<Rightarrow> None
              | Some e \<Rightarrow> if statusCode = 409 then Some e
                  else Some (Err (''attempted to inform HSM about xname but failed: '' @ Error e))))))"

definition informHSMWithFQDN :: "('w, 'e) services \<Rightarrow> string \<Rightarrow> string \<Rightarrow> ('w, go_error option) go" where
  "informHSMWithFQDN V xname fqdn = (case hsm_url V of
      None \<Rightarrow> go_return None
    | Some _ \<Rightarrow>
        go_bind (getRedfishEndpointFromHSM V xname) (\<lambda>(rfEndpoint, _, getErr). case getErr of
            Some e \<Rightarrow> go_return (Some e)
          | None \<Rightarrow> (case rfEndpoint of
              None \<Rightarrow>
                go_bind (createRedfishEndpointInHSM V \<lparr> ep_ID = xname, ep_FQDN = fqdn, ep_RediscOnUpdate = Some True \<rparr>)
                  (\<lambda>(_, createErr). go_return createErr)
            | Some _ \<Rightarrow> go_return None)))"

definition informHSM :: "('w, 'e) services \<Rightarrow> string \<Rightarrow> ('w, go_error option) go" where
  "informHSM V xname = informHSMWithFQDN V xname (xname @ '':8083'')"

text \<open>The error text decides whether the endpoint was missing.\<close>

definition deleteFromHSM :: "('w, 'e) services \<Rightarrow> string \<Rightarrow> ('w, go_error option) go" where
  "deleteFromHSM V xname = (case hsm_url V of
      None \<Rightarrow> go_return None
    | Some hsmURL \<Rightarrow>
        go_bind (DoHTTPAction V \<lparr> hr_Method = ''DELETE'', hr_FullURL = hsmURL @ endpoints_path @ ''/'' @ xname,
            hr_ExpectedStatusCodes = [200], hr_Payload = None, hr_Auth = None, hr_CustomHeaders = getSvcInstName V \<rparr>)
          (\<lambda>(_, _, deleteErr). go_return (case deleteErr of
              None \<Rightarrow> None
            | Some e \<Rightarrow> if Contains (Error e) ''404'' then None
                else Some (Err (''attempted to remove '' @ xname @ '' from HSM but failed: '' @ Error e)))))"

section \<open>Name service, events and readiness\<close>

text \<open>The result is whether a service was created and an error.\<close>

definition addXNameService :: "('w, 'e) services \<Rightarrow> string \<Rightarrow> string \<Rightarrow> ('w, bool \<times> go_error option) go" where
  "addXNameService V namespace xname =
     (let podName = (case LookupEnv V ''POD_NAME'' of None \<Rightarrow> ''cray-hms-rts'' | Some n \<Rightarrow> n);
          service = \<lparr> ks_Name = xname, ks_Namespace = namespace,
            ks_Selector = [(''app.kubernetes.io/instance'', podName), (''app.kubernetes.io/name'', podName)],
            ks_Ports = [(''https'', ''TCP'', 8083, 8083), (''http'', ''TCP'', 8082, 8082)] \<rparr>;
          create = go_bind (sK8sCreate V namespace service) (\<lambda>r. case r of
              Inl e \<Rightarrow> go_return (False, Some e)
            | Inr _ \<Rightarrow> go_return (True, None))
      in go_bind (sK8sConfig V) (\<lambda>c. case c of
          Inl e \<Rightarrow> go_return (False, Some e)
        | Inr _ \<Rightarrow>
            go_bind (sK8sGet V namespace xname) (\<lambda>r. case r of
                Inl _ \<Rightarrow> create
              | Inr svc \<Rightarrow>
                  if map_of (ks_Selector svc) ''app.kubernetes.io/name'' \<noteq> Some podName then
                    go_bind (sK8sDelete V namespace xname) (\<lambda>d. case d of
                        Inl e \<Rightarrow> go_return (False, Some e)
                      | Inr _ \<Rightarrow> create)
                  else go_return (False, None))))"

definition informDNS :: "('w, 'e) services \<Rightarrow> string \<Rightarrow> ('w, go_error option) go" where
  "informDNS V xname = (case LookupEnv V ''RTS_DNS_PROVIDER'' of
      None \<Rightarrow> go_return None
    | Some dnsProvider \<Rightarrow>
        if dnsProvider = ''none'' then go_return None
        else if dnsProvider = ''k8s_service'' then
          go_bind (addXNameService V ''services'' xname) (\<lambda>(_, err). go_return err)
        else go_return (Some (Err (''unknown DNS provider: '' @ dnsProvider))))"

text \<open>A payload is posted to the collector.\<close>

definition post_event :: "('w, 'e) services \<Rightarrow> string \<Rightarrow> string \<Rightarrow> ('w, go_error option) go" where
  "post_event V collectorURL payload =
     go_bind (DoHTTPAction V \<lparr> hr_Method = ''POST'', hr_FullURL = collectorURL, hr_ExpectedStatusCodes = [200],
         hr_Payload = Some payload, hr_Auth = None, hr_CustomHeaders = getSvcInstName V \<rparr>)
       (\<lambda>(_, _, informErr). go_return (case informErr of
           None \<Rightarrow> None
         | Some e \<Rightarrow> Some (Err (''attempted to POST RF event but failed: '' @ Error e))))"

text \<open>The counter of events is passed and returned; it is incremented before the request is made.\<close>

definition postRFPowerEvent :: "('w, 'e) services \<Rightarrow> 64 word \<Rightarrow> string \<Rightarrow> string \<Rightarrow> string \<Rightarrow> ('w, 64 word \<times> go_error option) go" where
  "postRFPowerEvent V RFEventID xname resource powerState = (case LookupEnv V ''COLLECTOR_URL'' of
      None \<Rightarrow> go_return (RFEventID, None)
    | Some collectorURL \<Rightarrow>
        go_bind (sNow V) (\<lambda>now.
          let event = \<lparr> ev_EventId = FormatInt (uint RFEventID), ev_EventTimestamp = now, ev_Severity = ''OK'',
                ev_Message = ''The power state of resource '' @ resource @ '' has changed to type '' @ powerState @ ''.'',
                ev_MessageId = ''CrayAlerts.1.0.ResourcePowerStateChanged'', ev_MessageArgs = [resource, powerState],
                ev_OriginOfCondition = resource \<rparr>
          in case sMarshalEvent V \<lparr> ev_Context = xname @ '':PowerState'', ev_Events = [event], ev_EventsOCount = 1 \<rparr> of
              Inl e \<Rightarrow> go_return (RFEventID, Some (Err (''attemtped to marshal JSON payload but failed: '' @ Error e)))
            | Inr payload \<Rightarrow> go_bind (post_event V collectorURL payload) (\<lambda>err. go_return (RFEventID + 1, err))))"

definition postTelemetryEvent :: "('w, 'e) services \<Rightarrow> 'e \<Rightarrow> ('w, go_error option) go" where
  "postTelemetryEvent V event = (case LookupEnv V ''COLLECTOR_URL'' of
      None \<Rightarrow> go_return None
    | Some collectorURL \<Rightarrow> (case sTelemetry V event of
        Inl e \<Rightarrow> go_return (Some (Err (''attemtped to marshal JSON payload but failed: '' @ Error e)))
      | Inr payload \<Rightarrow> post_event V collectorURL payload))"

definition checkReady :: "('w, 'e) services \<Rightarrow> string \<Rightarrow> ('w, go_error option) go" where
  "checkReady V xname =
     go_bind (GetCompCred V xname) (\<lambda>c. case c of
         Inl e \<Rightarrow> go_return (Some e)
       | Inr cred \<Rightarrow>
           if length (cc_Username cred) < 1 then
             go_return (Some (Err ''zero length username in credentials, not checking readiness''))
           else if length (cc_Password cred) < 1 then
             go_return (Some (Err ''zero length password in credentials, not checking readiness''))
           else if cc_Xname cred \<noteq> xname then
             go_return (Some (Err (''Xname found in credentials ['' @ [CHR 0x27] @ cc_Xname cred @ [CHR 0x27] @ ''] not a match, not checking readiness'')))
           else if length (cc_URL cred) < 1 then
             go_return (Some (Err ''zero length URL in credentials, not checking readiness''))
           else
             go_bind (DoHTTPAction V \<lparr> hr_Method = ''GET'', hr_FullURL = ''https://'' @ cc_URL cred @ ''/redfish/v1'',
                 hr_ExpectedStatusCodes = [200], hr_Payload = None, hr_Auth = Some (cc_Username cred, cc_Password cred),
                 hr_CustomHeaders = getSvcInstName V \<rparr>)
               (\<lambda>(_, _, err). go_return err))"

text \<open>A set of xnames.\<close>

type_synonym XNameSet = "string \<rightharpoonup> bool"

definition NewXNameSet :: XNameSet where
  "NewXNameSet = Map.empty"

definition XNameSet_Get :: "XNameSet \<Rightarrow> string \<Rightarrow> bool" where
  "XNameSet_Get s xname = (s xname = Some True)"

definition XNameSet_Set :: "XNameSet \<Rightarrow> string \<Rightarrow> bool \<Rightarrow> XNameSet" where
  "XNameSet_Set s xname value = s(xname \<mapsto> value)"

section \<open>What the manager does\<close>

text \<open>
  The manager at \<open>url\<close> keeps endpoints by their names. A GET of a name returns the endpoint or says
  that there is none, a POST creates an endpoint unless there is one of its name, a DELETE removes it.
\<close>

definition answers :: "('w \<Rightarrow> string \<rightharpoonup> RawRedfishEP) \<Rightarrow> 'w \<Rightarrow> (go_error + int \<times> (go_error + string)) outcome \<times> 'w \<Rightarrow>
    int \<Rightarrow> (string \<Rightarrow> bool) \<Rightarrow> (string \<rightharpoonup> RawRedfishEP) \<Rightarrow> bool" where
  "answers eps w r code P m \<longleftrightarrow> (\<exists>body w'. r = (Ret (Inr (code, Inr body)), w') \<and> P body \<and> eps w' = m)"

locale hsm_service =
  fixes V :: "('w, 'e) services" and eps :: "'w \<Rightarrow> string \<rightharpoonup> RawRedfishEP" and url :: string
  assumes hsm_set: "LookupEnv V ''HSM_URL'' = Some url" "url \<noteq> []"
    and unmarshal_marshal: "sMarshalEP V e = Inr p \<Longrightarrow> sUnmarshalEP V p = Inr e"
    and marshals: "\<exists>p. sMarshalEP V e = Inr p"
    and get_law: "x \<noteq> [] \<Longrightarrow> hr_Method q = ''GET'' \<Longrightarrow> hr_FullURL q = url @ endpoints_path @ ''/'' @ x \<Longrightarrow>
      (case eps w x of
         None \<Rightarrow> answers eps w (sDo V q w) 404 (\<lambda>_. True) (eps w)
       | Some e \<Rightarrow> answers eps w (sDo V q w) 200 (\<lambda>b. sUnmarshalEP V b = Inr e) (eps w))"
    and post_law: "hr_Method q = ''POST'' \<Longrightarrow> hr_FullURL q = url @ endpoints_path \<Longrightarrow> hr_Payload q = Some p \<Longrightarrow>
      sUnmarshalEP V p = Inr e \<Longrightarrow>
      (if eps w (ep_ID e) = None then answers eps w (sDo V q w) 201 (\<lambda>_. True) ((eps w)(ep_ID e \<mapsto> e))
       else answers eps w (sDo V q w) 409 (\<lambda>_. True) (eps w))"
    and delete_law: "x \<noteq> [] \<Longrightarrow> hr_Method q = ''DELETE'' \<Longrightarrow> hr_FullURL q = url @ endpoints_path @ ''/'' @ x \<Longrightarrow>
      answers eps w (sDo V q w) (if eps w x = None then 404 else 200) (\<lambda>_. True) ((eps w)(x := None))"
begin

lemma hsm_url_set: "hsm_url V = Some url"
  using hsm_set by (simp add: hsm_url_def)

lemma url_not_Nil: "url @ p \<noteq> []"
  using hsm_set(2) by simp

lemma endpoint_got:
  assumes "x \<noteq> []"
  obtains code w' where "getRedfishEndpointFromHSM V x w = (Ret (eps w x, code, None), w')" "eps w' = eps w"
proof (cases "eps w x")
  case None
  let ?q = "\<lparr> hr_Method = ''GET'', hr_FullURL = url @ endpoints_path @ ''/'' @ x, hr_ExpectedStatusCodes = [200, 404],
    hr_Payload = None, hr_Auth = None, hr_CustomHeaders = getSvcInstName V \<rparr>"
  obtain body w' where "sDo V ?q w = (Ret (Inr (404, Inr body)), w')" "eps w' = eps w"
    using get_law [OF assms, of ?q w] None by (auto simp: answers_def)
  then show thesis using that [of 404 w'] None
    by (simp add: getRedfishEndpointFromHSM_def hsm_url_set DoHTTPAction_def url_not_Nil hsm_set(2) go_bind_apply Let_def)
next
  case (Some e)
  let ?q = "\<lparr> hr_Method = ''GET'', hr_FullURL = url @ endpoints_path @ ''/'' @ x, hr_ExpectedStatusCodes = [200, 404],
    hr_Payload = None, hr_Auth = None, hr_CustomHeaders = getSvcInstName V \<rparr>"
  obtain body w' where "sDo V ?q w = (Ret (Inr (200, Inr body)), w')" "sUnmarshalEP V body = Inr e" "eps w' = eps w"
    using get_law [OF assms, of ?q w] Some by (auto simp: answers_def)
  then show thesis using that [of 200 w'] Some
    by (simp add: getRedfishEndpointFromHSM_def hsm_url_set DoHTTPAction_def hsm_set(2) go_bind_apply Let_def)
qed

lemma endpoint_created:
  assumes "eps w (ep_ID e) = None"
  obtains w' where "createRedfishEndpointInHSM V e w = (Ret (201, None), w')" "eps w' = (eps w)(ep_ID e \<mapsto> e)"
proof -
  obtain p where p: "sMarshalEP V e = Inr p" using marshals by blast
  let ?q = "\<lparr> hr_Method = ''POST'', hr_FullURL = url @ endpoints_path, hr_ExpectedStatusCodes = [201],
    hr_Payload = Some p, hr_Auth = None, hr_CustomHeaders = getSvcInstName V \<rparr>"
  obtain body w' where "sDo V ?q w = (Ret (Inr (201, Inr body)), w')" "eps w' = (eps w)(ep_ID e \<mapsto> e)"
    using post_law [of ?q p e w] unmarshal_marshal [OF p] assms by (auto simp: answers_def)
  then show thesis using that [of w'] p
    by (simp add: createRedfishEndpointInHSM_def hsm_url_set DoHTTPAction_def hsm_set(2) go_bind_apply Let_def)
qed

lemma informed:
  assumes "x \<noteq> []"
  obtains w' where "informHSMWithFQDN V x fqdn w = (Ret None, w')"
    "eps w' = (if eps w x = None then (eps w)(x \<mapsto> \<lparr> ep_ID = x, ep_FQDN = fqdn, ep_RediscOnUpdate = Some True \<rparr>) else eps w)"
proof -
  obtain code w1 where 1: "getRedfishEndpointFromHSM V x w = (Ret (eps w x, code, None), w1)" "eps w1 = eps w"
    using endpoint_got [OF assms] .
  show thesis
  proof (cases "eps w x")
    case None
    let ?e = "\<lparr> ep_ID = x, ep_FQDN = fqdn, ep_RediscOnUpdate = Some True \<rparr>"
    obtain w' where "createRedfishEndpointInHSM V ?e w1 = (Ret (201, None), w')" "eps w' = (eps w1)(x \<mapsto> ?e)"
      using endpoint_created [of w1 ?e] None 1(2) by auto
    then show thesis using that [of w'] 1 None by (simp add: informHSMWithFQDN_def hsm_url_set go_bind_apply)
  next
    case (Some e)
    then show thesis using that [of w1] 1 by (simp add: informHSMWithFQDN_def hsm_url_set go_bind_apply)
  qed
qed

lemma deleted:
  assumes "x \<noteq> []"
  obtains w' where "deleteFromHSM V x w = (Ret None, w')" "eps w' = (eps w)(x := None)"
proof -
  let ?q = "\<lparr> hr_Method = ''DELETE'', hr_FullURL = url @ endpoints_path @ ''/'' @ x, hr_ExpectedStatusCodes = [200],
    hr_Payload = None, hr_Auth = None, hr_CustomHeaders = getSvcInstName V \<rparr>"
  obtain body w' where r: "sDo V ?q w = (Ret (Inr (if eps w x = None then 404 else 200, Inr body)), w')" "eps w' = (eps w)(x := None)"
    using delete_law [OF assms, of ?q w] by (auto simp: answers_def)
  have "Contains (''received unexpected status code: '' @ FormatInt 404) ''404''" by code_simp
  then show thesis using that [of w'] r
    by (simp add: deleteFromHSM_def hsm_url_set DoHTTPAction_def hsm_set(2) go_bind_apply Let_def)
qed

end

section \<open>A manager in memory\<close>

text \<open>A string in a form that ends by itself, and endpoints as two such strings and a flag.\<close>

fun put_str :: "string \<Rightarrow> string" where
  "put_str [] = ''.''"
| "put_str (c # s) = CHR '','' # c # put_str s"

fun get_str :: "string \<Rightarrow> (string \<times> string) option" where
  "get_str [] = None"
| "get_str [x] = (if x = CHR ''.'' then Some ([], []) else None)"
| "get_str (x # c # r) = (if x = CHR ''.'' then Some ([], c # r) else map_option (\<lambda>(s, t). (c # s, t)) (get_str r))"

lemma get_put [simp]: "get_str (put_str s @ r) = Some (s, r)"
  by (induction s) (cases r; simp)+

definition mem_marshal :: "RawRedfishEP \<Rightarrow> string" where
  "mem_marshal e = put_str (ep_ID e) @ put_str (ep_FQDN e) @
     (case ep_RediscOnUpdate e of None \<Rightarrow> ''n'' | Some True \<Rightarrow> ''t'' | Some False \<Rightarrow> ''f'')"

definition mem_unmarshal :: "string \<Rightarrow> go_error + RawRedfishEP" where
  "mem_unmarshal p = (case get_str p of
      None \<Rightarrow> Inl (Err ''invalid'')
    | Some (i, r) \<Rightarrow> (case get_str r of
        None \<Rightarrow> Inl (Err ''invalid'')
      | Some (f, t) \<Rightarrow> Inr \<lparr> ep_ID = i, ep_FQDN = f,
          ep_RediscOnUpdate = (if t = ''n'' then None else Some (t = ''t'')) \<rparr>))"

lemma mem_unmarshal_marshal [simp]: "mem_unmarshal (mem_marshal e) = Inr e"
  by (cases e; cases "ep_RediscOnUpdate e") (auto simp: mem_unmarshal_def mem_marshal_def split: bool.split)

definition mem_do :: "string \<Rightarrow> HTTPRequest \<Rightarrow> ((string \<times> RawRedfishEP) list, go_error + int \<times> (go_error + string)) go" where
  "mem_do url q = (\<lambda>w.
     (let name = drop (length url + length endpoints_path + 1) (hr_FullURL q) in
      if hr_Method q = ''GET'' then
        (case map_of w name of
           None \<Rightarrow> (Ret (Inr (404, Inr [])), w)
         | Some e \<Rightarrow> (Ret (Inr (200, Inr (mem_marshal e))), w))
      else if hr_Method q = ''POST'' then
        (case hr_Payload q of
           None \<Rightarrow> (Ret (Inr (400, Inr [])), w)
         | Some p \<Rightarrow> (case mem_unmarshal p of
             Inl _ \<Rightarrow> (Ret (Inr (400, Inr [])), w)
           | Inr e \<Rightarrow> if map_of w (ep_ID e) = None then (Ret (Inr (201, Inr [])), AList.update (ep_ID e) e w)
               else (Ret (Inr (409, Inr [])), w)))
      else (Ret (Inr (if map_of w name = None then 404 else 200, Inr [])), AList.delete name w)))"

definition mem_services :: "string \<Rightarrow> ((string \<times> RawRedfishEP) list, unit) services" where
  "mem_services url = \<lparr> LookupEnv = (\<lambda>n. if n = ''HSM_URL'' then Some url else None),
     GetServiceInstanceName = Inr ''rts'', sDo = mem_do url, sMarshalEP = (\<lambda>e. Inr (mem_marshal e)),
     sUnmarshalEP = mem_unmarshal, sMarshalEvent = (\<lambda>_. Inr []), sTelemetry = (\<lambda>_. Inr []),
     sNow = go_return [], GetCompCred = (\<lambda>_. go_return (Inl (Err ''no credentials''))), StoreCompCred = (\<lambda>_. go_return (Inr ())),
     sK8sConfig = go_return (Inl (Err ''no cluster'')), sK8sGet = (\<lambda>_ _. go_return (Inl (Err ''no cluster''))),
     sK8sDelete = (\<lambda>_ _. go_return (Inr ())), sK8sCreate = (\<lambda>_ _. go_return (Inr ())) \<rparr>"

interpretation mh: hsm_service "mem_services ''http://hsm''" map_of "''http://hsm''"
proof (unfold_locales, goal_cases)
  case (5 x q w)
  then show ?case by (simp add: mem_services_def mem_do_def answers_def split: option.split)
next
  case (6 q p e w)
  then show ?case by (auto simp: mem_services_def mem_do_def answers_def update_conv')
next
  case (7 x q w)
  then show ?case by (auto simp: mem_services_def mem_do_def answers_def delete_conv')
qed (simp_all add: mem_services_def)

lemma mem_hsm_service: "hsm_service (mem_services ''http://hsm'') map_of ''http://hsm''"
  by (rule mh.hsm_service_axioms)

section \<open>Properties\<close>

text \<open>What is promised of the endpoints: a name is registered once, with the address of its first registration.\<close>

definition register :: "string \<Rightarrow> string \<Rightarrow> (string \<rightharpoonup> RawRedfishEP) \<Rightarrow> string \<rightharpoonup> RawRedfishEP" where
  "register x fqdn m = (if m x = None then m(x \<mapsto> \<lparr> ep_ID = x, ep_FQDN = fqdn, ep_RediscOnUpdate = Some True \<rparr>) else m)"

lemma register_idem: "register x f (register x f m) = register x f m"
  by (simp add: register_def)

text \<open>
  C24. Registering a device with the hardware state manager refines the abstract registration: it
  succeeds, an endpoint that exists is left alone and a missing one is created with the given
  address, no other endpoint changes, repeating it changes nothing, and a deletion takes the endpoint away.
\<close>

theorem hsm_registration:
  assumes "hsm_service V eps url" "x \<noteq> []"
  shows "\<exists>w1 w2 w3. informHSMWithFQDN V x fqdn w = (Ret None, w1) \<and> eps w1 = register x fqdn (eps w) \<and>
    informHSMWithFQDN V x fqdn w1 = (Ret None, w2) \<and> eps w2 = eps w1 \<and>
    deleteFromHSM V x w2 = (Ret None, w3) \<and> eps w3 = (eps w)(x := None)"
proof -
  obtain w1 where 1: "informHSMWithFQDN V x fqdn w = (Ret None, w1)" "eps w1 = register x fqdn (eps w)"
    using hsm_service.informed [OF assms] by (metis register_def)
  obtain w2 where 2: "informHSMWithFQDN V x fqdn w1 = (Ret None, w2)" "eps w2 = register x fqdn (eps w1)"
    using hsm_service.informed [OF assms] by (metis register_def)
  obtain w3 where 3: "deleteFromHSM V x w2 = (Ret None, w3)" "eps w3 = (eps w2)(x := None)"
    using hsm_service.deleted [OF assms] .
  have "eps w2 = eps w1" using 1(2) 2(2) by (simp add: register_idem)
  moreover have "eps w3 = (eps w)(x := None)" using 3(2) calculation 1(2) by (simp add: register_def)
  ultimately show ?thesis using 1 2(1) 3(1) by blast
qed

theorem hsm_registration_witness:
  "\<exists>w1 w2 w3. informHSMWithFQDN (mem_services ''http://hsm'') ''x1'' ''x1-rts:8083'' [] = (Ret None, w1) \<and>
    map_of w1 = register ''x1'' ''x1-rts:8083'' (map_of []) \<and>
    informHSMWithFQDN (mem_services ''http://hsm'') ''x1'' ''x1-rts:8083'' w1 = (Ret None, w2) \<and> map_of w2 = map_of w1 \<and>
    deleteFromHSM (mem_services ''http://hsm'') ''x1'' w2 = (Ret None, w3) \<and> map_of w3 = (map_of [])(''x1'' := None)"
  by (rule hsm_registration [OF mem_hsm_service]) simp

lemma Contains_within: "Contains s t \<Longrightarrow> Contains (p @ s) t" "Contains s t \<Longrightarrow> Contains t u \<Longrightarrow> Contains s u"
  by (auto simp: Contains_iff) (metis append.assoc)+

lemma Contains_self [simp]: "Contains s s"
  by (subst Contains_iff) (metis append_Nil append_Nil2)

text \<open>
  A failed deletion can be taken for a missing endpoint: when the manager cannot be reached, the
  error of the transport names the URL, and if the name of the device contains the digits 404, the
  deletion reports success although the endpoint is still there.
\<close>

theorem unreachable_deletion_reported_done:
  assumes "hsm_url V = Some url" "Contains x ''404''"
    and "\<And>q w. \<exists>msg. sDo V q w = (Ret (Inl (Err msg)), w) \<and> Contains msg (hr_FullURL q)"
  shows "deleteFromHSM V x w = (Ret None, w)"
proof -
  let ?q = "\<lparr> hr_Method = ''DELETE'', hr_FullURL = url @ endpoints_path @ ''/'' @ x, hr_ExpectedStatusCodes = [200],
    hr_Payload = None, hr_Auth = None, hr_CustomHeaders = getSvcInstName V \<rparr>"
  obtain msg where msg: "sDo V ?q w = (Ret (Inl (Err msg)), w)" "Contains msg (url @ endpoints_path @ ''/'' @ x)"
    using assms(3) [of ?q w] by auto
  have "Contains msg ''404''"
    using Contains_within(2) [OF msg(2)] Contains_within(1) [OF assms(2), of "url @ endpoints_path @ ''/''"] by simp
  then have "Contains (''unable to do request: '' @ msg) ''404''" by (rule Contains_within(1))
  then show ?thesis using msg(1) assms(1) by (simp add: deleteFromHSM_def DoHTTPAction_def go_bind_apply endpoints_path_def)
qed

theorem unreachable_deletion_reported_done_witness:
  "deleteFromHSM (mem_services ''http://hsm'' \<lparr>sDo := \<lambda>q. go_return (Inl (Err (hr_FullURL q)))\<rparr>) ''x1404c0r0b0'' [(''x1404c0r0b0'', \<lparr> ep_ID = ''x1404c0r0b0'', ep_FQDN = [], ep_RediscOnUpdate = None \<rparr>)] =
    (Ret None, [(''x1404c0r0b0'', \<lparr> ep_ID = ''x1404c0r0b0'', ep_FQDN = [], ep_RediscOnUpdate = None \<rparr>)])"
proof (rule unreachable_deletion_reported_done [where url = "''http://hsm''"])
  show "Contains ''x1404c0r0b0'' ''404''" by code_simp
qed (simp_all add: mem_services_def hsm_url_def)

end
