(* ===== verification/Certificate_Service.thy ===== *)
theory Certificate_Service
  imports Redis_Helper Backend_Services
begin

text \<open>
  The certificate service of the backends (\<open>internal/backend_helpers/certificateservice.go\<close>) and its
  store (\<open>internal/rfdispatcher/certificate_store\<close>). The packages for PEM, TLS and X.509, the file
  system and the secure storage are records of functions; a TLS certificate is a value of a type
  parameter that is only passed on, and dates are in the format they are written in. The service
  owns a Redis helper on which nobody starts a pipeline, so its calls are direct. Locks are left out.
\<close>

section \<open>State\<close>

text \<open>The parts of a distinguished name that are shown.\<close>

record x509_name =
  nm_Locality :: "string list"
  nm_CommonName :: string
  nm_Country :: "string list"
  nm_Organization :: "string list"
  nm_OrganizationalUnit :: "string list"
  nm_Province :: "string list"

record x509_cert =
  x_NotAfter :: string
  x_NotBefore :: string
  x_Issuer :: x509_name
  x_Subject :: x509_name

record 't CertificateTuple =
  ct_PublicCertificate :: string
  ct_TLS :: 't
  ct_X509 :: x509_cert

record CertificatePair =
  cp_Certificate :: string
  cp_PrivateKey :: string

record pem_block =
  pb_Type :: string
  pb_Bytes :: string

record ('w, 't) crypto =
  pem_Decode :: "string \<Rightarrow> pem_block option \<times> string"
  pem_Encode :: "pem_block \<Rightarrow> string"
  X509KeyPair :: "string \<Rightarrow> string \<Rightarrow> go_error + 't"
  ParseCertificate :: "string \<Rightarrow> go_error + x509_cert"
  LoadX509KeyPair :: "string \<Rightarrow> string \<Rightarrow> ('w, go_error + 't) go"
  cReadFile :: "string \<Rightarrow> ('w, go_error + string) go"

text \<open>\<open>Lookup\<close> fills in a pair and returns an error.\<close>

record 'w secure_storage =
  ssLookup :: "string \<Rightarrow> ('w, CertificatePair \<times> go_error option) go"
  ssStore :: "string \<Rightarrow> CertificatePair \<Rightarrow> ('w, go_error option) go"

text \<open>\<open>cs_Store\<close> is the key path of the certificate store, if there is one.\<close>

record ('w, 't) CertificateService =
  cs_world :: 'w
  cs_BmcID :: string
  cs_CertificateID :: string
  cs_Store :: "string option"
  cs_Default :: "'t CertificateTuple option"
  cs_Certificates :: "string \<rightharpoonup> 't CertificateTuple"
  cs_KnownDevices :: "string \<rightharpoonup> bool"

definition nil_pointer :: "('w, 'a) go" where
  "nil_pointer = go_panic ''runtime error: invalid memory address or nil pointer dereference''"

definition direct :: "('w hstate, 'a) go \<Rightarrow> ('w, 'a) go" where
  "direct m = (\<lambda>w. case m \<lparr>hs_world = w, hs_pipe = None\<rparr> of (r, s) \<Rightarrow> (r, hs_world s))"

definition on_cs :: "('w, 'a) go \<Rightarrow> (('w, 't) CertificateService, 'a) go" where
  "on_cs m = (\<lambda>s. case m (cs_world s) of (r, w) \<Rightarrow> (r, s\<lparr>cs_world := w\<rparr>))"

section \<open>The store\<close>

text \<open>Whatever the error, an empty pair counts as not found.\<close>

definition ErrNotFound :: go_error where
  "ErrNotFound = Err ''certificate pair not found''"

definition GetCertificatePair :: "'w secure_storage \<Rightarrow> string \<Rightarrow> string \<Rightarrow> ('w, go_error + CertificatePair) go" where
  "GetCertificatePair S keyPath xname =
     go_bind (ssLookup S (filepath_Join [keyPath, xname])) (\<lambda>(pair, err).
       go_return (if cp_Certificate pair = [] \<and> cp_PrivateKey pair = [] then Inl ErrNotFound
         else if cp_Certificate pair = [] \<or> cp_PrivateKey pair = [] then Inl (Err ''empty certificate or private key'')
         else case err of Some e \<Rightarrow> Inl e | None \<Rightarrow> Inr pair))"

definition StoreCertificatePair :: "'w secure_storage \<Rightarrow> string \<Rightarrow> string \<Rightarrow> CertificatePair \<Rightarrow> ('w, go_error option) go" where
  "StoreCertificatePair S keyPath xname pair =
     (if cp_Certificate pair = [] \<or> cp_PrivateKey pair = [] then go_return (Some (Err ''empty certificate or private key''))
      else ssStore S (filepath_Join [keyPath, xname]) pair)"

section \<open>Keys of a device\<close>

definition CertificateServiceKeyspace :: string where
  "CertificateServiceKeyspace = ServiceRootKeyspace @ ''/CertificateService''"

text \<open>A call whose error ends the function, with the error or one of its own.\<close>

definition or_fail :: "('w hstate, keyspace_result) go \<Rightarrow> (go_error \<Rightarrow> go_error option) \<Rightarrow> (string \<Rightarrow> ('w hstate, go_error option) go) \<Rightarrow>
    ('w hstate, go_error option) go" where
  "or_fail m f g = go_bind m (\<lambda>(k, err). case err of Some e \<Rightarrow> go_return (f e) | None \<Rightarrow> g k)"

definition initCertificateService :: "'w redis_ops \<Rightarrow> string \<Rightarrow> string \<Rightarrow> string \<Rightarrow> ('w hstate, go_error option) go" where
  "initCertificateService R xname bmcID certificateID =
     or_fail (addMemberToSet R ServiceRootKeyspace ''CertificateService'') Some (\<lambda>k.
     (let keyspace = filepath_Join [xname, k]; actionName = ''CertificateService.ReplaceCertificate'' in
      go_bind (calls
        [addMemberToSet R keyspace ''@odata.id'',
         addMemberToSet R keyspace ''@odata.type'',
         setValueForPropertyInKeyspace R keyspace ''Id'' ''CertificateService'',
         setValueForPropertyInKeyspace R keyspace ''Name'' ''Certificate Service'']) (\<lambda>_.
      or_fail (addMemberToSet R keyspace ''Actions'') (\<lambda>_. Some (Err ''unable to add Actions to Certificate Service'')) (\<lambda>actionsKeyspace.
      or_fail (addMemberToSet R actionsKeyspace (''#'' @ actionName))
          (\<lambda>_. Some (Err ''unable to add reaplace certificate action to Certificate Service'')) (\<lambda>replaceCertificateKeyspace.
      go_bind (calls [setValueForPropertyInKeyspace R replaceCertificateKeyspace ''Target'' (filepath_Join [actionsKeyspace, actionName])]) (\<lambda>_.
      or_fail (addMemberToSet R replaceCertificateKeyspace ''CertificateType@Redfish.AllowableValues'')
          (\<lambda>_. Some (Err ''unable to add AllowableValues to replace certificate action'')) (\<lambda>allowableValuesKeyspace.
      go_bind (on_world (rRPush R allowableValuesKeyspace [''PEM''])) (\<lambda>_. go_return None))))))))"

definition initCertificateLocations :: "'w redis_ops \<Rightarrow> string \<Rightarrow> string \<Rightarrow> string \<Rightarrow> ('w hstate, go_error option) go" where
  "initCertificateLocations R xname bmcID certificateID =
     or_fail (addMemberToSet R (filepath_Join [xname, CertificateServiceKeyspace]) ''CertificateLocations'') Some (\<lambda>keyspace.
     go_bind (calls
       [addMemberToSet R keyspace ''@odata.id'',
        addMemberToSet R keyspace ''@odata.type'',
        setValueForPropertyInKeyspace R keyspace ''Id'' ''CertificateLocations'',
        setValueForPropertyInKeyspace R keyspace ''Name'' ''Certificate Locations'']) (\<lambda>_.
     or_fail (addMemberToSet R keyspace ''Links'') Some (\<lambda>linksKeyspace.
     or_fail (addMemberToArray R linksKeyspace ''Certificates'') Some (\<lambda>certificateLinkKeyspace.
     go_bind (calls [setValueForPropertyInKeyspace R certificateLinkKeyspace ''@odata.id''
         (ManagersKeyspace @ ''/'' @ bmcID @ ''/NetworkProtocol/HTTPS/Certificates/'' @ certificateID)]) (\<lambda>_.
       go_return None)))))"

text \<open>Some errors of the next functions are returned as success.\<close>

definition initManagerNetworkProtocol :: "'w redis_ops \<Rightarrow> string \<Rightarrow> string \<Rightarrow> string \<Rightarrow> ('w hstate, go_error option) go" where
  "initManagerNetworkProtocol R xname bmcID certificateID =
     or_fail (addMemberToSet R (filepath_Join [xname, ManagersKeyspace, bmcID]) ''NetworkProtocol'') Some (\<lambda>keyspace.
     go_bind (calls
       [addMemberToSet R keyspace ''@odata.id'',
        addMemberToSet R keyspace ''@odata.type'',
        addMemberToSet R keyspace ''HTTPS'']) (\<lambda>_. go_return None))"

definition initManagerHTTPSCertificateCollection :: "'w redis_ops \<Rightarrow> string \<Rightarrow> string \<Rightarrow> string \<Rightarrow> ('w hstate, go_error option) go" where
  "initManagerHTTPSCertificateCollection R xname bmcID certificateID =
     or_fail (addMemberToSet R (filepath_Join [xname, ManagersKeyspace, bmcID, ''NetworkProtocol'', ''HTTPS'']) ''Certificates'') (\<lambda>_. None) (\<lambda>keyspace.
     go_bind (calls
       [addMemberToSet R keyspace ''@odata.id'',
        addMemberToSet R keyspace ''@odata.type'',
        setValueForPropertyInKeyspace R keyspace ''Description'' ''A collection of all Certificates instances for this manager'',
        setValueForPropertyInKeyspace R keyspace ''Name'' ''Certificates Collection'',
        addMemberToSet R keyspace ''Members'']) (\<lambda>_. go_return None))"

definition name_members :: "'w redis_ops \<Rightarrow> string \<Rightarrow> ('w hstate, keyspace_result) go list" where
  "name_members R keyspace = map (addMemberToSet R keyspace)
     [''City'', ''CommonName'', ''Country'', ''Organization'', ''OrganizationalUnit'', ''State'']"

definition initManagerHTTPSCertificate :: "'w redis_ops \<Rightarrow> string \<Rightarrow> string \<Rightarrow> string \<Rightarrow> ('w hstate, go_error option) go" where
  "initManagerHTTPSCertificate R xname bmcID certificateID =
     (let collectionKeyspace = filepath_Join [xname, ManagersKeyspace, bmcID, ''/NetworkProtocol/HTTPS/Certificates''];
          keyspace = filepath_Join [collectionKeyspace, certificateID] in
      go_bind (calls
        [addMemberToSet R keyspace ''@odata.id'',
         addMemberToSet R keyspace ''@odata.type'',
         setValueForPropertyInKeyspace R keyspace ''Id'' certificateID,
         setValueForPropertyInKeyspace R keyspace ''Name'' ''HTTPS Certificate for RTS'',
         addMemberToSet R keyspace ''CertificateString'',
         addMemberToSet R keyspace ''CertificateType'',
         addMemberToSet R keyspace ''ValidNotAfter'',
         addMemberToSet R keyspace ''ValidNotBefore'']) (\<lambda>_.
      or_fail (addMemberToSet R keyspace ''Issuer'') (\<lambda>_. None) (\<lambda>issuerKeyspace.
      go_bind (calls (name_members R issuerKeyspace)) (\<lambda>_.
      or_fail (addMemberToSet R keyspace ''Subject'') (\<lambda>_. None) (\<lambda>subjectKeyspace.
      go_bind (calls (name_members R subjectKeyspace)) (\<lambda>_.
      or_fail (addMemberToArray R collectionKeyspace ''Members'') Some (\<lambda>memberKeyspace.
      go_bind (calls [setValueForPropertyInKeyspace R memberKeyspace ''@odata.id'' keyspace]) (\<lambda>_. go_return None))))))))"

section \<open>Certificates\<close>

definition SetupCertificateService :: "string \<Rightarrow> string \<Rightarrow> (('w, 't) CertificateService, go_error option) go" where
  "SetupCertificateService bmcID certificateID =
     (\<lambda>cs. (Ret None, cs\<lparr>cs_BmcID := bmcID, cs_CertificateID := certificateID\<rparr>))"

definition GetCertificate :: "string \<Rightarrow> ('w, 't) CertificateService \<Rightarrow> 't CertificateTuple option" where
  "GetCertificate xname cs = (case cs_Certificates cs xname of Some c \<Rightarrow> Some c | None \<Rightarrow> cs_Default cs)"

text \<open>The certificate that a client is shown, by the name it asks for.\<close>

definition ReturnCert :: "string \<Rightarrow> (('w, 't) CertificateService, 't) go" where
  "ReturnCert serverName = (\<lambda>cs. case GetCertificate (TrimSuffix serverName ''-rts'') cs of
      Some c \<Rightarrow> (Ret (ct_TLS c), cs)
    | None \<Rightarrow> nil_pointer cs)"

definition note_block :: "pem_block \<Rightarrow> pem_block option \<times> pem_block option \<Rightarrow> pem_block option \<times> pem_block option" where
  "note_block b found = (if pb_Type b = ''CERTIFICATE'' then (Some b, snd found)
     else if pb_Type b = ''RSA PRIVATE KEY'' then (fst found, Some b) else found)"

text \<open>
  The loop over the blocks of a PEM string. A step that finds no block and yet consumes something
  would be repeated for ever; the fuel is the number of steps.
\<close>

fun pem_blocks :: "('w, 't) crypto \<Rightarrow> nat \<Rightarrow> string \<Rightarrow> pem_block option \<times> pem_block option \<Rightarrow> ('s, pem_block option \<times> pem_block option) go" where
  "pem_blocks C 0 raw found = (if raw = [] then go_return found else go_nofuel)"
| "pem_blocks C (Suc n) raw found =
     (if raw = [] then go_return found
      else case pem_Decode C raw of (block, rest) \<Rightarrow>
        if raw = rest then go_return found
        else case block of
          None \<Rightarrow> pem_blocks C n raw found
        | Some b \<Rightarrow> pem_blocks C n rest (note_block b found))"

definition ParseCertificatePairFromString :: "('w, 't) crypto \<Rightarrow> string \<Rightarrow> ('s, go_error + CertificatePair) go" where
  "ParseCertificatePairFromString C certificateString =
     go_bind (pem_blocks C (length certificateString) certificateString (None, None)) (\<lambda>(cert, key). go_return (case cert of
         None \<Rightarrow> Inl (Err ''certificate string is missing PEM formated certificate'')
       | Some c \<Rightarrow> (case key of
           None \<Rightarrow> Inl (Err ''certificate string is missing PEM formated private key'')
         | Some k \<Rightarrow> Inr \<lparr> cp_Certificate = pem_Encode C c, cp_PrivateKey = pem_Encode C k \<rparr>)))"

definition LoadCertificateFromPair :: "('w, 't) crypto \<Rightarrow> string \<Rightarrow> CertificatePair \<Rightarrow> (('w, 't) CertificateService, go_error option) go" where
  "LoadCertificateFromPair C xname pair =
     (case (fst (pem_Decode C (cp_Certificate pair)), fst (pem_Decode C (cp_PrivateKey pair))) of
        (Some c, Some k) \<Rightarrow> (case X509KeyPair C (pem_Encode C c) (pem_Encode C k) of
            Inl e \<Rightarrow> go_return (Some (Err (''Failed to load X509 Keypair: '' @ Error e)))
          | Inr tlsCert \<Rightarrow> (case ParseCertificate C (pb_Bytes c) of
              Inl e \<Rightarrow> go_return (Some (Err (''Failed to parse certificate: '' @ Error e)))
            | Inr x509Cert \<Rightarrow> (\<lambda>cs. (Ret None, cs\<lparr>cs_Certificates := (cs_Certificates cs)(xname \<mapsto>
                \<lparr> ct_PublicCertificate = cp_Certificate pair, ct_TLS = tlsCert, ct_X509 = x509Cert \<rparr>)\<rparr>))))
      | _ \<Rightarrow> nil_pointer)"

definition LoadDefaultCert :: "('w, 't) crypto \<Rightarrow> string \<Rightarrow> string \<Rightarrow> (('w, 't) CertificateService, go_error option) go" where
  "LoadDefaultCert C certFile keyFile =
     go_bind (on_cs (LoadX509KeyPair C certFile keyFile)) (\<lambda>r. case r of
         Inl e \<Rightarrow> go_return (Some e)
       | Inr tlsCert \<Rightarrow> go_bind (on_cs (cReadFile C certFile)) (\<lambda>r. case r of
           Inl e \<Rightarrow> go_return (Some e)
         | Inr certRaw \<Rightarrow> (case fst (pem_Decode C certRaw) of
             None \<Rightarrow> nil_pointer
           | Some block \<Rightarrow> (case ParseCertificate C (pb_Bytes block) of
               Inl e \<Rightarrow> go_return (Some e)
             | Inr x509Cert \<Rightarrow> (\<lambda>cs. (Ret None, cs\<lparr>cs_Default :=
                 Some \<lparr> ct_PublicCertificate = certRaw, ct_TLS = tlsCert, ct_X509 = x509Cert \<rparr>\<rparr>))))))"

text \<open>What the file watcher does with an event: a removal means that the certificate was replaced.\<close>

datatype fs_op = FsCreate | FsWrite | FsRemove | FsRename | FsChmod

definition watch_event :: "('w, 't) crypto \<Rightarrow> string \<Rightarrow> string \<Rightarrow> fs_op \<Rightarrow> (('w, 't) CertificateService, unit) go" where
  "watch_event C certFile keyFile event =
     (if event = FsRemove then go_bind (LoadDefaultCert C certFile keyFile) (\<lambda>_. go_return ()) else go_return ())"

section \<open>Setting up\<close>

definition init_functions :: "'w redis_ops \<Rightarrow> (string \<Rightarrow> string \<Rightarrow> string \<Rightarrow> ('w hstate, go_error option) go) list" where
  "init_functions R = [initCertificateService R, initCertificateLocations R, initManagerNetworkProtocol R,
     initManagerHTTPSCertificateCollection R, initManagerHTTPSCertificate R]"

text \<open>Functions run in turn until one returns an error.\<close>

fun until_error :: "('s, go_error option) go list \<Rightarrow> ('s, go_error option) go" where
  "until_error [] = go_return None"
| "until_error (m # ms) = go_bind m (\<lambda>err. case err of Some e \<Rightarrow> go_return (Some e) | None \<Rightarrow> until_error ms)"

definition InitForXName :: "'w redis_ops \<Rightarrow> ('w, 't) crypto \<Rightarrow> 'w secure_storage \<Rightarrow> string \<Rightarrow> (('w, 't) CertificateService, go_error option) go" where
  "InitForXName R C S xname = (\<lambda>cs0.
     go_bind (until_error (map (\<lambda>f. on_cs (direct (f xname (cs_BmcID cs0) (cs_CertificateID cs0)))) (init_functions R))) (\<lambda>err.
       case err of
         Some e \<Rightarrow> go_return (Some e)
       | None \<Rightarrow>
           go_bind (case cs_Store cs0 of
               None \<Rightarrow> go_return None
             | Some keyPath \<Rightarrow> go_bind (on_cs (GetCertificatePair S keyPath xname)) (\<lambda>r. case r of
                 Inl e \<Rightarrow> go_return (if e = ErrNotFound then None else Some e)
               | Inr pair \<Rightarrow> LoadCertificateFromPair C xname pair)) (\<lambda>err.
             case err of
               Some e \<Rightarrow> go_return (Some e)
             | None \<Rightarrow> (\<lambda>cs. (Ret None, cs\<lparr>cs_KnownDevices := (cs_KnownDevices cs)(xname \<mapsto> True)\<rparr>)))) cs0)"

text \<open>The connection to the secure storage is tried until it succeeds; the fuel counts the attempts.\<close>

fun connect_loop :: "('w, go_error + unit) go \<Rightarrow> nat \<Rightarrow> ('w, unit) go" where
  "connect_loop adapter 0 = go_nofuel"
| "connect_loop adapter (Suc n) = go_bind adapter (\<lambda>r. case r of Inr _ \<Rightarrow> go_return () | Inl _ \<Rightarrow> connect_loop adapter n)"

definition connectToVault :: "('w, 'e) services \<Rightarrow> ('w, go_error + unit) go \<Rightarrow> nat \<Rightarrow> ('w, bool) go" where
  "connectToVault V adapter n = (case LookupEnv V ''VAULT_ADDR'' of
      None \<Rightarrow> go_return False
    | Some _ \<Rightarrow> go_bind (connect_loop adapter n) (\<lambda>_. go_return True))"

definition Cert_SetupBackendHelper :: "('w, 'e) services \<Rightarrow> ('w, go_error + unit) go \<Rightarrow> nat \<Rightarrow> (('w, 't) CertificateService, go_error option) go" where
  "Cert_SetupBackendHelper V adapter n =
     go_bind (modifies (\<lambda>cs. cs\<lparr>cs_KnownDevices := Map.empty, cs_Certificates := Map.empty\<rparr>)) (\<lambda>_.
       case LookupEnv V ''CERTIFICATE_VAULT_KEYPATH'' of
         None \<Rightarrow> go_return None
       | Some keyPath \<Rightarrow>
           if keyPath = [] then go_return None
           else go_bind (on_cs (connectToVault V adapter n)) (\<lambda>connected.
             if \<not> connected then go_fatal ''Unable to connect to Vault''
             else (\<lambda>cs. (Ret None, cs\<lparr>cs_Store := Some keyPath\<rparr>))))"

section \<open>Requests\<close>

definition name_cmds :: "string \<Rightarrow> x509_name \<Rightarrow> rcmd list" where
  "name_cmds keyspace n =
     [CmdSet (filepath_Join [keyspace, ''City'']) (Join (nm_Locality n) '' ''),
      CmdSet (filepath_Join [keyspace, ''CommonName'']) (nm_CommonName n),
      CmdSet (filepath_Join [keyspace, ''Country'']) (Join (nm_Country n) '' ''),
      CmdSet (filepath_Join [keyspace, ''Organization'']) (Join (nm_Organization n) '' ''),
      CmdSet (filepath_Join [keyspace, ''OrganizationalUnit'']) (Join (nm_OrganizationalUnit n) '' ''),
      CmdSet (filepath_Join [keyspace, ''State'']) (Join (nm_Province n) '' '')]"

text \<open>The commands that are queued for the certificate of a device.\<close>

definition populateCertificate :: "string \<Rightarrow> string \<Rightarrow> string \<Rightarrow> 't CertificateTuple \<Rightarrow> rcmd list" where
  "populateCertificate xname bmcID certID cert =
     (let keyspace = filepath_Join [xname, ManagersKeyspace, bmcID, ''NetworkProtocol'', ''HTTPS'', ''Certificates'', certID] in
      [CmdSet (filepath_Join [keyspace, ''CertificateString'']) (ct_PublicCertificate cert),
       CmdSet (filepath_Join [keyspace, ''CertificateType'']) ''PEM'',
       CmdSet (filepath_Join [keyspace, ''ValidNotAfter'']) (x_NotAfter (ct_X509 cert)),
       CmdSet (filepath_Join [keyspace, ''ValidNotBefore'']) (x_NotBefore (ct_X509 cert))] @
      name_cmds (filepath_Join [keyspace, ''Issuer'']) (x_Issuer (ct_X509 cert)) @
      name_cmds (filepath_Join [keyspace, ''Subject'']) (x_Subject (ct_X509 cert)))"

text \<open>Populating and executing the pipeline; the error of the execution is returned.\<close>

definition populate :: "'w redis_ops \<Rightarrow> string \<Rightarrow> (('w, 't) CertificateService, go_error option) go" where
  "populate R xname = (\<lambda>cs. case GetCertificate xname cs of
      None \<Rightarrow> nil_pointer cs
    | Some cert \<Rightarrow> on_cs (Exec R (populateCertificate xname (cs_BmcID cs) (cs_CertificateID cs) cert)) cs)"

definition is_space :: "char \<Rightarrow> bool" where
  "is_space c = List.member [CHR '' '', CHR 0x09, CHR 0x0A, CHR 0x0C, CHR 0x0D] c"

text \<open>
  The key after the xnames: the last group of \<open>(<xname>)*(/redfish/v1\S+$)\<close>. A match has always both
  groups, and the last one is the longest rest of the key that has the form.
\<close>

fun full_key :: "string \<Rightarrow> string option" where
  "full_key [] = None"
| "full_key (c # s) =
     (let rest = drop (length ServiceRootKeyspace) (c # s) in
      if HasPrefix (c # s) ServiceRootKeyspace \<and> rest \<noteq> [] \<and> list_all (\<lambda>x. \<not> is_space x) rest then Some (c # s)
      else full_key s)"

definition GetEnvForXname_cert :: "string \<Rightarrow> (string \<times> string) list" where
  "GetEnvForXname_cert xname = [(''RTS_XNAME'', xname)]"

definition replace_certificate :: "'w redis_ops \<Rightarrow> ('w, 't) crypto \<Rightarrow> 'w secure_storage \<Rightarrow> string \<Rightarrow> string \<Rightarrow> (string \<times> string) list \<Rightarrow>
    (('w, 't) CertificateService, go_error + string) go" where
  "replace_certificate R C S xname managerHTTPSCertificateKeyspace env =
     (case map_of env ''CertificateUri'' of
        None \<Rightarrow> go_return (Inl (Err ''CertificateUri was not provided in the certificate replace request''))
      | Some certificateURI \<Rightarrow> (case map_of env ''CertificateType'' of
          None \<Rightarrow> go_return (Inl (Err ''CertificateType was not provided in the certificate replace request''))
        | Some certificateType \<Rightarrow>
            if certificateType \<noteq> ''PEM'' then
              go_return (Inl (Err ''Unsupported CertificateType provided in the certificate replace request''))
            else (case map_of env ''CertificateString'' of
              None \<Rightarrow> go_return (Inl (Err ''CertificateString was not provided in the certificate replace request''))
            | Some certificateString \<Rightarrow>
                if certificateURI \<noteq> managerHTTPSCertificateKeyspace then go_return (Inl (Err ''Unknown Certificate URI''))
                else
                  go_check (ParseCertificatePairFromString C certificateString) (\<lambda>certPair.
                  go_bind (LoadCertificateFromPair C xname certPair) (\<lambda>err. case err of
                      Some e \<Rightarrow> go_return (Inl e)
                    | None \<Rightarrow> (\<lambda>cs.
                        go_bind (case cs_Store cs of
                            None \<Rightarrow> go_return None
                          | Some keyPath \<Rightarrow> on_cs (StoreCertificatePair S keyPath xname certPair)) (\<lambda>err. case err of
                              Some e \<Rightarrow> go_return (Inl (Err (''Unable to store certifcate pair in Vault: '' @ Error e)))
                            | None \<Rightarrow> go_bind (populate R xname) (\<lambda>err.
                                go_return (case err of Some e \<Rightarrow> Inl e | None \<Rightarrow> Inr []))) cs))))))"

definition Cert_RunBackendHelper :: "'w redis_ops \<Rightarrow> ('w, 't) crypto \<Rightarrow> 'w secure_storage \<Rightarrow> string \<Rightarrow> (string \<times> string) list \<Rightarrow>
    (('w, 't) CertificateService, go_error + string) go" where
  "Cert_RunBackendHelper R C S key env = (case map_of env ''RTS_XNAME'' of
      None \<Rightarrow> go_return (Inl (Err ''RTS_XNAME not in environment variables''))
    | Some xname \<Rightarrow> (\<lambda>cs.
        if cs_KnownDevices cs xname = None then (Ret (Inl (Err (''unknown xname: '' @ xname))), cs)
        else case full_key key of
          None \<Rightarrow> (Ret (Inl (Err ''key format not what expected'')), cs)
        | Some fullKey \<Rightarrow>
            (let certKeyspace = filepath_Join [ManagersKeyspace, cs_BmcID cs, ''NetworkProtocol/HTTPS/Certificates'', cs_CertificateID cs] in
             if HasPrefix fullKey certKeyspace then
               go_bind (populate R xname) (\<lambda>err. case err of
                   Some e \<Rightarrow> go_return (Inl e)
                 | None \<Rightarrow> on_cs (rGet R key)) cs
             else if fullKey = ''/redfish/v1/CertificateService/Actions/CertificateService.ReplaceCertificate'' then
               replace_certificate R C S xname certKeyspace env cs
             else (Ret (Inl ErrBackendContinue), cs))))"

end
