(* ===== verification/Switch_Backend.thy ===== *)
theory Switch_Backend
  imports Certificate_Service
begin

text \<open>
  The backend for management switches (\<open>internal/backend_helpers/snmpSwitch.go\<close>) with the clients it
  calls (\<open>internal/snmp_utilities\<close>, \<open>internal/slsapi\<close>, \<open>internal/rfdispatcher/rts_credential_store\<close>),
  and the mock backend (\<open>mock.go\<close>). The SNMP session, the transport to the layout service and the secure
  storage are functions that are given. A pipeline is a queue beside the world. \<open>RunPeriodic\<close> starts a
  goroutine for each new device; in the model they run one after the other.
\<close>

section \<open>SNMP\<close>

record EntityPhysicalTable =
  pt_Index :: string
  pt_Descr :: string
  pt_Name :: string
  pt_HardwareRev :: string
  pt_FirmwareRev :: string
  pt_SoftwareRev :: string
  pt_SerialNum :: string
  pt_MfgName :: string
  pt_ModelName :: string
  pt_Alias :: string
  pt_AssetID :: string
  pt_UUID :: string

datatype SecurityLevel = NoAuthNoPriv | AuthNoPriv | AuthPriv

record SNMPArguments =
  sa_Address :: string
  sa_Retries :: int
  sa_UserName :: string
  sa_SecurityLevel :: SecurityLevel
  sa_AuthPassword :: string
  sa_AuthProtocol :: string
  sa_PrivPassword :: string
  sa_PrivProtocol :: string

text \<open>An answer: the status, unless it is no error, and the bindings of dotted object identifiers.\<close>

record snmp_pdu =
  pd_ErrorStatus :: "string option"
  pd_VarBinds :: "(string \<times> string) list"

record 'w snmp_session =
  snNewOids :: "string list \<Rightarrow> go_error option"
  snOpen :: "('w, go_error option) go"
  snClose :: "('w, unit) go"
  snGetBulkWalk :: "string list \<Rightarrow> ('w, go_error + snmp_pdu) go"
  snGetRequest :: "string list \<Rightarrow> ('w, go_error + snmp_pdu) go"

record 'w RealSNMP =
  rs_SNMP :: "'w snmp_session"
  rs_SnmpIndex :: string

definition snmp_arguments :: "string \<Rightarrow> string \<Rightarrow> string \<Rightarrow> string \<Rightarrow> string \<Rightarrow> string \<Rightarrow> SNMPArguments" where
  "snmp_arguments address user authPassword authProtocol privPassword privProtocol =
     (let level = (if ToLower authProtocol = ''none'' then NoAuthNoPriv
                   else if ToLower privProtocol = ''none'' then AuthNoPriv else AuthPriv)
      in \<lparr> sa_Address = (if Contains address '':'' then address else address @ '':161''), sa_Retries = 5, sa_UserName = user,
           sa_SecurityLevel = level, sa_AuthPassword = authPassword,
           sa_AuthProtocol = (if level = NoAuthNoPriv then [] else if ToLower authProtocol = ''sha'' then ''SHA'' else ''MD5''),
           sa_PrivPassword = privPassword,
           sa_PrivProtocol = (if level \<noteq> AuthPriv then [] else if ToLower privProtocol = ''aes'' then ''AES'' else ''DES'') \<rparr>)"

definition NewSNMPInterface :: "(SNMPArguments \<Rightarrow> go_error + 'w snmp_session) \<Rightarrow> string \<Rightarrow> string \<Rightarrow> string \<Rightarrow> string \<Rightarrow> string \<Rightarrow> string \<Rightarrow>
    go_error + 'w RealSNMP" where
  "NewSNMPInterface newSNMP address user authPassword authProtocol privPassword privProtocol =
     (case newSNMP (snmp_arguments address user authPassword authProtocol privPassword privProtocol) of
        Inl e \<Rightarrow> Inl e
      | Inr s \<Rightarrow> Inr \<lparr> rs_SNMP = s, rs_SnmpIndex = [] \<rparr>)"

text \<open>The session is closed on every way out once it has been opened.\<close>

definition snmpGet :: "'w snmp_session \<Rightarrow> string list \<Rightarrow> bool \<Rightarrow> ('w, go_error + (string \<times> string) list) go" where
  "snmpGet snmp oids walk = (case snNewOids snmp oids of
      Some e \<Rightarrow> go_return (Inl e)
    | None \<Rightarrow>
        go_bind (snOpen snmp) (\<lambda>err. case err of
            Some e \<Rightarrow> go_return (Inl e)
          | None \<Rightarrow>
              go_bind (if walk then snGetBulkWalk snmp oids else snGetRequest snmp oids) (\<lambda>r.
              go_bind (snClose snmp) (\<lambda>_. go_return (case r of
                  Inl e \<Rightarrow> Inl e
                | Inr result \<Rightarrow> (case pd_ErrorStatus result of
                    Some status \<Rightarrow> Inl (Err status)
                  | None \<Rightarrow> Inr (pd_VarBinds result)))))))"

definition OIDEntPhysicalClass :: string where
  "OIDEntPhysicalClass = ''1.3.6.1.2.1.47.1.1.1.1.5''"

definition IANAPhysicalClassChassis :: string where
  "IANAPhysicalClassChassis = ''3''"

definition OIDEntPhysicalEntryTable :: "string list" where
  "OIDEntPhysicalEntryTable = map (\<lambda>n. ''1.3.6.1.2.1.47.1.1.1.1.'' @ n)
     [''2'', ''7'', ''8'', ''9'', ''10'', ''11'', ''12'', ''13'', ''14'', ''15'', ''19'']"

text \<open>An identifier is in the tree of another when it extends it by whole components.\<close>

definition oid_under :: "string \<Rightarrow> string \<Rightarrow> bool" where
  "oid_under base oid \<longleftrightarrow> oid = base \<or> HasPrefix oid (base @ ''.'')"

definition snmpGetIndex :: "'w snmp_session \<Rightarrow> ('w, go_error + string) go" where
  "snmpGetIndex snmp = go_check (snmpGet snmp [OIDEntPhysicalClass] True) (\<lambda>result.
     (let vbs = filter (\<lambda>(oid, _). oid_under OIDEntPhysicalClass oid) result in
      go_return (case find (\<lambda>(_, v). v = IANAPhysicalClassChassis) vbs of
          None \<Rightarrow> Inl (Err ''Unable to determine switch chassis index'')
        | Some (oid, _) \<Rightarrow> Inr (last (Split1 oid CHR ''.'')))))"

definition getPhysicalTableOIDsForIndex :: "string \<Rightarrow> string list" where
  "getPhysicalTableOIDsForIndex index = map (\<lambda>oid. oid @ ''.'' @ index) OIDEntPhysicalEntryTable"

text \<open>The value of an identifier; a missing binding is a nil pointer.\<close>

definition MatchOid :: "(string \<times> string) list \<Rightarrow> string \<Rightarrow> ('w, string) go" where
  "MatchOid vbs oid = (case map_of vbs oid of Some v \<Rightarrow> go_return v | None \<Rightarrow> nil_pointer)"

fun match_all :: "(string \<times> string) list \<Rightarrow> string list \<Rightarrow> ('w, string list) go" where
  "match_all vbs [] = go_return []"
| "match_all vbs (oid # oids) = go_bind (MatchOid vbs oid) (\<lambda>v. go_bind (match_all vbs oids) (\<lambda>vs. go_return (v # vs)))"

definition physical_table :: "string \<Rightarrow> string list \<Rightarrow> EntityPhysicalTable" where
  "physical_table index vs = \<lparr> pt_Index = index, pt_Descr = vs ! 0, pt_Name = vs ! 1, pt_HardwareRev = vs ! 2,
     pt_FirmwareRev = vs ! 3, pt_SoftwareRev = vs ! 4, pt_SerialNum = vs ! 5, pt_MfgName = vs ! 6, pt_ModelName = vs ! 7,
     pt_Alias = vs ! 8, pt_AssetID = vs ! 9, pt_UUID = vs ! 10 \<rparr>"

text \<open>The index that is found is kept in a copy of the interface only, so it is looked up every time.\<close>

definition GetPhysicalTable :: "'w RealSNMP \<Rightarrow> ('w, go_error + EntityPhysicalTable) go" where
  "GetPhysicalTable snmpInterface =
     go_bind (if rs_SnmpIndex snmpInterface = [] then snmpGetIndex (rs_SNMP snmpInterface)
              else go_return (Inr (rs_SnmpIndex snmpInterface))) (\<lambda>r. case r of
         Inl idxErr \<Rightarrow> go_return (Inl (Err (''failed to get SNMP switch chassis index: '' @ Error idxErr)))
       | Inr index \<Rightarrow>
           go_bind (snmpGet (rs_SNMP snmpInterface) (getPhysicalTableOIDsForIndex index) False) (\<lambda>r. case r of
               Inl getErr \<Rightarrow> go_return (Inl (Err (''failed to perform SNMP get: '' @ Error getErr)))
             | Inr vbs \<Rightarrow> go_bind (match_all vbs (getPhysicalTableOIDsForIndex index)) (\<lambda>vs.
                 go_return (Inr (physical_table index vs)))))"

section \<open>The layout service\<close>

record ManagementSwitch =
  ms_Xname :: string
  ms_IP4Addr :: string
  ms_SNMPAuthProtocol :: string
  ms_SNMPPrivProtocol :: string
  ms_Aliases :: "string list"

text \<open>The transport, the unmarshalling of its answers, and the address, if there is one.\<close>

record 'w SLS =
  sls_Url :: "string option"
  sls_Do :: "string \<Rightarrow> ('w, go_error + int \<times> (go_error + string)) go"
  sls_Unmarshal :: "string \<Rightarrow> go_error + ManagementSwitch list"

definition doRequest :: "'w SLS \<Rightarrow> string \<Rightarrow> ('w, go_error + string) go" where
  "doRequest sls uri = go_check (sls_Do sls uri) (\<lambda>(code, body). go_return (case body of
      Inl e \<Rightarrow> Inl e
    | Inr b \<Rightarrow> if code \<noteq> 200 then Inl (Err b) else Inr b))"

definition GetSwitchInfo :: "'w SLS \<Rightarrow> string \<Rightarrow> ('w, go_error + ManagementSwitch list) go" where
  "GetSwitchInfo sls switchType = (case sls_Url sls of
      None \<Rightarrow> go_return (Inl (Err ''SLS struct has no URL''))
    | Some url \<Rightarrow> go_check (doRequest sls (url @ ''/search/hardware?type='' @ switchType)) (\<lambda>body.
        go_return (sls_Unmarshal sls body)))"

fun switch_types_loop :: "'w SLS \<Rightarrow> string list \<Rightarrow> ManagementSwitch list \<Rightarrow> ('w, go_error + ManagementSwitch list) go" where
  "switch_types_loop sls [] switchHardware = go_return (Inr switchHardware)"
| "switch_types_loop sls (switchType # rest) switchHardware =
     go_check (GetSwitchInfo sls switchType) (\<lambda>mgmtSwitches. switch_types_loop sls rest (switchHardware @ mgmtSwitches))"

definition GetAllSwitchInfo :: "'w SLS \<Rightarrow> ('w, go_error + ManagementSwitch list) go" where
  "GetAllSwitchInfo sls = (case sls_Url sls of
      None \<Rightarrow> go_return (Inl (Err ''SLS struct has no URL''))
    | Some _ \<Rightarrow> switch_types_loop sls [''comptype_mgmt_switch'', ''comptype_hl_switch'', ''comptype_cdu_mgmt_switch''] [])"

section \<open>Backends\<close>

record Credential =
  cr_Username :: string
  cr_Password :: string

text \<open>What the backends are given.\<close>

record ('w, 'e, 't) platform =
  pf_redis :: "'w redis_ops"
  pf_more :: "'w redis_more"
  pf_services :: "('w, 'e) services"
  pf_crypto :: "('w, 't) crypto"
  pf_storage :: "'w secure_storage"
  pf_credentials :: "string \<Rightarrow> ('w, Credential \<times> go_error option) go"
  pf_vault :: "('w, go_error + unit) go"
  pf_hash :: "string \<Rightarrow> ('w, go_error + string) go"
  pf_newSNMP :: "SNMPArguments \<Rightarrow> go_error + 'w snmp_session"
  pf_sleep :: "('w, unit) go"

text \<open>The state of a backend: the certificate service, which holds the world, and the pipeline of its helper.\<close>

record ('w, 't) backend =
  be_certs :: "('w, 't) CertificateService"
  be_pipe :: "rcmd list option"

definition on_certs :: "(('w, 't) CertificateService, 'a) go \<Rightarrow> (('w, 't, 'z) backend_scheme, 'a) go" where
  "on_certs m = (\<lambda>s. case m (be_certs s) of (r, c) \<Rightarrow> (r, s\<lparr>be_certs := c\<rparr>))"

definition on_helper :: "('w hstate, 'a) go \<Rightarrow> (('w, 't, 'z) backend_scheme, 'a) go" where
  "on_helper m = (\<lambda>s. case m \<lparr>hs_world = cs_world (be_certs s), hs_pipe = be_pipe s\<rparr> of (r, h) \<Rightarrow>
     (r, s\<lparr>be_certs := (be_certs s)\<lparr>cs_world := hs_world h\<rparr>, be_pipe := hs_pipe h\<rparr>))"

definition on_be :: "('w, 'a) go \<Rightarrow> (('w, 't, 'z) backend_scheme, 'a) go" where
  "on_be m = on_certs (on_cs m)"

definition GetGlobalCredentials :: "('w, 'e, 't) platform \<Rightarrow> string \<Rightarrow> ('w, go_error + Credential) go" where
  "GetGlobalCredentials P keyPath =
     go_bind (pf_credentials P (filepath_Join [keyPath, ''global/rts''])) (\<lambda>(cred, err). go_return (
       if cr_Password cred = [] \<or> cr_Username cred = [] then Inl (Err ''empty username or password'')
       else case err of Some e \<Rightarrow> Inl e | None \<Rightarrow> Inr cred))"

section \<open>The mock backend\<close>

definition Mock_SetupBackendHelper :: "('w, 'e, 't) platform \<Rightarrow> (('w, 't, 'z) backend_scheme, go_error option) go" where
  "Mock_SetupBackendHelper P =
     (let R = pf_redis P; xname = ''localhost'' in
      case LookupEnv (pf_services P) ''MOCKBACKEND_ROOT_PASSWORD'' of
        None \<Rightarrow> go_return (Some (Err ''environment variable MOCKBACKEND_ROOT_PASSWORD is not defined''))
      | Some password \<Rightarrow> until_error
          [on_helper (initAccount R (pf_hash P password) ''root'' ''Administrator''),
           on_helper (initManagerCollection R xname),
           on_helper (initManager R xname GenericBmcID ''Mock''),
           on_certs (SetupCertificateService GenericBmcID GenericCertificateID),
           on_certs (InitForXName R (pf_crypto P) (pf_storage P) xname)])"

definition Mock_RunBackendHelper :: "string \<Rightarrow> (string \<times> string) list \<Rightarrow> ('s, go_error + string) go" where
  "Mock_RunBackendHelper key env = go_return (Inl MockNoOpError)"

section \<open>Switches\<close>

text \<open>An interface that was never set is \<open>None\<close>.\<close>

record 'w SNMPDevice =
  sd_Xname :: string
  sd_SNMP :: "'w RealSNMP option"

record ('w, 't) SNMPSwitchHelper = "('w, 't) backend" +
  sw_SLS :: "'w SLS"
  sw_KeyPath :: string
  sw_KnownDevices :: "string \<rightharpoonup> 'w SNMPDevice"

definition initChassis :: "'w redis_ops \<Rightarrow> string \<Rightarrow> EntityPhysicalTable \<Rightarrow> ('w hstate, go_error option) go" where
  "initChassis R xname switchInfo =
     go_bind (addMemberToSet R (filepath_Join [xname, ServiceRootKeyspace]) ''Chassis'') (\<lambda>(chassisKeyspace, _).
     go_bind (calls
       [setValueForPropertyInKeyspace R chassisKeyspace ''Name'' ''Chassis Collection'',
        addMemberToSet R chassisKeyspace ''@odata.id'',
        addMemberToSet R chassisKeyspace ''@odata.type'',
        addMemberToSet R chassisKeyspace ''Members'']) (\<lambda>_.
     go_bind (addMemberToArray R chassisKeyspace ''Members'') (\<lambda>(thisMemberKeyspace, addErr). case addErr of
         Some _ \<Rightarrow> go_return (Some (Err (''unable to add member to array for device: '' @ xname)))
       | None \<Rightarrow>
           (let newInstanceKeyspace = chassisKeyspace @ ''/EthernetSwitch_0'' in
            go_bind (calls
              [setValueForPropertyInKeyspace R thisMemberKeyspace ''@odata.id'' newInstanceKeyspace,
               addMemberToSet R newInstanceKeyspace ''@odata.id'',
               addMemberToSet R newInstanceKeyspace ''@odata.type'',
               setValueForPropertyInKeyspace R newInstanceKeyspace ''Name'' (pt_Descr switchInfo),
               setValueForPropertyInKeyspace R newInstanceKeyspace ''Id'' ''EthernetSwitch_0'',
               setValueForPropertyInKeyspace R newInstanceKeyspace ''ChassisType'' ''Drawer'',
               setValueForPropertyInKeyspace R newInstanceKeyspace ''Manufacturer'' (pt_MfgName switchInfo),
               setValueForPropertyInKeyspace R newInstanceKeyspace ''Model'' (pt_ModelName switchInfo),
               setValueForPropertyInKeyspace R newInstanceKeyspace ''SerialNumber'' (pt_SerialNum switchInfo),
               setValueForPropertyInKeyspace R newInstanceKeyspace ''AssetTag'' (pt_AssetID switchInfo),
               setValueForPropertyInKeyspace R newInstanceKeyspace ''PowerState'' ''On'',
               setValueForPropertyInKeyspace R newInstanceKeyspace ''UUID'' (pt_UUID switchInfo)]) (\<lambda>_.
            go_bind (addMemberToSet R newInstanceKeyspace ''Status'') (\<lambda>(statusKeyspace, _).
            go_bind (calls
              [addMemberToSet R statusKeyspace ''State'',
               setValueForPropertyInKeyspace R statusKeyspace ''Health'' ''OK'']) (\<lambda>_. go_return None)))))))"

definition initManagers :: "'w redis_ops \<Rightarrow> string \<Rightarrow> EntityPhysicalTable \<Rightarrow> ('w hstate, go_error option) go" where
  "initManagers R xname switchInfo =
     go_bind (initManagerCollection R xname) (\<lambda>err. case err of
         Some e \<Rightarrow> go_return (Some (Err (''unable to init manager collection for '' @ xname @ '': '' @ Error e)))
       | None \<Rightarrow> go_bind (initManager R xname ''RTS'' ''SNMP Switch'') (\<lambda>err. go_return (case err of
           Some e \<Rightarrow> Some (Err (''unable to init manager for '' @ xname @ '': '' @ Error e))
         | None \<Rightarrow> None)))"

text \<open>The keys of the service root that all devices share.\<close>

definition root_keys :: "'w redis_ops \<Rightarrow> string option \<Rightarrow> ('w hstate, unit) go" where
  "root_keys R version =
     go_bind (addMemberToSet R ''/redfish'' ''v1'') (\<lambda>(rootKeyspace, _).
       calls ([setValueForPropertyInKeyspace R rootKeyspace ''Name'' ''Service Root'',
          setValueForPropertyInKeyspace R rootKeyspace ''Description'' ''The Redfish ServiceRoot'',
          addMemberToSet R rootKeyspace ''@odata.id'',
          addMemberToSet R rootKeyspace ''@odata.type''] @
         (case version of None \<Rightarrow> [] | Some versionStr \<Rightarrow> [setValueForPropertyInKeyspace R rootKeyspace ''RedfishVersion'' versionStr]) @
         [addMemberToSet R rootKeyspace ''Chassis'', addMemberToSet R rootKeyspace ''Managers'']))"

text \<open>Functions run with a pipeline, which is dropped when one of them fails and executed otherwise.\<close>

definition in_pipeline :: "'w redis_ops \<Rightarrow> ('w hstate, go_error option) go list \<Rightarrow> ('w hstate, go_error option) go" where
  "in_pipeline R ms =
     go_bind (modifies (\<lambda>h. h\<lparr>hs_pipe := Some []\<rparr>)) (\<lambda>_.
     go_bind (until_error ms) (\<lambda>err. case err of
         Some e \<Rightarrow> go_bind (modifies (\<lambda>h. h\<lparr>hs_pipe := None\<rparr>)) (\<lambda>_. go_return (Some e))
       | None \<Rightarrow>
           go_bind (gets (\<lambda>h. case hs_pipe h of Some q \<Rightarrow> q | None \<Rightarrow> [])) (\<lambda>q.
           go_bind (modifies (\<lambda>h. h\<lparr>hs_pipe := None\<rparr>)) (\<lambda>_. on_world (Exec R q)))))"

fun ready_loop :: "('w, 'e) services \<Rightarrow> ('w, unit) go \<Rightarrow> nat \<Rightarrow> string \<Rightarrow> ('w, unit) go" where
  "ready_loop V sleep 0 xname = go_return ()"
| "ready_loop V sleep (Suc n) xname =
     go_bind (checkReady V xname) (\<lambda>rdyErr. case rdyErr of
         None \<Rightarrow> go_return ()
       | Some _ \<Rightarrow> go_bind sleep (\<lambda>_. ready_loop V sleep n xname))"

text \<open>The address of a switch: its first alias on the management network, or its IP address.\<close>

definition switch_addr :: "ManagementSwitch \<Rightarrow> string option" where
  "switch_addr device = (case ms_Aliases device of
      [] \<Rightarrow> if ms_IP4Addr device = [] then None else Some (ms_IP4Addr device)
    | a # _ \<Rightarrow> Some (if HasSuffix a ''.hmn'' then a else a @ ''.hmn''))"

definition check_creds :: "CompCredentials \<Rightarrow> go_error option" where
  "check_creds cred =
     (if length (cc_Username cred) < 1 then Some (Err ''zero length username in credentials, skipping initialization'')
      else if length (cc_SNMPAuthPass cred) < 1 then Some (Err ''zero length SNMPAuthPass in credentials, skipping initialization'')
      else if length (cc_SNMPPrivPass cred) < 1 then Some (Err ''zero length SNMPPrivPass in credentials, skipping initialization'')
      else None)"

text \<open>Everything that follows once the switch has answered: the keys, the account, the names, the registration.\<close>

definition announce :: "('w, 'e, 't) platform \<Rightarrow> string \<Rightarrow> CompCredentials \<Rightarrow> EntityPhysicalTable \<Rightarrow> (('w, 't, 'z) backend_scheme, go_error option) go" where
  "announce P xname cred switchInfo =
     (let R = pf_redis P; V = pf_services P in until_error
       [on_helper (removeXnamePrependedKeys R (pf_more P) xname),
        on_helper (go_bind (root_keys R (LookupEnv V ''SCHEMA_VERSION'')) (\<lambda>_. go_return None)),
        on_helper (in_pipeline R [initChassis R xname switchInfo, initManagers R xname switchInfo]),
        on_helper (initAccount R (pf_hash P (cc_Password cred)) (cc_Username cred) ''Administrator''),
        on_certs (InitForXName R (pf_crypto P) (pf_storage P) xname),
        on_be (informDNS V (xname @ ''-rts'')),
        on_be (go_bind (StoreCompCred V cred) (\<lambda>r. go_return (case r of Inl e \<Rightarrow> Some e | Inr _ \<Rightarrow> None))),
        on_be (go_bind (ready_loop V (pf_sleep P) 30 xname) (\<lambda>_. go_return None)),
        on_be (informHSMWithFQDN V xname (cc_URL cred))])"

text \<open>
  The device and an error. Without an address in the layout service the function returns the empty
  device and no error.
\<close>

definition no_device :: "'w SNMPDevice" where
  "no_device = \<lparr> sd_Xname = [], sd_SNMP = None \<rparr>"

definition initDevice :: "('w, 'e, 't) platform \<Rightarrow> string \<Rightarrow> string \<Rightarrow> ManagementSwitch \<Rightarrow>
    (('w, 't, 'z) backend_scheme, 'w SNMPDevice \<times> go_error option) go" where
  "initDevice P keyPath xname device =
     go_bind (on_be (GetCompCred (pf_services P) (ms_Xname device))) (\<lambda>c. case c of
         Inl e \<Rightarrow> go_return (no_device, Some e)
       | Inr cred0 \<Rightarrow> (case check_creds cred0 of
           Some e \<Rightarrow> go_return (no_device, Some e)
         | None \<Rightarrow>
             go_bind (on_be (GetGlobalCredentials P keyPath)) (\<lambda>g. case g of
                 Inl e \<Rightarrow> go_return (no_device, Some e)
               | Inr globCreds \<Rightarrow>
                   (let cred = cred0\<lparr> cc_Password := cr_Password globCreds, cc_URL := xname @ ''-rts:8083'' \<rparr> in
                    case switch_addr device of
                      None \<Rightarrow> go_return (no_device, None)
                    | Some addr \<Rightarrow>
                        (case NewSNMPInterface (pf_newSNMP P) addr (cc_Username cred) (cc_SNMPAuthPass cred) (ms_SNMPAuthProtocol device)
                            (cc_SNMPPrivPass cred) (ms_SNMPPrivProtocol device) of
                           Inl e \<Rightarrow> go_return (no_device, Some e)
                         | Inr snmp \<Rightarrow>
                             (let snmpDevice = \<lparr> sd_Xname = xname, sd_SNMP = Some snmp \<rparr> in
                              go_bind (on_be (GetPhysicalTable snmp)) (\<lambda>t. case t of
                                  Inl e \<Rightarrow> go_return (snmpDevice, Some e)
                                | Inr switchInfo \<Rightarrow> go_bind (announce P xname cred switchInfo) (\<lambda>err. go_return (snmpDevice, err)))))))))"

definition discover :: "('w, 'e, 't) platform \<Rightarrow> ManagementSwitch \<Rightarrow> go_error option \<Rightarrow> (('w, 't) SNMPSwitchHelper, go_error option) go" where
  "discover P device err = (\<lambda>s.
     go_bind (initDevice P (sw_KeyPath s) (ms_Xname device) device) (\<lambda>(snmpDevice, initErr). case initErr of
         Some e \<Rightarrow> go_return (Some (Err (''unable to initialize device: '' @ Error e)))
       | None \<Rightarrow> go_bind (modifies (\<lambda>s. s\<lparr>sw_KnownDevices := (sw_KnownDevices s)(ms_Xname device \<mapsto> snmpDevice)\<rparr>)) (\<lambda>_.
           go_return err)) s)"

fun discover_all :: "('w, 'e, 't) platform \<Rightarrow> ManagementSwitch list \<Rightarrow> go_error option \<Rightarrow> (('w, 't) SNMPSwitchHelper, go_error option) go" where
  "discover_all P [] err = go_return err"
| "discover_all P (device # devices) err = go_bind (discover P device err) (discover_all P devices)"

definition Switch_RunPeriodic :: "('w, 'e, 't) platform \<Rightarrow> (('w, 't) SNMPSwitchHelper, go_error option) go" where
  "Switch_RunPeriodic P = (\<lambda>s.
     go_bind (on_be (GetAllSwitchInfo (sw_SLS s))) (\<lambda>r. case r of
         Inl e \<Rightarrow> go_return (Some e)
       | Inr devices \<Rightarrow> discover_all P (filter (\<lambda>d. sw_KnownDevices s (ms_Xname d) = None) devices) None) s)"

definition setupCompCredsVault :: "('w, 'e) services \<Rightarrow> bool" where
  "setupCompCredsVault V = (LookupEnv V ''HMS_VAULT_KEYPATH'' \<noteq> None)"

text \<open>\<open>newSLS\<close> makes the client of the layout service from its address.\<close>

definition Switch_SetupBackendHelper :: "('w, 'e, 't) platform \<Rightarrow> (string \<Rightarrow> 'w SLS) \<Rightarrow> nat \<Rightarrow> (('w, 't) SNMPSwitchHelper, go_error option) go" where
  "Switch_SetupBackendHelper P newSLS n =
     (let V = pf_services P in
      case LookupEnv V ''SLS_URL'' of
        None \<Rightarrow> go_fatal ''Environment variable slsURL was not set''
      | Some slsURL \<Rightarrow> go_bind (modifies (\<lambda>s. s\<lparr>sw_SLS := newSLS slsURL\<rparr>)) (\<lambda>_.
          case LookupEnv V ''JAWS_VAULT_KEYPATH'' of
            None \<Rightarrow> go_fatal ''Environment variable JAWS_VAULT_KEYPATH was not set''
          | Some keyPath \<Rightarrow>
              go_bind (on_be (connectToVault V (pf_vault P) n)) (\<lambda>connected.
                if \<not> connected then go_fatal ''Unable to connect to Vault''
                else
                  go_bind (modifies (\<lambda>s. s\<lparr>sw_KeyPath := keyPath\<rparr>)) (\<lambda>_.
                    if \<not> setupCompCredsVault V then go_fatal ''Failed to setup CompCredsVault''
                    else go_bind (on_be (GetGlobalCredentials P keyPath)) (\<lambda>g. case g of
                        Inl e \<Rightarrow> go_fatal ''Unable to get default credentails for RTS''
                      | Inr creds \<Rightarrow> until_error
                          [on_helper (initAccount (pf_redis P) (pf_hash P (cr_Password creds)) (cr_Username creds) ''Administrator''),
                           on_certs (SetupCertificateService ''RTS'' GenericCertificateID)])))))"

definition Switch_GetEnvForXname :: "string \<Rightarrow> ('w, 't) SNMPSwitchHelper \<Rightarrow> (string \<times> string) list \<times> go_error option" where
  "Switch_GetEnvForXname xname s = (case sw_KnownDevices s xname of
      Some snmpDevice \<Rightarrow> ([(''RTS_XNAME'', sd_Xname snmpDevice)], None)
    | None \<Rightarrow> ([], Some (Err ''Unable to find xname in device list'')))"

definition populateRedisForSwitch :: "'w redis_ops \<Rightarrow> string \<Rightarrow> EntityPhysicalTable \<Rightarrow> ('w, unit) go" where
  "populateRedisForSwitch R xname switchInfo =
     (let baseKeyspace = filepath_Join [xname, ChassisKeyspace, ''EthernetSwitch_0''] in
      go_bind (Exec R
        [CmdSet (filepath_Join [baseKeyspace, ''Name'']) (pt_Descr switchInfo),
         CmdSet (filepath_Join [baseKeyspace, ''Manufacturer'']) (pt_MfgName switchInfo),
         CmdSet (filepath_Join [baseKeyspace, ''Model'']) (pt_ModelName switchInfo),
         CmdSet (filepath_Join [baseKeyspace, ''SerialNumber'']) (pt_SerialNum switchInfo),
         CmdSet (filepath_Join [baseKeyspace, ''AssetTag'']) (pt_AssetID switchInfo),
         CmdSet (filepath_Join [baseKeyspace, ''UUID'']) (pt_UUID switchInfo)]) (\<lambda>_. go_return ()))"

definition Switch_RunBackendHelper :: "'w redis_ops \<Rightarrow> string \<Rightarrow> (string \<times> string) list \<Rightarrow> (('w, 't) SNMPSwitchHelper, go_error + string) go" where
  "Switch_RunBackendHelper R key env = (case map_of env ''RTS_XNAME'' of
      None \<Rightarrow> go_return (Inl (Err ''RTS_XNAME not in environment variables''))
    | Some xname \<Rightarrow> (\<lambda>s. case sw_KnownDevices s xname of
        None \<Rightarrow> (Ret (Inl (Err (''unknown xname: '' @ xname))), s)
      | Some snmpDevice \<Rightarrow> (case full_key key of
          None \<Rightarrow> (Ret (Inl (Err ''key format not what expected'')), s)
        | Some fullKey \<Rightarrow>
            (let strippedKey = TrimPrefix fullKey ServiceRootKeyspace in
             if strippedKey = key then (Ret (Inl (Err ''unexpected key prefix'')), s)
             else if strippedKey = ''/Chassis/EthernetSwitch_0/Status/State'' then
               (case sd_SNMP snmpDevice of
                  None \<Rightarrow> nil_pointer s
                | Some snmp \<Rightarrow> go_bind (on_be (GetPhysicalTable snmp)) (\<lambda>t. case t of
                    Inl _ \<Rightarrow> go_return (Inr ''UnavailableOffline'')
                  | Inr table \<Rightarrow> go_bind (on_be (populateRedisForSwitch R xname table)) (\<lambda>_. go_return (Inr ''Enabled''))) s)
             else on_be (rGet R key) s))))"

end
