(* ===== verification/Pdu_Names.thy ===== *)
theory Pdu_Names
  imports Go_Lib
begin

text \<open>
  The names and words of the JAWS interface of power distribution units and their Redfish counterparts
  (the translations of \<open>internal/backend_helpers/jaws.go\<close>). The regular expressions are written out as
  the search for the leftmost match.
\<close>

section \<open>Words\<close>

text \<open>The last test repeats the first one and is never reached with it true.\<close>

definition translateJAWSASCIIToRedfishHealth :: "string \<Rightarrow> string" where
  "translateJAWSASCIIToRedfishHealth s =
     (let status = ToLower s in
      if Contains status ''normal'' \<or> Contains status ''not found'' then ''OK''
      else if Contains status ''warning'' then ''Warning''
      else if Contains status ''alarm'' then ''Critical''
      else if Contains status ''not found'' then ''Absent''
      else ''UNKNOWN'')"

definition translateJAWSASCIIToRedfishState :: "string \<Rightarrow> string" where
  "translateJAWSASCIIToRedfishState s = (if Contains (ToLower s) ''not found'' then ''Absent'' else ''Enabled'')"

definition powerRestorePolicy :: "string \<Rightarrow> string" where
  "powerRestorePolicy wakeupState =
     (if wakeupState = ''on'' then ''AlwaysOn'' else if wakeupState = ''off'' then ''AlwaysOff''
      else if wakeupState = ''last'' then ''LastState'' else ''UNKNOWN'')"

section \<open>Outlets\<close>

definition Atoi :: "string \<Rightarrow> go_error + int" where
  "Atoi s = (case ParseInt s of Inl e \<Rightarrow> Inl (NumError ''Atoi'' s e) | Inr v \<Rightarrow> Inr v)"

text \<open>\<open>%.2d\<close>.\<close>

definition two_digits :: "int \<Rightarrow> string" where
  "two_digits v = (if v < 0 then CHR ''-'' # pad_digits 2 (- v) else pad_digits 2 v)"

definition outlet_number :: "string \<Rightarrow> go_error + string \<times> int" where
  "outlet_number outlet =
     (if length outlet < 3 then Inl (Err ''outlet string is too short'')
      else case Atoi (drop 2 outlet) of
        Inl e \<Rightarrow> Inl (Err (''unable to parse outlet id: '' @ Error e))
      | Inr i \<Rightarrow> Inr (take 2 outlet, i))"

definition translateJAWSToRedfishOutlet :: "string \<Rightarrow> go_error + string" where
  "translateJAWSToRedfishOutlet outlet = map_sum (\<lambda>e. e) (\<lambda>(unitID, i). unitID @ two_digits i) (outlet_number outlet)"

definition translateRedfishToJAWSOutlet :: "string \<Rightarrow> go_error + string" where
  "translateRedfishToJAWSOutlet outlet = map_sum (\<lambda>e. e) (\<lambda>(unitID, i). unitID @ FormatInt i) (outlet_number outlet)"

section \<open>Lines and phases\<close>

definition upper_char :: "char \<Rightarrow> bool" where
  "upper_char c \<longleftrightarrow> (let n = (of_char c :: nat) in 65 \<le> n \<and> n \<le> 90)"

definition dec_digit :: "char \<Rightarrow> bool" where
  "dec_digit c \<longleftrightarrow> digit_val c \<noteq> None"

text \<open>The group of \<open>[A-Z]+(\d+)\<close>.\<close>

fun index_match :: "string \<Rightarrow> string option" where
  "index_match [] = None"
| "index_match (c # s) =
     (let d = takeWhile dec_digit (dropWhile upper_char (c # s)) in
      if upper_char c \<and> d \<noteq> [] then Some d else index_match s)"

definition getIndexFromJAWsID :: "string \<Rightarrow> string" where
  "getIndexFromJAWsID lineID = (case index_match lineID of Some i \<Rightarrow> i | None \<Rightarrow> ''INVALID'')"

text \<open>The groups of \<open>[A-Z]+:L(\d+)-L(\d+)\<close>.\<close>

definition phases_at :: "string \<Rightarrow> (string \<times> string) option" where
  "phases_at s =
     (let r = dropWhile upper_char s; d1 = takeWhile dec_digit (drop 2 r); r' = dropWhile dec_digit (drop 2 r);
          d2 = takeWhile dec_digit (drop 2 r')
      in if take 2 r = '':L'' \<and> d1 \<noteq> [] \<and> take 2 r' = ''-L'' \<and> d2 \<noteq> [] then Some (d1, d2) else None)"

fun phases_match :: "string \<Rightarrow> (string \<times> string) option" where
  "phases_match [] = None"
| "phases_match (c # s) =
     (case phases_at (c # s) of
        Some d \<Rightarrow> if upper_char c then Some d else phases_match s
      | None \<Rightarrow> phases_match s)"

definition getFromAndToPhasesFromPhaseName :: "string \<Rightarrow> string \<times> string" where
  "getFromAndToPhasesFromPhaseName phaseName = (case phases_match phaseName of Some d \<Rightarrow> d | None \<Rightarrow> (''INVALID'', ''INVALID''))"

section \<open>Facts\<close>

lemma digits_small: "0 \<le> n \<Longrightarrow> n < 10 \<Longrightarrow> digits n = [digit_char n]"
  by (simp add: digits.simps)

lemma length_digits_two: "10 \<le> n \<Longrightarrow> 2 \<le> length (digits n)"
  using digits_not_Nil by (subst digits.simps) (simp add: Suc_le_eq)

lemma pad_two: "0 \<le> n \<Longrightarrow> pad_digits 2 n = (if n < 10 then CHR ''0'' # digits n else digits n)"
  using length_digits_two [of n] by (auto simp: pad_digits_def Let_def digits_small numeral_2_eq_2)

lemma read_padded: "0 \<le> n \<Longrightarrow> read_digits (pad_digits 2 n) 0 = Some n"
  by (simp add: pad_two read_digits_digits digit_val_def)

lemma split_sign_padded: "0 \<le> n \<Longrightarrow> split_sign (pad_digits 2 n) = (False, pad_digits 2 n)"
  by (simp add: pad_two split_sign_digits) (simp add: split_sign_def)

lemma Atoi_padded: "0 \<le> n \<Longrightarrow> n < 2 ^ 63 \<Longrightarrow> Atoi (pad_digits 2 n) = Inr n"
  by (simp add: Atoi_def ParseInt_def split_sign_padded read_padded) (simp add: pad_two digits_not_Nil)

lemma Atoi_FormatInt: "- (2 ^ 63) \<le> n \<Longrightarrow> n < 2 ^ 63 \<Longrightarrow> Atoi (FormatInt n) = Inr n"
  by (simp add: Atoi_def ParseInt_FormatInt)

text \<open>Two digits in the order of the numbers.\<close>

lemma two_digits_chars: "0 \<le> n \<Longrightarrow> n < 100 \<Longrightarrow> two_digits n = [digit_char (n div 10), digit_char (n mod 10)]"
  by (cases "n < 10") (simp_all add: two_digits_def pad_two digits.simps [of n] digits_small, simp add: digit_char_def)

lemma digit_char_less: "0 \<le> i \<Longrightarrow> i < 10 \<Longrightarrow> 0 \<le> j \<Longrightarrow> j < 10 \<Longrightarrow> (digit_char i < digit_char j) = (i < j)"
  using ten_cases [of i] ten_cases [of j] by (auto simp: digit_char_def less_char_def)

lemma two_digits_less: "0 \<le> i \<Longrightarrow> i < 100 \<Longrightarrow> 0 \<le> j \<Longrightarrow> j < 100 \<Longrightarrow> (two_digits i < two_digits j) = (i < j)"
proof -
  assume i: "0 \<le> i" "i < 100" and j: "0 \<le> j" "j < 100"
  have d: "(digit_char (i div 10) < digit_char (j div 10)) = (i div 10 < j div 10)" "(digit_char (i mod 10) < digit_char (j mod 10)) = (i mod 10 < j mod 10)"
    "(digit_char (j div 10) < digit_char (i div 10)) = (j div 10 < i div 10)"
    using i j by (simp_all add: digit_char_less)
  then have "digit_char (i div 10) = digit_char (j div 10) \<longleftrightarrow> i div 10 = j div 10" by (metis less_irrefl linorder_less_linear)
  then have "two_digits i < two_digits j \<longleftrightarrow> i div 10 < j div 10 \<or> i div 10 = j div 10 \<and> i mod 10 < j mod 10"
    using d by (simp add: two_digits_chars i j)
  also have "\<dots> \<longleftrightarrow> i < j" by presburger
  finally show ?thesis .
qed

lemma append_less: "(u @ s < u @ (t :: string)) = (s < t)"
  by (induction u) simp_all

lemma two_digits_not_Nil: "0 \<le> i \<Longrightarrow> two_digits i \<noteq> []"
  by (simp add: two_digits_def pad_two digits_not_Nil)

lemma jaws_to_redfish: "length u = 2 \<Longrightarrow> 0 \<le> i \<Longrightarrow> i < 2 ^ 63 \<Longrightarrow> translateJAWSToRedfishOutlet (u @ FormatInt i) = Inr (u @ two_digits i)"
  using FormatInt_not_Nil [of i] Atoi_FormatInt [of i]
  by (simp add: translateJAWSToRedfishOutlet_def outlet_number_def not_less Suc_le_eq numeral_3_eq_3)

lemma redfish_to_jaws: "length u = 2 \<Longrightarrow> 0 \<le> i \<Longrightarrow> i < 2 ^ 63 \<Longrightarrow> translateRedfishToJAWSOutlet (u @ two_digits i) = Inr (u @ FormatInt i)"
  using two_digits_not_Nil [of i] Atoi_padded [of i]
  by (simp add: translateRedfishToJAWSOutlet_def outlet_number_def not_less Suc_le_eq numeral_3_eq_3) (simp add: two_digits_def)

section \<open>Properties\<close>

text \<open>
  C39. Names of outlets: the number of an outlet is padded to two digits on the way to Redfish and the
  padding is removed on the way back, and as long as the numbers have at most two digits the padded
  names sort as the numbers do, which the consumers of the collection rely on; with three digits they
  do not.
\<close>

theorem outlet_names:
  assumes "length u = 2" "0 \<le> i" "i < 2 ^ 63"
  shows "translateJAWSToRedfishOutlet (u @ FormatInt i) = Inr (u @ two_digits i) \<and>
    translateRedfishToJAWSOutlet (u @ two_digits i) = Inr (u @ FormatInt i) \<and>
    (i < 100 \<and> 0 \<le> j \<and> j < 100 \<longrightarrow> (u @ two_digits i < u @ two_digits j) = (i < j)) \<and>
    u @ two_digits 100 < u @ two_digits 11"
proof (intro conjI impI)
  show "translateJAWSToRedfishOutlet (u @ FormatInt i) = Inr (u @ two_digits i)" by (rule jaws_to_redfish [OF assms])
  show "translateRedfishToJAWSOutlet (u @ two_digits i) = Inr (u @ FormatInt i)" by (rule redfish_to_jaws [OF assms])
  show "(u @ two_digits i < u @ two_digits j) = (i < j)" if "i < 100 \<and> 0 \<le> j \<and> j < 100"
    using that assms(2) by (simp add: append_less two_digits_less)
  have "two_digits 100 < two_digits 11" by code_simp
  then show "u @ two_digits 100 < u @ two_digits 11" by (simp add: append_less)
qed

theorem outlet_names_witness:
  "translateJAWSToRedfishOutlet (''BA'' @ FormatInt 1) = Inr (''BA'' @ two_digits 1) \<and>
   translateRedfishToJAWSOutlet (''BA'' @ two_digits 1) = Inr (''BA'' @ FormatInt 1) \<and> ''BA'' @ two_digits 1 < ''BA'' @ two_digits 12"
  using outlet_names [of "''BA''" 1 12] by simp

end
