(* ===== verification/Pdu_Data.thy ===== *)
theory Pdu_Data
  imports Switch_Backend Account_Service Pdu_Names
begin

text \<open>
  The data of power distribution units and what is written of it to Redis (the structures and the
  population of \<open>internal/backend_helpers/jaws.go\<close>), and the store of their credentials
  (\<open>internal/rfdispatcher/pdu_credential_store\<close>). A write is a key, a value and an expiration in
  nanoseconds, zero for none; the writes of a function are collected in the order in which it queues them.
\<close>

section \<open>Structures\<close>

record MonitorUnit =
  mu_Id :: string
  mu_Name :: string
  mu_DisplayOrientation :: string
  mu_OutletSequence :: string
  mu_Status :: string
  mu_Type :: string

record Branch =
  br_ID :: string
  br_Name :: string
  br_Current :: float64
  br_CurrentCapacity :: float64
  br_CurrentStatus :: string
  br_CurrentUtilized :: float64
  br_OCPID :: string
  br_PhaseID :: string
  br_State :: string
  br_Status :: string

record Line =
  ln_ID :: string
  ln_Name :: string
  ln_Current :: float64
  ln_CurrentCapacity :: int
  ln_CurrentStatus :: string
  ln_CurrentUtilized :: float64
  ln_State :: string
  ln_Status :: string

record Phase =
  ph_ID :: string
  ph_Name :: string
  ph_ActivePower :: int
  ph_ApparentPower :: int
  ph_CrestFactor :: float64
  ph_Current :: float64
  ph_Energy :: int
  ph_NominalVoltage :: int
  ph_PowerFactor :: float64
  ph_PowerFactorStatus :: string
  ph_Reactance :: string
  ph_State :: string
  ph_Status :: string
  ph_Voltage :: float64
  ph_VoltageStatus :: string
  ph_VoltageDeviation :: float64

record MonitorOutlet =
  mo_ID :: string
  mo_Name :: string
  mo_ActivePower :: int
  mo_ActivePowerStatus :: string
  mo_ApparentPower :: int
  mo_BranchID :: string
  mo_ControlState :: string
  mo_CrestFactor :: float64
  mo_Current :: float64
  mo_CurrentCapacity :: int
  mo_CurrentStatus :: string
  mo_CurrentUtilized :: float64
  mo_Energy :: int
  mo_OCPID :: string
  mo_PhaseID :: string
  mo_PowerCapacity :: int
  mo_PowerFactor :: float64
  mo_PowerFactorStatus :: string
  mo_Reactance :: string
  mo_SocketAdapter :: string
  mo_SocketType :: string
  mo_State :: string
  mo_Status :: string
  mo_Voltage :: float64

record ConfigOutlet =
  co_ID :: string
  co_Name :: string
  co_ControlLock :: string
  co_CurrentThresholds :: "float64 list"
  co_EmailNotifications :: string
  co_ExtraOnDelay :: float64
  co_Host :: string
  co_PowerFactorThresholds :: "float64 list"
  co_PowerThresholds :: "float64 list"
  co_ScriptDelay :: int
  co_ScriptFeature :: string
  co_ShutdownDelay :: int
  co_SNMPTrapNotifications :: string
  co_WakeupState :: string

record OutletGroup =
  og_Name :: string
  og_OutletAccess :: "string list"

record TemperatureSensor =
  ts_ID :: string
  ts_Name :: string
  ts_Status :: string
  ts_TemperatureCelsius :: "float64 option"

record HumiditySensor =
  hu_ID :: string
  hu_Name :: string
  hu_Status :: string
  hu_RelativeHumidity :: "float64 option"

record Unit =
  un_Id :: string
  un_Name :: string
  un_ManufactureDate :: string
  un_ModelNumber :: string
  un_ProductSerialNumber :: string
  un_Type :: string
  un_Branches :: "Branch list"
  un_Lines :: "Line list"
  un_Phases :: "Phase list"
  un_Outlets :: "MonitorOutlet list"
  un_OutletConfigs :: "ConfigOutlet list"
  un_OutletGroups :: "OutletGroup list"
  un_TemperatureSensors :: "TemperatureSensor list"
  un_HumiditySensors :: "HumiditySensor list"

definition RackPDUsKeyspace :: string where
  "RackPDUsKeyspace = ServiceRootKeyspace @ ''/PowerEquipment/RackPDUs''"

definition EPOOutletGroupPrefix :: string where
  "EPOOutletGroupPrefix = ''CrayEPO''"

section \<open>Devices\<close>

record Device =
  dv_Xname :: string
  dv_URL :: string
  dv_Username :: string
  dv_Password :: string

definition Device_String :: "Device \<Rightarrow> string" where
  "Device_String device = ''URL: '' @ dv_URL device @ '', Username: '' @ dv_Username device @ '', Password: <REDACTED>''"

text \<open>The secure storage, at the types at which the store of credentials uses it.\<close>

record 'w pdu_storage =
  psLookupKeys :: "string \<Rightarrow> ('w, go_error + string list) go"
  psLookupDevice :: "string \<Rightarrow> ('w, go_error + Device) go"
  psLookupDefault :: "string \<Rightarrow> ('w, go_error + Credential) go"
  psStoreDevice :: "string \<Rightarrow> Device \<Rightarrow> ('w, go_error option) go"
  psStoreDefault :: "string \<Rightarrow> Credential \<Rightarrow> ('w, go_error option) go"
  psStoreData :: "string \<Rightarrow> gobj \<Rightarrow> ('w, go_error option) go"

definition SetKeypathValue :: "'w pdu_storage \<Rightarrow> string \<Rightarrow> gobj \<Rightarrow> ('w, go_error option) go" where
  "SetKeypathValue S keyPath data = psStoreData S keyPath data"

fun lookup_devices :: "'w pdu_storage \<Rightarrow> string \<Rightarrow> string list \<Rightarrow> (string \<times> Device) list \<Rightarrow> ('w, (string \<times> Device) list) go" where
  "lookup_devices S baseKey [] devices = go_return devices"
| "lookup_devices S baseKey (key # keys) devices =
     (if Contains key ''global'' \<or> Contains key ''certificates'' then lookup_devices S baseKey keys devices
      else go_bind (psLookupDevice S (filepath_Join [baseKey, key])) (\<lambda>r. case r of
          Inl _ \<Rightarrow> lookup_devices S baseKey keys devices
        | Inr device \<Rightarrow> lookup_devices S baseKey keys (AList.update (dv_Xname device) device devices)))"

definition GetDevices :: "'w pdu_storage \<Rightarrow> string \<Rightarrow> ('w, go_error + (string \<times> Device) list) go" where
  "GetDevices S keyPath = go_check (psLookupKeys S keyPath) (\<lambda>keys.
     go_bind (lookup_devices S keyPath keys []) (\<lambda>devices. go_return (Inr devices)))"

definition GetDefaultPDUCredentails :: "'w pdu_storage \<Rightarrow> string \<Rightarrow> ('w, go_error + Credential) go" where
  "GetDefaultPDUCredentails S keyPath = go_check (psLookupDefault S (filepath_Join [keyPath, ''global/pdu''])) (\<lambda>cred.
     go_return (if cr_Password cred = [] \<or> cr_Username cred = [] then Inl (Err ''empty username or password'') else Inr cred))"

definition StoreDefaultPDUCredentails :: "'w pdu_storage \<Rightarrow> string \<Rightarrow> Credential \<Rightarrow> ('w, go_error option) go" where
  "StoreDefaultPDUCredentails S keyPath cred =
     (if cr_Password cred = [] \<or> cr_Username cred = [] then go_return (Some (Err ''empty username or password''))
      else psStoreDefault S (filepath_Join [keyPath, ''global/pdu'']) cred)"

definition StorePDUCredentails :: "'w pdu_storage \<Rightarrow> string \<Rightarrow> Device \<Rightarrow> ('w, go_error option) go" where
  "StorePDUCredentails S keyPath cred =
     (if dv_Xname cred = [] then go_return (Some (Err ''empty xname''))
      else if dv_URL cred = [] then go_return (Some (Err ''empty device url''))
      else if dv_Password cred = [] \<or> dv_Username cred = [] then go_return (Some (Err ''empty username or password''))
      else psStoreDevice S (filepath_Join [keyPath, dv_Xname cred]) cred)"

section \<open>Writes\<close>

type_synonym pset = "string \<times> string \<times> int"

definition second :: int where
  "second = 10 ^ 9"

text \<open>Keys do not expire while the units are polled.\<close>

definition timeout_of :: "bool \<Rightarrow> int \<Rightarrow> int" where
  "timeout_of pollingEnabled t = (if pollingEnabled then 0 else t)"

definition run_set :: "'w redis_ops \<Rightarrow> 'w redis_more \<Rightarrow> pset \<Rightarrow> ('w, go_error + unit) go" where
  "run_set R K s = (case s of (k, v, t) \<Rightarrow> if 0 < t then rSetExpire K k v t else rSet R k v)"

text \<open>The writes of a pipeline: all are executed and the first error is returned.\<close>

fun exec_sets :: "'w redis_ops \<Rightarrow> 'w redis_more \<Rightarrow> pset list \<Rightarrow> ('w, go_error option) go" where
  "exec_sets R K [] = go_return None"
| "exec_sets R K (s # ss) = go_bind (run_set R K s) (\<lambda>r. go_bind (exec_sets R K ss) (\<lambda>e.
     go_return (case r of Inl err \<Rightarrow> Some err | Inr _ \<Rightarrow> e)))"

definition populateRedisForMonitorUnits :: "bool \<Rightarrow> MonitorUnit list \<Rightarrow> string \<Rightarrow> string \<Rightarrow> pset list" where
  "populateRedisForMonitorUnits polling units xname pduID =
     (let timeout = timeout_of polling (60 * second);
          baseKeyspace = filepath_Join [xname @ RackPDUsKeyspace, pduID, ''Status'']
      in case find (\<lambda>u. mu_Id u = pduID) units of
           None \<Rightarrow> []
         | Some u \<Rightarrow> [(filepath_Join [baseKeyspace, ''Health''], translateJAWSASCIIToRedfishHealth (mu_Status u), timeout)])"

definition populateRedisForBranch :: "bool \<Rightarrow> Branch \<Rightarrow> string \<Rightarrow> string \<Rightarrow> pset list" where
  "populateRedisForBranch polling branch xname pduID =
     (let timeout = timeout_of polling (15 * second);
          baseKeyspace = filepath_Join [xname @ RackPDUsKeyspace, pduID, ''Branches'', br_ID branch]
      in [(filepath_Join [baseKeyspace, ''PowerState''], br_State branch, timeout),
          (filepath_Join [baseKeyspace, ''CurrentSensor'', ''Reading''], FormatFloat_f (br_Current branch), timeout),
          (filepath_Join [baseKeyspace, ''CurrentSensor'', ''Status'', ''Health''], translateJAWSASCIIToRedfishHealth (br_CurrentStatus branch), timeout),
          (filepath_Join [baseKeyspace, ''Status'', ''Health''], translateJAWSASCIIToRedfishHealth (br_Status branch), timeout)])"

definition line_sets :: "int \<Rightarrow> string \<Rightarrow> Line \<Rightarrow> pset list" where
  "line_sets timeout baseKeyspace line =
     (let lineKeyspace = filepath_Join [baseKeyspace, ''Line'' @ getIndexFromJAWsID (ln_ID line)]
      in [(filepath_Join [lineKeyspace, ''Reading''], FormatFloat_f (ln_Current line), timeout),
          (filepath_Join [lineKeyspace, ''Status'', ''Health''], translateJAWSASCIIToRedfishHealth (ln_CurrentStatus line), timeout)])"

definition populateRedisForLines :: "bool \<Rightarrow> Line list \<Rightarrow> string \<Rightarrow> string \<Rightarrow> pset list" where
  "populateRedisForLines polling lines xname pduID =
     concat (map (line_sets (timeout_of polling (30 * second))
         (filepath_Join [xname @ RackPDUsKeyspace, pduID, ''Mains'', ''AC1'', ''PolyPhaseCurrentSensors'']))
       (filter (\<lambda>l. HasPrefix (ln_ID l) pduID) lines))"

definition phase_sets :: "int \<Rightarrow> string \<Rightarrow> Phase \<Rightarrow> pset list" where
  "phase_sets timeout baseKeyspace phase =
     (let (fromPhase, toPhase) = getFromAndToPhasesFromPhaseName (ph_Name phase);
          phaseKeyspace = filepath_Join [baseKeyspace, ''Line'' @ fromPhase @ ''ToLine'' @ toPhase]
      in [(filepath_Join [phaseKeyspace, ''ApparentVA''], FormatInt (ph_ApparentPower phase), timeout),
          (filepath_Join [phaseKeyspace, ''PowerFactor''], FormatFloat_f (ph_PowerFactor phase), timeout),
          (filepath_Join [phaseKeyspace, ''Reading''], FormatInt (ph_ActivePower phase), timeout)])"

definition populateRedisForPhases :: "bool \<Rightarrow> Phase list \<Rightarrow> string \<Rightarrow> string \<Rightarrow> pset list" where
  "populateRedisForPhases polling phases xname pduID =
     concat (map (phase_sets (timeout_of polling (30 * second))
         (filepath_Join [xname @ RackPDUsKeyspace, pduID, ''Mains'', ''AC1'', ''PolyPhasePowerSensors'']))
       (filter (\<lambda>p. HasPrefix (ph_ID p) pduID) phases))"

definition populateRedisForMonitorOutlet :: "bool \<Rightarrow> MonitorOutlet \<Rightarrow> string \<Rightarrow> string \<Rightarrow> go_error + pset list" where
  "populateRedisForMonitorOutlet polling outlet xname pduID =
     (let timeout = timeout_of polling (10 * second) in
      map_sum (\<lambda>e. e) (\<lambda>outletID.
        let baseKeyspace = filepath_Join [xname @ RackPDUsKeyspace, pduID, ''Outlets'', outletID]
        in [(filepath_Join [baseKeyspace, ''PowerState''], mo_State outlet, timeout),
            (filepath_Join [baseKeyspace, ''RatedCurrentAmps''], FormatInt (mo_CurrentCapacity outlet), timeout),
            (filepath_Join [baseKeyspace, ''CurrentSensor'', ''Reading''], FormatFloat_f (mo_Current outlet), timeout),
            (filepath_Join [baseKeyspace, ''CurrentSensor'', ''Status'', ''Health''], translateJAWSASCIIToRedfishHealth (mo_CurrentStatus outlet), timeout),
            (filepath_Join [baseKeyspace, ''EnergySensor'', ''Reading''], FormatInt (mo_Energy outlet), timeout),
            (filepath_Join [baseKeyspace, ''PowerSensor'', ''ApparentVA''], FormatInt (mo_ApparentPower outlet), timeout),
            (filepath_Join [baseKeyspace, ''PowerSensor'', ''PowerFactor''], FormatFloat_f (mo_PowerFactor outlet), timeout),
            (filepath_Join [baseKeyspace, ''PowerSensor'', ''Reading''], FormatInt (mo_ActivePower outlet), timeout),
            (filepath_Join [baseKeyspace, ''PowerSensor'', ''Status'', ''Health''], translateJAWSASCIIToRedfishHealth (mo_ActivePowerStatus outlet), timeout),
            (filepath_Join [baseKeyspace, ''VoltageSensor'', ''Reading''], FormatFloat_f (mo_Voltage outlet), timeout),
            (filepath_Join [baseKeyspace, ''Status'', ''Health''], translateJAWSASCIIToRedfishHealth (mo_Status outlet), timeout)])
        (translateJAWSToRedfishOutlet (mo_ID outlet)))"

definition populateRedisForConfigOutlet :: "bool \<Rightarrow> ConfigOutlet \<Rightarrow> string \<Rightarrow> string \<Rightarrow> go_error + pset list" where
  "populateRedisForConfigOutlet polling outlet xname pduID =
     map_sum (\<lambda>e. e) (\<lambda>outletID.
       [(filepath_Join [filepath_Join [xname @ RackPDUsKeyspace, pduID, ''Outlets'', outletID], ''PowerRestorePolicy''],
         powerRestorePolicy (co_WakeupState outlet), timeout_of polling (10 * second))])
       (translateJAWSToRedfishOutlet (co_ID outlet))"

text \<open>A sensor without a reading has the empty string.\<close>

definition sensor_sets :: "int \<Rightarrow> string \<Rightarrow> string \<Rightarrow> float64 option \<Rightarrow> string \<Rightarrow> pset list" where
  "sensor_sets timeout baseKeyspace sensorID reading status =
     (let sensorKeyspace = filepath_Join [baseKeyspace, sensorID]
      in [(filepath_Join [sensorKeyspace, ''Reading''], case reading of Some r \<Rightarrow> FormatFloat_f r | None \<Rightarrow> [], timeout),
          (filepath_Join [sensorKeyspace, ''Status'', ''Health''], translateJAWSASCIIToRedfishHealth status, timeout),
          (filepath_Join [sensorKeyspace, ''Status'', ''State''], translateJAWSASCIIToRedfishState status, timeout)])"

definition populateRedisForTemperature :: "bool \<Rightarrow> TemperatureSensor list \<Rightarrow> string \<Rightarrow> string \<Rightarrow> pset list" where
  "populateRedisForTemperature polling sensors xname pduID =
     concat (map (\<lambda>s. sensor_sets (timeout_of polling (30 * second)) (filepath_Join [xname @ RackPDUsKeyspace, pduID, ''Sensors''])
       (''Temperature'' @ ts_ID s) (ts_TemperatureCelsius s) (ts_Status s)) sensors)"

definition populateRedisForHumidity :: "bool \<Rightarrow> HumiditySensor list \<Rightarrow> string \<Rightarrow> string \<Rightarrow> pset list" where
  "populateRedisForHumidity polling sensors xname pduID =
     concat (map (\<lambda>s. sensor_sets (timeout_of polling (30 * second)) (filepath_Join [xname @ RackPDUsKeyspace, pduID, ''Sensors''])
       (''Humidity'' @ hu_ID s) (hu_RelativeHumidity s) (hu_Status s)) sensors)"

end
