(* ===== verification/Pdu_Init.thy ===== *)
theory Pdu_Init
  imports Pdu_Data
begin

text \<open>
  What is written to Redis when a power distribution unit is initialised (\<open>initRackPDU\<close> of
  \<open>internal/backend_helpers/jaws.go\<close> and the functions it calls).
\<close>

section \<open>Parts of a unit\<close>

text \<open>A call whose error ends the caller with a message of its own.\<close>

definition checked :: "('w hstate, keyspace_result) go \<Rightarrow> string \<Rightarrow> (string \<Rightarrow> ('w hstate, go_error option) go) \<Rightarrow> ('w hstate, go_error option) go" where
  "checked m msg f = go_bind m (\<lambda>(keyspace, addErr). case addErr of Some _ \<Rightarrow> go_return (Some (Err msg)) | None \<Rightarrow> f keyspace)"

text \<open>The error of a loop, or the one that was there before it.\<close>

definition loop_or :: "go_error option \<Rightarrow> ('w hstate, go_error option) go list \<Rightarrow> ('w hstate, go_error option) go" where
  "loop_or err ms = go_bind (until_error ms) (\<lambda>e. go_return (case e of Some e \<Rightarrow> Some e | None \<Rightarrow> err))"

definition init_branch :: "'w redis_ops \<Rightarrow> Unit \<Rightarrow> string \<Rightarrow> Branch \<Rightarrow> ('w hstate, go_error option) go" where
  "init_branch R unit keyspace branch =
     checked (addMemberToArray R keyspace ''Members'') (''unable to add outlet member to array for PDU '' @ un_Id unit) (\<lambda>thisMemberKeyspace.
       let thisKeyspace = filepath_Join [keyspace, br_ID branch] in
       go_bind (calls
         [setValueForPropertyInKeyspace R thisMemberKeyspace ''@odata.id'' thisKeyspace,
          addMemberToSet R thisKeyspace ''@odata.id'',
          addMemberToSet R thisKeyspace ''@odata.type'',
          setValueForPropertyInKeyspace R thisKeyspace ''Id'' (br_ID branch),
          setValueForPropertyInKeyspace R thisKeyspace ''Name'' (br_Name branch),
          setValueForPropertyInKeyspace R thisKeyspace ''CircuitType'' ''Branch'',
          addMemberToSet R thisKeyspace ''PowerState'']) (\<lambda>_.
       checked (addMemberToSet R thisKeyspace ''CurrentSensor'') ''unable to add member to array for Branch'' (\<lambda>currentSensorKeyspace.
       go_bind (calls
         [setValueForPropertyInKeyspace R currentSensorKeyspace ''DataSourceUri''
            (filepath_Join [RackPDUsKeyspace, un_Id unit, ''Sensors'', ''CurrentBranch'' @ br_ID branch]),
          setValueForPropertyInKeyspace R currentSensorKeyspace ''Name'' (''Branch '' @ br_ID branch @ '' Current''),
          addMemberToSet R currentSensorKeyspace ''Reading'',
          setValueForPropertyInKeyspace R currentSensorKeyspace ''ReadingUnits'' ''A'']) (\<lambda>_.
       checked (addMemberToSet R currentSensorKeyspace ''Status'') ''unable to add member to array for CurrentSensor'' (\<lambda>currentSensorStatusKeyspace.
       go_bind (addMemberToSet R currentSensorStatusKeyspace ''Health'') (\<lambda>_.
       checked (addMemberToSet R thisKeyspace ''Status'') ''unable to add member to array'' (\<lambda>statusKeyspace.
       go_bind (addMemberToSet R statusKeyspace ''Health'') (\<lambda>_. go_return None))))))))"

definition initRackPDUBranches :: "'w redis_ops \<Rightarrow> string \<Rightarrow> Unit \<Rightarrow> ('w hstate, go_error option) go" where
  "initRackPDUBranches R xname unit =
     go_bind (addMemberToSet R (filepath_Join [xname, RackPDUsKeyspace, un_Id unit]) ''Branches'') (\<lambda>(keyspace, err).
     go_bind (calls [addMemberToSet R keyspace ''@odata.id'', addMemberToSet R keyspace ''@odata.type'']) (\<lambda>_.
       loop_or err (map (init_branch R unit keyspace) (un_Branches unit))))"

definition init_line :: "'w redis_ops \<Rightarrow> Unit \<Rightarrow> string \<Rightarrow> Line \<Rightarrow> ('w hstate, go_error option) go" where
  "init_line R unit sensorsKeyspace line =
     (let lineIndex = getIndexFromJAWsID (ln_ID line) in
      checked (addMemberToSet R sensorsKeyspace (''Line'' @ lineIndex)) ''unable to add member to array for PolyPhaseCurrentSensors'' (\<lambda>lineKeyspace.
      go_bind (calls
        [setValueForPropertyInKeyspace R lineKeyspace ''DataSourceUri''
           (filepath_Join [RackPDUsKeyspace, un_Id unit, ''Sensors'', ''CurrentMains1-'' @ ln_ID line]),
         setValueForPropertyInKeyspace R lineKeyspace ''Name'' (''Mains Current L'' @ lineIndex),
         addMemberToSet R lineKeyspace ''Reading'',
         setValueForPropertyInKeyspace R lineKeyspace ''ReadingUnits'' ''A'']) (\<lambda>_.
      checked (addMemberToSet R lineKeyspace ''Status'') ''unable to add member to array for PolyPhaseCurrentSensor'' (\<lambda>statusKeyspace.
      go_bind (addMemberToSet R statusKeyspace ''Health'') (\<lambda>_. go_return None)))))"

definition init_phase :: "'w redis_ops \<Rightarrow> Unit \<Rightarrow> string \<Rightarrow> Phase \<Rightarrow> ('w hstate, go_error option) go" where
  "init_phase R unit sensorsKeyspace phase =
     (let (fromPhase, toPhase) = getFromAndToPhasesFromPhaseName (ph_Name phase) in
      checked (addMemberToSet R sensorsKeyspace (''Line'' @ fromPhase @ ''ToLine'' @ toPhase))
        ''unable to add member to array for polyPhasePowerSensorsKeyspace'' (\<lambda>phaseKeyspace.
      go_bind (calls
        [addMemberToSet R phaseKeyspace ''ApparentVA'',
         setValueForPropertyInKeyspace R phaseKeyspace ''DataSourceUri''
           (filepath_Join [RackPDUsKeyspace, un_Id unit, ''Sensors'', ''PowerMains1-'' @ ph_ID phase]),
         setValueForPropertyInKeyspace R phaseKeyspace ''Name'' (''Mains Power L'' @ fromPhase @ ''L'' @ toPhase),
         addMemberToSet R phaseKeyspace ''PowerFactor'',
         addMemberToSet R phaseKeyspace ''Reading'',
         setValueForPropertyInKeyspace R phaseKeyspace ''ReadingUnits'' ''W'']) (\<lambda>_. go_return None)))"

text \<open>The nominal voltage is that of the first phase; a unit without phases is a panic.\<close>

definition initRackPDUMains :: "'w redis_ops \<Rightarrow> string \<Rightarrow> Unit \<Rightarrow> ('w hstate, go_error option) go" where
  "initRackPDUMains R xname unit =
     go_bind (addMemberToSet R (filepath_Join [xname, RackPDUsKeyspace, un_Id unit]) ''Mains'') (\<lambda>(keyspace, err).
     go_bind (calls [addMemberToSet R keyspace ''@odata.id'', addMemberToSet R keyspace ''@odata.type'']) (\<lambda>_.
     checked (addMemberToArray R keyspace ''Members'') (''unable to add outlet member to array for PDU '' @ un_Id unit) (\<lambda>thisMemberKeyspace.
       let thisKeyspace = filepath_Join [keyspace, ''AC1''] in
       go_bind (calls
         [setValueForPropertyInKeyspace R thisMemberKeyspace ''@odata.id'' thisKeyspace,
          addMemberToSet R thisKeyspace ''@odata.id'',
          addMemberToSet R thisKeyspace ''@odata.type'',
          setValueForPropertyInKeyspace R thisKeyspace ''Id'' ''AC1'',
          setValueForPropertyInKeyspace R thisKeyspace ''Name'' ''Mains AC Input'',
          setValueForPropertyInKeyspace R thisKeyspace ''CircuitType'' ''Mains'']) (\<lambda>_.
       case un_Phases unit of
         [] \<Rightarrow> go_panic ''index out of range''
       | phase0 # _ \<Rightarrow>
           go_bind (setValueForPropertyInKeyspace R thisKeyspace ''NominalVoltage'' (''AC'' @ FormatInt (ph_NominalVoltage phase0) @ ''V'')) (\<lambda>_.
           checked (addMemberToSet R thisKeyspace ''PolyPhaseCurrentSensors'') ''unable to add member to array for Mains'' (\<lambda>currentSensorsKeyspace.
           go_bind (until_error (map (init_line R unit currentSensorsKeyspace) (un_Lines unit))) (\<lambda>lineErr. case lineErr of
               Some e \<Rightarrow> go_return (Some e)
             | None \<Rightarrow>
                 checked (addMemberToSet R thisKeyspace ''PolyPhasePowerSensors'') ''unable to add member to array for Mains'' (\<lambda>powerSensorsKeyspace.
                   loop_or err (map (init_phase R unit powerSensorsKeyspace) (un_Phases unit))))))))))"

text \<open>The sensors of an outlet that only differ in their names.\<close>

definition init_sensor :: "'w redis_ops \<Rightarrow> Unit \<Rightarrow> string \<Rightarrow> string \<Rightarrow> string \<Rightarrow> string \<Rightarrow> string \<Rightarrow> (string \<Rightarrow> ('w hstate, keyspace_result) go list) \<Rightarrow>
    (string \<Rightarrow> ('w hstate, go_error option) go) \<Rightarrow> ('w hstate, go_error option) go" where
  "init_sensor R unit thisKeyspace sensor source nm units members rest =
     checked (addMemberToSet R thisKeyspace sensor) ''unable to add member to array for Outlet'' (\<lambda>sensorKeyspace.
       go_bind (calls
         (members sensorKeyspace @
         [setValueForPropertyInKeyspace R sensorKeyspace ''DataSourceUri'' (filepath_Join [RackPDUsKeyspace, un_Id unit, ''Sensors'', source]),
          setValueForPropertyInKeyspace R sensorKeyspace ''Name'' nm] @
         (if sensor = ''PowerSensor'' then [addMemberToSet R sensorKeyspace ''PowerFactor''] else []) @
         [addMemberToSet R sensorKeyspace ''Reading'',
          setValueForPropertyInKeyspace R sensorKeyspace ''ReadingUnits'' units])) (\<lambda>_. rest sensorKeyspace))"

text \<open>The action that switches an outlet or a group, with the values it allows.\<close>

definition init_power_control :: "'w redis_ops \<Rightarrow> string \<Rightarrow> string \<Rightarrow> string \<Rightarrow> ('w hstate, go_error option) go \<Rightarrow> ('w hstate, go_error option) go" where
  "init_power_control R thisKeyspace actionName what rest =
     checked (addMemberToSet R thisKeyspace ''Actions'') (''unable to add Actions to '' @ what) (\<lambda>actionsKeyspace.
     go_bind (addMemberToSet R actionsKeyspace (''#'' @ actionName)) (\<lambda>(powerControlKeyspace, _).
     go_bind (setValueForPropertyInKeyspace R powerControlKeyspace ''Target'' (filepath_Join [actionsKeyspace, actionName])) (\<lambda>_.
     checked (addMemberToSet R powerControlKeyspace ''PowerState@Redfish.AllowableValues'')
       (''unable to add AllowableValues to PowerControl for '' @ what) (\<lambda>allowableValuesKeyspace.
     go_bind (on_world (rRPush R allowableValuesKeyspace [''On'', ''Off''])) (\<lambda>_. rest)))))"

definition init_outlet :: "'w redis_ops \<Rightarrow> Unit \<Rightarrow> string \<Rightarrow> MonitorOutlet \<Rightarrow> ('w hstate, go_error option) go" where
  "init_outlet R unit keyspace outlet =
     checked (addMemberToArray R keyspace ''Members'') (''unable to add outlet member to array for PDU '' @ un_Id unit) (\<lambda>thisMemberKeyspace.
     case translateJAWSToRedfishOutlet (mo_ID outlet) of
       Inl e \<Rightarrow> go_return (Some e)
     | Inr outletID \<Rightarrow>
         let thisKeyspace = filepath_Join [keyspace, outletID] in
         go_bind (calls
           [setValueForPropertyInKeyspace R thisMemberKeyspace ''@odata.id'' thisKeyspace,
            addMemberToSet R thisKeyspace ''@odata.id'',
            addMemberToSet R thisKeyspace ''@odata.type'',
            setValueForPropertyInKeyspace R thisKeyspace ''Id'' outletID,
            setValueForPropertyInKeyspace R thisKeyspace ''Name'' (mo_Name outlet),
            setValueForPropertyInKeyspace R thisKeyspace ''OutletType'' (mo_SocketType outlet),
            addMemberToSet R thisKeyspace ''PowerRestorePolicy'',
            addMemberToSet R thisKeyspace ''PowerState'',
            addMemberToSet R thisKeyspace ''RatedCurrentAmps'',
            setValueForPropertyInKeyspace R thisKeyspace ''VoltageType'' ''AC'']) (\<lambda>_.
         init_power_control R thisKeyspace ''Outlet.PowerControl'' (''outlet '' @ mo_Name outlet) (
         init_sensor R unit thisKeyspace ''CurrentSensor'' (''CurrentOutlet'' @ outletID) (''Outlet '' @ mo_ID outlet @ '' Current'') ''A'' (\<lambda>_. []) (\<lambda>currentKeyspace.
         checked (addMemberToSet R currentKeyspace ''Status'') ''unable to add member to array for CurrentSensor'' (\<lambda>currentStatusKeyspace.
         go_bind (addMemberToSet R currentStatusKeyspace ''Health'') (\<lambda>_.
         init_sensor R unit thisKeyspace ''EnergySensor'' (''Energy'' @ outletID) (''Outlet '' @ outletID @ '' Energy'') ''J'' (\<lambda>_. []) (\<lambda>_.
         init_sensor R unit thisKeyspace ''PowerSensor'' (''Power'' @ outletID) (''Outlet '' @ outletID @ '' Power'') ''W''
           (\<lambda>k. [addMemberToSet R k ''ApparentVA'']) (\<lambda>powerKeyspace.
         checked (addMemberToSet R powerKeyspace ''Status'') ''unable to add member to array for PowerSensor'' (\<lambda>powerStatusKeyspace.
         go_bind (addMemberToSet R powerStatusKeyspace ''Health'') (\<lambda>_.
         checked (addMemberToSet R thisKeyspace ''Status'') ''unable to add member to array for Outlet'' (\<lambda>statusKeyspace.
         go_bind (addMemberToSet R statusKeyspace ''Health'') (\<lambda>_.
         init_sensor R unit thisKeyspace ''VoltageSensor'' (''Voltage'' @ outletID) (''Outlet '' @ outletID @ '' Voltage'') ''V'' (\<lambda>_. []) (\<lambda>_.
           go_return None)))))))))))))"

text \<open>An error of the first call is kept only when there is no outlet.\<close>

definition initRackPDUOutlets :: "'w redis_ops \<Rightarrow> string \<Rightarrow> Unit \<Rightarrow> ('w hstate, go_error option) go" where
  "initRackPDUOutlets R xname unit =
     go_bind (addMemberToSet R (filepath_Join [xname, RackPDUsKeyspace, un_Id unit]) ''Outlets'') (\<lambda>(keyspace, err).
     go_bind (calls [addMemberToSet R keyspace ''@odata.id'', addMemberToSet R keyspace ''@odata.type'']) (\<lambda>_.
       loop_or (if un_Outlets unit = [] then err else None) (map (init_outlet R unit keyspace) (un_Outlets unit))))"

definition init_group_outlet :: "'w redis_ops \<Rightarrow> Unit \<Rightarrow> OutletGroup \<Rightarrow> string \<Rightarrow> string \<Rightarrow> ('w hstate, go_error option) go" where
  "init_group_outlet R unit outletGroup thisKeyspace outlet =
     checked (addMemberToArray R thisKeyspace ''Outlets'')
       (''unable to add outlets array for outlet group '' @ og_Name outletGroup @ '' on PDU '' @ un_Id unit) (\<lambda>thisOutletKeyspace.
     go_bind (setValueForPropertyInKeyspace R thisOutletKeyspace ''@odata.id''
       (filepath_Join [RackPDUsKeyspace, un_Id unit, ''Outlets'', outlet])) (\<lambda>_. go_return None))"

definition init_outlet_group :: "'w redis_ops \<Rightarrow> Unit \<Rightarrow> string \<Rightarrow> OutletGroup \<Rightarrow> ('w hstate, go_error option) go" where
  "init_outlet_group R unit keyspace outletGroup =
     checked (addMemberToArray R keyspace ''Members'') (''unable to add outlet group member to array for PDU '' @ un_Id unit) (\<lambda>thisMemberKeyspace.
       let thisKeyspace = filepath_Join [keyspace, og_Name outletGroup] in
       go_bind (calls
         [setValueForPropertyInKeyspace R thisMemberKeyspace ''@odata.id'' thisKeyspace,
          addMemberToSet R thisKeyspace ''@odata.id'',
          addMemberToSet R thisKeyspace ''@odata.type'',
          setValueForPropertyInKeyspace R thisKeyspace ''Name'' (og_Name outletGroup)]) (\<lambda>_.
       init_power_control R thisKeyspace ''OutletGroup.PowerControl'' (''outlet group '' @ og_Name outletGroup)
         (until_error (map (init_group_outlet R unit outletGroup thisKeyspace) (og_OutletAccess outletGroup)))))"

definition initRackPDUOutletGroups :: "'w redis_ops \<Rightarrow> string \<Rightarrow> Unit \<Rightarrow> ('w hstate, go_error option) go" where
  "initRackPDUOutletGroups R xname unit =
     go_bind (addMemberToSet R (filepath_Join [xname, RackPDUsKeyspace, un_Id unit]) ''OutletGroups'') (\<lambda>(keyspace, err).
     go_bind (calls [addMemberToSet R keyspace ''@odata.id'', addMemberToSet R keyspace ''@odata.type'']) (\<lambda>_.
       loop_or err (map (init_outlet_group R unit keyspace) (un_OutletGroups unit))))"

text \<open>A temperature or humidity sensor: \<open>what\<close> is its kind in messages, \<open>kind\<close> in names.\<close>

definition init_env_sensor :: "'w redis_ops \<Rightarrow> Unit \<Rightarrow> string \<Rightarrow> string \<Rightarrow> string \<Rightarrow> string \<Rightarrow> string \<times> string \<Rightarrow> ('w hstate, go_error option) go" where
  "init_env_sensor R unit keyspace what kind units sensor =
     checked (addMemberToArray R keyspace ''Members'') (''unable to add '' @ what @ '' sensor member to array for PDU '' @ un_Id unit) (\<lambda>thisMemberKeyspace.
       let sensorID = kind @ fst sensor; thisKeyspace = filepath_Join [keyspace, sensorID] in
       go_bind (calls
         [setValueForPropertyInKeyspace R thisMemberKeyspace ''@odata.id'' thisKeyspace,
          addMemberToSet R thisKeyspace ''@odata.id'',
          addMemberToSet R thisKeyspace ''@odata.type'',
          setValueForPropertyInKeyspace R thisKeyspace ''Id'' sensorID,
          setValueForPropertyInKeyspace R thisKeyspace ''Name'' (snd sensor),
          addMemberToSet R thisKeyspace ''Reading'',
          setValueForPropertyInKeyspace R thisKeyspace ''ReadingType'' kind,
          setValueForPropertyInKeyspace R thisKeyspace ''ReadingUnits'' units]) (\<lambda>_.
       checked (addMemberToSet R thisKeyspace ''Status'') (''unable to add member to array for '' @ kind @ '' Sensor'') (\<lambda>statusKeyspace.
       go_bind (calls [addMemberToSet R statusKeyspace ''Health'', addMemberToSet R statusKeyspace ''State'']) (\<lambda>_. go_return None))))"

definition initRackPDUSensors :: "'w redis_ops \<Rightarrow> string \<Rightarrow> Unit \<Rightarrow> ('w hstate, go_error option) go" where
  "initRackPDUSensors R xname unit =
     go_bind (addMemberToSet R (filepath_Join [xname, RackPDUsKeyspace, un_Id unit]) ''Sensors'') (\<lambda>(keyspace, err).
     go_bind (calls
       [addMemberToSet R keyspace ''@odata.id'', addMemberToSet R keyspace ''@odata.type'',
        setValueForPropertyInKeyspace R keyspace ''Name'' ''PDU Sensor Collection'',
        setValueForPropertyInKeyspace R keyspace ''Description'' ''A collection of sensor attached to this PDU instance'']) (\<lambda>_.
       loop_or err
         (map (init_env_sensor R unit keyspace ''temperature'' ''Temperature'' ''C'') (map (\<lambda>s. (ts_ID s, ts_Name s)) (un_TemperatureSensors unit)) @
          map (init_env_sensor R unit keyspace ''humidity'' ''Humidity'' ''%'') (map (\<lambda>s. (hu_ID s, hu_Name s)) (un_HumiditySensors unit)))))"

section \<open>A unit\<close>

definition pdu_root_keys :: "'w redis_ops \<Rightarrow> string option \<Rightarrow> ('w hstate, unit) go" where
  "pdu_root_keys R version =
     go_bind (addMemberToSet R ''/redfish'' ''v1'') (\<lambda>(rootKeyspace, _).
     go_bind (calls ([setValueForPropertyInKeyspace R rootKeyspace ''Name'' ''Service Root'',
          setValueForPropertyInKeyspace R rootKeyspace ''Description'' ''The Redfish ServiceRoot'',
          addMemberToSet R rootKeyspace ''@odata.id'',
          addMemberToSet R rootKeyspace ''@odata.type''] @
         (case version of None \<Rightarrow> [] | Some versionStr \<Rightarrow> [setValueForPropertyInKeyspace R rootKeyspace ''RedfishVersion'' versionStr]))) (\<lambda>_.
     go_bind (addMemberToSet R rootKeyspace ''PowerEquipment'') (\<lambda>(powerEquipmentKeyspace, _).
       calls [setValueForPropertyInKeyspace R powerEquipmentKeyspace ''Name'' ''Service Root'',
          addMemberToSet R powerEquipmentKeyspace ''@odata.id'',
          addMemberToSet R powerEquipmentKeyspace ''@odata.type'',
          addMemberToSet R powerEquipmentKeyspace ''RackPDUs''])))"

text \<open>What is known of the unit already; writes of an outlet whose name cannot be translated are left out.\<close>

definition unit_sets :: "bool \<Rightarrow> string \<Rightarrow> Unit \<Rightarrow> pset list" where
  "unit_sets polling xname unit =
     (let pduID = un_Id unit; writes = (\<lambda>r. case r of Inl _ \<Rightarrow> [] | Inr ss \<Rightarrow> ss) in
      populateRedisForLines polling (un_Lines unit) xname pduID @
      populateRedisForPhases polling (un_Phases unit) xname pduID @
      populateRedisForTemperature polling (un_TemperatureSensors unit) xname pduID @
      populateRedisForHumidity polling (un_HumiditySensors unit) xname pduID @
      concat (map (\<lambda>b. populateRedisForBranch polling b xname pduID) (un_Branches unit)) @
      concat (map (\<lambda>c. writes (populateRedisForConfigOutlet polling c xname pduID)) (un_OutletConfigs unit)) @
      concat (map (\<lambda>m. writes (populateRedisForMonitorOutlet polling m xname pduID)) (un_Outlets unit)))"

definition init_unit :: "'w redis_ops \<Rightarrow> string \<Rightarrow> Unit \<Rightarrow> ('w hstate, go_error option) go" where
  "init_unit R xname unit =
     (let xnameKeyspace = xname @ RackPDUsKeyspace; newPDUKeyspace = xnameKeyspace @ ''/'' @ un_Id unit in
      go_bind (calls
        [setValueForPropertyInKeyspace R xnameKeyspace ''Name'' ''RackPDU Collection'',
         addMemberToSet R xnameKeyspace ''@odata.id'',
         addMemberToSet R xnameKeyspace ''@odata.type'']) (\<lambda>_.
      checked (addMemberToArray R xnameKeyspace ''Members'') (''unable to add member to array for PDU '' @ un_Id unit) (\<lambda>thisMemberKeyspace.
      go_bind (calls
        [setValueForPropertyInKeyspace R thisMemberKeyspace ''@odata.id'' newPDUKeyspace,
         addMemberToSet R newPDUKeyspace ''@odata.id'',
         addMemberToSet R newPDUKeyspace ''@odata.type'',
         setValueForPropertyInKeyspace R newPDUKeyspace ''DateOfManufacture'' (un_ManufactureDate unit),
         setValueForPropertyInKeyspace R newPDUKeyspace ''Name'' (un_Name unit),
         setValueForPropertyInKeyspace R newPDUKeyspace ''Id'' (un_Id unit),
         setValueForPropertyInKeyspace R newPDUKeyspace ''Manufacturer'' ''ServerTech'',
         setValueForPropertyInKeyspace R newPDUKeyspace ''Model'' (un_ModelNumber unit),
         setValueForPropertyInKeyspace R newPDUKeyspace ''SerialNumber'' (un_ProductSerialNumber unit),
         setValueForPropertyInKeyspace R newPDUKeyspace ''EquipmentType'' ''RackPDU'']) (\<lambda>_.
      go_bind (addMemberToSet R newPDUKeyspace ''Status'') (\<lambda>(statusKeyspace, _).
      go_bind (addMemberToSet R statusKeyspace ''Health'') (\<lambda>_.
      go_bind (addMemberToSet R newPDUKeyspace ''CircuitSummary'') (\<lambda>(circuitSummaryKeyspace, _).
      go_bind (calls
        [setValueForPropertyInKeyspace R circuitSummaryKeyspace ''ControlledOutlets'' (FormatInt (int (length (un_Outlets unit)))),
         setValueForPropertyInKeyspace R circuitSummaryKeyspace ''MonitoredBranches'' (FormatInt (int (length (un_Branches unit)))),
         setValueForPropertyInKeyspace R circuitSummaryKeyspace ''MonitoredOutlets'' (FormatInt (int (length (un_Outlets unit)))),
         setValueForPropertyInKeyspace R circuitSummaryKeyspace ''MonitoredPhases'' (FormatInt (int (length (un_Phases unit)))),
         setValueForPropertyInKeyspace R circuitSummaryKeyspace ''TotalBranches'' (FormatInt (int (length (un_Branches unit)))),
         setValueForPropertyInKeyspace R circuitSummaryKeyspace ''TotalOutlets'' (FormatInt (int (length (un_Outlets unit)))),
         setValueForPropertyInKeyspace R circuitSummaryKeyspace ''TotalPhases'' (FormatInt (int (length (un_Phases unit))))]) (\<lambda>_.
      until_error
        [initRackPDUBranches R xname unit, initRackPDUMains R xname unit, initRackPDUOutlets R xname unit,
         initRackPDUOutletGroups R xname unit, initRackPDUSensors R xname unit]))))))))"

text \<open>The pipeline is dropped on every way out, a panic included.\<close>

definition dropping_pipe :: "('w hstate, 'a) go \<Rightarrow> ('w hstate, 'a) go" where
  "dropping_pipe m = (\<lambda>s. case m s of (r, s') \<Rightarrow> (r, s'\<lparr>hs_pipe := None\<rparr>))"

definition first_error :: "go_error option \<Rightarrow> go_error option \<Rightarrow> go_error option" where
  "first_error a b = (case a of Some e \<Rightarrow> Some e | None \<Rightarrow> b)"

definition initRackPDU :: "'w redis_ops \<Rightarrow> 'w redis_more \<Rightarrow> string option \<Rightarrow> bool \<Rightarrow> string \<Rightarrow> Unit \<Rightarrow> ('w hstate, go_error option) go" where
  "initRackPDU R K version polling xname unit =
     go_bind (pdu_root_keys R version) (\<lambda>_.
     dropping_pipe (
       go_bind (modifies (\<lambda>h. h\<lparr>hs_pipe := Some []\<rparr>)) (\<lambda>_.
       go_bind (init_unit R xname unit) (\<lambda>err. case err of
           Some e \<Rightarrow> go_return (Some e)
         | None \<Rightarrow>
             go_bind (gets (\<lambda>h. case hs_pipe h of Some q \<Rightarrow> q | None \<Rightarrow> [])) (\<lambda>q.
             go_bind (on_world (Exec R q)) (\<lambda>e1.
             go_bind (on_world (exec_sets R K (unit_sets polling xname unit))) (\<lambda>e2. go_return (first_error e1 e2))))))))"

end
