(* ===== verification/Pdu_Backend.thy ===== *)
theory Pdu_Backend
  imports Pdu_Init
begin

text \<open>
  The backend for power distribution units (\<open>internal/backend_helpers/jaws.go\<close>): discovery over the JAWS
  interface, set-up and requests. JSON and the decoding into structures (\<open>encoding/json\<close>,
  \<open>mapstructure\<close>) are a record of functions; the body of an answer is a dynamically typed value. The
  goroutines that \<open>RunPeriodic\<close> starts for new devices run one after the other.
\<close>

section \<open>Requests to a device\<close>

record jaws_codec =
  jcUnmarshal :: "string \<Rightarrow> go_error + gval"
  jcUnits :: "gval list \<Rightarrow> go_error + Unit list"
  jcMonitorUnits :: "gval list \<Rightarrow> go_error + MonitorUnit list"
  jcBranches :: "gval list \<Rightarrow> go_error + Branch list"
  jcLines :: "gval list \<Rightarrow> go_error + Line list"
  jcPhases :: "gval list \<Rightarrow> go_error + Phase list"
  jcOutlets :: "gval list \<Rightarrow> go_error + MonitorOutlet list"
  jcConfigOutlets :: "gval list \<Rightarrow> go_error + ConfigOutlet list"
  jcOutletGroups :: "gval list \<Rightarrow> go_error + OutletGroup list"
  jcTemperatures :: "gval list \<Rightarrow> go_error + TemperatureSensor list"
  jcHumidities :: "gval list \<Rightarrow> go_error + HumiditySensor list"
  jcBranch :: "gobj \<Rightarrow> go_error + Branch"
  jcOutlet :: "gobj \<Rightarrow> go_error + MonitorOutlet"
  jcConfigOutlet :: "gobj \<Rightarrow> go_error + ConfigOutlet"
  jcTemperature :: "gobj \<Rightarrow> go_error + TemperatureSensor"
  jcHumidity :: "gobj \<Rightarrow> go_error + HumiditySensor"
  jcMarshalGroup :: "OutletGroup \<Rightarrow> go_error + string"
  jcMarshalMap :: "(string \<times> string) list \<Rightarrow> go_error + string"
  jcUnmarshalMap :: "string \<Rightarrow> go_error + (string \<times> string) list"

text \<open>The value of the body, \<open>GNil\<close> when there is none, and an error.\<close>

definition GetBodyForHTTPRequest :: "('w, 'e) services \<Rightarrow> jaws_codec \<Rightarrow> HTTPRequest \<Rightarrow> ('w, gval \<times> go_error option) go" where
  "GetBodyForHTTPRequest V J request =
     go_bind (DoHTTPAction V request) (\<lambda>(payload, _, err). go_return (case err of
         Some e \<Rightarrow> (GNil, Some e)
       | None \<Rightarrow> if payload = [] then (GNil, None)
           else case jcUnmarshal J payload of
             Inl e \<Rightarrow> (GNil, Some (Err (''unable to unmarshal payload: '' @ Error e)))
           | Inr v \<Rightarrow> (v, None)))"

definition base_request :: "('w, 'e) services \<Rightarrow> Device \<Rightarrow> HTTPRequest" where
  "base_request V device = \<lparr> hr_Method = ''GET'', hr_FullURL = [], hr_ExpectedStatusCodes = [200], hr_Payload = None,
     hr_Auth = Some (dv_Username device, dv_Password device), hr_CustomHeaders = getSvcInstName V \<rparr>"

text \<open>\<open>%s\<close> of an error that may be nil.\<close>

definition error_text :: "go_error option \<Rightarrow> string" where
  "error_text err = (case err of Some e \<Rightarrow> Error e | None \<Rightarrow> ''%!s(<nil>)'')"

text \<open>The elements of a collection of the device; a body that is no array is a panic.\<close>

definition get_list :: "('w, 'e) services \<Rightarrow> jaws_codec \<Rightarrow> (gval list \<Rightarrow> go_error + 'a list) \<Rightarrow> string \<Rightarrow> HTTPRequest \<Rightarrow> Device \<Rightarrow> string \<Rightarrow>
    ('w, go_error + 'a list) go" where
  "get_list V J decode what request device path =
     go_bind (GetBodyForHTTPRequest V J (request\<lparr>hr_FullURL := dv_URL device @ path\<rparr>)) (\<lambda>(v, getErr). case v of
         GNil \<Rightarrow> go_return (Inl (Err (''unable to get body for '' @ what @ '' request: '' @ error_text getErr)))
       | GArr vs \<Rightarrow> go_return (decode vs)
       | _ \<Rightarrow> conv_panic)"

definition undecodable :: "go_error + 'a \<Rightarrow> go_error + 'a" where
  "undecodable r = (case r of Inl _ \<Rightarrow> Inl (Err ''unable to decode fetched data'') | Inr x \<Rightarrow> Inr x)"

definition getMonitorUnits :: "('w, 'e) services \<Rightarrow> jaws_codec \<Rightarrow> HTTPRequest \<Rightarrow> Device \<Rightarrow> ('w, go_error + MonitorUnit list) go" where
  "getMonitorUnits V J request device = get_list V J (jcMonitorUnits J) ''units'' request device ''/monitor/units''"

definition getConfigOutlets :: "('w, 'e) services \<Rightarrow> jaws_codec \<Rightarrow> HTTPRequest \<Rightarrow> Device \<Rightarrow> ('w, go_error + ConfigOutlet list) go" where
  "getConfigOutlets V J request device = get_list V J (jcConfigOutlets J) ''config outlets'' request device ''/config/outlets''"

definition getMonitorOutlets :: "('w, 'e) services \<Rightarrow> jaws_codec \<Rightarrow> HTTPRequest \<Rightarrow> Device \<Rightarrow> ('w, go_error + MonitorOutlet list) go" where
  "getMonitorOutlets V J request device = get_list V J (\<lambda>vs. undecodable (jcOutlets J vs)) ''monitor outlets'' request device ''/monitor/outlets''"

definition getMonitorBranches :: "('w, 'e) services \<Rightarrow> jaws_codec \<Rightarrow> HTTPRequest \<Rightarrow> Device \<Rightarrow> ('w, go_error + Branch list) go" where
  "getMonitorBranches V J request device = get_list V J (\<lambda>vs. undecodable (jcBranches J vs)) ''monitor branches'' request device ''/monitor/branches''"

definition getMonitorPhases :: "('w, 'e) services \<Rightarrow> jaws_codec \<Rightarrow> HTTPRequest \<Rightarrow> Device \<Rightarrow> ('w, go_error + Phase list) go" where
  "getMonitorPhases V J request device = get_list V J (\<lambda>vs. undecodable (jcPhases J vs)) ''monitor phases'' request device ''/monitor/phases''"

definition getMonitorLines :: "('w, 'e) services \<Rightarrow> jaws_codec \<Rightarrow> HTTPRequest \<Rightarrow> Device \<Rightarrow> ('w, go_error + Line list) go" where
  "getMonitorLines V J request device = get_list V J (\<lambda>vs. undecodable (jcLines J vs)) ''monitor lines'' request device ''/monitor/lines''"

definition getMonitorSensorsTemp :: "('w, 'e) services \<Rightarrow> jaws_codec \<Rightarrow> HTTPRequest \<Rightarrow> Device \<Rightarrow> ('w, go_error + TemperatureSensor list) go" where
  "getMonitorSensorsTemp V J request device =
     get_list V J (\<lambda>vs. undecodable (jcTemperatures J vs)) ''monitor sensor temperature'' request device ''/monitor/sensors/temp''"

definition getMonitorSensorsHumidity :: "('w, 'e) services \<Rightarrow> jaws_codec \<Rightarrow> HTTPRequest \<Rightarrow> Device \<Rightarrow> ('w, go_error + HumiditySensor list) go" where
  "getMonitorSensorsHumidity V J request device =
     get_list V J (\<lambda>vs. undecodable (jcHumidities J vs)) ''monitor sensor humidity'' request device ''/monitor/sensors/humidity''"

definition disableDHCPStaticAddressFallback :: "('w, 'e) services \<Rightarrow> jaws_codec \<Rightarrow> HTTPRequest \<Rightarrow> Device \<Rightarrow> ('w, go_error option) go" where
  "disableDHCPStaticAddressFallback V J request device =
     (case jcMarshalMap J [(''dhcp_static_address_fallback'', ''disabled'')] of
        Inl e \<Rightarrow> go_return (Some e)
      | Inr payload \<Rightarrow>
          go_bind (DoHTTPAction V (request\<lparr>hr_FullURL := dv_URL device @ ''/config/network'', hr_Method := ''PATCH'',
              hr_ExpectedStatusCodes := [204], hr_Payload := Some payload\<rparr>))
            (\<lambda>(_, _, patchErr). go_return patchErr))"

section \<open>Units of a device\<close>

record inventory =
  iv_Branches :: "Branch list"
  iv_Lines :: "Line list"
  iv_Phases :: "Phase list"
  iv_Outlets :: "MonitorOutlet list"
  iv_OutletConfigs :: "ConfigOutlet list"
  iv_TemperatureSensors :: "TemperatureSensor list"
  iv_HumiditySensors :: "HumiditySensor list"

definition get_inventory :: "('w, 'e) services \<Rightarrow> jaws_codec \<Rightarrow> HTTPRequest \<Rightarrow> Device \<Rightarrow> ('w, go_error + inventory) go" where
  "get_inventory V J request device =
     go_check (getMonitorBranches V J request device) (\<lambda>branches.
     go_check (getMonitorLines V J request device) (\<lambda>lines.
     go_check (getMonitorPhases V J request device) (\<lambda>phases.
     go_check (getMonitorOutlets V J request device) (\<lambda>outlets.
     go_check (getConfigOutlets V J request device) (\<lambda>outletConfigs.
     go_check (getMonitorSensorsTemp V J request device) (\<lambda>temperatureSensors.
     go_check (getMonitorSensorsHumidity V J request device) (\<lambda>humiditySensors.
       go_return (Inr \<lparr> iv_Branches = branches, iv_Lines = lines, iv_Phases = phases, iv_Outlets = outlets,
         iv_OutletConfigs = outletConfigs, iv_TemperatureSensors = temperatureSensors, iv_HumiditySensors = humiditySensors \<rparr>))))))))"

text \<open>The group with all outlets of a unit, which is created on the device or brought up to date.\<close>

definition epo_group :: "MonitorOutlet list \<Rightarrow> Unit \<Rightarrow> OutletGroup" where
  "epo_group outlets unit = \<lparr> og_Name = EPOOutletGroupPrefix @ ''_'' @ un_Id unit,
     og_OutletAccess = filter (\<lambda>i. HasPrefix i (un_Id unit)) (map mo_ID outlets) \<rparr>"

definition create_epo_group :: "('w, 'e) services \<Rightarrow> jaws_codec \<Rightarrow> HTTPRequest \<Rightarrow> Device \<Rightarrow> MonitorOutlet list \<Rightarrow> Unit \<Rightarrow> ('w, go_error option) go" where
  "create_epo_group V J request device outlets unit =
     (let group = epo_group outlets unit in
      case jcMarshalGroup J group of
        Inl e \<Rightarrow> go_return (Some (Err (''unable to marshal EPO payload: '' @ Error e)))
      | Inr epoPayload \<Rightarrow>
          (let createRequest = request\<lparr>hr_FullURL := dv_URL device @ ''/config/groups/'' @ og_Name group, hr_Method := ''POST'',
                 hr_ExpectedStatusCodes := [201], hr_Payload := Some epoPayload\<rparr>
           in go_bind (DoHTTPAction V createRequest) (\<lambda>(_, _, createErr). case createErr of
               None \<Rightarrow> go_return None
             | Some e \<Rightarrow>
                 if HasSuffix (Error e) ''409'' then
                   go_bind (DoHTTPAction V (createRequest\<lparr>hr_Method := ''PATCH'', hr_ExpectedStatusCodes := [204]\<rparr>)) (\<lambda>(_, _, patchErr).
                     go_return (case patchErr of
                         Some _ \<Rightarrow> Some (Err (''unable to patch EPO group: '' @ Error e))
                       | None \<Rightarrow> None))
                 else go_return (Some (Err (''unable to create EPO group: '' @ Error e))))))"

text \<open>A group goes to every unit that has one of its outlets, and a group without outlets to every unit.\<close>

definition group_matches :: "string \<Rightarrow> OutletGroup \<Rightarrow> bool" where
  "group_matches unitId outletGroup \<longleftrightarrow>
     list_ex (\<lambda>o'. HasPrefix o' unitId) (og_OutletAccess outletGroup) \<or> list_all (\<lambda>o'. HasPrefix o' unitId) (og_OutletAccess outletGroup)"

definition assign_unit :: "inventory \<Rightarrow> OutletGroup list \<Rightarrow> Unit \<Rightarrow> Unit" where
  "assign_unit iv outletGroups unit =
     (let mine = (\<lambda>i. HasPrefix i (un_Id unit)) in
      unit\<lparr> un_Branches := un_Branches unit @ filter (\<lambda>x. mine (br_ID x)) (iv_Branches iv),
        un_Lines := un_Lines unit @ filter (\<lambda>x. mine (ln_ID x)) (iv_Lines iv),
        un_Phases := un_Phases unit @ filter (\<lambda>x. mine (ph_ID x)) (iv_Phases iv),
        un_Outlets := un_Outlets unit @ filter (\<lambda>x. mine (mo_ID x)) (iv_Outlets iv),
        un_OutletConfigs := un_OutletConfigs unit @ filter (\<lambda>x. mine (co_ID x)) (iv_OutletConfigs iv),
        un_TemperatureSensors := un_TemperatureSensors unit @ filter (\<lambda>x. mine (ts_ID x)) (iv_TemperatureSensors iv),
        un_HumiditySensors := un_HumiditySensors unit @ filter (\<lambda>x. mine (hu_ID x)) (iv_HumiditySensors iv),
        un_OutletGroups := un_OutletGroups unit @ filter (group_matches (un_Id unit)) outletGroups \<rparr>)"

definition get_units :: "('w, 'e) services \<Rightarrow> jaws_codec \<Rightarrow> Device \<Rightarrow> ('w, go_error + Unit list) go" where
  "get_units V J device =
     (let request = base_request V device in
      go_bind (disableDHCPStaticAddressFallback V J request device) (\<lambda>_.
      go_check (get_list V J (jcUnits J) ''units'' request device ''/config/info/units'') (\<lambda>units.
      go_check (get_inventory V J request device) (\<lambda>iv.
      go_bind (until_error (map (create_epo_group V J request device (iv_Outlets iv)) units)) (\<lambda>epoErr. case epoErr of
          Some e \<Rightarrow> go_return (Inl e)
        | None \<Rightarrow>
            go_check (get_list V J (jcOutletGroups J) ''outlet groups'' request device ''/config/groups'') (\<lambda>outletGroups.
              go_return (Inr (map (assign_unit iv outletGroups) units))))))))"

section \<open>Discovery\<close>

text \<open>\<open>jw_KnownDevices\<close> lists a map in the order of its iteration; intervals are in nanoseconds.\<close>

record ('w, 't) JAWSBackedHelper = "('w, 't) backend" +
  jw_KeyPath :: string
  jw_KnownDevices :: "(string \<times> Device) list"
  jw_PollingEnabled :: bool
  jw_PollingInterval :: int
  jw_PollingWorkers :: int
  jw_PollingTemperatureInterval :: int
  jw_PollingHumidityInterval :: int
  jw_RFEventID :: "64 word"

definition wrap_error :: "string \<Rightarrow> ('s, go_error option) go \<Rightarrow> ('s, go_error option) go" where
  "wrap_error msg m = go_bind m (\<lambda>err. go_return (map_option (\<lambda>e. Err (msg @ Error e)) err))"

text \<open>The errors of the units are overwritten by the result of the next call.\<close>

definition jaws_initDevice :: "('w, 'e, 't) platform \<Rightarrow> jaws_codec \<Rightarrow> string \<Rightarrow> Device \<Rightarrow> (('w, 't) JAWSBackedHelper, go_error option) go" where
  "jaws_initDevice P J xname device =
     (let R = pf_redis P; V = pf_services P in
      go_bind (on_be (get_units V J device)) (\<lambda>r. case r of
          Inl e \<Rightarrow> go_return (Some e)
        | Inr units \<Rightarrow>
            go_bind (gets jw_PollingEnabled) (\<lambda>polling.
            until_error
              [wrap_error ''unable to remove keys from Redis: '' (on_helper (removeXnamePrependedKeys R (pf_more P) xname)),
               go_bind (go_each (\<lambda>unit. go_bind (on_helper (initRackPDU R (pf_more P) (LookupEnv V ''SCHEMA_VERSION'') polling xname unit)) (\<lambda>_. go_return ())) units)
                 (\<lambda>_. go_return None),
               on_helper (initManagerCollection R xname),
               on_helper (initManager R xname GenericBmcID ''ServerTech JAWS''),
               on_certs (InitForXName R (pf_crypto P) (pf_storage P) xname),
               on_be (informDNS V (xname @ ''-rts'')),
               go_bind (gets jw_KeyPath) (\<lambda>keyPath.
               go_bind (on_be (GetGlobalCredentials P keyPath)) (\<lambda>g. case g of
                   Inl e \<Rightarrow> go_panic (Error e)
                 | Inr creds \<Rightarrow>
                     (let cred = \<lparr> cc_Xname = xname, cc_URL = xname @ ''-rts:8083'', cc_Username = cr_Username creds, cc_Password = cr_Password creds,
                         cc_SNMPAuthPass = [], cc_SNMPPrivPass = [] \<rparr>
                      in until_error
                       [wrap_error ''unable to store credentials in Vault: ''
                          (on_be (go_bind (StoreCompCred V cred) (\<lambda>r. go_return (case r of Inl e \<Rightarrow> Some e | Inr _ \<Rightarrow> None)))),
                        wrap_error ''unable to inform HSM: '' (on_be (informHSMWithFQDN V xname (cc_URL cred)))])))])))"

definition jaws_discover :: "('w, 'e, 't) platform \<Rightarrow> jaws_codec \<Rightarrow> string \<times> Device \<Rightarrow> go_error option \<Rightarrow> (('w, 't) JAWSBackedHelper, go_error option) go" where
  "jaws_discover P J d err = (case d of (xname, device) \<Rightarrow>
     go_bind (jaws_initDevice P J xname device) (\<lambda>initErr. case initErr of
         Some e \<Rightarrow> go_return (Some (Err (''unable to initialize device: '' @ Error e)))
       | None \<Rightarrow> go_bind (modifies (\<lambda>s. s\<lparr>jw_KnownDevices := AList.update xname device (jw_KnownDevices s)\<rparr>)) (\<lambda>_. go_return err)))"

fun jaws_discover_all :: "('w, 'e, 't) platform \<Rightarrow> jaws_codec \<Rightarrow> (string \<times> Device) list \<Rightarrow> go_error option \<Rightarrow> (('w, 't) JAWSBackedHelper, go_error option) go" where
  "jaws_discover_all P J [] err = go_return err"
| "jaws_discover_all P J (d # ds) err = go_bind (jaws_discover P J d err) (jaws_discover_all P J ds)"

definition jaws_RunPeriodic :: "('w, 'e, 't) platform \<Rightarrow> 'w pdu_storage \<Rightarrow> jaws_codec \<Rightarrow> (('w, 't) JAWSBackedHelper, go_error option) go" where
  "jaws_RunPeriodic P S J = (\<lambda>s.
     go_bind (on_be (GetDevices S (jw_KeyPath s))) (\<lambda>r. case r of
         Inl e \<Rightarrow> go_return (Some e)
       | Inr devices \<Rightarrow> jaws_discover_all P J (filter (\<lambda>(xname, _). map_of (jw_KnownDevices s) xname = None) devices) None) s)"

section \<open>Set-up\<close>

text \<open>A number of the environment: the default when it is not set, an error when it is none.\<close>

definition env_int :: "('w, 'e) services \<Rightarrow> string \<Rightarrow> (int \<Rightarrow> int) \<Rightarrow> int \<Rightarrow> go_error + int" where
  "env_int V variable f fallback = (case LookupEnv V variable of
      None \<Rightarrow> Inr fallback
    | Some raw \<Rightarrow> (case Atoi raw of Inl e \<Rightarrow> Inl e | Inr n \<Rightarrow> Inr (f n)))"

definition duration_seconds :: "int \<Rightarrow> int" where
  "duration_seconds n = int64 (n * second)"

text \<open>The field has its default when the parse fails, except for the workers, which are then zero or the end of the range.\<close>

definition set_from :: "('w, 'e) services \<Rightarrow> string \<Rightarrow> (int \<Rightarrow> int) \<Rightarrow> int \<Rightarrow> int \<Rightarrow> (int \<Rightarrow> 's \<Rightarrow> 's) \<Rightarrow> ('s, go_error option) go" where
  "set_from V variable f fallback failed upd = (case env_int V variable f fallback of
      Inl e \<Rightarrow> go_bind (modifies (upd failed)) (\<lambda>_. go_return (Some e))
    | Inr n \<Rightarrow> go_bind (modifies (upd n)) (\<lambda>_. go_return None))"

text \<open>
  \<open>workers_failed\<close> is what \<open>strconv.Atoi\<close> returns beside an error. The polling that is started here is
  modelled on its own.
\<close>

definition workers_failed :: "('w, 'e) services \<Rightarrow> int" where
  "workers_failed V = (case LookupEnv V ''JAWS_POLLING_WORKERS'' of
      None \<Rightarrow> 0
    | Some raw \<Rightarrow> (case ParseInt raw of
        Inl ErrRange \<Rightarrow> if fst (split_sign raw) then - (2 ^ 63) else 2 ^ 63 - 1
      | _ \<Rightarrow> 0))"

definition setup_polling :: "('w, 'e) services \<Rightarrow> (('w, 't) JAWSBackedHelper, go_error option) go" where
  "setup_polling V = until_error
     [go_bind (modifies (\<lambda>s. if map_option ToLower (LookupEnv V ''JAWS_POLLING_ENABLED'') = Some ''true'' then s\<lparr>jw_PollingEnabled := True\<rparr> else s)) (\<lambda>_.
        go_return None),
      set_from V ''JAWS_POLLING_INTERVAL'' duration_seconds (10 * second) (10 * second) (\<lambda>n s. s\<lparr>jw_PollingInterval := n\<rparr>),
      set_from V ''JAWS_POLLING_TEMPERATURE_INTERVAL'' duration_seconds (30 * second) (30 * second) (\<lambda>n s. s\<lparr>jw_PollingTemperatureInterval := n\<rparr>),
      set_from V ''JAWS_POLLING_HUMIDITY_INTERVAL'' duration_seconds (30 * second) (30 * second) (\<lambda>n s. s\<lparr>jw_PollingHumidityInterval := n\<rparr>),
      set_from V ''JAWS_POLLING_WORKERS'' (\<lambda>n. n) 30 (workers_failed V) (\<lambda>n s. s\<lparr>jw_PollingWorkers := n\<rparr>)]"

definition jaws_SetupBackendHelper :: "('w, 'e, 't) platform \<Rightarrow> nat \<Rightarrow> (('w, 't) JAWSBackedHelper, go_error option) go" where
  "jaws_SetupBackendHelper P n =
     (let V = pf_services P in
      case LookupEnv V ''JAWS_VAULT_KEYPATH'' of
        None \<Rightarrow> go_fatal ''Environment variable JAWS_VAULT_KEYPATH was not set''
      | Some keyPath \<Rightarrow>
          go_bind (on_be (connectToVault V (pf_vault P) n)) (\<lambda>connected.
            if \<not> connected then go_fatal ''Unable to connect to Vault''
            else
              go_bind (modifies (\<lambda>s. s\<lparr>jw_KeyPath := keyPath\<rparr>)) (\<lambda>_.
                if \<not> setupCompCredsVault V then go_fatal ''Failed to setup CompCredsVault''
                else go_bind (on_be (GetGlobalCredentials P keyPath)) (\<lambda>g. case g of
                    Inl e \<Rightarrow> go_fatal ''Unable to get default credentails for RTS''
                  | Inr creds \<Rightarrow> until_error
                      [on_helper (initAccount (pf_redis P) (pf_hash P (cr_Password creds)) (cr_Username creds) ''Administrator''),
                       setup_polling V,
                       on_certs (SetupCertificateService GenericBmcID GenericCertificateID)]))))"

definition jaws_GetEnvForXname :: "string \<Rightarrow> ('w, 't) JAWSBackedHelper \<Rightarrow> (string \<times> string) list \<times> go_error option" where
  "jaws_GetEnvForXname xname s = (case map_of (jw_KnownDevices s) xname of
      Some device \<Rightarrow> ([(''RTS_URL'', dv_URL device), (''RTS_USERNAME'', dv_Username device), (''RTS_PASSWORD'', dv_Password device),
        (''RTS_XNAME'', dv_Xname device)], None)
    | None \<Rightarrow> ([], Some (Err ''Unable to find xname in device list'')))"

end
