(* ===== verification/Pdu_Run.thy ===== *)
theory Pdu_Run
  imports Pdu_Backend
begin

text \<open>
  Requests to the backend for power distribution units (\<open>RunBackendHelper\<close> of
  \<open>internal/backend_helpers/jaws.go\<close>): the key is translated to a request of the JAWS interface, the answer
  is written to Redis, and the value of the key is read from there.
\<close>

section \<open>From keys to requests\<close>

text \<open>The second group of \<open>(x\d+p\d+){0,}(root\S+$)\<close>.\<close>

fun key_from :: "string \<Rightarrow> string \<Rightarrow> string option" where
  "key_from root [] = None"
| "key_from root (c # s) =
     (let rest = drop (length root) (c # s) in
      if HasPrefix (c # s) root \<and> rest \<noteq> [] \<and> list_all (\<lambda>x. \<not> is_space x) rest then Some (c # s)
      else key_from root s)"

text \<open>The identifier of the unit and the rest of the key.\<close>

definition split_key :: "string \<Rightarrow> (string \<times> string) option" where
  "split_key k = (case dropWhile (\<lambda>c. c \<noteq> CHR ''/'') k of [] \<Rightarrow> None | _ # rest \<Rightarrow> Some (takeWhile (\<lambda>c. c \<noteq> CHR ''/'') k, rest))"

record jaws_op =
  jo_op :: string
  jo_urlPath :: string
  jo_payload :: "string option"
  jo_invalidatedKeys :: "string list"
  jo_expectedStatusCode :: int

definition get_op :: "string \<Rightarrow> jaws_op" where
  "get_op path = \<lparr> jo_op = ''GET'', jo_urlPath = path, jo_payload = None, jo_invalidatedKeys = [], jo_expectedStatusCode = 200 \<rparr>"

definition part :: "string list \<Rightarrow> nat \<Rightarrow> ('s, string) go" where
  "part ps i = (if i < length ps then go_return (ps ! i) else go_panic ''index out of range'')"

definition control_op :: "jaws_codec \<Rightarrow> string \<Rightarrow> string \<Rightarrow> string list \<Rightarrow> (string \<times> string) list \<Rightarrow> go_error + jaws_op" where
  "control_op J action path invalidated env = (case map_of env ''PowerState'' of
      None \<Rightarrow> Inl (Err ''PowerControl action requested, but PowerState not provided'')
    | Some state \<Rightarrow> (case jcMarshalMap J [(''control_action'', state)] of
        Inl _ \<Rightarrow> Inl (Err (''unable to marshal '' @ action @ '' payload''))
      | Inr payload \<Rightarrow> Inr \<lparr> jo_op = ''PATCH'', jo_urlPath = path, jo_payload = Some payload, jo_invalidatedKeys = invalidated,
          jo_expectedStatusCode = 204 \<rparr>))"

definition outlet_op :: "jaws_codec \<Rightarrow> string \<Rightarrow> string \<Rightarrow> string \<Rightarrow> (string \<times> string) list \<Rightarrow> ('s, go_error + jaws_op) go" where
  "outlet_op J xname pduID deviceSpecificKey env =
     (let parts = Split1 (TrimPrefix deviceSpecificKey ''Outlets/'') CHR ''/'' in
      go_bind (part parts 0) (\<lambda>outlet. case translateRedfishToJAWSOutlet outlet of
          Inl e \<Rightarrow> go_return (Inl e)
        | Inr jawsOutlet \<Rightarrow>
            go_bind (part parts 1) (\<lambda>what.
              if what = ''Actions'' then
                go_bind (part parts 2) (\<lambda>action. go_return (
                  if action = ''Outlet.PowerControl'' then
                    control_op J action (filepath_Join [''/control/outlets'', jawsOutlet])
                      [filepath_Join [xname, RackPDUsKeyspace, pduID, ''Outlets'', outlet, ''PowerState'']] env
                  else Inl (Err ''unknown action for Outlets'')))
              else go_return (Inr (get_op (filepath_Join [if what = ''PowerRestorePolicy'' then ''/config/outlets'' else ''/monitor/outlets'', jawsOutlet]))))))"

definition group_op :: "jaws_codec \<Rightarrow> string \<Rightarrow> (string \<times> string) list \<Rightarrow> ('s, go_error + jaws_op) go" where
  "group_op J deviceSpecificKey env =
     (let parts = Split1 (TrimPrefix deviceSpecificKey ''OutletGroups/'') CHR ''/'' in
      go_bind (part parts 0) (\<lambda>outletGroup.
      go_bind (part parts 1) (\<lambda>what.
        if what = ''Actions'' then
          go_bind (part parts 2) (\<lambda>action. go_return (
            if action = ''OutletGroup.PowerControl'' then control_op J action (filepath_Join [''/control/groups'', outletGroup]) [] env
            else Inl (Err ''unknown action for Outlets'')))
        else go_return (Inl (Err ''unknown OutletGroup key'')))))"

text \<open>A path that stays empty is an error of its own.\<close>

definition jaws_operation :: "jaws_codec \<Rightarrow> string \<Rightarrow> string \<Rightarrow> string \<Rightarrow> (string \<times> string) list \<Rightarrow> ('s, go_error + jaws_op) go" where
  "jaws_operation J xname pduID deviceSpecificKey env =
     (if HasPrefix deviceSpecificKey ''Status'' then go_return (Inr (get_op ''/monitor/units''))
      else if HasPrefix deviceSpecificKey ''Branches'' then
        go_bind (part (Split1 (TrimPrefix deviceSpecificKey ''Branches/'') CHR ''/'') 0) (\<lambda>branch.
          go_return (Inr (get_op (filepath_Join [''/monitor/branches'', branch]))))
      else if HasPrefix deviceSpecificKey ''Mains'' then
        go_bind (part (Split1 (TrimPrefix deviceSpecificKey ''Mains/'') CHR ''/'') 1) (\<lambda>sensors. go_return (
          if sensors = ''PolyPhaseCurrentSensors'' then Inr (get_op ''/monitor/lines'')
          else if sensors = ''PolyPhasePowerSensors'' then Inr (get_op ''/monitor/phases'')
          else Inl (Err ''unable to build full url'')))
      else if HasPrefix deviceSpecificKey ''Outlets'' then outlet_op J xname pduID deviceSpecificKey env
      else if HasPrefix deviceSpecificKey ''OutletGroups'' then group_op J deviceSpecificKey env
      else if HasPrefix deviceSpecificKey ''Sensors/Temperature'' then
        go_bind (part (Split1 (TrimPrefix deviceSpecificKey ''Sensors/Temperature'') CHR ''/'') 0) (\<lambda>sensor.
          go_return (Inr (get_op (filepath_Join [''/monitor/sensors/temp'', sensor]))))
      else if HasPrefix deviceSpecificKey ''Sensors/Humidity'' then
        go_bind (part (Split1 (TrimPrefix deviceSpecificKey ''Sensors/Humidity'') CHR ''/'') 0) (\<lambda>sensor.
          go_return (Inr (get_op (filepath_Join [''/monitor/sensors/humidity'', sensor]))))
      else go_return (Inl (Err ''unknown key'')))"

section \<open>From answers to writes\<close>

definition from_array :: "gval \<Rightarrow> (gval list \<Rightarrow> go_error + 'a) \<Rightarrow> ('a \<Rightarrow> go_error + pset list) \<Rightarrow> ('s, go_error + pset list) go" where
  "from_array v decode writes = (case v of
      GArr vs \<Rightarrow> go_return (case decode vs of
          Inl _ \<Rightarrow> Inl (Err ''unable to decode fetched data'')
        | Inr x \<Rightarrow> (case writes x of Inl _ \<Rightarrow> Inl (Err ''unable to populate database with fetched data'') | Inr ss \<Rightarrow> Inr ss))
    | _ \<Rightarrow> conv_panic)"

definition from_object :: "gval \<Rightarrow> (gobj \<Rightarrow> go_error + 'a) \<Rightarrow> ('a \<Rightarrow> go_error + pset list) \<Rightarrow> ('s, go_error + pset list) go" where
  "from_object v decode writes = (case v of
      GObj fs \<Rightarrow> go_return (case decode fs of
          Inl _ \<Rightarrow> Inl (Err ''unable to decode fetched data'')
        | Inr x \<Rightarrow> (case writes x of Inl _ \<Rightarrow> Inl (Err ''unable to populate database with fetched data'') | Inr ss \<Rightarrow> Inr ss))
    | _ \<Rightarrow> conv_panic)"

text \<open>The writes for an answer; \<open>None\<close> when the request has nothing to write.\<close>

definition answer_writes :: "jaws_codec \<Rightarrow> bool \<Rightarrow> string \<Rightarrow> gval \<Rightarrow> string \<Rightarrow> string \<Rightarrow> ('s, go_error + pset list) go option" where
  "answer_writes J polling urlPath v xname pduID =
     (if urlPath = ''/monitor/units'' then
        Some (from_array v (jcMonitorUnits J) (\<lambda>units. Inr (populateRedisForMonitorUnits polling units xname pduID)))
      else if HasPrefix urlPath ''/monitor/lines'' then
        Some (from_array v (jcLines J) (\<lambda>lines. Inr (populateRedisForLines polling lines xname pduID)))
      else if HasPrefix urlPath ''/monitor/phases'' then
        Some (from_array v (jcPhases J) (\<lambda>phases. Inr (populateRedisForPhases polling phases xname pduID)))
      else if HasPrefix urlPath ''/monitor/outlets'' then
        Some (from_object v (jcOutlet J) (\<lambda>outlet. populateRedisForMonitorOutlet polling outlet xname pduID))
      else if HasPrefix urlPath ''/monitor/branches'' then
        Some (from_object v (jcBranch J) (\<lambda>branch. Inr (populateRedisForBranch polling branch xname pduID)))
      else if HasPrefix urlPath ''/config/outlets'' then
        Some (from_object v (jcConfigOutlet J) (\<lambda>outlet. populateRedisForConfigOutlet polling outlet xname pduID))
      else if HasPrefix urlPath ''/monitor/sensors/temp'' then
        Some (from_object v (jcTemperature J) (\<lambda>sensor. Inr (populateRedisForTemperature polling [sensor] xname pduID)))
      else if HasPrefix urlPath ''/monitor/sensors/humidity'' then
        Some (from_object v (jcHumidity J) (\<lambda>sensor. Inr (populateRedisForHumidity polling [sensor] xname pduID)))
      else None)"

section \<open>A request\<close>

text \<open>What follows a request without an answer: the keys it made stale are removed, and the switching of an outlet is reported.\<close>

definition report_power :: "('w, 'e, 't) platform \<Rightarrow> jaws_codec \<Rightarrow> string \<Rightarrow> jaws_op \<Rightarrow> (('w, 't) JAWSBackedHelper, unit) go" where
  "report_power P J xname r =
     (if HasPrefix (jo_urlPath r) ''/control/outlets'' then
        (case map_option (jcUnmarshalMap J) (jo_payload r) of
           Some (Inr postBody) \<Rightarrow> (case (map_of postBody ''control_action'', jo_invalidatedKeys r) of
               (Some newPostState, k # _) \<Rightarrow>
                 (let resource = TrimSuffix (TrimPrefix k xname) ''/PowerState'' in
                  go_bind (gets jw_RFEventID) (\<lambda>n.
                  go_bind (on_be (postRFPowerEvent (pf_services P) n xname resource newPostState)) (\<lambda>(n', _).
                    modifies (\<lambda>s. s\<lparr>jw_RFEventID := n'\<rparr>))))
             | _ \<Rightarrow> go_return ())
         | _ \<Rightarrow> go_return ())
      else go_return ())"

definition perform :: "('w, 'e, 't) platform \<Rightarrow> jaws_codec \<Rightarrow> string \<Rightarrow> string \<Rightarrow> string \<Rightarrow> string \<Rightarrow> string \<times> string \<Rightarrow> jaws_op \<Rightarrow>
    (('w, 't) JAWSBackedHelper, go_error + string) go" where
  "perform P J key xname pduID baseURL auth r =
     (let R = pf_redis P; V = pf_services P in
      go_bind (on_be (GetBodyForHTTPRequest V J \<lparr> hr_Method = jo_op r, hr_FullURL = baseURL @ jo_urlPath r,
          hr_ExpectedStatusCodes = [jo_expectedStatusCode r], hr_Payload = jo_payload r, hr_Auth = Some auth, hr_CustomHeaders = getSvcInstName V \<rparr>))
        (\<lambda>(v, err). case err of
            Some e \<Rightarrow> go_return (Inl e)
          | None \<Rightarrow>
              if v = GNil then
                go_bind (on_helper (invalidateRedisKeys R (jo_invalidatedKeys r))) (\<lambda>_.
                go_bind (report_power P J xname r) (\<lambda>_. go_return (Inr [])))
              else
                go_bind (gets jw_PollingEnabled) (\<lambda>polling.
                case answer_writes J polling (jo_urlPath r) v xname pduID of
                  None \<Rightarrow> go_return (Inr [])
                | Some m \<Rightarrow> go_check m (\<lambda>sets.
                    go_bind (on_be (exec_sets R (pf_more P) sets)) (\<lambda>execErr. case execErr of
                        Some e \<Rightarrow> go_return (Inl e)
                      | None \<Rightarrow> on_be (rGet R key))))))"

definition jaws_RunBackendHelper :: "('w, 'e, 't) platform \<Rightarrow> jaws_codec \<Rightarrow> string \<Rightarrow> (string \<times> string) list \<Rightarrow> (('w, 't) JAWSBackedHelper, go_error + string) go" where
  "jaws_RunBackendHelper P J key env = (case map_of env ''RTS_URL'' of
      None \<Rightarrow> go_return (Inl (Err ''RTS_URL not in environment variables''))
    | Some baseURL \<Rightarrow> (case map_of env ''RTS_USERNAME'' of
        None \<Rightarrow> go_return (Inl (Err ''RTS_USERNAME not in environment variables''))
      | Some username \<Rightarrow> (case map_of env ''RTS_PASSWORD'' of
          None \<Rightarrow> go_return (Inl (Err ''RTS_PASSWORD not in environment variables''))
        | Some password \<Rightarrow> (case map_of env ''RTS_XNAME'' of
            None \<Rightarrow> go_return (Inl (Err ''RTS_XNAME not in environment variables''))
          | Some xname \<Rightarrow> (\<lambda>s.
              if map_of (jw_KnownDevices s) xname = None then (Ret (Inl (Err (''unknown xname: '' @ xname))), s)
              else case key_from RackPDUsKeyspace key of
                None \<Rightarrow> (Ret (Inl (Err ''key format not what expected'')), s)
              | Some fullKey \<Rightarrow>
                  (let pduPrefixedKey = TrimPrefix fullKey RackPDUsKeyspace in
                   if pduPrefixedKey = key then (Ret (Inl (Err ''unexpected PDU key prefix'')), s)
                   else case split_key (TrimPrefix pduPrefixedKey ''/'') of
                     None \<Rightarrow> (Ret (Inl (Err ''pduPrefixedKey does not contain the right number of parts'')), s)
                   | Some (pduID, deviceSpecificKey) \<Rightarrow>
                       go_check (jaws_operation J xname pduID deviceSpecificKey env)
                         (perform P J key xname pduID baseURL (username, password)) s))))))"

end
