(* ===== verification/Pdu_Polling.thy ===== *)
theory Pdu_Polling
  imports Pdu_Run
begin

text \<open>
  Polling of power distribution units (\<open>internal/backend_helpers/jaws_polling.go\<close>) and the telemetry it
  sends (\<open>internal/rfdispatcher/telemetry\<close>). A round of polling returns the events it put into the channel.
  The workers, which share the set of devices that are being polled, are a step relation: one step is one
  access to the channel or to the set.
\<close>

section \<open>Telemetry\<close>

datatype CrayTelemetryType = Voltage | Current | Energy | Temperature

fun telemetry_name :: "CrayTelemetryType \<Rightarrow> string" where
  "telemetry_name Voltage = ''CrayTelemetry.Voltage''"
| "telemetry_name Current = ''CrayTelemetry.Current''"
| "telemetry_name Energy = ''CrayTelemetry.Energy''"
| "telemetry_name Temperature = ''CrayTelemetry.Temperature''"

record CraySensorPayload =
  sp_Timestamp :: string
  sp_Location :: string
  sp_ParentalContext :: string
  sp_PhysicalContext :: string
  sp_Index :: "8 word option"
  sp_PhysicalSubContext :: string
  sp_DeviceSpecificContext :: string
  sp_Value :: string

record TelemetrySensors =
  tl_Sensors :: "CraySensorPayload list"
  tl_TelemetrySource :: string

text \<open>The fields that are filled in.\<close>

record TelemetryRecord =
  tr_EventTimestamp :: string
  tr_Message :: string
  tr_MessageId :: string
  tr_MessageArgs :: "string list"
  tr_Oem :: TelemetrySensors

record TelemetryEvent =
  te_Context :: string
  te_Events :: "TelemetryRecord list"
  te_EventsOCount :: int

text \<open>The helper of a round: the identifiers of the units and the name of the device.\<close>

record JAWsTelemetryHelper =
  th_pduIDs :: "string list"
  th_pduControllerXName :: string

definition parseIndex :: "string \<Rightarrow> go_error + 8 word" where
  "parseIndex i = (case Atoi (getIndexFromJAWsID i) of
      Inl _ \<Rightarrow> Inl (Err ''Unable to parse outlet index'')
    | Inr n \<Rightarrow> Inr (word_of_int n))"

fun find_ordinal :: "string \<Rightarrow> string list \<Rightarrow> nat \<Rightarrow> nat option" where
  "find_ordinal i [] n = None"
| "find_ordinal i (p # ps) n = (if HasPrefix i p then Some n else find_ordinal i ps (Suc n))"

definition pduXName :: "JAWsTelemetryHelper \<Rightarrow> string \<Rightarrow> go_error + string" where
  "pduXName h i = (case find_ordinal i (sort_Strings (th_pduIDs h)) 0 of
      Some n \<Rightarrow> Inr (th_pduControllerXName h @ ''p'' @ FormatInt (int n))
    | None \<Rightarrow> Inl (Err (''Unable to determine PDU XName for given id '' @ i)))"

definition stripUnitPrefix :: "string \<Rightarrow> go_error + string" where
  "stripUnitPrefix value = (case dropWhile (\<lambda>c. c \<noteq> CHR '':'') value of
      [] \<Rightarrow> Inl (Err ''unable to strip unit prefix'')
    | _ # rest \<Rightarrow> Inr rest)"

definition newEvent :: "JAWsTelemetryHelper \<Rightarrow> string \<Rightarrow> CrayTelemetryType \<Rightarrow> CraySensorPayload list \<Rightarrow> TelemetryEvent" where
  "newEvent h timestamp sensorType sensors =
     \<lparr> te_Context = th_pduControllerXName h @ '':'' @ telemetry_name sensorType,
       te_Events = [\<lparr> tr_EventTimestamp = timestamp, tr_Message = ''See Oem/CrayPayload property'', tr_MessageId = telemetry_name sensorType,
         tr_MessageArgs = [], tr_Oem = \<lparr> tl_Sensors = sensors, tl_TelemetrySource = ''River'' \<rparr> \<rparr>],
       te_EventsOCount = 1 \<rparr>"

text \<open>The first error of a list of results, or all of them.\<close>

fun all_right :: "(go_error + 'a) list \<Rightarrow> go_error + 'a list" where
  "all_right [] = Inr []"
| "all_right (r # rs) = (case r of Inl e \<Rightarrow> Inl e | Inr x \<Rightarrow> map_sum (\<lambda>e. e) (\<lambda>xs. x # xs) (all_right rs))"

definition invalid_type :: "CrayTelemetryType \<Rightarrow> go_error + 'a" where
  "invalid_type t = Inl (Err (''Invalid telemetry type: '' @ telemetry_name t))"

definition at_location :: "JAWsTelemetryHelper \<Rightarrow> string \<Rightarrow> (string \<Rightarrow> 8 word \<Rightarrow> go_error + 'a) \<Rightarrow> go_error + 'a" where
  "at_location h i f = (case pduXName h i of Inl e \<Rightarrow> Inl e | Inr x \<Rightarrow> (case parseIndex i of Inl e \<Rightarrow> Inl e | Inr n \<Rightarrow> f x n))"

definition payload :: "string \<Rightarrow> string \<Rightarrow> 8 word \<Rightarrow> string \<Rightarrow> string \<Rightarrow> string \<Rightarrow> string \<Rightarrow> CraySensorPayload" where
  "payload ts x n context sub specific value =
     \<lparr> sp_Timestamp = ts, sp_Location = x, sp_ParentalContext = ''PDU'', sp_PhysicalContext = context, sp_Index = Some n,
       sp_PhysicalSubContext = sub, sp_DeviceSpecificContext = specific, sp_Value = value \<rparr>"

definition outlet_sensor :: "JAWsTelemetryHelper \<Rightarrow> CrayTelemetryType \<Rightarrow> string \<Rightarrow> MonitorOutlet \<Rightarrow> go_error + CraySensorPayload" where
  "outlet_sensor h t ts outlet = at_location h (mo_ID outlet) (\<lambda>x n.
     map_sum (\<lambda>e. e) (payload ts x n ''Outlet'' ''Output'' []) (case t of
         Voltage \<Rightarrow> Inr (Sprintf_f (mo_Voltage outlet))
       | Current \<Rightarrow> Inr (Sprintf_f (mo_Current outlet))
       | Energy \<Rightarrow> Inr (FormatInt (int64 (mo_Energy outlet * 3600)))
       | _ \<Rightarrow> invalid_type t))"

definition event_of :: "JAWsTelemetryHelper \<Rightarrow> CrayTelemetryType \<Rightarrow> string \<Rightarrow> (go_error + CraySensorPayload) list \<Rightarrow> go_error + TelemetryEvent" where
  "event_of h t ts rs = map_sum (\<lambda>e. e) (newEvent h ts t) (all_right rs)"

definition OutletEvent :: "JAWsTelemetryHelper \<Rightarrow> MonitorOutlet list \<Rightarrow> CrayTelemetryType \<Rightarrow> string \<Rightarrow> go_error + TelemetryEvent" where
  "OutletEvent h outlets t ts = event_of h t ts (map (outlet_sensor h t ts) outlets)"

definition phase_sensor :: "JAWsTelemetryHelper \<Rightarrow> CrayTelemetryType \<Rightarrow> string \<Rightarrow> Phase \<Rightarrow> go_error + CraySensorPayload" where
  "phase_sensor h t ts phase = at_location h (ph_ID phase) (\<lambda>x n.
     let (fromPhase, toPhase) = getFromAndToPhasesFromPhaseName (ph_Name phase) in
     map_sum (\<lambda>e. e) (payload ts x n ''Phase'' ''Input'' (''Line'' @ fromPhase @ ''ToLine'' @ toPhase)) (case t of
         Voltage \<Rightarrow> Inr (Sprintf_f (ph_Voltage phase))
       | Current \<Rightarrow> Inr (Sprintf_f (ph_Current phase))
       | Energy \<Rightarrow> Inr (FormatInt (int64 (ph_Energy phase * 3600000)))
       | _ \<Rightarrow> invalid_type t))"

definition PhaseEvent :: "JAWsTelemetryHelper \<Rightarrow> Phase list \<Rightarrow> CrayTelemetryType \<Rightarrow> string \<Rightarrow> go_error + TelemetryEvent" where
  "PhaseEvent h phases t ts = event_of h t ts (map (phase_sensor h t ts) phases)"

definition current_sensor :: "JAWsTelemetryHelper \<Rightarrow> CrayTelemetryType \<Rightarrow> string \<Rightarrow> string \<Rightarrow> string \<Rightarrow> string \<Rightarrow> float64 \<Rightarrow> go_error + CraySensorPayload" where
  "current_sensor h t ts context i nm current = at_location h i (\<lambda>x n. case stripUnitPrefix nm of
      Inl e \<Rightarrow> Inl e
    | Inr deviceContext \<Rightarrow> map_sum (\<lambda>e. e) (payload ts x n context ''Input'' deviceContext)
        (if t = Current then Inr (Sprintf_f current) else invalid_type t))"

definition LineEvent :: "JAWsTelemetryHelper \<Rightarrow> Line list \<Rightarrow> CrayTelemetryType \<Rightarrow> string \<Rightarrow> go_error + TelemetryEvent" where
  "LineEvent h lines t ts = event_of h t ts (map (\<lambda>l. current_sensor h t ts ''Line'' (ln_ID l) (ln_Name l) (ln_Current l)) lines)"

definition BranchEvent :: "JAWsTelemetryHelper \<Rightarrow> Branch list \<Rightarrow> CrayTelemetryType \<Rightarrow> string \<Rightarrow> go_error + TelemetryEvent" where
  "BranchEvent h branches t ts =
     map_sum (\<lambda>e. e) (newEvent h ts Current)
       (all_right (map (\<lambda>b. current_sensor h t ts ''Branch'' (br_ID b) (br_Name b) (br_Current b)) branches))"

text \<open>Sensors that are not there have no reading and are left out.\<close>

definition env_sensor :: "JAWsTelemetryHelper \<Rightarrow> CrayTelemetryType \<Rightarrow> string \<Rightarrow> string \<Rightarrow> string \<Rightarrow> string \<Rightarrow> float64 option \<Rightarrow> go_error + CraySensorPayload list" where
  "env_sensor h t ts context i nm reading = at_location h i (\<lambda>x n.
     if t = Temperature then Inr (case reading of None \<Rightarrow> [] | Some r \<Rightarrow> [payload ts x n context [] nm (Sprintf_f r)])
     else invalid_type t)"

definition TemperatureEvent :: "JAWsTelemetryHelper \<Rightarrow> TemperatureSensor list \<Rightarrow> CrayTelemetryType \<Rightarrow> string \<Rightarrow> go_error + TelemetryEvent" where
  "TemperatureEvent h sensors t ts = map_sum (\<lambda>e. e) (\<lambda>ps. newEvent h ts Temperature (concat ps))
     (all_right (map (\<lambda>s. env_sensor h t ts ''Temperature'' (ts_ID s) (ts_Name s) (ts_TemperatureCelsius s)) sensors))"

definition HumidityEvent :: "JAWsTelemetryHelper \<Rightarrow> HumiditySensor list \<Rightarrow> CrayTelemetryType \<Rightarrow> string \<Rightarrow> go_error + TelemetryEvent" where
  "HumidityEvent h sensors t ts = map_sum (\<lambda>e. e) (\<lambda>ps. newEvent h ts Temperature (concat ps))
     (all_right (map (\<lambda>s. env_sensor h t ts ''Humidity'' (hu_ID s) (hu_Name s) (hu_RelativeHumidity s)) sensors))"

text \<open>The events that are put into the channel; an event that cannot be built is left out.\<close>

definition sent :: "(go_error + TelemetryEvent) list \<Rightarrow> TelemetryEvent list" where
  "sent rs = concat (map (\<lambda>r. case r of Inl _ \<Rightarrow> [] | Inr e \<Rightarrow> [e]) rs)"

definition event_sensors :: "TelemetryEvent \<Rightarrow> CraySensorPayload list" where
  "event_sensors e = tl_Sensors (tr_Oem (hd (te_Events e)))"

definition SendOutletEvents :: "JAWsTelemetryHelper \<Rightarrow> MonitorOutlet list \<Rightarrow> string \<Rightarrow> TelemetryEvent list" where
  "SendOutletEvents h outlets ts = sent (map (\<lambda>t. OutletEvent h outlets t ts) [Voltage, Current, Energy])"

definition SendPhaseEvents :: "JAWsTelemetryHelper \<Rightarrow> Phase list \<Rightarrow> string \<Rightarrow> TelemetryEvent list" where
  "SendPhaseEvents h phases ts = sent (map (\<lambda>t. PhaseEvent h phases t ts) [Voltage, Current, Energy])"

definition SendLineEvents :: "JAWsTelemetryHelper \<Rightarrow> Line list \<Rightarrow> string \<Rightarrow> TelemetryEvent list" where
  "SendLineEvents h lines ts = sent [LineEvent h lines Current ts]"

definition SendBranchEvents :: "JAWsTelemetryHelper \<Rightarrow> Branch list \<Rightarrow> string \<Rightarrow> TelemetryEvent list" where
  "SendBranchEvents h branches ts = sent [BranchEvent h branches Current ts]"

definition SendTemperatureEvents :: "JAWsTelemetryHelper \<Rightarrow> TemperatureSensor list \<Rightarrow> string \<Rightarrow> TelemetryEvent list" where
  "SendTemperatureEvents h sensors ts = filter (\<lambda>e. event_sensors e \<noteq> []) (sent [TemperatureEvent h sensors Temperature ts])"

definition SendHumidityEvents :: "JAWsTelemetryHelper \<Rightarrow> HumiditySensor list \<Rightarrow> string \<Rightarrow> TelemetryEvent list" where
  "SendHumidityEvents h sensors ts = filter (\<lambda>e. event_sensors e \<noteq> []) (sent [HumidityEvent h sensors Temperature ts])"

text \<open>What a worker does with an event of the channel; an error is logged.\<close>

definition send_event :: "('w, TelemetryEvent) services \<Rightarrow> TelemetryEvent \<Rightarrow> ('w, unit) go" where
  "send_event V event = (if event_sensors event = [] then go_return ()
     else go_bind (postTelemetryEvent V event) (\<lambda>_. go_return ()))"

definition sendTelemetryEvents :: "('w, TelemetryEvent) services \<Rightarrow> TelemetryEvent list \<Rightarrow> ('w, unit) go" where
  "sendTelemetryEvents V = go_each (send_event V)"

section \<open>A round of polling\<close>

text \<open>
  The units are sorted in place when the first name of a location is looked up, and the round goes on
  with that order.
\<close>

definition after_lookup :: "'a list \<Rightarrow> string list \<Rightarrow> string list" where
  "after_lookup xs ids = (if xs = [] then ids else sort_Strings ids)"

definition poll_stage :: "('w, 'e) services \<Rightarrow> 'w redis_ops \<Rightarrow> 'w redis_more \<Rightarrow> ('w, go_error + 'a list) go \<Rightarrow> ('a list \<Rightarrow> string \<Rightarrow> TelemetryEvent list) \<Rightarrow>
    ('a list \<Rightarrow> ('w, pset list) go) \<Rightarrow> string list \<Rightarrow> ('w, TelemetryEvent list \<times> string list) go" where
  "poll_stage V R K fetch events writes ids =
     go_bind fetch (\<lambda>r. case r of
         Inl _ \<Rightarrow> go_return ([], ids)
       | Inr xs \<Rightarrow>
           go_bind (sNow V) (\<lambda>now.
           go_bind (writes xs) (\<lambda>sets.
           go_bind (exec_sets R K sets) (\<lambda>_. go_return (events xs now, after_lookup xs ids)))))"

text \<open>The unit of an outlet or a branch is the first character of its name; an empty name is a panic.\<close>

fun by_unit :: "('a \<Rightarrow> string) \<Rightarrow> ('a \<Rightarrow> string \<Rightarrow> pset list) \<Rightarrow> 'a list \<Rightarrow> ('w, pset list) go" where
  "by_unit ident f [] = go_return []"
| "by_unit ident f (x # xs) = (case ident x of
      [] \<Rightarrow> go_panic ''slice bounds out of range''
    | c # _ \<Rightarrow> go_bind (by_unit ident f xs) (\<lambda>sets. go_return (f x [c] @ sets)))"

definition right_or :: "'a \<Rightarrow> go_error + 'a \<Rightarrow> 'a" where
  "right_or d r = (case r of Inl _ \<Rightarrow> d | Inr x \<Rightarrow> x)"

definition poll_units :: "('w, 'e) services \<Rightarrow> jaws_codec \<Rightarrow> 'w redis_ops \<Rightarrow> 'w redis_more \<Rightarrow> bool \<Rightarrow> Device \<Rightarrow> ('w, bool) go" where
  "poll_units V J R K polling device =
     go_bind (checkTimeoutKey R K (filepath_Join [dv_Xname device, ''poll'', ''monitor'', ''units'']) (60 * second)) (\<lambda>r. case r of
         Inl _ \<Rightarrow> go_return False
       | Inr poll \<Rightarrow>
           if \<not> poll then go_return True
           else go_bind (getMonitorUnits V J (base_request V device) device) (\<lambda>r. case r of
               Inl _ \<Rightarrow> go_return False
             | Inr units \<Rightarrow>
                 go_bind (exec_sets R K (concat (map (\<lambda>u. populateRedisForMonitorUnits polling units (dv_Xname device) (mu_Id u)) units))) (\<lambda>_.
                   go_return True)))"

text \<open>A stage that runs only when its key has expired.\<close>

definition timed_stage :: "'w redis_ops \<Rightarrow> 'w redis_more \<Rightarrow> string \<Rightarrow> int \<Rightarrow> ('w, TelemetryEvent list \<times> string list) go \<Rightarrow> string list \<Rightarrow>
    ('w, TelemetryEvent list \<times> string list) go" where
  "timed_stage R K key interval m ids =
     go_bind (checkTimeoutKey R K key interval) (\<lambda>r. if r = Inr True then m else go_return ([], ids))"

definition pollPDU :: "('w, 'e) services \<Rightarrow> jaws_codec \<Rightarrow> 'w redis_ops \<Rightarrow> 'w redis_more \<Rightarrow> bool \<Rightarrow> int \<Rightarrow> int \<Rightarrow> Device \<Rightarrow> ('w, TelemetryEvent list) go" where
  "pollPDU V J R K polling temperaturePollRate humidityPollRate device =
     (let xname = dv_Xname device; req = base_request V device in
      go_bind (poll_units V J R K polling device) (\<lambda>go_on.
        if \<not> go_on then go_return []
        else go_bind (collectionMembers R (filepath_Join [xname, ''redfish'', ''v1'', ''PowerEquipment'', ''RackPDUs'', ''Members''])) (\<lambda>m. case m of
            Inl _ \<Rightarrow> go_return []
          | Inr pduIDs \<Rightarrow>
              (let h = \<lparr> th_pduIDs = pduIDs, th_pduControllerXName = xname \<rparr> in
               go_bind (poll_stage V R K (getMonitorPhases V J req device) (SendPhaseEvents h)
                 (\<lambda>xs. go_return (concat (map (populateRedisForPhases polling xs xname) (after_lookup xs pduIDs)))) pduIDs) (\<lambda>(e1, ids1).
               go_bind (poll_stage V R K (getMonitorLines V J req device) (SendLineEvents h)
                 (\<lambda>xs. go_return (concat (map (populateRedisForLines polling xs xname) (after_lookup xs ids1)))) ids1) (\<lambda>(e2, ids2).
               go_bind (poll_stage V R K (getMonitorOutlets V J req device) (SendOutletEvents h)
                 (by_unit mo_ID (\<lambda>o' u. right_or [] (populateRedisForMonitorOutlet polling o' xname u))) ids2) (\<lambda>(e3, ids3).
               go_bind (poll_stage V R K (getMonitorBranches V J req device) (SendBranchEvents h)
                 (by_unit br_ID (\<lambda>b u. populateRedisForBranch polling b xname u)) ids3) (\<lambda>(e4, ids4).
               go_bind (timed_stage R K (filepath_Join [xname, ''poll'', ''monitor'', ''temperature'']) temperaturePollRate
                 (poll_stage V R K (getMonitorSensorsTemp V J req device) (SendTemperatureEvents h)
                   (\<lambda>xs. go_return (concat (map (populateRedisForTemperature polling xs xname) (after_lookup xs ids4)))) ids4) ids4) (\<lambda>(e5, ids5).
               go_bind (timed_stage R K (filepath_Join [xname, ''poll'', ''monitor'', ''humidity'']) humidityPollRate
                 (poll_stage V R K (getMonitorSensorsHumidity V J req device) (SendHumidityEvents h)
                   (\<lambda>xs. go_return (concat (map (populateRedisForHumidity polling xs xname) (after_lookup xs ids5)))) ids5) ids5) (\<lambda>(e6, _).
                 go_return (e1 @ e2 @ e3 @ e4 @ e5 @ e6)))))))))))"

end
