(* ===== verification/Pdu_Workers.thy ===== *)
theory Pdu_Workers
  imports Pdu_Polling
begin

text \<open>
  The workers that poll the power distribution units (\<open>doPolling\<close> and \<open>collectData\<close> of
  \<open>internal/backend_helpers/jaws_polling.go\<close>) as a step relation. A step is one operation on the channel
  of pending devices or on the shared set of devices that are being polled; the set is locked during each
  operation, but not between the test and the mark.
\<close>

section \<open>Steps\<close>

text \<open>The points of the loop of a worker at which others may take a step.\<close>

datatype worker =
    Waiting
  | Received string
  | Unmarked string
  | Polling string
  | Polled string

text \<open>A worker that has passed the test holds the device until it removes its mark.\<close>

fun holds :: "worker \<Rightarrow> string option" where
  "holds (Unmarked x) = Some x"
| "holds (Polling x) = Some x"
| "holds (Polled x) = Some x"
| "holds _ = None"

fun marks :: "worker \<Rightarrow> string option" where
  "marks (Polling x) = Some x"
| "marks (Polled x) = Some x"
| "marks _ = None"

text \<open>The devices that the main loop has still to send in this round, the channel, the set and the workers.\<close>

record poll_state =
  ps_todo :: "string list"
  ps_pending :: "string list"
  ps_current :: XNameSet
  ps_workers :: "worker list"

inductive collect_step :: "string list \<times> XNameSet \<times> worker \<Rightarrow> string list \<times> XNameSet \<times> worker \<Rightarrow> bool" where
  receive: "collect_step (x # q, c, Waiting) (q, c, Received x)"
| skip: "XNameSet_Get c x \<Longrightarrow> collect_step (q, c, Received x) (q, c, Waiting)"
| pass: "\<not> XNameSet_Get c x \<Longrightarrow> collect_step (q, c, Received x) (q, c, Unmarked x)"
| mark: "collect_step (q, c, Unmarked x) (q, XNameSet_Set c x True, Polling x)"
| poll: "collect_step (q, c, Polling x) (q, c, Polled x)"
| unmark: "collect_step (q, c, Polled x) (q, XNameSet_Set c x False, Waiting)"

text \<open>
  The main loop sends every known device once and then sleeps; the next round lists the devices in an
  order of its own. The channel holds one device per worker. In between the workers take their steps.
\<close>

inductive poll_step :: "string list \<Rightarrow> poll_state \<Rightarrow> poll_state \<Rightarrow> bool" for known where
  new_round: "ps_todo s = [] \<Longrightarrow> distinct ds \<Longrightarrow> set ds = set known \<Longrightarrow> poll_step known s (s\<lparr>ps_todo := ds\<rparr>)"
| enqueue: "ps_todo s = x # ds \<Longrightarrow> length (ps_pending s) < length (ps_workers s) \<Longrightarrow>
     poll_step known s (s\<lparr>ps_todo := ds, ps_pending := ps_pending s @ [x]\<rparr>)"
| work: "i < length (ps_workers s) \<Longrightarrow> collect_step (ps_pending s, ps_current s, ps_workers s ! i) (q, c, t) \<Longrightarrow>
     poll_step known s (s\<lparr>ps_pending := q, ps_current := c, ps_workers := (ps_workers s)[i := t]\<rparr>)"

definition start_polling :: "nat \<Rightarrow> poll_state" where
  "start_polling n = \<lparr>ps_todo = [], ps_pending = [], ps_current = NewXNameSet, ps_workers = replicate n Waiting\<rparr>"

section \<open>Overlap\<close>

text \<open>No two workers hold the same device.\<close>

definition exclusive :: "poll_state \<Rightarrow> bool" where
  "exclusive s \<longleftrightarrow> (\<forall>i < length (ps_workers s). \<forall>j < length (ps_workers s). \<forall>x.
     holds (ps_workers s ! i) = Some x \<and> holds (ps_workers s ! j) = Some x \<longrightarrow> i = j)"

text \<open>
  A step of a run in which the test and the mark of a worker are not interrupted by the test of another
  worker for the same device. Nothing is said of the other steps, of the number of rounds a device is
  in the channel for, or of how long a round takes.
\<close>

definition atomic_step :: "string list \<Rightarrow> poll_state \<Rightarrow> poll_state \<Rightarrow> bool" where
  "atomic_step known s s' \<longleftrightarrow> poll_step known s s' \<and>
     (\<forall>i < length (ps_workers s). \<forall>x. ps_workers s ! i = Received x \<and> ps_workers s' ! i = Unmarked x \<longrightarrow> Unmarked x \<notin> set (ps_workers s))"

text \<open>The marks of the set are those of the workers.\<close>

definition marked_by :: "poll_state \<Rightarrow> string \<Rightarrow> bool" where
  "marked_by s x \<longleftrightarrow> (\<exists>i < length (ps_workers s). marks (ps_workers s ! i) = Some x)"

definition marks_inv :: "poll_state \<Rightarrow> bool" where
  "marks_inv s \<longleftrightarrow> exclusive s \<and> (\<forall>x. XNameSet_Get (ps_current s) x \<longleftrightarrow> marked_by s x)"

lemma marks_holds: "marks w = Some x \<Longrightarrow> holds w = Some x"
  by (cases w) simp_all

lemma holds_cases: "holds w = Some x \<Longrightarrow> w = Unmarked x \<or> marks w = Some x"
  by (cases w) simp_all

lemma start_inv: "marks_inv (start_polling n)"
  by (auto simp: marks_inv_def exclusive_def marked_by_def start_polling_def NewXNameSet_def XNameSet_Get_def)

lemma Get_Set: "XNameSet_Get (XNameSet_Set c x b) y = (if y = x then b else XNameSet_Get c y)"
  by (simp add: XNameSet_Get_def XNameSet_Set_def)

lemma marks_update:
  assumes "i < length ws"
  shows "(\<exists>j < length (ws[i := t]). marks (ws[i := t] ! j) = Some x) \<longleftrightarrow> marks t = Some x \<or> (\<exists>j < length ws. j \<noteq> i \<and> marks (ws ! j) = Some x)"
  using assms by (auto simp: nth_list_update split: if_splits)

text \<open>A worker that newly holds a device is the only one that does.\<close>

lemma exclusive_update:
  assumes "exclusive s" "i < length (ps_workers s)" "ps_workers s' = (ps_workers s)[i := t]"
    and "\<And>x j. holds t = Some x \<Longrightarrow> holds (ps_workers s ! i) \<noteq> Some x \<Longrightarrow> j < length (ps_workers s) \<Longrightarrow> j \<noteq> i \<Longrightarrow> holds (ps_workers s ! j) \<noteq> Some x"
  shows "exclusive s'"
  unfolding exclusive_def
proof (intro allI impI)
  fix j k x
  let ?ws = "ps_workers s" and ?ws' = "ps_workers s'"
  assume j: "j < length ?ws'" and k: "k < length ?ws'" and h: "holds (?ws' ! j) = Some x \<and> holds (?ws' ! k) = Some x"
  have old: "j' = k'" if "j' < length ?ws" "k' < length ?ws" "holds (?ws ! j') = Some x" "holds (?ws ! k') = Some x" for j' k'
    using assms(1) that unfolding exclusive_def by blast
  have new: "l = i" if "holds t = Some x" "l < length ?ws" "holds (?ws ! l) = Some x" for l
    using assms(4) [OF that(1)] old [OF that(2) assms(2) that(3)] that by blast
  have at: "?ws' ! l = (if l = i then t else ?ws ! l)" and len: "length ?ws' = length ?ws" for l
    using assms(2) by (simp_all add: assms(3) nth_list_update)
  consider "j = i" "k = i" | "j = i" "k \<noteq> i" | "j \<noteq> i" "k = i" | "j \<noteq> i" "k \<noteq> i" by blast
  then show "j = k"
  proof cases
    case 2 then show ?thesis using new [of k] h k by (simp add: at len)
  next
    case 3 then show ?thesis using new [of j] h j by (simp add: at len)
  next
    case 4 then show ?thesis using old [of j k] h j k by (simp add: at len)
  qed simp
qed

lemma work_inv:
  assumes "marks_inv s" "i < length (ps_workers s)" "collect_step (ps_pending s, ps_current s, ps_workers s ! i) (q, c, t)"
    and "\<And>x. ps_workers s ! i = Received x \<Longrightarrow> t = Unmarked x \<Longrightarrow> Unmarked x \<notin> set (ps_workers s)"
  shows "marks_inv (s\<lparr>ps_pending := q, ps_current := c, ps_workers := (ps_workers s)[i := t]\<rparr>)" (is "marks_inv ?s'")
proof -
  let ?ws = "ps_workers s"
  define others where "others x \<longleftrightarrow> (\<exists>j < length ?ws. j \<noteq> i \<and> marks (?ws ! j) = Some x)" for x
  have ex: "exclusive s" using assms(1) by (simp add: marks_inv_def)
  have m: "XNameSet_Get (ps_current s) x \<longleftrightarrow> marks (?ws ! i) = Some x \<or> others x" for x
    using assms(1) marks_update [OF assms(2), of "?ws ! i" x] unfolding marks_inv_def marked_by_def others_def by simp
  have alone: "\<not> others x" if "holds (?ws ! i) = Some x" for x
    unfolding others_def using ex that assms(2) marks_holds unfolding exclusive_def by blast
  have "XNameSet_Get c x \<longleftrightarrow> marks t = Some x \<or> others x" for x
    using assms(3) m [of x] alone by (cases rule: collect_step.cases) (auto simp: Get_Set)
  moreover have "exclusive ?s'"
  proof (rule exclusive_update [OF ex assms(2)])
    fix x j assume h: "holds t = Some x" "holds (?ws ! i) \<noteq> Some x" "j < length ?ws" "j \<noteq> i"
    have "?ws ! i = Received x \<and> t = Unmarked x \<and> \<not> XNameSet_Get (ps_current s) x"
      using assms(3) h by (cases rule: collect_step.cases) auto
    then have r: "?ws ! i = Received x" "t = Unmarked x" "\<not> XNameSet_Get (ps_current s) x" by simp_all
    have "?ws ! j \<noteq> Unmarked x" using assms(4) [OF r(1,2)] h(3) by (metis nth_mem)
    moreover have "marks (?ws ! j) \<noteq> Some x" using r(3) m [of x] h(3,4) unfolding others_def by blast
    ultimately show "holds (?ws ! j) \<noteq> Some x" using holds_cases by blast
  qed simp
  moreover have "marked_by ?s' x \<longleftrightarrow> marks t = Some x \<or> others x" for x
    using marks_update [OF assms(2), of t x] unfolding marked_by_def others_def by simp
  ultimately show ?thesis unfolding marks_inv_def by simp
qed

lemma atomic_step_inv: "atomic_step known s s' \<Longrightarrow> marks_inv s \<Longrightarrow> marks_inv s'"
  unfolding atomic_step_def
proof (elim conjE)
  assume "poll_step known s s'" and inv: "marks_inv s"
    and at: "\<forall>i < length (ps_workers s). \<forall>x. ps_workers s ! i = Received x \<and> ps_workers s' ! i = Unmarked x \<longrightarrow> Unmarked x \<notin> set (ps_workers s)"
  then show ?thesis
  proof (cases rule: poll_step.cases)
    case (work i q c t)
    then show ?thesis using work_inv [OF inv work(2,3)] at by simp
  qed (use inv in \<open>simp_all add: marks_inv_def exclusive_def marked_by_def\<close>)
qed

lemma atomic_reachable: "(atomic_step known)\<^sup>*\<^sup>* (start_polling n) s \<Longrightarrow> marks_inv s"
  by (induction rule: rtranclp_induct) (auto intro: start_inv atomic_step_inv)

section \<open>Two workers and one device\<close>

definition pair_state :: "string list \<Rightarrow> string list \<Rightarrow> XNameSet \<Rightarrow> worker \<Rightarrow> worker \<Rightarrow> nat \<Rightarrow> poll_state" where
  "pair_state ds q c a b n = \<lparr>ps_todo = ds, ps_pending = q, ps_current = c, ps_workers = a # b # replicate n Waiting\<rparr>"

lemma first_works: "collect_step (q, c, a) (q', c', a') \<Longrightarrow> poll_step known (pair_state ds q c a b n) (pair_state ds q' c' a' b n)"
  using poll_step.work [of 0 "pair_state ds q c a b n" q' c' a' known] by (simp add: pair_state_def)

lemma second_works: "collect_step (q, c, b) (q', c', b') \<Longrightarrow> poll_step known (pair_state ds q c a b n) (pair_state ds q' c' a b' n)"
  using poll_step.work [of 1 "pair_state ds q c a b n" q' c' b' known] by (simp add: pair_state_def)

lemma main_works: "poll_step [x] (pair_state [] q c a b n) (pair_state [x] q c a b n)"
    "length q < Suc (Suc n) \<Longrightarrow> poll_step known (pair_state (x # ds) q c a b n) (pair_state ds (q @ [x]) c a b n)"
  using poll_step.new_round [of "pair_state [] q c a b n" "[x]" "[x]"] poll_step.enqueue [of "pair_state (x # ds) q c a b n" x ds known]
  by (simp_all add: pair_state_def)

lemma atomicI: "poll_step known s s' \<Longrightarrow> (\<And>x. Unmarked x \<notin> set (ps_workers s)) \<Longrightarrow> atomic_step known s s'"
  by (simp add: atomic_step_def)

lemma atomic_pair: "poll_step known (pair_state ds q c a b n) s' \<Longrightarrow> (\<And>x. a \<noteq> Unmarked x) \<Longrightarrow> (\<And>x. b \<noteq> Unmarked x) \<Longrightarrow>
    atomic_step known (pair_state ds q c a b n) s'"
  by (rule atomicI) (auto simp: pair_state_def)

lemma start_pair: "start_polling (Suc (Suc n)) = pair_state [] [] NewXNameSet Waiting Waiting n"
  by (simp add: start_polling_def pair_state_def)

text \<open>Two rounds send the device to two workers.\<close>

lemma both_receive: "(atomic_step [x])\<^sup>*\<^sup>* (start_polling (Suc (Suc n))) (pair_state [] [] NewXNameSet (Received x) (Received x) n)"
proof -
  let ?A = "atomic_step [x]" and ?e = NewXNameSet
  have "?A (pair_state [] [] ?e Waiting Waiting n) (pair_state [x] [] ?e Waiting Waiting n)" by (rule atomic_pair [OF main_works(1)]) simp_all
  moreover have "?A (pair_state [x] [] ?e Waiting Waiting n) (pair_state [] ([] @ [x]) ?e Waiting Waiting n)" by (rule atomic_pair [OF main_works(2)]) simp_all
  moreover have "?A (pair_state [] [x] ?e Waiting Waiting n) (pair_state [] [] ?e (Received x) Waiting n)"
    by (rule atomic_pair [OF first_works [OF collect_step.receive]]) simp_all
  moreover have "?A (pair_state [] [] ?e (Received x) Waiting n) (pair_state [x] [] ?e (Received x) Waiting n)" by (rule atomic_pair [OF main_works(1)]) simp_all
  moreover have "?A (pair_state [x] [] ?e (Received x) Waiting n) (pair_state [] ([] @ [x]) ?e (Received x) Waiting n)" by (rule atomic_pair [OF main_works(2)]) simp_all
  moreover have "?A (pair_state [] [x] ?e (Received x) Waiting n) (pair_state [] [] ?e (Received x) (Received x) n)"
    by (rule atomic_pair [OF second_works [OF collect_step.receive]]) simp_all
  ultimately show ?thesis unfolding start_pair append_Nil by (meson converse_rtranclp_into_rtranclp rtranclp.rtrancl_refl)
qed

lemma fresh_get: "\<not> XNameSet_Get NewXNameSet x"
  by (simp add: NewXNameSet_def XNameSet_Get_def)

text \<open>Both workers pass the test before either marks the device.\<close>

lemma overlap_reachable: "\<exists>c. (poll_step [x])\<^sup>*\<^sup>* (start_polling (Suc (Suc n))) (pair_state [] [] c (Polling x) (Polling x) n)"
proof -
  let ?P = "poll_step [x]" and ?e = NewXNameSet and ?c1 = "XNameSet_Set NewXNameSet x True"
  have "?P\<^sup>*\<^sup>* (start_polling (Suc (Suc n))) (pair_state [] [] ?e (Received x) (Received x) n)"
    by (rule rtranclp_mono [THEN predicate2D, OF _ both_receive]) (auto simp: atomic_step_def)
  also have "?P (pair_state [] [] ?e (Received x) (Received x) n) (pair_state [] [] ?e (Unmarked x) (Received x) n)"
    by (intro first_works collect_step.pass fresh_get)
  also have "?P (pair_state [] [] ?e (Unmarked x) (Received x) n) (pair_state [] [] ?e (Unmarked x) (Unmarked x) n)"
    by (intro second_works collect_step.pass fresh_get)
  also have "?P (pair_state [] [] ?e (Unmarked x) (Unmarked x) n) (pair_state [] [] ?c1 (Polling x) (Unmarked x) n)"
    by (intro first_works collect_step.mark)
  also have "?P (pair_state [] [] ?c1 (Polling x) (Unmarked x) n) (pair_state [] [] (XNameSet_Set ?c1 x True) (Polling x) (Polling x) n)"
    by (intro second_works collect_step.mark)
  finally show ?thesis by blast
qed

section \<open>Properties\<close>

text \<open>
  C22. Who polls a device: as long as no worker tests a device between the test and the mark of another
  one, no two workers ever hold it, whatever the number of workers, the order of their steps and the
  number of rounds that a device is waiting for, and a device is marked exactly while a worker polls
  it. When the test and the mark are interrupted, two workers can poll the same device at the same time.
\<close>

theorem polling_exclusive_if_atomic:
  "((atomic_step known)\<^sup>*\<^sup>* (start_polling n) s \<longrightarrow> exclusive s \<and> (XNameSet_Get (ps_current s) x \<longleftrightarrow> marked_by s x)) \<and>
   (2 \<le> n \<longrightarrow> (\<exists>s'. (poll_step [x])\<^sup>*\<^sup>* (start_polling n) s' \<and> ps_workers s' ! 0 = Polling x \<and> ps_workers s' ! 1 = Polling x))"
proof (intro conjI impI)
  assume "(atomic_step known)\<^sup>*\<^sup>* (start_polling n) s"
  then show "exclusive s" "XNameSet_Get (ps_current s) x \<longleftrightarrow> marked_by s x" using atomic_reachable unfolding marks_inv_def by blast+
next
  assume "2 \<le> n"
  then obtain k where "n = Suc (Suc k)" by (metis Suc_le_D numeral_2_eq_2 Suc_le_mono)
  then show "\<exists>s'. (poll_step [x])\<^sup>*\<^sup>* (start_polling n) s' \<and> ps_workers s' ! 0 = Polling x \<and> ps_workers s' ! 1 = Polling x"
    using overlap_reachable [of x k] by (auto simp: pair_state_def)
qed

text \<open>One of two workers that received the device polls it while the other has still to test.\<close>

theorem polling_exclusive_if_atomic_witness:
  "\<exists>s. (atomic_step [''x0m0''])\<^sup>*\<^sup>* (start_polling 2) s \<and> ps_workers s = [Polling ''x0m0'', Received ''x0m0''] \<and> exclusive s"
proof -
  let ?x = "''x0m0''" and ?e = NewXNameSet
  have "(atomic_step [?x])\<^sup>*\<^sup>* (start_polling 2) (pair_state [] [] ?e (Received ?x) (Received ?x) 0)"
    using both_receive [of ?x 0] by (simp add: numeral_2_eq_2)
  also have "atomic_step [?x] (pair_state [] [] ?e (Received ?x) (Received ?x) 0) (pair_state [] [] ?e (Unmarked ?x) (Received ?x) 0)"
    by (rule atomic_pair [OF first_works [OF collect_step.pass [OF fresh_get]]]) simp_all
  also have "atomic_step [?x] (pair_state [] [] ?e (Unmarked ?x) (Received ?x) 0) (pair_state [] [] (XNameSet_Set ?e ?x True) (Polling ?x) (Received ?x) 0)"
    unfolding atomic_step_def
    by (intro conjI first_works collect_step.mark) (simp add: pair_state_def less_Suc_eq)
  finally have r: "(atomic_step [?x])\<^sup>*\<^sup>* (start_polling 2) (pair_state [] [] (XNameSet_Set ?e ?x True) (Polling ?x) (Received ?x) 0)" .
  then show ?thesis using polling_exclusive_if_atomic [of "[?x]" 2 "pair_state [] [] (XNameSet_Set ?e ?x True) (Polling ?x) (Received ?x) 0" ?x]
    by (intro exI conjI) (auto simp: pair_state_def)
qed

end
