(* ===== verification/Redis_Helper_Facts.thy ===== *)
theory Redis_Helper_Facts
  imports Redis_Helper
begin

text \<open>
  What the Redis helper does to the database: the effect of its commands, queued or not, the region
  an initialisation writes to, and how the members of a collection are listed after it.
\<close>

section \<open>Effects of commands\<close>

definition sadd_db :: "string \<Rightarrow> string \<Rightarrow> rdb \<Rightarrow> rdb" where
  "sadd_db k m db = (case sadd_eff (db k) [m] of Inr v \<Rightarrow> db(k := v) | Inl _ \<Rightarrow> db)"

fun cmd_db :: "rcmd \<Rightarrow> rdb \<Rightarrow> rdb" where
  "cmd_db (CmdSet k v) db = db(k \<mapsto> RString v)"
| "cmd_db (CmdSAdd k m) db = sadd_db k m db"
| "cmd_db (CmdDel k) db = db(k := None)"

fun cmd_err :: "rcmd \<Rightarrow> rdb \<Rightarrow> go_error option" where
  "cmd_err (CmdSAdd k m) db = (case sadd_eff (db k) [m] of Inl e \<Rightarrow> Some e | Inr _ \<Rightarrow> None)"
| "cmd_err _ db = None"

text \<open>A program of the helper that returns \<open>r\<close> and changes the database by \<open>f\<close>, without a pipeline.\<close>

definition does :: "('w \<Rightarrow> rdb) \<Rightarrow> ('w hstate, 'a) go \<Rightarrow> (rdb \<Rightarrow> 'a) \<Rightarrow> (rdb \<Rightarrow> rdb) \<Rightarrow> bool" where
  "does view m r f \<longleftrightarrow> (\<forall>s. hs_pipe s = None \<longrightarrow>
     (\<exists>s'. m s = (Ret (r (view (hs_world s))), s') \<and> hs_pipe s' = None \<and> view (hs_world s') = f (view (hs_world s))))"

lemma doesE:
  assumes "does view m r f" "hs_pipe s = None"
  obtains s' where "m s = (Ret (r (view (hs_world s))), s')" "hs_pipe s' = None" "view (hs_world s') = f (view (hs_world s))"
  using assms unfolding does_def by blast

lemma does_return: "does view (go_return a) (\<lambda>_. a) (\<lambda>db. db)"
  by (simp add: does_def)

lemma does_bind:
  assumes "does view m r f" "\<And>a. does view (g a) (r' a) (f' a)"
  shows "does view (go_bind m g) (\<lambda>db. r' (r db) (f db)) (\<lambda>db. f' (r db) (f db))"
  unfolding does_def
proof (intro allI impI)
  fix s :: "'a hstate" assume s: "hs_pipe s = None"
  obtain s1 where 1: "m s = (Ret (r (view (hs_world s))), s1)" "hs_pipe s1 = None" "view (hs_world s1) = f (view (hs_world s))"
    using doesE [OF assms(1) s] .
  obtain s2 where "g (r (view (hs_world s))) s1 = (Ret (r' (r (view (hs_world s))) (view (hs_world s1))), s2)" "hs_pipe s2 = None"
    "view (hs_world s2) = f' (r (view (hs_world s))) (view (hs_world s1))"
    using doesE [OF assms(2) 1(2)] .
  then show "\<exists>s'. go_bind m g s = (Ret (r' (r (view (hs_world s))) (f (view (hs_world s)))), s') \<and> hs_pipe s' = None \<and>
      view (hs_world s') = f' (r (view (hs_world s))) (f (view (hs_world s)))"
    using 1 by (simp add: go_bind_apply)
qed

lemma does_cong: "does view m r f \<Longrightarrow> (\<And>db. r db = r' db) \<Longrightarrow> (\<And>db. f db = f' db) \<Longrightarrow> does view m r' f'"
  by (simp add: does_def)

definition put_db :: "string \<Rightarrow> string \<Rightarrow> string \<Rightarrow> rdb \<Rightarrow> rdb" where
  "put_db k p v db = sadd_db k p (db(k @ ''/'' @ p \<mapsto> RString v))"

text \<open>Appending an index to an array; the index is the length of the list.\<close>

definition array_db :: "string \<Rightarrow> string \<Rightarrow> rdb \<Rightarrow> keyspace_result \<times> rdb" where
  "array_db k p db = (case list_result (db (k @ ''/'' @ p)) of
      Inl e \<Rightarrow> (([], Some e), db)
    | Inr xs \<Rightarrow>
        (let db1 = (if xs = [] then sadd_db k p db else db); e = (if xs = [] then cmd_err (CmdSAdd k p) db else None) in
         case e of Some e \<Rightarrow> (([], Some e), db1)
         | None \<Rightarrow> ((k @ ''/'' @ p @ ''/'' @ FormatInt (int (length xs)), None),
             db1(k @ ''/'' @ p \<mapsto> RList (xs @ [FormatInt (int (length xs))])))))"

context redis_server
begin

lemma run_cmd_effect:
  obtains w' where "run_cmd R c w = (Ret (case cmd_err c (view w) of Some e \<Rightarrow> Inl e | None \<Rightarrow> Inr ()), w')"
    "view w' = cmd_db c (view w)"
proof (cases c)
  case (CmdSet k v)
  then show ?thesis using that set_ok [of k v w] by (auto simp: run_cmd_def)
next
  case (CmdDel k)
  then show ?thesis using that del_ok [of k w] by (auto simp: run_cmd_def)
next
  case (CmdSAdd k m)
  show ?thesis
  proof (cases "sadd_eff (view w k) [m]")
    case (Inl e)
    then show ?thesis using that sadd_wrong [of "[m]" w k e] CmdSAdd by (auto simp: run_cmd_def sadd_db_def)
  next
    case (Inr v)
    then show ?thesis using that sadd_ok [of "[m]" w k v] CmdSAdd by (auto simp: run_cmd_def sadd_db_def)
  qed
qed

lemma does_cmd: "does view (cmd R c) (cmd_err c) (cmd_db c)"
  unfolding does_def
proof (intro allI impI)
  fix s :: "'w hstate" assume s: "hs_pipe s = None"
  obtain w' where "run_cmd R c (hs_world s) = (Ret (case cmd_err c (view (hs_world s)) of Some e \<Rightarrow> Inl e | None \<Rightarrow> Inr ()), w')"
    "view w' = cmd_db c (view (hs_world s))" using run_cmd_effect .
  then show "\<exists>s'. cmd R c s = (Ret (cmd_err c (view (hs_world s))), s') \<and> hs_pipe s' = None \<and> view (hs_world s') = cmd_db c (view (hs_world s))"
    using s by (cases "cmd_err c (view (hs_world s))") (simp_all add: cmd_def on_world_def go_bind_apply)
qed

lemma does_add: "does view (addMemberToSet R k m)
    (\<lambda>db. case cmd_err (CmdSAdd k m) db of Some e \<Rightarrow> ([], Some e) | None \<Rightarrow> (k @ ''/'' @ m, None)) (sadd_db k m)"
  unfolding addMemberToSet_def
  by (rule does_cong [OF does_bind [OF does_cmd,
        where r' = "\<lambda>e _. case e of Some e \<Rightarrow> ([], Some e) | None \<Rightarrow> (k @ ''/'' @ m, None)" and f' = "\<lambda>_ db. db"]])
    (auto intro: does_return split: option.split)

lemma does_put: "does view (setValueForPropertyInKeyspace R k p v)
    (\<lambda>db. (k @ ''/'' @ p, cmd_err (CmdSAdd k p) (db(k @ ''/'' @ p \<mapsto> RString v)))) (put_db k p v)"
proof -
  have "does view (go_bind (addMemberToSet R k p) (\<lambda>(_, e). go_return (k @ ''/'' @ p, e)))
      (\<lambda>db. (k @ ''/'' @ p, cmd_err (CmdSAdd k p) db)) (sadd_db k p)"
    by (rule does_cong [OF does_bind [OF does_add, where r' = "\<lambda>a _. (k @ ''/'' @ p, snd a)" and f' = "\<lambda>_ db. db"]])
      (auto simp: does_def split_beta split: option.split sum.split)
  then have "does view (case e of Some e \<Rightarrow> go_return (k @ ''/'' @ p, Some e)
        | None \<Rightarrow> go_bind (addMemberToSet R k p) (\<lambda>(_, e). go_return (k @ ''/'' @ p, e)))
      (\<lambda>db. case e of Some e \<Rightarrow> (k @ ''/'' @ p, Some e) | None \<Rightarrow> (k @ ''/'' @ p, cmd_err (CmdSAdd k p) db))
      (\<lambda>db. case e of Some _ \<Rightarrow> db | None \<Rightarrow> sadd_db k p db)" for e
    by (cases e) (simp_all add: does_def)
  then show ?thesis unfolding setValueForPropertyInKeyspace_def Let_def
    by (rule does_cong [OF does_bind [OF does_cmd]]) (auto simp: put_db_def)
qed

lemma does_world:
  assumes "\<And>w. \<exists>w'. m w = (Ret (r (view w)), w') \<and> view w' = f (view w)"
  shows "does view (on_world m) r f"
  unfolding does_def
proof (intro allI impI)
  fix s :: "'w hstate" assume s: "hs_pipe s = None"
  obtain w' where "m (hs_world s) = (Ret (r (view (hs_world s))), w')" "view w' = f (view (hs_world s))" using assms by blast
  then show "\<exists>s'. on_world m s = (Ret (r (view (hs_world s))), s') \<and> hs_pipe s' = None \<and> view (hs_world s') = f (view (hs_world s))"
    using s by (simp add: on_world_def)
qed

lemma does_llen: "does view (on_world (rLLen R k)) (\<lambda>db. map_sum id (\<lambda>xs. int (length xs)) (list_result (db k))) (\<lambda>db. db)"
  by (rule does_world) (simp add: llen_law)

lemma does_rpush: "xs \<noteq> [] \<Longrightarrow> does view (on_world (rRPush R k xs))
    (\<lambda>db. map_sum id (\<lambda>_. ()) (rpush_eff (db k) xs)) (\<lambda>db. case rpush_eff (db k) xs of Inr v \<Rightarrow> db(k := v) | Inl _ \<Rightarrow> db)"
proof (rule does_world)
  fix w assume xs: "xs \<noteq> []"
  show "\<exists>w'. rRPush R k xs w = (Ret (map_sum id (\<lambda>_. ()) (rpush_eff (view w k) xs)), w') \<and>
      view w' = (case rpush_eff (view w k) xs of Inr v \<Rightarrow> (view w)(k := v) | Inl _ \<Rightarrow> view w)"
  proof (cases "rpush_eff (view w k) xs")
    case (Inl e)
    then show ?thesis using rpush_wrong [OF xs Inl] by simp
  next
    case (Inr v)
    show ?thesis by (rule rpush_ok [OF xs Inr]) (simp add: Inr)
  qed
qed

lemma does_array:
  "does view (addMemberToArray R k p) (\<lambda>db. fst (array_db k p db)) (\<lambda>db. snd (array_db k p db))"
  unfolding does_def
proof (intro allI impI)
  fix s :: "'w hstate" assume s: "hs_pipe s = None"
  let ?db = "view (hs_world s)" and ?kp = "k @ ''/'' @ p"
  have kp: "sadd_db k p db ?kp = db ?kp" for db by (simp add: sadd_db_def split: sum.split)
  obtain s1 where 1: "on_world (rLLen R ?kp) s = (Ret (map_sum id (\<lambda>xs. int (length xs)) (list_result (?db ?kp))), s1)"
    "hs_pipe s1 = None" "view (hs_world s1) = ?db" using doesE [OF does_llen s] .
  show "\<exists>s'. addMemberToArray R k p s = (Ret (fst (array_db k p ?db)), s') \<and> hs_pipe s' = None \<and> view (hs_world s') = snd (array_db k p ?db)"
  proof (cases "list_result (?db ?kp)")
    case (Inl e)
    then show ?thesis using 1 by (simp add: addMemberToArray_def array_db_def go_bind_apply Let_def)
  next
    case (Inr xs)
    define db1 where "db1 = (if xs = [] then sadd_db k p ?db else ?db)"
    define e where "e = (if xs = [] then cmd_err (CmdSAdd k p) ?db else None)"
    obtain a s2 where 2: "(if int (length xs) = 0 then addMemberToSet R k p else go_return ([], None)) s1 = (Ret (a, e), s2)"
      "hs_pipe s2 = None" "view (hs_world s2) = db1"
    proof (cases "xs = []")
      case True
      obtain s2 where "addMemberToSet R k p s1 = (Ret (case cmd_err (CmdSAdd k p) (view (hs_world s1)) of Some e \<Rightarrow> ([], Some e) | None \<Rightarrow> (k @ ''/'' @ p, None)), s2)"
        "hs_pipe s2 = None" "view (hs_world s2) = sadd_db k p (view (hs_world s1))" using doesE [OF does_add 1(2)] .
      then show ?thesis using that True 1(3) by (cases "cmd_err (CmdSAdd k p) ?db") (auto simp: db1_def e_def)
    next
      case False
      then show ?thesis using that [of "[]" s1] 1(2,3) by (simp add: db1_def e_def)
    qed
    have l: "rpush_eff (db1 ?kp) [FormatInt (int (length xs))] = Inr (Some (RList (xs @ [FormatInt (int (length xs))])))"
    proof (cases "?db ?kp")
      case None
      then show ?thesis using Inr kp by (simp add: db1_def)
    next
      case (Some v)
      then show ?thesis using Inr kp by (cases v) (auto simp: db1_def)
    qed
    show ?thesis
    proof (cases e)
      case None
      obtain s3 where "on_world (rRPush R ?kp [FormatInt (int (length xs))]) s2 = (Ret (Inr ()), s3)" "hs_pipe s3 = None"
        "view (hs_world s3) = db1(?kp \<mapsto> RList (xs @ [FormatInt (int (length xs))]))"
        using doesE [OF does_rpush 2(2), of "[FormatInt (int (length xs))]" ?kp] l 2(3) by auto
      then show ?thesis using 1 2 Inr None
        by (simp add: addMemberToArray_def array_db_def go_bind_apply Let_def db1_def [symmetric] e_def [symmetric])
    next
      case (Some e')
      then show ?thesis using 1 2 Inr
        by (simp add: addMemberToArray_def array_db_def go_bind_apply Let_def db1_def [symmetric] e_def [symmetric])
    qed
  qed
qed

lemma does_calls:
  "list_all2 (\<lambda>m f. \<exists>r. does view m r f) ms fs \<Longrightarrow> does view (calls ms) (\<lambda>_. ()) (\<lambda>db. fold (\<lambda>f. f) fs db)"
proof (induction ms fs rule: list_all2_induct)
  case Nil
  then show ?case by (simp add: calls_def does_def)
next
  case (Cons m ms f fs)
  obtain r where m: "does view m r f" using Cons by blast
  have "does view (go_bind m (\<lambda>_. go_return ())) (\<lambda>_. ()) f"
    by (rule does_cong [OF does_bind [OF m, where r' = "\<lambda>_ _. ()" and f' = "\<lambda>_ db. db"]]) (simp_all add: does_def)
  from does_bind [OF this, where r' = "\<lambda>_ _. ()" and f' = "\<lambda>_ db. fold (\<lambda>f. f) fs db"] Cons(3)
  show ?case by (simp add: calls_def)
qed

lemma Exec_effect:
  obtains e w' where "Exec R cs w = (Ret e, w')" "view w' = fold cmd_db cs (view w)"
proof (induction cs arbitrary: w thesis)
  case Nil
  then show ?case by simp
next
  case (Cons c cs)
  obtain w1 where 1: "run_cmd R c w = (Ret (case cmd_err c (view w) of Some e \<Rightarrow> Inl e | None \<Rightarrow> Inr ()), w1)" "view w1 = cmd_db c (view w)"
    using run_cmd_effect .
  obtain e w2 where "Exec R cs w1 = (Ret e, w2)" "view w2 = fold cmd_db cs (view w1)" using Cons.IH .
  then show ?case using Cons.prems 1 by (simp add: go_bind_apply)
qed

lemma Exec_cons:
  assumes "cmd_err c (view w) = None"
  obtains w1 where "view w1 = cmd_db c (view w)" "\<forall>cs e w'. Exec R cs w1 = (Ret e, w') \<longrightarrow> Exec R (c # cs) w = (Ret e, w')"
proof -
  obtain w1 where 1: "run_cmd R c w = (Ret (Inr ()), w1)" "view w1 = cmd_db c (view w)"
    using run_cmd_effect [of c w] assms by auto
  then show thesis using that [of w1] by (simp add: go_bind_apply)
qed

end

section \<open>Queued calls\<close>

text \<open>The two calls that the initialisations are made of, and what each does to the database.\<close>

datatype hop = HAdd string string | HPut string string string

fun hop_call :: "'w redis_ops \<Rightarrow> hop \<Rightarrow> ('w hstate, keyspace_result) go" where
  "hop_call R (HAdd k m) = addMemberToSet R k m"
| "hop_call R (HPut k p v) = setValueForPropertyInKeyspace R k p v"

fun hop_db :: "hop \<Rightarrow> rdb \<Rightarrow> rdb" where
  "hop_db (HAdd k m) = sadd_db k m"
| "hop_db (HPut k p v) = put_db k p v"

fun hop_cmds :: "hop \<Rightarrow> rcmd list" where
  "hop_cmds (HAdd k m) = [CmdSAdd k m]"
| "hop_cmds (HPut k p v) = [CmdSet (k @ ''/'' @ p) v, CmdSAdd k p]"

lemma hop_cmds_db: "fold cmd_db (hop_cmds h) db = hop_db h db"
  by (cases h) (simp_all add: put_db_def)

lemma hop_queued: "\<exists>r. hop_call R h \<lparr>hs_world = w, hs_pipe = Some q\<rparr> = (Ret r, \<lparr>hs_world = w, hs_pipe = Some (q @ hop_cmds h)\<rparr>)"
  by (cases h) (simp_all add: addMemberToSet_def setValueForPropertyInKeyspace_def cmd_def go_bind_apply Let_def)

lemma calls_queued:
  "calls (map (hop_call R) hs) \<lparr>hs_world = w, hs_pipe = Some q\<rparr> = (Ret (), \<lparr>hs_world = w, hs_pipe = Some (q @ concat (map hop_cmds hs))\<rparr>)"
proof (induction hs arbitrary: q)
  case (Cons h hs)
  obtain r where "hop_call R h \<lparr>hs_world = w, hs_pipe = Some q\<rparr> = (Ret r, \<lparr>hs_world = w, hs_pipe = Some (q @ hop_cmds h)\<rparr>)"
    using hop_queued [of R h w q] by (elim exE) (rule that)
  then show ?case using Cons.IH [of "q @ hop_cmds h"] by (simp add: calls_def go_bind_apply)
qed (simp add: calls_def)

lemma fold_hops: "fold cmd_db (concat (map hop_cmds hs)) db = fold hop_db hs db"
  by (induction hs arbitrary: db) (simp_all add: hop_cmds_db)

context redis_server
begin

lemma does_hop: "\<exists>r. does view (hop_call R h) r (hop_db h)"
  by (cases h) (auto intro: does_add does_put)

lemma does_hops: "does view (calls (map (hop_call R) hs)) (\<lambda>_. ()) (fold hop_db hs)"
proof -
  have "does view (calls (map (hop_call R) hs)) (\<lambda>_. ()) (\<lambda>db. fold (\<lambda>f. f) (map hop_db hs) db)"
    by (rule does_calls) (simp add: list_all2_map1 list_all2_map2 list_all2_same does_hop)
  then show ?thesis by (simp add: fold_map comp_def)
qed

end

section \<open>Regions\<close>

lemma sadd_db_other: "k' \<noteq> k \<Longrightarrow> sadd_db k m db k' = db k'"
  by (simp add: sadd_db_def split: sum.split)

fun hop_under :: "string \<Rightarrow> hop \<Rightarrow> bool" where
  "hop_under base (HAdd k m) \<longleftrightarrow> under base k"
| "hop_under base (HPut k p v) \<longleftrightarrow> under base k"

lemma hop_db_outside: "hop_under base h \<Longrightarrow> \<not> under base k \<Longrightarrow> hop_db h db k = db k"
  by (cases h) (auto simp: put_db_def sadd_db_other under_iff)

lemma hops_outside: "list_all (hop_under base) hs \<Longrightarrow> \<not> under base k \<Longrightarrow> fold hop_db hs db k = db k"
  by (induction hs arbitrary: db) (auto simp: hop_db_outside [of base])

section \<open>Paths\<close>

text \<open>A name that stays as it is when a path is cleaned.\<close>

definition plain :: "string \<Rightarrow> bool" where
  "plain e \<longleftrightarrow> e \<noteq> [] \<and> e \<noteq> ''.'' \<and> e \<noteq> ''..'' \<and> CHR ''/'' \<notin> set e"

lemma clean_plain: "list_all plain es \<Longrightarrow> clean_elems b es acc = rev acc @ es"
  by (induction es arbitrary: acc) (simp_all add: plain_def)

lemma Join_not_Nil: "ws \<noteq> [] \<Longrightarrow> hd ws \<noteq> [] \<Longrightarrow> Join ws sep \<noteq> []"
  by (cases ws; cases "tl ws") auto

lemma hd_Join: "ws \<noteq> [] \<Longrightarrow> hd ws \<noteq> [] \<Longrightarrow> hd (Join ws sep) = hd (hd ws)"
  by (cases ws; cases "tl ws") auto

lemma Clean_relative:
  assumes "list_all plain ws" "ws \<noteq> []"
  shows "Clean (Join ws ''/'') = Join ws ''/''"
proof -
  have first: "plain (hd ws)" using assms by (cases ws) simp_all
  then have hd: "hd ws \<noteq> []" "hd (hd ws) \<noteq> CHR ''/''" by (auto simp: plain_def) (metis hd_in_set)
  have "\<not> HasPrefix (Join ws ''/'') ''/''"
    using hd_Join [OF assms(2) hd(1), of "''/''"] hd(2) by (cases "Join ws ''/''") (simp_all add: HasPrefix_def)
  moreover have "Split1 (Join ws ''/'') CHR ''/'' = ws"
    using assms by (intro Split1_Join) (auto simp: plain_def list_all_iff)
  ultimately show ?thesis
    using clean_plain [OF assms(1)] Join_not_Nil [OF assms(2) hd(1)] by (simp add: Clean_def)
qed

lemma Clean_rooted:
  assumes "list_all plain ws" "ws \<noteq> []"
  shows "Clean (''/'' @ Join ws ''/'') = ''/'' @ Join ws ''/''"
proof -
  have "Split1 (Join ws ''/'') CHR ''/'' = ws"
    using assms by (intro Split1_Join) (auto simp: plain_def list_all_iff)
  then show ?thesis using clean_plain [OF assms(1)] by (simp add: Clean_def HasPrefix_def)
qed

lemma Join_append: "us \<noteq> [] \<Longrightarrow> vs \<noteq> [] \<Longrightarrow> Join (us @ vs) sep = Join us sep @ sep @ Join vs sep"
proof (induction us sep rule: Join.induct)
  case (2 w sep)
  then show ?case by (cases vs) auto
qed auto

text \<open>A path, rooted or not, that cleaning keeps.\<close>

definition good_path :: "string \<Rightarrow> bool" where
  "good_path p \<longleftrightarrow> (\<exists>ws. ws \<noteq> [] \<and> list_all plain ws \<and> (p = Join ws ''/'' \<or> p = ''/'' @ Join ws ''/''))"

definition slashed :: "string list \<Rightarrow> string" where
  "slashed es = concat (map (\<lambda>e. ''/'' @ e) es)"

lemma slashed_Join: "es \<noteq> [] \<Longrightarrow> slashed es = ''/'' @ Join es ''/''"
proof (induction es "''/''" rule: Join.induct)
qed (simp_all add: slashed_def)

lemma Join_slashed: "Join (p # es) ''/'' = p @ slashed es"
  by (cases es) (simp_all add: slashed_Join, simp add: slashed_def)

lemma Join_append_slashed: "ws \<noteq> [] \<Longrightarrow> Join (ws @ es) ''/'' = Join ws ''/'' @ slashed es"
  by (cases "es = []") (simp_all add: Join_append slashed_Join, simp add: slashed_def)

lemma good_path_not_Nil: "good_path p \<Longrightarrow> p \<noteq> []"
proof -
  assume "good_path p"
  then obtain ws where ws: "ws \<noteq> []" "list_all plain ws" "p = Join ws ''/'' \<or> p = ''/'' @ Join ws ''/''"
    unfolding good_path_def by blast
  have "hd ws \<noteq> []" using ws by (cases ws) (simp_all add: plain_def)
  then show "p \<noteq> []" using Join_not_Nil [OF ws(1), of "''/''"] ws(3) by auto
qed

lemma good_path_extend: "good_path p \<Longrightarrow> list_all plain es \<Longrightarrow> good_path (p @ slashed es)"
proof -
  assume "good_path p" "list_all plain es"
  then obtain ws where ws: "ws \<noteq> []" "list_all plain (ws @ es)" "p = Join ws ''/'' \<or> p = ''/'' @ Join ws ''/''"
    unfolding good_path_def by auto
  then show "good_path (p @ slashed es)"
    unfolding good_path_def by (intro exI [of _ "ws @ es"]) (auto simp: Join_append_slashed)
qed

lemma filepath_Join_good:
  assumes "good_path p" "list_all plain es"
  shows "filepath_Join (p # es) = p @ slashed es"
proof -
  have "filter (\<lambda>e. e \<noteq> []) (p # es) = p # es"
    using assms good_path_not_Nil [OF assms(1)] by (auto simp: plain_def list_all_iff filter_id_conv)
  moreover have "Clean (p @ slashed es) = p @ slashed es"
  proof -
    obtain ws where "ws \<noteq> []" "list_all plain ws" "p @ slashed es = Join ws ''/'' \<or> p @ slashed es = ''/'' @ Join ws ''/''"
      using good_path_extend [OF assms] unfolding good_path_def by auto
    then show ?thesis using Clean_relative [of ws] Clean_rooted [of ws] by auto
  qed
  ultimately show ?thesis by (simp add: filepath_Join_def Join_slashed del: filter.simps)
qed

text \<open>The names a path is made of.\<close>

definition elems :: "string \<Rightarrow> string list" where
  "elems p = filter (\<lambda>e. e \<noteq> []) (Split1 p CHR ''/'')"

lemma Split1_slash: "Split1 (a @ CHR ''/'' # b) CHR ''/'' = Split1 a CHR ''/'' @ Split1 b CHR ''/''"
proof (induction a)
  case (Cons x a)
  obtain u us where "Split1 a CHR ''/'' = u # us" by (meson Split1_not_Nil neq_Nil_conv)
  then show ?case using Cons by auto
qed simp

lemma elems_slash [simp]: "elems (a @ CHR ''/'' # b) = elems a @ elems b"
  by (simp add: elems_def Split1_slash)

lemma elems_plain: "plain x \<Longrightarrow> elems x = [x]"
  by (simp add: elems_def plain_def Split1_no_sep)

lemma elems_Join: "elems (Join ps ''/'') = concat (map elems ps)"
proof (induction ps "''/''" rule: Join.induct)
qed (simp_all add: elems_def [of "[]"])

lemma clean_skips: "clean_elems b es acc = clean_elems b (filter (\<lambda>e. e \<noteq> []) es) acc"
  by (cases b; induction es arbitrary: acc) (simp_all split: list.split)

lemma filepath_Join_elems:
  assumes "p \<noteq> []" "list_all plain (concat (map elems (p # ps)))" "elems p \<noteq> []"
  shows "filepath_Join (p # ps) = (if hd p = CHR ''/'' then ''/'' else []) @ Join (concat (map elems (p # ps))) ''/''"
proof -
  let ?ne = "p # filter (\<lambda>e. e \<noteq> []) ps" and ?es = "concat (map elems (p # ps))"
  have "concat (map elems (filter (\<lambda>e. e \<noteq> []) qs)) = concat (map elems qs)" for qs
    by (induction qs) (auto simp: elems_def)
  then have es: "elems (Join ?ne ''/'') = ?es" by (simp add: elems_Join)
  have rooted: "HasPrefix (Join ?ne ''/'') ''/'' \<longleftrightarrow> hd p = CHR ''/''"
    using hd_Join [of ?ne "''/''"] Join_not_Nil [of ?ne "''/''"] assms(1) by (cases "Join ?ne ''/''") (auto simp: HasPrefix_def)
  have "clean_elems b (Split1 (Join ?ne ''/'') CHR ''/'') [] = ?es" for b
    using clean_skips [of b "Split1 (Join ?ne ''/'') CHR ''/''" "[]"] clean_plain [OF assms(2)] es by (simp add: elems_def)
  moreover have "Join ?es ''/'' \<noteq> []"
  proof (rule Join_not_Nil)
    show ne: "?es \<noteq> []" using assms(3) by simp
    have "plain (hd ?es)" using assms(2) hd_in_set [OF ne] by (simp add: list_all_iff)
    then show "hd ?es \<noteq> []" by (simp add: plain_def)
  qed
  ultimately show ?thesis using assms(1) rooted by (simp add: filepath_Join_def Clean_def)
qed

lemma good_path_plain: "plain x \<Longrightarrow> good_path x"
  unfolding good_path_def by (intro exI [of _ "[x]"]) simp

lemma plain_FormatInt: "plain (FormatInt (int n))"
proof -
  have "read_digits (FormatInt (int n)) 0 = Some (int n)" by (simp add: FormatInt_def read_digits_digits)
  moreover have "read_digits ''.'' 0 = None" "read_digits ''..'' 0 = None" by (simp_all add: digit_val_def)
  ultimately have "FormatInt (int n) \<noteq> ''.''" "FormatInt (int n) \<noteq> ''..''" by (metis option.distinct(1))+
  then show ?thesis using FormatInt_no_slash [of "int n"] by (simp add: plain_def)
qed

section \<open>Collections\<close>

definition link_at :: "string \<Rightarrow> nat \<Rightarrow> string" where
  "link_at C i = C @ ''/Members/'' @ FormatInt (int i) @ ''/@odata.id''"

text \<open>The collection at \<open>C\<close> has the members \<open>ns\<close>, under the indexes from zero.\<close>

definition lists :: "string \<Rightarrow> string list \<Rightarrow> rdb \<Rightarrow> bool" where
  "lists C ns db \<longleftrightarrow> list_result (db (C @ ''/Members'')) = Inr (map (\<lambda>i. FormatInt (int i)) [0..<length ns]) \<and>
     (\<forall>i < length ns. \<exists>l. db (link_at C i) = Some (RString l) \<and> Base l = ns ! i)"

definition set_key :: "string \<Rightarrow> rdb \<Rightarrow> bool" where
  "set_key k db \<longleftrightarrow> (\<exists>v. sadd_eff (db k) [] = Inr v)"

lemma member_links_all:
  assumes "redis_server R view" "good_path (C @ ''/Members'')"
    and "\<And>i. i \<in> set is \<Longrightarrow> \<exists>l. view w (link_at C i) = Some (RString l) \<and> Base l = f i"
  shows "member_links R (C @ ''/Members'') (map (\<lambda>i. FormatInt (int i)) is) acc w = (Ret (Inr (acc @ map f is)), w)"
  using assms(3)
proof (induction "is" arbitrary: acc)
  case (Cons i "is")
  have at: "plain ''@odata.id''" by (simp add: plain_def)
  have "filepath_Join [C @ ''/Members'', FormatInt (int i), ''@odata.id''] = link_at C i"
    using filepath_Join_good [OF assms(2), of "[FormatInt (int i), ''@odata.id'']"] plain_FormatInt [of i] at
    by (simp add: slashed_def link_at_def)
  moreover obtain l where "view w (link_at C i) = Some (RString l)" "Base l = f i" using Cons.prems by auto
  moreover have "rGet R (link_at C i) w = (Ret (get_result (view w (link_at C i))), w)"
    using redis_server.get_law [OF assms(1)] .
  ultimately show ?case using Cons.IH [of "acc @ [f i]"] Cons.prems by (simp add: go_check_apply)
qed simp

lemma lists_read:
  assumes "redis_server R view" "good_path (C @ ''/Members'')" "lists C ns (view w)"
  shows "collectionMembers R (C @ ''/Members'') w = (Ret (Inr ns), w)"
proof -
  have "rLRange R (C @ ''/Members'') w = (Ret (Inr (map (\<lambda>i. FormatInt (int i)) [0..<length ns])), w)"
    using redis_server.lrange_law [OF assms(1), of "C @ ''/Members''" w] assms(3) by (simp add: lists_def)
  moreover have "member_links R (C @ ''/Members'') (map (\<lambda>i. FormatInt (int i)) [0..<length ns]) [] w =
      (Ret (Inr ([] @ map (\<lambda>i. ns ! i) [0..<length ns])), w)"
    by (rule member_links_all [OF assms(1,2)]) (use assms(3) in \<open>auto simp: lists_def\<close>)
  ultimately show ?thesis by (simp add: collectionMembers_def go_check_apply map_nth)
qed

lemma link_at_inj [simp]: "link_at C i = link_at C j \<longleftrightarrow> i = j"
  by (auto simp: link_at_def)

text \<open>Appending a member: the array grows by an index and the link is written below it.\<close>

definition member_db :: "string \<Rightarrow> string \<Rightarrow> rdb \<Rightarrow> rdb" where
  "member_db C l db = (case array_db C ''Members'' db of ((k, _), db') \<Rightarrow> put_db k ''@odata.id'' l db')"

lemma array_lists:
  assumes "lists C ns db" "set_key C db"
  shows "\<exists>db'. array_db C ''Members'' db = ((C @ ''/Members/'' @ FormatInt (int (length ns)), None), db') \<and>
    db' (C @ ''/Members'') = Some (RList (map (\<lambda>i. FormatInt (int i)) [0..<Suc (length ns)])) \<and>
    (\<forall>k. k \<noteq> C \<and> k \<noteq> C @ ''/Members'' \<longrightarrow> db' k = db k) \<and> set_key C db'"
proof -
  have l: "list_result (db (C @ ''/Members'')) = Inr (map (\<lambda>i. FormatInt (int i)) [0..<length ns])"
    using assms(1) by (simp add: lists_def)
  have e: "cmd_err (CmdSAdd C ''Members'') db = None"
    using assms(2) by (cases "db C"; cases "the (db C)") (auto simp: set_key_def)
  have s: "set_key C (sadd_db C ''Members'' db)"
    using assms(2) by (cases "db C"; cases "the (db C)") (auto simp: set_key_def sadd_db_def)
  show ?thesis
    using l e s assms(2) by (auto simp: array_db_def Let_def sadd_db_other set_key_def)
qed

lemma member_lists:
  assumes "lists C ns db" "set_key C db"
  shows "lists C (ns @ [Base l]) (member_db C l db)"
proof -
  let ?n = "length ns"
  obtain db' where db': "array_db C ''Members'' db = ((C @ ''/Members/'' @ FormatInt (int ?n), None), db')"
    "db' (C @ ''/Members'') = Some (RList (map (\<lambda>i. FormatInt (int i)) [0..<Suc ?n]))"
    "\<forall>k. k \<noteq> C \<and> k \<noteq> C @ ''/Members'' \<longrightarrow> db' k = db k"
    using array_lists [OF assms] by (elim exE conjE) (rule that)
  have new: "member_db C l db (link_at C ?n) = Some (RString l)"
    using db'(1) by (simp add: member_db_def put_db_def link_at_def sadd_db_other)
  have old: "member_db C l db (link_at C i) = db (link_at C i)" if "i \<noteq> ?n" for i
  proof -
    have ne: "FormatInt (int i) @ ''/@odata.id'' \<noteq> FormatInt (int ?n)"
    proof
      assume eq: "FormatInt (int i) @ ''/@odata.id'' = FormatInt (int ?n)"
      have "CHR ''/'' \<in> set (FormatInt (int ?n))" by (subst eq [symmetric]) simp
      then show False using FormatInt_no_slash [of "int ?n"] by simp
    qed
    have "link_at C i \<noteq> C" "link_at C i \<noteq> C @ ''/Members''" "link_at C i \<noteq> C @ ''/Members/'' @ FormatInt (int ?n)"
      "link_at C i \<noteq> link_at C ?n"
      using that ne by (auto simp: link_at_def)
    then show ?thesis using db'(1,3) by (simp add: member_db_def put_db_def sadd_db_other link_at_def)
  qed
  have m: "member_db C l db (C @ ''/Members'') = db' (C @ ''/Members'')"
    using db'(1) by (simp add: member_db_def put_db_def sadd_db_other)
  show ?thesis unfolding lists_def
  proof (intro conjI allI impI)
    show "list_result (member_db C l db (C @ ''/Members'')) = Inr (map (\<lambda>i. FormatInt (int i)) [0..<length (ns @ [Base l])])"
      by (simp add: m db'(2))
    show "\<exists>l'. member_db C l db (link_at C i) = Some (RString l') \<and> Base l' = (ns @ [Base l]) ! i" if "i < length (ns @ [Base l])" for i
      using that assms(1) new old [of i] by (cases "i = ?n") (auto simp: lists_def nth_append)
  qed
qed

lemma lists_outside:
  assumes "\<And>k. under (C @ ''/Members'') k \<Longrightarrow> db' k = db k"
  shows "lists C ns db' \<longleftrightarrow> lists C ns db"
  using assms by (simp add: lists_def link_at_def under_iff)

lemma Base_last: "plain x \<Longrightarrow> Base (p @ ''/'' @ x) = x"
proof -
  assume x: "plain x"
  have l: "x \<noteq> []" "last x \<noteq> CHR ''/''" using x by (auto simp: plain_def) (metis last_in_set)
  have "takeWhile (\<lambda>c. c \<noteq> CHR ''/'') (rev x @ CHR ''/'' # rev p) = rev x"
    using x by (subst takeWhile_append2) (auto simp: plain_def)
  then show "Base (p @ ''/'' @ x) = x" using l by (simp add: Base_def)
qed

section \<open>Managers and accounts\<close>

definition manager_hops :: "string \<Rightarrow> string \<Rightarrow> string \<Rightarrow> hop list" where
  "manager_hops keyspace bmcID model = [HAdd keyspace ''@odata.id'', HAdd keyspace ''@odata.type'', HPut keyspace ''Id'' bmcID,
     HPut keyspace ''Name'' ''Redfish Translation Service'', HPut keyspace ''Model'' model, HPut keyspace ''PowerState'' ''On'']"

definition account_hops :: "string \<Rightarrow> string \<Rightarrow> string \<Rightarrow> hop list" where
  "account_hops keyspace username role = [HAdd keyspace ''@odata.id'', HAdd keyspace ''@odata.type'', HAdd keyspace ''@odata.context'',
     HPut keyspace ''Name'' username, HPut keyspace ''Id'' username, HPut keyspace ''RoleId'' role, HPut keyspace ''Enabled'' ''true'',
     HPut keyspace ''Locked'' ''false'', HPut keyspace ''UserName'' username]"

lemma manager_hops_under: "list_all (hop_under k) (manager_hops k i m)" "list_all (hop_under k) (account_hops k u r)"
  by (simp_all add: manager_hops_def account_hops_def)

text \<open>What is written for a new member, apart from the collection, does not reach the collection.\<close>

lemma instance_keeps_collection:
  assumes "\<And>k. \<not> under (C @ ''/'' @ n) k \<Longrightarrow> db' k = db k" "plain n" "n \<noteq> ''Members''" "lists C ns db" "set_key C db"
  shows "lists C ns db'" "set_key C db'"
proof -
  have "\<not> under (C @ ''/'' @ n) k" if "under (C @ ''/'' @ ''Members'') k" for k
    using sibling_disjoint [of C n k "''Members''"] that assms(2,3) by (auto simp: plain_def)
  then show "lists C ns db'" using assms(1,4) lists_outside [of C db' db ns] by simp
  have "db' C = db C" using assms(1) [of C] by simp
  then show "set_key C db'" using assms(5) by (simp add: set_key_def)
qed

context redis_server
begin

lemma does_member:
  assumes "lists C ns db" "set_key C db" "view (hs_world s) = db" "hs_pipe s = None"
  obtains s1 s2 k r where "addMemberToArray R C ''Members'' s = (Ret (k, None), s1)"
    "setValueForPropertyInKeyspace R k ''@odata.id'' l s1 = (Ret r, s2)" "hs_pipe s2 = None" "lists C (ns @ [Base l]) (view (hs_world s2))"
    "set_key C (view (hs_world s2))"
proof -
  obtain db' where db': "array_db C ''Members'' db = ((C @ ''/Members/'' @ FormatInt (int (length ns)), None), db')" "set_key C db'"
    using array_lists [OF assms(1,2)] by (elim exE conjE) (rule that)
  obtain s1 where 1: "addMemberToArray R C ''Members'' s = (Ret (fst (array_db C ''Members'' (view (hs_world s)))), s1)" "hs_pipe s1 = None"
    "view (hs_world s1) = snd (array_db C ''Members'' (view (hs_world s)))" using doesE [OF does_array assms(4)] .
  obtain r s2 where 2: "setValueForPropertyInKeyspace R (C @ ''/Members/'' @ FormatInt (int (length ns))) ''@odata.id'' l s1 = (Ret r, s2)"
    "hs_pipe s2 = None" "view (hs_world s2) = put_db (C @ ''/Members/'' @ FormatInt (int (length ns))) ''@odata.id'' l (view (hs_world s1))"
    using doesE [OF does_put 1(2)] by metis
  have "view (hs_world s2) = member_db C l db" using 1(3) 2(3) db'(1) assms(3) by (simp add: member_db_def)
  then have "lists C (ns @ [Base l]) (view (hs_world s2))" using member_lists [OF assms(1,2)] by simp
  moreover have "view (hs_world s2) C = db' C" using 1(3) 2(3) db'(1) assms(3) by (simp add: put_db_def sadd_db_other)
  then have "set_key C (view (hs_world s2))" using db'(2) by (simp add: set_key_def)
  ultimately show thesis using that 1(1) 2(1,2) db'(1) assms(3) by simp
qed

lemma initManager_lists:
  assumes "plain xname" "plain bmcID" "bmcID \<noteq> ''Members''" "hs_pipe s = None"
    and "lists (xname @ ManagersKeyspace) ns (view (hs_world s))" "set_key (xname @ ManagersKeyspace) (view (hs_world s))"
  obtains s' where "initManager R xname bmcID model s = (Ret None, s')" "hs_pipe s' = None"
    "lists (xname @ ManagersKeyspace) (ns @ [bmcID]) (view (hs_world s'))"
proof -
  let ?C = "xname @ ManagersKeyspace" and ?I = "xname @ ManagersKeyspace @ ''/'' @ bmcID"
  have x: "xname \<noteq> []" "hd xname \<noteq> CHR ''/''" using assms(1) by (auto simp: plain_def) (metis list.set_sel(1))
  have elems: "elems xname = [xname]" "elems bmcID = [bmcID]" "elems ManagersKeyspace = [''redfish'', ''v1'', ''Managers'']"
    using assms(1,2) by (simp_all add: elems_plain) code_simp
  have plain: "list_all plain [''redfish'', ''v1'', ''Managers'']" by (simp add: plain_def)
  have j: "filepath_Join [xname, ManagersKeyspace] = ?C" "filepath_Join [xname, ManagersKeyspace, bmcID] = ?I"
    using filepath_Join_elems [of xname "[ManagersKeyspace]"] filepath_Join_elems [of xname "[ManagersKeyspace, bmcID]"] x assms(1,2) plain
    by (simp_all add: elems) (simp_all add: ManagersKeyspace_def ServiceRootKeyspace_def)
  obtain s1 where 1: "calls (map (hop_call R) (manager_hops ?I bmcID model)) s = (Ret (), s1)" "hs_pipe s1 = None"
    "view (hs_world s1) = fold hop_db (manager_hops ?I bmcID model) (view (hs_world s))"
    using doesE [OF does_hops assms(4)] .
  have out: "view (hs_world s1) k = view (hs_world s) k" if "\<not> under (?C @ ''/'' @ bmcID) k" for k
    using hops_outside [OF manager_hops_under(1)] that 1(3) by simp
  note kept = instance_keeps_collection [OF out assms(2,3,5,6)]
  obtain s2 s3 k r where 2: "addMemberToArray R ?C ''Members'' s1 = (Ret (k, None), s2)"
    "setValueForPropertyInKeyspace R k ''@odata.id'' ?I s2 = (Ret r, s3)" "hs_pipe s3 = None" "lists ?C (ns @ [Base ?I]) (view (hs_world s3))"
    "set_key ?C (view (hs_world s3))"
    using does_member [OF kept refl 1(2)] .
  have "Base ?I = bmcID" using Base_last [of bmcID ?C] assms(2) by simp
  then show thesis using that [OF _ 2(3)] 1(1) 2
    by (simp add: initManager_def j Let_def go_bind_apply manager_hops_def)
qed

lemma initAccount_lists:
  assumes "plain username" "username \<noteq> ''Members''" "hs_pipe s = None" "hash (hs_world s) = (Ret (Inr h), w1)" "view w1 = view (hs_world s)"
    and "lists AccountsKeyspace ns (view (hs_world s))" "set_key AccountsKeyspace (view (hs_world s))"
  obtains s' where "initAccount R hash username role s = (Ret None, s')" "hs_pipe s' = None"
    "lists AccountsKeyspace (ns @ [username]) (view (hs_world s'))" "set_key AccountsKeyspace (view (hs_world s'))"
proof -
  let ?C = AccountsKeyspace and ?I = "AccountsKeyspace @ ''/'' @ username"
  have C: "elems ?C = [''redfish'', ''v1'', ''AccountService'', ''Accounts'']"
    "filepath_Join [filepath_Join [ServiceRootKeyspace, ''AccountService''], ''Accounts''] = ?C" by code_simp+
  have plain: "list_all plain [''redfish'', ''v1'', ''AccountService'', ''Accounts'']" "plain ''Password:hash''" by (simp_all add: plain_def)
  have hd: "hd ?C = CHR ''/''" "hd ?I = CHR ''/''" "?C \<noteq> []" by (simp_all add: AccountsKeyspace_def)
  have I: "filepath_Join [?C, username] = ?I"
    using filepath_Join_elems [of ?C "[username]"] hd(1,3) assms(1) plain(1) by (simp add: C(1) elems_plain) (simp add: AccountsKeyspace_def)
  have H: "filepath_Join [?I, ''Password:hash''] = ?I @ ''/Password:hash''"
    using filepath_Join_elems [of ?I "[''Password:hash'']"] hd(2) assms(1) plain
    by (simp add: C(1) elems_plain [OF assms(1)] elems_plain [OF plain(2)]) (simp add: AccountsKeyspace_def)
  let ?s1 = "s\<lparr>hs_world := w1\<rparr>"
  obtain s2 where 2: "calls (map (hop_call R) (account_hops ?I username role)) ?s1 = (Ret (), s2)" "hs_pipe s2 = None"
    "view (hs_world s2) = fold hop_db (account_hops ?I username role) (view (hs_world ?s1))"
    using doesE [OF does_hops, of ?s1] assms(3) by auto
  obtain w3 where 3: "rSet R (?I @ ''/Password:hash'') (EncodeToString h) (hs_world s2) = (Ret (Inr ()), w3)"
    "view w3 = (view (hs_world s2))(?I @ ''/Password:hash'' \<mapsto> RString (EncodeToString h))" using set_ok .
  let ?s3 = "s2\<lparr>hs_world := w3\<rparr>"
  have out: "view (hs_world ?s3) k = view (hs_world s) k" if "\<not> under (?C @ ''/'' @ username) k" for k
  proof -
    have "k \<noteq> ?I @ ''/Password:hash''" using that by (auto simp: under_iff)
    then show ?thesis using hops_outside [OF manager_hops_under(2)] that 2(3) 3(2) assms(5) by simp
  qed
  note kept = instance_keeps_collection [OF out assms(1,2,6,7)]
  have p3: "hs_pipe ?s3 = None" using 2(2) by simp
  obtain s4 s5 k r where 4: "addMemberToArray R ?C ''Members'' ?s3 = (Ret (k, None), s4)"
    "setValueForPropertyInKeyspace R k ''@odata.id'' ?I s4 = (Ret r, s5)" "hs_pipe s5 = None" "lists ?C (ns @ [Base ?I]) (view (hs_world s5))"
    "set_key ?C (view (hs_world s5))"
    using does_member [OF kept refl p3] .
  have "Base ?I = username" using Base_last [of username ?C] assms(1) by simp
  moreover have "initAccount R hash username role s = (Ret None, s5)"
    using 2(1) 3(1) 4(1,2) assms(4) unfolding initAccount_def Let_def C(2) I H
    by (simp add: go_bind_apply account_hops_def on_world_def)
  ultimately show thesis using that 4(3-5) by simp
qed

end

section \<open>Removing the keys of a device\<close>

text \<open>A pattern without the special characters of \<open>KEYS\<close>.\<close>

definition literal :: "string \<Rightarrow> bool" where
  "literal p \<longleftrightarrow> list_all (\<lambda>c. \<not> List.member [CHR ''*'', CHR ''?'', CHR ''['', CHR 0x5C] c) p"

locale redis_scan = redis_server R view
  for R :: "'w redis_ops" and view :: "'w \<Rightarrow> rdb" +
  fixes K :: "'w redis_more"
  assumes keys_law: "literal p \<Longrightarrow> \<exists>ks. rKeys K (p @ ''*'') w = (Ret (Inr ks), w) \<and> set ks = {k. view w k \<noteq> None \<and> HasPrefix k p}"
begin

lemma fold_del: "fold cmd_db (map CmdDel ks) db k = (if k \<in> set ks then None else db k)"
  by (induction ks arbitrary: db) auto

lemma Exec_dels: obtains w' where "Exec R (map CmdDel ks) w = (Ret None, w')" "view w' = fold cmd_db (map CmdDel ks) (view w)"
proof (induction ks arbitrary: w thesis)
  case (Cons k ks)
  obtain w1 where 1: "view w1 = cmd_db (CmdDel k) (view w)" "\<forall>cs e w'. Exec R cs w1 = (Ret e, w') \<longrightarrow> Exec R (CmdDel k # cs) w = (Ret e, w')"
    using Exec_cons [of "CmdDel k" w] by auto
  obtain w2 where "Exec R (map CmdDel ks) w1 = (Ret None, w2)" "view w2 = fold cmd_db (map CmdDel ks) (view w1)" using Cons.IH .
  then show ?case using Cons.prems [of w2] 1 by simp
qed simp

lemma removal:
  assumes "literal xname"
  obtains w' where "removeXnamePrependedKeys R K xname s = (Ret None, s\<lparr>hs_world := w'\<rparr>)"
    "\<And>k. view w' k = (if HasPrefix k xname then None else view (hs_world s) k)"
proof -
  obtain ks where ks: "rKeys K (xname @ ''*'') (hs_world s) = (Ret (Inr ks), hs_world s)"
    "set ks = {k. view (hs_world s) k \<noteq> None \<and> HasPrefix k xname}" using keys_law [OF assms] by blast
  obtain w' where x: "Exec R (map CmdDel ks) (hs_world s) = (Ret None, w')" "view w' = fold cmd_db (map CmdDel ks) (view (hs_world s))"
    using Exec_dels .
  have "view w' k = (if HasPrefix k xname then None else view (hs_world s) k)" for k
    by (auto simp: x(2) fold_del ks(2))
  then show thesis using that ks(1) x(1) by (simp add: removeXnamePrependedKeys_def go_bind_apply on_world_def)
qed

end

text \<open>The in-memory server scans its keys.\<close>

definition mem_more :: "mem redis_more" where
  "mem_more = \<lparr> rKeys = (\<lambda>p m. (Ret (Inr (filter (\<lambda>k. mem_get m k \<noteq> None \<and> HasPrefix k (butlast p)) (remdups (map fst m)))), m)),
     rSetExpire = (\<lambda>k v t. rSet mem_redis k v) \<rparr>"

interpretation ms: redis_scan mem_redis mem_view mem_more
proof unfold_locales
  fix p and w :: mem assume "literal p"
  have "k \<in> fst ` set w" if "mem_get w k \<noteq> None" for k
    using that by (cases "map_of w k") (auto simp: mem_get_def dest: map_of_SomeD intro: rev_image_eqI)
  then have "set (filter (\<lambda>k. mem_get w k \<noteq> None \<and> HasPrefix k p) (remdups (map fst w))) = {k. mem_view w k \<noteq> None \<and> HasPrefix k p}"
    by (auto simp: mem_view_def)
  then show "\<exists>ks. rKeys mem_more (p @ ''*'') w = (Ret (Inr ks), w) \<and> set ks = {k. mem_view w k \<noteq> None \<and> HasPrefix k p}"
    by (simp add: mem_more_def)
qed

lemma mem_redis_scan: "redis_scan mem_redis mem_view mem_more"
  by (rule ms.redis_scan_axioms)

lemma members_good:
  assumes "plain xname"
  shows "good_path (xname @ ManagersKeyspace @ ''/Members'')"
proof -
  have "xname @ ManagersKeyspace @ ''/Members'' = xname @ slashed [''redfish'', ''v1'', ''Managers'', ''Members'']"
    by (simp add: slashed_def ManagersKeyspace_def ServiceRootKeyspace_def)
  moreover have "list_all plain [''redfish'', ''v1'', ''Managers'', ''Members'']" by (simp add: plain_def)
  ultimately show ?thesis using good_path_extend [OF good_path_plain [OF assms]] by presburger
qed

lemma accounts_good: "good_path (AccountsKeyspace @ ''/Members'')"
  unfolding good_path_def
  by (intro exI [of _ "[''redfish'', ''v1'', ''AccountService'', ''Accounts'', ''Members'']"]) (simp add: AccountsKeyspace_def plain_def)

section \<open>Properties of the helper\<close>



text \<open>
  A manager that is initialised is listed: on a collection of managers with the members \<open>ns\<close>,
  setting up the manager \<open>bmcID\<close> succeeds, and the members that the helper then reads from the
  collection are \<open>ns\<close> and, at the end, \<open>bmcID\<close>.
\<close>

theorem managers_listed:
  assumes "redis_server R view" "plain xname" "plain bmcID" "bmcID \<noteq> ''Members''" "hs_pipe s = None"
    and "lists (xname @ ManagersKeyspace) ns (view (hs_world s))" "set_key (xname @ ManagersKeyspace) (view (hs_world s))"
  shows "\<exists>s'. initManager R xname bmcID model s = (Ret None, s') \<and>
    collectionMembers R (xname @ ManagersKeyspace @ ''/Members'') (hs_world s') = (Ret (Inr (ns @ [bmcID])), hs_world s')"
proof -
  obtain s' where s': "initManager R xname bmcID model s = (Ret None, s')" "lists (xname @ ManagersKeyspace) (ns @ [bmcID]) (view (hs_world s'))"
    using redis_server.initManager_lists [OF assms(1-7)] .
  have "collectionMembers R ((xname @ ManagersKeyspace) @ ''/Members'') (hs_world s') = (Ret (Inr (ns @ [bmcID])), hs_world s')"
    using lists_read [OF assms(1) _ s'(2)] members_good [OF assms(2)] by simp
  then show ?thesis using s'(1) by simp
qed

theorem managers_listed_witness:
  "\<exists>s'. initManager mem_redis ''x1'' ''BMC'' ''m'' \<lparr>hs_world = [], hs_pipe = None\<rparr> = (Ret None, s') \<and>
    collectionMembers mem_redis (''x1'' @ ManagersKeyspace @ ''/Members'') (hs_world s') = (Ret (Inr ([] @ [''BMC''])), hs_world s')"
  by (rule managers_listed [OF mem_redis_server])
    (simp_all add: plain_def lists_def set_key_def mem_view_def mem_get_def sadd_eff.simps list_result.simps)

text \<open>
  Initialising an account twice lists it twice: the account is appended to the collection without
  asking whether the collection has it already.
\<close>

theorem account_listed_again:
  assumes "redis_server R view" "plain username" "username \<noteq> ''Members''" "hs_pipe s = None"
    and "\<And>w. \<exists>h w'. hash w = (Ret (Inr h), w') \<and> view w' = view w"
    and "lists AccountsKeyspace ns (view (hs_world s))" "set_key AccountsKeyspace (view (hs_world s))"
  shows "\<exists>s1 s2. initAccount R hash username role s = (Ret None, s1) \<and> initAccount R hash username role s1 = (Ret None, s2) \<and>
    collectionMembers R (AccountsKeyspace @ ''/Members'') (hs_world s2) = (Ret (Inr (ns @ [username, username])), hs_world s2)"
proof -
  obtain h w1 where h: "hash (hs_world s) = (Ret (Inr h), w1)" "view w1 = view (hs_world s)" using assms(5) by blast
  obtain s1 where 1: "initAccount R hash username role s = (Ret None, s1)" "hs_pipe s1 = None"
    "lists AccountsKeyspace (ns @ [username]) (view (hs_world s1))" "set_key AccountsKeyspace (view (hs_world s1))"
    using redis_server.initAccount_lists [where hash = hash, OF assms(1-4) h assms(6,7)] .
  obtain h' w2 where h': "hash (hs_world s1) = (Ret (Inr h'), w2)" "view w2 = view (hs_world s1)" using assms(5) by blast
  obtain s2 where 2: "initAccount R hash username role s1 = (Ret None, s2)"
    "lists AccountsKeyspace ((ns @ [username]) @ [username]) (view (hs_world s2))"
    using redis_server.initAccount_lists [where hash = hash, OF assms(1-3) 1(2) h' 1(3,4)] .
  have "collectionMembers R (AccountsKeyspace @ ''/Members'') (hs_world s2) = (Ret (Inr (ns @ [username, username])), hs_world s2)"
    using lists_read [OF assms(1) accounts_good 2(2)] by simp
  then show ?thesis using 1(1) 2(1) by blast
qed

theorem account_listed_again_witness:
  "\<exists>s1 s2. initAccount mem_redis (\<lambda>m. (Ret (Inr ''h''), m)) ''root'' ''Administrator'' \<lparr>hs_world = [], hs_pipe = None\<rparr> = (Ret None, s1) \<and>
    initAccount mem_redis (\<lambda>m. (Ret (Inr ''h''), m)) ''root'' ''Administrator'' s1 = (Ret None, s2) \<and>
    collectionMembers mem_redis (AccountsKeyspace @ ''/Members'') (hs_world s2) = (Ret (Inr ([] @ [''root'', ''root''])), hs_world s2)"
  by (rule account_listed_again [OF mem_redis_server])
    (simp_all add: plain_def lists_def set_key_def mem_view_def mem_get_def sadd_eff.simps list_result.simps)

text \<open>
  C36. Removing the keys of a device takes every key that starts with its xname, and no other key
  changes. The name is not followed by a separator, so the keys of the devices whose xnames start with
  this one go too: with \<open>x3000m1\<close> those of \<open>x3000m10\<close>.
\<close>

theorem removal_takes_prefix:
  assumes "redis_scan R view K" "literal xname"
  shows "\<exists>w'. removeXnamePrependedKeys R K xname s = (Ret None, s\<lparr>hs_world := w'\<rparr>) \<and>
    (\<forall>k. view w' k = (if HasPrefix k xname then None else view (hs_world s) k))"
  using redis_scan.removal [OF assms] by metis

theorem removal_takes_prefix_witness:
  "\<exists>w'. removeXnamePrependedKeys mem_redis mem_more ''x3000m1'' \<lparr>hs_world = [(''x3000m10/redfish/v1'', MString ''v'')], hs_pipe = None\<rparr> =
      (Ret None, \<lparr>hs_world = w', hs_pipe = None\<rparr>) \<and> mem_view w' ''x3000m10/redfish/v1'' = None"
proof -
  have l: "literal ''x3000m1''" by (simp add: literal_def)
  have p: "HasPrefix ''x3000m10/redfish/v1'' ''x3000m1''" by code_simp
  show ?thesis
    using removal_takes_prefix [OF mem_redis_scan l, of "\<lparr>hs_world = [(''x3000m10/redfish/v1'', MString ''v'')], hs_pipe = None\<rparr>"] p
    by (elim exE conjE) (intro exI conjI, simp, simp)
qed

end
