(* ===== verification/Certificate_Facts.thy ===== *)
theory Certificate_Facts
  imports Certificate_Service Redis_Helper_Facts
begin

text \<open>
  What the certificate service promises: the PEM loop ends, a replaced certificate is the one that
  clients are shown and that Redis describes, and what a failing store leaves behind. The locale
  \<open>pem_codec\<close> states what the PEM package does.
\<close>

section \<open>The PEM loop\<close>

text \<open>The blocks that the code encodes; the package refuses blocks with malformed types.\<close>

definition usual_block :: "pem_block \<Rightarrow> bool" where
  "usual_block b \<longleftrightarrow> pb_Type b = ''CERTIFICATE'' \<or> pb_Type b = ''RSA PRIVATE KEY''"

locale pem_codec =
  fixes C :: "('w, 't) crypto"
  assumes decode_encode: "usual_block b \<Longrightarrow> pem_Decode C (pem_Encode C b @ rest) = (Some b, rest)"
    and decode_shorter: "pem_Decode C raw = (Some b, rest) \<Longrightarrow> length rest < length raw"
    and decode_nothing: "pem_Decode C raw = (None, rest) \<Longrightarrow> rest = raw"
begin

lemma encode_not_Nil: "usual_block b \<Longrightarrow> pem_Encode C b \<noteq> []"
  using decode_shorter [of "pem_Encode C b" b "[]"] decode_encode [of b "[]"] by auto

lemma decode_block: "usual_block b \<Longrightarrow> pem_Decode C (pem_Encode C b) = (Some b, [])"
  using decode_encode [of b "[]"] by simp

lemma blocks_end: "length raw \<le> n \<Longrightarrow> fst (pem_blocks C n raw found w) \<noteq> NoFuel"
proof (induction n arbitrary: raw found)
  case (Suc n)
  show ?case
  proof (cases "pem_Decode C raw")
    case (Pair block rest)
    show ?thesis
    proof (cases block)
      case None
      then have "rest = raw" using decode_nothing Pair by simp
      then show ?thesis using Pair None by (simp add: go_return_def)
    next
      case (Some b)
      then have "length rest \<le> n" using decode_shorter [of raw b rest] Pair Suc.prems by simp
      then show ?thesis using Suc.IH Pair Some by (simp add: go_return_def)
    qed
  qed
qed (simp add: go_return_def)

lemma block_step:
  assumes "usual_block b"
  shows "pem_blocks C (Suc n) (pem_Encode C b @ rest) found = pem_blocks C n rest (note_block b found)"
proof -
  have "pem_Encode C b @ rest \<noteq> rest" using encode_not_Nil [OF assms] by simp
  then show ?thesis using decode_encode [OF assms, of rest] encode_not_Nil [OF assms] by simp
qed

lemma no_blocks: "pem_blocks C n [] found = go_return found"
  by (cases n) simp_all

lemma two_blocks:
  assumes "usual_block b" "usual_block d"
  shows "pem_blocks C (Suc (Suc n)) (pem_Encode C b @ pem_Encode C d) found = go_return (note_block d (note_block b found))"
proof -
  have "pem_blocks C (Suc (Suc n)) (pem_Encode C b @ pem_Encode C d) found = pem_blocks C (Suc n) (pem_Encode C d @ []) (note_block b found)"
    by (simp only: block_step [OF assms(1)] append_Nil2)
  also have "\<dots> = go_return (note_block d (note_block b found))" by (simp only: block_step [OF assms(2)] no_blocks)
  finally show ?thesis .
qed

lemma pair_parsed:
  assumes "pb_Type c = ''CERTIFICATE''" "pb_Type k = ''RSA PRIVATE KEY''"
    and "s = pem_Encode C c @ pem_Encode C k \<or> s = pem_Encode C k @ pem_Encode C c"
  shows "ParseCertificatePairFromString C s w = (Ret (Inr \<lparr> cp_Certificate = pem_Encode C c, cp_PrivateKey = pem_Encode C k \<rparr>), w)"
proof -
  have u: "usual_block c" "usual_block k" using assms(1,2) by (simp_all add: usual_block_def)
  obtain n where n: "length s = Suc (Suc n)"
    using assms(3) encode_not_Nil [OF u(1)] encode_not_Nil [OF u(2)]
    by (cases "pem_Encode C c"; cases "pem_Encode C k") auto
  have "pem_blocks C (length s) s (None, None) w = (Ret (Some c, Some k), w)"
    unfolding n using assms by (elim disjE) (simp_all only: two_blocks [OF u] two_blocks [OF u(2,1)], simp_all add: note_block_def)
  then show ?thesis by (simp add: ParseCertificatePairFromString_def go_bind_apply)
qed

lemma pair_loaded:
  assumes "usual_block c" "usual_block k" "X509KeyPair C (pem_Encode C c) (pem_Encode C k) = Inr t" "ParseCertificate C (pb_Bytes c) = Inr x"
  shows "LoadCertificateFromPair C xname \<lparr> cp_Certificate = pem_Encode C c, cp_PrivateKey = pem_Encode C k \<rparr> cs =
    (Ret None, cs\<lparr>cs_Certificates := (cs_Certificates cs)(xname \<mapsto>
      \<lparr> ct_PublicCertificate = pem_Encode C c, ct_TLS = t, ct_X509 = x \<rparr>)\<rparr>)"
  by (simp add: LoadCertificateFromPair_def decode_block assms)

end

section \<open>The description of a certificate\<close>

definition name_fields :: "string \<Rightarrow> x509_name \<Rightarrow> (string \<times> string) list" where
  "name_fields p n = [(p @ ''/City'', Join (nm_Locality n) '' ''), (p @ ''/CommonName'', nm_CommonName n),
     (p @ ''/Country'', Join (nm_Country n) '' ''), (p @ ''/Organization'', Join (nm_Organization n) '' ''),
     (p @ ''/OrganizationalUnit'', Join (nm_OrganizationalUnit n) '' ''), (p @ ''/State'', Join (nm_Province n) '' '')]"

definition cert_fields :: "'t CertificateTuple \<Rightarrow> (string \<times> string) list" where
  "cert_fields cert = [(''CertificateString'', ct_PublicCertificate cert), (''CertificateType'', ''PEM''),
     (''ValidNotAfter'', x_NotAfter (ct_X509 cert)), (''ValidNotBefore'', x_NotBefore (ct_X509 cert))] @
     name_fields ''Issuer'' (x_Issuer (ct_X509 cert)) @ name_fields ''Subject'' (x_Subject (ct_X509 cert))"

text \<open>The link to the certificate of a manager, and the keys that describe a certificate.\<close>

definition cert_uri :: "string \<Rightarrow> string \<Rightarrow> string" where
  "cert_uri bmcID certID = ManagersKeyspace @ ''/'' @ bmcID @ ''/NetworkProtocol/HTTPS/Certificates/'' @ certID"

definition cert_view :: "string \<Rightarrow> 't CertificateTuple \<Rightarrow> rdb" where
  "cert_view k cert = map_of (map (\<lambda>(n, v). (k @ ''/'' @ n, RString v)) (cert_fields cert))"

lemma names_distinct: "distinct (map fst (cert_fields cert))"
  by (simp add: cert_fields_def name_fields_def)

lemma fold_sets: "fold cmd_db (map (\<lambda>(n, v). CmdSet (k @ ''/'' @ n) v) kvs) db = db ++ map_of (rev (map (\<lambda>(n, v). (k @ ''/'' @ n, RString v)) kvs))"
  by (induction kvs arbitrary: db) (auto simp: map_add_assoc split_beta)

lemma map_of_rev_distinct: "distinct (map fst xs) \<Longrightarrow> map_of (rev xs) = map_of xs"
  by (subst map_of_inject_set) (simp_all add: rev_map [symmetric])

context redis_server
begin

lemma Exec_sets:
  obtains w' where "Exec R (map (\<lambda>(n, v). CmdSet (k @ ''/'' @ n) v) kvs) w = (Ret None, w')"
    "view w' = fold cmd_db (map (\<lambda>(n, v). CmdSet (k @ ''/'' @ n) v) kvs) (view w)"
proof (induction kvs arbitrary: w thesis)
  case (Cons kv kvs)
  obtain n v where kv: "kv = (n, v)" by (cases kv)
  obtain w1 where 1: "run_cmd R (CmdSet (k @ ''/'' @ n) v) w = (Ret (Inr ()), w1)" "view w1 = cmd_db (CmdSet (k @ ''/'' @ n) v) (view w)"
    using run_cmd_effect [of "CmdSet (k @ ''/'' @ n) v" w] by auto
  obtain w2 where "Exec R (map (\<lambda>(n, v). CmdSet (k @ ''/'' @ n) v) kvs) w1 = (Ret None, w2)"
    "view w2 = fold cmd_db (map (\<lambda>(n, v). CmdSet (k @ ''/'' @ n) v) kvs) (view w1)"
    using Cons.IH .
  then show ?case using Cons.prems [of w2] 1 kv by (simp add: go_bind_apply)
qed simp

end

section \<open>Keys\<close>

lemma full_key_skip: "CHR ''/'' \<notin> set x \<Longrightarrow> full_key (x @ t) = full_key t"
proof (induction x)
  case (Cons c x)
  then have "\<not> HasPrefix (c # x @ t) ServiceRootKeyspace" by (auto simp: HasPrefix_def ServiceRootKeyspace_def)
  then show ?case using Cons by (simp add: Let_def)
qed simp

lemma managers_elems: "elems ManagersKeyspace = [''redfish'', ''v1'', ''Managers'']"
  by code_simp

lemma cert_uri_Join:
  assumes "plain b" "plain c"
  shows "filepath_Join [ManagersKeyspace, b, ''NetworkProtocol/HTTPS/Certificates'', c] = cert_uri b c"
proof -
  have e: "elems ''NetworkProtocol/HTTPS/Certificates'' = [''NetworkProtocol'', ''HTTPS'', ''Certificates'']" by code_simp
  have p: "list_all plain [''redfish'', ''v1'', ''Managers'', ''NetworkProtocol'', ''HTTPS'', ''Certificates'']" by (simp add: plain_def)
  have h: "ManagersKeyspace \<noteq> []" "hd ManagersKeyspace = CHR ''/''" by (simp_all add: ManagersKeyspace_def ServiceRootKeyspace_def)
  show ?thesis
    using filepath_Join_elems [of ManagersKeyspace "[b, ''NetworkProtocol/HTTPS/Certificates'', c]"] h assms p
    by (simp add: managers_elems elems_plain e) (simp add: cert_uri_def ManagersKeyspace_def ServiceRootKeyspace_def)
qed

lemma cert_keyspace_Join:
  assumes "plain x" "plain b" "plain c"
  shows "filepath_Join [x, ManagersKeyspace, b, ''NetworkProtocol'', ''HTTPS'', ''Certificates'', c] = x @ cert_uri b c"
    "good_path (x @ cert_uri b c)"
proof -
  have p: "list_all plain [''redfish'', ''v1'', ''Managers'']" "plain ''NetworkProtocol''" "plain ''HTTPS''" "plain ''Certificates''" by (simp_all add: plain_def)
  have x: "x \<noteq> []" "hd x \<noteq> CHR ''/''" using assms(1) by (auto simp: plain_def) (metis list.set_sel(1))
  show "filepath_Join [x, ManagersKeyspace, b, ''NetworkProtocol'', ''HTTPS'', ''Certificates'', c] = x @ cert_uri b c"
    using filepath_Join_elems [of x "[ManagersKeyspace, b, ''NetworkProtocol'', ''HTTPS'', ''Certificates'', c]"] x assms p
    by (simp add: managers_elems elems_plain [OF assms(1)] elems_plain [OF assms(2)] elems_plain [OF assms(3)] elems_plain [OF p(2)]
        elems_plain [OF p(3)] elems_plain [OF p(4)]) (simp add: cert_uri_def ManagersKeyspace_def ServiceRootKeyspace_def)
  have "x @ cert_uri b c = x @ slashed [''redfish'', ''v1'', ''Managers'', b, ''NetworkProtocol'', ''HTTPS'', ''Certificates'', c]"
    by (simp add: slashed_def cert_uri_def ManagersKeyspace_def ServiceRootKeyspace_def)
  then show "good_path (x @ cert_uri b c)"
    using good_path_extend [OF good_path_plain [OF assms(1)], of "[''redfish'', ''v1'', ''Managers'', b, ''NetworkProtocol'', ''HTTPS'', ''Certificates'', c]"] assms p
    by simp
qed

lemma Join_field: "good_path k \<Longrightarrow> plain n \<Longrightarrow> filepath_Join [k, n] = k @ ''/'' @ n"
  using filepath_Join_good [of k "[n]"] by (simp add: slashed_def)

lemma name_cmds_fields:
  assumes "good_path k" "plain p"
  shows "name_cmds (filepath_Join [k, p]) nm = map (\<lambda>(n, v). CmdSet (k @ ''/'' @ n) v) (name_fields p nm)"
proof -
  have "good_path (k @ ''/'' @ p)" using good_path_extend [of k "[p]"] assms by (simp add: slashed_def)
  then have j: "filepath_Join [k @ ''/'' @ p, n] = k @ ''/'' @ p @ ''/'' @ n" if "plain n" for n
    using Join_field [of "k @ ''/'' @ p" n] that by simp
  have pl: "plain ''City''" "plain ''CommonName''" "plain ''Country''" "plain ''Organization''" "plain ''OrganizationalUnit''" "plain ''State''"
    by (simp_all add: plain_def)
  show ?thesis unfolding name_cmds_def name_fields_def Join_field [OF assms] by (simp add: j [OF pl(1)] j [OF pl(2)] j [OF pl(3)] j [OF pl(4)] j [OF pl(5)] j [OF pl(6)] del: append.simps append_Cons) 
qed

lemma populate_fields:
  assumes "plain x" "plain b" "plain c"
  shows "populateCertificate x b c cert = map (\<lambda>(n, v). CmdSet ((x @ cert_uri b c) @ ''/'' @ n) v) (cert_fields cert)"
proof -
  note k = cert_keyspace_Join [OF assms]
  have pl: "plain ''CertificateString''" "plain ''CertificateType''" "plain ''ValidNotAfter''" "plain ''ValidNotBefore''" "plain ''Issuer''" "plain ''Subject''"
    by (simp_all add: plain_def)
  show ?thesis
    unfolding populateCertificate_def k(1) Let_def cert_fields_def map_append name_cmds_fields [OF k(2) pl(5)] name_cmds_fields [OF k(2) pl(6)]
      Join_field [OF k(2) pl(1)] Join_field [OF k(2) pl(2)] Join_field [OF k(2) pl(3)] Join_field [OF k(2) pl(4)]
    by simp
qed

section \<open>Requests\<close>

context redis_server
begin

lemma populated:
  assumes "plain x" "plain (cs_BmcID cs)" "plain (cs_CertificateID cs)" "GetCertificate x cs = Some cert"
  obtains w' where "populate R x cs = (Ret None, cs\<lparr>cs_world := w'\<rparr>)"
    "view w' = view (cs_world cs) ++ cert_view (x @ cert_uri (cs_BmcID cs) (cs_CertificateID cs)) cert"
proof -
  let ?k = "x @ cert_uri (cs_BmcID cs) (cs_CertificateID cs)"
  obtain w' where w': "Exec R (map (\<lambda>(n, v). CmdSet (?k @ ''/'' @ n) v) (cert_fields cert)) (cs_world cs) = (Ret None, w')"
    "view w' = fold cmd_db (map (\<lambda>(n, v). CmdSet (?k @ ''/'' @ n) v) (cert_fields cert)) (view (cs_world cs))"
    using Exec_sets .
  have "distinct (map fst (map (\<lambda>(n, v). (?k @ ''/'' @ n, RString v)) (cert_fields cert)))"
    using names_distinct [of cert] by (simp add: cert_fields_def name_fields_def)
  then have "view w' = view (cs_world cs) ++ cert_view ?k cert"
    using w'(2) by (simp only: fold_sets cert_view_def map_of_rev_distinct)
  moreover have "populate R x cs = (Ret None, cs\<lparr>cs_world := w'\<rparr>)"
    using w'(1) assms(4) by (simp only: populate_def populate_fields [OF assms(1-3)] option.case on_cs_def prod.case)
  ultimately show thesis using that by blast
qed

end

definition action_key :: string where
  "action_key = ''/redfish/v1/CertificateService/Actions/CertificateService.ReplaceCertificate''"

definition replace_env :: "string \<Rightarrow> string \<Rightarrow> string \<Rightarrow> (string \<times> string) list" where
  "replace_env xname uri certificate = [(''RTS_XNAME'', xname), (''CertificateUri'', uri), (''CertificateType'', ''PEM''), (''CertificateString'', certificate)]"

lemma full_key_action: "plain x \<Longrightarrow> full_key (x @ action_key) = Some action_key"
proof -
  assume "plain x"
  then have "full_key (x @ action_key) = full_key action_key" by (intro full_key_skip) (simp add: plain_def)
  also have "\<dots> = Some action_key" by code_simp
  finally show ?thesis .
qed

lemma action_no_cert: "\<not> HasPrefix action_key (cert_uri b c)"
  by (simp add: HasPrefix_def action_key_def cert_uri_def ManagersKeyspace_def ServiceRootKeyspace_def)

text \<open>A request to replace a certificate that passes the checks comes to loading, storing and describing it.\<close>

lemma replace_request:
  assumes "plain x" "plain (cs_BmcID cs)" "plain (cs_CertificateID cs)" "cs_KnownDevices cs x \<noteq> None"
    and "ParseCertificatePairFromString C s cs = (Ret (Inr pair), cs)" "LoadCertificateFromPair C x pair cs = (Ret None, cs1)"
    and "cs_Store cs1 = cs_Store cs"
  shows "Cert_RunBackendHelper R C S (x @ action_key) (replace_env x (cert_uri (cs_BmcID cs) (cs_CertificateID cs)) s) cs =
    go_bind (case cs_Store cs of None \<Rightarrow> go_return None | Some keyPath \<Rightarrow> on_cs (StoreCertificatePair S keyPath x pair)) (\<lambda>err. case err of
        Some e \<Rightarrow> go_return (Inl (Err (''Unable to store certifcate pair in Vault: '' @ Error e)))
      | None \<Rightarrow> go_bind (populate R x) (\<lambda>err. go_return (case err of Some e \<Rightarrow> Inl e | None \<Rightarrow> Inr []))) cs1"
proof -
  have env: "map_of (replace_env x u s) ''RTS_XNAME'' = Some x" "map_of (replace_env x u s) ''CertificateUri'' = Some u"
    "map_of (replace_env x u s) ''CertificateType'' = Some ''PEM''" "map_of (replace_env x u s) ''CertificateString'' = Some s" for u
    by (simp_all add: replace_env_def)
  have "Cert_RunBackendHelper R C S (x @ action_key) (replace_env x (cert_uri (cs_BmcID cs) (cs_CertificateID cs)) s) cs =
      replace_certificate R C S x (cert_uri (cs_BmcID cs) (cs_CertificateID cs)) (replace_env x (cert_uri (cs_BmcID cs) (cs_CertificateID cs)) s) cs"
    using assms(4) action_no_cert
    by (cases "cs_KnownDevices cs x"; simp add: Cert_RunBackendHelper_def env Let_def cert_uri_Join [OF assms(2,3)] full_key_action [OF assms(1)] action_key_def [symmetric])
  also have "\<dots> = go_bind (case cs_Store cs of None \<Rightarrow> go_return None | Some keyPath \<Rightarrow> on_cs (StoreCertificatePair S keyPath x pair)) (\<lambda>err. case err of
        Some e \<Rightarrow> go_return (Inl (Err (''Unable to store certifcate pair in Vault: '' @ Error e)))
      | None \<Rightarrow> go_bind (populate R x) (\<lambda>err. go_return (case err of Some e \<Rightarrow> Inl e | None \<Rightarrow> Inr []))) cs1"
    unfolding replace_certificate_def env using assms(5-7)
    by (simp only: go_check_def go_bind_apply option.case sum.case prod.case outcome.case simp_thms if_True if_False)
  finally show ?thesis .
qed

section \<open>PEM in memory\<close>

definition mem_crypto :: "('w, string) crypto" where
  "mem_crypto = \<lparr>
     pem_Decode = (\<lambda>raw. case get_str raw of
         None \<Rightarrow> (None, raw)
       | Some (t, r) \<Rightarrow> (case get_str r of None \<Rightarrow> (None, raw) | Some (b, r') \<Rightarrow> (Some \<lparr> pb_Type = t, pb_Bytes = b \<rparr>, r'))),
     pem_Encode = (\<lambda>b. put_str (pb_Type b) @ put_str (pb_Bytes b)),
     X509KeyPair = (\<lambda>c k. Inr (c @ k)),
     ParseCertificate = (\<lambda>b. Inr \<lparr> x_NotAfter = b, x_NotBefore = b,
        x_Issuer = \<lparr> nm_Locality = [], nm_CommonName = b, nm_Country = [], nm_Organization = [], nm_OrganizationalUnit = [], nm_Province = [] \<rparr>,
        x_Subject = \<lparr> nm_Locality = [], nm_CommonName = b, nm_Country = [], nm_Organization = [], nm_OrganizationalUnit = [], nm_Province = [] \<rparr> \<rparr>),
     LoadX509KeyPair = (\<lambda>_ _. go_return (Inl (Err ''no file''))), cReadFile = (\<lambda>_. go_return (Inl (Err ''no file''))) \<rparr>"

lemma get_str_shorter: "get_str s = Some (a, r) \<Longrightarrow> length r < length s"
  by (induction s arbitrary: a r rule: get_str.induct) (auto split: if_splits)

interpretation mc: pem_codec "mem_crypto :: ('w, string) crypto"
proof (unfold_locales, goal_cases)
  case (1 b rest)
  then show ?case by (simp add: mem_crypto_def)
next
  case (2 raw b rest)
  then show ?case by (auto simp: mem_crypto_def split: option.splits dest!: get_str_shorter)
next
  case (3 raw rest)
  then show ?case by (auto simp: mem_crypto_def split: option.splits)
qed

lemma mem_pem_codec: "pem_codec (mem_crypto :: ('w, string) crypto)"
  by (rule mc.pem_codec_axioms)

text \<open>A storage that keeps every pair, and one that cannot be reached; neither touches Redis.\<close>

definition storage_ok :: "'w secure_storage \<Rightarrow> ('w \<Rightarrow> rdb) \<Rightarrow> bool" where
  "storage_ok S view \<longleftrightarrow> (\<forall>p pair w. \<exists>w'. ssStore S p pair w = (Ret None, w') \<and> view w' = view w)"

definition storage_down :: "'w secure_storage \<Rightarrow> ('w \<Rightarrow> rdb) \<Rightarrow> bool" where
  "storage_down S view \<longleftrightarrow> (\<forall>p pair w. \<exists>e w'. ssStore S p pair w = (Ret (Some e), w') \<and> view w' = view w)"

section \<open>Properties\<close>

text \<open>
  C17. A replaced certificate is served: a request to replace the certificate of a known device, with a
  certificate and its key as PEM blocks in either order, succeeds; afterwards clients that connect to
  the device, by its xname or the name with the suffix -rts, are shown the new certificate, Redis
  describes it, and the certificates of all other devices are as before.
\<close>

theorem replaced_certificate_served:
  assumes "redis_server R view" "pem_codec C" "storage_ok S view"
    and "plain x" "plain (cs_BmcID cs)" "plain (cs_CertificateID cs)" "cs_KnownDevices cs x \<noteq> None"
    and "pb_Type c = ''CERTIFICATE''" "pb_Type k = ''RSA PRIVATE KEY''"
    and "s = pem_Encode C c @ pem_Encode C k \<or> s = pem_Encode C k @ pem_Encode C c"
    and "X509KeyPair C (pem_Encode C c) (pem_Encode C k) = Inr t" "ParseCertificate C (pb_Bytes c) = Inr d"
  shows "\<exists>cs'. Cert_RunBackendHelper R C S (x @ action_key) (replace_env x (cert_uri (cs_BmcID cs) (cs_CertificateID cs)) s) cs = (Ret (Inr []), cs') \<and>
    ReturnCert (x @ ''-rts'') cs' = (Ret t, cs') \<and>
    view (cs_world cs') = view (cs_world cs) ++ cert_view (x @ cert_uri (cs_BmcID cs) (cs_CertificateID cs))
      \<lparr> ct_PublicCertificate = pem_Encode C c, ct_TLS = t, ct_X509 = d \<rparr> \<and>
    (\<forall>y. GetCertificate y cs' = (if y = x then Some \<lparr> ct_PublicCertificate = pem_Encode C c, ct_TLS = t, ct_X509 = d \<rparr> else GetCertificate y cs))"
proof -
  let ?tuple = "\<lparr> ct_PublicCertificate = pem_Encode C c, ct_TLS = t, ct_X509 = d \<rparr>"
  let ?pair = "\<lparr> cp_Certificate = pem_Encode C c, cp_PrivateKey = pem_Encode C k \<rparr>"
  let ?cs1 = "cs\<lparr>cs_Certificates := (cs_Certificates cs)(x \<mapsto> ?tuple)\<rparr>"
  have u: "usual_block c" "usual_block k" using assms(8,9) by (simp_all add: usual_block_def)
  note parsed = pem_codec.pair_parsed [OF assms(2,8-10), of cs]
  note loaded = pem_codec.pair_loaded [OF assms(2) u assms(11,12), of x cs]
  obtain w2 where stored: "(case cs_Store cs of None \<Rightarrow> go_return None | Some keyPath \<Rightarrow> on_cs (StoreCertificatePair S keyPath x ?pair)) ?cs1 =
      (Ret None, ?cs1\<lparr>cs_world := w2\<rparr>)" "view w2 = view (cs_world cs)"
  proof (cases "cs_Store cs")
    case (Some keyPath)
    obtain w' where "ssStore S (filepath_Join [keyPath, x]) ?pair (cs_world cs) = (Ret None, w')" "view w' = view (cs_world cs)"
      using assms(3) unfolding storage_ok_def by blast
    then show ?thesis using that [of w'] Some pem_codec.encode_not_Nil [OF assms(2)] u by (simp add: on_cs_def StoreCertificatePair_def)
  qed (simp add: that [of "cs_world cs"])
  let ?cs2 = "?cs1\<lparr>cs_world := w2\<rparr>"
  obtain w3 where p: "populate R x ?cs2 = (Ret None, ?cs2\<lparr>cs_world := w3\<rparr>)"
    "view w3 = view (cs_world ?cs2) ++ cert_view (x @ cert_uri (cs_BmcID ?cs2) (cs_CertificateID ?cs2)) ?tuple"
    by (rule redis_server.populated [OF assms(1,4), of ?cs2 ?tuple]) (use assms(5,6) in \<open>simp_all add: GetCertificate_def\<close>)
  have "Cert_RunBackendHelper R C S (x @ action_key) (replace_env x (cert_uri (cs_BmcID cs) (cs_CertificateID cs)) s) cs = (Ret (Inr []), ?cs2\<lparr>cs_world := w3\<rparr>)"
    using replace_request [OF assms(4-7) parsed loaded, of R S] stored(1) p(1) by (simp add: go_bind_apply)
  moreover have "ReturnCert (x @ ''-rts'') (?cs2\<lparr>cs_world := w3\<rparr>) = (Ret t, ?cs2\<lparr>cs_world := w3\<rparr>)"
    by (simp only: ReturnCert_def TrimSuffix_append) (simp add: GetCertificate_def)
  ultimately show ?thesis using p(2) stored(2) by (intro exI [of _ "?cs2\<lparr>cs_world := w3\<rparr>"]) (simp add: GetCertificate_def split: option.split)
qed

definition ex_service :: "(mem, string) CertificateService" where
  "ex_service = \<lparr> cs_world = [], cs_BmcID = ''BMC'', cs_CertificateID = ''1'', cs_Store = Some ''v'', cs_Default = None,
     cs_Certificates = Map.empty, cs_KnownDevices = [''x1'' \<mapsto> True] \<rparr>"

definition ex_cert :: pem_block where
  "ex_cert = \<lparr> pb_Type = ''CERTIFICATE'', pb_Bytes = ''c'' \<rparr>"

definition ex_key :: pem_block where
  "ex_key = \<lparr> pb_Type = ''RSA PRIVATE KEY'', pb_Bytes = ''k'' \<rparr>"

definition ex_storage :: "go_error option \<Rightarrow> mem secure_storage" where
  "ex_storage e = \<lparr> ssLookup = (\<lambda>_. go_return (\<lparr> cp_Certificate = [], cp_PrivateKey = [] \<rparr>, None)), ssStore = (\<lambda>_ _. go_return e) \<rparr>"

lemma ex_service_ok: "plain ''x1''" "plain (cs_BmcID ex_service)" "plain (cs_CertificateID ex_service)" "cs_KnownDevices ex_service ''x1'' \<noteq> None"
    "pb_Type ex_cert = ''CERTIFICATE''" "pb_Type ex_key = ''RSA PRIVATE KEY''" "cs_Store ex_service = Some ''v''"
  by (simp_all add: plain_def ex_service_def ex_cert_def ex_key_def)

lemma ex_crypto_ok: "X509KeyPair mem_crypto c k = Inr (c @ k)" "\<exists>d. ParseCertificate mem_crypto b = Inr d"
  by (simp_all add: mem_crypto_def)

theorem replaced_certificate_served_witness:
  "\<exists>cs'. Cert_RunBackendHelper mem_redis mem_crypto (ex_storage None) (''x1'' @ action_key)
      (replace_env ''x1'' (cert_uri (cs_BmcID ex_service) (cs_CertificateID ex_service)) (pem_Encode (mem_crypto :: (mem, string) crypto) ex_key @ pem_Encode (mem_crypto :: (mem, string) crypto) ex_cert)) ex_service = (Ret (Inr []), cs') \<and>
    ReturnCert (''x1'' @ ''-rts'') cs' = (Ret (pem_Encode (mem_crypto :: (mem, string) crypto) ex_cert @ pem_Encode (mem_crypto :: (mem, string) crypto) ex_key), cs')"
proof -
  have s: "storage_ok (ex_storage None) mem_view" by (simp add: storage_ok_def ex_storage_def)
  obtain d where d: "ParseCertificate (mem_crypto :: (mem, string) crypto) (pb_Bytes ex_cert) = Inr d" using ex_crypto_ok(2) by blast
  show ?thesis
    using replaced_certificate_served [OF mem_redis_server mem_pem_codec s ex_service_ok(1-6) disjI2 [OF refl] ex_crypto_ok(1) d] by blast
qed

text \<open>
  A certificate that cannot be stored is served all the same: when the secure storage fails, the
  request to replace a certificate is answered with an error, but clients are shown the new
  certificate from then on, while Redis still describes the old one.
\<close>

theorem unstored_certificate_served:
  assumes "pem_codec C" "storage_down S view" "cs_Store cs = Some keyPath"
    and "plain x" "plain (cs_BmcID cs)" "plain (cs_CertificateID cs)" "cs_KnownDevices cs x \<noteq> None"
    and "pb_Type c = ''CERTIFICATE''" "pb_Type k = ''RSA PRIVATE KEY''"
    and "s = pem_Encode C c @ pem_Encode C k \<or> s = pem_Encode C k @ pem_Encode C c"
    and "X509KeyPair C (pem_Encode C c) (pem_Encode C k) = Inr t" "ParseCertificate C (pb_Bytes c) = Inr d"
  shows "\<exists>e cs'. Cert_RunBackendHelper R C S (x @ action_key) (replace_env x (cert_uri (cs_BmcID cs) (cs_CertificateID cs)) s) cs = (Ret (Inl e), cs') \<and>
    ReturnCert (x @ ''-rts'') cs' = (Ret t, cs') \<and> view (cs_world cs') = view (cs_world cs)"
proof -
  let ?tuple = "\<lparr> ct_PublicCertificate = pem_Encode C c, ct_TLS = t, ct_X509 = d \<rparr>"
  let ?pair = "\<lparr> cp_Certificate = pem_Encode C c, cp_PrivateKey = pem_Encode C k \<rparr>"
  let ?cs1 = "cs\<lparr>cs_Certificates := (cs_Certificates cs)(x \<mapsto> ?tuple)\<rparr>"
  have u: "usual_block c" "usual_block k" using assms(8,9) by (simp_all add: usual_block_def)
  note parsed = pem_codec.pair_parsed [OF assms(1,8-10), of cs]
  note loaded = pem_codec.pair_loaded [OF assms(1) u assms(11,12), of x cs]
  obtain e w' where w': "ssStore S (filepath_Join [keyPath, x]) ?pair (cs_world cs) = (Ret (Some e), w')" "view w' = view (cs_world cs)"
    using assms(2) unfolding storage_down_def by blast
  have "Cert_RunBackendHelper R C S (x @ action_key) (replace_env x (cert_uri (cs_BmcID cs) (cs_CertificateID cs)) s) cs =
      (Ret (Inl (Err (''Unable to store certifcate pair in Vault: '' @ Error e))), ?cs1\<lparr>cs_world := w'\<rparr>)"
    using replace_request [OF assms(4-7) parsed loaded, of R S] w'(1) assms(3) pem_codec.encode_not_Nil [OF assms(1)] u
    by (simp add: go_bind_apply on_cs_def StoreCertificatePair_def)
  moreover have "ReturnCert (x @ ''-rts'') (?cs1\<lparr>cs_world := w'\<rparr>) = (Ret t, ?cs1\<lparr>cs_world := w'\<rparr>)"
    by (simp only: ReturnCert_def TrimSuffix_append) (simp add: GetCertificate_def)
  ultimately show ?thesis using w'(2) by (intro exI conjI) (assumption, assumption, simp)
qed

theorem unstored_certificate_served_witness:
  "\<exists>e cs'. Cert_RunBackendHelper mem_redis mem_crypto (ex_storage (Some (Err ''down''))) (''x1'' @ action_key)
      (replace_env ''x1'' (cert_uri (cs_BmcID ex_service) (cs_CertificateID ex_service)) (pem_Encode (mem_crypto :: (mem, string) crypto) ex_cert @ pem_Encode (mem_crypto :: (mem, string) crypto) ex_key)) ex_service = (Ret (Inl e), cs') \<and>
    ReturnCert (''x1'' @ ''-rts'') cs' = (Ret (pem_Encode (mem_crypto :: (mem, string) crypto) ex_cert @ pem_Encode (mem_crypto :: (mem, string) crypto) ex_key), cs') \<and>
    mem_view (cs_world cs') = mem_view (cs_world ex_service)"
proof -
  have s: "storage_down (ex_storage (Some (Err ''down''))) mem_view" by (simp add: storage_down_def ex_storage_def)
  obtain d where d: "ParseCertificate (mem_crypto :: (mem, string) crypto) (pb_Bytes ex_cert) = Inr d" using ex_crypto_ok(2) by blast
  show ?thesis
    using unstored_certificate_served [OF mem_pem_codec s ex_service_ok(7,1-6) disjI1 [OF refl] ex_crypto_ok(1) d] by blast
qed

end
