(* ===== verification/Switch_Facts.thy ===== *)
theory Switch_Facts
  imports Switch_Backend Certificate_Facts
begin

text \<open>
  What the switch backend writes and answers. The calls of an initialisation are lists of \<open>hop\<close>s; run in
  a pipeline they are queued, and only the indexes of new members go to the server at once.
\<close>

section \<open>Effects of queued calls on a key\<close>

fun touches :: "string \<Rightarrow> hop \<Rightarrow> bool" where
  "touches key (HAdd k m) \<longleftrightarrow> key = k"
| "touches key (HPut k p v) \<longleftrightarrow> key = k \<or> key = k @ ''/'' @ p"

lemma hop_untouched: "\<not> touches key h \<Longrightarrow> hop_db h db key = db key"
  by (cases h) (auto simp: put_db_def sadd_db_other)

lemma hops_untouched: "list_all (\<lambda>h. \<not> touches key h) hs \<Longrightarrow> fold hop_db hs db key = db key"
  by (induction hs arbitrary: db) (auto simp: hop_untouched)

text \<open>The value that the last call with the key gives it, unless the key is used as a set later.\<close>

fun last_value :: "string \<Rightarrow> hop list \<Rightarrow> string option \<Rightarrow> string option" where
  "last_value key [] acc = acc"
| "last_value key (HAdd k m # hs) acc = last_value key hs (if key = k then None else acc)"
| "last_value key (HPut k p v # hs) acc = last_value key hs (if key = k then None else if key = k @ ''/'' @ p then Some v else acc)"

lemma last_value_stored:
  "last_value key hs acc = Some v \<Longrightarrow> (\<And>x. acc = Some x \<Longrightarrow> db key = Some (RString x)) \<Longrightarrow> fold hop_db hs db key = Some (RString v)"
proof (induction key hs acc arbitrary: db rule: last_value.induct)
  case (2 key k m hs acc)
  show ?case using 2(2,3) by (simp, intro 2(1)) (auto simp: sadd_db_other split: if_splits)
next
  case (3 key k p v hs acc)
  show ?case using 3(2,3) by (simp, intro 3(1)) (auto simp: put_db_def sadd_db_other split: if_splits)
qed simp

text \<open>The keys of sets and of values that the calls write.\<close>

fun hop_set :: "hop \<Rightarrow> string" where
  "hop_set (HAdd k m) = k"
| "hop_set (HPut k p v) = k"

fun hop_strings :: "hop \<Rightarrow> string list" where
  "hop_strings (HAdd k m) = []"
| "hop_strings (HPut k p v) = [k @ ''/'' @ p]"

lemma set_key_iff: "set_key k db \<longleftrightarrow> db k = None \<or> (\<exists>S. db k = Some (RSet S))"
proof (cases "db k")
  case (Some v)
  then show ?thesis by (cases v) (simp_all add: set_key_def)
qed (simp add: set_key_def)

lemma set_key_sadd: "set_key k db \<Longrightarrow> set_key k (sadd_db k' m db)"
proof (cases "k = k'")
  case True
  assume "set_key k db"
  then show ?thesis using True by (auto simp: set_key_iff sadd_db_def)
qed (simp add: set_key_iff sadd_db_other)

lemma set_key_hop: "set_key k db \<Longrightarrow> \<not> List.member (hop_strings h) k \<Longrightarrow> set_key k (hop_db h db)"
  by (cases h) (auto simp: put_db_def intro!: set_key_sadd, simp add: set_key_iff)

lemma set_key_no_error: "set_key k db \<Longrightarrow> cmd_err (CmdSAdd k m) db = None"
  by (auto simp: set_key_iff)

lemma set_key_fresh: "db k = None \<Longrightarrow> set_key k db"
  by (simp add: set_key_def)

context redis_server
begin

lemma Exec_hop:
  assumes "set_key (hop_set h) (view w)" "\<not> List.member (hop_strings h) (hop_set h)"
  obtains w1 where "view w1 = hop_db h (view w)" "\<forall>cs e w'. Exec R cs w1 = (Ret e, w') \<longrightarrow> Exec R (hop_cmds h @ cs) w = (Ret e, w')"
proof (cases h)
  case (HAdd k m)
  then show thesis using Exec_cons [of "CmdSAdd k m" w] set_key_no_error [of k "view w" m] assms(1) that by auto
next
  case (HPut k p v)
  obtain w1 where 1: "view w1 = (view w)(k @ ''/'' @ p \<mapsto> RString v)"
    "\<forall>cs e w'. Exec R cs w1 = (Ret e, w') \<longrightarrow> Exec R (CmdSet (k @ ''/'' @ p) v # cs) w = (Ret e, w')"
    using Exec_cons [of "CmdSet (k @ ''/'' @ p) v" w] by auto
  have "set_key k (view w1)" using assms 1(1) HPut by (auto simp: set_key_iff)
  then obtain w2 where 2: "view w2 = sadd_db k p (view w1)"
    "\<forall>cs e w'. Exec R cs w2 = (Ret e, w') \<longrightarrow> Exec R (CmdSAdd k p # cs) w1 = (Ret e, w')"
    using Exec_cons [of "CmdSAdd k p" w1] set_key_no_error [of k "view w1" p] by auto
  show thesis
  proof (rule that [of w2])
    show "view w2 = hop_db h (view w)" using 1(1) 2(1) HPut by (simp add: put_db_def)
    show "\<forall>cs e w'. Exec R cs w2 = (Ret e, w') \<longrightarrow> Exec R (hop_cmds h @ cs) w = (Ret e, w')"
      using 1(2) 2(2) unfolding HPut hop_cmds.simps append_Cons append_Nil by blast
  qed
qed

lemma Exec_hops:
  assumes "list_all (\<lambda>h. set_key (hop_set h) (view w) \<and> \<not> List.member (concat (map hop_strings hs)) (hop_set h)) hs"
  obtains w' where "Exec R (concat (map hop_cmds hs)) w = (Ret None, w')" "view w' = fold hop_db hs (view w)"
  using assms
proof (induction hs arbitrary: w thesis)
  case (Cons h hs)
  have k: "set_key (hop_set h) (view w)" "\<not> List.member (hop_strings h) (hop_set h)" using Cons.prems(2) by auto
  obtain w1 where 1: "view w1 = hop_db h (view w)"
    "\<forall>cs e w'. Exec R cs w1 = (Ret e, w') \<longrightarrow> Exec R (hop_cmds h @ cs) w = (Ret e, w')"
    using Exec_hop [OF k] .
  have "list_all (\<lambda>h. set_key (hop_set h) (view w1) \<and> \<not> List.member (concat (map hop_strings hs)) (hop_set h)) hs"
    using Cons.prems(2) 1(1) by (auto simp: list_all_iff intro!: set_key_hop)
  then obtain w' where "Exec R (concat (map hop_cmds hs)) w1 = (Ret None, w')" "view w' = fold hop_db hs (view w1)"
    using Cons.IH by blast
  then show ?case using Cons.prems(1) [of w'] 1 by simp
qed simp

text \<open>A new member of an empty array, in a pipeline: its index goes to the server, its name into the queue.\<close>

lemma queued_array:
  assumes "view w (k @ ''/'' @ p) = None"
  obtains w' where "addMemberToArray R k p \<lparr>hs_world = w, hs_pipe = Some q\<rparr> =
      (Ret (k @ ''/'' @ p @ ''/0'', None), \<lparr>hs_world = w', hs_pipe = Some (q @ [CmdSAdd k p])\<rparr>)"
    "view w' = (view w)(k @ ''/'' @ p \<mapsto> RList [''0''])"
proof -
  have 0: "FormatInt 0 = ''0''" by code_simp
  have l: "rLLen R (k @ ''/'' @ p) w = (Ret (Inr 0), w)" using llen_law [of "k @ ''/'' @ p" w] assms by simp
  obtain w' where "rRPush R (k @ ''/'' @ p) [''0''] w = (Ret (Inr ()), w')" "view w' = (view w)(k @ ''/'' @ p \<mapsto> RList [''0''])"
    using rpush_ok [of "[''0'']" w "k @ ''/'' @ p"] assms by auto
  then show thesis using that [of w'] l 0
    by (simp add: addMemberToArray_def on_world_def addMemberToSet_def cmd_def go_bind_apply Let_def)
qed

end

section \<open>The keys of a switch\<close>

definition collection_hops :: "string \<Rightarrow> hop list" where
  "collection_hops C = [HPut C ''Name'' ''Chassis Collection'', HAdd C ''@odata.id'', HAdd C ''@odata.type'', HAdd C ''Members'']"

definition instance_hops :: "string \<Rightarrow> EntityPhysicalTable \<Rightarrow> hop list" where
  "instance_hops C t = (let E = C @ ''/EthernetSwitch_0'' in
     [HPut (C @ ''/Members/0'') ''@odata.id'' E, HAdd E ''@odata.id'', HAdd E ''@odata.type'',
      HPut E ''Name'' (pt_Descr t), HPut E ''Id'' ''EthernetSwitch_0'', HPut E ''ChassisType'' ''Drawer'',
      HPut E ''Manufacturer'' (pt_MfgName t), HPut E ''Model'' (pt_ModelName t), HPut E ''SerialNumber'' (pt_SerialNum t),
      HPut E ''AssetTag'' (pt_AssetID t), HPut E ''PowerState'' ''On'', HPut E ''UUID'' (pt_UUID t)])"

definition status_hops :: "string \<Rightarrow> hop list" where
  "status_hops C = [HAdd (C @ ''/EthernetSwitch_0/Status'') ''State'', HPut (C @ ''/EthernetSwitch_0/Status'') ''Health'' ''OK'']"

definition chassis_hops :: "string \<Rightarrow> EntityPhysicalTable \<Rightarrow> hop list" where
  "chassis_hops xname t = (let C = xname @ ChassisKeyspace in
     HAdd (xname @ ServiceRootKeyspace) ''Chassis'' # collection_hops C @ HAdd C ''Members'' # instance_hops C t @
       HAdd (C @ ''/EthernetSwitch_0'') ''Status'' # status_hops C)"

definition managers_hops :: "string \<Rightarrow> hop list" where
  "managers_hops M = [HAdd M ''@odata.id'', HAdd M ''@odata.type'', HPut M ''Name'' ''Managers Collection'',
     HPut M ''Description'' ''A collection of all Manager instances on this host'', HAdd M ''Members'']"

definition rts_hops :: "string \<Rightarrow> hop list" where
  "rts_hops xname = (let M = xname @ ManagersKeyspace in
     HAdd ServiceRootKeyspace ''Managers'' # managers_hops M @ manager_hops (M @ ''/RTS'') ''RTS'' ''SNMP Switch'' @
       [HAdd M ''Members'', HPut (M @ ''/Members/0'') ''@odata.id'' (M @ ''/RTS'')])"

lemma root_Join:
  assumes "plain x"
  shows "filepath_Join [x, ServiceRootKeyspace] = x @ ServiceRootKeyspace" "filepath_Join [x, ServiceRootKeyspace @ ''/Managers''] = x @ ManagersKeyspace"
    "filepath_Join [x, ManagersKeyspace] = x @ ManagersKeyspace" "filepath_Join [x, ManagersKeyspace, ''RTS''] = x @ ManagersKeyspace @ ''/RTS''"
proof -
  have x: "x \<noteq> []" "hd x \<noteq> CHR ''/''" using assms by (auto simp: plain_def) (metis list.set_sel(1))
  note e0 = elems_plain [OF assms]
  have e: "elems ServiceRootKeyspace = [''redfish'', ''v1'']" "elems ManagersKeyspace = [''redfish'', ''v1'', ''Managers'']" "elems ''RTS'' = [''RTS'']" by code_simp+
  have m: "ServiceRootKeyspace @ ''/Managers'' = ManagersKeyspace" by (simp add: ManagersKeyspace_def)
  have p: "plain ''redfish''" "plain ''v1''" "plain ''Managers''" "plain ''RTS''" by (simp_all add: plain_def)
  show "filepath_Join [x, ServiceRootKeyspace] = x @ ServiceRootKeyspace"
    using filepath_Join_elems [of x "[ServiceRootKeyspace]"] x e0 e p assms by simp (simp add: ServiceRootKeyspace_def)
  show j: "filepath_Join [x, ManagersKeyspace] = x @ ManagersKeyspace"
    using filepath_Join_elems [of x "[ManagersKeyspace]"] x e0 e p assms by simp (simp add: ManagersKeyspace_def ServiceRootKeyspace_def)
  then show "filepath_Join [x, ServiceRootKeyspace @ ''/Managers''] = x @ ManagersKeyspace" by (simp only: m)
  show "filepath_Join [x, ManagersKeyspace, ''RTS''] = x @ ManagersKeyspace @ ''/RTS''"
    using filepath_Join_elems [of x "[ManagersKeyspace, ''RTS'']"] x e0 e p assms by simp (simp add: ManagersKeyspace_def ServiceRootKeyspace_def)
qed

text \<open>A program that, run with a pipeline on the database \<open>db\<close>, returns \<open>r\<close>, queues the calls \<open>hs\<close> and leaves the database \<open>db'\<close>.\<close>

definition queues :: "('w \<Rightarrow> rdb) \<Rightarrow> rdb \<Rightarrow> ('w hstate, 'a) go \<Rightarrow> rdb \<Rightarrow> hop list \<Rightarrow> 'a \<Rightarrow> bool" where
  "queues view db m db' hs r \<longleftrightarrow> (\<forall>w q. view w = db \<longrightarrow>
     (\<exists>w'. m \<lparr>hs_world = w, hs_pipe = Some q\<rparr> = (Ret r, \<lparr>hs_world = w', hs_pipe = Some (q @ concat (map hop_cmds hs))\<rparr>) \<and> view w' = db'))"

lemma queues_return: "queues view db (go_return r) db [] r"
  by (simp add: queues_def)

lemma queues_bind:
  assumes "queues view db m db1 hs r" "queues view db1 (f r) db2 hs' r'"
  shows "queues view db (go_bind m f) db2 (hs @ hs') r'"
  unfolding queues_def
proof (intro allI impI)
  fix w q assume "view w = db"
  then obtain w1 where 1: "m \<lparr>hs_world = w, hs_pipe = Some q\<rparr> = (Ret r, \<lparr>hs_world = w1, hs_pipe = Some (q @ concat (map hop_cmds hs))\<rparr>)" "view w1 = db1"
    using assms(1) unfolding queues_def by blast
  obtain w2 where "f r \<lparr>hs_world = w1, hs_pipe = Some (q @ concat (map hop_cmds hs))\<rparr> =
      (Ret r', \<lparr>hs_world = w2, hs_pipe = Some ((q @ concat (map hop_cmds hs)) @ concat (map hop_cmds hs'))\<rparr>)" "view w2 = db2"
    using assms(2) 1(2) unfolding queues_def by blast
  then show "\<exists>w'. go_bind m f \<lparr>hs_world = w, hs_pipe = Some q\<rparr> =
      (Ret r', \<lparr>hs_world = w', hs_pipe = Some (q @ concat (map hop_cmds (hs @ hs')))\<rparr>) \<and> view w' = db2"
    using 1(1) by (simp add: go_bind_apply)
qed

lemma queues_add: "queues view db (addMemberToSet R k m) db [HAdd k m] (k @ ''/'' @ m, None)"
  by (simp add: queues_def addMemberToSet_def cmd_def go_bind_apply)

lemma queues_calls: "queues view db (calls (map (hop_call R) hs)) db hs ()"
  by (simp add: queues_def calls_queued)

lemma queues_put: "\<exists>r. queues view db (setValueForPropertyInKeyspace R k p v) db [HPut k p v] r"
  by (auto simp: queues_def setValueForPropertyInKeyspace_def addMemberToSet_def cmd_def go_bind_apply Let_def)

text \<open>The initialisations, written with the lists of calls.\<close>

lemma initChassis_hops:
  assumes "plain xname"
  shows "initChassis R xname t =
    go_bind (addMemberToSet R (xname @ ServiceRootKeyspace) ''Chassis'') (\<lambda>(C, _).
    go_bind (calls (map (hop_call R) (collection_hops C))) (\<lambda>_.
    go_bind (addMemberToArray R C ''Members'') (\<lambda>(k, e). case e of
        Some _ \<Rightarrow> go_return (Some (Err (''unable to add member to array for device: '' @ xname)))
      | None \<Rightarrow> go_bind (calls (map (hop_call R) (HPut k ''@odata.id'' (C @ ''/EthernetSwitch_0'') # tl (instance_hops C t)))) (\<lambda>_.
          go_bind (addMemberToSet R (C @ ''/EthernetSwitch_0'') ''Status'') (\<lambda>(S, _).
          go_bind (calls (map (hop_call R) [HAdd S ''State'', HPut S ''Health'' ''OK''])) (\<lambda>_. go_return None))))))"
  unfolding initChassis_def root_Join [OF assms]
  by (simp only: collection_hops_def instance_hops_def Let_def list.map hop_call.simps list.sel)

context redis_server
begin

lemma queues_array: "db (k @ ''/'' @ p) = None \<Longrightarrow>
    queues view db (addMemberToArray R k p) (db(k @ ''/'' @ p \<mapsto> RList [''0''])) [HAdd k p] (k @ ''/'' @ p @ ''/0'', None)"
  unfolding queues_def
proof (intro allI impI)
  fix w q assume "db (k @ ''/'' @ p) = None" "view w = db"
  then show "\<exists>w'. addMemberToArray R k p \<lparr>hs_world = w, hs_pipe = Some q\<rparr> =
      (Ret (k @ ''/'' @ p @ ''/0'', None), \<lparr>hs_world = w', hs_pipe = Some (q @ concat (map hop_cmds [HAdd k p]))\<rparr>) \<and>
      view w' = db(k @ ''/'' @ p \<mapsto> RList [''0''])"
    using queued_array [of w k p q] by auto
qed

lemma chassis_queued:
  assumes "plain xname" "db (xname @ ChassisKeyspace @ ''/Members'') = None"
  shows "queues view db (initChassis R xname t) (db(xname @ ChassisKeyspace @ ''/Members'' \<mapsto> RList [''0''])) (chassis_hops xname t) None"
proof -
  let ?X = "xname @ ServiceRootKeyspace" and ?C = "xname @ ChassisKeyspace"
  have C: "?X @ ''/'' @ ''Chassis'' = ?C" by (simp add: ChassisKeyspace_def)
  have a: "queues view db (addMemberToArray R ?C ''Members'') (db(?C @ ''/'' @ ''Members'' \<mapsto> RList [''0''])) [HAdd ?C ''Members'']
      (?C @ ''/'' @ ''Members'' @ ''/0'', None)"
    using queues_array [of db ?C "''Members''"] assms(2) by simp
  have i: "HPut (?C @ ''/'' @ ''Members'' @ ''/0'') ''@odata.id'' (?C @ ''/EthernetSwitch_0'') # tl (instance_hops ?C t) = instance_hops ?C t"
    by (simp add: instance_hops_def Let_def)
  have "queues view db (initChassis R xname t) (db(?C @ ''/'' @ ''Members'' \<mapsto> RList [''0'']))
      ([HAdd ?X ''Chassis''] @ collection_hops ?C @ [HAdd ?C ''Members''] @ instance_hops ?C t @ [HAdd (?C @ ''/EthernetSwitch_0'') ''Status''] @
        [HAdd ((?C @ ''/EthernetSwitch_0'') @ ''/'' @ ''Status'') ''State'', HPut ((?C @ ''/EthernetSwitch_0'') @ ''/'' @ ''Status'') ''Health'' ''OK''] @ []) None"
    unfolding initChassis_hops [OF assms(1)]
    apply (rule queues_bind [OF queues_add])
    apply (simp only: prod.case C)
    apply (rule queues_bind [OF queues_calls])
    apply (rule queues_bind [OF a])
    apply (simp only: prod.case option.case i)
    apply (rule queues_bind [OF queues_calls])
    apply (rule queues_bind [OF queues_add])
    apply (simp only: prod.case)
    apply (rule queues_bind [OF queues_calls])
    apply (rule queues_return)
    done
  then show ?thesis by (simp add: chassis_hops_def status_hops_def Let_def)
qed

lemma managers_queued:
  assumes "plain xname" "db (xname @ ManagersKeyspace @ ''/Members'') = None"
  shows "queues view db (initManagers R xname t) (db(xname @ ManagersKeyspace @ ''/Members'' \<mapsto> RList [''0''])) (rts_hops xname) None"
proof -
  let ?M = "xname @ ManagersKeyspace" and ?I = "xname @ ManagersKeyspace @ ''/RTS''"
  have k: "filepath_Join [xname, ServiceRootKeyspace @ ''/'' @ ''Managers''] = ?M" using root_Join(2) [OF assms(1)] by simp
  have a: "queues view db (addMemberToArray R ?M ''Members'') (db(?M @ ''/'' @ ''Members'' \<mapsto> RList [''0''])) [HAdd ?M ''Members'']
      (?M @ ''/'' @ ''Members'' @ ''/0'', None)"
    using queues_array [of db ?M "''Members''"] assms(2) by simp
  obtain r where put: "queues view (db(?M @ ''/'' @ ''Members'' \<mapsto> RList [''0'']))
      (setValueForPropertyInKeyspace R (?M @ ''/'' @ ''Members'' @ ''/0'') ''@odata.id'' ?I)
      (db(?M @ ''/'' @ ''Members'' \<mapsto> RList [''0''])) [HPut (?M @ ''/'' @ ''Members'' @ ''/0'') ''@odata.id'' ?I] r"
    using queues_put by blast
  have col: "initManagerCollection R xname = go_bind (addMemberToSet R ServiceRootKeyspace ''Managers'') (\<lambda>(k, err). case err of
         Some e \<Rightarrow> go_return (Some e)
       | None \<Rightarrow> go_bind (calls (map (hop_call R) (managers_hops (filepath_Join [xname, k])))) (\<lambda>_. go_return None))"
    by (simp only: initManagerCollection_def managers_hops_def Let_def list.map hop_call.simps)
  have "queues view db (initManagerCollection R xname) db ([HAdd ServiceRootKeyspace ''Managers''] @ managers_hops ?M @ []) None"
    unfolding col
    apply (rule queues_bind [OF queues_add])
    apply (simp only: prod.case option.case k)
    apply (rule queues_bind [OF queues_calls])
    apply (rule queues_return)
    done
  note c = this
  have ini: "initManager R xname ''RTS'' ''SNMP Switch'' = go_bind (calls (map (hop_call R) (manager_hops ?I ''RTS'' ''SNMP Switch''))) (\<lambda>_.
      go_bind (addMemberToArray R ?M ''Members'') (\<lambda>(memberKeyspace, err). case err of
          Some _ \<Rightarrow> go_return (Some (Err (''unable to add member to array for instance: '' @ xname)))
        | None \<Rightarrow> go_bind (setValueForPropertyInKeyspace R memberKeyspace ''@odata.id'' ?I) (\<lambda>_. go_return None)))"
    by (simp only: initManager_def root_Join(3,4) [OF assms(1)] manager_hops_def Let_def list.map hop_call.simps)
  have "queues view db (initManager R xname ''RTS'' ''SNMP Switch'') (db(?M @ ''/'' @ ''Members'' \<mapsto> RList [''0'']))
      (manager_hops ?I ''RTS'' ''SNMP Switch'' @ [HAdd ?M ''Members''] @ [HPut (?M @ ''/'' @ ''Members'' @ ''/0'') ''@odata.id'' ?I] @ []) None"
    unfolding ini
    apply (rule queues_bind [OF queues_calls])
    apply (rule queues_bind [OF a])
    apply (simp only: prod.case option.case)
    apply (rule queues_bind [OF put])
    apply (rule queues_return)
    done
  note m = this
  have "queues view db (initManagers R xname t) (db(?M @ ''/'' @ ''Members'' \<mapsto> RList [''0'']))
      (([HAdd ServiceRootKeyspace ''Managers''] @ managers_hops ?M @ []) @
        (manager_hops ?I ''RTS'' ''SNMP Switch'' @ [HAdd ?M ''Members''] @ [HPut (?M @ ''/'' @ ''Members'' @ ''/0'') ''@odata.id'' ?I] @ []) @ []) None"
    unfolding initManagers_def
    apply (rule queues_bind [OF c])
    apply (simp only: option.case)
    apply (rule queues_bind [OF m])
    apply (simp only: option.case)
    apply (rule queues_return)
    done
  then show ?thesis by (simp add: rts_hops_def Let_def)
qed

lemma pipeline_runs:
  assumes "queues view (view w) (until_error ms) db' hs None"
    and "list_all (\<lambda>h. set_key (hop_set h) db' \<and> \<not> List.member (concat (map hop_strings hs)) (hop_set h)) hs"
  obtains w' where "in_pipeline R ms \<lparr>hs_world = w, hs_pipe = None\<rparr> = (Ret None, \<lparr>hs_world = w', hs_pipe = None\<rparr>)" "view w' = fold hop_db hs db'"
proof -
  obtain w1 where 1: "until_error ms \<lparr>hs_world = w, hs_pipe = Some []\<rparr> = (Ret None, \<lparr>hs_world = w1, hs_pipe = Some (concat (map hop_cmds hs))\<rparr>)" "view w1 = db'"
    using assms(1) unfolding queues_def by (metis append_Nil)
  obtain w' where "Exec R (concat (map hop_cmds hs)) w1 = (Ret None, w')" "view w' = fold hop_db hs (view w1)"
    using Exec_hops [of w1 hs] assms(2) 1(2) by auto
  then show thesis using that [of w'] 1 by (simp add: in_pipeline_def go_bind_apply on_world_def)
qed

end

text \<open>The keys that the two initialisations write are as they should be: no key is a set and a value.\<close>

definition switch_hops :: "string \<Rightarrow> EntityPhysicalTable \<Rightarrow> hop list" where
  "switch_hops xname t = chassis_hops xname t @ rts_hops xname"

lemmas switch_hops_defs = switch_hops_def chassis_hops_def rts_hops_def collection_hops_def instance_hops_def status_hops_def
  managers_hops_def manager_hops_def Let_def ChassisKeyspace_def ManagersKeyspace_def ServiceRootKeyspace_def

lemma switch_hops_typed:
  assumes "plain xname"
  shows "list_all (\<lambda>h. \<not> List.member (concat (map hop_strings (switch_hops xname t))) (hop_set h)) (switch_hops xname t)"
proof -
  have "CHR ''/'' # u \<noteq> xname @ v" for u v using assms by (cases xname) (auto simp: plain_def)
  then show ?thesis by (simp add: switch_hops_defs)
qed

definition switch_fields :: "EntityPhysicalTable \<Rightarrow> (string \<times> string) list" where
  "switch_fields t = [(''Name'', pt_Descr t), (''Id'', ''EthernetSwitch_0''), (''ChassisType'', ''Drawer''), (''Manufacturer'', pt_MfgName t),
     (''Model'', pt_ModelName t), (''SerialNumber'', pt_SerialNum t), (''AssetTag'', pt_AssetID t), (''PowerState'', ''On''), (''UUID'', pt_UUID t)]"

text \<open>What the queued calls leave at the keys that readers look at.\<close>

lemma slash_not_xname: "plain xname \<Longrightarrow> CHR ''/'' # u \<noteq> xname @ v"
  by (cases xname) (auto simp: plain_def)

lemma switch_hops_members:
  assumes "plain xname" "db (xname @ ChassisKeyspace @ ''/Members'') = Some (RList [''0''])" "db (xname @ ManagersKeyspace @ ''/Members'') = Some (RList [''0''])"
  shows "lists (xname @ ChassisKeyspace) [''EthernetSwitch_0''] (fold hop_db (switch_hops xname t) db)"
    "lists (xname @ ManagersKeyspace) [''RTS''] (fold hop_db (switch_hops xname t) db)"
proof -
  let ?C = "xname @ ChassisKeyspace" and ?M = "xname @ ManagersKeyspace"
  have 0: "FormatInt 0 = ''0''" by code_simp
  note s = slash_not_xname [OF assms(1)]
  have "list_all (\<lambda>h. \<not> touches (?C @ ''/Members'') h) (switch_hops xname t)" "list_all (\<lambda>h. \<not> touches (?M @ ''/Members'') h) (switch_hops xname t)"
    using s by (simp_all add: switch_hops_defs)
  note m = this [THEN hops_untouched]
  have "Base (?C @ ''/EthernetSwitch_0'') = ''EthernetSwitch_0''" "Base (?M @ ''/RTS'') = ''RTS''"
    using Base_last [of "''EthernetSwitch_0''" ?C] Base_last [of "''RTS''" ?M] by (simp_all add: plain_def)
  moreover have "last_value (link_at ?C 0) (switch_hops xname t) None = Some (?C @ ''/EthernetSwitch_0'')"
    "last_value (link_at ?M 0) (switch_hops xname t) None = Some (?M @ ''/RTS'')"
    using s by (simp_all add: link_at_def 0 switch_hops_defs)
  note this [THEN last_value_stored, of db]
  ultimately show "lists ?C [''EthernetSwitch_0''] (fold hop_db (switch_hops xname t) db)" "lists ?M [''RTS''] (fold hop_db (switch_hops xname t) db)"
    using m assms(2,3) 0 by (simp_all add: lists_def)
qed

lemma switch_hops_fields:
  assumes "plain xname"
  shows "list_all (\<lambda>(p, v). fold hop_db (switch_hops xname t) db (xname @ ChassisKeyspace @ ''/EthernetSwitch_0/'' @ p) = Some (RString v)) (switch_fields t)"
proof -
  have "list_all (\<lambda>(p, v). last_value (xname @ ChassisKeyspace @ ''/EthernetSwitch_0/'' @ p) (switch_hops xname t) None = Some v) (switch_fields t)"
    using slash_not_xname [OF assms] by (simp add: switch_fields_def switch_hops_defs)
  then show ?thesis by (rule list.pred_mono_strong) (auto intro: last_value_stored)
qed

section \<open>A switch is described\<close>

definition root_hops :: "string option \<Rightarrow> hop list" where
  "root_hops version = [HPut ServiceRootKeyspace ''Name'' ''Service Root'', HPut ServiceRootKeyspace ''Description'' ''The Redfish ServiceRoot'',
     HAdd ServiceRootKeyspace ''@odata.id'', HAdd ServiceRootKeyspace ''@odata.type''] @
     (case version of None \<Rightarrow> [] | Some v \<Rightarrow> [HPut ServiceRootKeyspace ''RedfishVersion'' v]) @
     [HAdd ServiceRootKeyspace ''Chassis'', HAdd ServiceRootKeyspace ''Managers'']"

lemma root_hops_touch: "h \<in> set (root_hops v) \<Longrightarrow> touches k h \<Longrightarrow> HasPrefix k ServiceRootKeyspace"
  by (auto simp: root_hops_def HasPrefix_def split: option.splits)

lemma root_hops_strings: "list_all (\<lambda>h. \<not> List.member (hop_strings h) ServiceRootKeyspace) (root_hops v)"
  by (auto simp: root_hops_def split: option.splits)

lemma set_key_hops: "set_key k db \<Longrightarrow> list_all (\<lambda>h. \<not> List.member (hop_strings h) k) hs \<Longrightarrow> set_key k (fold hop_db hs db)"
proof (induction hs arbitrary: db)
  case (Cons h hs)
  then have "set_key k (hop_db h db)" by (intro set_key_hop) simp_all
  then show ?case using Cons by simp
qed simp

context redis_server
begin

lemma root_keys_written:
  assumes "set_key ''/redfish'' (view w)" "set_key ServiceRootKeyspace (view w)" "plain xname"
  obtains w' where "root_keys R v \<lparr>hs_world = w, hs_pipe = None\<rparr> = (Ret (), \<lparr>hs_world = w', hs_pipe = None\<rparr>)"
    "\<And>k. view w' (xname @ k) = view w (xname @ k)" "set_key ServiceRootKeyspace (view w')"
proof -
  let ?s = "\<lparr>hs_world = w, hs_pipe = None\<rparr>"
  obtain s1 where 1: "addMemberToSet R ''/redfish'' ''v1'' ?s = (Ret (''/redfish'' @ ''/'' @ ''v1'', None), s1)" "hs_pipe s1 = None"
    "view (hs_world s1) = sadd_db ''/redfish'' ''v1'' (view w)"
    using doesE [OF does_add [of "''/redfish''" "''v1''"], of ?s] set_key_no_error [OF assms(1), of "''v1''"] by auto
  have r: "''/redfish'' @ ''/'' @ ''v1'' = ServiceRootKeyspace" by (simp add: ServiceRootKeyspace_def)
  obtain s2 where 2: "calls (map (hop_call R) (root_hops v)) s1 = (Ret (), s2)" "hs_pipe s2 = None"
    "view (hs_world s2) = fold hop_db (root_hops v) (view (hs_world s1))" using doesE [OF does_hops 1(2)] .
  have c: "map (hop_call R) (root_hops v) = [setValueForPropertyInKeyspace R ServiceRootKeyspace ''Name'' ''Service Root'',
          setValueForPropertyInKeyspace R ServiceRootKeyspace ''Description'' ''The Redfish ServiceRoot'',
          addMemberToSet R ServiceRootKeyspace ''@odata.id'', addMemberToSet R ServiceRootKeyspace ''@odata.type''] @
         (case v of None \<Rightarrow> [] | Some versionStr \<Rightarrow> [setValueForPropertyInKeyspace R ServiceRootKeyspace ''RedfishVersion'' versionStr]) @
         [addMemberToSet R ServiceRootKeyspace ''Chassis'', addMemberToSet R ServiceRootKeyspace ''Managers'']"
    by (simp add: root_hops_def split: option.split)
  have "root_keys R v ?s = (Ret (), s2)" unfolding root_keys_def go_bind_apply 1(1) prod.case outcome.case r c [symmetric] by (rule 2(1))
  moreover have "view (hs_world s2) (xname @ k) = view w (xname @ k)" for k
  proof -
    have "\<not> HasPrefix (xname @ k) ServiceRootKeyspace" "xname @ k \<noteq> ''/redfish''"
      using assms(3) by (cases xname; simp add: HasPrefix_def ServiceRootKeyspace_def plain_def; fastforce)+
    then have "list_all (\<lambda>h. \<not> touches (xname @ k) h) (root_hops v)" by (auto simp: list_all_iff dest: root_hops_touch)
    then show ?thesis using hops_untouched [of "xname @ k" "root_hops v"] 2(3) 1(3) \<open>xname @ k \<noteq> ''/redfish''\<close>
      by (simp add: sadd_db_other)
  qed
  moreover have "set_key ServiceRootKeyspace (view (hs_world s2))"
    using set_key_hops [OF set_key_sadd [OF assms(2)] root_hops_strings] 2(3) 1(3) by simp
  ultimately show thesis using that [of "hs_world s2"] 2(2) by (cases s2) simp
qed

lemma switch_written:
  assumes "plain xname" "\<And>k. view w (xname @ CHR ''/'' # k) = None" "set_key ServiceRootKeyspace (view w)"
  obtains w' where "in_pipeline R [initChassis R xname t, initManagers R xname t] \<lparr>hs_world = w, hs_pipe = None\<rparr> = (Ret None, \<lparr>hs_world = w', hs_pipe = None\<rparr>)"
    "lists (xname @ ChassisKeyspace) [''EthernetSwitch_0''] (view w')" "lists (xname @ ManagersKeyspace) [''RTS''] (view w')"
    "list_all (\<lambda>(p, v). view w' (xname @ ChassisKeyspace @ ''/EthernetSwitch_0/'' @ p) = Some (RString v)) (switch_fields t)"
proof -
  let ?db1 = "(view w)(xname @ ChassisKeyspace @ ''/Members'' \<mapsto> RList [''0''])"
  let ?db2 = "?db1(xname @ ManagersKeyspace @ ''/Members'' \<mapsto> RList [''0''])"
  have f: "view w (xname @ ChassisKeyspace @ ''/Members'') = None" "?db1 (xname @ ManagersKeyspace @ ''/Members'') = None"
    using assms(2) by (simp_all add: ChassisKeyspace_def ManagersKeyspace_def ServiceRootKeyspace_def)
  note q1 = chassis_queued [where db = "view w", OF assms(1) f(1), of t] and q2 = managers_queued [where db = ?db1, OF assms(1) f(2), of t]
  have "queues view (view w) (until_error [initChassis R xname t, initManagers R xname t]) ?db2 (chassis_hops xname t @ rts_hops xname @ []) None"
    unfolding until_error.simps
    apply (rule queues_bind [OF q1])
    apply (simp only: option.case)
    apply (rule queues_bind [OF q2])
    apply (simp only: option.case)
    apply (rule queues_return)
    done
  then have q: "queues view (view w) (until_error [initChassis R xname t, initManagers R xname t]) ?db2 (switch_hops xname t) None"
    by (simp add: switch_hops_def)
  have "list_all (\<lambda>h. set_key (hop_set h) ?db2) (switch_hops xname t)"
    using assms(2,3) slash_not_xname [OF assms(1)] by (simp add: switch_hops_defs set_key_iff)
  then have "list_all (\<lambda>h. set_key (hop_set h) ?db2 \<and> \<not> List.member (concat (map hop_strings (switch_hops xname t))) (hop_set h)) (switch_hops xname t)"
    using switch_hops_typed [OF assms(1), of t] by (simp add: list_all_iff)
  then obtain w' where w': "in_pipeline R [initChassis R xname t, initManagers R xname t] \<lparr>hs_world = w, hs_pipe = None\<rparr> = (Ret None, \<lparr>hs_world = w', hs_pipe = None\<rparr>)"
    "view w' = fold hop_db (switch_hops xname t) ?db2" using pipeline_runs [OF q] by blast
  have m: "?db2 (xname @ ChassisKeyspace @ ''/Members'') = Some (RList [''0''])" "?db2 (xname @ ManagersKeyspace @ ''/Members'') = Some (RList [''0''])"
    by (simp_all add: ChassisKeyspace_def ManagersKeyspace_def)
  show thesis by (rule that [OF w'(1)]) (unfold w'(2), rule switch_hops_members [OF assms(1) m], rule switch_hops_members [OF assms(1) m], rule switch_hops_fields [OF assms(1)])
qed

end

section \<open>Properties\<close>

text \<open>
  C16. A switch that has answered is described in Redis: after the keys of the device are removed, the
  root is written and the initialisations have run in their pipeline, all without an error, the
  chassis collection of the device lists the switch alone, its collection of managers lists the
  translation service alone, and every field of the switch has the value that the device reported.
\<close>

theorem switch_described:
  assumes "redis_scan R view K" "literal xname" "plain xname" "set_key ''/redfish'' (view w)" "set_key ServiceRootKeyspace (view w)"
  shows "\<exists>w'. until_error [removeXnamePrependedKeys R K xname, go_bind (root_keys R version) (\<lambda>_. go_return None),
        in_pipeline R [initChassis R xname t, initManagers R xname t]] \<lparr>hs_world = w, hs_pipe = None\<rparr> =
      (Ret None, \<lparr>hs_world = w', hs_pipe = None\<rparr>) \<and>
    collectionMembers R (xname @ ChassisKeyspace @ ''/Members'') w' = (Ret (Inr [''EthernetSwitch_0'']), w') \<and>
    collectionMembers R (xname @ ManagersKeyspace @ ''/Members'') w' = (Ret (Inr [''RTS'']), w') \<and>
    list_all (\<lambda>(p, v). view w' (xname @ ChassisKeyspace @ ''/EthernetSwitch_0/'' @ p) = Some (RString v)) (switch_fields t)"
proof -
  note R = redis_scan.axioms(1) [OF assms(1)]
  let ?s = "\<lparr>hs_world = w, hs_pipe = None\<rparr>"
  obtain w1 where r: "removeXnamePrependedKeys R K xname ?s = (Ret None, ?s\<lparr>hs_world := w1\<rparr>)"
    "\<forall>k. view w1 k = (if HasPrefix k xname then None else view (hs_world ?s) k)"
    using redis_scan.removal [OF assms(1,2), of ?s] by metis
  have 1: "removeXnamePrependedKeys R K xname ?s = (Ret None, \<lparr>hs_world = w1, hs_pipe = None\<rparr>)"
    "\<And>k. view w1 k = (if HasPrefix k xname then None else view w k)"
    using r by simp_all
  have "\<not> HasPrefix ''/redfish'' xname" "\<not> HasPrefix ServiceRootKeyspace xname"
    using slash_not_xname [OF assms(3)] by (auto simp: HasPrefix_def ServiceRootKeyspace_def) (metis append_take_drop_id)+
  then have s: "set_key ''/redfish'' (view w1)" "set_key ServiceRootKeyspace (view w1)" using assms(4,5) 1(2) by (simp_all add: set_key_iff)
  obtain w2 where 2: "root_keys R version \<lparr>hs_world = w1, hs_pipe = None\<rparr> = (Ret (), \<lparr>hs_world = w2, hs_pipe = None\<rparr>)"
    "\<forall>k. view w2 (xname @ k) = view w1 (xname @ k)" "set_key ServiceRootKeyspace (view w2)"
    using redis_server.root_keys_written [OF R s assms(3), of version] by metis
  have "view w2 (xname @ CHR ''/'' # k) = None" for k using 2(2) 1(2) by (simp add: HasPrefix_def)
  then obtain w3 where 3: "in_pipeline R [initChassis R xname t, initManagers R xname t] \<lparr>hs_world = w2, hs_pipe = None\<rparr> = (Ret None, \<lparr>hs_world = w3, hs_pipe = None\<rparr>)"
    "lists (xname @ ChassisKeyspace) [''EthernetSwitch_0''] (view w3)" "lists (xname @ ManagersKeyspace) [''RTS''] (view w3)"
    "list_all (\<lambda>(p, v). view w3 (xname @ ChassisKeyspace @ ''/EthernetSwitch_0/'' @ p) = Some (RString v)) (switch_fields t)"
    using redis_server.switch_written [OF R assms(3) _ 2(3)] by metis
  have g: "good_path ((xname @ ChassisKeyspace) @ ''/Members'')" "good_path ((xname @ ManagersKeyspace) @ ''/Members'')"
    using members_good [OF assms(3)] good_path_extend [OF good_path_plain [OF assms(3)], of "[''redfish'', ''v1'', ''Chassis'', ''Members'']"]
    by (simp_all add: slashed_def plain_def ChassisKeyspace_def ServiceRootKeyspace_def)
  show ?thesis
    using 1(1) 2(1) 3 lists_read [OF R g(1) 3(2)] lists_read [OF R g(2) 3(3)]
    by (intro exI [of _ w3]) (simp add: go_bind_apply)
qed

text \<open>
  A switch without an address is forgotten: when the layout service has neither an alias nor an
  address for a switch, its discovery reports no error and enters it among the known devices, so it is
  not tried again, while every request for it is refused as for an unknown device.
\<close>

theorem switch_without_address:
  assumes "GetCompCred (pf_services P) (ms_Xname d) (cs_world (be_certs s)) = (Ret (Inr cred), w1)" "check_creds cred = None"
    and "pf_credentials P (filepath_Join [sw_KeyPath s, ''global/rts'']) w1 = (Ret (g, None), w2)" "cr_Password g \<noteq> []" "cr_Username g \<noteq> []"
    and "ms_Aliases d = []" "ms_IP4Addr d = []" "ms_Xname d \<noteq> []" "sw_KnownDevices s [] = None"
  shows "\<exists>s'. discover P d None s = (Ret None, s') \<and> sw_KnownDevices s' = (sw_KnownDevices s)(ms_Xname d \<mapsto> no_device) \<and>
    Switch_RunBackendHelper R key (fst (Switch_GetEnvForXname (ms_Xname d) s')) s' = (Ret (Inl (Err ''unknown xname: '')), s')"
  using assms
  by (simp add: discover_def initDevice_def go_bind_apply on_be_def on_certs_def on_cs_def GetGlobalCredentials_def switch_addr_def
      Switch_GetEnvForXname_def Switch_RunBackendHelper_def no_device_def Let_def)

definition ex_table :: EntityPhysicalTable where
  "ex_table = physical_table ''1'' [''d'', ''n'', ''h'', ''f'', ''s'', ''sn'', ''mf'', ''mo'', ''al'', ''as'', ''u'']"

theorem switch_described_witness:
  "\<exists>w'. until_error [removeXnamePrependedKeys mem_redis mem_more ''x1'', go_bind (root_keys mem_redis None) (\<lambda>_. go_return None),
        in_pipeline mem_redis [initChassis mem_redis ''x1'' ex_table, initManagers mem_redis ''x1'' ex_table]] \<lparr>hs_world = [], hs_pipe = None\<rparr> =
      (Ret None, \<lparr>hs_world = w', hs_pipe = None\<rparr>) \<and>
    collectionMembers mem_redis (''x1'' @ ChassisKeyspace @ ''/Members'') w' = (Ret (Inr [''EthernetSwitch_0'']), w')"
proof -
  have "literal ''x1''" "plain ''x1''" "set_key ''/redfish'' (mem_view [])" "set_key ServiceRootKeyspace (mem_view [])"
    by (simp_all add: literal_def plain_def set_key_def mem_view_def mem_get_def)
  then show ?thesis using switch_described [OF mem_redis_scan, of "''x1''" "[]" None ex_table] by blast
qed

definition ex_platform :: "(mem, unit, string) platform" where
  "ex_platform = \<lparr> pf_redis = mem_redis, pf_more = mem_more,
     pf_services = \<lparr> LookupEnv = (\<lambda>_. None), GetServiceInstanceName = Inr ''rts'', sDo = (\<lambda>_. go_return (Inl (Err ''down''))),
       sMarshalEP = (\<lambda>e. Inr (mem_marshal e)), sUnmarshalEP = mem_unmarshal, sMarshalEvent = (\<lambda>_. Inr []), sTelemetry = (\<lambda>_. Inr []),
       sNow = go_return [], GetCompCred = (\<lambda>x. go_return (Inr \<lparr> cc_Xname = x, cc_URL = [], cc_Username = ''u'', cc_Password = [],
         cc_SNMPAuthPass = ''a'', cc_SNMPPrivPass = ''p'' \<rparr>)), StoreCompCred = (\<lambda>_. go_return (Inr ())),
       sK8sConfig = go_return (Inl (Err ''no cluster'')), sK8sGet = (\<lambda>_ _. go_return (Inl (Err ''no cluster''))),
       sK8sDelete = (\<lambda>_ _. go_return (Inr ())), sK8sCreate = (\<lambda>_ _. go_return (Inr ())) \<rparr>,
     pf_crypto = mem_crypto, pf_storage = ex_storage None,
     pf_credentials = (\<lambda>_. go_return (\<lparr> cr_Username = ''root'', cr_Password = ''p'' \<rparr>, None)), pf_vault = go_return (Inr ()),
     pf_hash = (\<lambda>p. go_return (Inr p)), pf_newSNMP = (\<lambda>_. Inl (Err ''no network'')), pf_sleep = go_return () \<rparr>"

definition ex_switches :: "(mem, string) SNMPSwitchHelper" where
  "ex_switches = \<lparr> be_certs = ex_service, be_pipe = None,
     sw_SLS = \<lparr> sls_Url = None, sls_Do = (\<lambda>_. go_return (Inl (Err ''down''))), sls_Unmarshal = (\<lambda>_. Inr []) \<rparr>,
     sw_KeyPath = ''k'', sw_KnownDevices = Map.empty \<rparr>"

definition ex_switch :: ManagementSwitch where
  "ex_switch = \<lparr> ms_Xname = ''x3000c0w42'', ms_IP4Addr = [], ms_SNMPAuthProtocol = ''MD5'', ms_SNMPPrivProtocol = ''DES'', ms_Aliases = [] \<rparr>"

theorem switch_without_address_witness:
  "\<exists>s'. discover ex_platform ex_switch None ex_switches = (Ret None, s') \<and>
    sw_KnownDevices s' = (sw_KnownDevices ex_switches)(ms_Xname ex_switch \<mapsto> no_device) \<and>
    Switch_RunBackendHelper mem_redis ''/redfish/v1/Chassis'' (fst (Switch_GetEnvForXname (ms_Xname ex_switch) s')) s' =
      (Ret (Inl (Err ''unknown xname: '')), s')"
  by (rule switch_without_address [where g = "\<lparr> cr_Username = ''root'', cr_Password = ''p'' \<rparr>" and ?w1.0 = "[]" and ?w2.0 = "[]" and
        cred = "\<lparr> cc_Xname = ''x3000c0w42'', cc_URL = [], cc_Username = ''u'', cc_Password = [], cc_SNMPAuthPass = ''a'', cc_SNMPPrivPass = ''p'' \<rparr>"])
    (simp_all add: ex_platform_def ex_switches_def ex_switch_def ex_service_def check_creds_def)

end
