(* ===== verification/Simulator_Backend.thy ===== *)
theory Simulator_Backend
  imports Switch_Facts
begin

text \<open>
  The simulator of Redfish endpoints (\<open>internal/backend_helpers/simulator.go\<close>). Its state is in Redis: a
  request for an action writes the new value, and the next request reads it. The number of processors of
  the host is a parameter; the credentials of the service and the counter of events, which are package
  variables, are fields of the state. \<open>sim_KnownInstances\<close> lists the keys of a map in the order of its
  iteration.
\<close>

section \<open>State and initialisation\<close>

record ('w, 't) RFSimulatorHelper = "('w, 't) backend" +
  sim_KnownInstances :: "string list"
  sim_Username :: string
  sim_Password :: string
  sim_RFEventID :: "64 word"

definition sim_initSystem :: "'w redis_ops \<Rightarrow> int \<Rightarrow> string \<Rightarrow> ('w hstate, go_error option) go" where
  "sim_initSystem R numCPU xname =
     go_bind (addMemberToSet R (filepath_Join [xname, ServiceRootKeyspace]) ''Systems'') (\<lambda>(systemKeyspace, _).
     go_bind (calls
       [setValueForPropertyInKeyspace R systemKeyspace ''Name'' ''Computer System Collection'',
        addMemberToSet R systemKeyspace ''@odata.id'',
        addMemberToSet R systemKeyspace ''@odata.type'',
        addMemberToSet R systemKeyspace ''Members'']) (\<lambda>_.
     go_bind (addMemberToArray R systemKeyspace ''Members'') (\<lambda>(thisMemberKeyspace, addErr). case addErr of
         Some _ \<Rightarrow> go_return (Some (Err (''unable to add member to array for instance: '' @ xname)))
       | None \<Rightarrow>
           (let newInstanceKeyspace = systemKeyspace @ ''/Self'' in
            go_bind (calls
              [setValueForPropertyInKeyspace R thisMemberKeyspace ''@odata.id'' newInstanceKeyspace,
               addMemberToSet R newInstanceKeyspace ''@odata.id'',
               addMemberToSet R newInstanceKeyspace ''@odata.type'',
               setValueForPropertyInKeyspace R newInstanceKeyspace ''Name'' ''Computer System Chassis'',
               setValueForPropertyInKeyspace R newInstanceKeyspace ''Id'' ''Self'',
               setValueForPropertyInKeyspace R newInstanceKeyspace ''Manufacturer'' ''Cray, Inc.'',
               setValueForPropertyInKeyspace R newInstanceKeyspace ''Model'' ''Redfish Simulator'',
               setValueForPropertyInKeyspace R newInstanceKeyspace ''PowerState'' ''On'']) (\<lambda>_.
            go_bind (addMemberToSet R newInstanceKeyspace ''ProcessorSummary'') (\<lambda>(processorSummaryKeyspace, _).
            go_bind (calls
              [setValueForPropertyInKeyspace R processorSummaryKeyspace ''Count'' (FormatInt numCPU),
               setValueForPropertyInKeyspace R processorSummaryKeyspace ''Model'' ''Simulated'']) (\<lambda>_.
            go_bind (addMemberToSet R newInstanceKeyspace ''MemorySummary'') (\<lambda>(memorySummaryKeyspace, _).
            go_bind (setValueForPropertyInKeyspace R memorySummaryKeyspace ''TotalSystemMemoryGiB'' ''42'') (\<lambda>_.
            go_bind (addMemberToSet R newInstanceKeyspace ''Actions'') (\<lambda>(actionsKeyspace, addErr). case addErr of
                Some _ \<Rightarrow> go_return (Some (Err (''unable to add Actions to instance '' @ xname)))
              | None \<Rightarrow>
                  go_bind (addMemberToSet R actionsKeyspace ''#ComputerSystem.Reset'') (\<lambda>(resetKeyspace, _).
                  go_bind (setValueForPropertyInKeyspace R resetKeyspace ''target''
                      (filepath_Join [actionsKeyspace, ''ComputerSystem.Reset''])) (\<lambda>_.
                  go_bind (addMemberToSet R resetKeyspace ''ResetType@Redfish.AllowableValues'') (\<lambda>(allowableValuesKeyspace, addErr).
                    case addErr of
                      Some _ \<Rightarrow> go_return (Some (Err (''unable to add AllowableValues to ResetType for xname '' @ xname)))
                    | None \<Rightarrow> go_bind (on_world (rRPush R allowableValuesKeyspace [''On'', ''GracefulShutdown'', ''ForceRestart''])) (\<lambda>_.
                        go_return None))))))))))))))"

definition sim_initChassis :: "'w redis_ops \<Rightarrow> string \<Rightarrow> ('w hstate, go_error option) go" where
  "sim_initChassis R xname =
     go_bind (addMemberToSet R (filepath_Join [xname, ServiceRootKeyspace]) ''Chassis'') (\<lambda>(chassisKeyspace, _).
     go_bind (calls
       [setValueForPropertyInKeyspace R chassisKeyspace ''Name'' ''Chassis Collection'',
        addMemberToSet R chassisKeyspace ''@odata.id'',
        addMemberToSet R chassisKeyspace ''@odata.type'',
        addMemberToSet R chassisKeyspace ''Members'']) (\<lambda>_.
     go_bind (addMemberToArray R chassisKeyspace ''Members'') (\<lambda>(thisMemberKeyspace, addErr). case addErr of
         Some _ \<Rightarrow> go_return (Some (Err (''unable to add member to array for instance: '' @ xname)))
       | None \<Rightarrow>
           (let newInstanceKeyspace = chassisKeyspace @ ''/Self'' in
            go_bind (calls
              [setValueForPropertyInKeyspace R thisMemberKeyspace ''@odata.id'' newInstanceKeyspace,
               addMemberToSet R newInstanceKeyspace ''@odata.id'',
               addMemberToSet R newInstanceKeyspace ''@odata.type'',
               setValueForPropertyInKeyspace R newInstanceKeyspace ''Name'' ''Computer System Chassis'',
               setValueForPropertyInKeyspace R newInstanceKeyspace ''Id'' ''Self'',
               setValueForPropertyInKeyspace R newInstanceKeyspace ''Manufacturer'' ''Cray, Inc.'',
               setValueForPropertyInKeyspace R newInstanceKeyspace ''Model'' ''Redfish Simulator'']) (\<lambda>_.
            go_bind (addMemberToSet R newInstanceKeyspace ''Links'') (\<lambda>(linksKeyspace, _).
            go_bind (addMemberToArray R linksKeyspace ''ComputerSystems'') (\<lambda>(systemsKeyspace, _).
            go_bind (setValueForPropertyInKeyspace R systemsKeyspace ''@odata.id'' (filepath_Join [SystemsKeyspace, ''Self''])) (\<lambda>_.
              go_return None))))))))"

definition sim_initManagers :: "'w redis_ops \<Rightarrow> string \<Rightarrow> ('w hstate, go_error option) go" where
  "sim_initManagers R xname =
     go_bind (initManagerCollection R xname) (\<lambda>err. case err of
         Some e \<Rightarrow> go_return (Some (Err (''unable to init manager collection for '' @ xname @ '': '' @ Error e)))
       | None \<Rightarrow> go_bind (initManager R xname ''RTS'' ''Redfish Simulator'') (\<lambda>err. go_return (case err of
           Some e \<Rightarrow> Some (Err (''unable to init manager for '' @ xname @ '': '' @ Error e))
         | None \<Rightarrow> None)))"

definition firmware_member :: "'w redis_ops \<Rightarrow> string \<Rightarrow> string \<Rightarrow> string \<Rightarrow> ('w hstate, go_error option) go" where
  "firmware_member R updateKeyspace firmwareInventoryKeyspace member =
     go_bind (addMemberToArray R firmwareInventoryKeyspace ''Members'') (\<lambda>(thisMemberKeyspace, addErr). case addErr of
         Some _ \<Rightarrow> go_return (Some (Err (''unable to add member to array for keyspace: '' @ updateKeyspace)))
       | None \<Rightarrow>
           (let newInstanceKeyspace = firmwareInventoryKeyspace @ ''/'' @ member in
            go_bind (calls
              [setValueForPropertyInKeyspace R thisMemberKeyspace ''@odata.id'' newInstanceKeyspace,
               addMemberToSet R newInstanceKeyspace ''@odata.id'',
               addMemberToSet R newInstanceKeyspace ''@odata.type'',
               setValueForPropertyInKeyspace R newInstanceKeyspace ''Description'' (member @ '' Firmware Inventory''),
               setValueForPropertyInKeyspace R newInstanceKeyspace ''Id'' member,
               setValueForPropertyInKeyspace R newInstanceKeyspace ''Name'' member,
               setValueForPropertyInKeyspace R newInstanceKeyspace ''Updateable'' ''True'',
               setValueForPropertyInKeyspace R newInstanceKeyspace ''Version'' ''1'']) (\<lambda>_. go_return None)))"

definition populateFirmwareInventory :: "'w redis_ops \<Rightarrow> string \<Rightarrow> ('w hstate, go_error option) go" where
  "populateFirmwareInventory R updateKeyspace =
     go_bind (addMemberToSet R updateKeyspace ''FirmwareInventory'') (\<lambda>(firmwareInventoryKeyspace, _).
     go_bind (calls
       [addMemberToSet R firmwareInventoryKeyspace ''@odata.id'',
        addMemberToSet R firmwareInventoryKeyspace ''@odata.type'',
        setValueForPropertyInKeyspace R firmwareInventoryKeyspace ''Description''
          ''Collection of Firmware Inventory resources available to the UpdateService'',
        setValueForPropertyInKeyspace R firmwareInventoryKeyspace ''Name'' ''Firmware Inventory Collection'']) (\<lambda>_.
       until_error (map (firmware_member R updateKeyspace firmwareInventoryKeyspace) [''BIOS'', ''BMC''])))"

text \<open>An error of the firmware inventory is dropped.\<close>

definition initUpdateService :: "'w redis_ops \<Rightarrow> string \<Rightarrow> ('w hstate, go_error option) go" where
  "initUpdateService R xname =
     go_bind (addMemberToSet R (filepath_Join [xname, ServiceRootKeyspace]) ''UpdateService'') (\<lambda>(updateKeyspace, _).
     go_bind (calls
       [setValueForPropertyInKeyspace R updateKeyspace ''Name'' ''Update Service'',
        setValueForPropertyInKeyspace R updateKeyspace ''Id'' ''Update Service'',
        addMemberToSet R updateKeyspace ''@odata.id'',
        addMemberToSet R updateKeyspace ''@odata.type'',
        setValueForPropertyInKeyspace R updateKeyspace ''Description'' ''Redfish Update Service'',
        setValueForPropertyInKeyspace R updateKeyspace ''ServiceEnabled'' ''true'']) (\<lambda>_.
     go_bind (populateFirmwareInventory R updateKeyspace) (\<lambda>_.
     go_bind (addMemberToSet R updateKeyspace ''Status'') (\<lambda>(statusKeyspace, _).
     go_bind (calls
       [setValueForPropertyInKeyspace R statusKeyspace ''Health'' ''OK'',
        setValueForPropertyInKeyspace R statusKeyspace ''State'' ''Enabled'']) (\<lambda>_.
     go_bind (addMemberToSet R updateKeyspace ''Actions'') (\<lambda>(actionsKeyspace, addErr). case addErr of
         Some _ \<Rightarrow> go_return (Some (Err (''unable to add Actions to instance '' @ xname)))
       | None \<Rightarrow>
           go_bind (addMemberToSet R actionsKeyspace ''#UpdateService.SimpleUpdate'') (\<lambda>(simpleUpdateKeyspace, _).
           go_bind (setValueForPropertyInKeyspace R simpleUpdateKeyspace ''target''
               (filepath_Join [actionsKeyspace, ''UpdateService.SimpleUpdate''])) (\<lambda>_. go_return None))))))))"

definition sim_root_keys :: "'w redis_ops \<Rightarrow> string option \<Rightarrow> ('w hstate, unit) go" where
  "sim_root_keys R version =
     go_bind (addMemberToSet R ''/redfish'' ''v1'') (\<lambda>(rootKeyspace, _).
       calls ([setValueForPropertyInKeyspace R rootKeyspace ''Name'' ''Service Root'',
          setValueForPropertyInKeyspace R rootKeyspace ''Description'' ''The Redfish ServiceRoot'',
          addMemberToSet R rootKeyspace ''@odata.id'',
          addMemberToSet R rootKeyspace ''@odata.type''] @
         (case version of None \<Rightarrow> [] | Some versionStr \<Rightarrow> [setValueForPropertyInKeyspace R rootKeyspace ''RedfishVersion'' versionStr]) @
         [addMemberToSet R rootKeyspace ''Chassis'', addMemberToSet R rootKeyspace ''Systems'',
          addMemberToSet R rootKeyspace ''Managers'', addMemberToSet R rootKeyspace ''UpdateService'']))"

definition set_pipe :: "rcmd list option \<Rightarrow> (('w, 't, 'z) backend_scheme, unit) go" where
  "set_pipe q = modifies (\<lambda>s. s\<lparr>be_pipe := q\<rparr>)"

text \<open>
  The pipeline is that of the helper of the simulator; the certificate service has a helper of its own,
  whose commands run at once.
\<close>

definition initSimulator :: "('w, 'e, 't) platform \<Rightarrow> int \<Rightarrow> string \<Rightarrow> (('w, 't) RFSimulatorHelper, go_error option) go" where
  "initSimulator P numCPU xname =
     (let R = pf_redis P; V = pf_services P in
      go_bind (on_helper (removeXnamePrependedKeys R (pf_more P) xname)) (\<lambda>removeErr. case removeErr of
          Some e \<Rightarrow> go_return (Some (Err (''unable to remove keys from Redis: '' @ Error e)))
        | None \<Rightarrow>
            go_bind (on_helper (sim_root_keys R (LookupEnv V ''SCHEMA_VERSION''))) (\<lambda>_.
            go_bind (set_pipe (Some [])) (\<lambda>_.
            go_bind (until_error
              [on_helper (sim_initChassis R xname), on_helper (sim_initSystem R numCPU xname),
               on_helper (sim_initManagers R xname), on_helper (initUpdateService R xname),
               on_certs (InitForXName R (pf_crypto P) (pf_storage P) xname)]) (\<lambda>err. case err of
                Some e \<Rightarrow> go_bind (set_pipe None) (\<lambda>_. go_return (Some e))
              | None \<Rightarrow>
                  go_bind (gets (\<lambda>s. case be_pipe s of Some q \<Rightarrow> q | None \<Rightarrow> [])) (\<lambda>q.
                  go_bind (on_be (Exec R q)) (\<lambda>err.
                  go_bind (set_pipe None) (\<lambda>_. case err of
                      Some e \<Rightarrow> go_return (Some e)
                    | None \<Rightarrow>
                        go_bind (gets (\<lambda>s. \<lparr> cc_Xname = xname, cc_URL = xname @ '':8083'', cc_Username = sim_Username s,
                            cc_Password = sim_Password s, cc_SNMPAuthPass = [], cc_SNMPPrivPass = [] \<rparr>)) (\<lambda>cred.
                        go_bind (on_be (StoreCompCred V cred)) (\<lambda>r. go_return (case r of Inl e \<Rightarrow> Some e | Inr _ \<Rightarrow> None)))))))))))"

section \<open>The interface of a backend\<close>

definition sim_RunPeriodic :: "('w, 'e) services \<Rightarrow> (('w, 't) RFSimulatorHelper, go_error option) go" where
  "sim_RunPeriodic V = (\<lambda>s. until_error (map (\<lambda>xname. on_be (informHSM V xname)) (sim_KnownInstances s)) s)"

definition add_instance :: "string \<Rightarrow> (('w, 't) RFSimulatorHelper, unit) go" where
  "add_instance xname = modifies (\<lambda>s. if List.member (sim_KnownInstances s) xname then s
     else s\<lparr>sim_KnownInstances := sim_KnownInstances s @ [xname]\<rparr>)"

text \<open>An instance is known whether or not its initialisation succeeded.\<close>

definition sim_SetupBackendHelper :: "('w, 'e, 't) platform \<Rightarrow> int \<Rightarrow> nat \<Rightarrow> (('w, 't) RFSimulatorHelper, go_error option) go" where
  "sim_SetupBackendHelper P numCPU n =
     (let R = pf_redis P; V = pf_services P in
      go_bind (on_be (connectToVault V (pf_vault P) n)) (\<lambda>connected.
        if \<not> connected then go_fatal ''Unable to connect to Vault''
        else if \<not> setupCompCredsVault V then go_fatal ''Failed to setup CompCredsVault''
        else case LookupEnv V ''RF_USERNAME'' of
          None \<Rightarrow> go_panic ''Value must be set for RF_USERNAME''
        | Some user \<Rightarrow> go_bind (modifies (\<lambda>s. s\<lparr>sim_Username := user\<rparr>)) (\<lambda>_.
            case LookupEnv V ''RF_PASSWORD'' of
              None \<Rightarrow> go_panic ''Value must be set for RF_PASSWORD''
            | Some password \<Rightarrow>
                go_bind (modifies (\<lambda>s. s\<lparr>sim_Password := password\<rparr>)) (\<lambda>_.
                go_bind (on_helper (initAccount R (pf_hash P password) user ''Administrator'')) (\<lambda>_.
                go_bind (on_certs (SetupCertificateService ''RTS'' GenericCertificateID)) (\<lambda>err. case err of
                    Some e \<Rightarrow> go_return (Some e)
                  | None \<Rightarrow> (case LookupEnv V ''RF_SIMULATOR_XNAMES'' of
                      None \<Rightarrow> go_return None
                    | Some simulatorXnames \<Rightarrow>
                        go_bind (go_each (\<lambda>xname. go_bind (initSimulator P numCPU xname) (\<lambda>_. add_instance xname))
                          (Split1 simulatorXnames CHR '','')) (\<lambda>_. go_return None))))))))"

definition sim_GetEnvForXname :: "string \<Rightarrow> ('w, 't) RFSimulatorHelper \<Rightarrow> (string \<times> string) list \<times> go_error option" where
  "sim_GetEnvForXname xname s = (if List.member (sim_KnownInstances s) xname then ([(''RTS_XNAME'', xname)], None)
     else ([], Some (Err ''unable to find xname in device list'')))"

section \<open>Requests\<close>

text \<open>
  The expression \<open>.+(\d\.\d\.\d).+\<close>: on the first line that has a match, the last place where three digits
  with points between them have something before and something after them.
\<close>

fun version_at :: "string \<Rightarrow> bool" where
  "version_at (a # p # b # q # c # _) \<longleftrightarrow> digit_val a \<noteq> None \<and> p = CHR ''.'' \<and> digit_val b \<noteq> None \<and> q = CHR ''.'' \<and> digit_val c \<noteq> None"
| "version_at _ \<longleftrightarrow> False"

definition version_in_line :: "string \<Rightarrow> string option" where
  "version_in_line l = map_option (\<lambda>i. take 5 (drop i l)) (find (\<lambda>i. i + 5 < length l \<and> version_at (drop i l)) (rev [1..<length l]))"

definition find_version_in :: "string \<Rightarrow> string option" where
  "find_version_in s = (case find (\<lambda>l. version_in_line l \<noteq> None) (Split1 s (CHR 0x0A)) of
      None \<Rightarrow> None
    | Some l \<Rightarrow> version_in_line l)"

definition reset_system :: "('w, 'e, 't) platform \<Rightarrow> string \<Rightarrow> (string \<times> string) list \<Rightarrow> (('w, 't) RFSimulatorHelper, go_error + string) go" where
  "reset_system P xname env = (case map_of env ''ResetType'' of
      None \<Rightarrow> go_return (Inl (Err ''ResetType action requested, but ResetType not provided''))
    | Some desiredPowerState \<Rightarrow>
        (let powerStateKeyspace = filepath_Join [xname, SystemsKeyspace, ''Self''];
             change = (\<lambda>value.
               go_bind (on_helper (setValueForPropertyInKeyspace (pf_redis P) powerStateKeyspace ''PowerState'' value)) (\<lambda>_.
               go_bind (gets sim_RFEventID) (\<lambda>n.
               go_bind (on_be (postRFPowerEvent (pf_services P) n xname (filepath_Join [SystemsKeyspace, ''Self'']) value)) (\<lambda>(n', _).
               go_bind (modifies (\<lambda>s. s\<lparr>sim_RFEventID := n'\<rparr>)) (\<lambda>_. go_return (Inr []))))))
         in if desiredPowerState = ''GracefulShutdown'' then change ''Off''
            else if desiredPowerState = ''ForceRestart'' \<or> desiredPowerState = ''On'' then change ''On''
            else go_return (Inr [])))"

definition simple_update :: "('w, 'e, 't) platform \<Rightarrow> string \<Rightarrow> (string \<times> string) list \<Rightarrow> (('w, 't) RFSimulatorHelper, go_error + string) go" where
  "simple_update P xname env = (case map_of env ''ImageURI'' of
      None \<Rightarrow> go_return (Inl (Err ''UpdateService.SimpleUpdate action requested, but ImageURI not provided''))
    | Some imageURI \<Rightarrow> (case map_of env ''TransferProtocol'' of
        None \<Rightarrow> go_return (Inl (Err ''UpdateService.SimpleUpdate action requested, but TransferProtocol not provided''))
      | Some transferProtocol \<Rightarrow> (case map_of env ''UpdateComponent'' of
          None \<Rightarrow> go_return (Inl (Err ''UpdateService.SimpleUpdate action requested, but UpdateComponent not provided''))
        | Some updateComponent \<Rightarrow>
            (let proceed = (case find_version_in imageURI of
                None \<Rightarrow> go_return (Inl (Err (''ImageURI doesn'' @ [CHR 0x27] @ ''t have a version in its filename, giving up'')))
              | Some version \<Rightarrow>
                  go_bind (on_helper (setValueForPropertyInKeyspace (pf_redis P)
                      (filepath_Join [xname, ServiceRootKeyspace, ''UpdateService'', ''FirmwareInventory'', updateComponent]) ''Version'' version)) (\<lambda>_.
                    go_return (Inr [])))
             in case map_of env ''ResetBMC'' of
                 None \<Rightarrow> proceed
               | Some restBMCString \<Rightarrow> (case ParseBool restBMCString of
                   Inl parseErr \<Rightarrow> go_return (Inl (Err (''UpdateService.SimpleUpdate action requested, but ResetBMC not boolean type: '' @
                     Error (NumError ''ParseBool'' restBMCString parseErr))))
                 | Inr resetBMC \<Rightarrow> proceed)))))"

definition sim_RunBackendHelper :: "('w, 'e, 't) platform \<Rightarrow> string \<Rightarrow> (string \<times> string) list \<Rightarrow> (('w, 't) RFSimulatorHelper, go_error + string) go" where
  "sim_RunBackendHelper P key env = (case map_of env ''RTS_XNAME'' of
      None \<Rightarrow> go_return (Inl (Err ''RTS_XNAME not in environment variables''))
    | Some xname \<Rightarrow> (\<lambda>s.
        if \<not> List.member (sim_KnownInstances s) xname then (Ret (Inl (Err (''unknown xname: '' @ xname))), s)
        else case full_key key of
          None \<Rightarrow> (Ret (Inl (Err ''key format not what expected'')), s)
        | Some fullKey \<Rightarrow>
            (let strippedKey = TrimPrefix fullKey ServiceRootKeyspace in
             if strippedKey = key then (Ret (Inl (Err ''unexpected key prefix'')), s)
             else if strippedKey = ''/Systems/Self/Actions/ComputerSystem.Reset'' then reset_system P xname env s
             else if strippedKey = ''/UpdateService/Actions/UpdateService.SimpleUpdate'' then simple_update P xname env s
             else on_be (rGet (pf_redis P) key) s)))"

end
