(* ===== verification/Simulator_Facts.thy ===== *)
theory Simulator_Facts
  imports Simulator_Backend
begin

text \<open>
  Actions of the simulator and what is read after them. The services that an event is posted to are
  only assumed to answer and to leave Redis alone.
\<close>

section \<open>Keys of an instance\<close>

lemma full_key_xname:
  assumes "CHR ''/'' \<notin> set x" "k \<noteq> []" "list_all (\<lambda>c. \<not> is_space c) k"
  shows "full_key (x @ ServiceRootKeyspace @ k) = Some (ServiceRootKeyspace @ k)"
proof -
  have "full_key (ServiceRootKeyspace @ k) = Some (ServiceRootKeyspace @ k)"
    using assms(2,3) HasPrefix_append [of ServiceRootKeyspace k] by (simp add: ServiceRootKeyspace_def Let_def)
  then show ?thesis using full_key_skip [OF assms(1)] by simp
qed

lemma stripped_xname:
  assumes "plain x"
  shows "ServiceRootKeyspace @ k \<noteq> x @ ServiceRootKeyspace @ k" "k \<noteq> x @ ServiceRootKeyspace @ k"
  using assms by (auto simp: plain_def)

lemma self_Join: "plain x \<Longrightarrow> filepath_Join [x, SystemsKeyspace, ''Self''] = x @ ServiceRootKeyspace @ ''/Systems/Self''"
proof -
  assume x: "plain x"
  then have h: "x \<noteq> []" "hd x \<noteq> CHR ''/''" by (auto simp: plain_def) (metis list.set_sel(1))
  have e: "elems SystemsKeyspace = [''redfish'', ''v1'', ''Systems'']" "elems ''Self'' = [''Self'']" by code_simp+
  have p: "plain ''redfish''" "plain ''v1''" "plain ''Systems''" "plain ''Self''" by (simp_all add: plain_def)
  show ?thesis
    using filepath_Join_elems [of x "[SystemsKeyspace, ''Self'']"] h elems_plain [OF x] e p x by simp (simp add: ServiceRootKeyspace_def)
qed

section \<open>Effects\<close>

text \<open>Services that answer every request and leave Redis as it is.\<close>

definition answering :: "('w \<Rightarrow> rdb) \<Rightarrow> ('w, 'e) services \<Rightarrow> bool" where
  "answering view V \<longleftrightarrow> (\<forall>w. \<exists>t w'. sNow V w = (Ret t, w') \<and> view w' = view w) \<and>
     (\<forall>q w. \<exists>r w'. sDo V q w = (Ret r, w') \<and> view w' = view w)"

lemma do_answers:
  assumes "answering view V"
  obtains a b c w' where "DoHTTPAction V q w = (Ret (a, b, c), w')" "view w' = view w"
proof (cases "hr_FullURL q = []")
  case False
  obtain r w' where r: "sDo V q w = (Ret r, w')" "view w' = view w" using assms unfolding answering_def by blast
  show thesis
  proof (cases r)
    case (Inr x)
    then show thesis using that r False by (cases x; cases "snd x") (auto simp: DoHTTPAction_def go_bind_apply Let_def)
  qed (use that r False in \<open>auto simp: DoHTTPAction_def go_bind_apply\<close>)
qed (use that in \<open>auto simp: DoHTTPAction_def\<close>)

lemma post_event_answers:
  assumes "answering view V"
  obtains e w' where "post_event V url p w = (Ret e, w')" "view w' = view w"
proof -
  let ?q = "\<lparr> hr_Method = ''POST'', hr_FullURL = url, hr_ExpectedStatusCodes = [200],
         hr_Payload = Some p, hr_Auth = None, hr_CustomHeaders = getSvcInstName V \<rparr>"
  obtain a b c w' where "DoHTTPAction V ?q w = (Ret (a, b, c), w')" "view w' = view w" using do_answers [OF assms] .
  then show thesis using that by (simp add: post_event_def go_bind_apply)
qed

lemma event_answers:
  assumes "answering view V"
  obtains r w' where "postRFPowerEvent V n x res st w = (Ret r, w')" "view w' = view w"
proof (cases "LookupEnv V ''COLLECTOR_URL''")
  case None
  then show thesis using that by (simp add: postRFPowerEvent_def)
next
  case (Some url)
  obtain t w1 where 1: "sNow V w = (Ret t, w1)" "view w1 = view w" using assms unfolding answering_def by blast
  show thesis
  proof (cases "sMarshalEvent V \<lparr> ev_Context = x @ '':PowerState'', ev_Events =
      [\<lparr> ev_EventId = FormatInt (uint n), ev_EventTimestamp = t, ev_Severity = ''OK'',
         ev_Message = ''The power state of resource '' @ res @ '' has changed to type '' @ st @ ''.'',
         ev_MessageId = ''CrayAlerts.1.0.ResourcePowerStateChanged'', ev_MessageArgs = [res, st],
         ev_OriginOfCondition = res \<rparr>], ev_EventsOCount = 1 \<rparr>")
    case (Inl e)
    then show thesis using that [OF _ 1(2)] Some 1(1) by (simp only: postRFPowerEvent_def go_bind_apply Let_def option.case prod.case outcome.case sum.case go_return_apply)
  next
    case (Inr p)
    obtain e w2 where "post_event V url p w1 = (Ret e, w2)" "view w2 = view w1" using post_event_answers [OF assms] .
    then show thesis using that [of _ w2] Some 1 Inr by (simp only: postRFPowerEvent_def go_bind_apply Let_def option.case prod.case outcome.case sum.case go_return_apply)
  qed
qed

text \<open>The power state that a reset asks for, if its type is known.\<close>

definition reset_state :: "string \<Rightarrow> string option" where
  "reset_state t = (if t = ''GracefulShutdown'' then Some ''Off'' else if t = ''ForceRestart'' \<or> t = ''On'' then Some ''On'' else None)"

abbreviation be_world :: "('w, 't, 'z) backend_scheme \<Rightarrow> 'w" where
  "be_world s \<equiv> cs_world (be_certs s)"

lemma put_in_backend:
  assumes "redis_server R view" "be_pipe s = None"
  obtains r w' where "on_helper (setValueForPropertyInKeyspace R k p v) s = (Ret r, s\<lparr>be_certs := (be_certs s)\<lparr>cs_world := w'\<rparr>\<rparr>)"
    "view w' = put_db k p v (view (be_world s))"
proof -
  obtain h where h: "setValueForPropertyInKeyspace R k p v \<lparr>hs_world = be_world s, hs_pipe = None\<rparr> =
      (Ret (k @ ''/'' @ p, cmd_err (CmdSAdd k p) ((view (be_world s))(k @ ''/'' @ p \<mapsto> RString v))), h)"
    "hs_pipe h = None" "view (hs_world h) = put_db k p v (view (be_world s))"
    using doesE [OF redis_server.does_put [OF assms(1), of k p v], of "\<lparr>hs_world = be_world s, hs_pipe = None\<rparr>"] by auto
  show thesis
    by (rule that [of _ "hs_world h"]) (use h assms(2) in \<open>simp_all add: on_helper_def\<close>)
qed

lemma reset_stores:
  assumes "redis_server (pf_redis P) view" "answering view (pf_services P)" "plain xname" "be_pipe s = None"
    and "map_of env ''ResetType'' = Some t" "reset_state t = Some v"
  obtains n w' where "reset_system P xname env s = (Ret (Inr []), s\<lparr>be_certs := (be_certs s)\<lparr>cs_world := w'\<rparr>, sim_RFEventID := n\<rparr>)"
    "view w' = put_db (xname @ ServiceRootKeyspace @ ''/Systems/Self'') ''PowerState'' v (view (be_world s))"
proof -
  let ?K = "xname @ ServiceRootKeyspace @ ''/Systems/Self''"
  obtain r w1 where 1: "on_helper (setValueForPropertyInKeyspace (pf_redis P) ?K ''PowerState'' v) s =
      (Ret r, s\<lparr>be_certs := (be_certs s)\<lparr>cs_world := w1\<rparr>\<rparr>)" "view w1 = put_db ?K ''PowerState'' v (view (be_world s))"
    using put_in_backend [OF assms(1,4)] .
  obtain e w2 where 2: "postRFPowerEvent (pf_services P) (sim_RFEventID s) xname (filepath_Join [SystemsKeyspace, ''Self'']) v w1 = (Ret e, w2)"
    "view w2 = view w1" using event_answers [OF assms(2)] .
  have v: "t = ''GracefulShutdown'' \<and> v = ''Off'' \<or> t \<noteq> ''GracefulShutdown'' \<and> (t = ''ForceRestart'' \<or> t = ''On'') \<and> v = ''On''"
    using assms(6) by (auto simp: reset_state_def split: if_splits)
  show thesis
  proof (rule that [of "fst e" w2])
    show "view w2 = put_db ?K ''PowerState'' v (view (be_world s))" using 1(2) 2(2) by simp
    show "reset_system P xname env s = (Ret (Inr []), s\<lparr>be_certs := (be_certs s)\<lparr>cs_world := w2\<rparr>, sim_RFEventID := fst e\<rparr>)"
      using v 1(1) 2(1) assms(5)
      by (elim disjE conjE) (simp_all add: reset_system_def self_Join [OF assms(3)] go_bind_apply on_be_def on_certs_def on_cs_def split_beta)
  qed
qed

section \<open>Properties\<close>

text \<open>
  C38. A reset of a simulated system is observed: a request with a known type of reset succeeds, the power
  state that is read next is the one that was asked for, and no other key has changed but the set of
  the names of the system. A request with an unknown type succeeds as well and changes nothing.
\<close>

theorem simulated_reset_observed:
  assumes "redis_server (pf_redis P) view" "answering view (pf_services P)" "plain xname" "be_pipe s = None"
    and "List.member (sim_KnownInstances s) xname"
  shows "\<exists>s'. sim_RunBackendHelper P (xname @ ServiceRootKeyspace @ ''/Systems/Self/Actions/ComputerSystem.Reset'')
        [(''RTS_XNAME'', xname), (''ResetType'', t)] s = (Ret (Inr []), s') \<and>
    (case reset_state t of
       None \<Rightarrow> s' = s
     | Some v \<Rightarrow> sim_RunBackendHelper P (xname @ ServiceRootKeyspace @ ''/Systems/Self/PowerState'') [(''RTS_XNAME'', xname)] s' = (Ret (Inr v), s') \<and>
         (\<forall>k. k \<noteq> xname @ ServiceRootKeyspace @ ''/Systems/Self'' \<and> k \<noteq> xname @ ServiceRootKeyspace @ ''/Systems/Self/PowerState'' \<longrightarrow>
            view (be_world s') k = view (be_world s) k))"
proof -
  let ?env = "[(''RTS_XNAME'', xname), (''ResetType'', t)]" and ?K = "xname @ ServiceRootKeyspace @ ''/Systems/Self''"
  have x: "CHR ''/'' \<notin> set xname" using assms(3) by (simp add: plain_def)
  have f: "full_key (xname @ ServiceRootKeyspace @ ''/Systems/Self/Actions/ComputerSystem.Reset'') =
      Some (ServiceRootKeyspace @ ''/Systems/Self/Actions/ComputerSystem.Reset'')"
    "full_key (xname @ ServiceRootKeyspace @ ''/Systems/Self/PowerState'') = Some (ServiceRootKeyspace @ ''/Systems/Self/PowerState'')"
    by (rule full_key_xname [OF x]; simp add: is_space_def)+
  have r: "sim_RunBackendHelper P (xname @ ServiceRootKeyspace @ ''/Systems/Self/Actions/ComputerSystem.Reset'') ?env s = reset_system P xname ?env s"
    using stripped_xname [OF assms(3)] f(1) assms(5) by (simp add: sim_RunBackendHelper_def)
  show ?thesis
  proof (cases "reset_state t")
    case None
    then have "reset_system P xname ?env s = (Ret (Inr []), s)" by (auto simp: reset_system_def reset_state_def Let_def split: if_splits)
    then show ?thesis using r None by simp
  next
    case (Some v)
    have e: "map_of ?env ''ResetType'' = Some t" by simp
    obtain n w' where 1: "reset_system P xname ?env s = (Ret (Inr []), s\<lparr>be_certs := (be_certs s)\<lparr>cs_world := w'\<rparr>, sim_RFEventID := n\<rparr>)"
      "view w' = put_db ?K ''PowerState'' v (view (be_world s))"
      using reset_stores [OF assms(1-4) e Some] .
    let ?s' = "s\<lparr>be_certs := (be_certs s)\<lparr>cs_world := w'\<rparr>, sim_RFEventID := n\<rparr>"
    have "view w' (xname @ ServiceRootKeyspace @ ''/Systems/Self/PowerState'') = Some (RString v)"
      using 1(2) by (simp add: put_db_def sadd_db_other)
    then have "rGet (pf_redis P) (xname @ ServiceRootKeyspace @ ''/Systems/Self/PowerState'') w' = (Ret (Inr v), w')"
      using redis_server.get_law [OF assms(1)] by simp
    then have "sim_RunBackendHelper P (xname @ ServiceRootKeyspace @ ''/Systems/Self/PowerState'') [(''RTS_XNAME'', xname)] ?s' = (Ret (Inr v), ?s')"
      using stripped_xname [OF assms(3)] f(2) assms(5) by (simp add: sim_RunBackendHelper_def on_be_def on_certs_def on_cs_def)
    moreover have "view w' k = view (be_world s) k" if "k \<noteq> ?K" "k \<noteq> xname @ ServiceRootKeyspace @ ''/Systems/Self/PowerState''" for k
      using that 1(2) by (simp add: put_db_def sadd_db_other)
    ultimately show ?thesis using r 1(1) Some by (intro exI [of _ ?s']) simp
  qed
qed

definition ex_simulator :: "(mem, string) RFSimulatorHelper" where
  "ex_simulator = \<lparr> be_certs = ex_service, be_pipe = None, sim_KnownInstances = [''x0c0s1b0''], sim_Username = ''root'', sim_Password = ''p'', sim_RFEventID = 1 \<rparr>"

theorem simulated_reset_observed_witness:
  "\<exists>s'. sim_RunBackendHelper ex_platform (''x0c0s1b0'' @ ServiceRootKeyspace @ ''/Systems/Self/Actions/ComputerSystem.Reset'')
        [(''RTS_XNAME'', ''x0c0s1b0''), (''ResetType'', ''GracefulShutdown'')] ex_simulator = (Ret (Inr []), s') \<and>
    sim_RunBackendHelper ex_platform (''x0c0s1b0'' @ ServiceRootKeyspace @ ''/Systems/Self/PowerState'') [(''RTS_XNAME'', ''x0c0s1b0'')] s' = (Ret (Inr ''Off''), s')"
proof -
  have p: "redis_server (pf_redis ex_platform) mem_view" "answering mem_view (pf_services ex_platform)" "plain ''x0c0s1b0''"
    "be_pipe ex_simulator = None" "List.member (sim_KnownInstances ex_simulator) ''x0c0s1b0''"
    using mem_redis_server by (simp_all add: ex_platform_def answering_def plain_def ex_simulator_def)
  have t: "reset_state ''GracefulShutdown'' = Some ''Off''" by (simp add: reset_state_def)
  show ?thesis using simulated_reset_observed [OF p, of "''GracefulShutdown''"] unfolding t option.case by (elim exE conjE) (intro exI conjI)
qed

end
