(* ===== verification/Pdu_Facts.thy ===== *)
theory Pdu_Facts
  imports Pdu_Workers Simulator_Facts
begin

text \<open>
  What a request for a value of an outlet does: the key leads to a request of the device, the answer is
  written to Redis, and the value that is read belongs to the key that was asked for.
\<close>

section \<open>Writes that expire\<close>

text \<open>Right after it is set, a key with an expiration is there.\<close>

locale redis_timed = redis_server R view
  for R :: "'w redis_ops" and view :: "'w \<Rightarrow> rdb" +
  fixes K :: "'w redis_more"
  assumes expire_law: "0 < t \<Longrightarrow> \<exists>w'. rSetExpire K k v t w = (Ret (Inr ()), w') \<and> view w' = (view w)(k \<mapsto> RString v)"
begin

lemma set_runs: obtains w' where "run_set R K (k, v, t) w = (Ret (Inr ()), w')" "view w' = (view w)(k \<mapsto> RString v)"
proof (cases "0 < t")
  case True
  then show thesis using expire_law [OF True, of k v w] that by (auto simp: run_set_def)
next
  case False
  obtain w' where "rSet R k v w = (Ret (Inr ()), w')" "view w' = (view w)(k \<mapsto> RString v)" using set_ok .
  then show thesis using that False by (simp add: run_set_def)
qed

lemma sets_run: obtains w' where "exec_sets R K ss w = (Ret None, w')"
    "view w' = view w ++ map_of (rev (map (\<lambda>(k, v, _). (k, RString v)) ss))"
proof (induction ss arbitrary: w thesis)
  case (Cons s ss)
  obtain k v t where s: "s = (k, v, t)" by (cases s)
  obtain w1 where 1: "run_set R K s w = (Ret (Inr ()), w1)" "view w1 = (view w)(k \<mapsto> RString v)" unfolding s by (rule set_runs)
  obtain w2 where "exec_sets R K ss w1 = (Ret None, w2)" "view w2 = view w1 ++ map_of (rev (map (\<lambda>(k, v, _). (k, RString v)) ss))"
    using Cons.IH .
  then show ?case using Cons.prems [of w2] 1 s by (simp add: go_bind_apply map_add_assoc)
qed simp

end

interpretation mt: redis_timed mem_redis mem_view mem_more
proof (rule redis_timed.intro [OF mem_redis_server], unfold_locales)
  fix k v and t :: int and w :: mem
  show "\<exists>w'. rSetExpire mem_more k v t w = (Ret (Inr ()), w') \<and> mem_view w' = (mem_view w)(k \<mapsto> RString v)"
    using redis_server.set_ok [OF mem_redis_server, of k v w] by (auto simp: mem_more_def)
qed

section \<open>The values of an outlet\<close>

definition outlet_values :: "MonitorOutlet \<Rightarrow> (string list \<times> string) list" where
  "outlet_values m =
     [([''PowerState''], mo_State m), ([''RatedCurrentAmps''], FormatInt (mo_CurrentCapacity m)),
      ([''CurrentSensor'', ''Reading''], FormatFloat_f (mo_Current m)),
      ([''CurrentSensor'', ''Status'', ''Health''], translateJAWSASCIIToRedfishHealth (mo_CurrentStatus m)),
      ([''EnergySensor'', ''Reading''], FormatInt (mo_Energy m)),
      ([''PowerSensor'', ''ApparentVA''], FormatInt (mo_ApparentPower m)),
      ([''PowerSensor'', ''PowerFactor''], FormatFloat_f (mo_PowerFactor m)),
      ([''PowerSensor'', ''Reading''], FormatInt (mo_ActivePower m)),
      ([''PowerSensor'', ''Status'', ''Health''], translateJAWSASCIIToRedfishHealth (mo_ActivePowerStatus m)),
      ([''VoltageSensor'', ''Reading''], FormatFloat_f (mo_Voltage m)),
      ([''Status'', ''Health''], translateJAWSASCIIToRedfishHealth (mo_Status m))]"

definition outlet_key :: "string \<Rightarrow> string \<Rightarrow> string \<Rightarrow> string" where
  "outlet_key xname pduID outlet = xname @ RackPDUsKeyspace @ slashed [pduID, ''Outlets'', outlet]"

lemma rack_good: "plain xname \<Longrightarrow> good_path (xname @ RackPDUsKeyspace)"
proof -
  assume "plain xname"
  then have "good_path (xname @ slashed [''redfish'', ''v1'', ''PowerEquipment'', ''RackPDUs''])"
    by (intro good_path_extend good_path_plain) (simp_all add: plain_def)
  then show ?thesis by (simp add: slashed_def RackPDUsKeyspace_def ServiceRootKeyspace_def)
qed

lemma outlet_key_good:
  assumes "plain xname" "plain pduID" "plain outlet"
  shows "good_path (outlet_key xname pduID outlet)" "filepath_Join [xname @ RackPDUsKeyspace, pduID, ''Outlets'', outlet] = outlet_key xname pduID outlet"
proof -
  have p: "list_all plain [pduID, ''Outlets'', outlet]" using assms by (simp add: plain_def)
  show "good_path (outlet_key xname pduID outlet)" using good_path_extend [OF rack_good [OF assms(1)] p] by (simp add: outlet_key_def)
  show "filepath_Join [xname @ RackPDUsKeyspace, pduID, ''Outlets'', outlet] = outlet_key xname pduID outlet"
    using filepath_Join_good [OF rack_good [OF assms(1)] p] by (simp add: outlet_key_def)
qed

lemma values_plain: "list_all (\<lambda>(es, v). list_all plain es \<and> es \<noteq> [] \<and> hd es \<noteq> ''Actions'' \<and> hd es \<noteq> ''PowerRestorePolicy'' \<and>
    list_all (list_all (\<lambda>c. \<not> is_space c)) es) (outlet_values m)"
  by (simp add: outlet_values_def plain_def is_space_def)

lemma values_distinct: "distinct (map fst (outlet_values m))"
  by (simp add: outlet_values_def)

lemma slashed_inj: "list_all plain es \<Longrightarrow> list_all plain fs \<Longrightarrow> slashed es = slashed fs \<Longrightarrow> es = fs"
proof -
  assume p: "list_all plain es" "list_all plain fs" and e: "slashed es = slashed fs"
  have "elems (slashed gs) = gs" if "list_all plain gs" for gs
    using that
  proof (induction gs)
    case (Cons g gs)
    have "elems (slashed (g # gs)) = elems (g @ slashed gs)" using elems_slash [of "[]" "g @ slashed gs"] by (simp add: slashed_def elems_def [of "[]"])
    also have "\<dots> = g # gs"
    proof (cases gs)
      case Nil
      then show ?thesis using Cons.prems by (simp add: slashed_def elems_plain)
    next
      case (Cons h hs)
      have "elems (g @ slashed gs) = elems g @ elems (slashed gs)"
        using elems_slash [of g "h @ slashed hs"] elems_slash [of "[]" "h @ slashed hs"] Cons by (simp add: slashed_def elems_def [of "[]"])
      then show ?thesis using Cons.prems Cons.IH by (simp add: elems_plain)
    qed
    finally show ?case .
  qed (simp add: slashed_def elems_def)
  then show ?thesis using p e by metis
qed

lemma outlet_writes:
  assumes "plain xname" "plain pduID" "plain outlet" "translateJAWSToRedfishOutlet (mo_ID m) = Inr outlet"
  shows "populateRedisForMonitorOutlet polling m xname pduID =
    Inr (map (\<lambda>(es, v). (outlet_key xname pduID outlet @ slashed es, v, timeout_of polling (10 * second))) (outlet_values m))"
proof -
  note j = filepath_Join_good [OF outlet_key_good(1) [OF assms(1-3)]]
  show ?thesis
    using j [of "[''PowerState'']"] j [of "[''RatedCurrentAmps'']"] j [of "[''CurrentSensor'', ''Reading'']"] j [of "[''CurrentSensor'', ''Status'', ''Health'']"]
      j [of "[''EnergySensor'', ''Reading'']"] j [of "[''PowerSensor'', ''ApparentVA'']"] j [of "[''PowerSensor'', ''PowerFactor'']"]
      j [of "[''PowerSensor'', ''Reading'']"] j [of "[''PowerSensor'', ''Status'', ''Health'']"] j [of "[''VoltageSensor'', ''Reading'']"]
      j [of "[''Status'', ''Health'']"]
    by (simp add: populateRedisForMonitorOutlet_def assms(4) outlet_key_good(2) [OF assms(1-3)] outlet_values_def plain_def Let_def)
qed

section \<open>From the key to the request\<close>

lemma key_from_skip:
  assumes "CHR ''/'' \<notin> set x" "root \<noteq> []" "hd root = CHR ''/''"
  shows "key_from root (x @ t) = key_from root t"
  using assms(1)
proof (induction x)
  case (Cons c x)
  have "\<not> HasPrefix (c # x @ t) root" using Cons.prems assms(2,3) by (cases root) (auto simp: HasPrefix_def)
  then show ?case using Cons by (simp add: Let_def)
qed simp

lemma key_from_xname:
  assumes "plain x" "k \<noteq> []" "list_all (\<lambda>c. \<not> is_space c) k"
  shows "key_from RackPDUsKeyspace (x @ RackPDUsKeyspace @ k) = Some (RackPDUsKeyspace @ k)"
proof -
  have r: "RackPDUsKeyspace \<noteq> []" "hd RackPDUsKeyspace = CHR ''/''" by (simp_all add: RackPDUsKeyspace_def ServiceRootKeyspace_def)
  obtain c t where ct: "RackPDUsKeyspace @ k = c # t" using r(1) by (cases "RackPDUsKeyspace @ k") auto
  have "HasPrefix (c # t) RackPDUsKeyspace" "drop (length RackPDUsKeyspace) (c # t) = k" unfolding ct [symmetric] by simp_all
  then have "key_from RackPDUsKeyspace (c # t) = Some (c # t)" using assms(2,3) by (simp only: key_from.simps Let_def) simp
  then show ?thesis using key_from_skip [of x RackPDUsKeyspace, OF _ r] assms(1) ct by (simp add: plain_def)
qed

lemma split_key_plain: "plain a \<Longrightarrow> split_key (a @ CHR ''/'' # k) = Some (a, k)"
proof -
  assume "plain a"
  then have "\<forall>c \<in> set a. c \<noteq> CHR ''/''" by (auto simp: plain_def)
  then show ?thesis by (simp add: split_key_def)
qed

lemma plain_long: "2 < length s \<Longrightarrow> CHR ''/'' \<notin> set s \<Longrightarrow> plain s"
  by (auto simp: plain_def)

lemma two_digits_plain:
  assumes "0 \<le> n" "length u = 2" "CHR ''/'' \<notin> set u"
  shows "plain (u @ two_digits n)"
proof -
  have d: "c \<in> set (two_digits n) \<Longrightarrow> c \<noteq> CHR ''/''" for c
    using assms(1) digits_no_slash [of n] by (auto simp: two_digits_def pad_two split: if_splits)
  have "length (u @ two_digits n) > 2" using two_digits_not_Nil [OF assms(1)] assms(2) by simp
  then show ?thesis using assms(3) d by (intro plain_long) auto
qed

lemma two_digits_no_space: "0 \<le> n \<Longrightarrow> list_all (\<lambda>c. \<not> is_space c) (two_digits n)"
proof -
  assume n: "0 \<le> n"
  have "\<not> is_space (digit_char d)" if "0 \<le> d" "d < 10" for d
    using ten_cases [OF that] by (auto simp: digit_char_def is_space_def)
  then have "\<not> is_space c" if "c \<in> set (digits n)" for c using digits_chars [OF n that] by auto
  then show ?thesis using n by (auto simp: two_digits_def pad_two list_all_iff is_space_def)
qed

lemma slashed_no_space: "list_all (list_all (\<lambda>c. \<not> is_space c)) es \<Longrightarrow> list_all (\<lambda>c. \<not> is_space c) (slashed es)"
  by (induction es) (simp_all add: slashed_def is_space_def)

lemma outlets_no_space: "list_all (\<lambda>c. \<not> is_space c) ''Outlets/''" "\<not> is_space CHR ''/''"
  by (simp_all add: is_space_def)

lemma outlet_request:
  assumes "length u = 2" "0 \<le> n" "n < 2 ^ 63" "CHR ''/'' \<notin> set u" "list_all plain es" "es \<noteq> []" "hd es \<noteq> ''Actions''" "hd es \<noteq> ''PowerRestorePolicy''"
  shows "jaws_operation J xname pduID (''Outlets/'' @ (u @ two_digits n) @ slashed es) env s =
    (Ret (Inr (get_op (''/monitor/outlets/'' @ u @ FormatInt n))), s)"
proof -
  let ?on = "u @ two_digits n" and ?k = "''Outlets/'' @ (u @ two_digits n) @ slashed es"
  have p: "plain ?on" by (rule two_digits_plain [OF assms(2,1,4)])
  have "\<forall>w \<in> set (?on # es). CHR ''/'' \<notin> set w" using p assms(5) by (auto simp: plain_def list_all_iff)
  then have sp: "Split1 (?on @ slashed es) CHR ''/'' = ?on # es"
    using Split1_Join [of "?on # es" "CHR ''/''"] by (simp only: Join_slashed) simp
  have t: "TrimPrefix ?k ''Outlets/'' = ?on @ slashed es" using TrimPrefix_append [of "''Outlets/''"] by simp
  have pi: "plain (u @ FormatInt n)"
  proof -
    have "CHR ''/'' \<notin> set (FormatInt n)" "length (u @ FormatInt n) > 2"
      using FormatInt_no_slash [OF assms(2)] FormatInt_not_Nil [of n] assms(1) by simp_all
    then show ?thesis using assms(4) by (intro plain_long) auto
  qed
  have g: "good_path ''/monitor/outlets''"
    unfolding good_path_def by (intro exI [of _ "[''monitor'', ''outlets'']"]) (simp add: plain_def)
  have j: "filepath_Join [''/monitor/outlets'', u @ FormatInt n] = ''/monitor/outlets/'' @ u @ FormatInt n"
    using filepath_Join_good [OF g, of "[u @ FormatInt n]"] pi by (simp add: slashed_def)
  have h: "\<not> HasPrefix ?k ''Status''" "\<not> HasPrefix ?k ''Branches''" "\<not> HasPrefix ?k ''Mains''" "HasPrefix ?k ''Outlets''"
    by (simp_all add: HasPrefix_def)
  have "outlet_op J xname pduID ?k env s = (Ret (Inr (get_op (''/monitor/outlets/'' @ u @ FormatInt n))), s)"
    using redfish_to_jaws [OF assms(1-3)] assms(6-8)
    by (simp only: outlet_op_def t sp Let_def) (simp add: part_def go_bind_apply j hd_conv_nth)
  then show ?thesis by (simp only: jaws_operation_def h if_True if_False)
qed

lemma values_elem:
  assumes "(es, v) \<in> set (outlet_values m)"
  shows "list_all plain es" "es \<noteq> []" "hd es \<noteq> ''Actions''" "hd es \<noteq> ''PowerRestorePolicy''" "list_all (list_all (\<lambda>c. \<not> is_space c)) es"
proof -
  have c: "list_all plain es \<and> es \<noteq> [] \<and> hd es \<noteq> ''Actions'' \<and> hd es \<noteq> ''PowerRestorePolicy'' \<and> list_all (list_all (\<lambda>c. \<not> is_space c)) es"
    using bspec [OF iffD1 [OF list_all_iff values_plain [of m]] assms] unfolding prod.case .
  show "list_all plain es" by (rule conjunct1 [OF c])
  note c = conjunct2 [OF c]
  show "es \<noteq> []" by (rule conjunct1 [OF c])
  note c = conjunct2 [OF c]
  show "hd es \<noteq> ''Actions''" by (rule conjunct1 [OF c])
  note c = conjunct2 [OF c]
  show "hd es \<noteq> ''PowerRestorePolicy''" by (rule conjunct1 [OF c])
  show "list_all (list_all (\<lambda>c. \<not> is_space c)) es" by (rule conjunct2 [OF c])
qed

text \<open>The writes of an outlet as a map.\<close>

definition outlet_map :: "string \<Rightarrow> MonitorOutlet \<Rightarrow> int \<Rightarrow> rdb" where
  "outlet_map B m t = map_of (rev (map (\<lambda>(k, v, _). (k, RString v)) (map (\<lambda>(es, v). (B @ slashed es, v, t)) (outlet_values m))))"

lemma outlet_keys_distinct: "distinct (map (\<lambda>x. B @ slashed (fst x)) (outlet_values m))"
proof -
  have "inj_on (\<lambda>es. B @ slashed es) (fst ` set (outlet_values m))"
  proof (rule inj_onI)
    fix x y assume x: "x \<in> fst ` set (outlet_values m)" and y: "y \<in> fst ` set (outlet_values m)" and e: "B @ slashed x = B @ slashed y"
    obtain v where "(x, v) \<in> set (outlet_values m)" using x by (elim imageE) (metis prod.collapse)
    moreover obtain z where "(y, z) \<in> set (outlet_values m)" using y by (elim imageE) (metis prod.collapse)
    ultimately show "x = y" using slashed_inj [OF values_elem(1) values_elem(1)] e same_append_eq by metis
  qed
  then have "distinct (map (\<lambda>es. B @ slashed es) (map fst (outlet_values m)))"
    using values_distinct [of m] by (simp add: distinct_map comp_inj_on)
  then show ?thesis by (simp add: comp_def)
qed

lemma outlet_map_eq: "outlet_map B m t = map_of (map (\<lambda>x. (B @ slashed (fst x), RString (snd x))) (outlet_values m))"
  unfolding outlet_map_def using outlet_keys_distinct [of B m]
  by (subst map_of_rev_distinct) (simp_all add: comp_def case_prod_unfold)

lemma outlet_map_stored:
  assumes "(es, v) \<in> set (outlet_values m)"
  shows "outlet_map B m t (B @ slashed es) = Some (RString v)"
proof -
  have "(B @ slashed es, RString v) \<in> set (map (\<lambda>x. (B @ slashed (fst x), RString (snd x))) (outlet_values m))"
    using imageI [OF assms, of "\<lambda>x. (B @ slashed (fst x), RString (snd x))"] by (simp only: set_map fst_conv snd_conv)
  then show ?thesis unfolding outlet_map_eq using outlet_keys_distinct [of B m] by (intro map_of_is_SomeI) (simp_all add: comp_def)
qed

lemma outlet_map_outside: "\<not> under B k \<Longrightarrow> outlet_map B m t k = None"
proof -
  assume k: "\<not> under B k"
  have n: "k \<noteq> B @ slashed es" if "es \<noteq> []" for es using k that by (cases es) (auto simp: under_iff slashed_def)
  have "k \<notin> (\<lambda>x. B @ slashed (fst x)) ` set (outlet_values m)"
  proof (rule notI, elim imageE)
    fix x assume "k = B @ slashed (fst x)" "x \<in> set (outlet_values m)"
    then show False using n values_elem(2) [of "fst x" "snd x" m] by simp
  qed
  then show ?thesis unfolding outlet_map_eq by (simp add: map_of_eq_None_iff image_image)
qed

section \<open>The answer\<close>

lemma on_be_run: "m (be_world s) = (r, w) \<Longrightarrow> on_be m s = (r, s\<lparr>be_certs := (be_certs s)\<lparr>cs_world := w\<rparr>\<rparr>)"
  by (simp add: on_be_def on_certs_def on_cs_def)

lemma answer_writes_outlet: "answer_writes J polling (''/monitor/outlets/'' @ t) v xname pduID =
    Some (from_object v (jcOutlet J) (\<lambda>outlet. populateRedisForMonitorOutlet polling outlet xname pduID))"
  by (simp add: answer_writes_def HasPrefix_def)

lemma perform_outlet:
  assumes "GetBodyForHTTPRequest (pf_services P) J \<lparr> hr_Method = ''GET'', hr_FullURL = url @ ''/monitor/outlets/'' @ t, hr_ExpectedStatusCodes = [200],
      hr_Payload = None, hr_Auth = Some auth, hr_CustomHeaders = getSvcInstName (pf_services P) \<rparr> (be_world s) = (Ret (GObj fs, None), w1)"
      (is "?get (be_world s) = _")
    and "jcOutlet J fs = Inr m" "populateRedisForMonitorOutlet (jw_PollingEnabled s) m xname pduID = Inr ss"
    and "exec_sets (pf_redis P) (pf_more P) ss w1 = (Ret None, w2)" "rGet (pf_redis P) key w2 = (Ret r, w2)"
  shows "perform P J key xname pduID url auth (get_op (''/monitor/outlets/'' @ t)) s = (Ret r, s\<lparr>be_certs := (be_certs s)\<lparr>cs_world := w2\<rparr>\<rparr>)"
proof -
  have up: "jo_op (get_op p) = ''GET''" "jo_urlPath (get_op p) = p" "jo_expectedStatusCode (get_op p) = 200" "jo_payload (get_op p) = None" for p
    by (simp_all add: get_op_def)
  note 1 = on_be_run [of ?get s, OF assms(1)]
  let ?s1 = "s\<lparr>be_certs := (be_certs s)\<lparr>cs_world := w1\<rparr>\<rparr>" and ?s2 = "s\<lparr>be_certs := (be_certs s)\<lparr>cs_world := w2\<rparr>\<rparr>"
  have 2: "on_be (exec_sets (pf_redis P) (pf_more P) ss) ?s1 = (Ret None, ?s2)"
    using on_be_run [of "exec_sets (pf_redis P) (pf_more P) ss" ?s1] assms(4) by simp
  have 3: "on_be (rGet (pf_redis P) key) ?s2 = (Ret r, ?s2)" using on_be_run [of "rGet (pf_redis P) key" ?s2] assms(5) by simp
  have pe: "gets jw_PollingEnabled ?s1 = (Ret (jw_PollingEnabled s), ?s1)" by (simp add: gets_def)
  have fo: "from_object (GObj fs) (jcOutlet J) (\<lambda>outlet. populateRedisForMonitorOutlet (jw_PollingEnabled s) outlet xname pduID) = go_return (Inr ss)"
    by (simp add: from_object_def assms(2,3))
  have ng: "(GObj fs = GNil) = False" by simp
  show ?thesis
    by (simp only: perform_def Let_def up go_bind_apply 1 prod.case outcome.case option.case ng if_False pe answer_writes_outlet fo go_check_def go_return_apply
        sum.case 2 3)
qed

lemma known_env:
  assumes "map_of (jw_KnownDevices s) xname = Some device" "dv_Xname device = xname"
    and "key_from RackPDUsKeyspace key = Some (RackPDUsKeyspace @ CHR ''/'' # pduID @ CHR ''/'' # dk)" "CHR ''/'' # pduID @ CHR ''/'' # dk \<noteq> key" "plain pduID"
  shows "jaws_RunBackendHelper P J key (fst (jaws_GetEnvForXname xname s)) s =
    go_check (jaws_operation J xname pduID dk (fst (jaws_GetEnvForXname xname s))) (perform P J key xname pduID (dv_URL device) (dv_Username device, dv_Password device)) s"
proof -
  let ?env = "fst (jaws_GetEnvForXname xname s)"
  have env: "map_of ?env ''RTS_URL'' = Some (dv_URL device)" "map_of ?env ''RTS_USERNAME'' = Some (dv_Username device)"
      "map_of ?env ''RTS_PASSWORD'' = Some (dv_Password device)" "map_of ?env ''RTS_XNAME'' = Some xname"
    using assms(1,2) by (simp_all add: jaws_GetEnvForXname_def)
  have kn: "(map_of (jw_KnownDevices s) xname = None) = False" using assms(1) by simp
  have tp: "TrimPrefix (CHR ''/'' # a) ''/'' = a" for a using TrimPrefix_append [of "''/''" a] by simp
  have ne: "(CHR ''/'' # pduID @ CHR ''/'' # dk = key) = False" using assms(4) by simp
  show ?thesis
    by (simp only: jaws_RunBackendHelper_def env option.case kn if_False assms(3) Let_def TrimPrefix_append ne tp split_key_plain [OF assms(5)] prod.case)
qed

section \<open>Properties\<close>

text \<open>
  C21. A monitored value of an outlet is read through: a request for a key of an outlet of a known device
  asks the device for that outlet, under the name it has there, and returns the value that the answer has
  for that key, for every value that is kept of the monitoring of an outlet. Afterwards Redis has each of
  the values of the answer under its key, and no key outside the outlet has changed. (The restore policy,
  which comes from the configuration of the outlet, is not among these values.)
\<close>

theorem outlet_read_through:
  assumes "redis_timed (pf_redis P) view (pf_more P)"
    and "map_of (jw_KnownDevices s) xname = Some device" "dv_Xname device = xname" "plain xname" "plain pduID" "list_all (\<lambda>c. \<not> is_space c) (pduID @ u)"
    and "length u = 2" "CHR ''/'' \<notin> set u" "0 \<le> n" "n < 2 ^ 63"
    and "GetBodyForHTTPRequest (pf_services P) J ((base_request (pf_services P) device)\<lparr>hr_FullURL := dv_URL device @ ''/monitor/outlets/'' @ u @ FormatInt n\<rparr>)
      (be_world s) = (Ret (GObj fs, None), w1)" "view w1 = view (be_world s)"
    and "jcOutlet J fs = Inr m" "mo_ID m = u @ FormatInt n" "(es, v) \<in> set (outlet_values m)"
  shows "\<exists>s'. jaws_RunBackendHelper P J (outlet_key xname pduID (u @ two_digits n) @ slashed es) (fst (jaws_GetEnvForXname xname s)) s = (Ret (Inr v), s') \<and>
    (\<forall>(es', v') \<in> set (outlet_values m). view (be_world s') (outlet_key xname pduID (u @ two_digits n) @ slashed es') = Some (RString v')) \<and>
    (\<forall>k. \<not> under (outlet_key xname pduID (u @ two_digits n)) k \<longrightarrow> view (be_world s') k = view (be_world s) k)"
proof -
  let ?R = "pf_redis P" and ?V = "pf_services P" and ?on = "u @ two_digits n"
  let ?B = "outlet_key xname pduID ?on" and ?dk = "''Outlets/'' @ ?on @ slashed es" and ?path = "''/monitor/outlets/'' @ u @ FormatInt n"
  note R = redis_timed.axioms(1) [OF assms(1)]
  note e = values_elem [OF assms(15)]
  have on: "plain ?on" by (rule two_digits_plain [OF assms(9,7,8)])
  have key: "?B @ slashed es = xname @ RackPDUsKeyspace @ CHR ''/'' # pduID @ CHR ''/'' # ?dk" by (simp add: outlet_key_def slashed_def)
  have sp: "list_all (\<lambda>c. \<not> is_space c) (CHR ''/'' # pduID @ CHR ''/'' # ?dk)"
    using assms(6) two_digits_no_space [OF assms(9)] slashed_no_space [OF e(5)] outlets_no_space by (simp only: list.pred_inject list_all_append simp_thms)
  have k: "key_from RackPDUsKeyspace (?B @ slashed es) = Some (RackPDUsKeyspace @ CHR ''/'' # pduID @ CHR ''/'' # ?dk)"
    unfolding key by (rule key_from_xname [OF assms(4) _ sp]) simp
  have ne: "CHR ''/'' # pduID @ CHR ''/'' # ?dk \<noteq> ?B @ slashed es" unfolding key using assms(4) by (auto simp: plain_def Cons_eq_append_conv)
  have w: "populateRedisForMonitorOutlet (jw_PollingEnabled s) m xname pduID =
      Inr (map (\<lambda>(es, v). (?B @ slashed es, v, timeout_of (jw_PollingEnabled s) (10 * second))) (outlet_values m))" (is "_ = Inr ?ss")
    using outlet_writes [OF assms(4,5) on] jaws_to_redfish [OF assms(7,9,10)] assms(14) by simp
  let ?M = "outlet_map ?B m (timeout_of (jw_PollingEnabled s) (10 * second))"
  obtain w2 where 2: "exec_sets ?R (pf_more P) ?ss w1 = (Ret None, w2)" and "view w2 = view w1 ++ map_of (rev (map (\<lambda>(k, v, _). (k, RString v)) ?ss))"
    by (rule redis_timed.sets_run [OF assms(1)])
  then have v2: "view w2 = view w1 ++ ?M" by (simp only: outlet_map_def)
  have stored: "view w2 (?B @ slashed es') = Some (RString v')" if "(es', v') \<in> set (outlet_values m)" for es' v'
    by (simp only: v2 map_add_def outlet_map_stored [OF that] option.case)
  note v = stored [OF assms(15)]
  have g: "rGet ?R (?B @ slashed es) w2 = (Ret (Inr v), w2)" by (simp only: redis_server.get_law [OF R] v get_result.simps)
  let ?s' = "s\<lparr>be_certs := (be_certs s)\<lparr>cs_world := w2\<rparr>\<rparr>"
  have "jaws_RunBackendHelper P J (?B @ slashed es) (fst (jaws_GetEnvForXname xname s)) s = (Ret (Inr v), ?s')"
    using known_env [OF assms(2,3) k ne assms(5), of P J] outlet_request [OF assms(7,9,10,8) e(1-4), of J xname pduID "fst (jaws_GetEnvForXname xname s)" s]
      perform_outlet [OF assms(11) [unfolded base_request_def HTTPRequest.simps] assms(13) w 2 g]
    by (simp only: go_check_def go_bind_apply prod.case outcome.case sum.case)
  moreover have "view (be_world ?s') k = view (be_world s) k" if "\<not> under ?B k" for k
    using outlet_map_outside [OF that] assms(12) by (simp add: v2 map_add_def)
  moreover have "\<forall>(es', v') \<in> set (outlet_values m). view (be_world ?s') (?B @ slashed es') = Some (RString v')"
  proof (intro ballI, split prod.split, intro allI impI)
    fix x es' v' assume x: "x \<in> set (outlet_values m)" "x = (es', v')"
    have "(es', v') \<in> set (outlet_values m)" using x by (simp only:)
    from stored [OF this] show "view (be_world ?s') (?B @ slashed es') = Some (RString v')" by simp
  qed
  ultimately show ?thesis by (intro exI conjI allI impI)
qed

text \<open>A unit with one outlet, which answers every request with the state of that outlet.\<close>

definition ex_outlet :: MonitorOutlet where
  "ex_outlet = \<lparr> mo_ID = ''AA1'', mo_Name = ''n'', mo_ActivePower = 5, mo_ActivePowerStatus = ''Normal'', mo_ApparentPower = 6, mo_BranchID = ''AA'',
     mo_ControlState = ''On'', mo_CrestFactor = 1, mo_Current = 2, mo_CurrentCapacity = 16, mo_CurrentStatus = ''Normal'', mo_CurrentUtilized = 1,
     mo_Energy = 7, mo_OCPID = [], mo_PhaseID = [], mo_PowerCapacity = 8, mo_PowerFactor = 1, mo_PowerFactorStatus = ''Normal'', mo_Reactance = [],
     mo_SocketAdapter = [], mo_SocketType = [], mo_State = ''On'', mo_Status = ''Normal'', mo_Voltage = 208 \<rparr>"

definition ex_codec :: jaws_codec where
  "ex_codec =
     \<lparr> jcUnmarshal = (\<lambda>_. Inr (GObj [])), jcUnits = (\<lambda>_. Inl (Err ''no'')), jcMonitorUnits = (\<lambda>_. Inl (Err ''no'')), jcBranches = (\<lambda>_. Inl (Err ''no'')),
       jcLines = (\<lambda>_. Inl (Err ''no'')), jcPhases = (\<lambda>_. Inl (Err ''no'')), jcOutlets = (\<lambda>_. Inr [ex_outlet]), jcConfigOutlets = (\<lambda>_. Inr []),
       jcOutletGroups = (\<lambda>_. Inr []), jcTemperatures = (\<lambda>_. Inr []), jcHumidities = (\<lambda>_. Inr []), jcBranch = (\<lambda>_. Inl (Err ''no'')),
       jcOutlet = (\<lambda>_. Inr ex_outlet), jcConfigOutlet = (\<lambda>_. Inl (Err ''no'')), jcTemperature = (\<lambda>_. Inl (Err ''no'')),
       jcHumidity = (\<lambda>_. Inl (Err ''no'')), jcMarshalGroup = (\<lambda>_. Inr []), jcMarshalMap = (\<lambda>_. Inr []), jcUnmarshalMap = (\<lambda>_. Inr []) \<rparr>"

definition ex_pdu_platform :: "(mem, unit, string) platform" where
  "ex_pdu_platform = ex_platform\<lparr>pf_services := (pf_services ex_platform)\<lparr>sDo := (\<lambda>_. go_return (Inr (200, Inr ''{}'')))\<rparr>\<rparr>"

definition ex_pdus :: "(mem, string) JAWSBackedHelper" where
  "ex_pdus = \<lparr> be_certs = ex_service, be_pipe = None, jw_KeyPath = ''k'',
     jw_KnownDevices = [(''x0m0'', \<lparr> dv_Xname = ''x0m0'', dv_URL = ''https://pdu/jaws'', dv_Username = ''u'', dv_Password = ''p'' \<rparr>)],
     jw_PollingEnabled = False, jw_PollingInterval = 0, jw_PollingWorkers = 0, jw_PollingTemperatureInterval = 0, jw_PollingHumidityInterval = 0, jw_RFEventID = 0 \<rparr>"

theorem outlet_read_through_witness:
  "\<exists>s'. jaws_RunBackendHelper ex_pdu_platform ex_codec (outlet_key ''x0m0'' ''A'' ''AA01'' @ slashed [''PowerState''])
      (fst (jaws_GetEnvForXname ''x0m0'' ex_pdus)) ex_pdus = (Ret (Inr ''On''), s')"
proof -
  let ?d = "\<lparr> dv_Xname = ''x0m0'', dv_URL = ''https://pdu/jaws'', dv_Username = ''u'', dv_Password = ''p'' \<rparr>"
  have f: "FormatInt 1 = ''1''" "two_digits 1 = ''01''" by code_simp+
  have "redis_timed (pf_redis ex_pdu_platform) mem_view (pf_more ex_pdu_platform)"
    using mt.redis_timed_axioms by (simp add: ex_pdu_platform_def ex_platform_def)
  moreover have "GetBodyForHTTPRequest (pf_services ex_pdu_platform) ex_codec
      ((base_request (pf_services ex_pdu_platform) ?d)\<lparr>hr_FullURL := dv_URL ?d @ ''/monitor/outlets/'' @ ''AA'' @ FormatInt 1\<rparr>) (be_world ex_pdus) =
      (Ret (GObj [], None), be_world ex_pdus)"
    by (simp add: GetBodyForHTTPRequest_def DoHTTPAction_def base_request_def ex_pdu_platform_def ex_platform_def ex_codec_def go_bind_apply)
  moreover have "map_of (jw_KnownDevices ex_pdus) ''x0m0'' = Some ?d" by (simp add: ex_pdus_def)
  moreover have "jcOutlet ex_codec [] = Inr ex_outlet" "mo_ID ex_outlet = ''AA'' @ FormatInt 1" by (simp_all add: ex_codec_def ex_outlet_def f)
  moreover have "([''PowerState''], ''On'') \<in> set (outlet_values ex_outlet)" by (simp add: outlet_values_def ex_outlet_def)
  ultimately show ?thesis
    using outlet_read_through [of ex_pdu_platform mem_view ex_pdus "''x0m0''" ?d "''A''" "''AA''" 1 ex_codec "[]" "be_world ex_pdus" ex_outlet "[''PowerState'']" "''On''"]
    by (simp add: plain_def is_space_def f) (elim exE conjE, intro exI)
qed

end
