(* ===== verification/Cloud_Backend.thy ===== *)
theory Cloud_Backend
  imports Simulator_Backend
begin

text \<open>
  The backend for virtual machines of a cloud (\<open>internal/backend_helpers/gcloud.go\<close>). The compute service
  and the metadata server are a record of functions. An instance is never changed once it is listed, so
  it is a value; the pointer that a lookup returns is an option. \<open>gc_KnownInstances\<close> lists a map in the
  order of its iteration, as do the scopes of a page of the listing.
\<close>

section \<open>The compute service\<close>

text \<open>The fields of an instance that the backend reads.\<close>

record Instance =
  in_Name :: string
  in_Status :: string
  in_Zone :: string
  in_Labels :: "(string \<times> string) list"

text \<open>A page: the instances of each scope, and the token of the next page, which is empty at the end.\<close>

type_synonym instance_page = "Instance list list \<times> string"

text \<open>A listing takes the project, the filter and the token of the page; an operation the project, the zone and the name.\<close>

record 'w compute_ops =
  gcList :: "string \<Rightarrow> string \<Rightarrow> string \<Rightarrow> ('w, go_error + instance_page) go"
  gcStart :: "string \<Rightarrow> string \<Rightarrow> string \<Rightarrow> ('w, go_error option) go"
  gcStop :: "string \<Rightarrow> string \<Rightarrow> string \<Rightarrow> ('w, go_error option) go"
  gcReset :: "string \<Rightarrow> string \<Rightarrow> string \<Rightarrow> ('w, go_error option) go"
  gcProjectID :: "('w, go_error + string) go"
  gcNewService :: "('w, go_error option) go"

record ('w, 't) GCloudHelper = "('w, 't) backend" +
  gc_project :: string
  gc_namespace :: string
  gc_KnownInstances :: "(string \<times> Instance) list"
  gc_waitReady :: "string \<rightharpoonup> 64 word"
  gc_informHSM :: "string \<rightharpoonup> 64 word"
  gc_KeyPath :: string
  gc_RFEventID :: "64 word"

definition translateGCloudStatusToRF :: "string \<Rightarrow> string" where
  "translateGCloudStatusToRF status =
     (if status = ''RUNNING'' then ''On''
      else if List.member [''PROVISIONING'', ''STAGING''] status then ''PoweringOn''
      else if List.member [''STOPPING'', ''SUSPENDING''] status then ''PoweringOff''
      else if List.member [''STOPPED'', ''SUSPENDED'', ''TERMINATED''] status then ''Off''
      else ''UNKNOWN'')"

text \<open>The metadata server is asked until it answers; the fuel counts the attempts.\<close>

fun ask_project :: "('w, 'e, 't) platform \<Rightarrow> 'w compute_ops \<Rightarrow> nat \<Rightarrow> ('w, string) go" where
  "ask_project P G 0 = go_nofuel"
| "ask_project P G (Suc n) = go_bind (gcProjectID G) (\<lambda>r. case r of
      Inl _ \<Rightarrow> go_bind (pf_sleep P) (\<lambda>_. ask_project P G n)
    | Inr project \<Rightarrow> go_return project)"

definition getProjectID :: "('w, 'e, 't) platform \<Rightarrow> 'w compute_ops \<Rightarrow> nat \<Rightarrow> ('w, string) go" where
  "getProjectID P G n = (case LookupEnv (pf_services P) ''GCLOUD_PROJECT'' of
      Some project \<Rightarrow> go_return project
    | None \<Rightarrow> ask_project P G n)"

text \<open>The pages of a listing (\<open>Pages\<close> of the client library), each handled before the next is asked for; the fuel bounds their number.\<close>

fun pages :: "nat \<Rightarrow> (string \<Rightarrow> ('s, go_error + instance_page) go) \<Rightarrow> ('a \<Rightarrow> Instance list list \<Rightarrow> ('s, 'a) go) \<Rightarrow> string \<Rightarrow> 'a \<Rightarrow> ('s, go_error + 'a) go" where
  "pages 0 fetch handle token a = go_nofuel"
| "pages (Suc n) fetch handle token a =
     go_check (fetch token) (\<lambda>(items, nextToken). go_bind (handle a items) (\<lambda>b.
       if nextToken = [] then go_return (Inr b) else pages n fetch handle nextToken b))"

text \<open>The first instance of the first scope that has one.\<close>

fun pick_instance :: "Instance option \<Rightarrow> Instance list list \<Rightarrow> Instance option" where
  "pick_instance found [] = found"
| "pick_instance found (scope # scopes) = (case scope of
      i # _ \<Rightarrow> Some i
    | [] \<Rightarrow> if found = None then pick_instance found scopes else found)"

definition findInstanceByXname :: "'w compute_ops \<Rightarrow> nat \<Rightarrow> string \<Rightarrow> (('w, 't) GCloudHelper, go_error + Instance) go" where
  "findInstanceByXname G n xname =
     go_bind (gets gc_project) (\<lambda>project.
     go_check (pages n (\<lambda>token. on_be (gcList G project (''labels.xname = '' @ xname) token)) (\<lambda>found items. go_return (pick_instance found items)) [] None)
       (\<lambda>found. go_return (case found of
           None \<Rightarrow> Inl (Err ''no instance with specified xname was found.'')
         | Some i \<Rightarrow> Inr i)))"

section \<open>Initialisation of an instance\<close>

definition gc_initSystem :: "'w redis_ops \<Rightarrow> string \<Rightarrow> ('w hstate, go_error option) go" where
  "gc_initSystem R xname =
     go_bind (addMemberToSet R (filepath_Join [xname, ServiceRootKeyspace]) ''Systems'') (\<lambda>(systemKeyspace, _).
     go_bind (calls
       [setValueForPropertyInKeyspace R systemKeyspace ''Name'' ''Computer System Collection'',
        addMemberToSet R systemKeyspace ''@odata.id'',
        addMemberToSet R systemKeyspace ''@odata.type'',
        addMemberToSet R systemKeyspace ''Members'']) (\<lambda>_.
     go_bind (addMemberToArray R systemKeyspace ''Members'') (\<lambda>(thisMemberKeyspace, addErr). case addErr of
         Some _ \<Rightarrow> go_return (Some (Err (''unable to add member to array for instance: '' @ xname)))
       | None \<Rightarrow>
           (let newInstanceKeyspace = systemKeyspace @ ''/Self'' in
            go_bind (calls
              [setValueForPropertyInKeyspace R thisMemberKeyspace ''@odata.id'' newInstanceKeyspace,
               addMemberToSet R newInstanceKeyspace ''@odata.id'',
               addMemberToSet R newInstanceKeyspace ''@odata.type'',
               setValueForPropertyInKeyspace R newInstanceKeyspace ''Name'' ''Computer System Chassis'',
               setValueForPropertyInKeyspace R newInstanceKeyspace ''Id'' ''Self'',
               setValueForPropertyInKeyspace R newInstanceKeyspace ''Manufacturer'' ''Cray, Inc.'',
               setValueForPropertyInKeyspace R newInstanceKeyspace ''Model'' ''Google Cloud'',
               addMemberToSet R newInstanceKeyspace ''PowerState'']) (\<lambda>_.
            go_bind (addMemberToSet R newInstanceKeyspace ''Actions'') (\<lambda>(actionsKeyspace, addErr). case addErr of
                Some _ \<Rightarrow> go_return (Some (Err (''unable to add Actions to instance '' @ xname)))
              | None \<Rightarrow>
                  go_bind (addMemberToSet R actionsKeyspace ''#ComputerSystem.Reset'') (\<lambda>(resetKeyspace, _).
                  go_bind (setValueForPropertyInKeyspace R resetKeyspace ''target''
                      (filepath_Join [actionsKeyspace, ''ComputerSystem.Reset''])) (\<lambda>_.
                  go_bind (addMemberToSet R resetKeyspace ''ResetType@Redfish.AllowableValues'') (\<lambda>(allowableValuesKeyspace, addErr).
                    case addErr of
                      Some _ \<Rightarrow> go_return (Some (Err (''unable to add AllowableValues to ResetType for xname '' @ xname)))
                    | None \<Rightarrow> go_bind (on_world (rRPush R allowableValuesKeyspace [''On'', ''GracefulShutdown'', ''ForceRestart''])) (\<lambda>_.
                        go_return None))))))))))"

definition gc_initChassis :: "'w redis_ops \<Rightarrow> string \<Rightarrow> ('w hstate, go_error option) go" where
  "gc_initChassis R xname =
     go_bind (addMemberToSet R (filepath_Join [xname, ServiceRootKeyspace]) ''Chassis'') (\<lambda>(chassisKeyspace, _).
     go_bind (calls
       [setValueForPropertyInKeyspace R chassisKeyspace ''Name'' ''Chassis Collection'',
        addMemberToSet R chassisKeyspace ''@odata.id'',
        addMemberToSet R chassisKeyspace ''@odata.type'',
        addMemberToSet R chassisKeyspace ''Members'']) (\<lambda>_.
     go_bind (addMemberToArray R chassisKeyspace ''Members'') (\<lambda>(thisMemberKeyspace, addErr). case addErr of
         Some _ \<Rightarrow> go_return (Some (Err (''unable to add member to array for instance: '' @ xname)))
       | None \<Rightarrow>
           (let newInstanceKeyspace = chassisKeyspace @ ''/Self'' in
            go_bind (calls
              [setValueForPropertyInKeyspace R thisMemberKeyspace ''@odata.id'' newInstanceKeyspace,
               addMemberToSet R newInstanceKeyspace ''@odata.id'',
               addMemberToSet R newInstanceKeyspace ''@odata.type'',
               setValueForPropertyInKeyspace R newInstanceKeyspace ''Name'' ''Computer System Chassis'',
               setValueForPropertyInKeyspace R newInstanceKeyspace ''Id'' ''Self'',
               setValueForPropertyInKeyspace R newInstanceKeyspace ''Manufacturer'' ''Cray, Inc.'',
               setValueForPropertyInKeyspace R newInstanceKeyspace ''Model'' ''Google Cloud'']) (\<lambda>_.
            go_bind (addMemberToSet R newInstanceKeyspace ''Links'') (\<lambda>(linksKeyspace, _).
            go_bind (addMemberToArray R linksKeyspace ''ComputerSystems'') (\<lambda>(systemsKeyspace, _).
            go_bind (setValueForPropertyInKeyspace R systemsKeyspace ''@odata.id'' (filepath_Join [SystemsKeyspace, ''Self''])) (\<lambda>_.
              go_return None))))))))"

definition gc_initManagers :: "'w redis_ops \<Rightarrow> string \<Rightarrow> ('w hstate, go_error option) go" where
  "gc_initManagers R xname =
     go_bind (initManagerCollection R xname) (\<lambda>err. case err of
         Some e \<Rightarrow> go_return (Some (Err (''unable to init manager collection for '' @ xname @ '': '' @ Error e)))
       | None \<Rightarrow> go_bind (initManager R xname ''RTS'' ''Google Cloud'') (\<lambda>err. go_return (case err of
           Some e \<Rightarrow> Some (Err (''unable to init manager for '' @ xname @ '': '' @ Error e))
         | None \<Rightarrow> None)))"

definition gc_root_keys :: "'w redis_ops \<Rightarrow> string option \<Rightarrow> ('w hstate, unit) go" where
  "gc_root_keys R version =
     go_bind (addMemberToSet R ''/redfish'' ''v1'') (\<lambda>(rootKeyspace, _).
       calls ([setValueForPropertyInKeyspace R rootKeyspace ''Name'' ''Service Root'',
          setValueForPropertyInKeyspace R rootKeyspace ''Description'' ''The Redfish ServiceRoot'',
          addMemberToSet R rootKeyspace ''@odata.id'',
          addMemberToSet R rootKeyspace ''@odata.type''] @
         (case version of None \<Rightarrow> [] | Some versionStr \<Rightarrow> [setValueForPropertyInKeyspace R rootKeyspace ''RedfishVersion'' versionStr]) @
         [addMemberToSet R rootKeyspace ''Chassis'', addMemberToSet R rootKeyspace ''Systems'', addMemberToSet R rootKeyspace ''Managers'']))"

text \<open>The credentials of the service are stored for an instance; without any the process ends.\<close>

definition store_creds :: "('w, 'e, 't) platform \<Rightarrow> string \<Rightarrow> (('w, 't) GCloudHelper, go_error option) go" where
  "store_creds P xname =
     go_bind (gets gc_KeyPath) (\<lambda>keyPath.
     go_bind (on_be (GetGlobalCredentials P keyPath)) (\<lambda>g. case g of
         Inl e \<Rightarrow> go_fatal ''Unable to get default credentails for RTS''
       | Inr creds \<Rightarrow>
           go_bind (on_be (StoreCompCred (pf_services P) \<lparr> cc_Xname = xname, cc_URL = xname @ '':8083'', cc_Username = cr_Username creds,
               cc_Password = cr_Password creds, cc_SNMPAuthPass = [], cc_SNMPPrivPass = [] \<rparr>)) (\<lambda>r. go_return (case r of
             Inl e \<Rightarrow> Some (Err (''unable to store credentials in Vault: '' @ Error e))
           | Inr _ \<Rightarrow> None))))"

definition write_instance :: "('w, 'e, 't) platform \<Rightarrow> string \<Rightarrow> (('w, 't) GCloudHelper, go_error option) go" where
  "write_instance P xname =
     (let R = pf_redis P in
      go_bind (on_helper (removeXnamePrependedKeys R (pf_more P) xname)) (\<lambda>removeErr. case removeErr of
          Some e \<Rightarrow> go_return (Some (Err (''unable to remove keys from Redis: '' @ Error e)))
        | None \<Rightarrow>
            go_bind (on_helper (gc_root_keys R (LookupEnv (pf_services P) ''SCHEMA_VERSION''))) (\<lambda>_.
            go_bind (set_pipe (Some [])) (\<lambda>_.
            go_bind (until_error
              [on_helper (gc_initChassis R xname), on_helper (gc_initSystem R xname), on_helper (gc_initManagers R xname)]) (\<lambda>err. case err of
                Some e \<Rightarrow> go_bind (set_pipe None) (\<lambda>_. go_return (Some e))
              | None \<Rightarrow>
                  go_bind (gets (\<lambda>s. case be_pipe s of Some q \<Rightarrow> q | None \<Rightarrow> [])) (\<lambda>q.
                  go_bind (on_be (Exec R q)) (\<lambda>err.
                  go_bind (set_pipe None) (\<lambda>_. case err of
                      Some e \<Rightarrow> go_return (Some e)
                    | None \<Rightarrow>
                        go_bind (on_certs (InitForXName R (pf_crypto P) (pf_storage P) xname)) (\<lambda>err. case err of
                            Some e \<Rightarrow> go_return (Some e)
                          | None \<Rightarrow> store_creds P xname)))))))))"

definition publish_instance :: "('w, 'e) services \<Rightarrow> string \<Rightarrow> (('w, 't) GCloudHelper, unit) go" where
  "publish_instance V xname = go_bind (gets (\<lambda>s. gc_informHSM s xname)) (\<lambda>count. case count of
      None \<Rightarrow> go_return ()
    | Some c \<Rightarrow> go_bind (on_be (informHSM V xname)) (\<lambda>hsmErr. modifies (\<lambda>s. case hsmErr of
        Some _ \<Rightarrow> s\<lparr>gc_informHSM := (gc_informHSM s)(xname \<mapsto> c + 1)\<rparr>
      | None \<Rightarrow> s\<lparr>gc_informHSM := (gc_informHSM s)(xname := None)\<rparr>)))"

definition initInstance :: "('w, 'e, 't) platform \<Rightarrow> Instance \<Rightarrow> (('w, 't) GCloudHelper, go_error option) go" where
  "initInstance P i =
     (let V = pf_services P; xname = (case map_of (in_Labels i) ''xname'' of None \<Rightarrow> [] | Some x \<Rightarrow> x) in
      go_bind (gets (\<lambda>s. gc_waitReady s xname)) (\<lambda>count.
      go_bind (if count = None \<or> count = Some 0 then write_instance P xname else go_return None) (\<lambda>err. case err of
          Some e \<Rightarrow> go_return (Some e)
        | None \<Rightarrow> (case count of
            None \<Rightarrow> go_bind (publish_instance V xname) (\<lambda>_. go_return None)
          | Some c \<Rightarrow> go_bind (on_be (checkReady V xname)) (\<lambda>err. case err of
              Some _ \<Rightarrow> go_bind (modifies (\<lambda>s. s\<lparr>gc_waitReady := (gc_waitReady s)(xname \<mapsto> c + 1)\<rparr>)) (\<lambda>_. go_return None)
            | None \<Rightarrow>
                go_bind (modifies (\<lambda>s. s\<lparr>gc_waitReady := (gc_waitReady s)(xname := None)\<rparr>)) (\<lambda>_.
                go_bind (publish_instance V xname) (\<lambda>_. go_return None)))))))"

section \<open>The interface of a backend\<close>

definition report_status :: "('w, 'e) services \<Rightarrow> string \<Rightarrow> string \<Rightarrow> (('w, 't) GCloudHelper, unit) go" where
  "report_status V xname status =
     go_bind (gets gc_RFEventID) (\<lambda>n.
     go_bind (on_be (postRFPowerEvent V n xname (filepath_Join [SystemsKeyspace, ''Self'']) (translateGCloudStatusToRF status))) (\<lambda>(n', _).
       modifies (\<lambda>s. s\<lparr>gc_RFEventID := n'\<rparr>)))"

text \<open>An instance that is new, or whose initialisation is not complete, is initialised; the errors are dropped.\<close>

definition refresh_instance :: "('w, 'e, 't) platform \<Rightarrow> string \<Rightarrow> Instance \<Rightarrow> Instance option \<Rightarrow> bool \<Rightarrow> (('w, 't) GCloudHelper, unit) go" where
  "refresh_instance P xname i known pending = (case known of
      None \<Rightarrow> go_bind (initInstance P i) (\<lambda>_. go_return ())
    | Some k \<Rightarrow>
        if pending then go_bind (initInstance P i) (\<lambda>_. go_return ())
        else go_bind (store_creds P xname) (\<lambda>_.
          if in_Status k \<noteq> in_Status i then report_status (pf_services P) xname (in_Status i) else go_return ()))"

text \<open>The instance is known afterwards in any case. A nil pointer has no labels: it is a panic.\<close>

definition updateKnownInstance :: "('w, 'e, 't) platform \<Rightarrow> Instance option \<Rightarrow> (('w, 't) GCloudHelper, unit) go" where
  "updateKnownInstance P pointer = (case pointer of
      None \<Rightarrow> go_panic ''invalid memory address or nil pointer dereference''
    | Some i \<Rightarrow> (case map_of (in_Labels i) ''xname'' of
        None \<Rightarrow> go_return ()
      | Some xname \<Rightarrow>
          go_bind (gets (\<lambda>s. map_of (gc_KnownInstances s) xname)) (\<lambda>known.
          go_bind (gets (\<lambda>s. gc_waitReady s xname \<noteq> None \<or> gc_informHSM s xname \<noteq> None)) (\<lambda>pending.
          go_bind (refresh_instance P xname i known pending) (\<lambda>_.
            modifies (\<lambda>s. s\<lparr>gc_KnownInstances := AList.update xname i (gc_KnownInstances s)\<rparr>))))))"

definition see_instance :: "('w, 'e, 't) platform \<Rightarrow> string list \<Rightarrow> Instance \<Rightarrow> (('w, 't) GCloudHelper, string list) go" where
  "see_instance P seen i = (case map_of (in_Labels i) ''xname'' of
      None \<Rightarrow> go_return seen
    | Some xname \<Rightarrow>
        go_bind (gets gc_namespace) (\<lambda>namespace.
        go_bind (on_be (addXNameService (pf_services P) namespace xname)) (\<lambda>(created, _).
        go_bind (modifies (\<lambda>s. if created then s\<lparr>gc_waitReady := (gc_waitReady s)(xname \<mapsto> 0), gc_informHSM := (gc_informHSM s)(xname \<mapsto> 0)\<rparr> else s)) (\<lambda>_.
        go_bind (updateKnownInstance P (Some i)) (\<lambda>_. go_return (xname # seen))))))"

fun see_instances :: "('w, 'e, 't) platform \<Rightarrow> string list \<Rightarrow> Instance list \<Rightarrow> (('w, 't) GCloudHelper, string list) go" where
  "see_instances P seen [] = go_return seen"
| "see_instances P seen (i # is) = go_bind (see_instance P seen i) (\<lambda>seen'. see_instances P seen' is)"

definition see_page :: "('w, 'e, 't) platform \<Rightarrow> string list \<Rightarrow> Instance list list \<Rightarrow> (('w, 't) GCloudHelper, string list) go" where
  "see_page P seen items = see_instances P seen (concat items)"

definition forget :: "('w, 'e) services \<Rightarrow> string list \<Rightarrow> string \<Rightarrow> (('w, 't) GCloudHelper, unit) go" where
  "forget V seen k = (if List.member seen k then go_return ()
     else go_bind (modifies (\<lambda>s. s\<lparr>gc_KnownInstances := AList.delete k (gc_KnownInstances s)\<rparr>)) (\<lambda>_.
       go_bind (on_be (deleteFromHSM V k)) (\<lambda>_. go_return ())))"

definition gc_RunPeriodic :: "('w, 'e, 't) platform \<Rightarrow> 'w compute_ops \<Rightarrow> nat \<Rightarrow> (('w, 't) GCloudHelper, go_error option) go" where
  "gc_RunPeriodic P G n =
     go_bind (gets gc_project) (\<lambda>project.
     go_bind (pages n (\<lambda>token. on_be (gcList G project [] token)) (see_page P) [] []) (\<lambda>r. case r of
         Inl e \<Rightarrow> go_return (Some e)
       | Inr seen \<Rightarrow> go_bind (gets (\<lambda>s. map fst (gc_KnownInstances s))) (\<lambda>ks.
           go_bind (go_each (forget (pf_services P) seen) ks) (\<lambda>_. go_return None))))"

definition gc_SetupBackendHelper :: "('w, 'e, 't) platform \<Rightarrow> 'w compute_ops \<Rightarrow> nat \<Rightarrow> (('w, 't) GCloudHelper, go_error option) go" where
  "gc_SetupBackendHelper P G n =
     (let V = pf_services P in
      go_bind (on_be (getProjectID P G n)) (\<lambda>project.
      go_bind (modifies (\<lambda>s. s\<lparr>gc_project := project, gc_namespace := (case LookupEnv V ''XNAME_NAMESPACE'' of None \<Rightarrow> ''services'' | Some x \<Rightarrow> x),
          gc_waitReady := Map.empty, gc_informHSM := Map.empty\<rparr>)) (\<lambda>_.
      go_bind (on_be (gcNewService G)) (\<lambda>serviceErr. case serviceErr of
          Some e \<Rightarrow> go_fatal (''unable to setup new compute service: '' @ Error e)
        | None \<Rightarrow> (case LookupEnv V ''JAWS_VAULT_KEYPATH'' of
            None \<Rightarrow> go_fatal ''Environment variable JAWS_VAULT_KEYPATH was not set''
          | Some keyPath \<Rightarrow>
              go_bind (on_be (connectToVault V (pf_vault P) n)) (\<lambda>connected.
                if \<not> connected then go_fatal ''Unable to connect to Vault''
                else if \<not> setupCompCredsVault V then go_fatal ''Failed to setup CompCredsVault''
                else go_bind (on_certs (SetupCertificateService ''RTS'' GenericCertificateID)) (\<lambda>err. case err of
                    Some e \<Rightarrow> go_return (Some e)
                  | None \<Rightarrow>
                      go_bind (modifies (\<lambda>s. s\<lparr>gc_KeyPath := keyPath\<rparr>)) (\<lambda>_.
                      go_bind (on_be (GetGlobalCredentials P keyPath)) (\<lambda>g. case g of
                          Inl e \<Rightarrow> go_fatal ''Unable to get default credentails for RTS''
                        | Inr creds \<Rightarrow>
                            on_helper (initAccount (pf_redis P) (pf_hash P (cr_Password creds)) (cr_Username creds) ''Administrator''))))))))))"

definition gc_GetEnvForXname :: "string \<Rightarrow> ('w, 't) GCloudHelper \<Rightarrow> (string \<times> string) list \<times> go_error option" where
  "gc_GetEnvForXname xname s = (case map_of (gc_KnownInstances s) xname of
      Some device \<Rightarrow> ([(''RTS_XNAME'', case map_of (in_Labels device) ''xname'' of None \<Rightarrow> [] | Some x \<Rightarrow> x)], None)
    | None \<Rightarrow> ([], Some (Err ''unable to find xname in instance list'')))"

section \<open>Requests\<close>

definition zone_of :: "Instance \<Rightarrow> string" where
  "zone_of i = last (Split1 (in_Zone i) CHR ''/'')"

text \<open>After an operation the cached power state is removed, whether or not the operation succeeded.\<close>

definition gc_reset :: "('w, 'e, 't) platform \<Rightarrow> 'w compute_ops \<Rightarrow> string \<Rightarrow> Instance \<Rightarrow> (string \<times> string) list \<Rightarrow> (('w, 't) GCloudHelper, go_error + string) go" where
  "gc_reset P G xname i env = (case map_of env ''ResetType'' of
      None \<Rightarrow> go_return (Inl (Err ''ResetType action requested, but ResetType not provided''))
    | Some desiredPowerState \<Rightarrow>
        (let run = (\<lambda>operation.
               go_bind (gets gc_project) (\<lambda>project.
               go_bind (on_be (operation project (zone_of i) (in_Name i))) (\<lambda>err.
               go_bind (on_helper (invalidateRedisKeys (pf_redis P) [filepath_Join [xname, SystemsKeyspace, ''Self'', ''PowerState'']])) (\<lambda>_.
                 go_return (case err of Some e \<Rightarrow> Inl e | None \<Rightarrow> Inr [])))))
         in if desiredPowerState = ''On'' then run (gcStart G)
            else if desiredPowerState = ''GracefulShutdown'' then run (gcStop G)
            else if desiredPowerState = ''ForceRestart'' then run (gcReset G)
            else go_return (Inr [])))"

text \<open>A lookup that fails leaves a nil pointer, which is used before the error is looked at.\<close>

definition gc_power_state :: "('w, 'e, 't) platform \<Rightarrow> 'w compute_ops \<Rightarrow> nat \<Rightarrow> string \<Rightarrow> (('w, 't) GCloudHelper, go_error + string) go" where
  "gc_power_state P G n xname =
     go_bind (findInstanceByXname G n xname) (\<lambda>r.
       let pointer = (case r of Inl _ \<Rightarrow> None | Inr i \<Rightarrow> Some i) in
       go_bind (updateKnownInstance P pointer) (\<lambda>_. case (r, pointer) of
           (_, None) \<Rightarrow> go_panic ''invalid memory address or nil pointer dereference''
         | (Inl e, Some i) \<Rightarrow> go_return (Inl e)
         | (Inr _, Some i) \<Rightarrow> go_return (Inr (translateGCloudStatusToRF (in_Status i)))))"

definition gc_RunBackendHelper :: "('w, 'e, 't) platform \<Rightarrow> 'w compute_ops \<Rightarrow> nat \<Rightarrow> string \<Rightarrow> (string \<times> string) list \<Rightarrow>
    (('w, 't) GCloudHelper, go_error + string) go" where
  "gc_RunBackendHelper P G n key env = (case map_of env ''RTS_XNAME'' of
      None \<Rightarrow> go_return (Inl (Err ''RTS_XNAME not in environment variables''))
    | Some xname \<Rightarrow> (\<lambda>s. case map_of (gc_KnownInstances s) xname of
        None \<Rightarrow> (Ret (Inl (Err (''unknown xname: '' @ xname))), s)
      | Some i \<Rightarrow> (case full_key key of
          None \<Rightarrow> (Ret (Inl (Err ''key format not what expected'')), s)
        | Some fullKey \<Rightarrow>
            (let strippedKey = TrimPrefix fullKey ServiceRootKeyspace in
             if strippedKey = key then (Ret (Inl (Err ''unexpected key prefix'')), s)
             else if strippedKey = ''/Systems/Self/Actions/ComputerSystem.Reset'' then gc_reset P G xname i env s
             else if strippedKey = ''/Systems/Self/PowerState'' then gc_power_state P G n xname s
             else on_be (rGet (pf_redis P) key) s))))"

end
