(* ===== verification/Cloud_Facts.thy ===== *)
theory Cloud_Facts
  imports Cloud_Backend Simulator_Facts
begin

text \<open>
  What a round of the cloud backend leaves behind: the known instances are those of the listing, and a
  listing that fails makes it forget none.
\<close>

section \<open>What leaves the known instances alone\<close>

definition cloud_at :: "(string \<times> Instance) list \<Rightarrow> string \<Rightarrow> ('w, 't) GCloudHelper \<Rightarrow> bool" where
  "cloud_at K p s \<longleftrightarrow> gc_KnownInstances s = K \<and> gc_project s = p"

lemma preserves_split:
  "preserves I a \<Longrightarrow> (\<And>e. preserves I (b e)) \<Longrightarrow> preserves I (case x of None \<Rightarrow> a | Some e \<Rightarrow> b e)"
  "(\<And>e. preserves I (f e)) \<Longrightarrow> (\<And>v. preserves I (g v)) \<Longrightarrow> preserves I (case r of Inl e \<Rightarrow> f e | Inr v \<Rightarrow> g v)"
  "(\<And>y z. preserves I (h y z)) \<Longrightarrow> preserves I (case q of (y, z) \<Rightarrow> h y z)"
  "preserves I a \<Longrightarrow> preserves I c \<Longrightarrow> preserves I (if t then a else c)"
  by (auto split: option.split sum.split prod.split)

lemmas preserves_steps = preserves_bind preserves_check preserves_split preserves_basic

lemma preserves_until: "(\<And>m. m \<in> set ms \<Longrightarrow> preserves I m) \<Longrightarrow> preserves I (until_error ms)"
  by (induction ms) (simp_all add: preserves_steps)

lemma cloud_at_parts:
  "preserves (cloud_at K p) (on_be m)" "preserves (cloud_at K p) (on_helper h)" "preserves (cloud_at K p) (on_certs c)"
  "preserves (cloud_at K p) (set_pipe q)" "preserves (cloud_at K p) (gets f)"
  by (auto simp: preserves_def cloud_at_def on_be_def on_helper_def on_certs_def set_pipe_def split: prod.split)

lemma cloud_at_modifies:
  "preserves (cloud_at K p) (modifies (\<lambda>s. s\<lparr>gc_waitReady := f s\<rparr>))"
  "preserves (cloud_at K p) (modifies (\<lambda>s. s\<lparr>gc_RFEventID := n\<rparr>))"
  "preserves (cloud_at K p) (modifies (\<lambda>s. case e of None \<Rightarrow> s\<lparr>gc_informHSM := g s\<rparr> | Some x \<Rightarrow> s\<lparr>gc_informHSM := h s\<rparr>))"
  "preserves (cloud_at K p) (modifies (\<lambda>s. if b then s\<lparr>gc_waitReady := f s, gc_informHSM := g s\<rparr> else s))"
  by (auto simp: preserves_def cloud_at_def split: option.split)

lemma cloud_at_init:
  "preserves (cloud_at K p) (initInstance P i)" "preserves (cloud_at K p) (refresh_instance P x i known pending)"
proof -
  note steps = preserves_steps cloud_at_parts cloud_at_modifies
  have c: "preserves (cloud_at K p) (store_creds P x)" for P x
    unfolding store_creds_def by (intro steps)
  have u: "preserves (cloud_at K p) (until_error [on_helper a, on_helper b, on_helper c])" for a b c
    by (rule preserves_until) (auto intro: cloud_at_parts)
  have w: "preserves (cloud_at K p) (write_instance P x)" for P x
    unfolding write_instance_def Let_def by (intro steps c u)
  have b: "preserves (cloud_at K p) (publish_instance V x)" for V x
    unfolding publish_instance_def by (intro steps)
  show i: "preserves (cloud_at K p) (initInstance P i)" for P i
    unfolding initInstance_def Let_def by (intro steps w b)
  have "preserves (cloud_at K p) (report_status V x st)" for V x st
    unfolding report_status_def by (intro steps)
  then show "preserves (cloud_at K p) (refresh_instance P x i known pending)"
    unfolding refresh_instance_def by (intro steps c i)
qed

lemma kept: "preserves (cloud_at (gc_KnownInstances s) (gc_project s)) m \<Longrightarrow> m s = (r, s') \<Longrightarrow>
    gc_KnownInstances s' = gc_KnownInstances s \<and> gc_project s' = gc_project s"
  unfolding preserves_def cloud_at_def by force

lemma bind_RetE:
  assumes "go_bind m f s = (Ret b, s')"
  obtains a s1 where "m s = (Ret a, s1)" "f a s1 = (Ret b, s')"
  using assms by (cases "m s"; cases "fst (m s)") (auto simp: go_bind_apply)

section \<open>A round\<close>

text \<open>The instances with a name, and the listing that the pages give.\<close>

definition xname_of :: "Instance \<Rightarrow> string option" where
  "xname_of i = map_of (in_Labels i) ''xname''"

definition labelled :: "Instance list \<Rightarrow> (string \<times> Instance) list" where
  "labelled is = List.map_filter (\<lambda>i. map_option (\<lambda>x. (x, i)) (xname_of i)) is"

fun listing :: "nat \<Rightarrow> (string \<Rightarrow> instance_page) \<Rightarrow> string \<Rightarrow> Instance list" where
  "listing 0 page token = []"
| "listing (Suc n) page token = concat (fst (page token)) @ (if snd (page token) = [] then [] else listing n page (snd (page token)))"

lemma labelled_simps [simp]: "labelled [] = []" "labelled (i # is) = (case xname_of i of None \<Rightarrow> labelled is | Some x \<Rightarrow> (x, i) # labelled is)"
    "labelled (is @ js) = labelled is @ labelled js"
  by (auto simp: labelled_def List.map_filter_def split: option.split)

lemma update_effect:
  assumes "updateKnownInstance P (Some i) s = (Ret u, s')" "xname_of i = Some x"
  shows "gc_KnownInstances s' = AList.update x i (gc_KnownInstances s) \<and> gc_project s' = gc_project s"
proof -
  obtain s1 where 1: "refresh_instance P x i (map_of (gc_KnownInstances s) x) (gc_waitReady s x \<noteq> None \<or> gc_informHSM s x \<noteq> None) s = (Ret (), s1)"
      "s' = s1\<lparr>gc_KnownInstances := AList.update x i (gc_KnownInstances s1)\<rparr>"
    using assms by (auto simp: updateKnownInstance_def xname_of_def elim!: bind_RetE)
  then show ?thesis using kept [OF cloud_at_init(2) 1(1)] by simp
qed

lemma see_effect:
  fixes s :: "('w, 't) GCloudHelper"
  assumes "see_instance P seen i s = (Ret seen', s')"
  shows "gc_project s' = gc_project s" "map_of (gc_KnownInstances s') = map_of (gc_KnownInstances s) ++ map_of (labelled [i])"
    "set seen' = set seen \<union> fst ` set (labelled [i])"
proof -
  have "gc_project s' = gc_project s \<and> map_of (gc_KnownInstances s') = map_of (gc_KnownInstances s) ++ map_of (labelled [i]) \<and>
    set seen' = set seen \<union> fst ` set (labelled [i])"
  proof (cases "xname_of i")
    case None
    then show ?thesis using assms by (simp add: see_instance_def xname_of_def)
  next
    case (Some x)
    let ?f = "\<lambda>created s. if created then s\<lparr>gc_waitReady := (gc_waitReady s)(x \<mapsto> 0), gc_informHSM := (gc_informHSM s)(x \<mapsto> 0)\<rparr> else s"
    obtain created e s1 where 1: "on_be (addXNameService (pf_services P) (gc_namespace s) x) s = (Ret (created, e), s1)"
      and u: "updateKnownInstance P (Some i) (?f created s1) = (Ret (), s')" "seen' = x # seen"
      using assms Some by (auto simp: see_instance_def xname_of_def elim!: bind_RetE)
    note k = kept [OF cloud_at_parts(1) 1] kept [OF cloud_at_modifies(4) modifies_apply [of "?f created" s1]]
    show ?thesis using k update_effect [OF u(1) Some] u(2) Some by (simp add: update_conv')
  qed
  then show "gc_project s' = gc_project s" "map_of (gc_KnownInstances s') = map_of (gc_KnownInstances s) ++ map_of (labelled [i])"
    "set seen' = set seen \<union> fst ` set (labelled [i])" by blast+
qed

definition saw :: "Instance list \<Rightarrow> string list \<Rightarrow> ('w, 't) GCloudHelper \<Rightarrow> string list \<Rightarrow> ('w, 't) GCloudHelper \<Rightarrow> bool" where
  "saw is seen s seen' s' \<longleftrightarrow> gc_project s' = gc_project s \<and>
     map_of (gc_KnownInstances s') = map_of (gc_KnownInstances s) ++ map_of (rev (labelled is)) \<and> set seen' = set seen \<union> fst ` set (labelled is)"

lemma saw_Nil: "gc_project s' = gc_project s \<Longrightarrow> gc_KnownInstances s' = gc_KnownInstances s \<Longrightarrow> saw [] seen s seen s'"
  by (simp add: saw_def)

lemma saw_append: "saw is seen s seen1 s1 \<Longrightarrow> saw js seen1 s1 seen' s' \<Longrightarrow> saw (is @ js) seen s seen' s'"
  by (simp add: saw_def image_Un Un_assoc)

lemma saw_one: "see_instance P seen i s = (Ret seen', s') \<Longrightarrow> saw [i] seen s seen' s'"
  using see_effect [of P seen i s seen' s'] by (simp add: saw_def split: option.splits)

lemma see_instances_effect: "see_instances P seen is s = (Ret seen', s') \<Longrightarrow> saw is seen s seen' s'"
proof (induction "is" arbitrary: seen s)
  case (Cons i "is")
  then obtain seen1 s1 where "see_instance P seen i s = (Ret seen1, s1)" "see_instances P seen1 is s1 = (Ret seen', s')"
    by (auto elim: bind_RetE)
  then show ?case using saw_append [OF saw_one Cons.IH] by fastforce
qed (simp add: saw_Nil)

text \<open>The pages of a listing that does not change during the round.\<close>

definition listed :: "'w compute_ops \<Rightarrow> string \<Rightarrow> (string \<Rightarrow> instance_page) \<Rightarrow> bool" where
  "listed G project page \<longleftrightarrow> (\<forall>token w. \<exists>w'. gcList G project [] token w = (Ret (Inr (page token)), w'))"

lemma pages_effect:
  assumes "listed G project page"
  shows "pages n (\<lambda>token. on_be (gcList G project [] token)) (see_page P) token seen s = (Ret r, s') \<Longrightarrow>
    \<exists>seen'. r = Inr seen' \<and> saw (listing n page token) seen s seen' s'"
proof (induction n arbitrary: token seen s)
  case (Suc n)
  obtain items nextToken where pg: "page token = (items, nextToken)" by (cases "page token")
  obtain w' where l: "gcList G project [] token (be_world s) = (Ret (Inr (items, nextToken)), w')"
    using assms pg unfolding listed_def by metis
  obtain s0 where 0: "on_be (gcList G project [] token) s = (Ret (Inr (items, nextToken)), s0)"
    using l by (simp add: on_be_def on_certs_def on_cs_def)
  have k0: "saw [] seen s seen s0" using kept [OF cloud_at_parts(1) 0] by (simp add: saw_Nil)
  obtain seen1 s1 where h: "see_page P seen items s0 = (Ret seen1, s1)"
    and rest: "(if nextToken = [] then go_return (Inr seen1) else pages n (\<lambda>token. on_be (gcList G project [] token)) (see_page P) nextToken seen1) s1 = (Ret r, s')"
    using Suc.prems by (auto simp: go_check_def go_bind_apply 0 split: prod.splits outcome.splits)
  have k1: "saw (concat items) seen s seen1 s1"
    using saw_append [OF k0 see_instances_effect [OF h [unfolded see_page_def]]] by simp
  show ?case
  proof (cases "nextToken = []")
    case True
    then show ?thesis using rest k1 pg by auto
  next
    case False
    then have "pages n (\<lambda>token. on_be (gcList G project [] token)) (see_page P) nextToken seen1 s1 = (Ret r, s')" using rest by simp
    then obtain seen' where "r = Inr seen'" "saw (listing n page nextToken) seen1 s1 seen' s'" using Suc.IH by blast
    then show ?thesis using saw_append [OF k1] False pg by auto
  qed
qed simp

lemma forget_effect: "go_each (forget V seen) ks s = (Ret u, s') \<Longrightarrow>
    map_of (gc_KnownInstances s') = map_of (gc_KnownInstances s) |` (- (set ks - set seen))"
proof (induction ks arbitrary: s)
  case (Cons k ks)
  then obtain s1 where 1: "forget V seen k s = (Ret (), s1)" "go_each (forget V seen) ks s1 = (Ret u, s')" by (auto elim: bind_RetE)
  have "map_of (gc_KnownInstances s1) = map_of (gc_KnownInstances s) |` (- ({k} - set seen))"
  proof (cases "k \<in> set seen")
    case True
    then show ?thesis using 1(1) by (simp add: forget_def) (simp add: restrict_map_def)
  next
    case False
    then obtain r where "on_be (deleteFromHSM V k) (s\<lparr>gc_KnownInstances := AList.delete k (gc_KnownInstances s)\<rparr>) = (Ret r, s1)"
      using 1(1) by (auto simp: forget_def elim!: bind_RetE)
    then show ?thesis using kept [OF cloud_at_parts(1)] False by (fastforce simp: delete_conv' restrict_complement_singleton_eq)
  qed
  then show ?case using Cons.IH [OF 1(2)] by (simp add: Int_commute Diff_eq Compl_Un [symmetric] Un_commute) (rule arg_cong2 [where f = restrict_map], auto)
qed (simp add: restrict_map_def)

text \<open>Until the listing is complete, no instance is forgotten.\<close>

definition knows :: "string set \<Rightarrow> ('w, 't) GCloudHelper \<Rightarrow> bool" where
  "knows D s \<longleftrightarrow> D \<subseteq> dom (map_of (gc_KnownInstances s))"

lemma knows_kept: "(\<And>K p. preserves (cloud_at K p) m) \<Longrightarrow> preserves (knows D) m"
  unfolding preserves_def cloud_at_def knows_def by force

lemma knows_update: "preserves (knows D) (updateKnownInstance P pointer)"
proof -
  have "preserves (knows D) (modifies (\<lambda>s. s\<lparr>gc_KnownInstances := AList.update x i (gc_KnownInstances s)\<rparr>))" for x i
    by (rule preserves_modifies) (auto simp: knows_def update_conv')
  then show ?thesis unfolding updateKnownInstance_def
    by (intro preserves_steps knows_kept [OF cloud_at_init(2)] knows_kept [OF cloud_at_parts(5)])
qed

lemma knows_see: "preserves (knows D) (see_instances P seen is)"
proof (induction "is" arbitrary: seen)
  case (Cons i "is")
  have "preserves (knows D) (see_instance P seen i)" for seen
    unfolding see_instance_def by (intro preserves_steps knows_update knows_kept [OF cloud_at_parts(1)] knows_kept [OF cloud_at_parts(5)] knows_kept [OF cloud_at_modifies(4)])
  then show ?case using Cons by (simp add: preserves_bind)
qed (simp add: preserves_basic)

lemma knows_pages: "preserves (knows D) (pages n (\<lambda>token. on_be (gcList G project [] token)) (see_page P) token seen)"
proof (induction n arbitrary: token seen)
  case (Suc n)
  have knows_page: "preserves (knows D) (see_page P seen items)" for seen items unfolding see_page_def by (rule knows_see)
  show ?case unfolding pages.simps by (intro preserves_steps knows_page Suc.IH knows_kept [OF cloud_at_parts(1)])
qed (simp add: preserves_basic)

section \<open>Properties\<close>

text \<open>
  C23. A round mirrors the listing: when a round that sees an unchanging listing returns, it returns
  without an error, and the known instances are exactly the listed ones that have a name, each as it was
  listed last; every other instance is forgotten. When the listing fails, no instance is forgotten.
\<close>

theorem round_mirrors_listing:
  "(listed G (gc_project s) page \<and> gc_RunPeriodic P G n s = (Ret r, s') \<longrightarrow>
      r = None \<and> map_of (gc_KnownInstances s') = map_of (rev (labelled (listing n page [])))) \<and>
   (gc_RunPeriodic P G n s = (Ret (Some e), s') \<longrightarrow> dom (map_of (gc_KnownInstances s)) \<subseteq> dom (map_of (gc_KnownInstances s')))"
proof (intro conjI impI; (elim conjE)?)
  assume l: "listed G (gc_project s) page" and run: "gc_RunPeriodic P G n s = (Ret r, s')"
  let ?L = "map_of (rev (labelled (listing n page [])))"
  obtain seen s1 where s1: "saw (listing n page []) [] s seen s1" and e: "r = None" "go_each (forget (pf_services P) seen) (map fst (gc_KnownInstances s1)) s1 = (Ret (), s')"
    using run pages_effect [OF l, of n P "[]" "[]" s] by (auto simp: gc_RunPeriodic_def elim!: bind_RetE)
  have "map_of (gc_KnownInstances s') = (map_of (gc_KnownInstances s) ++ ?L) |` (- (set (map fst (gc_KnownInstances s1)) - set seen))"
    using forget_effect [OF e(2)] s1 by (simp add: saw_def)
  also have "\<dots> = ?L"
  proof (rule ext)
    fix x
    have d: "set (map fst (gc_KnownInstances s1)) = dom (map_of (gc_KnownInstances s1))" by (simp add: dom_map_of_conv_image_fst)
    have L: "set seen = dom ?L" using s1 by (simp add: saw_def dom_map_of_conv_image_fst)
    have "map_of (gc_KnownInstances s1) = map_of (gc_KnownInstances s) ++ ?L" using s1 by (simp add: saw_def)
    then have k: "dom (map_of (gc_KnownInstances s1)) = dom ?L \<union> dom (map_of (gc_KnownInstances s))" by (simp only: dom_map_add)
    show "((map_of (gc_KnownInstances s) ++ ?L) |` (- (set (map fst (gc_KnownInstances s1)) - set seen))) x = ?L x"
      unfolding d L k by (cases "?L x") (auto simp: restrict_map_def map_add_def)
  qed
  finally show "r = None" "map_of (gc_KnownInstances s') = ?L" using e(1) by simp_all
next
  assume "gc_RunPeriodic P G n s = (Ret (Some e), s')"
  then obtain s1 where "pages n (\<lambda>token. on_be (gcList G (gc_project s) [] token)) (see_page P) [] [] s = (Ret (Inl e), s')"
    by (auto simp: gc_RunPeriodic_def elim!: bind_RetE split: sum.splits)
  then show "dom (map_of (gc_KnownInstances s)) \<subseteq> dom (map_of (gc_KnownInstances s'))"
    using preservesD [OF knows_pages, of "dom (map_of (gc_KnownInstances s))" s n G "gc_project s" P "[]" "[]"] by (simp add: knows_def)
qed

text \<open>
  C40. The power state of an instance that is known but was deleted in the cloud: the lookup finds no
  instance, and the request ends in a panic instead of the error of the lookup.
\<close>

theorem power_state_of_deleted_panics:
  assumes "map_of (gc_KnownInstances s) xname = Some i" "map_of (in_Labels i) ''xname'' = Some xname" "plain xname"
    and "gcList G (gc_project s) (''labels.xname = '' @ xname) [] (be_world s) = (Ret (Inr (scopes, [])), w')" "concat scopes = []"
  shows "\<exists>s'. gc_RunBackendHelper P G (Suc n) (xname @ ServiceRootKeyspace @ ''/Systems/Self/PowerState'') (fst (gc_GetEnvForXname xname s)) s =
    (Panic ''invalid memory address or nil pointer dereference'', s')"
proof -
  let ?k = "''/Systems/Self/PowerState''"
  have env: "map_of (fst (gc_GetEnvForXname xname s)) ''RTS_XNAME'' = Some xname" using assms(1,2) by (simp add: gc_GetEnvForXname_def)
  have "CHR ''/'' \<notin> set xname" using assms(3) by (simp add: plain_def)
  then have fk: "full_key (xname @ ServiceRootKeyspace @ ?k) = Some (ServiceRootKeyspace @ ?k)"
    by (rule full_key_xname) (simp_all add: is_space_def)
  have t: "TrimPrefix (ServiceRootKeyspace @ ?k) ServiceRootKeyspace = ?k" by (rule TrimPrefix_append)
  have ne: "(?k = xname @ ServiceRootKeyspace @ ?k) = False" using stripped_xname(2) [OF assms(3), of ?k] by (simp only: simp_thms)
  have pick: "pick_instance None scopes = None" using assms(5) by (induction scopes) auto
  obtain s1 where l: "on_be (gcList G (gc_project s) (''labels.xname = '' @ xname) []) s = (Ret (Inr (scopes, [])), s1)"
    using assms(4) by (simp add: on_be_def on_certs_def on_cs_def)
  have "findInstanceByXname G (Suc n) xname s = (Ret (Inl (Err ''no instance with specified xname was found.'')), s1)"
    unfolding findInstanceByXname_def go_bind_apply gets_apply by (simp add: go_check_def go_bind_apply l [simplified] pick)
  then have p: "gc_power_state P G (Suc n) xname s = (Panic ''invalid memory address or nil pointer dereference'', s1)"
    by (simp add: gc_power_state_def go_bind_apply updateKnownInstance_def)
  have r: "(?k = ''/Systems/Self/Actions/ComputerSystem.Reset'') = False" by simp
  show ?thesis
    by (rule exI [of _ s1]) (simp only: gc_RunBackendHelper_def env option.case assms(1) fk Let_def t ne r if_False if_True p simp_thms)
qed

text \<open>A cloud with one instance, whose lookup by name finds nothing; two instances are known.\<close>

definition ex_machine :: "string \<Rightarrow> Instance" where
  "ex_machine x = \<lparr> in_Name = ''vm'', in_Status = ''RUNNING'', in_Zone = ''zones/z'', in_Labels = [(''xname'', x)] \<rparr>"

definition ex_compute :: "mem compute_ops" where
  "ex_compute = \<lparr> gcList = (\<lambda>_ wanted _. go_return (Inr (if wanted = [] then [[ex_machine ''x1'']] else [[]], []))),
     gcStart = (\<lambda>_ _ _. go_return None), gcStop = (\<lambda>_ _ _. go_return None), gcReset = (\<lambda>_ _ _. go_return None),
     gcProjectID = go_return (Inr ''p''), gcNewService = go_return None \<rparr>"

definition ex_cloud :: "(mem, string) GCloudHelper" where
  "ex_cloud = \<lparr> be_certs = ex_service, be_pipe = None, gc_project = ''p'', gc_namespace = ''services'',
     gc_KnownInstances = [(''x1'', ex_machine ''x1''), (''x2'', ex_machine ''x2'')], gc_waitReady = Map.empty, gc_informHSM = Map.empty,
     gc_KeyPath = ''k'', gc_RFEventID = 0 \<rparr>"

theorem round_mirrors_listing_witness:
  "\<exists>s'. gc_RunPeriodic ex_platform ex_compute 1 ex_cloud = (Ret None, s') \<and> map_of (gc_KnownInstances s') = [''x1'' \<mapsto> ex_machine ''x1'']"
proof -
  let ?page = "\<lambda>_ :: string. ([[ex_machine ''x1'']], [])"
  have x: "xname_of (ex_machine ''x1'') = Some ''x1''" by (simp add: xname_of_def ex_machine_def)
  have l: "listed ex_compute (gc_project ex_cloud) ?page" by (simp add: listed_def ex_compute_def)
  have "\<exists>r s'. gc_RunPeriodic ex_platform ex_compute 1 ex_cloud = (Ret r, s')"
    by (simp add: gc_RunPeriodic_def ex_cloud_def ex_compute_def ex_platform_def ex_service_def go_check_def go_bind_apply on_be_def on_certs_def on_cs_def see_page_def
        see_instance_def ex_machine_def addXNameService_def Let_def updateKnownInstance_def refresh_instance_def store_creds_def GetGlobalCredentials_def
        forget_def deleteFromHSM_def hsm_url_def)
  then obtain r s' where run: "gc_RunPeriodic ex_platform ex_compute 1 ex_cloud = (Ret r, s')" by blast
  then have "r = None" "map_of (gc_KnownInstances s') = map_of (rev (labelled (listing 1 ?page [])))"
    using round_mirrors_listing [of ex_compute ex_cloud ?page ex_platform 1 r s'] l by blast+
  then show ?thesis using run x by (intro exI [of _ s']) (simp add: One_nat_def)
qed

theorem power_state_of_deleted_panics_witness:
  "\<exists>s'. gc_RunBackendHelper ex_platform ex_compute (Suc 0) (''x2'' @ ServiceRootKeyspace @ ''/Systems/Self/PowerState'')
     (fst (gc_GetEnvForXname ''x2'' ex_cloud)) ex_cloud = (Panic ''invalid memory address or nil pointer dereference'', s')"
  by (rule power_state_of_deleted_panics [where i = "ex_machine ''x2''" and scopes = "[[]]" and w' = "be_world ex_cloud"])
    (simp_all add: ex_cloud_def ex_machine_def ex_compute_def plain_def)

end
