(* ===== verification/Service.thy ===== *)
theory Service
  imports Rf_Actions Redis_Struct_Read Simulator_Facts Pdu_Run Cloud_Backend
begin

text \<open>
  The running service: a dispatcher (\<open>internal/rfdispatcher/dispatcher\<close>) over the state of a backend. The
  world of the dispatcher is that state, in which Redis lives, so that its commands and the operations
  of the backend work on the same database. The certificate service is asked before the backend of the
  device.
\<close>

section \<open>Backends behind the interface\<close>

definition lift_redis :: "'w redis_ops \<Rightarrow> ('w, 't, 'z) backend_scheme redis_ops" where
  "lift_redis R = \<lparr> rGet = (\<lambda>k. on_be (rGet R k)), rSet = (\<lambda>k v. on_be (rSet R k v)), rDel = (\<lambda>k. on_be (rDel R k)),
     rExists = (\<lambda>k. on_be (rExists R k)), rType = (\<lambda>k. on_be (rType R k)), rSAdd = (\<lambda>k xs. on_be (rSAdd R k xs)),
     rSRem = (\<lambda>k x. on_be (rSRem R k x)), rSMembers = (\<lambda>k. on_be (rSMembers R k)), rRPush = (\<lambda>k xs. on_be (rRPush R k xs)),
     rLRem = (\<lambda>k x. on_be (rLRem R k x)), rLRange = (\<lambda>k. on_be (rLRange R k)), rLLen = (\<lambda>k. on_be (rLLen R k)) \<rparr>"

text \<open>The methods of the interface \<open>BackendHelper\<close>; a nil environment has no entries.\<close>

record 's backend_ops =
  bo_helper :: "'s backend_helper"
  bo_Setup :: "('s, go_error option) go"
  bo_Periodic :: "('s, go_error option) go"

definition helper_of :: "(string \<Rightarrow> 's \<Rightarrow> (string \<times> string) list \<times> go_error option) \<Rightarrow> (string \<Rightarrow> (string \<times> string) list \<Rightarrow> ('s, go_error + string) go) \<Rightarrow>
    's backend_helper" where
  "helper_of get run = \<lparr> GetEnvForXname = (\<lambda>xname s. case get xname s of (env, err) \<Rightarrow> (Ret (Some env, err), s)),
     RunBackendHelper = (\<lambda>key args env. run key (case env of None \<Rightarrow> [] | Some e \<Rightarrow> e)) \<rparr>"

definition cert_ops :: "('w, 'e, 't) platform \<Rightarrow> nat \<Rightarrow> ('w, 't, 'z) backend_scheme backend_ops" where
  "cert_ops P n = \<lparr>
     bo_helper = helper_of (\<lambda>xname s. (GetEnvForXname_cert xname, None))
       (\<lambda>key env. on_certs (Cert_RunBackendHelper (pf_redis P) (pf_crypto P) (pf_storage P) key env)),
     bo_Setup = on_certs (Cert_SetupBackendHelper (pf_services P) (pf_vault P) n),
     bo_Periodic = go_return None \<rparr>"

definition jaws_ops :: "('w, 'e, 't) platform \<Rightarrow> 'w pdu_storage \<Rightarrow> jaws_codec \<Rightarrow> nat \<Rightarrow> ('w, 't) JAWSBackedHelper backend_ops" where
  "jaws_ops P S J n = \<lparr> bo_helper = helper_of jaws_GetEnvForXname (jaws_RunBackendHelper P J), bo_Setup = jaws_SetupBackendHelper P n,
     bo_Periodic = jaws_RunPeriodic P S J \<rparr>"

definition gcloud_ops :: "('w, 'e, 't) platform \<Rightarrow> 'w compute_ops \<Rightarrow> nat \<Rightarrow> ('w, 't) GCloudHelper backend_ops" where
  "gcloud_ops P G n = \<lparr> bo_helper = helper_of gc_GetEnvForXname (gc_RunBackendHelper P G n), bo_Setup = gc_SetupBackendHelper P G n,
     bo_Periodic = gc_RunPeriodic P G n \<rparr>"

definition simulator_ops :: "('w, 'e, 't) platform \<Rightarrow> int \<Rightarrow> nat \<Rightarrow> ('w, 't) RFSimulatorHelper backend_ops" where
  "simulator_ops P numCPU n = \<lparr> bo_helper = helper_of sim_GetEnvForXname (sim_RunBackendHelper P), bo_Setup = sim_SetupBackendHelper P numCPU n,
     bo_Periodic = sim_RunPeriodic (pf_services P) \<rparr>"

definition switch_ops :: "('w, 'e, 't) platform \<Rightarrow> (string \<Rightarrow> 'w SLS) \<Rightarrow> nat \<Rightarrow> ('w, 't) SNMPSwitchHelper backend_ops" where
  "switch_ops P newSLS n = \<lparr> bo_helper = helper_of Switch_GetEnvForXname (Switch_RunBackendHelper (pf_redis P)),
     bo_Setup = Switch_SetupBackendHelper P newSLS n, bo_Periodic = Switch_RunPeriodic P \<rparr>"

definition mock_ops :: "('w, 'e, 't) platform \<Rightarrow> ('w, 't, 'z) backend_scheme backend_ops" where
  "mock_ops P = \<lparr> bo_helper = helper_of (\<lambda>_ _. ([], None)) Mock_RunBackendHelper, bo_Setup = Mock_SetupBackendHelper P, bo_Periodic = go_return None \<rparr>"

section \<open>The dispatcher and its backends\<close>

text \<open>The last part of \<open>NewDispatcher\<close>: the backends are set up in their order, and an error is a panic.\<close>

definition setup_helpers :: "'s backend_ops list \<Rightarrow> ('s, unit) go" where
  "setup_helpers = go_each (\<lambda>h. go_bind (bo_Setup h) (\<lambda>err. case err of
      Some _ \<Rightarrow> go_panic ''Backend helper setup function did not complete without error!''
    | None \<Rightarrow> go_return ()))"

text \<open>The errors of the periodic tasks are logged.\<close>

definition rfd_RunPeriodic :: "'s backend_ops list \<Rightarrow> ('s, unit) go" where
  "rfd_RunPeriodic = go_each (\<lambda>h. go_bind (bo_Periodic h) (\<lambda>_. go_return ()))"

definition service_dispatcher :: "('w, 'e, 't) platform \<Rightarrow> nat \<Rightarrow> string \<Rightarrow> string \<Rightarrow> resource \<Rightarrow> ('w, 't, 'z) backend_scheme os_ops \<Rightarrow>
    ('w, 't, 'z) backend_scheme backend_ops option \<Rightarrow> ('w, 't, 'z) backend_scheme RedfishDispatcher" where
  "service_dispatcher P n scripts program tree os device = \<lparr> scriptDirPrefix = scripts, programName = program, schemaTree = tree,
     rfd_redis = lift_redis (pf_redis P), rfd_os = os, additionalCollectionCBs = [],
     BackendHelpers = map bo_helper (cert_ops P n # (case device of None \<Rightarrow> [] | Some h \<Rightarrow> [h])) \<rparr>"

section \<open>Redis below a dispatcher\<close>

lemma on_be_apply: "on_be m s = (case m (be_world s) of (r, w) \<Rightarrow> (r, s\<lparr>be_certs := (be_certs s)\<lparr>cs_world := w\<rparr>\<rparr>))"
  by (simp add: on_be_def on_certs_def on_cs_def split: prod.split)

lemma be_world_same: "s\<lparr>be_certs := (be_certs s)\<lparr>cs_world := be_world s\<rparr>\<rparr> = s"
  by simp

lemma cmd_effect_lift:
  "cmd_effect view m k r (be_world s) \<Longrightarrow> cmd_effect (\<lambda>s. view (be_world s)) (on_be m) k r s"
  by (cases "m (be_world s)") (auto simp: cmd_effect_def on_be_apply split: sum.splits)

lemma lift_redis_simps:
  "rGet (lift_redis R) k = on_be (rGet R k)" "rSet (lift_redis R) k v = on_be (rSet R k v)" "rDel (lift_redis R) k = on_be (rDel R k)"
  "rExists (lift_redis R) k = on_be (rExists R k)" "rType (lift_redis R) k = on_be (rType R k)" "rSAdd (lift_redis R) k xs = on_be (rSAdd R k xs)"
  "rSRem (lift_redis R) k x = on_be (rSRem R k x)" "rSMembers (lift_redis R) k = on_be (rSMembers R k)" "rRPush (lift_redis R) k xs = on_be (rRPush R k xs)"
  "rLRem (lift_redis R) k x = on_be (rLRem R k x)" "rLRange (lift_redis R) k = on_be (rLRange R k)" "rLLen (lift_redis R) k = on_be (rLLen R k)"
  by (simp_all add: lift_redis_def)

lemma lifted_server:
  assumes "redis_server R view"
  shows "redis_server (lift_redis R) (\<lambda>s :: ('w, 't, 'z) backend_scheme. view (be_world s))"
proof -
  note L = redis_server.no_empty_set [OF assms] redis_server.no_empty_list [OF assms]
  show ?thesis
  proof unfold_locales
    fix s :: "('w, 't, 'z) backend_scheme" and k v xs x e S
    show "view (be_world s) k \<noteq> Some (RSet {})" "view (be_world s) k \<noteq> Some (RList [])" by (rule L)+
    show "rGet (lift_redis R) k s = (Ret (get_result (view (be_world s) k)), s)"
      by (simp add: lift_redis_def on_be_apply redis_server.get_law [OF assms])
    show "cmd_effect (\<lambda>s. view (be_world s)) (rSet (lift_redis R) k v) k (Inr (Some (RString v))) s"
      unfolding lift_redis_simps by (rule cmd_effect_lift [OF redis_server.set_law [OF assms]])
    show "cmd_effect (\<lambda>s. view (be_world s)) (rDel (lift_redis R) k) k (Inr None) s"
      unfolding lift_redis_simps by (rule cmd_effect_lift [OF redis_server.del_law [OF assms]])
    show "rExists (lift_redis R) k s = (Ret (Inr (if view (be_world s) k = None then 0 else 1)), s)"
      by (simp add: lift_redis_def on_be_apply redis_server.exists_law [OF assms])
    show "rType (lift_redis R) k s = (Ret (Inr (type_name (view (be_world s) k))), s)"
      by (simp add: lift_redis_def on_be_apply redis_server.type_law [OF assms])
    show "cmd_effect (\<lambda>s. view (be_world s)) (rSAdd (lift_redis R) k xs) k (if xs = [] then Inl (wrong_arity ''sadd'') else sadd_eff (view (be_world s) k) xs) s"
      unfolding lift_redis_simps by (rule cmd_effect_lift [OF redis_server.sadd_law [OF assms]])
    show "cmd_effect (\<lambda>s. view (be_world s)) (rSRem (lift_redis R) k x) k (srem_eff (view (be_world s) k) x) s"
      unfolding lift_redis_simps by (rule cmd_effect_lift [OF redis_server.srem_law [OF assms]])
    show "set_result (view (be_world s) k) = Inl e \<Longrightarrow> rSMembers (lift_redis R) k s = (Ret (Inl e), s)"
      by (simp add: lift_redis_def on_be_apply redis_server.smembers_err [OF assms])
    show "set_result (view (be_world s) k) = Inr S \<Longrightarrow> \<exists>xs. rSMembers (lift_redis R) k s = (Ret (Inr xs), s) \<and> set xs = S \<and> distinct xs"
      using redis_server.smembers_ok [OF assms, of "be_world s" k S] by (auto simp: lift_redis_def on_be_apply)
    show "cmd_effect (\<lambda>s. view (be_world s)) (rRPush (lift_redis R) k xs) k (if xs = [] then Inl (wrong_arity ''rpush'') else rpush_eff (view (be_world s) k) xs) s"
      unfolding lift_redis_simps by (rule cmd_effect_lift [OF redis_server.rpush_law [OF assms]])
    show "cmd_effect (\<lambda>s. view (be_world s)) (rLRem (lift_redis R) k x) k (lrem_eff (view (be_world s) k) x) s"
      unfolding lift_redis_simps by (rule cmd_effect_lift [OF redis_server.lrem_law [OF assms]])
    show "rLRange (lift_redis R) k s = (Ret (list_result (view (be_world s) k)), s)"
      by (simp add: lift_redis_def on_be_apply redis_server.lrange_law [OF assms])
    show "rLLen (lift_redis R) k s = (Ret (map_sum id (\<lambda>xs. int (length xs)) (list_result (view (be_world s) k))), s)"
      by (simp add: lift_redis_def on_be_apply redis_server.llen_law [OF assms])
  qed
qed

interpretation ls: redis_server "lift_redis mem_redis" "\<lambda>s :: (mem, 't, 'z) backend_scheme. mem_view (be_world s)"
  by (rule lifted_server [OF mem_redis_server])

section \<open>An action through the dispatcher\<close>

text \<open>No script handles the request.\<close>

definition no_scripts :: "'s os_ops \<Rightarrow> bool" where
  "no_scripts os \<longleftrightarrow> (\<forall>f s. \<exists>e. osStat os f s = (Ret (Inl e), s)) \<and> (\<forall>f s. \<exists>e. osLookPath os f s = (Ret (Inl e), s))"

lemma no_file_handler:
  assumes "redis_server (rfd_redis rfd) view" "no_scripts (rfd_os rfd)" "view s (uri @ (if op = ActionOp then ''/Target'' else []) @ '':handler'') = None"
  shows "DoFileHandler rfd op uri args env s = (Ret (Inl ErrFileHandlerNoAction), s)"
proof -
  obtain e where e: "osLookPath (rfd_os rfd) ''redfish-translation-layer-executor'' s = (Ret (Inl e), s)" using assms(2) unfolding no_scripts_def by blast
  have st: "\<exists>e. osStat (rfd_os rfd) f s = (Ret (Inl e), s)" for f using assms(2) unfolding no_scripts_def by blast
  obtain d where d: "osStat (rfd_os rfd) (if op = ActionOp then filepath_Join [scriptDirPrefix rfd, uri, ''Target''] else filepath_Join [scriptDirPrefix rfd, uri]) s = (Ret (Inl d), s)"
    using st by blast
  have x: "rExists (rfd_redis rfd) (uri @ (if op = ActionOp then ''/Target'' else []) @ '':handler'') s = (Ret (Inr 0), s)"
    using redis_server.exists_law [OF assms(1)] assms(3) by (simp only: if_True simp_thms)
  have z: "((0 :: int) < 0) = False" by simp
  show ?thesis
    by (simp only: DoFileHandler_def Let_def go_check_def go_bind_apply x prod.case outcome.case sum.case z if_False d file_fallback_def e go_return_apply)
qed

lemma cert_continues:
  assumes "cs_KnownDevices (be_certs s) xname \<noteq> None" "plain (cs_BmcID (be_certs s))" "plain (cs_CertificateID (be_certs s))" "map_of env ''RTS_XNAME'' = Some xname"
    and "full_key key = Some (ServiceRootKeyspace @ ''/Systems'' @ k)"
  shows "RunBackendHelper (bo_helper (cert_ops P n)) key [] (Some env) s = (Ret (Inl ErrBackendContinue), s)"
proof -
  have p: "\<not> HasPrefix (ServiceRootKeyspace @ ''/Systems'' @ k) (cert_uri (cs_BmcID (be_certs s)) (cs_CertificateID (be_certs s)))"
    by (simp add: HasPrefix_def cert_uri_def ManagersKeyspace_def ServiceRootKeyspace_def)
  have q: "ServiceRootKeyspace @ ''/Systems'' @ k \<noteq> ''/redfish/v1/CertificateService/Actions/CertificateService.ReplaceCertificate''"
    by (simp add: ServiceRootKeyspace_def)
  have "Cert_RunBackendHelper (pf_redis P) (pf_crypto P) (pf_storage P) key env (be_certs s) = (Ret (Inl ErrBackendContinue), be_certs s)"
    using assms(1) p q by (simp add: Cert_RunBackendHelper_def assms(4,5) cert_uri_Join [OF assms(2,3)])
  then show ?thesis by (simp add: cert_ops_def helper_of_def on_certs_def)
qed

abbreviation reset_uri :: "string \<Rightarrow> string" where
  "reset_uri xname \<equiv> xname @ ServiceRootKeyspace @ ''/Systems/Self/Actions/ComputerSystem.Reset''"

lemma sim_resets:
  assumes "plain xname" "List.member (sim_KnownInstances s) xname" "map_of env ''RTS_XNAME'' = Some xname"
  shows "full_key (reset_uri xname) = Some (ServiceRootKeyspace @ ''/Systems'' @ ''/Self/Actions/ComputerSystem.Reset'')"
    "RunBackendHelper (bo_helper (simulator_ops P numCPU n)) (reset_uri xname) [] (Some env) s = reset_system P xname env s"
proof -
  have "CHR ''/'' \<notin> set xname" using assms(1) by (simp add: plain_def)
  then have f: "full_key (reset_uri xname) = Some (ServiceRootKeyspace @ ''/Systems/Self/Actions/ComputerSystem.Reset'')"
    by (rule full_key_xname) (simp_all add: is_space_def)
  then show "full_key (reset_uri xname) = Some (ServiceRootKeyspace @ ''/Systems'' @ ''/Self/Actions/ComputerSystem.Reset'')" by simp
  show "RunBackendHelper (bo_helper (simulator_ops P numCPU n)) (reset_uri xname) [] (Some env) s = reset_system P xname env s"
    using stripped_xname [OF assms(1)] f assms(2,3) by (simp add: simulator_ops_def helper_of_def sim_RunBackendHelper_def)
qed

lemma helpers_reset:
  assumes "plain xname" "List.member (sim_KnownInstances s) xname" "cs_KnownDevices (be_certs s) xname \<noteq> None" "plain (cs_BmcID (be_certs s))"
    "plain (cs_CertificateID (be_certs s))" "reset_system P xname [(''RTS_XNAME'', xname), (''ResetType'', t)] s = (Ret (Inr []), s')"
  shows "action_helpers ipc (reset_uri xname) xname [(''ResetType'', GString t)] (map bo_helper [cert_ops P n, simulator_ops P numCPU n]) b None s = (Ret (None, None), s')"
proof -
  let ?env = "[(''RTS_XNAME'', xname), (''ResetType'', t)]"
  have e: "fold (\<lambda>(k, v). AList.update k (env_value ipc v)) [(''ResetType'', GString t)] [(''RTS_XNAME'', xname)] = ?env" by (simp add: env_value_def)
  have ne: "xname \<noteq> []" using assms(1) by (simp add: plain_def)
  have m: "map_of ?env ''RTS_XNAME'' = Some xname" by simp
  note r = sim_resets(1) [OF assms(1,2) m] sim_resets(2) [OF assms(1,2) m, of P numCPU n]
  have c: "RunBackendHelper (bo_helper (cert_ops P n)) (reset_uri xname) [] (Some ?env) s = (Ret (Inl ErrBackendContinue), s)"
    by (rule cert_continues [OF assms(3-5) m r(1)])
  have g: "GetEnvForXname (bo_helper (cert_ops P n)) xname s = (Ret (Some [(''RTS_XNAME'', xname)], None), s)"
    "GetEnvForXname (bo_helper (simulator_ops P numCPU n)) xname s = (Ret (Some [(''RTS_XNAME'', xname)], None), s)"
    using assms(2) by (simp_all add: cert_ops_def simulator_ops_def helper_of_def GetEnvForXname_cert_def sim_GetEnvForXname_def)
  show ?thesis
    by (simp only: list.map action_helpers.simps ne if_False go_bind_apply g prod.case outcome.case option.case simp_thms e c r(2) assms(6) sum.case go_error.case go_return_apply)
qed

section \<open>Properties\<close>

text \<open>
  C20. A reset through the whole chain: in a service with a simulator, a POST of a known type of reset to
  the action of a known system passes the scripts, the interprocess key and the certificate service,
  reaches the simulator and succeeds; the value that the dispatcher reads next for the power state of
  the system is the one that was asked for.
\<close>

theorem reset_through_dispatcher:
  assumes "redis_server (pf_redis P) view" "answering view (pf_services P)" "no_scripts os" "plain xname" "be_pipe s = None"
    and "List.member (sim_KnownInstances s) xname" "cs_KnownDevices (be_certs s) xname \<noteq> None" "plain (cs_BmcID (be_certs s))" "plain (cs_CertificateID (be_certs s))"
    and "view (be_world s) (reset_uri xname) = None" "view (be_world s) (reset_uri xname @ ''/Target:handler'') = None"
    and "view (be_world s) (reset_uri xname @ ''/Target:ipc'') = None" "reset_state t = Some v"
    and "rfd = service_dispatcher P n scripts program tree os (Some (simulator_ops P numCPU n))"
  shows "\<exists>s'. HandleAction rfd ipc (reset_uri xname) (Inr [(''ResetType'', GString t)]) xname s = (Ret (None, None), s') \<and>
    getValueForKey \<lparr> r2s_RFD = rfd, r2s_Resource = resource, r2s_URI = uri, r2s_XName = xname \<rparr>
      (xname @ ServiceRootKeyspace @ ''/Systems/Self/PowerState'') s' = (Ret (Inr v), s')"
proof -
  let ?V = "\<lambda>s :: ('a, 'c) RFSimulatorHelper. view (be_world s)" and ?K = "xname @ ServiceRootKeyspace @ ''/Systems/Self''"
  have R: "redis_server (rfd_redis rfd) ?V" using lifted_server [OF assms(1)] by (simp add: assms(14) service_dispatcher_def)
  have e: "map_of [(''RTS_XNAME'', xname), (''ResetType'', t)] ''ResetType'' = Some t" by simp
  obtain m w' where 1: "reset_system P xname [(''RTS_XNAME'', xname), (''ResetType'', t)] s = (Ret (Inr []), s\<lparr>be_certs := (be_certs s)\<lparr>cs_world := w'\<rparr>, sim_RFEventID := m\<rparr>)"
    "view w' = put_db ?K ''PowerState'' v (view (be_world s))"
    using reset_stores [OF assms(1,2,4,5) e assms(13)] .
  let ?s' = "s\<lparr>be_certs := (be_certs s)\<lparr>cs_world := w'\<rparr>, sim_RFEventID := m\<rparr>"
  have os: "no_scripts (rfd_os rfd)" using assms(3) by (simp add: assms(14) service_dispatcher_def)
  have f: "DoFileHandler rfd ActionOp (reset_uri xname) args env s = (Ret (Inl ErrFileHandlerNoAction), s)" for args env
    using no_file_handler [OF R os, of s "reset_uri xname" ActionOp args env] assms(11) by simp
  obtain xs where ms: "rSMembers (rfd_redis rfd) (reset_uri xname) s = (Ret (Inr xs), s)"
    using redis_server.smembers_ok [OF R, of s "reset_uri xname" "{}"] assms(10) by auto
  have x: "rExists (rfd_redis rfd) (reset_uri xname @ ''/Target'' @ '':ipc'') s = (Ret (Inr 0), s)"
    using redis_server.exists_law [OF R] assms(12) by simp
  have hs: "BackendHelpers rfd = map bo_helper [cert_ops P n, simulator_ops P numCPU n]" by (simp add: assms(14) service_dispatcher_def)
  have "HandleAction rfd ipc (reset_uri xname) (Inr [(''ResetType'', GString t)]) xname s = (Ret (None, None), ?s')"
    using helpers_reset [OF assms(4,6-9) 1(1), of ipc n numCPU] ms f x by (simp add: HandleAction_def go_bind_apply Let_def hs)
  moreover have "view w' (?K @ ''/PowerState'') = Some (RString v)" using 1(2) by (simp add: put_db_def sadd_db_other)
  then have "rGet (rfd_redis rfd) (xname @ ServiceRootKeyspace @ ''/Systems/Self/PowerState'') ?s' = (Ret (Inr v), ?s')"
    using redis_server.get_law [OF R] by simp
  then have "getValueForKey \<lparr> r2s_RFD = rfd, r2s_Resource = resource, r2s_URI = uri, r2s_XName = xname \<rparr>
      (xname @ ServiceRootKeyspace @ ''/Systems/Self/PowerState'') ?s' = (Ret (Inr v), ?s')"
    by (simp add: getValueForKey_def go_bind_apply)
  ultimately show ?thesis by (intro exI conjI)
qed

definition ex_no_os :: "'s os_ops" where
  "ex_no_os = \<lparr> osStat = (\<lambda>_. go_return (Inl (Err ''none''))), osReadFile = (\<lambda>_. go_return (Inl (Err ''none''))),
     osLookPath = (\<lambda>_. go_return (Inl (Err ''none''))), osOutput = (\<lambda>_ _ _. go_return (Inl (Err ''none''))) \<rparr>"

definition ex_chain :: "(mem, string) RFSimulatorHelper RedfishDispatcher" where
  "ex_chain = service_dispatcher ex_platform 1 ''/'' ''rts'' ex_tree ex_no_os (Some (simulator_ops ex_platform 4 1))"

theorem reset_through_dispatcher_witness:
  "\<exists>s'. HandleAction ex_chain ex_ipc (reset_uri ''x1'') (Inr [(''ResetType'', GString ''GracefulShutdown'')]) ''x1''
        (ex_simulator\<lparr>sim_KnownInstances := [''x1'']\<rparr>) = (Ret (None, None), s') \<and>
    getValueForKey \<lparr> r2s_RFD = ex_chain, r2s_Resource = ex_tree, r2s_URI = [], r2s_XName = ''x1'' \<rparr>
      (''x1'' @ ServiceRootKeyspace @ ''/Systems/Self/PowerState'') s' = (Ret (Inr ''Off''), s')"
proof (rule reset_through_dispatcher [where P = ex_platform and view = mem_view and os = ex_no_os and n = 1 and scripts = "''/''" and program = "''rts''" and
      tree = ex_tree and numCPU = 4])
  have v: "mem_view [] k = None" for k by (simp add: mem_view_def mem_get_def)
  let ?s = "ex_simulator\<lparr>sim_KnownInstances := [''x1'']\<rparr>"
  show "redis_server (pf_redis ex_platform) mem_view" using mem_redis_server by (simp add: ex_platform_def)
  show "answering mem_view (pf_services ex_platform)" by (simp add: ex_platform_def answering_def)
  show "no_scripts ex_no_os" by (simp add: no_scripts_def ex_no_os_def)
  show "plain ''x1''" by (simp add: plain_def)
  show "be_pipe ?s = None" "List.member (sim_KnownInstances ?s) ''x1''" "cs_KnownDevices (be_certs ?s) ''x1'' \<noteq> None"
    "plain (cs_BmcID (be_certs ?s))" "plain (cs_CertificateID (be_certs ?s))"
    by (simp_all add: ex_simulator_def ex_service_def plain_def)
  show "mem_view (be_world ?s) (reset_uri ''x1'') = None" "mem_view (be_world ?s) (reset_uri ''x1'' @ ''/Target:handler'') = None"
    "mem_view (be_world ?s) (reset_uri ''x1'' @ ''/Target:ipc'') = None" by (simp_all add: ex_simulator_def ex_service_def v)
  show "reset_state ''GracefulShutdown'' = Some ''Off''" by (simp add: reset_state_def)
  show "ex_chain = service_dispatcher ex_platform 1 ''/'' ''rts'' ex_tree ex_no_os (Some (simulator_ops ex_platform 4 1))" by (rule ex_chain_def)
qed

end
