(* ===== verification/Spec2Isabelle.thy ===== *)
theory Spec2Isabelle
  imports Rf_Crud Schema_Load Pdu_Facts Cloud_Facts Service
begin

text \<open>
  The Redfish translation service, \<open>hms-redfish-translation-layer\<close>: a server that keeps Redfish
  resources in Redis as flat keys and serves them over HTTP, guided by the DMTF schemas.

  \<^bold>\<open>The program.\<close> A request enters \<open>handleRequest\<close> (\<open>cmd/rfdispatcher/rfserver.go\<close>), which resolves
  the URI in the schema tree (\<open>rfschema/walk.go\<close>) with the help of Redis (\<open>GetResource\<close> of
  \<open>dispatcher/rfdispatcher.go\<close>), authenticates the account (\<open>accountservice\<close>) and dispatches on the
  method. The handlers check privileges, validate the body (\<open>rfvalidator.go\<close>), run the hooks of the
  account and schema services, convert between JSON and the keys of Redis
  (\<open>dispatcher/redisstruct.go\<close>), and answer with messages of a registry (\<open>rfmessages.go\<close>). Actions go
  to a file handler, to a process behind a Redis key or to a backend helper. The schema tree is built at
  start-up from the files of the DMTF (\<open>rfschema/parsing.go\<close>, \<open>tree.go\<close>). A backend
  (\<open>backend_helpers\<close>) fills Redis with the resources of the devices behind it, through the routines of
  \<open>common.go\<close> and \<open>certificateservice.go\<close>, and tells other services (HSM, DNS, SLS) of them over HTTP.

  \<^bold>\<open>How effects are modelled.\<close> Code runs in the monad \<open>('w, 'a) go\<close> of \<open>RTS_Prelude\<close>: a function from a
  world to an outcome (\<open>Ret\<close>, \<open>Panic\<close>, \<open>Fatal\<close> for the end of the process, \<open>NoFuel\<close>) and a world. A
  Go error is a value of \<open>go_error\<close>, a fallible result a sum. The world is a parameter. Redis is a
  record of commands over it (\<open>Redis_Interface\<close>); the locale \<open>redis_server\<close> states the laws of the
  commands through a view of the world as a finite map from keys to strings, lists and sets, and is
  interpreted on an in-memory server. What a set lists first is left open by the laws, so the
  theorems hold for every order. Files, programs, backend helpers, bcrypt, regular expressions of
  schemas, what the time and URL packages accept and the clock are parameters as well. A Go map is an association list; the order of the list
  stands for the order of the iteration.

  \<^bold>\<open>Theories.\<close>
  \<^item> \<open>RTS_Prelude\<close>: the monad, loops, invariants of programs (\<open>preserves\<close>, \<open>ensures\<close>). \<open>Go_Lib\<close>:
    strings, numbers, 64-bit floats as the code uses them, dynamically typed values.
  \<^item> \<open>Rf_Schema\<close> (\<open>rfschema.go\<close>, \<open>walk.go\<close>), \<open>Schema_Copy\<close> (\<open>copy.go\<close>), \<open>Schema_Versions\<close>
    (\<open>versions.go\<close>, \<open>configuration.go\<close>), \<open>Schema_Tree\<close> (\<open>tree.go\<close>, \<open>traverse.go\<close>): the schema model,
    resolution of URIs, copying, choosing versions, linking to a tree. Linking works on a heap of
    nodes whose addresses are positions in a list.
  \<^item> \<open>Schema_Refs\<close> (JSON pointers and references), \<open>Schema_Parser\<close> (\<open>parsing.go\<close>), \<open>Schema_Parsed\<close> (what
    the parser guarantees of its resources), \<open>Schema_Load\<close> (\<open>CreateTree\<close> and loading of files).
  \<^item> \<open>Dispatcher\<close>: looking up a resource and running file handlers (\<open>rfdispatcher.go\<close>). \<open>Rf_Actions\<close>:
    actions and the exchange with a process through Redis.
  \<^item> \<open>Redis_Struct_Write\<close>, \<open>Redis_Struct_Read\<close>: the two directions of \<open>redisstruct.go\<close>.
    \<open>Redis_Struct_Spec\<close> is the specification: the flat form of a value. \<open>Redis_Struct_Remove\<close>,
    \<open>Redis_Roundtrip\<close>, \<open>Redis_Struct_Frame\<close>: removal, reading back what was written, frames and the
    effect of a partial update.
  \<^item> \<open>Privilege_Registry\<close>, \<open>Account_Service\<close>, \<open>Account_Lockout\<close>, \<open>Account_Hooks\<close>: privileges and roles,
    accounts on a heap, login and lockout with the periodic tasks as events, the hooks.
  \<^item> \<open>Rf_Validator\<close>, \<open>Rf_Messages\<close>, \<open>Json_Schemas\<close>: validation of bodies, message registries, the
    service of schema files.
  \<^item> \<open>Rf_Server\<close>: hooks and request handlers. \<open>Rf_Answers\<close>: every request is answered. \<open>Rf_Access\<close>:
    requests without credentials or privileges have no effect. \<open>Rf_Effects\<close>: what GET and PATCH may
    change. \<open>Rf_Crud\<close>: what POST, DELETE and PUT do to the database.
  \<^item> \<open>Redis_Helper\<close>, \<open>Redis_Helper_Facts\<close>: the Redis routines of \<open>common.go\<close>, with the pipeline as a
    queue of commands, and their effect on the database. \<open>Backend_Services\<close>: the clients of the HSM, the
    DNS and the event service, also of \<open>common.go\<close>; the locale \<open>hsm_service\<close> states what is relied on.
  \<^item> \<open>Certificate_Service\<close>, \<open>Certificate_Facts\<close>: the certificate service of the backends
    (\<open>certificateservice.go\<close>, \<open>certificate\<close> stores) over the locale \<open>pem_codec\<close>.
  \<^item> \<open>Switch_Backend\<close>, \<open>Switch_Facts\<close>: the SNMP switch backend with its SLS client and credentials, the
    mock backend, and the resources the switch backend publishes.
  \<^item> \<open>Simulator_Backend\<close>, \<open>Simulator_Facts\<close> (\<open>simulator.go\<close>): simulated systems and their resets.
  \<^item> \<open>Pdu_Names\<close>, \<open>Pdu_Data\<close>, \<open>Pdu_Init\<close>, \<open>Pdu_Backend\<close>, \<open>Pdu_Run\<close> (\<open>jaws.go\<close>): the names of outlets and
    words of the JAWS interface, its structures and the writes of their values, the resources of a unit,
    discovery and set-up, and requests for a key. \<open>Pdu_Polling\<close>, \<open>Pdu_Workers\<close> (\<open>jaws_polling.go\<close>,
    \<open>telemetry\<close>): a round of polling with its events, and the workers as a step relation. \<open>Pdu_Facts\<close>: what
    a request for an outlet does, over the locale \<open>redis_timed\<close> of writes that expire.
  \<^item> \<open>Cloud_Backend\<close>, \<open>Cloud_Facts\<close> (\<open>gcloud.go\<close>): virtual machines of a cloud, and what a round of discovery
    leaves behind.
  \<^item> \<open>Service\<close>: every backend behind the interface \<open>BackendHelper\<close>, and a dispatcher over the state of a
    backend, in which its Redis lives; the laws of Redis carry over to it.

  \<^bold>\<open>What is shown.\<close> Conversion and insertion refine the flat form, reading returns what was stored, and
  removal undoes an insertion; no operation leaves its region of the keyspace. Creating and deleting
  are inverse, including the index of the new member in its collection; a PUT replaces exactly the
  resource. A PATCH changes only properties that are known, writable and permitted, apart from the hash
  of a password, which no privilege protects; a GET changes
  nothing; refused requests change nothing but the record of failed logins. A lockout holds for its
  duration and ends after it. The linked schema is a tree, and the walk finds exactly the resources that
  the tree, Redis and the loaded schema files hold. Resources that the parser returns are well formed and can be copied. A
  pipeline has the effect of its commands run one after the other; what a backend registers is listed,
  and removing it takes its whole prefix. Registering a node with the HSM refines an insertion into the
  inventory. A replaced certificate is the one that is served. A switch with an address is described by
  its chassis and manager; one without is skipped. A reset of a simulated system is observed by the next
  read, also when it takes the way through the dispatcher and all of its helpers. The names of outlets translate forth and back, and sort as their numbers below one hundred; a
  request for a value of an outlet returns what the device answers for it. No device is polled twice at
  the same time as long as no worker tests it between the test and the mark of another. A round of the cloud backend ends with exactly the
  machines that the cloud lists. Several theorems describe behaviour that contradicts a comment or the
  Redfish specification; they are listed as findings of the manifest.

  \<^bold>\<open>Fuel.\<close> Removal recurses over what Redis holds; \<open>removal_returns\<close> bounds its depth by the length of
  the keys. Linking may run forever on a schema with a cycle that is not listed as known, so its loop
  takes fuel as well. The references between schema files may be cyclic, so the parser explores them with
  fuel; more fuel never changes a result that was reached. The splitting of PEM blocks takes the length
  of the text as its fuel, which is enough because each block consumes some of it. The fuel of
  \<open>connect_loop\<close> and of \<open>ask_project\<close> counts the attempts of a loop that retries forever, that of \<open>pages\<close> the
  pages of a listing, whose number the cloud decides. All other recursion is structural or has a termination proof; \<open>BuildStruct\<close>
  descends in the schema, \<open>TraverseTree\<close> in the set of undiscovered nodes.

  \<^bold>\<open>Not modelled.\<close> Start-up (\<open>main\<close>, \<open>doRest\<close>, the environment and connections in \<open>NewDispatcher\<close>, \<open>NewSLS\<close>), logging and
  the command line tools.
  The goroutines of the periodic tasks run one after the other and mutexes are left out, except for the
  workers that poll, whose steps interleave. The capacity of the channel of telemetry events is left out.
  Text of a JSON body is represented by the value it encodes.

  \<^bold>\<open>Plan.\<close> Termination of linking and of parsing for acyclic schemas.
\<close>

end
